(* ===== verification/Prelude.thy ===== *)
theory Prelude
  imports Main "HOL-Library.Multiset"
begin

text \<open>
  The vocabulary shared by the components: strings and the tests the code writes as regular
  expressions, JSON values, the parsed URL, HTTP requests and responses, and the functions of the
  JavaScript runtime that the code calls and this development takes as given.

  A JavaScript string is a list of UTF-16 code units. A \<^typ>\<open>string\<close> is a list of
  \<^typ>\<open>char\<close>, each standing for a code unit below 256, so the model covers strings over Latin-1.
  \<open>length\<close> counts code units as \<open>.length\<close> does, and \<open>byte_length\<close> counts UTF-8 bytes as
  \<open>TextEncoder\<close> does: a code unit from 128 on takes two bytes.
\<close>

named_theorems handler_defs \<open>unfolding rules for the small helpers of the request handlers\<close>

section \<open>Strings\<close>

abbreviation unit_of :: "char \<Rightarrow> nat" where
  "unit_of c \<equiv> of_char c"

definition utf8 :: "string \<Rightarrow> nat list" where
  "utf8 s = concat (map (\<lambda>c. if unit_of c < 128 then [unit_of c]
                             else [192 + unit_of c div 64, 128 + unit_of c mod 64]) s)"

definition byte_length :: "string \<Rightarrow> nat" where
  "byte_length s = length (utf8 s)"

lemma utf8_simps [simp]:
  "utf8 [] = []"
  "utf8 (c # s) = (if unit_of c < 128 then [unit_of c]
                   else [192 + unit_of c div 64, 128 + unit_of c mod 64]) @ utf8 s"
  by (simp_all add: utf8_def)

lemma byte_length_simps [simp]:
  "byte_length [] = 0"
  "byte_length (c # s) = (if unit_of c < 128 then 1 else 2) + byte_length s"
  by (simp_all add: byte_length_def)

lemma utf8_append [simp]: "utf8 (s @ t) = utf8 s @ utf8 t"
  by (simp add: utf8_def)

lemma length_le_byte_length: "length s \<le> byte_length s"
  by (induction s) auto

lemma byte_length_ascii: "\<forall>c \<in> set s. unit_of c < 128 \<Longrightarrow> byte_length s = length s"
  by (induction s) auto

lemma byte_length_0_iff [simp]: "byte_length s = 0 \<longleftrightarrow> s = []"
  by (cases s) auto

lemma utf8_bytes: "\<forall>b \<in> set (utf8 s). b < 256"
proof (induction s)
  case (Cons c s)
  have "unit_of c < 256" by (rule nat_of_char_less_256)
  then have "unit_of c div 64 < 4" by (simp add: div_less_iff_less_mult)
  with Cons show ?case by auto
qed simp

lemma utf8_inject: "utf8 s = utf8 t \<Longrightarrow> s = t"
proof (induction s arbitrary: t)
  case Nil
  then show ?case by (cases t) (auto split: if_splits)
next
  case (Cons c s)
  obtain d t' where t: "t = d # t'" using Cons.prems by (cases t) (auto split: if_splits)
  have "unit_of c = unit_of d \<and> utf8 s = utf8 t'"
  proof (cases "unit_of c < 128"; cases "unit_of d < 128")
    assume "\<not> unit_of c < 128" "\<not> unit_of d < 128"
    with Cons.prems t have "unit_of c div 64 = unit_of d div 64" "unit_of c mod 64 = unit_of d mod 64"
      and eq: "utf8 s = utf8 t'" by auto
    then have "unit_of c = unit_of d" by (metis div_mult_mod_eq)
    with eq show ?thesis by simp
  qed (use Cons.prems t in auto)
  then show ?case using Cons.IH [of t'] t by simp
qed

text \<open>Character classes. \<open>between lo hi\<close> is the range of a regular expression's class.\<close>

definition between :: "nat \<Rightarrow> nat \<Rightarrow> char \<Rightarrow> bool" where
  "between lo hi c \<longleftrightarrow> lo \<le> unit_of c \<and> unit_of c \<le> hi"

definition is_digit :: "char \<Rightarrow> bool" where
  "is_digit c \<longleftrightarrow> between 48 57 c"

definition is_alpha :: "char \<Rightarrow> bool" where
  "is_alpha c \<longleftrightarrow> between 65 90 c \<or> between 97 122 c"

definition is_alnum :: "char \<Rightarrow> bool" where
  "is_alnum c \<longleftrightarrow> is_alpha c \<or> is_digit c"

definition is_base64url :: "char \<Rightarrow> bool" where
  "is_base64url c \<longleftrightarrow> is_alnum c \<or> c = CHR ''_'' \<or> c = CHR ''-''"

definition is_safe_id_char :: "char \<Rightarrow> bool" where
  "is_safe_id_char c \<longleftrightarrow> is_alnum c \<or> c \<in> set ''._:-''"

definition is_visible :: "char \<Rightarrow> bool" where
  "is_visible c \<longleftrightarrow> between 33 126 c"

definition is_scope_char :: "char \<Rightarrow> bool" where
  "is_scope_char c \<longleftrightarrow> between 33 33 c \<or> between 35 91 c \<or> between 93 126 c"

lemmas char_class_defs = between_def is_digit_def is_alpha_def is_alnum_def is_base64url_def
  is_safe_id_char_def is_visible_def is_scope_char_def

text \<open>
  \<open>rx_range p lo hi\<close> is the test of a regular expression \<open>/^[p]{lo,hi}$/\<close>, \<open>rx_plus p\<close> the
  test of \<open>/^[p]+$/\<close>.
\<close>

definition rx_range :: "(char \<Rightarrow> bool) \<Rightarrow> nat \<Rightarrow> nat \<Rightarrow> string \<Rightarrow> bool" where
  "rx_range p lo hi s \<longleftrightarrow> lo \<le> length s \<and> length s \<le> hi \<and> list_all p s"

definition rx_plus :: "(char \<Rightarrow> bool) \<Rightarrow> string \<Rightarrow> bool" where
  "rx_plus p s \<longleftrightarrow> s \<noteq> [] \<and> list_all p s"

lemma rx_plus_nonempty: "rx_plus p s \<Longrightarrow> s \<noteq> []"
  by (simp add: rx_plus_def)

lemma rx_range_mono: "rx_range p lo hi s \<Longrightarrow> lo' \<le> lo \<Longrightarrow> hi \<le> hi' \<Longrightarrow> rx_range p lo' hi' s"
  by (simp add: rx_range_def)

subsection \<open>The string methods the code uses\<close>

definition starts_with :: "string \<Rightarrow> string \<Rightarrow> bool" where
  "starts_with s p \<longleftrightarrow> take (length p) s = p"

definition ends_with :: "string \<Rightarrow> string \<Rightarrow> bool" where
  "ends_with s p \<longleftrightarrow> length p \<le> length s \<and> drop (length s - length p) s = p"

fun includes_str :: "string \<Rightarrow> string \<Rightarrow> bool" where
  "includes_str [] p \<longleftrightarrow> p = []"
| "includes_str (c # s) p \<longleftrightarrow> starts_with (c # s) p \<or> includes_str s p"

text \<open>\<open>split\<close> with a separator of one code unit: always at least one piece.\<close>

fun split_on :: "char \<Rightarrow> string \<Rightarrow> string list" where
  "split_on d [] = [[]]"
| "split_on d (c # s) =
     (if c = d then [] # split_on d s
      else (case split_on d s of p # ps \<Rightarrow> (c # p) # ps | [] \<Rightarrow> [[c]]))"

fun join :: "string \<Rightarrow> string list \<Rightarrow> string" where
  "join d [] = []"
| "join d [s] = s"
| "join d (s # t # ss) = s @ d @ join d (t # ss)"

text \<open>White space of \<open>trim\<close> within Latin-1, and ASCII/Latin-1 case folding of \<open>toLowerCase\<close>.\<close>

definition is_space :: "char \<Rightarrow> bool" where
  "is_space c \<longleftrightarrow> between 9 13 c \<or> unit_of c = 32 \<or> unit_of c = 160"

definition trim :: "string \<Rightarrow> string" where
  "trim s = rev (dropWhile is_space (rev (dropWhile is_space s)))"

definition lower_char :: "char \<Rightarrow> char" where
  "lower_char c = (if between 65 90 c \<or> (between 192 222 c \<and> unit_of c \<noteq> 215)
                   then char_of (unit_of c + 32) else c)"

definition to_lower :: "string \<Rightarrow> string" where
  "to_lower s = map lower_char s"

definition hex_digit :: "nat \<Rightarrow> char" where
  "hex_digit n = ''0123456789abcdef'' ! n"

text \<open>Bytes in lower-case hexadecimal, two digits each.\<close>

definition hex_of :: "nat list \<Rightarrow> string" where
  "hex_of bs = concat (map (\<lambda>b. [hex_digit (b div 16), hex_digit (b mod 16)]) bs)"

lemma starts_with_iff: "starts_with s p \<longleftrightarrow> (\<exists>t. s = p @ t)"
  unfolding starts_with_def by (metis append_take_drop_id append_eq_conv_conj)

lemma ends_with_iff: "ends_with s p \<longleftrightarrow> (\<exists>t. s = t @ p)"
proof
  assume "ends_with s p"
  then have "s = take (length s - length p) s @ p"
    unfolding ends_with_def by (metis append_take_drop_id)
  then show "\<exists>t. s = t @ p" by blast
qed (auto simp: ends_with_def)

lemma includes_str_iff: "includes_str s p \<longleftrightarrow> (\<exists>u v. s = u @ p @ v)"
proof (induction s)
  case Nil
  then show ?case by auto
next
  case (Cons c s)
  show ?case
  proof
    assume "includes_str (c # s) p"
    then consider "starts_with (c # s) p" | "includes_str s p" by auto
    then show "\<exists>u v. c # s = u @ p @ v"
    proof cases
      case 1
      then obtain t where "c # s = [] @ p @ t" by (auto simp: starts_with_iff)
      then show ?thesis by blast
    next
      case 2
      then obtain u v where "s = u @ p @ v" using Cons.IH by blast
      then have "c # s = (c # u) @ p @ v" by simp
      then show ?thesis by blast
    qed
  next
    assume "\<exists>u v. c # s = u @ p @ v"
    then obtain u v where uv: "c # s = u @ p @ v" by blast
    show "includes_str (c # s) p"
    proof (cases u)
      case Nil
      with uv have "starts_with (c # s) p" by (simp add: starts_with_iff)
      then show ?thesis by simp
    next
      case (Cons d u')
      with uv have "s = u' @ p @ v" by simp
      then show ?thesis using Cons.IH by auto
    qed
  qed
qed

lemma split_on_not_Nil [simp]: "split_on d s \<noteq> []"
  by (cases s) (auto split: list.splits)

lemma split_on_no_sep: "p \<in> set (split_on d s) \<Longrightarrow> d \<notin> set p"
  by (induction s arbitrary: p) (auto split: if_splits list.splits)

lemma join_Cons: "join d (s # ss) = s @ (if ss = [] then [] else d @ join d ss)"
  by (cases ss) auto

lemma join_split_on: "join [d] (split_on d s) = s"
proof (induction s)
  case (Cons c s)
  obtain p ps where ps: "split_on d s = p # ps" by (cases "split_on d s") auto
  with Cons show ?case by (auto simp: join_Cons split: if_splits)
qed simp

lemma split_on_single: "d \<notin> set s \<Longrightarrow> split_on d s = [s]"
  by (induction s) auto

lemma split_on_append: "d \<notin> set s \<Longrightarrow> split_on d (s @ d # t) = s # split_on d t"
  by (induction s) auto

lemma split_on_join:
  "ss \<noteq> [] \<Longrightarrow> \<forall>s \<in> set ss. d \<notin> set s \<Longrightarrow> split_on d (join [d] ss) = ss"
proof (induction ss rule: induct_list012)
  case (3 s t ss)
  then show ?case by (simp add: split_on_append)
qed (simp_all add: split_on_single)

section \<open>Lists and association lists\<close>

text \<open>A JavaScript \<open>Map\<close> keeps its entries in insertion order: an association list.\<close>

definition map_delete :: "'k \<Rightarrow> ('k \<times> 'v) list \<Rightarrow> ('k \<times> 'v) list" where
  "map_delete k es = filter (\<lambda>e. fst e \<noteq> k) es"

definition map_has :: "'k \<Rightarrow> ('k \<times> 'v) list \<Rightarrow> bool" where
  "map_has k es \<longleftrightarrow> map_of es k \<noteq> None"

text \<open>\<open>Map.set\<close>: in place for a present key, at the end for a new one.\<close>

fun map_set :: "'k \<Rightarrow> 'v \<Rightarrow> ('k \<times> 'v) list \<Rightarrow> ('k \<times> 'v) list" where
  "map_set k v [] = [(k, v)]"
| "map_set k v ((k', v') # es) = (if k' = k then (k, v) # es else (k', v') # map_set k v es)"

abbreviation keys_of :: "('k \<times> 'v) list \<Rightarrow> 'k list" where
  "keys_of es \<equiv> map fst es"

lemma map_of_map_delete [simp]: "map_of (map_delete k es) = (map_of es)(k := None)"
  by (induction es) (auto simp: map_delete_def fun_eq_iff)

lemma map_of_map_set [simp]: "map_of (map_set k v es) = (map_of es)(k \<mapsto> v)"
  by (induction k v es rule: map_set.induct) (auto simp: fun_eq_iff)

lemma set_keys_map_set [simp]: "set (keys_of (map_set k v es)) = insert k (set (keys_of es))"
  by (induction k v es rule: map_set.induct) (auto split: if_splits)

lemma distinct_keys_map_set [simp]:
  "distinct (keys_of es) \<Longrightarrow> distinct (keys_of (map_set k v es))"
proof (induction k v es rule: map_set.induct)
  case (2 k v k' v' es)
  then show ?case using set_keys_map_set [of k v es] by (auto simp del: set_keys_map_set)
qed simp

lemma map_set_new: "k \<notin> set (keys_of es) \<Longrightarrow> map_set k v es = es @ [(k, v)]"
  by (induction es) auto

lemma map_has_iff: "map_has k es \<longleftrightarrow> k \<in> set (keys_of es)"
  by (induction es) (auto simp: map_has_def)

lemma length_map_set: "length (map_set k v es) = (if map_has k es then length es else Suc (length es))"
  by (induction k v es rule: map_set.induct) (auto simp: map_has_def)

lemma map_delete_subset: "set (map_delete k es) \<subseteq> set es"
  by (auto simp: map_delete_def)

lemma map_set_subset: "set (map_set k v es) \<subseteq> insert (k, v) (set es)"
  by (induction k v es rule: map_set.induct) auto

lemma distinct_keys_filter [simp]: "distinct (keys_of es) \<Longrightarrow> distinct (keys_of (filter P es))"
  by (induction es) auto

lemma distinct_keys_map_delete [simp]:
  "distinct (keys_of es) \<Longrightarrow> distinct (keys_of (map_delete k es))"
  by (simp add: map_delete_def)

lemma map_of_filter_distinct:
  "distinct (keys_of es) \<Longrightarrow>
   map_of (filter P es) k = (case map_of es k of None \<Rightarrow> None | Some v \<Rightarrow> if P (k, v) then Some v else None)"
proof (induction es)
  case (Cons e es)
  then show ?case
    by (cases e) (auto split: option.splits simp: map_of_eq_None_iff rev_image_eqI)
qed simp

lemma length_map_delete_less: "map_of es k = Some v \<Longrightarrow> length (map_delete k es) < length es"
  unfolding map_delete_def by (rule length_filter_less [of "(k, v)"]) (auto dest: map_of_SomeD)

text \<open>
  \<open>Array.prototype.sort\<close> with a comparator is a stable sort; \<open>le x y\<close> is the test that the
  comparator does not put \<open>y\<close> before \<open>x\<close>.
\<close>

fun insort_by :: "('a \<Rightarrow> 'a \<Rightarrow> bool) \<Rightarrow> 'a \<Rightarrow> 'a list \<Rightarrow> 'a list" where
  "insort_by le x [] = [x]"
| "insort_by le x (y # ys) = (if le x y then x # y # ys else y # insort_by le x ys)"

definition sort_by :: "('a \<Rightarrow> 'a \<Rightarrow> bool) \<Rightarrow> 'a list \<Rightarrow> 'a list" where
  "sort_by le xs = foldr (insort_by le) xs []"

lemma mset_insort_by [simp]: "mset (insort_by le x xs) = add_mset x (mset xs)"
  by (induction xs) auto

lemma mset_sort_by [simp]: "mset (sort_by le xs) = mset xs"
  by (induction xs) (auto simp: sort_by_def)

lemma set_sort_by [simp]: "set (sort_by le xs) = set xs"
  by (metis mset_sort_by set_mset_mset)

lemma length_sort_by [simp]: "length (sort_by le xs) = length xs"
  by (metis mset_sort_by size_mset)

lemma sorted_wrt_insort_by:
  assumes "\<And>a b. le a b \<or> le b a" and "\<And>a b c. le a b \<Longrightarrow> le b c \<Longrightarrow> le a c"
  shows "sorted_wrt le xs \<Longrightarrow> sorted_wrt le (insort_by le x xs)"
proof (induction xs)
  case (Cons y ys)
  have "set (insort_by le x ys) = insert x (set ys)"
    by (metis mset_insort_by set_mset_add_mset_insert set_mset_mset)
  with Cons assms show ?case by auto
qed simp

lemma sorted_wrt_sort_by:
  assumes "\<And>a b. le a b \<or> le b a" and "\<And>a b c. le a b \<Longrightarrow> le b c \<Longrightarrow> le a c"
  shows "sorted_wrt le (sort_by le xs)"
proof (induction xs)
  case (Cons x xs)
  have "sorted_wrt le (insort_by le x (sort_by le xs))"
    by (rule sorted_wrt_insort_by [rotated 2, OF Cons]) (fact assms)+
  then show ?case by (simp add: sort_by_def)
qed (simp add: sort_by_def)

section \<open>JSON values\<close>

text \<open>
  A value \<open>JSON.parse\<close> can return. A number with an integral value is \<open>JInt\<close>; any other number
  (a fraction, an infinity from an overflowing literal) is \<open>JNonInt\<close> with its printed form. An
  object is the list of its own properties in their own order, each name once.
\<close>

datatype json =
    JNull
  | JBool bool
  | JInt int
  | JNonInt string
  | JStr string
  | JArr "json list"
  | JObj "(string \<times> json) list"

definition max_safe_integer :: int where
  "max_safe_integer = 9007199254740991"

fun is_record :: "json \<Rightarrow> bool" where
  "is_record (JObj ps) = True"
| "is_record v = False"

fun fields_of :: "json \<Rightarrow> (string \<times> json) list" where
  "fields_of (JObj ps) = ps"
| "fields_of v = []"

text \<open>Reading an own property; \<open>None\<close> is \<open>undefined\<close>.\<close>

definition field :: "json \<Rightarrow> string \<Rightarrow> json option" where
  "field v k = map_of (fields_of v) k"

fun is_integer :: "json option \<Rightarrow> bool" where
  "is_integer (Some (JInt i)) = True"
| "is_integer v = False"

fun is_safe_integer :: "json option \<Rightarrow> bool" where
  "is_safe_integer (Some (JInt i)) \<longleftrightarrow> \<bar>i\<bar> \<le> max_safe_integer"
| "is_safe_integer v = False"

fun int_of :: "json option \<Rightarrow> int" where
  "int_of (Some (JInt i)) = i"
| "int_of v = 0"

fun is_string :: "json option \<Rightarrow> bool" where
  "is_string (Some (JStr s)) = True"
| "is_string v = False"

fun str_of :: "json option \<Rightarrow> string" where
  "str_of (Some (JStr s)) = s"
| "str_of v = []"

fun is_array :: "json option \<Rightarrow> bool" where
  "is_array (Some (JArr vs)) = True"
| "is_array v = False"

fun arr_of :: "json option \<Rightarrow> json list" where
  "arr_of (Some (JArr vs)) = vs"
| "arr_of v = []"

fun is_boolean :: "json option \<Rightarrow> bool" where
  "is_boolean (Some (JBool b)) = True"
| "is_boolean v = False"

fun bool_of :: "json option \<Rightarrow> bool" where
  "bool_of (Some (JBool b)) = b"
| "bool_of v = False"

fun string_of :: "json \<Rightarrow> string option" where
  "string_of (JStr s) = Some s"
| "string_of v = None"

definition exact_keys :: "json \<Rightarrow> string list \<Rightarrow> bool" where
  "exact_keys v allowed \<longleftrightarrow>
     length (fields_of v) = length allowed \<and> list_all (\<lambda>k. k \<in> set allowed) (keys_of (fields_of v))"

text \<open>The truth value of a parsed value in a condition; \<open>None\<close> is \<open>undefined\<close>.\<close>

fun json_truthy :: "json option \<Rightarrow> bool" where
  "json_truthy None = False"
| "json_truthy (Some JNull) = False"
| "json_truthy (Some (JBool b)) = b"
| "json_truthy (Some (JInt i)) = (i \<noteq> 0)"
| "json_truthy (Some (JNonInt n)) = True"
| "json_truthy (Some (JStr s)) = (s \<noteq> [])"
| "json_truthy (Some (JArr vs)) = True"
| "json_truthy (Some (JObj ps)) = True"

lemma is_record_iff: "is_record v \<longleftrightarrow> (\<exists>ps. v = JObj ps)"
  by (cases v) auto

lemma field_JObj [simp]: "field (JObj ps) k = map_of ps k"
  by (simp add: field_def)

lemma is_integer_iff: "is_integer v \<longleftrightarrow> (\<exists>i. v = Some (JInt i))"
  by (cases v rule: is_integer.cases) auto

lemma is_string_iff: "is_string v \<longleftrightarrow> (\<exists>s. v = Some (JStr s))"
  by (cases v rule: is_string.cases) auto

lemma is_array_iff: "is_array v \<longleftrightarrow> (\<exists>vs. v = Some (JArr vs))"
  by (cases v rule: is_array.cases) auto

lemma is_boolean_iff: "is_boolean v \<longleftrightarrow> (\<exists>b. v = Some (JBool b))"
  by (cases v rule: is_boolean.cases) auto

lemmas json_type_iffs = is_integer_iff is_string_iff is_array_iff is_boolean_iff

lemma is_safe_integer_iff:
  "is_safe_integer v \<longleftrightarrow> (\<exists>i. v = Some (JInt i) \<and> \<bar>i\<bar> \<le> max_safe_integer)"
  by (cases v rule: is_safe_integer.cases) auto

lemma string_of_eq_Some [simp]: "string_of v = Some s \<longleftrightarrow> v = JStr s"
  by (cases v) auto

section \<open>URLs, requests and responses\<close>

text \<open>
  The properties of a parsed \<open>URL\<close> that the code reads. \<open>u_params\<close> is the list of names and values
  of its \<open>searchParams\<close>.
\<close>

record url =
  u_href :: string
  u_protocol :: string
  u_username :: string
  u_password :: string
  u_hostname :: string
  u_port :: string
  u_pathname :: string
  u_search :: string
  u_hash :: string
  u_origin :: string
  u_params :: "(string \<times> string) list"

definition get_all :: "(string \<times> string) list \<Rightarrow> string \<Rightarrow> string list" where
  "get_all ps name = map snd (filter (\<lambda>p. fst p = name) ps)"

text \<open>A request; header names are in lower case, as \<open>Headers\<close> compares them.\<close>

record request =
  rq_method :: string
  rq_url :: url
  rq_headers :: "(string \<times> string) list"
  rq_body :: string

definition header :: "request \<Rightarrow> string \<Rightarrow> string option" where
  "header r name = map_of (rq_headers r) name"

datatype body = NoBody | JsonBody json | RawBody string

record response =
  rs_status :: nat
  rs_headers :: "(string \<times> string) list"
  rs_body :: body

definition GATEWAY_VERSION :: string where
  "GATEWAY_VERSION = ''0.2.0''"

definition MAX_PUBLIC_REQUEST_BYTES :: nat where
  "MAX_PUBLIC_REQUEST_BYTES = 1048576"

text \<open>The \<open>jsonResponse\<close> and \<open>errorResponse\<close> every gateway module has its copy of.\<close>

definition json_response_with :: "json \<Rightarrow> nat \<Rightarrow> (string \<times> string) list \<Rightarrow> response" where
  "json_response_with v status extra =
     \<lparr>rs_status = status,
      rs_headers =
        map_set ''x-gateway-version'' GATEWAY_VERSION
          (map_set ''cache-control'' ''no-store''
            (map_set ''content-type'' ''application/json; charset=utf-8'' extra)),
      rs_body = JsonBody v\<rparr>"

definition json_response :: "json \<Rightarrow> nat \<Rightarrow> response" where
  "json_response v status = json_response_with v status []"

definition error_body :: "string \<Rightarrow> string \<Rightarrow> json" where
  "error_body code message =
     JObj [(''error'', JObj [(''code'', JStr code), (''message'', JStr message)])]"

definition error_response :: "nat \<Rightarrow> string \<Rightarrow> string \<Rightarrow> response" where
  "error_response status code message = json_response (error_body code message) status"

text \<open>\<open>Response.json\<close> of the platform, and a response without a body.\<close>

definition plain_json :: "json \<Rightarrow> nat \<Rightarrow> response" where
  "plain_json v status =
     \<lparr>rs_status = status, rs_headers = [(''content-type'', ''application/json'')], rs_body = JsonBody v\<rparr>"

definition empty_response :: "nat \<Rightarrow> response" where
  "empty_response status = \<lparr>rs_status = status, rs_headers = [], rs_body = NoBody\<rparr>"

lemma plain_response_simps [simp]:
  "rs_status (plain_json v n) = n" "rs_body (plain_json v n) = JsonBody v"
  "rs_status (empty_response n) = n" "rs_body (empty_response n) = NoBody"
  by (simp_all add: plain_json_def empty_response_def)

lemma rs_status_simps [simp]:
  "rs_status (json_response_with v n h) = n"
  "rs_status (json_response v n) = n"
  "rs_status (error_response n c m) = n"
  by (simp_all add: json_response_with_def json_response_def error_response_def)

lemma rs_body_simps [simp]:
  "rs_body (json_response_with v n h) = JsonBody v"
  "rs_body (json_response v n) = JsonBody v"
  "rs_body (error_response n c m) = JsonBody (error_body c m)"
  by (simp_all add: json_response_with_def json_response_def error_response_def)

section \<open>The runtime\<close>

text \<open>
  What the code calls of its runtime and of the platform, as one record of functions that every
  definition using it takes as an argument: the URL parser (\<open>None\<close> where \<open>new URL\<close> throws), \<open>isIP\<close>,
  \<open>decodeURIComponent\<close>, the form encoding of \<open>URLSearchParams\<close>, \<open>JSON.parse\<close> (\<open>None\<close> where it throws)
  and \<open>JSON.stringify\<close>, \<open>TextDecoder.decode\<close>, \<open>Number\<close> on a string (\<open>None\<close> where the result is not an integer), SHA-256 and
  HMAC-SHA-256 on bytes, and the order of \<open>localeCompare\<close>.
\<close>

record runtime =
  rt_url :: "string \<Rightarrow> url option"
  rt_is_ip :: "string \<Rightarrow> nat"
  rt_decode_uri :: "string \<Rightarrow> string option"
  rt_form_parse :: "string \<Rightarrow> (string \<times> string) list"
  rt_form_text :: "(string \<times> string) list \<Rightarrow> string"
  rt_json_parse :: "string \<Rightarrow> json option"
  rt_json_text :: "json \<Rightarrow> string"
  rt_utf8_decode :: "nat list \<Rightarrow> string"
  rt_number :: "string \<Rightarrow> int option"
  rt_sha256 :: "nat list \<Rightarrow> nat list"
  rt_hmac :: "nat list \<Rightarrow> nat list \<Rightarrow> nat list"
  rt_locale_le :: "string \<Rightarrow> string \<Rightarrow> bool"

text \<open>
  A runtime that knows no URL, parses nothing and hashes to constants: the examples that show a
  statement's hypotheses can hold start from it and set the functions they need.
\<close>

definition null_runtime :: runtime where
  "null_runtime =
     \<lparr>rt_url = (\<lambda>s. None), rt_is_ip = (\<lambda>s. 0), rt_decode_uri = Some, rt_form_parse = (\<lambda>s. []),
      rt_form_text = (\<lambda>ps. []), rt_json_parse = (\<lambda>s. None), rt_json_text = (\<lambda>v. []),
      rt_utf8_decode = map char_of, rt_number = (\<lambda>s. None), rt_sha256 = (\<lambda>bs. replicate 32 0),
      rt_hmac = (\<lambda>k m. replicate 32 0), rt_locale_le = (\<lambda>s t. True)\<rparr>"

text \<open>A request for a path with one bearer token, for the examples.\<close>

definition example_url :: "string \<Rightarrow> url" where
  "example_url path =
     \<lparr>u_href = ''https://gateway.example'' @ path, u_protocol = ''https:'', u_username = [], u_password = [],
      u_hostname = ''gateway.example'', u_port = [], u_pathname = path, u_search = [], u_hash = [],
      u_origin = ''https://gateway.example'', u_params = []\<rparr>"

definition example_request :: "string \<Rightarrow> string \<Rightarrow> string \<Rightarrow> request" where
  "example_request verb path token =
     \<lparr>rq_method = verb, rq_url = example_url path,
      rq_headers = [(''authorization'', ''Bearer '' @ token), (''content-type'', ''application/json'')],
      rq_body = ''{}''\<rparr>"

lemma example_request_simps [simp]:
  "rq_method (example_request verb path token) = verb"
  "rq_url (example_request verb path token) = example_url path"
  "u_pathname (example_url path) = path"
  "rq_body (example_request verb path token) = ''{}''"
  by (simp_all add: example_request_def example_url_def)

text \<open>
  The checks on a request's declared and actual body length, which the handlers share: the
  \<open>content-length\<close> header when there is one, then the bytes of the body.
\<close>

datatype length_check = LengthOk | LengthInvalid | LengthTooLarge

definition check_declared_length :: "runtime \<Rightarrow> request \<Rightarrow> nat \<Rightarrow> length_check" where
  "check_declared_length rt r limit =
     (case header r ''content-length'' of
        None \<Rightarrow> LengthOk
      | Some raw \<Rightarrow>
          (case rt_number rt raw of
             None \<Rightarrow> LengthInvalid
           | Some n \<Rightarrow> if n < 0 then LengthInvalid
                       else if n > int limit then LengthTooLarge else LengthOk))"

definition json_content_type :: "request \<Rightarrow> bool" where
  "json_content_type r \<longleftrightarrow>
     starts_with (case header r ''content-type'' of None \<Rightarrow> [] | Some v \<Rightarrow> to_lower v) ''application/json''"

end
