(* ===== verification/Capabilities.thy ===== *)
theory Capabilities
  imports Prelude
begin

text \<open>
  The task registry (\<open>gateway/src/registry.ts\<close>), the capability registry and its access rule
  (\<open>gateway/src/capabilities.ts\<close>) and the derivation of a capability grant from approved OAuth
  scopes (\<open>gateway/src/oauth-scope-grant.ts\<close>). A registry object is the association list of its own
  properties in insertion order.
\<close>

section \<open>Task policies\<close>

record task_policy =
  tp_queue_kind :: string
  tp_max_payload_bytes :: nat
  tp_min_priority :: int
  tp_max_priority :: int
  tp_max_retries :: int

type_synonym task_registry = "(string \<times> task_policy) list"

definition standard_policy :: "string \<Rightarrow> task_policy" where
  "standard_policy kind =
     \<lparr>tp_queue_kind = kind, tp_max_payload_bytes = 256 * 1024, tp_min_priority = - 1000,
      tp_max_priority = 1000, tp_max_retries = 10\<rparr>"

definition TASK_REGISTRY :: task_registry where
  "TASK_REGISTRY =
     [(''document.process'', standard_policy ''cpu''),
      (''hash.compute'', standard_policy ''cpu''),
      (''vector.dot'', standard_policy ''vector''),
      (''agent.invoke'', standard_policy ''remote-agent''),
      (''workflow.run'', standard_policy ''workflow'')]"

definition get_task_policy :: "task_registry \<Rightarrow> string \<Rightarrow> task_policy option" where
  "get_task_policy registry task_type = map_of registry task_type"

section \<open>Capability descriptors\<close>

definition DISCOVER :: int where "DISCOVER = 0"
definition INSPECT :: int where "INSPECT = 1"
definition REASON :: int where "REASON = 2"
definition EXECUTE :: int where "EXECUTE = 3"
definition ORCHESTRATE :: int where "ORCHESTRATE = 4"
definition DELEGATED_SYSTEM :: int where "DELEGATED_SYSTEM = 5"
definition OPERATOR :: int where "OPERATOR = 6"

definition OBSERVE :: int where "OBSERVE = 0"
definition INVOKE :: int where "INVOKE = 1"
definition COMPOSE :: int where "COMPOSE = 2"
definition MUTATE_SCOPED :: int where "MUTATE_SCOPED = 3"
definition PRIVILEGED_DELEGATED :: int where "PRIVILEGED_DELEGATED = 4"

lemmas level_defs = DISCOVER_def INSPECT_def REASON_def EXECUTE_def ORCHESTRATE_def
  DELEGATED_SYSTEM_def OPERATOR_def OBSERVE_def INVOKE_def COMPOSE_def MUTATE_SCOPED_def
  PRIVILEGED_DELEGATED_def

definition CAPABILITY_DEPTH :: "(string \<times> int) list" where
  "CAPABILITY_DEPTH =
     [(''DISCOVER'', DISCOVER), (''INSPECT'', INSPECT), (''REASON'', REASON),
      (''EXECUTE'', EXECUTE), (''ORCHESTRATE'', ORCHESTRATE),
      (''DELEGATED_SYSTEM'', DELEGATED_SYSTEM), (''OPERATOR'', OPERATOR)]"

definition CAPABILITY_AUTHORITY :: "(string \<times> int) list" where
  "CAPABILITY_AUTHORITY =
     [(''OBSERVE'', OBSERVE), (''INVOKE'', INVOKE), (''COMPOSE'', COMPOSE),
      (''MUTATE_SCOPED'', MUTATE_SCOPED), (''PRIVILEGED_DELEGATED'', PRIVILEGED_DELEGATED)]"

datatype capability_kind = Surface | Task | Workflow | Operator

record capability_descriptor =
  cd_name :: string
  cd_kind :: capability_kind
  cd_provider :: string
  cd_description :: string
  cd_min_depth :: int
  cd_min_authority :: int
  cd_required_scopes :: "string list"
  cd_publicly_discoverable :: bool
  cd_mutates_state :: bool
  cd_cancellable :: bool
  cd_durable :: bool
  cd_route :: "string option"
  cd_method :: "string option"
  cd_queue_kind :: "string option"

type_synonym capability_registry = "(string \<times> capability_descriptor) list"

record capability_grant =
  gr_depth :: int
  gr_authority :: int
  gr_scopes :: "string list"

datatype blocker = BlockedByDepth | BlockedByAuthority | BlockedByScope

record capability_decision =
  dc_allowed :: bool
  dc_blocked_by :: "blocker list"

record capability_projection =
  cp_name :: string
  cp_kind :: capability_kind
  cp_provider :: string
  cp_description :: string
  cp_min_depth :: int
  cp_min_authority :: int
  cp_required_scopes :: "string list"
  cp_accessible :: bool
  cp_blocked_by :: "blocker list"
  cp_mutates_state :: bool
  cp_cancellable :: bool
  cp_durable :: bool
  cp_route :: "string option"
  cp_method :: "string option"
  cp_queue_kind :: "string option"

definition SYSTEM_CAPABILITIES :: capability_registry where
  "SYSTEM_CAPABILITIES =
    [
      (''system.health'',
       \<lparr>cd_name = ''system.health'', cd_kind = Surface, cd_provider = ''bun-gateway'',
        cd_description = ''Read gateway liveness without touching queue state.'',
        cd_min_depth = DISCOVER, cd_min_authority = OBSERVE,
        cd_required_scopes = [], cd_publicly_discoverable = True,
        cd_mutates_state = False, cd_cancellable = False, cd_durable = False,
        cd_route = Some ''/healthz'', cd_method = Some ''GET'', cd_queue_kind = None\<rparr>),
      (''system.readiness'',
       \<lparr>cd_name = ''system.readiness'', cd_kind = Surface, cd_provider = ''bun-gateway'',
        cd_description = ''Read gateway and queue readiness.'',
        cd_min_depth = DISCOVER, cd_min_authority = OBSERVE,
        cd_required_scopes = [], cd_publicly_discoverable = True,
        cd_mutates_state = False, cd_cancellable = False, cd_durable = False,
        cd_route = Some ''/readyz'', cd_method = Some ''GET'', cd_queue_kind = None\<rparr>),
      (''system.capabilities'',
       \<lparr>cd_name = ''system.capabilities'', cd_kind = Surface, cd_provider = ''bun-gateway'',
        cd_description = ''Read the machine-readable capability inventory and access requirements.'',
        cd_min_depth = DISCOVER, cd_min_authority = OBSERVE,
        cd_required_scopes = [''capability.read''], cd_publicly_discoverable = True,
        cd_mutates_state = False, cd_cancellable = False, cd_durable = False,
        cd_route = Some ''/v1/capabilities'', cd_method = Some ''GET'', cd_queue_kind = None\<rparr>)]"

definition TASK_SURFACE_CAPABILITIES :: capability_registry where
  "TASK_SURFACE_CAPABILITIES =
    [
      (''task.inspect'',
       \<lparr>cd_name = ''task.inspect'', cd_kind = Surface, cd_provider = ''bun-gateway'',
        cd_description = ''Read a public task state projection.'',
        cd_min_depth = INSPECT, cd_min_authority = OBSERVE,
        cd_required_scopes = [''task.read''], cd_publicly_discoverable = True,
        cd_mutates_state = False, cd_cancellable = False, cd_durable = True,
        cd_route = Some ''/v1/tasks/:id'', cd_method = Some ''GET'', cd_queue_kind = None\<rparr>),
      (''task.submit'',
       \<lparr>cd_name = ''task.submit'', cd_kind = Surface, cd_provider = ''bun-gateway'',
        cd_description = ''Submit an allowlisted task through the public task facade.'',
        cd_min_depth = EXECUTE, cd_min_authority = INVOKE,
        cd_required_scopes = [''task.invoke''], cd_publicly_discoverable = True,
        cd_mutates_state = True, cd_cancellable = False, cd_durable = True,
        cd_route = Some ''/v1/tasks'', cd_method = Some ''POST'', cd_queue_kind = None\<rparr>)]"

definition WORKFLOW_CAPABILITIES :: capability_registry where
  "WORKFLOW_CAPABILITIES =
    [
      (''workflow.inspect'',
       \<lparr>cd_name = ''workflow.inspect'', cd_kind = Workflow, cd_provider = ''bun-gateway'',
        cd_description = ''Read a workflow state projection.'',
        cd_min_depth = INSPECT, cd_min_authority = OBSERVE,
        cd_required_scopes = [''workflow.read''], cd_publicly_discoverable = True,
        cd_mutates_state = False, cd_cancellable = False, cd_durable = True,
        cd_route = Some ''/v1/workflows/:id'', cd_method = Some ''GET'', cd_queue_kind = None\<rparr>),
      (''workflow.result'',
       \<lparr>cd_name = ''workflow.result'', cd_kind = Workflow, cd_provider = ''bun-gateway'',
        cd_description = ''Read declared workflow outputs after completion.'',
        cd_min_depth = INSPECT, cd_min_authority = OBSERVE,
        cd_required_scopes = [''workflow.read''], cd_publicly_discoverable = True,
        cd_mutates_state = False, cd_cancellable = False, cd_durable = True,
        cd_route = Some ''/v1/workflows/:id/result'', cd_method = Some ''GET'', cd_queue_kind = None\<rparr>),
      (''workflow.cancel'',
       \<lparr>cd_name = ''workflow.cancel'', cd_kind = Workflow, cd_provider = ''bun-gateway'',
        cd_description = ''Trigger the fenced workflow cancellation chain.'',
        cd_min_depth = EXECUTE, cd_min_authority = INVOKE,
        cd_required_scopes = [''workflow.cancel''], cd_publicly_discoverable = True,
        cd_mutates_state = True, cd_cancellable = False, cd_durable = True,
        cd_route = Some ''/v1/workflows/:id/cancel'', cd_method = Some ''POST'', cd_queue_kind = None\<rparr>),
      (''workflow.submit'',
       \<lparr>cd_name = ''workflow.submit'', cd_kind = Workflow, cd_provider = ''bun-gateway'',
        cd_description = ''Compose and submit a bounded workflow through workflow.run.'',
        cd_min_depth = ORCHESTRATE, cd_min_authority = COMPOSE,
        cd_required_scopes = [''workflow.compose''], cd_publicly_discoverable = True,
        cd_mutates_state = True, cd_cancellable = True, cd_durable = True,
        cd_route = Some ''/v1/workflows'', cd_method = Some ''POST'', cd_queue_kind = None\<rparr>)]"

definition FILESYSTEM_CAPABILITIES :: capability_registry where
  "FILESYSTEM_CAPABILITIES =
    [
      (''filesystem.list'',
       \<lparr>cd_name = ''filesystem.list'', cd_kind = Surface, cd_provider = ''bun-filesystem'',
        cd_description = ''List one directory inside the server-configured delegated filesystem root.'',
        cd_min_depth = DELEGATED_SYSTEM, cd_min_authority = OBSERVE,
        cd_required_scopes = [''filesystem.inspect''], cd_publicly_discoverable = True,
        cd_mutates_state = False, cd_cancellable = False, cd_durable = False,
        cd_route = Some ''/v1/filesystem/list'', cd_method = Some ''POST'', cd_queue_kind = None\<rparr>),
      (''filesystem.stat'',
       \<lparr>cd_name = ''filesystem.stat'', cd_kind = Surface, cd_provider = ''bun-filesystem'',
        cd_description = ''Inspect metadata for one path inside the server-configured delegated filesystem root.'',
        cd_min_depth = DELEGATED_SYSTEM, cd_min_authority = OBSERVE,
        cd_required_scopes = [''filesystem.inspect''], cd_publicly_discoverable = True,
        cd_mutates_state = False, cd_cancellable = False, cd_durable = False,
        cd_route = Some ''/v1/filesystem/stat'', cd_method = Some ''POST'', cd_queue_kind = None\<rparr>),
      (''filesystem.read'',
       \<lparr>cd_name = ''filesystem.read'', cd_kind = Surface, cd_provider = ''bun-filesystem'',
        cd_description = ''Read a bounded UTF-8 text file inside the server-configured delegated filesystem root.'',
        cd_min_depth = DELEGATED_SYSTEM, cd_min_authority = OBSERVE,
        cd_required_scopes = [''filesystem.read''], cd_publicly_discoverable = True,
        cd_mutates_state = False, cd_cancellable = False, cd_durable = False,
        cd_route = Some ''/v1/filesystem/read'', cd_method = Some ''POST'', cd_queue_kind = None\<rparr>),
      (''filesystem.write'',
       \<lparr>cd_name = ''filesystem.write'', cd_kind = Surface, cd_provider = ''rust-fs-mutator'',
        cd_description = ''Atomically replace one bounded UTF-8 file inside the server-configured delegated filesystem root through the Rust fd-relative mutation boundary.'',
        cd_min_depth = DELEGATED_SYSTEM, cd_min_authority = MUTATE_SCOPED,
        cd_required_scopes = [''filesystem.write''], cd_publicly_discoverable = True,
        cd_mutates_state = True, cd_cancellable = False, cd_durable = True,
        cd_route = Some ''/v1/filesystem/write'', cd_method = Some ''POST'', cd_queue_kind = None\<rparr>),
      (''filesystem.mkdir'',
       \<lparr>cd_name = ''filesystem.mkdir'', cd_kind = Surface, cd_provider = ''rust-fs-mutator'',
        cd_description = ''Create one directory inside the server-configured delegated filesystem root through the Rust fd-relative mutation boundary.'',
        cd_min_depth = DELEGATED_SYSTEM, cd_min_authority = MUTATE_SCOPED,
        cd_required_scopes = [''filesystem.mkdir''], cd_publicly_discoverable = True,
        cd_mutates_state = True, cd_cancellable = False, cd_durable = True,
        cd_route = Some ''/v1/filesystem/mkdir'', cd_method = Some ''POST'', cd_queue_kind = None\<rparr>)]"

definition GIT_CAPABILITIES :: capability_registry where
  "GIT_CAPABILITIES =
    [
      (''git.head'',
       \<lparr>cd_name = ''git.head'', cd_kind = Surface, cd_provider = ''git-cli-metadata'',
        cd_description = ''Read the current HEAD commit and symbolic branch from one server-configured Git repository without inspecting working-tree contents.'',
        cd_min_depth = DELEGATED_SYSTEM, cd_min_authority = OBSERVE,
        cd_required_scopes = [''git.inspect''], cd_publicly_discoverable = True,
        cd_mutates_state = False, cd_cancellable = False, cd_durable = False,
        cd_route = Some ''/v1/git/head'', cd_method = Some ''GET'', cd_queue_kind = None\<rparr>),
      (''git.log'',
       \<lparr>cd_name = ''git.log'', cd_kind = Surface, cd_provider = ''git-cli-metadata'',
        cd_description = ''Read a bounded commit-id, timestamp, and parent projection from one server-configured Git repository.'',
        cd_min_depth = DELEGATED_SYSTEM, cd_min_authority = OBSERVE,
        cd_required_scopes = [''git.inspect''], cd_publicly_discoverable = True,
        cd_mutates_state = False, cd_cancellable = False, cd_durable = False,
        cd_route = Some ''/v1/git/log'', cd_method = Some ''GET'', cd_queue_kind = None\<rparr>),
      (''git.refs'',
       \<lparr>cd_name = ''git.refs'', cd_kind = Surface, cd_provider = ''git-cli-metadata'',
        cd_description = ''Read a bounded local branch and tag reference projection from one server-configured Git repository.'',
        cd_min_depth = DELEGATED_SYSTEM, cd_min_authority = OBSERVE,
        cd_required_scopes = [''git.inspect''], cd_publicly_discoverable = True,
        cd_mutates_state = False, cd_cancellable = False, cd_durable = False,
        cd_route = Some ''/v1/git/refs'', cd_method = Some ''GET'', cd_queue_kind = None\<rparr>)]"

definition TASK_CAPABILITIES :: capability_registry where
  "TASK_CAPABILITIES =
    [
      (''document.process'',
       \<lparr>cd_name = ''document.process'', cd_kind = Task, cd_provider = ''worker:cpu'',
        cd_description = ''Execute the registered document processing task on an exact cpu capability.'',
        cd_min_depth = EXECUTE, cd_min_authority = INVOKE,
        cd_required_scopes = [''task:document.process''], cd_publicly_discoverable = True,
        cd_mutates_state = True, cd_cancellable = True, cd_durable = True,
        cd_route = None, cd_method = None, cd_queue_kind = Some ''cpu''\<rparr>),
      (''hash.compute'',
       \<lparr>cd_name = ''hash.compute'', cd_kind = Task, cd_provider = ''worker:cpu'',
        cd_description = ''Compute a registered hash task on an exact cpu capability.'',
        cd_min_depth = EXECUTE, cd_min_authority = INVOKE,
        cd_required_scopes = [''task:hash.compute''], cd_publicly_discoverable = True,
        cd_mutates_state = True, cd_cancellable = True, cd_durable = True,
        cd_route = None, cd_method = None, cd_queue_kind = Some ''cpu''\<rparr>),
      (''vector.dot'',
       \<lparr>cd_name = ''vector.dot'', cd_kind = Task, cd_provider = ''worker:vector'',
        cd_description = ''Execute the registered vector dot-product specialist task.'',
        cd_min_depth = EXECUTE, cd_min_authority = INVOKE,
        cd_required_scopes = [''task:vector.dot''], cd_publicly_discoverable = True,
        cd_mutates_state = True, cd_cancellable = True, cd_durable = True,
        cd_route = None, cd_method = None, cd_queue_kind = Some ''vector''\<rparr>),
      (''agent.invoke'',
       \<lparr>cd_name = ''agent.invoke'', cd_kind = Task, cd_provider = ''worker:remote-agent'',
        cd_description = ''Delegate a registered invocation to the remote-agent specialist when that worker is enabled.'',
        cd_min_depth = DELEGATED_SYSTEM, cd_min_authority = MUTATE_SCOPED,
        cd_required_scopes = [''task:agent.invoke''], cd_publicly_discoverable = True,
        cd_mutates_state = True, cd_cancellable = True, cd_durable = True,
        cd_route = None, cd_method = None, cd_queue_kind = Some ''remote-agent''\<rparr>),
      (''workflow.run'',
       \<lparr>cd_name = ''workflow.run'', cd_kind = Task, cd_provider = ''worker:workflow'',
        cd_description = ''Execute the internal registered workflow orchestration task.'',
        cd_min_depth = ORCHESTRATE, cd_min_authority = COMPOSE,
        cd_required_scopes = [''task:workflow.run''], cd_publicly_discoverable = True,
        cd_mutates_state = True, cd_cancellable = True, cd_durable = True,
        cd_route = None, cd_method = None, cd_queue_kind = Some ''workflow''\<rparr>)]"

definition CAPABILITY_REGISTRY :: capability_registry where
  "CAPABILITY_REGISTRY =
     SYSTEM_CAPABILITIES @ TASK_SURFACE_CAPABILITIES @ WORKFLOW_CAPABILITIES
     @ FILESYSTEM_CAPABILITIES @ GIT_CAPABILITIES @ TASK_CAPABILITIES"

lemmas registry_defs = CAPABILITY_REGISTRY_def SYSTEM_CAPABILITIES_def TASK_SURFACE_CAPABILITIES_def
  WORKFLOW_CAPABILITIES_def FILESYSTEM_CAPABILITIES_def GIT_CAPABILITIES_def TASK_CAPABILITIES_def

definition LEGACY_COMPAT_GRANT :: capability_grant where
  "LEGACY_COMPAT_GRANT =
     \<lparr>gr_depth = OPERATOR, gr_authority = PRIVILEGED_DELEGATED, gr_scopes = [''*'']\<rparr>"

definition get_capability :: "capability_registry \<Rightarrow> string \<Rightarrow> capability_descriptor option" where
  "get_capability registry name = map_of registry name"

section \<open>The access rule\<close>

definition scope_matches :: "string \<Rightarrow> string \<Rightarrow> bool" where
  "scope_matches granted required \<longleftrightarrow>
     (if granted = ''*'' then True
      else if granted = required then True
      else if \<not> ends_with granted ''.*'' then False
      else (let prefix = butlast granted
            in starts_with required prefix \<and> length required > length prefix))"

definition has_required_scopes :: "string list \<Rightarrow> string list \<Rightarrow> bool" where
  "has_required_scopes granted_scopes required_scopes \<longleftrightarrow>
     list_all (\<lambda>required. list_ex (\<lambda>granted. scope_matches granted required) granted_scopes)
       required_scopes"

definition evaluate_capability_grant ::
  "capability_grant \<Rightarrow> capability_descriptor \<Rightarrow> capability_decision" where
  "evaluate_capability_grant grant d =
     (let blocked =
        (if gr_depth grant < cd_min_depth d then [BlockedByDepth] else [])
        @ (if gr_authority grant < cd_min_authority d then [BlockedByAuthority] else [])
        @ (if has_required_scopes (gr_scopes grant) (cd_required_scopes d) then []
           else [BlockedByScope])
      in \<lparr>dc_allowed = (blocked = []), dc_blocked_by = blocked\<rparr>)"

text \<open>\<open>...(value ? {name: value} : {})\<close> keeps a property whose value is a non-empty string.\<close>

definition truthy :: "string option \<Rightarrow> string option" where
  "truthy v = (case v of Some s \<Rightarrow> if s = [] then None else Some s | None \<Rightarrow> None)"

definition project_descriptor ::
  "capability_grant \<Rightarrow> capability_descriptor \<Rightarrow> capability_projection" where
  "project_descriptor grant d =
     (let decision = evaluate_capability_grant grant d
      in \<lparr>cp_name = cd_name d, cp_kind = cd_kind d, cp_provider = cd_provider d,
          cp_description = cd_description d, cp_min_depth = cd_min_depth d,
          cp_min_authority = cd_min_authority d, cp_required_scopes = cd_required_scopes d,
          cp_accessible = dc_allowed decision, cp_blocked_by = dc_blocked_by decision,
          cp_mutates_state = cd_mutates_state d, cp_cancellable = cd_cancellable d,
          cp_durable = cd_durable d, cp_route = truthy (cd_route d),
          cp_method = truthy (cd_method d), cp_queue_kind = truthy (cd_queue_kind d)\<rparr>)"

definition project_capability_catalog ::
  "runtime \<Rightarrow> capability_registry \<Rightarrow> capability_grant \<Rightarrow> capability_projection list" where
  "project_capability_catalog rt registry grant =
     map (project_descriptor grant)
       (sort_by (\<lambda>l r. rt_locale_le rt (cd_name l) (cd_name r))
         (filter cd_publicly_discoverable (map snd registry)))"

definition task_coverage_errors ::
  "capability_registry \<Rightarrow> string \<times> task_policy \<Rightarrow> string list" where
  "task_coverage_errors capabilities t =
     (case get_capability capabilities (fst t) of
        None \<Rightarrow> [fst t @ '': missing capability descriptor'']
      | Some d \<Rightarrow>
          (if cd_kind d \<noteq> Task then [fst t @ '': descriptor kind must be task''] else [])
          @ (if cd_queue_kind d \<noteq> Some (tp_queue_kind (snd t))
             then [fst t @ '': queue kind mismatch (''
                   @ (case cd_queue_kind d of None \<Rightarrow> ''undefined'' | Some k \<Rightarrow> k)
                   @ '' != '' @ tp_queue_kind (snd t) @ '')'']
             else []))"

definition validate_task_capability_coverage ::
  "task_registry \<Rightarrow> capability_registry \<Rightarrow> string list" where
  "validate_task_capability_coverage tasks capabilities =
     concat (map (task_coverage_errors capabilities) tasks)"

subsection \<open>What the access rule promises\<close>

lemma scope_matches_iff:
  "scope_matches granted required \<longleftrightarrow>
     granted = ''*'' \<or> granted = required
     \<or> (\<exists>p rest. granted = p @ ''.*'' \<and> rest \<noteq> [] \<and> required = p @ ''.'' @ rest)"
proof (cases "ends_with granted ''.*''")
  case True
  then obtain p where p: "granted = p @ ''.*''" by (auto simp: ends_with_iff)
  then have "butlast granted = p @ ''.''" by (simp add: butlast_append)
  then have "scope_matches granted required \<longleftrightarrow>
      granted = ''*'' \<or> granted = required \<or> (\<exists>rest. rest \<noteq> [] \<and> required = p @ ''.'' @ rest)"
    using True by (auto simp: scope_matches_def starts_with_iff Let_def)
  then show ?thesis using p by simp
next
  case False
  then show ?thesis by (auto simp: scope_matches_def ends_with_iff)
qed

lemma scope_matches_refl [simp]: "scope_matches s s"
  by (simp add: scope_matches_def)

lemma scope_matches_star [simp]: "scope_matches ''*'' s"
  by (simp add: scope_matches_def)

lemma scope_matches_exact:
  "granted \<noteq> ''*'' \<Longrightarrow> \<not> ends_with granted ''.*'' \<Longrightarrow> scope_matches granted required \<longleftrightarrow> granted = required"
  by (simp add: scope_matches_def)

lemma has_required_scopes_iff:
  "has_required_scopes gs rs \<longleftrightarrow> (\<forall>r \<in> set rs. \<exists>g \<in> set gs. scope_matches g r)"
  by (simp add: has_required_scopes_def list_all_iff list_ex_iff)

lemma evaluate_allowed_iff:
  "dc_allowed (evaluate_capability_grant g d) \<longleftrightarrow>
     cd_min_depth d \<le> gr_depth g \<and> cd_min_authority d \<le> gr_authority g
     \<and> has_required_scopes (gr_scopes g) (cd_required_scopes d)"
  by (auto simp: evaluate_capability_grant_def Let_def)

lemma evaluate_blocked_by:
  "BlockedByDepth \<in> set (dc_blocked_by (evaluate_capability_grant g d)) \<longleftrightarrow> gr_depth g < cd_min_depth d"
  "BlockedByAuthority \<in> set (dc_blocked_by (evaluate_capability_grant g d))
     \<longleftrightarrow> gr_authority g < cd_min_authority d"
  "BlockedByScope \<in> set (dc_blocked_by (evaluate_capability_grant g d))
     \<longleftrightarrow> \<not> has_required_scopes (gr_scopes g) (cd_required_scopes d)"
  by (auto simp: evaluate_capability_grant_def Let_def)

lemma legacy_grant_has_scopes [simp]: "has_required_scopes (gr_scopes LEGACY_COMPAT_GRANT) rs"
  by (simp add: has_required_scopes_iff LEGACY_COMPAT_GRANT_def)

section \<open>Grants derived from OAuth scopes\<close>

datatype scope_grant_error = EmptyScope | WildcardScope string | UnmappedScope string

definition matching_descriptors :: "capability_registry \<Rightarrow> string \<Rightarrow> capability_descriptor list" where
  "matching_descriptors registry scope =
     filter (\<lambda>d. scope \<in> set (cd_required_scopes d)) (map snd registry)"

fun raise_levels :: "capability_descriptor list \<Rightarrow> int \<Rightarrow> int \<Rightarrow> int \<times> int" where
  "raise_levels [] depth authority = (depth, authority)"
| "raise_levels (d # ds) depth authority =
     raise_levels ds
       (if cd_min_depth d > depth then cd_min_depth d else depth)
       (if cd_min_authority d > authority then cd_min_authority d else authority)"

fun derive_levels ::
  "capability_registry \<Rightarrow> string list \<Rightarrow> string set \<Rightarrow> int \<Rightarrow> int \<Rightarrow> scope_grant_error + int \<times> int" where
  "derive_levels registry [] seen depth authority = Inr (depth, authority)"
| "derive_levels registry (scope # scopes) seen depth authority =
     (if scope \<in> seen then Inl (UnmappedScope scope)
      else if scope = ''*'' \<or> ends_with scope ''.*'' then Inl (WildcardScope scope)
      else (let matching = matching_descriptors registry scope in
            if matching = [] then Inl (UnmappedScope scope)
            else (let levels = raise_levels matching depth authority
                  in derive_levels registry scopes (insert scope seen) (fst levels) (snd levels))))"

definition derive_oauth_capability_grant ::
  "string list \<Rightarrow> capability_registry \<Rightarrow> scope_grant_error + capability_grant" where
  "derive_oauth_capability_grant scopes registry =
     (if scopes = [] then Inl EmptyScope
      else (case derive_levels registry scopes {} DISCOVER OBSERVE of
              Inl e \<Rightarrow> Inl e
            | Inr (depth, authority) \<Rightarrow>
                Inr \<lparr>gr_depth = depth, gr_authority = authority, gr_scopes = scopes\<rparr>))"

lemma raise_levels_bounds:
  "raise_levels ds d a = (d', a') \<Longrightarrow>
     d \<le> d' \<and> a \<le> a' \<and> (\<forall>x \<in> set ds. cd_min_depth x \<le> d' \<and> cd_min_authority x \<le> a')"
  by (induction ds d a rule: raise_levels.induct) (force split: if_splits)+

lemma raise_levels_attained:
  "raise_levels ds d a = (d', a') \<Longrightarrow>
     (d' = d \<or> (\<exists>x \<in> set ds. cd_min_depth x = d')) \<and> (a' = a \<or> (\<exists>x \<in> set ds. cd_min_authority x = a'))"
  by (induction ds d a rule: raise_levels.induct) (force split: if_splits)+

lemma derive_levels_ConsE:
  assumes "derive_levels reg (s # ss) seen d a = Inr lv"
  obtains e b where "raise_levels (matching_descriptors reg s) d a = (e, b)"
    "derive_levels reg ss (insert s seen) e b = Inr lv" "s \<notin> seen" "s \<noteq> ''*''"
    "\<not> ends_with s ''.*''" "matching_descriptors reg s \<noteq> []"
proof -
  obtain e b where "raise_levels (matching_descriptors reg s) d a = (e, b)"
    by (cases "raise_levels (matching_descriptors reg s) d a")
  with assms show thesis by (auto simp: Let_def split: if_splits intro!: that)
qed

lemma derive_levels_ok:
  assumes "derive_levels reg scopes seen d a = Inr lv"
  shows "distinct scopes \<and> set scopes \<inter> seen = {}
    \<and> (\<forall>s \<in> set scopes. s \<noteq> ''*'' \<and> \<not> ends_with s ''.*'' \<and> matching_descriptors reg s \<noteq> [])"
  using assms
proof (induction scopes arbitrary: seen d a)
  case (Cons s ss)
  from Cons.prems show ?case
    by (rule derive_levels_ConsE) (use Cons.IH in fastforce)
qed simp

lemma derive_levels_bounds:
  assumes "derive_levels reg scopes seen d a = Inr (d', a')"
  shows "d \<le> d' \<and> a \<le> a' \<and>
    (\<forall>s \<in> set scopes. \<forall>x \<in> set (matching_descriptors reg s). cd_min_depth x \<le> d' \<and> cd_min_authority x \<le> a')"
  using assms
proof (induction scopes arbitrary: seen d a)
  case (Cons s ss)
  from Cons.prems show ?case
  proof (rule derive_levels_ConsE)
    fix e b
    assume "raise_levels (matching_descriptors reg s) d a = (e, b)"
      and "derive_levels reg ss (insert s seen) e b = Inr (d', a')"
    with Cons.IH raise_levels_bounds show ?thesis by (fastforce dest: order.trans)
  qed
qed simp

lemma derive_levels_attained:
  assumes "derive_levels reg scopes seen d a = Inr (d', a')"
  shows "(d' = d \<or> (\<exists>s \<in> set scopes. \<exists>x \<in> set (matching_descriptors reg s). cd_min_depth x = d'))
    \<and> (a' = a \<or> (\<exists>s \<in> set scopes. \<exists>x \<in> set (matching_descriptors reg s). cd_min_authority x = a'))"
  using assms
proof (induction scopes arbitrary: seen d a)
  case (Cons s ss)
  from Cons.prems show ?case
  proof (rule derive_levels_ConsE)
    fix e b
    assume lv: "raise_levels (matching_descriptors reg s) d a = (e, b)"
      and rest: "derive_levels reg ss (insert s seen) e b = Inr (d', a')"
    from Cons.IH [OF rest] raise_levels_attained [OF lv] show ?thesis by auto
  qed
qed simp

lemma derive_levels_total:
  "distinct scopes \<Longrightarrow> set scopes \<inter> seen = {} \<Longrightarrow>
   \<forall>s \<in> set scopes. s \<noteq> ''*'' \<and> \<not> ends_with s ''.*'' \<and> matching_descriptors reg s \<noteq> [] \<Longrightarrow>
   \<exists>lv. derive_levels reg scopes seen d a = Inr lv"
proof (induction scopes arbitrary: seen d a)
  case (Cons s ss)
  then show ?case by (auto simp: Let_def)
qed simp

lemma derive_grant_InrD:
  assumes "derive_oauth_capability_grant scopes reg = Inr g"
  obtains "scopes \<noteq> []" "gr_scopes g = scopes"
    "derive_levels reg scopes {} DISCOVER OBSERVE = Inr (gr_depth g, gr_authority g)"
  using assms
  by (auto simp: derive_oauth_capability_grant_def split: if_splits sum.splits)

lemma matching_descriptors_iff:
  "d \<in> set (matching_descriptors reg s) \<longleftrightarrow> (\<exists>n. (n, d) \<in> set reg) \<and> s \<in> set (cd_required_scopes d)"
  by (force simp: matching_descriptors_def)

section \<open>Properties\<close>

text \<open>
  C32. A grant derived from approved OAuth scopes carries exactly those scopes, pairwise distinct
  and without a wildcard, and opens exactly the capabilities whose required scopes were all
  approved: a capability with at least one required scope is allowed under the grant if and only if
  each of its required scopes is among the approved ones. Nothing is said of a capability that requires no scope.
\<close>

theorem derived_grant_exact:
  assumes "derive_oauth_capability_grant scopes reg = Inr g"
  shows "gr_scopes g = scopes \<and> distinct scopes
    \<and> (\<forall>s \<in> set scopes. s \<noteq> ''*'' \<and> \<not> ends_with s ''.*'')
    \<and> (\<forall>d \<in> snd ` set reg. cd_required_scopes d \<noteq> [] \<longrightarrow>
          (dc_allowed (evaluate_capability_grant g d) \<longleftrightarrow> set (cd_required_scopes d) \<subseteq> set scopes))"
proof -
  from assms have g: "gr_scopes g = scopes"
    and lv: "derive_levels reg scopes {} DISCOVER OBSERVE = Inr (gr_depth g, gr_authority g)"
    by (auto elim: derive_grant_InrD)
  note ok = derive_levels_ok [OF lv] and bounds = derive_levels_bounds [OF lv]
  have scopes: "has_required_scopes scopes rs \<longleftrightarrow> set rs \<subseteq> set scopes" for rs
    using ok by (force simp: has_required_scopes_iff scope_matches_exact)
  have "dc_allowed (evaluate_capability_grant g d) \<longleftrightarrow> set (cd_required_scopes d) \<subseteq> set scopes"
    if d: "d \<in> snd ` set reg" and ne: "cd_required_scopes d \<noteq> []" for d
  proof -
    have "cd_min_depth d \<le> gr_depth g \<and> cd_min_authority d \<le> gr_authority g"
      if sub: "set (cd_required_scopes d) \<subseteq> set scopes"
    proof -
      from ne obtain s where s: "s \<in> set (cd_required_scopes d)" by (cases "cd_required_scopes d") auto
      with d have "d \<in> set (matching_descriptors reg s)" by (auto simp: matching_descriptors_iff)
      with s sub bounds show ?thesis by blast
    qed
    then show ?thesis by (auto simp: evaluate_allowed_iff g scopes)
  qed
  with g ok show ?thesis by blast
qed

theorem derived_grant_exact_witness:
  "derive_oauth_capability_grant [''task.read''] CAPABILITY_REGISTRY
     = Inr \<lparr>gr_depth = 1, gr_authority = 0, gr_scopes = [''task.read'']\<rparr>
   \<and> distinct [''task.read'']"
proof -
  have h: "derive_oauth_capability_grant [''task.read''] CAPABILITY_REGISTRY
     = Inr \<lparr>gr_depth = 1, gr_authority = 0, gr_scopes = [''task.read'']\<rparr>"
    by code_simp
  from h derived_grant_exact [OF h] show ?thesis by blast
qed

text \<open>
  The levels of a derived grant are the least ones that reach every capability an approved
  scope names: no lower, and no higher than what one of these capabilities asks for (or the
  discovery level). So approving scopes never grants more depth or authority than some capability
  that needs one of them.
\<close>

theorem derived_grant_least_levels:
  assumes "derive_oauth_capability_grant scopes reg = Inr g"
  shows "gr_depth g = Max (insert DISCOVER
           {cd_min_depth d | d s. s \<in> set scopes \<and> d \<in> set (matching_descriptors reg s)})
    \<and> gr_authority g = Max (insert OBSERVE
           {cd_min_authority d | d s. s \<in> set scopes \<and> d \<in> set (matching_descriptors reg s)})"
proof -
  from assms have lv: "derive_levels reg scopes {} DISCOVER OBSERVE = Inr (gr_depth g, gr_authority g)"
    by (auto elim: derive_grant_InrD)
  note b = derive_levels_bounds [OF lv] and t = derive_levels_attained [OF lv]
  have fin: "finite (insert k {f d | d s. s \<in> set scopes \<and> d \<in> set (matching_descriptors reg s)})"
    for k and f :: "capability_descriptor \<Rightarrow> int"
    by (rule finite_subset [of _ "insert k (f ` snd ` set reg)"]) (force simp: matching_descriptors_iff)+
  have "Max (insert DISCOVER {cd_min_depth d | d s. s \<in> set scopes \<and> d \<in> set (matching_descriptors reg s)})
      = gr_depth g"
    by (rule Max_eqI [OF fin]) (use b in blast, use t in force)
  moreover have "Max (insert OBSERVE {cd_min_authority d | d s. s \<in> set scopes \<and> d \<in> set (matching_descriptors reg s)})
      = gr_authority g"
    by (rule Max_eqI [OF fin]) (use b in blast, use t in force)
  ultimately show ?thesis by simp
qed

theorem derived_grant_least_levels_witness:
  "gr_depth \<lparr>gr_depth = 1, gr_authority = 0, gr_scopes = [''task.read'']\<rparr>
     = Max (insert DISCOVER {cd_min_depth d | d s. s \<in> set [''task.read'']
              \<and> d \<in> set (matching_descriptors CAPABILITY_REGISTRY s)})"
proof -
  have h: "derive_oauth_capability_grant [''task.read''] CAPABILITY_REGISTRY
     = Inr \<lparr>gr_depth = 1, gr_authority = 0, gr_scopes = [''task.read'']\<rparr>"
    by code_simp
  from derived_grant_least_levels [OF h] show ?thesis by (rule conjunct1)
qed

text \<open>
  The access rule is monotone: a grant with at least the depth and authority of another, whose
  scopes include the other's, is allowed everything the other is allowed.
\<close>

theorem evaluate_capability_grant_mono:
  assumes "gr_depth g \<le> gr_depth g'" and "gr_authority g \<le> gr_authority g'"
    and "set (gr_scopes g) \<subseteq> set (gr_scopes g')"
    and "dc_allowed (evaluate_capability_grant g d)"
  shows "dc_allowed (evaluate_capability_grant g' d)"
  using assms unfolding evaluate_allowed_iff has_required_scopes_iff by (meson order.trans subsetD)

theorem evaluate_capability_grant_mono_witness:
  "let d = snd (TASK_SURFACE_CAPABILITIES ! 0);
       g = \<lparr>gr_depth = 1, gr_authority = 0, gr_scopes = [''task.*'']\<rparr>;
       g' = \<lparr>gr_depth = 6, gr_authority = 4, gr_scopes = [''x'', ''task.*'']\<rparr>
   in dc_allowed (evaluate_capability_grant g d) \<and> dc_allowed (evaluate_capability_grant g' d)"
proof -
  let ?d = "snd (TASK_SURFACE_CAPABILITIES ! 0)"
  let ?g = "\<lparr>gr_depth = 1, gr_authority = 0, gr_scopes = [''task.*'']\<rparr>"
  let ?g' = "\<lparr>gr_depth = 6, gr_authority = 4, gr_scopes = [''x'', ''task.*'']\<rparr>"
  have g: "dc_allowed (evaluate_capability_grant ?g ?d)" by code_simp
  have "dc_allowed (evaluate_capability_grant ?g' ?d)"
    by (rule evaluate_capability_grant_mono [OF _ _ _ g]) simp_all
  with g show ?thesis by (simp only: Let_def simp_thms)
qed

text \<open>
  The shipped registries agree: every task of the task registry has a task capability with the
  same queue kind, so the coverage check reports nothing.
\<close>

theorem shipped_task_coverage:
  "validate_task_capability_coverage TASK_REGISTRY CAPABILITY_REGISTRY = []"
  by (simp add: validate_task_capability_coverage_def task_coverage_errors_def get_capability_def
      TASK_REGISTRY_def standard_policy_def registry_defs)

end
