(* ===== verification/Config.thy ===== *)
theory Config
  imports Capabilities
begin

text \<open>
  The configuration record of the gateway (\<open>GatewayConfig\<close> of \<open>gateway/src/config.ts\<close>). A field of
  type \<open>string | null | undefined\<close> is a \<^typ>\<open>string option\<close>; \<open>truthy\<close> is the code's test that it is
  set and non-empty. Its loading is in \<open>ConfigLoad\<close>.
\<close>

record gateway_config =
  cfg_hostname :: string
  cfg_port :: int
  cfg_queue_daemon_origin :: string
  cfg_worker_broker_origin :: "string option"
  cfg_filesystem_root :: "string option"
  cfg_filesystem_mutator_bin :: "string option"
  cfg_git_repository :: "string option"
  cfg_git_bin :: "string option"
  cfg_process_registry_file :: "string option"
  cfg_process_exec_bin :: "string option"
  cfg_public_origin :: "string option"
  cfg_oauth_authorization_server :: "string option"
  cfg_api_token :: "string option"
  cfg_allow_unauthenticated :: bool
  cfg_upstream_timeout_ms :: int
  cfg_enqueue_rate_per_second :: int
  cfg_enqueue_burst :: int
  cfg_max_active_tasks :: int

text \<open>
  \<open>selfHostedIssuer\<close>, which the three OAuth endpoints share: the authorization server is this gateway
  itself when both origins are configured and equal.
\<close>

definition self_hosted_issuer :: "gateway_config \<Rightarrow> string option" where
  "self_hosted_issuer config =
     (case (truthy (cfg_public_origin config), truthy (cfg_oauth_authorization_server config)) of
        (Some origin, Some server) \<Rightarrow> if server \<noteq> origin then None else Some server
      | _ \<Rightarrow> None)"

lemma truthy_eq_Some [simp]: "truthy v = Some s \<longleftrightarrow> v = Some s \<and> s \<noteq> []"
  by (auto simp: truthy_def split: option.splits)

lemma truthy_simps [simp]:
  "truthy None = None" "truthy (Some s) = (if s = [] then None else Some s)"
  by (simp_all add: truthy_def)

lemma self_hosted_issuer_Some:
  "self_hosted_issuer config = Some issuer \<longleftrightarrow>
     cfg_public_origin config = Some issuer \<and> cfg_oauth_authorization_server config = Some issuer
     \<and> issuer \<noteq> []"
  by (auto simp: self_hosted_issuer_def split: option.splits if_splits)

definition example_config :: gateway_config where
  "example_config =
     \<lparr>cfg_hostname = ''127.0.0.1'', cfg_port = 7331, cfg_queue_daemon_origin = ''http://127.0.0.1:7332'',
      cfg_worker_broker_origin = None, cfg_filesystem_root = None, cfg_filesystem_mutator_bin = None,
      cfg_git_repository = None, cfg_git_bin = None, cfg_process_registry_file = None,
      cfg_process_exec_bin = None, cfg_public_origin = Some ''https://gateway.example'',
      cfg_oauth_authorization_server = Some ''https://gateway.example'', cfg_api_token = Some ''root'',
      cfg_allow_unauthenticated = False, cfg_upstream_timeout_ms = 5000, cfg_enqueue_rate_per_second = 20,
      cfg_enqueue_burst = 40, cfg_max_active_tasks = 100\<rparr>"

end
