(* ===== verification/Sessions.thy ===== *)
theory Sessions
  imports Config
begin

text \<open>
  Signed capability sessions and the resolution of a request's authority
  (\<open>gateway/src/capability-auth.ts\<close>): the base64url codec, the session claims, issuing and
  verifying a token, the constant-time comparison and the authorization context of a request.
  Time is the argument \<open>now_ms\<close>, the fresh session id the argument \<open>uuid\<close>; HMAC and the JSON and UTF-8
  codecs are the runtime's.
\<close>

unbundle bit_operations_syntax

definition SESSION_TOKEN_PREFIX :: string where "SESSION_TOKEN_PREFIX = ''tqq1''"
definition SIGNING_DOMAIN :: string where "SIGNING_DOMAIN = ''task-que-que-capability-session-v1''"
definition OAUTH_RESOURCE_SIGNING_DOMAIN :: string where
  "OAUTH_RESOURCE_SIGNING_DOMAIN = ''task-que-que-oauth-resource-session-v1''"
definition MIN_CAPABILITY_SESSION_TTL_SECONDS :: int where
  "MIN_CAPABILITY_SESSION_TTL_SECONDS = 60"
definition MAX_CAPABILITY_SESSION_TTL_SECONDS :: int where
  "MAX_CAPABILITY_SESSION_TTL_SECONDS = 24 * 60 * 60"
definition MAX_CAPABILITY_SESSION_SCOPES :: nat where "MAX_CAPABILITY_SESSION_SCOPES = 64"
definition MAX_TOKEN_BYTES :: nat where "MAX_TOKEN_BYTES = 16 * 1024"
definition MAX_SCOPE_BYTES :: nat where "MAX_SCOPE_BYTES = 128"

record session_claims =
  cl_sid :: string
  cl_iat :: int
  cl_exp :: int
  cl_depth :: int
  cl_authority :: int
  cl_scopes :: "string list"

datatype auth_kind = RootAuth | SessionAuth | DevelopmentAuth | InternalAuth

record authorization_context =
  ac_kind :: auth_kind
  ac_grant :: capability_grant
  ac_session_id :: "string option"
  ac_expires_at :: "int option"

definition INTERNAL_SYSTEM_AUTH_CONTEXT :: authorization_context where
  "INTERNAL_SYSTEM_AUTH_CONTEXT =
     \<lparr>ac_kind = InternalAuth, ac_grant = LEGACY_COMPAT_GRANT, ac_session_id = None, ac_expires_at = None\<rparr>"

section \<open>Grant validation\<close>

definition is_depth :: "int \<Rightarrow> bool" where
  "is_depth v \<longleftrightarrow> v \<in> set (map snd CAPABILITY_DEPTH)"

definition is_authority :: "int \<Rightarrow> bool" where
  "is_authority v \<longleftrightarrow> v \<in> set (map snd CAPABILITY_AUTHORITY)"

text \<open>\<open>/^[A-Za-z0-9*][A-Za-z0-9._:/*-]*$/\<close>.\<close>

definition is_scope_tail :: "char \<Rightarrow> bool" where
  "is_scope_tail c \<longleftrightarrow> is_alnum c \<or> c \<in> set ''._:/*-''"

fun safe_scope :: "string \<Rightarrow> bool" where
  "safe_scope [] = False"
| "safe_scope (c # s) \<longleftrightarrow> (is_alnum c \<or> c = CHR ''*'') \<and> list_all is_scope_tail s"

text \<open>\<open>/^[A-Za-z0-9-]{8,64}$/\<close>.\<close>

definition safe_session_id :: "string \<Rightarrow> bool" where
  "safe_session_id = rx_range (\<lambda>c. is_alnum c \<or> c = CHR ''-'') 8 64"

definition scope_is_safe :: "json \<Rightarrow> bool" where
  "scope_is_safe v = (case v of
      JStr s \<Rightarrow> \<not> (byte_length s = 0 \<or> byte_length s > MAX_SCOPE_BYTES \<or> \<not> safe_scope s)
    | _ \<Rightarrow> False)"

fun scope_errors :: "json list \<Rightarrow> json set \<Rightarrow> string list" where
  "scope_errors [] seen = []"
| "scope_errors (v # vs) seen =
     (if \<not> scope_is_safe v then ''invalid scope'' # scope_errors vs seen
      else (if v \<in> seen then [''duplicate scope''] else []) @ scope_errors vs (insert v seen))"

text \<open>
  \<open>validateCapabilityGrant\<close> on a depth, an authority and the elements of the scopes array, which a
  parsed token may fill with values that are no strings.
\<close>

definition validate_capability_grant :: "int \<Rightarrow> int \<Rightarrow> json list \<Rightarrow> string list" where
  "validate_capability_grant depth authority scopes =
     (if \<not> is_depth depth then [''invalid depth''] else [])
     @ (if \<not> is_authority authority then [''invalid authority''] else [])
     @ (if length scopes > MAX_CAPABILITY_SESSION_SCOPES then [''too many scopes (max 64)''] else [])
     @ scope_errors scopes {}"

abbreviation grant_errors :: "capability_grant \<Rightarrow> string list" where
  "grant_errors g \<equiv> validate_capability_grant (gr_depth g) (gr_authority g) (map JStr (gr_scopes g))"

definition grant_ok :: "capability_grant \<Rightarrow> bool" where
  "grant_ok g \<longleftrightarrow> is_depth (gr_depth g) \<and> is_authority (gr_authority g)
     \<and> length (gr_scopes g) \<le> MAX_CAPABILITY_SESSION_SCOPES \<and> distinct (gr_scopes g)
     \<and> (\<forall>s \<in> set (gr_scopes g). safe_scope s \<and> byte_length s \<le> MAX_SCOPE_BYTES)"

lemma is_depth_iff: "is_depth v \<longleftrightarrow> 0 \<le> v \<and> v \<le> 6"
  by (auto simp: is_depth_def CAPABILITY_DEPTH_def level_defs)

lemma is_authority_iff: "is_authority v \<longleftrightarrow> 0 \<le> v \<and> v \<le> 4"
  by (auto simp: is_authority_def CAPABILITY_AUTHORITY_def level_defs)

lemma scope_errors_Nil_iff:
  "scope_errors vs seen = [] \<longleftrightarrow> (\<forall>v \<in> set vs. scope_is_safe v) \<and> distinct vs \<and> set vs \<inter> seen = {}"
  by (induction vs arbitrary: seen) auto

lemma scope_is_safe_iff:
  "scope_is_safe v \<longleftrightarrow> (\<exists>s. v = JStr s \<and> safe_scope s \<and> byte_length s \<le> MAX_SCOPE_BYTES)"
proof (cases v)
  case (JStr s)
  then show ?thesis by (cases s) (auto simp: scope_is_safe_def)
qed (simp_all add: scope_is_safe_def)

lemma scope_is_safe_JStr [simp]: "scope_is_safe (JStr s) \<longleftrightarrow> safe_scope s \<and> byte_length s \<le> MAX_SCOPE_BYTES"
  by (simp add: scope_is_safe_iff)

lemma grant_errors_Nil_iff: "grant_errors g = [] \<longleftrightarrow> grant_ok g"
  by (auto simp: validate_capability_grant_def grant_ok_def scope_errors_Nil_iff distinct_map inj_on_def)

lemma validate_capability_grant_Nil:
  assumes "validate_capability_grant d a vs = []"
  obtains ss where "vs = map JStr ss" "grant_ok \<lparr>gr_depth = d, gr_authority = a, gr_scopes = ss\<rparr>"
proof -
  have "\<forall>v \<in> set vs. \<exists>s. v = JStr s"
    using assms by (auto simp: validate_capability_grant_def scope_errors_Nil_iff scope_is_safe_iff
        split: if_splits)
  then obtain ss where "vs = map JStr ss"
    by (metis ex_map_conv)
  with that assms grant_errors_Nil_iff [of "\<lparr>gr_depth = d, gr_authority = a, gr_scopes = ss\<rparr>"]
  show thesis by simp
qed

section \<open>Base64url\<close>

definition b64_alphabet :: string where
  "b64_alphabet = ''ABCDEFGHIJKLMNOPQRSTUVWXYZabcdefghijklmnopqrstuvwxyz0123456789+/''"

definition b64_char :: "nat \<Rightarrow> char" where
  "b64_char n = b64_alphabet ! n"

fun btoa :: "nat list \<Rightarrow> string" where
  "btoa [] = []"
| "btoa [a] = [b64_char (a div 4), b64_char (a mod 4 * 16), CHR ''='', CHR ''='']"
| "btoa [a, b] = [b64_char (a div 4), b64_char (a mod 4 * 16 + b div 16), b64_char (b mod 16 * 4), CHR ''='']"
| "btoa (a # b # c # bs) =
     b64_char (a div 4) # b64_char (a mod 4 * 16 + b div 16)
     # b64_char (b mod 16 * 4 + c div 64) # b64_char (c mod 64) # btoa bs"

definition url_char :: "char \<Rightarrow> char" where
  "url_char c = (if c = CHR ''+'' then CHR ''-'' else if c = CHR ''/'' then CHR ''_'' else c)"

definition std_char :: "char \<Rightarrow> char" where
  "std_char c = (if c = CHR ''-'' then CHR ''+'' else if c = CHR ''_'' then CHR ''/'' else c)"

definition strip_padding :: "string \<Rightarrow> string" where
  "strip_padding s = rev (dropWhile (\<lambda>c. c = CHR ''='') (rev s))"

definition base64_url_encode :: "nat list \<Rightarrow> string" where
  "base64_url_encode bytes = strip_padding (map url_char (btoa bytes))"

fun decode_sextets :: "nat list \<Rightarrow> nat list" where
  "decode_sextets (a # b # c # d # ns) =
     (a * 4 + b div 16) # (b mod 16 * 16 + c div 4) # (c mod 4 * 64 + d) # decode_sextets ns"
| "decode_sextets [a, b, c] = [a * 4 + b div 16, b mod 16 * 16 + c div 4]"
| "decode_sextets [a, b] = [a * 4 + b div 16]"
| "decode_sextets ns = []"

fun index_of :: "char \<Rightarrow> string \<Rightarrow> nat option" where
  "index_of c [] = None"
| "index_of c (d # ds) = (if c = d then Some 0 else map_option Suc (index_of c ds))"

text \<open>\<open>atob\<close> (the forgiving base64 decoder): up to two trailing \<open>=\<close> of a full last group are dropped.\<close>

definition drop_padding :: "string \<Rightarrow> string" where
  "drop_padding s =
     (if length s mod 4 = 0
      then (if ends_with s ''=='' then take (length s - 2) s
            else if ends_with s ''='' then take (length s - 1) s else s)
      else s)"

definition atob :: "string \<Rightarrow> nat list option" where
  "atob s =
     (let t = drop_padding s
      in if length t mod 4 = 1 then None
         else map_option decode_sextets (those (map (\<lambda>c. index_of c b64_alphabet) t)))"

definition base64_url_decode :: "string \<Rightarrow> nat list option" where
  "base64_url_decode value =
     (if \<not> rx_plus is_base64url value then None
      else atob (map std_char value @ replicate ((4 - length value mod 4) mod 4) (CHR ''='')))"

subsection \<open>Decoding inverts encoding\<close>

fun sextets :: "nat list \<Rightarrow> nat list" where
  "sextets [] = []"
| "sextets [a] = [a div 4, a mod 4 * 16]"
| "sextets [a, b] = [a div 4, a mod 4 * 16 + b div 16, b mod 16 * 4]"
| "sextets (a # b # c # bs) =
     a div 4 # (a mod 4 * 16 + b div 16) # (b mod 16 * 4 + c div 64) # c mod 64 # sextets bs"

definition b64_pad :: "nat list \<Rightarrow> nat" where
  "b64_pad bs = (3 - length bs mod 3) mod 3"

text \<open>Packing two digits in one number and reading them back.\<close>

lemma pack_digits:
  "y < k \<Longrightarrow> (x * k + y) div k = (x::nat)" "y < k \<Longrightarrow> (x * k + y) mod k = (y::nat)"
  by auto

lemma sextet_bounds:
  fixes a b c :: nat
  shows "a < 256 \<Longrightarrow> a div 4 < 64" and "a mod 4 * 16 < 64" and "b mod 16 * 4 < 64" and "c mod 64 < 64"
    and "b < 256 \<Longrightarrow> a mod 4 * 16 + b div 16 < 64" and "c < 256 \<Longrightarrow> b mod 16 * 4 + c div 64 < 64"
proof -
  have a: "a mod 4 < 4" and b: "b mod 16 < 16" by simp_all
  show "a < 256 \<Longrightarrow> a div 4 < 64" "c mod 64 < 64" by auto
  show "a mod 4 * 16 < 64" "b mod 16 * 4 < 64" using a b by linarith+
  show "b < 256 \<Longrightarrow> a mod 4 * 16 + b div 16 < 64"
  proof -
    assume "b < 256"
    then have "b div 16 < 16" by auto
    with a show ?thesis by linarith
  qed
  show "c < 256 \<Longrightarrow> b mod 16 * 4 + c div 64 < 64"
  proof -
    assume "c < 256"
    then have "c div 64 < 4" by auto
    with b show ?thesis by linarith
  qed
qed

lemma sextet_inverse:
  fixes a b c :: nat
  shows "a div 4 * 4 + (a mod 4 * 16) div 16 = a"
    and "b < 256 \<Longrightarrow> a div 4 * 4 + (a mod 4 * 16 + b div 16) div 16 = a"
    and "b < 256 \<Longrightarrow> (a mod 4 * 16 + b div 16) mod 16 * 16 + (b mod 16 * 4) div 4 = b"
    and "b < 256 \<Longrightarrow> c < 256 \<Longrightarrow> (a mod 4 * 16 + b div 16) mod 16 * 16 + (b mod 16 * 4 + c div 64) div 4 = b"
    and "c < 256 \<Longrightarrow> (b mod 16 * 4 + c div 64) mod 4 * 64 + c mod 64 = c"
proof -
  have b: "b < 256 \<Longrightarrow> b div 16 < 16" and c: "c < 256 \<Longrightarrow> c div 64 < 4" by auto
  show "a div 4 * 4 + (a mod 4 * 16) div 16 = a" by simp
  show "b < 256 \<Longrightarrow> a div 4 * 4 + (a mod 4 * 16 + b div 16) div 16 = a"
    by (simp only: pack_digits [OF b] div_mult_mod_eq)
  show "b < 256 \<Longrightarrow> (a mod 4 * 16 + b div 16) mod 16 * 16 + (b mod 16 * 4) div 4 = b"
    by (simp only: pack_digits [OF b]) simp
  show "b < 256 \<Longrightarrow> c < 256 \<Longrightarrow> (a mod 4 * 16 + b div 16) mod 16 * 16 + (b mod 16 * 4 + c div 64) div 4 = b"
    by (simp only: pack_digits [OF b] pack_digits [OF c] div_mult_mod_eq)
  show "c < 256 \<Longrightarrow> (b mod 16 * 4 + c div 64) mod 4 * 64 + c mod 64 = c"
    by (simp only: pack_digits [OF c] div_mult_mod_eq)
qed

lemma sextets_less: "\<forall>b \<in> set bs. b < 256 \<Longrightarrow> n \<in> set (sextets bs) \<Longrightarrow> n < 64"
  by (induction bs rule: sextets.induct) (auto simp del: mult_less_cancel2 simp add: sextet_bounds)

lemma decode_sextets_sextets: "\<forall>b \<in> set bs. b < 256 \<Longrightarrow> decode_sextets (sextets bs) = bs"
proof (induction bs rule: sextets.induct)
  case (4 a b c bs)
  then have "decode_sextets (sextets bs) = bs" "b < 256" "c < 256" by simp_all
  then show ?case by (simp only: sextets.simps decode_sextets.simps sextet_inverse)
qed (simp_all only: sextets.simps decode_sextets.simps list.simps sextet_inverse simp_thms ball_simps)

lemma length_sextets: "(length (sextets bs) + b64_pad bs) mod 4 = 0"
proof (induction bs rule: sextets.induct)
  case (4 a b c bs)
  have "b64_pad (a # b # c # bs) = b64_pad bs" by (simp add: b64_pad_def mod_Suc_eq)
  with 4 show ?case by simp
qed (simp_all add: b64_pad_def)

lemma b64_pad_less: "b64_pad bs < 3"
  by (simp add: b64_pad_def)

lemma pad_digits:
  assumes "(n + p) mod 4 = 0" and "p < 3"
  shows "(4 - n mod 4) mod 4 = p \<and> n mod 4 \<noteq> (1::nat)"
proof -
  have "(n mod 4 + p) mod 4 = 0" using assms(1) by (simp add: mod_simps)
  moreover have "n mod 4 = 0 \<or> n mod 4 = 1 \<or> n mod 4 = 2 \<or> n mod 4 = 3"
    using mod_less_divisor [of 4 n] by linarith
  moreover have "p = 0 \<or> p = 1 \<or> p = 2" using assms(2) by linarith
  ultimately show ?thesis by (elim disjE) simp_all
qed

lemma btoa_eq: "btoa bs = map b64_char (sextets bs) @ replicate (b64_pad bs) (CHR ''='')"
proof (induction bs rule: btoa.induct)
  case (4 a b c bs)
  have "b64_pad (a # b # c # bs) = b64_pad bs" by (simp add: b64_pad_def mod_Suc_eq)
  with 4 show ?case by simp
qed (simp_all add: b64_pad_def numeral_2_eq_2)

lemma b64_char_props:
  assumes "n < 64"
  shows "index_of (b64_char n) b64_alphabet = Some n" and "b64_char n \<noteq> CHR ''=''"
    and "url_char (b64_char n) \<noteq> CHR ''=''" and "std_char (url_char (b64_char n)) = b64_char n"
    and "is_base64url (url_char (b64_char n))"
proof -
  have "\<forall>n \<in> set [0..<64]. index_of (b64_char n) b64_alphabet = Some n \<and> b64_char n \<noteq> CHR ''=''
      \<and> url_char (b64_char n) \<noteq> CHR ''='' \<and> std_char (url_char (b64_char n)) = b64_char n
      \<and> is_base64url (url_char (b64_char n))"
    by code_simp
  with assms show "index_of (b64_char n) b64_alphabet = Some n" "b64_char n \<noteq> CHR ''=''"
    "url_char (b64_char n) \<noteq> CHR ''=''" "std_char (url_char (b64_char n)) = b64_char n"
    "is_base64url (url_char (b64_char n))" by auto
qed

lemma strip_padding_replicate:
  "CHR ''='' \<notin> set s \<Longrightarrow> strip_padding (s @ replicate k (CHR ''='')) = s"
  unfolding strip_padding_def
  by (cases s rule: rev_cases) (auto simp: dropWhile_append)

lemma base64_url_encode_eq:
  assumes "\<forall>b \<in> set bs. b < 256"
  shows "base64_url_encode bs = map (\<lambda>n. url_char (b64_char n)) (sextets bs)"
proof -
  have "CHR ''='' \<notin> set (map (\<lambda>n. url_char (b64_char n)) (sextets bs))"
    using sextets_less [OF assms] b64_char_props(3) by force
  moreover have "url_char (CHR ''='') = CHR ''=''" by (simp add: url_char_def)
  ultimately show ?thesis
    by (simp add: base64_url_encode_def btoa_eq strip_padding_replicate comp_def)
qed

lemma drop_padding_replicate:
  assumes "CHR ''='' \<notin> set s" and "k < 3" and "(length s + k) mod 4 = 0"
  shows "drop_padding (s @ replicate k (CHR ''='')) = s"
proof -
  have no_eq: "\<not> ends_with s (t @ ''='')" for t
    using assms(1) by (auto simp: ends_with_iff)
  consider "k = 0" | "k = 1" | "k = 2" using assms(2) by linarith
  then show ?thesis
  proof cases
    case 1
    with assms(3) no_eq [of "''=''"] no_eq [of "[]"] show ?thesis by (simp add: drop_padding_def)
  next
    case 2
    have "\<not> ends_with (s @ ''='') ''==''"
      using assms(1) by (auto simp: ends_with_iff append_eq_append_conv2 append_eq_Cons_conv)
    moreover have "ends_with (s @ ''='') ''=''" by (simp add: ends_with_iff)
    ultimately show ?thesis using 2 assms(3) by (simp add: drop_padding_def)
  next
    case 3
    have "ends_with (s @ ''=='') ''==''" by (simp add: ends_with_iff)
    with 3 assms(3) show ?thesis by (simp add: drop_padding_def numeral_2_eq_2)
  qed
qed

lemma those_map_Some: "\<forall>x \<in> set xs. f x = Some (g x) \<Longrightarrow> those (map f xs) = Some (map g xs)"
  by (induction xs) auto

theorem base64_url_round_trip:
  assumes bytes: "\<forall>b \<in> set bs. b < 256" and "bs \<noteq> []"
  shows "base64_url_decode (base64_url_encode bs) = Some bs"
proof -
  let ?sx = "sextets bs" and ?v = "map (\<lambda>n. url_char (b64_char n)) (sextets bs)"
  note small = sextets_less [OF bytes]
  have "?sx \<noteq> []" using assms(2) by (cases bs rule: sextets.cases) auto
  then have rx: "rx_plus is_base64url ?v"
    using small b64_char_props(5) by (auto simp: rx_plus_def list_all_iff)
  have std: "map std_char ?v = map b64_char ?sx"
    using small b64_char_props(4) by simp
  have pad: "(4 - length ?v mod 4) mod 4 = b64_pad bs"
    using pad_digits [OF length_sextets [of bs] b64_pad_less] by simp
  have dp: "drop_padding (map b64_char ?sx @ replicate (b64_pad bs) (CHR ''='')) = map b64_char ?sx"
  proof (rule drop_padding_replicate)
    show "CHR ''='' \<notin> set (map b64_char ?sx)" using small b64_char_props(2) by force
    show "(length (map b64_char ?sx) + b64_pad bs) mod 4 = 0" by (simp add: length_sextets)
  qed (rule b64_pad_less)
  have len: "length ?sx mod 4 \<noteq> 1"
    using pad_digits [OF length_sextets [of bs] b64_pad_less] by simp
  have "those (map (\<lambda>c. index_of c b64_alphabet) (map b64_char ?sx)) = Some ?sx"
    using those_map_Some [of ?sx "\<lambda>n. index_of (b64_char n) b64_alphabet" "\<lambda>n. n"] small b64_char_props(1)
    by (simp add: comp_def)
  with len have "atob (map b64_char ?sx @ replicate (b64_pad bs) (CHR ''='')) = Some bs"
    by (simp add: atob_def dp decode_sextets_sextets [OF bytes] Let_def del: map_map)
  then show ?thesis
    by (simp only: base64_url_encode_eq [OF bytes] base64_url_decode_def rx std pad simp_thms if_False)
qed

lemma base64_url_encode_chars:
  "\<forall>b \<in> set bs. b < 256 \<Longrightarrow> c \<in> set (base64_url_encode bs) \<Longrightarrow> is_base64url c"
  using sextets_less b64_char_props(5) by (auto simp: base64_url_encode_eq)

section \<open>Session tokens\<close>

definition sign_payload :: "runtime \<Rightarrow> string \<Rightarrow> string \<Rightarrow> nat list" where
  "sign_payload rt secret payload = rt_hmac rt (utf8 secret) (utf8 (SIGNING_DOMAIN @ ''.'' @ payload))"

definition verify_payload :: "runtime \<Rightarrow> string \<Rightarrow> string \<Rightarrow> nat list \<Rightarrow> bool" where
  "verify_payload rt secret payload signature \<longleftrightarrow>
     signature = rt_hmac rt (utf8 secret) (utf8 (SIGNING_DOMAIN @ ''.'' @ payload))"

definition derive_oauth_resource_session_secret ::
  "runtime \<Rightarrow> string \<Rightarrow> string \<Rightarrow> string + string" where
  "derive_oauth_resource_session_secret rt root_secret resource =
     (if root_secret = [] then Inl ''root signing secret is required''
      else (case rt_url rt resource of
              None \<Rightarrow> Inl ''OAuth resource must be an absolute HTTPS URL''
            | Some u \<Rightarrow>
                if u_protocol u \<noteq> ''https:'' \<or> u_username u \<noteq> [] \<or> u_password u \<noteq> []
                   \<or> u_search u \<noteq> [] \<or> u_hash u \<noteq> []
                then Inl ''OAuth resource must be an absolute HTTPS URL without credentials, query, or fragment''
                else Inr (''oauth1.'' @ base64_url_encode
                       (rt_hmac rt (utf8 root_secret)
                         (utf8 (OAUTH_RESOURCE_SIGNING_DOMAIN @ ''.'' @ resource))))))"

definition claim_keys :: "string list" where
  "claim_keys = [''v'', ''sid'', ''iat'', ''exp'', ''depth'', ''authority'', ''scopes'']"

definition claims_json :: "session_claims \<Rightarrow> json" where
  "claims_json c =
     JObj [(''v'', JInt 1), (''sid'', JStr (cl_sid c)), (''iat'', JInt (cl_iat c)),
           (''exp'', JInt (cl_exp c)), (''depth'', JInt (cl_depth c)),
           (''authority'', JInt (cl_authority c)), (''scopes'', JArr (map JStr (cl_scopes c)))]"

definition parse_claims :: "runtime \<Rightarrow> nat list \<Rightarrow> session_claims option" where
  "parse_claims rt bytes =
     (case rt_json_parse rt (rt_utf8_decode rt bytes) of
        None \<Rightarrow> None
      | Some v \<Rightarrow>
          if \<not> is_record v then None
          else if \<not> exact_keys v claim_keys
            \<or> field v ''v'' \<noteq> Some (JInt 1)
            \<or> \<not> is_string (field v ''sid'')
            \<or> \<not> safe_session_id (str_of (field v ''sid''))
            \<or> \<not> is_safe_integer (field v ''iat'')
            \<or> \<not> is_safe_integer (field v ''exp'')
            \<or> \<not> (is_integer (field v ''depth'') \<and> is_depth (int_of (field v ''depth'')))
            \<or> \<not> (is_integer (field v ''authority'') \<and> is_authority (int_of (field v ''authority'')))
            \<or> \<not> is_array (field v ''scopes'')
          then None
          else if validate_capability_grant (int_of (field v ''depth'')) (int_of (field v ''authority''))
                 (arr_of (field v ''scopes'')) \<noteq> [] then None
          else Some \<lparr>cl_sid = str_of (field v ''sid''), cl_iat = int_of (field v ''iat''),
                 cl_exp = int_of (field v ''exp''), cl_depth = int_of (field v ''depth''),
                 cl_authority = int_of (field v ''authority''),
                 cl_scopes = map (\<lambda>s. str_of (Some s)) (arr_of (field v ''scopes''))\<rparr>)"

definition issue_capability_session ::
  "runtime \<Rightarrow> string \<Rightarrow> capability_grant \<Rightarrow> int \<Rightarrow> int \<Rightarrow> string \<Rightarrow> string + string \<times> session_claims" where
  "issue_capability_session rt secret grant ttl_seconds now_ms uuid =
     (if secret = [] then Inl ''capability session signing secret is required''
      else if grant_errors grant \<noteq> []
        then Inl (''invalid capability grant: '' @ join '', '' (grant_errors grant))
      else if ttl_seconds < MIN_CAPABILITY_SESSION_TTL_SECONDS
              \<or> ttl_seconds > MAX_CAPABILITY_SESSION_TTL_SECONDS
        then Inl ''ttlSeconds must be between 60 and 86400''
      else
        (let issued_at = now_ms div 1000;
             claims = \<lparr>cl_sid = uuid, cl_iat = issued_at, cl_exp = issued_at + ttl_seconds,
                       cl_depth = gr_depth grant, cl_authority = gr_authority grant,
                       cl_scopes = gr_scopes grant\<rparr>;
             payload = base64_url_encode (utf8 (rt_json_text rt (claims_json claims)));
             signature = base64_url_encode (sign_payload rt secret payload)
         in Inr (SESSION_TOKEN_PREFIX @ ''.'' @ payload @ ''.'' @ signature, claims)))"

definition session_context :: "session_claims \<Rightarrow> authorization_context" where
  "session_context claims =
     \<lparr>ac_kind = SessionAuth,
      ac_grant = \<lparr>gr_depth = cl_depth claims, gr_authority = cl_authority claims, gr_scopes = cl_scopes claims\<rparr>,
      ac_session_id = Some (cl_sid claims), ac_expires_at = Some (cl_exp claims)\<rparr>"

definition verify_capability_session ::
  "runtime \<Rightarrow> string \<Rightarrow> string \<Rightarrow> int \<Rightarrow> authorization_context option" where
  "verify_capability_session rt token secret now_ms =
     (if secret = [] \<or> byte_length token > MAX_TOKEN_BYTES then None
      else
        (let parts = split_on (CHR ''.'') token
         in if length parts \<noteq> 3 \<or> parts ! 0 \<noteq> SESSION_TOKEN_PREFIX then None
            else
              (case (base64_url_decode (parts ! 2), base64_url_decode (parts ! 1)) of
                 (Some signature, Some payload_bytes) \<Rightarrow>
                   if \<not> verify_payload rt secret (parts ! 1) signature then None
                   else
                     (case parse_claims rt payload_bytes of
                        None \<Rightarrow> None
                      | Some claims \<Rightarrow>
                          (let now_seconds = now_ms div 1000
                           in if cl_iat claims > now_seconds + 60
                                 \<or> cl_exp claims \<le> cl_iat claims
                                 \<or> cl_exp claims - cl_iat claims > MAX_CAPABILITY_SESSION_TTL_SECONDS
                                 \<or> now_seconds \<ge> cl_exp claims
                              then None else Some (session_context claims)))
               | _ \<Rightarrow> None)))"

section \<open>The authorization of a request\<close>

definition byte_at :: "nat list \<Rightarrow> nat \<Rightarrow> nat" where
  "byte_at bs i = (if i < length bs then bs ! i else 0)"

definition constant_time_equal :: "string \<Rightarrow> string \<Rightarrow> bool" where
  "constant_time_equal left right \<longleftrightarrow>
     (let a = utf8 left; b = utf8 right
      in foldl (\<lambda>diff i. diff OR (byte_at a i XOR byte_at b i)) (length a XOR length b)
           [0..<max (length a) (length b)] = 0)"

definition bearer_token :: "request \<Rightarrow> string option" where
  "bearer_token r =
     (case header r ''authorization'' of
        None \<Rightarrow> None
      | Some v \<Rightarrow>
          if \<not> starts_with v ''Bearer '' then None
          else (let token = drop 7 v in if length token > 0 then Some token else None))"

definition is_root_authorization :: "request \<Rightarrow> gateway_config \<Rightarrow> bool" where
  "is_root_authorization r config \<longleftrightarrow>
     (case truthy (cfg_api_token config) of
        None \<Rightarrow> False
      | Some api_token \<Rightarrow>
          (case bearer_token r of None \<Rightarrow> False | Some token \<Rightarrow> constant_time_equal token api_token))"

definition compat_context :: "auth_kind \<Rightarrow> authorization_context" where
  "compat_context kind =
     \<lparr>ac_kind = kind, ac_grant = LEGACY_COMPAT_GRANT, ac_session_id = None, ac_expires_at = None\<rparr>"

text \<open>\<open>Inl\<close> is the rejection of the promise when deriving the resource secret throws.\<close>

definition resolve_authorization_context ::
  "runtime \<Rightarrow> request \<Rightarrow> gateway_config \<Rightarrow> int \<Rightarrow> string + authorization_context option" where
  "resolve_authorization_context rt r config now_ms =
     (if cfg_allow_unauthenticated config \<and> truthy (cfg_api_token config) = None
      then Inr (Some (compat_context DevelopmentAuth))
      else
        (case (bearer_token r, truthy (cfg_api_token config)) of
           (Some token, Some api_token) \<Rightarrow>
             if constant_time_equal token api_token then Inr (Some (compat_context RootAuth))
             else
               (case verify_capability_session rt token api_token now_ms of
                  Some ctx \<Rightarrow> Inr (Some ctx)
                | None \<Rightarrow>
                    (case truthy (cfg_public_origin config) of
                       None \<Rightarrow> Inr None
                     | Some origin \<Rightarrow>
                         (case derive_oauth_resource_session_secret rt api_token (origin @ ''/mcp'') of
                            Inl e \<Rightarrow> Inl e
                          | Inr secret \<Rightarrow> Inr (verify_capability_session rt token secret now_ms))))
         | _ \<Rightarrow> Inr None))"

section \<open>Lemmas on tokens\<close>

lemma foldl_or_eq_0:
  fixes d :: nat
  shows "foldl (\<lambda>d i. d OR f i) d xs = 0 \<longleftrightarrow> d = 0 \<and> (\<forall>i \<in> set xs. f i = 0)"
  by (induction xs arbitrary: d) (auto simp: or_eq_0_iff)

lemma xor_nat_eq_0_iff: "a XOR b = 0 \<longleftrightarrow> a = (b :: nat)"
  by (auto simp: bit_eq_iff bit_xor_iff)

lemma constant_time_equal_iff [simp]: "constant_time_equal l r \<longleftrightarrow> l = r"
proof -
  have "constant_time_equal l r \<longleftrightarrow> length (utf8 l) = length (utf8 r)
      \<and> (\<forall>i < max (length (utf8 l)) (length (utf8 r)). byte_at (utf8 l) i = byte_at (utf8 r) i)"
    by (simp add: constant_time_equal_def Let_def foldl_or_eq_0 xor_nat_eq_0_iff Ball_def)
  also have "\<dots> \<longleftrightarrow> utf8 l = utf8 r"
    by (auto simp: byte_at_def list_eq_iff_nth_eq)
  also have "\<dots> \<longleftrightarrow> l = r" using utf8_inject by blast
  finally show ?thesis .
qed

lemma bearer_token_Some: "bearer_token r = Some t \<longleftrightarrow> header r ''authorization'' = Some (''Bearer '' @ t) \<and> t \<noteq> []"
  by (auto simp: bearer_token_def starts_with_iff Let_def split: option.splits)

lemma is_root_authorization_iff:
  "is_root_authorization r config \<longleftrightarrow>
     (\<exists>t. bearer_token r = Some t \<and> cfg_api_token config = Some t \<and> t \<noteq> [])"
  by (auto simp: is_root_authorization_def split: option.splits if_splits)

lemma parse_claims_SomeD:
  assumes "parse_claims rt bytes = Some claims"
  shows "grant_ok (ac_grant (session_context claims))" and "safe_session_id (cl_sid claims)"
proof -
  from assms obtain v where v: "rt_json_parse rt (rt_utf8_decode rt bytes) = Some v"
    and sid: "safe_session_id (str_of (field v ''sid''))"
    and errs: "validate_capability_grant (int_of (field v ''depth'')) (int_of (field v ''authority''))
                 (arr_of (field v ''scopes'')) = []"
    and claims: "claims = \<lparr>cl_sid = str_of (field v ''sid''), cl_iat = int_of (field v ''iat''),
                 cl_exp = int_of (field v ''exp''), cl_depth = int_of (field v ''depth''),
                 cl_authority = int_of (field v ''authority''),
                 cl_scopes = map (\<lambda>s. str_of (Some s)) (arr_of (field v ''scopes''))\<rparr>"
    by (auto simp: parse_claims_def split: option.splits if_splits)
  from errs obtain ss where "arr_of (field v ''scopes'') = map JStr ss"
    and "grant_ok \<lparr>gr_depth = int_of (field v ''depth''), gr_authority = int_of (field v ''authority''), gr_scopes = ss\<rparr>"
    by (rule validate_capability_grant_Nil)
  with claims show "grant_ok (ac_grant (session_context claims))"
    by (simp add: session_context_def comp_def)
  from sid claims show "safe_session_id (cl_sid claims)" by simp
qed

lemma parse_claims_round_trip:
  assumes "rt_json_parse rt (rt_utf8_decode rt bytes) = Some (claims_json c)"
    and "safe_session_id (cl_sid c)" and "\<bar>cl_iat c\<bar> \<le> max_safe_integer" and "\<bar>cl_exp c\<bar> \<le> max_safe_integer"
    and "grant_ok (ac_grant (session_context c))"
  shows "parse_claims rt bytes = Some c"
proof -
  have "is_depth (cl_depth c)" "is_authority (cl_authority c)"
    using assms(5) by (simp_all add: grant_ok_def session_context_def)
  moreover have "validate_capability_grant (cl_depth c) (cl_authority c) (map JStr (cl_scopes c)) = []"
    using assms(5) grant_errors_Nil_iff [of "ac_grant (session_context c)"] by (simp add: session_context_def)
  ultimately show ?thesis
    using assms by (simp add: parse_claims_def claims_json_def claim_keys_def exact_keys_def comp_def)
qed

lemma split_token:
  assumes "CHR ''.'' \<notin> set p" and "CHR ''.'' \<notin> set s"
  shows "split_on (CHR ''.'') (SESSION_TOKEN_PREFIX @ ''.'' @ p @ ''.'' @ s) = [SESSION_TOKEN_PREFIX, p, s]"
  using assms by (simp add: SESSION_TOKEN_PREFIX_def split_on_append split_on_single)

lemma split_token_eq:
  assumes "length (split_on (CHR ''.'') token) = 3"
  shows "token = split_on (CHR ''.'') token ! 0 @ ''.'' @ split_on (CHR ''.'') token ! 1 @ ''.''
    @ split_on (CHR ''.'') token ! 2"
proof -
  from assms obtain a b c where "split_on (CHR ''.'') token = [a, b, c]"
    by (auto simp: length_Suc_conv numeral_3_eq_3)
  with join_split_on [of "CHR ''.''" token] show ?thesis by simp
qed

section \<open>The session endpoint\<close>

text \<open>
  \<open>POST /v1/capability-sessions\<close> (\<open>gateway/src/capability-session-api.ts\<close>): the checks of
  \<open>parseSessionRequest\<close> in their order, and the handler. A handler's result is \<open>None\<close> where the code
  passes the request on with \<open>null\<close>.
\<close>

definition SESSION_REQUEST_KEYS :: "string list" where
  "SESSION_REQUEST_KEYS = [''depth'', ''authority'', ''scopes'', ''ttl_seconds'']"

record session_request =
  sr_grant :: capability_grant
  sr_ttl_seconds :: int

definition session_request_of :: "json \<Rightarrow> response + session_request" where
  "session_request_of parsed =
     (if \<not> is_record parsed
        then Inl (error_response 400 ''invalid_session_request'' ''session request must be a JSON object'')
      else
        (case find (\<lambda>k. k \<notin> set SESSION_REQUEST_KEYS) (keys_of (fields_of parsed)) of
           Some key \<Rightarrow> Inl (error_response 400 ''unknown_field'' (''unknown session request field: '' @ key))
         | None \<Rightarrow>
             if \<not> (is_integer (field parsed ''depth'') \<and> is_depth (int_of (field parsed ''depth'')))
               then Inl (error_response 400 ''invalid_depth'' ''depth must be an integer capability level D0..D6'')
             else if \<not> (is_integer (field parsed ''authority'') \<and> is_authority (int_of (field parsed ''authority'')))
               then Inl (error_response 400 ''invalid_authority'' ''authority must be an integer capability level A0..A4'')
             else if \<not> is_array (field parsed ''scopes'')
                     \<or> length (arr_of (field parsed ''scopes'')) > MAX_CAPABILITY_SESSION_SCOPES
               then Inl (error_response 400 ''invalid_scopes'' ''scopes must be an array with at most 64 entries'')
             else if \<not> is_integer (field parsed ''ttl_seconds'')
                     \<or> int_of (field parsed ''ttl_seconds'') < MIN_CAPABILITY_SESSION_TTL_SECONDS
                     \<or> int_of (field parsed ''ttl_seconds'') > MAX_CAPABILITY_SESSION_TTL_SECONDS
               then Inl (error_response 400 ''invalid_ttl'' ''ttl_seconds must be between 60 and 86400'')
             else if validate_capability_grant (int_of (field parsed ''depth'')) (int_of (field parsed ''authority''))
                       (arr_of (field parsed ''scopes'')) \<noteq> []
               then Inl (error_response 400 ''invalid_grant'' ''session grant contains invalid or duplicate scopes'')
             else Inr \<lparr>sr_grant = \<lparr>gr_depth = int_of (field parsed ''depth''),
                          gr_authority = int_of (field parsed ''authority''),
                          gr_scopes = map (\<lambda>s. str_of (Some s)) (arr_of (field parsed ''scopes''))\<rparr>,
                        sr_ttl_seconds = int_of (field parsed ''ttl_seconds'')\<rparr>))"

definition parse_session_request :: "runtime \<Rightarrow> request \<Rightarrow> response + session_request" where
  "parse_session_request rt r =
     (if \<not> json_content_type r
        then Inl (error_response 415 ''unsupported_media_type'' ''content-type must be application/json'')
      else
        (case check_declared_length rt r MAX_PUBLIC_REQUEST_BYTES of
           LengthInvalid \<Rightarrow> Inl (error_response 400 ''invalid_content_length'' ''invalid content-length'')
         | LengthTooLarge \<Rightarrow> Inl (error_response 413 ''request_too_large'' ''request body exceeds 1 MiB'')
         | LengthOk \<Rightarrow>
             if byte_length (rq_body r) > MAX_PUBLIC_REQUEST_BYTES
               then Inl (error_response 413 ''request_too_large'' ''request body exceeds 1 MiB'')
             else
               (case rt_json_parse rt (rq_body r) of
                  None \<Rightarrow> Inl (error_response 400 ''invalid_json'' ''request body must contain valid JSON'')
                | Some parsed \<Rightarrow> session_request_of parsed)))"

definition issued_session_json :: "string \<Rightarrow> session_claims \<Rightarrow> json" where
  "issued_session_json token claims =
     JObj [(''schema_version'', JInt 1), (''token_type'', JStr ''Bearer''), (''session_token'', JStr token),
           (''session_id'', JStr (cl_sid claims)), (''issued_at'', JInt (cl_iat claims)),
           (''expires_at'', JInt (cl_exp claims)),
           (''grant'', JObj [(''depth'', JInt (cl_depth claims)), (''authority'', JInt (cl_authority claims)),
                            (''scopes'', JArr (map JStr (cl_scopes claims)))])]"

definition handle_capability_session_request ::
  "runtime \<Rightarrow> request \<Rightarrow> gateway_config \<Rightarrow> int \<Rightarrow> string \<Rightarrow> string + response option" where
  "handle_capability_session_request rt r config now_ms uuid =
     (if u_pathname (rq_url r) \<noteq> ''/v1/capability-sessions'' then Inr None
      else if rq_method r \<noteq> ''POST''
        then Inr (Some (error_response 405 ''method_not_allowed'' ''POST required''))
      else if \<not> is_root_authorization r config
        then Inr (Some (error_response 401 ''root_authorization_required'' ''root bearer token required''))
      else
        (case truthy (cfg_api_token config) of
           None \<Rightarrow> Inr (Some (error_response 503 ''session_signing_unavailable'' ''capability session signing is unavailable''))
         | Some api_token \<Rightarrow>
             (case parse_session_request rt r of
                Inl response \<Rightarrow> Inr (Some response)
              | Inr parsed \<Rightarrow>
                  (case issue_capability_session rt api_token (sr_grant parsed) (sr_ttl_seconds parsed) now_ms uuid of
                     Inl e \<Rightarrow> Inl e
                   | Inr (token, claims) \<Rightarrow> Inr (Some (json_response (issued_session_json token claims) 201))))))"

lemma session_request_of_InrD:
  assumes "session_request_of v = Inr p"
  shows "grant_ok (sr_grant p)" and "MIN_CAPABILITY_SESSION_TTL_SECONDS \<le> sr_ttl_seconds p"
    and "sr_ttl_seconds p \<le> MAX_CAPABILITY_SESSION_TTL_SECONDS"
proof -
  from assms have errs: "validate_capability_grant (int_of (field v ''depth'')) (int_of (field v ''authority''))
      (arr_of (field v ''scopes'')) = []"
    and p: "sr_grant p = \<lparr>gr_depth = int_of (field v ''depth''), gr_authority = int_of (field v ''authority''),
        gr_scopes = map (\<lambda>s. str_of (Some s)) (arr_of (field v ''scopes''))\<rparr>"
    and ttl: "MIN_CAPABILITY_SESSION_TTL_SECONDS \<le> sr_ttl_seconds p \<and> sr_ttl_seconds p \<le> MAX_CAPABILITY_SESSION_TTL_SECONDS"
    by (auto simp: session_request_of_def split: if_splits option.splits)
  from errs obtain ss where "arr_of (field v ''scopes'') = map JStr ss"
    and "grant_ok \<lparr>gr_depth = int_of (field v ''depth''), gr_authority = int_of (field v ''authority''), gr_scopes = ss\<rparr>"
    by (rule validate_capability_grant_Nil)
  with p show "grant_ok (sr_grant p)" by (simp add: comp_def)
  from ttl show "MIN_CAPABILITY_SESSION_TTL_SECONDS \<le> sr_ttl_seconds p"
    "sr_ttl_seconds p \<le> MAX_CAPABILITY_SESSION_TTL_SECONDS" by simp_all
qed

lemma parse_session_request_InrD:
  "parse_session_request rt r = Inr p \<Longrightarrow> \<exists>v. rt_json_parse rt (rq_body r) = Some v \<and> session_request_of v = Inr p"
  by (auto simp: parse_session_request_def split: if_splits length_check.splits option.splits)

lemma issue_capability_session_ok:
  assumes "secret \<noteq> []" "grant_ok g" "MIN_CAPABILITY_SESSION_TTL_SECONDS \<le> ttl" "ttl \<le> MAX_CAPABILITY_SESSION_TTL_SECONDS"
  shows "\<exists>token claims. issue_capability_session rt secret g ttl now_ms uuid = Inr (token, claims)"
  using assms by (simp add: issue_capability_session_def grant_errors_Nil_iff Let_def)

section \<open>Properties\<close>

text \<open>
  The base64url codec of session tokens round-trips: decoding the encoding of any non-empty list
  of bytes gives it back.
\<close>

theorem base64_url_decode_encode:
  assumes "\<forall>b \<in> set bs. b < 256" and "bs \<noteq> []"
  shows "base64_url_decode (base64_url_encode bs) = Some bs"
  using assms by (rule base64_url_round_trip)

theorem base64_url_decode_encode_witness:
  "base64_url_decode (base64_url_encode [0, 255, 17, 128]) = Some [0, 255, 17, 128]"
  by (rule base64_url_decode_encode) simp_all

text \<open>
  C13. A token that verifies is signed and live: it has the form \<open>tqq1.payload.signature\<close>, the signature
  decodes to the HMAC of exactly this payload under this secret, the payload decodes to claims whose
  grant is well formed (levels in range, at most 64 distinct safe scopes), the claims are not issued
  more than a minute in the future, span at most a day and have not expired; and the context carries
  the claims' grant.
\<close>

theorem verify_capability_session_sound:
  assumes "verify_capability_session rt token secret now_ms = Some ctx"
  shows "\<exists>payload signature bytes claims.
     token = SESSION_TOKEN_PREFIX @ ''.'' @ payload @ ''.'' @ signature
     \<and> base64_url_decode signature = Some (sign_payload rt secret payload)
     \<and> base64_url_decode payload = Some bytes \<and> parse_claims rt bytes = Some claims
     \<and> ctx = session_context claims \<and> grant_ok (ac_grant ctx)
     \<and> cl_iat claims \<le> now_ms div 1000 + 60 \<and> now_ms div 1000 < cl_exp claims
     \<and> 0 < cl_exp claims - cl_iat claims
     \<and> cl_exp claims - cl_iat claims \<le> MAX_CAPABILITY_SESSION_TTL_SECONDS"
proof -
  let ?parts = "split_on (CHR ''.'') token"
  from assms obtain signature bytes claims where
    parts: "length ?parts = 3" "?parts ! 0 = SESSION_TOKEN_PREFIX"
    and sig: "base64_url_decode (?parts ! 2) = Some signature"
    and bytes: "base64_url_decode (?parts ! 1) = Some bytes"
    and ver: "verify_payload rt secret (?parts ! 1) signature"
    and claims: "parse_claims rt bytes = Some claims" and ctx: "ctx = session_context claims"
    and times: "cl_iat claims \<le> now_ms div 1000 + 60" "now_ms div 1000 < cl_exp claims"
      "cl_iat claims < cl_exp claims" "cl_exp claims - cl_iat claims \<le> MAX_CAPABILITY_SESSION_TTL_SECONDS"
    by (auto simp: verify_capability_session_def Let_def split: if_splits option.splits)
  have "token = SESSION_TOKEN_PREFIX @ ''.'' @ ?parts ! 1 @ ''.'' @ ?parts ! 2"
    using split_token_eq [OF parts(1)] parts(2) by simp
  moreover have "signature = sign_payload rt secret (?parts ! 1)"
    using ver by (simp add: verify_payload_def sign_payload_def)
  ultimately show ?thesis
    using sig bytes claims ctx times parse_claims_SomeD(1) [OF claims] by (intro exI conjI) auto
qed

text \<open>
  A freshly issued token is accepted exactly in its window. Assume HMAC-SHA-256 returns bytes, the
  session id is of the form \<open>randomUUID\<close> returns, the JSON and UTF-8 codecs give the claims back, and
  the token is within the size limit. Then verification under the same secret at any time yields the
  issued grant from a minute before the issue time until expiry, and nothing outside.
\<close>

theorem issued_session_verifies:
  assumes issued: "issue_capability_session rt secret grant ttl now_ms uuid = Inr (token, claims)"
    and hmac: "\<forall>k m. rt_hmac rt k m \<noteq> [] \<and> (\<forall>b \<in> set (rt_hmac rt k m). b < 256)"
    and nonempty: "utf8 (rt_json_text rt (claims_json claims)) \<noteq> []"
    and codec: "rt_json_parse rt (rt_utf8_decode rt (utf8 (rt_json_text rt (claims_json claims)))) = Some (claims_json claims)"
    and uuid: "safe_session_id uuid"
    and time: "0 \<le> now_ms" "now_ms \<le> 8640000000000000"
    and size: "byte_length token \<le> MAX_TOKEN_BYTES"
  shows "verify_capability_session rt token secret later_ms =
     (if now_ms div 1000 \<le> later_ms div 1000 + 60 \<and> later_ms div 1000 < now_ms div 1000 + ttl
      then Some \<lparr>ac_kind = SessionAuth, ac_grant = grant, ac_session_id = Some uuid,
                 ac_expires_at = Some (now_ms div 1000 + ttl)\<rparr>
      else None)"
proof -
  let ?text = "utf8 (rt_json_text rt (claims_json claims))"
  let ?payload = "base64_url_encode ?text"
  from issued have secret: "secret \<noteq> []" and grant: "grant_ok grant"
    and ttl: "MIN_CAPABILITY_SESSION_TTL_SECONDS \<le> ttl" "ttl \<le> MAX_CAPABILITY_SESSION_TTL_SECONDS"
    and claims: "claims = \<lparr>cl_sid = uuid, cl_iat = now_ms div 1000, cl_exp = now_ms div 1000 + ttl,
                   cl_depth = gr_depth grant, cl_authority = gr_authority grant, cl_scopes = gr_scopes grant\<rparr>"
    and token: "token = SESSION_TOKEN_PREFIX @ ''.'' @ ?payload @ ''.'' @ base64_url_encode (sign_payload rt secret ?payload)"
    by (auto simp: issue_capability_session_def grant_errors_Nil_iff Let_def split: if_splits)
  have bytes: "\<forall>b \<in> set ?text. b < 256"
    by (rule utf8_bytes)
  have sig: "\<forall>b \<in> set (sign_payload rt secret p). b < 256" "sign_payload rt secret p \<noteq> []" for p
    using hmac by (simp_all add: sign_payload_def)
  have nodot: "CHR ''.'' \<notin> set (base64_url_encode bs)" if "\<forall>b \<in> set bs. b < 256" for bs
    using base64_url_encode_chars [OF that, of "CHR ''.''"] by (auto simp: char_class_defs)
  have parts: "split_on (CHR ''.'') token = [SESSION_TOKEN_PREFIX, ?payload, base64_url_encode (sign_payload rt secret ?payload)]"
    unfolding token by (rule split_token) (rule nodot, rule bytes, rule nodot, rule sig)
  have "session_context claims = \<lparr>ac_kind = SessionAuth, ac_grant = grant, ac_session_id = Some uuid,
                 ac_expires_at = Some (now_ms div 1000 + ttl)\<rparr>"
    by (simp add: session_context_def claims)
  moreover have "parse_claims rt ?text = Some claims"
    by (rule parse_claims_round_trip [OF codec])
      (use uuid grant time ttl in \<open>simp_all add: claims session_context_def grant_ok_def max_safe_integer_def
         MAX_CAPABILITY_SESSION_TTL_SECONDS_def MIN_CAPABILITY_SESSION_TTL_SECONDS_def\<close>)
  moreover have "verify_payload rt secret ?payload (sign_payload rt secret ?payload)"
    by (simp add: verify_payload_def sign_payload_def)
  moreover have "base64_url_decode ?payload = Some ?text"
    by (rule base64_url_round_trip [OF bytes nonempty])
  moreover have "base64_url_decode (base64_url_encode (sign_payload rt secret p)) = Some (sign_payload rt secret p)" for p
    by (rule base64_url_round_trip [OF sig])
  moreover have "cl_iat claims = now_ms div 1000" "cl_exp claims = now_ms div 1000 + ttl"
    by (simp_all add: claims)
  ultimately show ?thesis
    using secret size ttl
    by (auto simp add: verify_capability_session_def parts MIN_CAPABILITY_SESSION_TTL_SECONDS_def Let_def)
qed

text \<open>Concrete claims, and a runtime whose JSON codec knows them alone.\<close>

definition example_claims :: session_claims where
  "example_claims = \<lparr>cl_sid = ''0000-1111'', cl_iat = 1000, cl_exp = 1060, cl_depth = 2, cl_authority = 1,
     cl_scopes = [''task:submit'']\<rparr>"

definition example_grant :: capability_grant where
  "example_grant = \<lparr>gr_depth = 2, gr_authority = 1, gr_scopes = [''task:submit'']\<rparr>"

definition example_runtime :: runtime where
  "example_runtime = null_runtime\<lparr>rt_json_text := (\<lambda>v. ''{}''), rt_json_parse := (\<lambda>s. Some (claims_json example_claims))\<rparr>"

definition example_token :: string where
  "example_token = ''tqq1.e30.AAAAAAAAAAAAAAAAAAAAAAAAAAAAAAAAAAAAAAAAAAA''"

lemma example_issued:
  "issue_capability_session example_runtime ''root'' example_grant 60 1000500 ''0000-1111'' =
     Inr (example_token, example_claims)"
  by code_simp

theorem issued_session_verifies_witness:
  "verify_capability_session example_runtime example_token ''root'' 1059999 =
     Some \<lparr>ac_kind = SessionAuth, ac_grant = example_grant, ac_session_id = Some ''0000-1111'',
           ac_expires_at = Some 1060\<rparr>"
proof -
  have "byte_length example_token \<le> MAX_TOKEN_BYTES" and "safe_session_id ''0000-1111''"
    and "rt_json_text example_runtime v = ''{}''" "rt_hmac example_runtime k m = replicate 32 0"
    and "rt_json_parse example_runtime s = Some (claims_json example_claims)" for v k m s
    by (code_simp, code_simp, simp_all add: example_runtime_def null_runtime_def)
  then show ?thesis
    using issued_session_verifies [OF example_issued, of 1059999] by simp
qed

theorem verify_capability_session_sound_witness:
  "\<exists>payload signature bytes claims.
     example_token = SESSION_TOKEN_PREFIX @ ''.'' @ payload @ ''.'' @ signature
     \<and> base64_url_decode signature = Some (sign_payload example_runtime ''root'' payload)
     \<and> base64_url_decode payload = Some bytes \<and> parse_claims example_runtime bytes = Some claims
     \<and> session_context example_claims = session_context claims
     \<and> grant_ok (ac_grant (session_context example_claims))
     \<and> cl_iat claims \<le> 1059999 div 1000 + 60 \<and> 1059999 div 1000 < cl_exp claims
     \<and> 0 < cl_exp claims - cl_iat claims
     \<and> cl_exp claims - cl_iat claims \<le> MAX_CAPABILITY_SESSION_TTL_SECONDS"
  by (rule verify_capability_session_sound) code_simp

lemma resolve_context_iff:
  "resolve_authorization_context rt r config now_ms = Inr (Some ctx) \<longleftrightarrow>
     (case ac_kind ctx of
        RootAuth \<Rightarrow> ctx = compat_context RootAuth \<and> is_root_authorization r config
      | DevelopmentAuth \<Rightarrow> ctx = compat_context DevelopmentAuth \<and> cfg_allow_unauthenticated config
          \<and> truthy (cfg_api_token config) = None
      | SessionAuth \<Rightarrow> (\<exists>token api_token. bearer_token r = Some token \<and> cfg_api_token config = Some api_token
          \<and> api_token \<noteq> [] \<and> token \<noteq> api_token
          \<and> (verify_capability_session rt token api_token now_ms = Some ctx
             \<or> verify_capability_session rt token api_token now_ms = None
               \<and> (\<exists>origin secret. cfg_public_origin config = Some origin \<and> origin \<noteq> []
                    \<and> derive_oauth_resource_session_secret rt api_token (origin @ ''/mcp'') = Inr secret
                    \<and> verify_capability_session rt token secret now_ms = Some ctx)))
      | InternalAuth \<Rightarrow> False)"
proof -
  have session: "verify_capability_session rt token secret now_ms = Some ctx \<Longrightarrow> ac_kind ctx = SessionAuth"
    for token secret
    by (auto simp: verify_capability_session_def session_context_def Let_def split: if_splits option.splits)
  show ?thesis
    by (cases "truthy (cfg_api_token config)")
      (auto simp: resolve_authorization_context_def is_root_authorization_def compat_context_def
        dest: session split: auth_kind.splits option.splits sum.splits if_splits)
qed

text \<open>
  Who a request is. A request resolves to root authority exactly when its bearer token is the
  configured API token, to development authority exactly when unauthenticated use is allowed and no API
  token is configured, and to a session exactly when an API token is configured, the bearer token
  differs from it and verifies under the API token itself or, only if that fails, under the secret
  derived for the public origin's \<open>/mcp\<close> resource; it never resolves to the internal authority.
\<close>

theorem resolve_authorization_context_cases:
  "resolve_authorization_context rt r config now_ms = Inr (Some ctx) \<longleftrightarrow>
     (case ac_kind ctx of
        RootAuth \<Rightarrow> ctx = compat_context RootAuth \<and> is_root_authorization r config
      | DevelopmentAuth \<Rightarrow> ctx = compat_context DevelopmentAuth \<and> cfg_allow_unauthenticated config
          \<and> truthy (cfg_api_token config) = None
      | SessionAuth \<Rightarrow> (\<exists>token api_token. bearer_token r = Some token \<and> cfg_api_token config = Some api_token
          \<and> api_token \<noteq> [] \<and> token \<noteq> api_token
          \<and> (verify_capability_session rt token api_token now_ms = Some ctx
             \<or> verify_capability_session rt token api_token now_ms = None
               \<and> (\<exists>origin secret. cfg_public_origin config = Some origin \<and> origin \<noteq> []
                    \<and> derive_oauth_resource_session_secret rt api_token (origin @ ''/mcp'') = Inr secret
                    \<and> verify_capability_session rt token secret now_ms = Some ctx)))
      | InternalAuth \<Rightarrow> False)"
  by (rule resolve_context_iff)

text \<open>
  The session endpoint never fails, and mints a token only for the root bearer: the handler does not
  throw, and a response with status 201 means a \<open>POST\<close> whose bearer token is the API token and whose
  body parsed to a well-formed grant and a lifetime between a minute and a day, its body being that of
  the token issued for exactly that grant and lifetime under the API token.
\<close>

theorem session_endpoint_root_only:
  "\<exists>res. handle_capability_session_request rt r config now_ms uuid = Inr res
     \<and> (case res of None \<Rightarrow> u_pathname (rq_url r) \<noteq> ''/v1/capability-sessions''
        | Some response \<Rightarrow> rs_status response \<noteq> 201
            \<or> rq_method r = ''POST'' \<and> is_root_authorization r config
              \<and> (\<exists>api_token p token claims. cfg_api_token config = Some api_token
                   \<and> parse_session_request rt r = Inr p \<and> grant_ok (sr_grant p)
                   \<and> 60 \<le> sr_ttl_seconds p \<and> sr_ttl_seconds p \<le> 86400
                   \<and> issue_capability_session rt api_token (sr_grant p) (sr_ttl_seconds p) now_ms uuid = Inr (token, claims)
                   \<and> response = json_response (issued_session_json token claims) 201))"
proof -
  have err: "rs_status e \<noteq> 201" if "parse_session_request rt r = Inl e" for e
    using that by (auto simp: parse_session_request_def session_request_of_def
        split: if_splits length_check.splits option.splits)
  show ?thesis
  proof (cases "parse_session_request rt r")
    case (Inl e)
    with err [OF Inl] show ?thesis
      by (auto simp: handle_capability_session_request_def split: option.split)
  next
    case (Inr p)
    then obtain v where "session_request_of v = Inr p" by (blast dest: parse_session_request_InrD)
    note ok = session_request_of_InrD [OF this]
    show ?thesis
    proof (cases "truthy (cfg_api_token config)")
      case (Some api_token)
      then obtain token claims where
        "issue_capability_session rt api_token (sr_grant p) (sr_ttl_seconds p) now_ms uuid = Inr (token, claims)"
        using issue_capability_session_ok [OF _ ok, of api_token rt now_ms uuid] by auto
      with Some Inr ok show ?thesis
        by (simp add: handle_capability_session_request_def MIN_CAPABILITY_SESSION_TTL_SECONDS_def
            MAX_CAPABILITY_SESSION_TTL_SECONDS_def)
    qed (simp add: handle_capability_session_request_def)
  qed
qed


definition session_request_runtime :: runtime where
  "session_request_runtime = null_runtime\<lparr>rt_json_text := (\<lambda>v. ''{}''),
     rt_json_parse := (\<lambda>s. Some (JObj [(''depth'', JInt 2), (''authority'', JInt 1),
       (''scopes'', JArr [JStr ''task.read'']), (''ttl_seconds'', JInt 60)]))\<rparr>"

theorem session_endpoint_root_only_witness:
  "\<exists>token claims. handle_capability_session_request session_request_runtime
       (example_request ''POST'' ''/v1/capability-sessions'' ''root'') example_config 1000500 ''0000-1111'' =
     Inr (Some (json_response (issued_session_json token claims) 201))"
proof -
  let ?r = "example_request ''POST'' ''/v1/capability-sessions'' ''root''"
  let ?p = "\<lparr>sr_grant = \<lparr>gr_depth = 2, gr_authority = 1, gr_scopes = [''task.read'']\<rparr>, sr_ttl_seconds = 60\<rparr>"
  let ?v = "JObj [(''depth'', JInt 2), (''authority'', JInt 1), (''scopes'', JArr [JStr ''task.read'']),
    (''ttl_seconds'', JInt 60)]"
  have "json_content_type ?r" "header ?r ''content-length'' = None" "byte_length ''{}'' = 2"
    "session_request_of ?v = Inr ?p"
    by code_simp+
  then have p: "parse_session_request session_request_runtime ?r = Inr ?p"
    by (simp add: parse_session_request_def check_declared_length_def MAX_PUBLIC_REQUEST_BYTES_def session_request_runtime_def)
  have "safe_scope ''task.read'' \<and> byte_length ''task.read'' \<le> MAX_SCOPE_BYTES" by code_simp
  then obtain token claims where
    "issue_capability_session session_request_runtime ''root'' (sr_grant ?p) 60 1000500 ''0000-1111'' = Inr (token, claims)"
    using issue_capability_session_ok [of "''root''" "sr_grant ?p" 60 session_request_runtime 1000500 "''0000-1111''"]
    by (auto simp: MIN_CAPABILITY_SESSION_TTL_SECONDS_def MAX_CAPABILITY_SESSION_TTL_SECONDS_def grant_ok_def
        is_depth_iff is_authority_iff MAX_CAPABILITY_SESSION_SCOPES_def)
  moreover have "truthy (cfg_api_token example_config) = Some ''root''" by code_simp
  moreover have "is_root_authorization ?r example_config" by code_simp
  ultimately have "case handle_capability_session_request session_request_runtime ?r example_config 1000500 ''0000-1111'' of
      Inr (Some x) \<Rightarrow> rs_status x = 201 | _ \<Rightarrow> False"
    by (simp add: handle_capability_session_request_def p)
  with session_endpoint_root_only [of session_request_runtime ?r example_config 1000500 "''0000-1111''"]
  show ?thesis by (auto split: option.splits)
qed

end
