(* ===== verification/Access.thy ===== *)
theory Access
  imports Sessions
begin

text \<open>
  The capability gate in front of the gateway's routes (\<open>gateway/src/capability-access.ts\<close>): which
  capability a route needs, the decision on the resolved authority, and the rewriting of a session's
  request to the root bearer token that the handlers behind the gate expect.
\<close>

section \<open>The table of guarded routes\<close>

text \<open>The test of \<open>/^prefix[^/]+suffix$/\<close>.\<close>

definition mid_segment :: "string \<Rightarrow> string \<Rightarrow> string \<Rightarrow> bool" where
  "mid_segment prefix suffix path \<longleftrightarrow>
     (let rest = drop (length prefix) path;
          segment = take (length rest - length suffix) rest
      in starts_with path prefix \<and> ends_with rest suffix \<and> segment \<noteq> [] \<and> CHR ''/'' \<notin> set segment)"

definition required_surface :: "string \<Rightarrow> string \<Rightarrow> string option" where
  "required_surface path verb =
     (if path = ''/v1/tasks'' \<and> verb = ''POST'' then Some ''task.submit''
      else if mid_segment ''/v1/tasks/'' '''' path \<and> verb = ''GET'' then Some ''task.inspect''
      else if path = ''/v1/workflows'' \<and> verb = ''POST'' then Some ''workflow.submit''
      else if mid_segment ''/v1/workflows/'' '''' path \<and> verb = ''GET'' then Some ''workflow.inspect''
      else if mid_segment ''/v1/workflows/'' ''/result'' path \<and> verb = ''GET'' then Some ''workflow.result''
      else if mid_segment ''/v1/workflows/'' ''/cancel'' path \<and> verb = ''POST'' then Some ''workflow.cancel''
      else if path = ''/v1/filesystem/list'' \<and> verb = ''POST'' then Some ''filesystem.list''
      else if path = ''/v1/filesystem/stat'' \<and> verb = ''POST'' then Some ''filesystem.stat''
      else if path = ''/v1/filesystem/read'' \<and> verb = ''POST'' then Some ''filesystem.read''
      else if path = ''/v1/filesystem/write'' \<and> verb = ''POST'' then Some ''filesystem.write''
      else if path = ''/v1/filesystem/mkdir'' \<and> verb = ''POST'' then Some ''filesystem.mkdir''
      else if path = ''/v1/git/head'' \<and> verb = ''GET'' then Some ''git.head''
      else if path = ''/v1/git/log'' \<and> verb = ''GET'' then Some ''git.log''
      else if path = ''/v1/git/refs'' \<and> verb = ''GET'' then Some ''git.refs''
      else None)"

section \<open>The gate\<close>

fun blocker_text :: "blocker \<Rightarrow> string" where
  "blocker_text BlockedByDepth = ''depth''"
| "blocker_text BlockedByAuthority = ''authority''"
| "blocker_text BlockedByScope = ''scope''"

definition authorize_descriptor :: "authorization_context \<Rightarrow> capability_descriptor \<Rightarrow> response option" where
  "authorize_descriptor auth d =
     (let decision = evaluate_capability_grant (ac_grant auth) d;
          reasons = join '','' (map blocker_text (dc_blocked_by decision))
      in if dc_allowed decision then None
         else Some (error_response 403 ''capability_denied''
                (cd_name d @ '' denied by '' @ (if reasons = [] then ''policy'' else reasons))))"

definition task_descriptor_from_request :: "runtime \<Rightarrow> request \<Rightarrow> capability_descriptor option" where
  "task_descriptor_from_request rt r =
     (case rt_json_parse rt (rq_body r) of
        None \<Rightarrow> None
      | Some parsed \<Rightarrow>
          if \<not> is_record parsed then None
          else if \<not> is_string (field parsed ''type'') then None
          else
            (case get_capability CAPABILITY_REGISTRY (str_of (field parsed ''type'')) of
               None \<Rightarrow> None
             | Some d \<Rightarrow> if cd_kind d = Task then Some d else None))"

definition internalize_authorization ::
  "request \<Rightarrow> gateway_config \<Rightarrow> authorization_context \<Rightarrow> request" where
  "internalize_authorization r config auth =
     (case truthy (cfg_api_token config) of
        None \<Rightarrow> r
      | Some api_token \<Rightarrow>
          if ac_kind auth \<noteq> SessionAuth then r
          else r\<lparr>rq_headers := map_set ''authorization'' (''Bearer '' @ api_token) (rq_headers r)\<rparr>)"

datatype enforced = Admitted request | Refused response

definition enforce_capability_access ::
  "runtime \<Rightarrow> request \<Rightarrow> gateway_config \<Rightarrow> int \<Rightarrow> string + enforced" where
  "enforce_capability_access rt r config now_ms =
     (case required_surface (u_pathname (rq_url r)) (rq_method r) of
        None \<Rightarrow> Inr (Admitted r)
      | Some surface_name \<Rightarrow>
          (case resolve_authorization_context rt r config now_ms of
             Inl e \<Rightarrow> Inl e
           | Inr None \<Rightarrow> Inr (Refused (error_response 401 ''unauthorized''
                               ''valid root or capability-session bearer token required''))
           | Inr (Some auth) \<Rightarrow>
               (case get_capability CAPABILITY_REGISTRY surface_name of
                  None \<Rightarrow> Inr (Refused (error_response 500 ''capability_registry_invalid''
                            (surface_name @ '' descriptor is missing'')))
                | Some surface \<Rightarrow>
                    (case authorize_descriptor auth surface of
                       Some denied \<Rightarrow> Inr (Refused denied)
                     | None \<Rightarrow>
                         (let admitted = Admitted (internalize_authorization r config auth)
                          in if u_pathname (rq_url r) = ''/v1/tasks'' \<and> rq_method r = ''POST''
                             then (case task_descriptor_from_request rt r of
                                     None \<Rightarrow> Inr admitted
                                   | Some d \<Rightarrow>
                                       (case authorize_descriptor auth d of
                                          Some denied \<Rightarrow> Inr (Refused denied)
                                        | None \<Rightarrow> Inr admitted))
                             else Inr admitted)))))"

section \<open>Routes and the registry\<close>

text \<open>
  A registry route as a pattern: a segment \<open>:id\<close> stands for any non-empty segment, every other segment
  for itself.
\<close>

definition segment_matches :: "string \<Rightarrow> string \<Rightarrow> bool" where
  "segment_matches t s \<longleftrightarrow> (if starts_with t '':'' then s \<noteq> [] else s = t)"

definition route_matches :: "string \<Rightarrow> string \<Rightarrow> bool" where
  "route_matches route path \<longleftrightarrow>
     list_all2 segment_matches (split_on (CHR ''/'') route) (split_on (CHR ''/'') path)"

text \<open>The three routes that answer before the gate, or without authority.\<close>

definition ungated :: "string list" where
  "ungated = [''system.health'', ''system.readiness'', ''system.capabilities'']"

definition registry_routes :: "(string \<times> string \<times> string list) list" where
  "registry_routes =
     [(cd_name d, verb, split_on (CHR ''/'') route).
        (k, d) \<leftarrow> CAPABILITY_REGISTRY, k \<notin> set ungated,
        route \<leftarrow> (case cd_route d of None \<Rightarrow> [] | Some route \<Rightarrow> [route]),
        verb \<leftarrow> (case cd_method d of None \<Rightarrow> [] | Some verb \<Rightarrow> [verb])]"

lemma mid_segment_iff:
  "mid_segment prefix suffix path \<longleftrightarrow>
     (\<exists>segment. path = prefix @ segment @ suffix \<and> segment \<noteq> [] \<and> CHR ''/'' \<notin> set segment)"
proof
  assume a: "mid_segment prefix suffix path"
  define rest where "rest = drop (length prefix) path"
  define segment where "segment = take (length rest - length suffix) rest"
  from a obtain t where "path = prefix @ t"
    by (auto simp: mid_segment_def starts_with_iff Let_def)
  then have "path = prefix @ rest" by (simp add: rest_def)
  moreover have "rest = segment @ suffix"
  proof -
    from a have "ends_with rest suffix" by (simp only: mid_segment_def Let_def rest_def)
    then show ?thesis by (auto simp: ends_with_iff segment_def)
  qed
  moreover from a have "segment \<noteq> []" "CHR ''/'' \<notin> set segment"
    by (simp_all only: mid_segment_def Let_def rest_def segment_def not_False_eq_True simp_thms)
  ultimately show "\<exists>segment. path = prefix @ segment @ suffix \<and> segment \<noteq> [] \<and> CHR ''/'' \<notin> set segment"
    by auto
next
  assume "\<exists>segment. path = prefix @ segment @ suffix \<and> segment \<noteq> [] \<and> CHR ''/'' \<notin> set segment"
  then show "mid_segment prefix suffix path"
    by (auto simp: mid_segment_def starts_with_iff ends_with_iff Let_def)
qed

lemma split_on_inject: "split_on d s = split_on d t \<longleftrightarrow> s = t"
  by (metis join_split_on)

lemma mid_segment_split:
  "mid_segment prefix suffix path \<longleftrightarrow>
     (\<exists>segment. split_on (CHR ''/'') path = split_on (CHR ''/'') (prefix @ segment @ suffix)
        \<and> segment \<noteq> [] \<and> CHR ''/'' \<notin> set segment)"
  by (simp add: mid_segment_iff split_on_inject)

lemma registry_routes_eq:
  "registry_routes =
     [(''task.inspect'', ''GET'', ['''', ''v1'', ''tasks'', '':id'']),
      (''task.submit'', ''POST'', ['''', ''v1'', ''tasks'']),
      (''workflow.inspect'', ''GET'', ['''', ''v1'', ''workflows'', '':id'']),
      (''workflow.result'', ''GET'', ['''', ''v1'', ''workflows'', '':id'', ''result'']),
      (''workflow.cancel'', ''POST'', ['''', ''v1'', ''workflows'', '':id'', ''cancel'']),
      (''workflow.submit'', ''POST'', ['''', ''v1'', ''workflows'']),
      (''filesystem.list'', ''POST'', ['''', ''v1'', ''filesystem'', ''list'']),
      (''filesystem.stat'', ''POST'', ['''', ''v1'', ''filesystem'', ''stat'']),
      (''filesystem.read'', ''POST'', ['''', ''v1'', ''filesystem'', ''read'']),
      (''filesystem.write'', ''POST'', ['''', ''v1'', ''filesystem'', ''write'']),
      (''filesystem.mkdir'', ''POST'', ['''', ''v1'', ''filesystem'', ''mkdir'']),
      (''git.head'', ''GET'', ['''', ''v1'', ''git'', ''head'']),
      (''git.log'', ''GET'', ['''', ''v1'', ''git'', ''log'']),
      (''git.refs'', ''GET'', ['''', ''v1'', ''git'', ''refs''])]"
  by code_simp

lemma segment_matches_simps:
  "segment_matches '':id'' s \<longleftrightarrow> s \<noteq> []" "c \<noteq> CHR '':'' \<Longrightarrow> segment_matches (c # t) s \<longleftrightarrow> s = c # t"
  "segment_matches [] s \<longleftrightarrow> s = []"
  by (auto simp: segment_matches_def starts_with_def)

lemma mid_segment_pieces_gen:
  assumes "\<And>seg. CHR ''/'' \<notin> set seg \<Longrightarrow> split_on (CHR ''/'') (prefix @ seg @ suffix) = pre @ seg # post"
  shows "mid_segment prefix suffix path \<longleftrightarrow>
    (\<exists>seg. split_on (CHR ''/'') path = pre @ seg # post \<and> seg \<noteq> [])"
proof
  assume "mid_segment prefix suffix path"
  then show "\<exists>seg. split_on (CHR ''/'') path = pre @ seg # post \<and> seg \<noteq> []"
    using assms by (auto simp: mid_segment_iff)
next
  assume "\<exists>seg. split_on (CHR ''/'') path = pre @ seg # post \<and> seg \<noteq> []"
  then obtain seg where seg: "split_on (CHR ''/'') path = pre @ seg # post" "seg \<noteq> []" by blast
  then have "CHR ''/'' \<notin> set seg" using split_on_no_sep [of seg "CHR ''/''" path] by simp
  with seg assms [of seg] have "path = prefix @ seg @ suffix" by (metis split_on_inject)
  with seg \<open>CHR ''/'' \<notin> set seg\<close> show "mid_segment prefix suffix path"
    by (auto simp: mid_segment_iff)
qed

lemma mid_segment_pieces:
  "mid_segment ''/v1/tasks/'' '''' path \<longleftrightarrow>
     (\<exists>seg. split_on (CHR ''/'') path = ['''', ''v1'', ''tasks''] @ [seg] \<and> seg \<noteq> [])"
  "mid_segment ''/v1/workflows/'' '''' path \<longleftrightarrow>
     (\<exists>seg. split_on (CHR ''/'') path = ['''', ''v1'', ''workflows''] @ [seg] \<and> seg \<noteq> [])"
  "mid_segment ''/v1/workflows/'' ''/result'' path \<longleftrightarrow>
     (\<exists>seg. split_on (CHR ''/'') path = ['''', ''v1'', ''workflows''] @ seg # [''result''] \<and> seg \<noteq> [])"
  "mid_segment ''/v1/workflows/'' ''/cancel'' path \<longleftrightarrow>
     (\<exists>seg. split_on (CHR ''/'') path = ['''', ''v1'', ''workflows''] @ seg # [''cancel''] \<and> seg \<noteq> [])"
  by (rule mid_segment_pieces_gen, simp add: split_on_append split_on_single)+

text \<open>Case analysis on a chain of conditionals, forgetting the conditions that failed.\<close>

lemma if_SomeE:
  assumes "(if c then Some a else x) = Some b" and "c \<Longrightarrow> a = b \<Longrightarrow> thesis" and "x = Some b \<Longrightarrow> thesis"
  shows thesis
  using assms by (simp split: if_splits)

lemma path_join: "split_on (CHR ''/'') path = ps \<Longrightarrow> path = join ''/'' ps"
  using join_split_on [of "CHR ''/''" path] by simp

lemma gate_table:
  "required_surface path verb = Some name \<longleftrightarrow>
     (\<exists>segments. (name, verb, segments) \<in> set registry_routes
        \<and> list_all2 segment_matches segments (split_on (CHR ''/'') path))"
proof
  assume "required_surface path verb = Some name"
  then have "list_ex (\<lambda>(n, v, segments). name = n \<and> verb = v
        \<and> list_all2 segment_matches segments (split_on (CHR ''/'') path)) registry_routes"
    unfolding required_surface_def mid_segment_pieces registry_routes_eq
    by (elim if_SomeE conjE exE; (hypsubst | simp only: append.simps)?;
        simp add: segment_matches_simps)
  then show "\<exists>segments. (name, verb, segments) \<in> set registry_routes
        \<and> list_all2 segment_matches segments (split_on (CHR ''/'') path)"
    by (auto simp: list_ex_iff)
next
  assume "\<exists>segments. (name, verb, segments) \<in> set registry_routes
        \<and> list_all2 segment_matches segments (split_on (CHR ''/'') path)"
  then obtain segments where "(name, verb, segments) \<in> set registry_routes"
    and all: "list_all2 segment_matches segments (split_on (CHR ''/'') path)" by blast
  then show "required_surface path verb = Some name"
    unfolding registry_routes_eq list.set insert_iff empty_iff prod.inject
  proof (elim disjE conjE FalseE; hypsubst)
  qed (unfold list_all2_Cons1 list_all2_Nil segment_matches_simps,
      (elim exE conjE; simp add: segment_matches_simps; frule path_join;
       simp add: required_surface_def mid_segment_pieces)+)
qed

text \<open>
  C14. The gate guards what the registry advertises: \<open>requiredSurface\<close> answers a path and method with a
  capability exactly when the registry has that capability (the three ungated system ones apart) with
  this method and a route that the path is an instance of. So no advertised route bypasses the gate,
  and the gate asks for the capability the catalogue shows for the route.
\<close>

theorem gate_matches_registry:
  "required_surface path verb = Some name \<longleftrightarrow>
     (\<exists>segments. (name, verb, segments) \<in> set registry_routes
        \<and> list_all2 segment_matches segments (split_on (CHR ''/'') path))"
  by (rule gate_table)

lemma registry_complete:
  "required_surface path verb = Some name \<Longrightarrow> \<exists>d. get_capability CAPABILITY_REGISTRY name = Some d \<and> cd_name d = name"
proof -
  have "\<forall>(n, v, s) \<in> set registry_routes. (case map_of CAPABILITY_REGISTRY n of None \<Rightarrow> False | Some d \<Rightarrow> cd_name d = n)"
    by code_simp
  moreover assume "required_surface path verb = Some name"
  then obtain segments where "(name, verb, segments) \<in> set registry_routes"
    unfolding gate_table by blast
  ultimately show ?thesis by (fastforce simp: get_capability_def split: option.splits)
qed

lemma authorize_descriptor_None [simp]:
  "authorize_descriptor ctx d = None \<longleftrightarrow> dc_allowed (evaluate_capability_grant (ac_grant ctx) d)"
  by (simp add: authorize_descriptor_def Let_def)

lemma authorize_descriptor_Some:
  "authorize_descriptor ctx d = Some res \<Longrightarrow>
     \<not> dc_allowed (evaluate_capability_grant (ac_grant ctx) d) \<and> rs_status res = 403"
  by (auto simp: authorize_descriptor_def Let_def split: if_splits)

lemma task_submit_route:
  "required_surface path verb = Some ''task.submit'' \<longleftrightarrow> path = ''/v1/tasks'' \<and> verb = ''POST''"
  by (auto simp: required_surface_def mid_segment_def split: if_splits)

lemma internalize_simps [simp]:
  "rq_method (internalize_authorization r config ctx) = rq_method r"
  "rq_url (internalize_authorization r config ctx) = rq_url r"
  "rq_body (internalize_authorization r config ctx) = rq_body r"
  by (auto simp: internalize_authorization_def split: option.split)

text \<open>What the handlers behind the gate check holds of the rewritten request.\<close>

lemma internalize_root:
  assumes "resolve_authorization_context rt r config now_ms = Inr (Some ctx)"
  shows "is_root_authorization (internalize_authorization r config ctx) config
      \<or> cfg_allow_unauthenticated config \<and> ac_kind ctx = DevelopmentAuth"
proof -
  consider "ac_kind ctx = RootAuth" "is_root_authorization r config"
    | "ac_kind ctx = DevelopmentAuth" "cfg_allow_unauthenticated config"
    | api_token where "ac_kind ctx = SessionAuth" "cfg_api_token config = Some api_token" "api_token \<noteq> []"
    using assms by (auto simp: resolve_context_iff split: auth_kind.splits)
  then show ?thesis
    by cases (auto simp: internalize_authorization_def is_root_authorization_iff bearer_token_Some header_def
        split: option.split)
qed

text \<open>
  C2. What the gate lets through. When a request to a guarded route is admitted, its authority was
  resolved and its grant covers the route's registry capability; a submission of a registered task
  type is moreover covered by that task's own capability. The request reaches the handlers unchanged
  but for its \<open>authorization\<close> header, and there passes the root check (or the gateway runs
  unauthenticated and no token is configured); only a session's request is rewritten.
\<close>

theorem gate_admits_only_granted:
  assumes "enforce_capability_access rt r config now_ms = Inr (Admitted r')"
    and "required_surface (u_pathname (rq_url r)) (rq_method r) = Some surface"
  shows "\<exists>ctx d. resolve_authorization_context rt r config now_ms = Inr (Some ctx)
     \<and> get_capability CAPABILITY_REGISTRY surface = Some d
     \<and> dc_allowed (evaluate_capability_grant (ac_grant ctx) d)
     \<and> (surface = ''task.submit'' \<longrightarrow>
          (\<forall>t. task_descriptor_from_request rt r = Some t \<longrightarrow> dc_allowed (evaluate_capability_grant (ac_grant ctx) t)))
     \<and> rq_method r' = rq_method r \<and> rq_url r' = rq_url r \<and> rq_body r' = rq_body r
     \<and> (is_root_authorization r' config \<or> cfg_allow_unauthenticated config \<and> ac_kind ctx = DevelopmentAuth)
     \<and> (ac_kind ctx \<noteq> SessionAuth \<longrightarrow> r' = r)"
proof -
  have submit: "u_pathname (rq_url r) = ''/v1/tasks'' \<and> rq_method r = ''POST'' \<longleftrightarrow> surface = ''task.submit''"
    using assms(2) task_submit_route [of "u_pathname (rq_url r)" "rq_method r"] by auto
  from assms obtain ctx d where ctx: "resolve_authorization_context rt r config now_ms = Inr (Some ctx)"
    and d: "get_capability CAPABILITY_REGISTRY surface = Some d"
    and allowed: "dc_allowed (evaluate_capability_grant (ac_grant ctx) d)"
    and r': "r' = internalize_authorization r config ctx"
    and task: "surface = ''task.submit'' \<longrightarrow>
      (\<forall>t. task_descriptor_from_request rt r = Some t \<longrightarrow> dc_allowed (evaluate_capability_grant (ac_grant ctx) t))"
    unfolding enforce_capability_access_def submit
    by (auto simp: Let_def split: sum.splits option.splits if_splits)
  moreover have "ac_kind ctx \<noteq> SessionAuth \<longrightarrow> r' = r"
    by (simp add: r' internalize_authorization_def split: option.split)
  ultimately show ?thesis using internalize_root [OF ctx] by (simp add: r')
qed

text \<open>
  Why the gate refuses. On a guarded route the gate answers 401 exactly when no authority resolves,
  otherwise refuses with 403 exactly when the grant misses the route's capability or the capability of
  the submitted registered task; the registry never lacks the capability (there is no 500).
\<close>

theorem gate_refuses_only_denied:
  assumes "required_surface (u_pathname (rq_url r)) (rq_method r) = Some surface"
    and "resolve_authorization_context rt r config now_ms = Inr auth"
  shows "\<exists>d. get_capability CAPABILITY_REGISTRY surface = Some d
     \<and> (let granted = (\<lambda>ctx. dc_allowed (evaluate_capability_grant (ac_grant ctx) d)
              \<and> (surface = ''task.submit'' \<longrightarrow>
                   (case task_descriptor_from_request rt r of None \<Rightarrow> True
                    | Some t \<Rightarrow> dc_allowed (evaluate_capability_grant (ac_grant ctx) t))))
        in case enforce_capability_access rt r config now_ms of
             Inl e \<Rightarrow> False
           | Inr (Admitted r') \<Rightarrow> (\<exists>ctx. auth = Some ctx \<and> granted ctx)
           | Inr (Refused res) \<Rightarrow>
               rs_status res = 401 \<and> auth = None \<or> rs_status res = 403 \<and> (\<exists>ctx. auth = Some ctx \<and> \<not> granted ctx))"
proof -
  obtain d where "get_capability CAPABILITY_REGISTRY surface = Some d"
    using registry_complete [OF assms(1)] by blast
  then show ?thesis
    using assms(2) assms(1) task_submit_route [of "u_pathname (rq_url r)" "rq_method r"]
    by (cases auth) (auto simp: enforce_capability_access_def dest!: authorize_descriptor_Some
        split: option.splits)
qed

text \<open>An issued session with depth 2 asks for the git head, which needs a deeper grant; the root may.\<close>

definition example_gate :: "string \<Rightarrow> string + enforced" where
  "example_gate token =
     enforce_capability_access example_runtime (example_request ''GET'' ''/v1/git/head'' token) example_config 1059999"

lemma example_gate_root: "example_gate ''root'' = Inr (Admitted (example_request ''GET'' ''/v1/git/head'' ''root''))"
  by code_simp

theorem gate_admits_only_granted_witness:
  "\<exists>ctx d. resolve_authorization_context example_runtime (example_request ''GET'' ''/v1/git/head'' ''root'')
            example_config 1059999 = Inr (Some ctx)
     \<and> get_capability CAPABILITY_REGISTRY ''git.head'' = Some d
     \<and> dc_allowed (evaluate_capability_grant (ac_grant ctx) d)"
proof -
  have "required_surface ''/v1/git/head'' ''GET'' = Some ''git.head''" by code_simp
  then show ?thesis
    using gate_admits_only_granted [OF example_gate_root [unfolded example_gate_def], of "''git.head''"]
    by auto
qed

theorem gate_refuses_only_denied_witness:
  "\<exists>res. example_gate example_token = Inr (Refused res) \<and> rs_status res = 403"
proof -
  have surface: "required_surface ''/v1/git/head'' ''GET'' = Some ''git.head''" by code_simp
  have resolved: "resolve_authorization_context example_runtime
      (example_request ''GET'' ''/v1/git/head'' example_token) example_config 1059999 =
        Inr (Some (session_context example_claims))"
    by code_simp
  have "case get_capability CAPABILITY_REGISTRY ''git.head'' of None \<Rightarrow> False
      | Some d \<Rightarrow> \<not> dc_allowed (evaluate_capability_grant (ac_grant (session_context example_claims)) d)"
    by code_simp
  with gate_refuses_only_denied [OF _ resolved, of "''git.head''"] surface show ?thesis
    by (cases "example_gate example_token"; cases "projr (example_gate example_token)")
      (auto simp: example_gate_def Let_def)
qed

end
