(* ===== verification/Agents.thy ===== *)
theory Agents
  imports Prelude
begin

text \<open>
  External agents (\<open>gateway/src/agent-direct.ts\<close> and \<open>agent-proxy.ts\<close>): registration and presence in
  memory, claiming a task from the queue's table with a lease of a minute, reporting a result, and the
  proxy that forwards worker calls to the broker.

  The state is the module's two maps and the two tables it writes. Times are in milliseconds; the code
  divides \<open>Date.now()\<close> by 1000 and compares, which keeps the order. Each call of a handler gets the clock
  readings it makes and the fresh token in an \<open>agent_env\<close>. A result \<open>Inl\<close> is the rejection of the
  handler's promise (a \<open>TypeError\<close>, a failing SQL statement); the state beside it keeps what was already
  written. A statement is atomic, and nothing else writes to the table between two statements of a call.
\<close>

record agent_presence =
  ap_last_seen :: int
  ap_mcp_tools :: "json list"
  ap_agent_type :: json

record task_row =
  tk_id :: int
  tk_name :: string
  tk_payload :: string
  tk_priority :: int
  tk_status :: string
  tk_locked_by :: "string option"
  tk_locked_until :: "int option"
  tk_scheduled_at :: int

record result_row =
  rr_json :: string
  rr_lease_generation :: int
  rr_created_at :: int

record agent_state =
  as_presence :: "(string \<times> agent_presence) list"
  as_tokens :: "(string \<times> string) list"
  as_tasks :: "task_row list"
  as_results :: "(int \<times> result_row) list"

text \<open>
  \<open>ae_row_id\<close> is what SQLite makes of a bound \<open>task_id\<close>: the integer key it denotes, or \<open>None\<close> where the
  driver or the insert rejects the value.
\<close>

record agent_env =
  ae_now :: int
  ae_now_lock :: int
  ae_now_due :: int
  ae_token :: string
  ae_row_id :: "json \<Rightarrow> int option"

section \<open>Tokens\<close>

definition verify_agent_token :: "agent_state \<Rightarrow> request \<Rightarrow> json option \<Rightarrow> bool" where
  "verify_agent_token st r agent_id \<longleftrightarrow>
     (case header r ''x-agent-token'' of
        None \<Rightarrow> False
      | Some token \<Rightarrow>
          if token = [] \<or> \<not> json_truthy agent_id then False
          else is_string agent_id \<and> map_of (as_tokens st) (str_of agent_id) = Some token)"

text \<open>\<open>await request.json().catch(() => ({}))\<close>, and reading a property: of \<open>null\<close> it throws.\<close>

definition json_or_empty :: "runtime \<Rightarrow> request \<Rightarrow> json" where
  "json_or_empty rt r = (case rt_json_parse rt (rq_body r) of None \<Rightarrow> JObj [] | Some v \<Rightarrow> v)"

definition agent_error :: "nat \<Rightarrow> string \<Rightarrow> response" where
  "agent_error status message = plain_json (JObj [(''error'', JStr message)]) status"

section \<open>Claiming a task\<close>

definition lease_expired :: "int \<Rightarrow> task_row \<Rightarrow> bool" where
  "lease_expired now t \<longleftrightarrow> tk_status t = ''CLAIMED''
     \<and> (case tk_locked_until t of None \<Rightarrow> False | Some until \<Rightarrow> until < now)"

definition unlock :: "task_row \<Rightarrow> task_row" where
  "unlock t = t\<lparr>tk_status := ''PENDING'', tk_locked_by := None, tk_locked_until := None\<rparr>"

definition release_expired :: "int \<Rightarrow> task_row list \<Rightarrow> task_row list" where
  "release_expired now ts = map (\<lambda>t. if lease_expired now t then unlock t else t) ts"

definition agent_task_names :: "string list" where
  "agent_task_names = [''workflow.run'', ''agent.invoke'']"

definition claimable :: "int \<Rightarrow> task_row \<Rightarrow> bool" where
  "claimable now t \<longleftrightarrow> tk_status t = ''PENDING'' \<and> tk_name t \<in> set agent_task_names
     \<and> tk_scheduled_at t \<le> now"

text \<open>\<open>ORDER BY priority DESC, id ASC LIMIT 1\<close>.\<close>

definition dispatch_le :: "task_row \<Rightarrow> task_row \<Rightarrow> bool" where
  "dispatch_le a b \<longleftrightarrow> tk_priority a > tk_priority b \<or> tk_priority a = tk_priority b \<and> tk_id a \<le> tk_id b"

definition next_task :: "int \<Rightarrow> task_row list \<Rightarrow> task_row option" where
  "next_task now ts = (case sort_by dispatch_le (filter (claimable now) ts) of [] \<Rightarrow> None | t # _ \<Rightarrow> Some t)"

definition update_row :: "int \<Rightarrow> (task_row \<Rightarrow> task_row) \<Rightarrow> task_row list \<Rightarrow> task_row list" where
  "update_row i f ts = map (\<lambda>t. if tk_id t = i then f t else t) ts"

definition claim :: "string \<Rightarrow> int \<Rightarrow> task_row \<Rightarrow> task_row" where
  "claim agent_id until t =
     t\<lparr>tk_status := ''CLAIMED'', tk_locked_by := Some agent_id, tk_locked_until := Some until\<rparr>"

text \<open>
  Does the payload name the agent? \<open>None\<close> is a \<open>TypeError\<close>, which the code catches: \<open>some\<close> of a value
  that is no array, or reading \<open>agent\<close> of a step that is \<open>null\<close> before a step that matches.
\<close>

fun some_step :: "string \<Rightarrow> json list \<Rightarrow> bool option" where
  "some_step agent_id [] = Some False"
| "some_step agent_id (s # ss) =
     (if s = JNull then None
      else if field s ''agent'' = Some (JStr agent_id) then Some True else some_step agent_id ss)"

definition targets_agent :: "string \<Rightarrow> string \<Rightarrow> json \<Rightarrow> bool option" where
  "targets_agent agent_id task_name payload =
     (case (if task_name = ''workflow.run''
            then (case field payload ''steps'' of
                    None \<Rightarrow> Some False
                  | Some JNull \<Rightarrow> Some False
                  | Some (JArr ss) \<Rightarrow> some_step agent_id ss
                  | Some v \<Rightarrow> None)
            else Some False) of
        None \<Rightarrow> None
      | Some True \<Rightarrow> Some True
      | Some False \<Rightarrow> Some (task_name = ''agent.invoke'' \<and> field payload ''agent'' = Some (JStr agent_id)))"

definition task_json :: "task_row \<Rightarrow> json" where
  "task_json t =
     JObj [(''task'', JObj [(''id'', JInt (tk_id t)), (''type'', JStr (tk_name t)),
                           (''payload_json'', JStr (tk_payload t))])]"

definition agent_poll ::
  "runtime \<Rightarrow> agent_env \<Rightarrow> request \<Rightarrow> agent_state \<Rightarrow> agent_state \<times> (string + response)" where
  "agent_poll rt env r st =
     (let body = json_or_empty rt r
      in if body = JNull then (st, Inl ''TypeError'')
         else if \<not> verify_agent_token st r (field body ''agent_id'')
         then (st, Inr (agent_error 401 ''invalid agent token''))
         else if \<not> json_truthy (field body ''agent_id'')
         then (st, Inr (agent_error 400 ''agent_id required''))
         else
           (let agent_id = str_of (field body ''agent_id'');
                released = release_expired (ae_now env) (as_tasks st)
            in case next_task (ae_now_due env) released of
                 None \<Rightarrow> (st\<lparr>as_tasks := released\<rparr>, Inr (empty_response 204))
               | Some t \<Rightarrow>
                   (let claimed = update_row (tk_id t) (claim agent_id (ae_now_lock env + 60000)) released
                    in case (case rt_json_parse rt (tk_payload t) of
                               None \<Rightarrow> None
                             | Some payload \<Rightarrow> targets_agent agent_id (tk_name t) payload) of
                         Some True \<Rightarrow> (st\<lparr>as_tasks := claimed\<rparr>, Inr (plain_json (task_json t) 200))
                       | _ \<Rightarrow> (st\<lparr>as_tasks := update_row (tk_id t) unlock claimed\<rparr>,
                              Inr (empty_response 204)))))"

section \<open>Reporting a result\<close>

definition upsert_result :: "int \<Rightarrow> string \<Rightarrow> int \<Rightarrow> (int \<times> result_row) list \<Rightarrow> (int \<times> result_row) list" where
  "upsert_result i txt now rs =
     (case map_of rs i of
        None \<Rightarrow> map_set i \<lparr>rr_json = txt, rr_lease_generation = 0, rr_created_at = now\<rparr> rs
      | Some row \<Rightarrow> map_set i (row\<lparr>rr_json := txt\<rparr>) rs)"

text \<open>
  \<open>JSON.stringify(undefined)\<close> is \<open>undefined\<close>, on which \<open>Buffer.from\<close> throws: a report with neither
  result nor error has by then set the status.
\<close>

definition agent_result ::
  "runtime \<Rightarrow> agent_env \<Rightarrow> request \<Rightarrow> agent_state \<Rightarrow> agent_state \<times> (string + response)" where
  "agent_result rt env r st =
     (if \<not> verify_agent_token st r (Some (JStr (case header r ''x-agent-id'' of None \<Rightarrow> [] | Some v \<Rightarrow> v)))
      then (st, Inr (agent_error 401 ''invalid agent token''))
      else
        (let body = json_or_empty rt r
         in if body = JNull then (st, Inl ''TypeError'')
            else if \<not> json_truthy (field body ''task_id'')
            then (st, Inr (agent_error 400 ''task_id required''))
            else
              (case ae_row_id env (the (field body ''task_id'')) of
                 None \<Rightarrow> (st, Inl ''SQLiteError'')
               | Some i \<Rightarrow>
                   (let status = (if json_truthy (field body ''error'') then ''FAILED'' else ''COMPLETED'');
                        st1 = st\<lparr>as_tasks := update_row i (\<lambda>t. t\<lparr>tk_status := status\<rparr>) (as_tasks st)\<rparr>;
                        value = (if json_truthy (field body ''error'')
                                 then Some (JObj [(''error'', the (field body ''error''))])
                                 else field body ''result'')
                    in case value of
                         None \<Rightarrow> (st1, Inl ''TypeError'')
                       | Some v \<Rightarrow>
                           (st1\<lparr>as_results := upsert_result i (rt_json_text rt v) (ae_now env) (as_results st)\<rparr>,
                            Inr (plain_json (JObj [(''ok'', JBool True), (''status'', JStr status)]) 200))))))"

section \<open>Registration and presence\<close>

definition or_unknown :: "json option \<Rightarrow> json" where
  "or_unknown v = (if json_truthy v then the v else JStr ''unknown'')"

definition agent_register ::
  "runtime \<Rightarrow> agent_env \<Rightarrow> request \<Rightarrow> agent_state \<Rightarrow> agent_state \<times> (string + response)" where
  "agent_register rt env r st =
     (let body = json_or_empty rt r; agent_id = field body ''agent_id''
      in if body = JNull then (st, Inl ''TypeError'')
         else if \<not> json_truthy agent_id \<or> \<not> is_string agent_id \<or> length (str_of agent_id) > 64
         then (st, Inr (agent_error 400 ''valid agent_id required''))
         else
           (st\<lparr>as_tokens := map_set (str_of agent_id) (ae_token env) (as_tokens st),
               as_presence := map_set (str_of agent_id)
                 \<lparr>ap_last_seen = ae_now env, ap_mcp_tools = [],
                  ap_agent_type = or_unknown (field body ''agent_type'')\<rparr> (as_presence st)\<rparr>,
            Inr (plain_json (JObj [(''ok'', JBool True), (''agent_id'', JStr (str_of agent_id)),
                                  (''agent_token'', JStr (ae_token env))]) 200)))"

definition agent_heartbeat ::
  "runtime \<Rightarrow> agent_env \<Rightarrow> request \<Rightarrow> agent_state \<Rightarrow> agent_state \<times> (string + response)" where
  "agent_heartbeat rt env r st =
     (let body = json_or_empty rt r; agent_id = field body ''agent_id''
      in if body = JNull then (st, Inl ''TypeError'')
         else if \<not> verify_agent_token st r agent_id
         then (st, Inr (agent_error 401 ''invalid agent token''))
         else if \<not> json_truthy agent_id
         then (st, Inr (agent_error 400 ''agent_id required''))
         else
           (st\<lparr>as_presence := map_set (str_of agent_id)
                 \<lparr>ap_last_seen = ae_now env, ap_mcp_tools = arr_of (field body ''mcp_tools''),
                  ap_agent_type = or_unknown (field body ''agent_type'')\<rparr> (as_presence st)\<rparr>,
            Inr (plain_json (JObj [(''ok'', JBool True), (''agent_id'', JStr (str_of agent_id))]) 200)))"

definition agent_alive :: "int \<Rightarrow> agent_presence \<Rightarrow> bool" where
  "agent_alive now p \<longleftrightarrow> now - ap_last_seen p < 90000"

definition agent_list :: "agent_env \<Rightarrow> agent_state \<Rightarrow> agent_state \<times> (string + response)" where
  "agent_list env st =
     (let active = filter (\<lambda>e. agent_alive (ae_now env) (snd e)) (as_presence st)
      in (st\<lparr>as_presence := active\<rparr>,
          Inr (plain_json
            (JObj [(''agents'', JArr (map (\<lambda>(k, p).
                      JObj [(''agent_id'', JStr k), (''agent_type'', ap_agent_type p),
                            (''mcp_tools'', JArr (ap_mcp_tools p)),
                            (''last_seen_ago_s'', JInt ((ae_now env - ap_last_seen p + 500) div 1000))]) active)),
                   (''count'', JInt (int (length active)))]) 200)))"

definition handle_agent_direct_request ::
  "runtime \<Rightarrow> agent_env \<Rightarrow> request \<Rightarrow> agent_state \<Rightarrow> agent_state \<times> (string + response option)" where
  "handle_agent_direct_request rt env r st =
     (let path = u_pathname (rq_url r); verb = rq_method r;
          answer = (\<lambda>(st', res). (st', map_sum id Some res))
      in if path = ''/v1/agent/poll'' \<and> verb = ''POST'' then answer (agent_poll rt env r st)
         else if path = ''/v1/agent/result'' \<and> verb = ''POST'' then answer (agent_result rt env r st)
         else if path = ''/v1/agent/register'' \<and> verb = ''POST'' then answer (agent_register rt env r st)
         else if path = ''/v1/agent/heartbeat'' \<and> verb = ''POST'' then answer (agent_heartbeat rt env r st)
         else if path = ''/v1/agents'' \<and> verb = ''GET'' then answer (agent_list env st)
         else (st, Inr None))"

text \<open>A sequence of calls, with the responses in order.\<close>

fun agent_run ::
  "runtime \<Rightarrow> (agent_env \<times> request) list \<Rightarrow> agent_state \<Rightarrow> agent_state \<times> (string + response option) list" where
  "agent_run rt [] st = (st, [])"
| "agent_run rt ((env, r) # calls) st =
     (let (st1, res) = handle_agent_direct_request rt env r st; (st2, rest) = agent_run rt calls st1
      in (st2, res # rest))"

section \<open>The broker proxy\<close>

definition AGENT_ROUTES :: "(string \<times> string) list" where
  "AGENT_ROUTES =
     [(''/v1/agent/register'', ''/v1/register''),
      (''/v1/agent/claim'', ''/v1/claim''),
      (''/v1/agent/heartbeat'', ''/v1/task/heartbeat''),
      (''/v1/agent/complete'', ''/v1/task/complete''),
      (''/v1/agent/fail'', ''/v1/task/fail''),
      (''/v1/agent/session/heartbeat'', ''/v1/session/heartbeat'')]"

definition forwarded_names :: "string list" where
  "forwarded_names =
     [''x-worker-id'', ''x-worker-type'', ''x-worker-capacity'', ''x-worker-tasks'', ''x-worker-session'',
      ''x-worker-token'', ''x-task-id'', ''x-lease-generation'', ''x-worker-error-code'', ''content-type'']"

definition forward_headers :: "request \<Rightarrow> (string \<times> string) list" where
  "forward_headers r =
     concat (map (\<lambda>name. case header r name of None \<Rightarrow> [] | Some v \<Rightarrow> [(name, v)]) forwarded_names)"

text \<open>
  \<open>fetch\<close> is the argument \<open>post\<close>: the URL, the headers and the body give the status, headers and body of
  the broker's answer, or \<open>None\<close> where the call fails or times out.
\<close>

definition handle_agent_proxy_request ::
  "(string \<Rightarrow> (string \<times> string) list \<Rightarrow> string option \<Rightarrow> (nat \<times> (string \<times> string) list \<times> string) option)
   \<Rightarrow> request \<Rightarrow> string \<Rightarrow> response option" where
  "handle_agent_proxy_request post r broker_origin =
     (case map_of AGENT_ROUTES (u_pathname (rq_url r)) of
        None \<Rightarrow> None
      | Some broker_path \<Rightarrow>
          if rq_method r \<noteq> ''POST'' then None
          else
            (case post (broker_origin @ broker_path) (forward_headers r)
                    (if byte_length (rq_body r) > 0 then Some (rq_body r) else None) of
               Some (status, headers, txt) \<Rightarrow>
                 Some \<lparr>rs_status = status,
                       rs_headers = filter (\<lambda>h. starts_with (to_lower (fst h)) ''content-'') headers,
                       rs_body = RawBody txt\<rparr>
             | None \<Rightarrow>
                 Some (plain_json (error_body ''broker_unavailable'' ''worker broker unreachable'') 503)))"

section \<open>Lemmas on the task table\<close>

lemma dispatch_le_total: "dispatch_le a b \<or> dispatch_le b a"
  by (auto simp: dispatch_le_def)

lemma dispatch_le_trans: "dispatch_le a b \<Longrightarrow> dispatch_le b c \<Longrightarrow> dispatch_le a c"
  by (auto simp: dispatch_le_def)

lemma next_task_Some:
  assumes "next_task now ts = Some t"
  shows "t \<in> set ts" and "claimable now t" and "\<And>u. u \<in> set ts \<Longrightarrow> claimable now u \<Longrightarrow> dispatch_le t u"
proof -
  let ?s = "sort_by dispatch_le (filter (claimable now) ts)"
  from assms obtain rest where s: "?s = t # rest" by (auto simp: next_task_def split: list.splits)
  have "set ?s = {u \<in> set ts. claimable now u}" by simp
  with s have mem: "insert t (set rest) = {u \<in> set ts. claimable now u}" by simp
  then show "t \<in> set ts" "claimable now t" by auto
  have "sorted_wrt dispatch_le ?s"
    by (rule sorted_wrt_sort_by [OF dispatch_le_total dispatch_le_trans])
  with s have rest: "\<forall>u \<in> set rest. dispatch_le t u" by simp
  fix u assume "u \<in> set ts" "claimable now u"
  then have "u \<in> insert t (set rest)" using mem by blast
  with rest show "dispatch_le t u" by (auto simp: dispatch_le_def)
qed

lemma next_task_None: "next_task now ts = None \<longleftrightarrow> (\<forall>t \<in> set ts. \<not> claimable now t)"
proof -
  have "next_task now ts = None \<longleftrightarrow> sort_by dispatch_le (filter (claimable now) ts) = []"
    by (auto simp: next_task_def split: list.splits)
  also have "\<dots> \<longleftrightarrow> set (sort_by dispatch_le (filter (claimable now) ts)) = {}" by (simp only: set_empty)
  finally show ?thesis by auto
qed

lemma map_id_keys [simp]:
  "map tk_id (update_row i (claim a u) ts) = map tk_id ts"
  "map tk_id (update_row i unlock ts) = map tk_id ts"
  "map tk_id (update_row i (\<lambda>t. t\<lparr>tk_status := s\<rparr>) ts) = map tk_id ts"
  "map tk_id (release_expired now ts) = map tk_id ts"
  by (auto simp: update_row_def claim_def unlock_def release_expired_def)

lemma update_row_other: "t \<in> set ts \<Longrightarrow> tk_id t \<noteq> i \<Longrightarrow> t \<in> set (update_row i f ts)"
  by (force simp: update_row_def)

lemma release_keeps: "t \<in> set ts \<Longrightarrow> \<not> lease_expired now t \<Longrightarrow> t \<in> set (release_expired now ts)"
  by (force simp: release_expired_def)

lemma distinct_ids_eq: "distinct (map tk_id ts) \<Longrightarrow> t \<in> set ts \<Longrightarrow> u \<in> set ts \<Longrightarrow> tk_id t = tk_id u \<Longrightarrow> t = u"
  by (auto simp: distinct_map inj_on_def)

text \<open>The three ways a poll can end, and what the other calls do to the table.\<close>

lemma agent_poll_cases:
  obtains (rejected) res where "agent_poll rt env r st = (st, res)" "\<And>x. res = Inr x \<Longrightarrow> rs_status x \<noteq> 200"
  | (idle) "next_task (ae_now_due env) (release_expired (ae_now env) (as_tasks st)) = None"
      "agent_poll rt env r st =
         (st\<lparr>as_tasks := release_expired (ae_now env) (as_tasks st)\<rparr>, Inr (empty_response 204))"
  | (given) t agent payload where
      "next_task (ae_now_due env) (release_expired (ae_now env) (as_tasks st)) = Some t"
      "field (json_or_empty rt r) ''agent_id'' = Some (JStr agent)"
      "verify_agent_token st r (Some (JStr agent))"
      "rt_json_parse rt (tk_payload t) = Some payload" "targets_agent agent (tk_name t) payload = Some True"
      "agent_poll rt env r st =
         (st\<lparr>as_tasks := update_row (tk_id t) (claim agent (ae_now_lock env + 60000))
             (release_expired (ae_now env) (as_tasks st))\<rparr>, Inr (plain_json (task_json t) 200))"
  | (returned) t agent where
      "next_task (ae_now_due env) (release_expired (ae_now env) (as_tasks st)) = Some t"
      "field (json_or_empty rt r) ''agent_id'' = Some (JStr agent)"
      "rt_json_parse rt (tk_payload t) = None \<or>
         targets_agent agent (tk_name t) (the (rt_json_parse rt (tk_payload t))) \<noteq> Some True"
      "agent_poll rt env r st =
         (st\<lparr>as_tasks := update_row (tk_id t) unlock (update_row (tk_id t) (claim agent (ae_now_lock env + 60000))
             (release_expired (ae_now env) (as_tasks st)))\<rparr>, Inr (empty_response 204))"
proof -
  let ?body = "json_or_empty rt r" and ?rel = "release_expired (ae_now env) (as_tasks st)"
  show thesis
  proof (cases "?body = JNull \<or> \<not> verify_agent_token st r (field ?body ''agent_id'')")
    case True
    then show ?thesis
      by (intro rejected [of "snd (agent_poll rt env r st)"])
        (auto simp: agent_poll_def Let_def agent_error_def split: if_splits)
  next
    case False
    then obtain agent where agent: "field ?body ''agent_id'' = Some (JStr agent)" "agent \<noteq> []"
      by (auto simp: verify_agent_token_def is_string_iff split: option.splits if_splits)
    note poll = agent_poll_def [of rt env r st]
    show ?thesis
    proof (cases "next_task (ae_now_due env) ?rel")
      case None
      with False agent show ?thesis by (intro idle) (simp_all add: poll Let_def)
    next
      case (Some t)
      show ?thesis
      proof (cases "case rt_json_parse rt (tk_payload t) of None \<Rightarrow> None
          | Some payload \<Rightarrow> targets_agent agent (tk_name t) payload")
        case None
        with Some False agent show ?thesis
          by (intro returned [OF Some agent(1)]) (auto simp: poll Let_def split: option.splits)
      next
        case (Some b)
        with \<open>next_task _ _ = Some t\<close> False agent show ?thesis
          by (cases b; cases "rt_json_parse rt (tk_payload t)")
            (auto simp: poll Let_def intro: given returned)
      qed
    qed
  qed
qed

section \<open>One call and a run of calls\<close>

definition hands_out :: "int \<Rightarrow> string + response option \<Rightarrow> bool" where
  "hands_out i res \<longleftrightarrow> (\<exists>t. tk_id t = i \<and> res = Inr (Some (plain_json (task_json t) 200)))"

definition is_agent_call :: "string \<Rightarrow> request \<Rightarrow> bool" where
  "is_agent_call path r \<longleftrightarrow> u_pathname (rq_url r) = path \<and> rq_method r = ''POST''"

lemma plain_json_inject [simp]: "plain_json v n = plain_json w m \<longleftrightarrow> v = w \<and> n = m"
  by (auto simp: plain_json_def)

lemma empty_not_json [simp]: "empty_response n \<noteq> plain_json v m" "plain_json v m \<noteq> empty_response n"
  by (auto simp: plain_json_def empty_response_def)

lemma other_calls_keep_tasks:
  "as_tasks (fst (agent_register rt env r st)) = as_tasks st"
  "as_tasks (fst (agent_heartbeat rt env r st)) = as_tasks st"
  "as_tasks (fst (agent_list env st)) = as_tasks st"
  by (auto simp: agent_register_def agent_heartbeat_def agent_list_def Let_def)

lemma other_calls_hand_out_nothing:
  "\<not> hands_out i (map_sum id Some (snd (agent_register rt env r st)))"
  "\<not> hands_out i (map_sum id Some (snd (agent_heartbeat rt env r st)))"
  "\<not> hands_out i (map_sum id Some (snd (agent_list env st)))"
  by (auto simp: hands_out_def agent_register_def agent_heartbeat_def agent_list_def Let_def
      agent_error_def task_json_def)

text \<open>
  A call that is no result report either leaves the task table alone and hands out nothing, or is a
  poll.
\<close>

lemma direct_call_cases:
  assumes "\<not> is_agent_call ''/v1/agent/result'' r"
    and "handle_agent_direct_request rt env r st = (st', res)"
  obtains (other) "as_tasks st' = as_tasks st" "\<And>i. \<not> hands_out i res"
  | (poll) x where "is_agent_call ''/v1/agent/poll'' r" "agent_poll rt env r st = (st', x)" "res = map_sum id Some x"
proof -
  let ?p = "u_pathname (rq_url r)" and ?m = "rq_method r"
  consider "?p = ''/v1/agent/poll'' \<and> ?m = ''POST''" | "?p = ''/v1/agent/register'' \<and> ?m = ''POST''"
    | "?p = ''/v1/agent/heartbeat'' \<and> ?m = ''POST''" | "?p = ''/v1/agents'' \<and> ?m = ''GET''"
    | "(st', res) = (st, Inr None)"
    using assms by (auto simp: handle_agent_direct_request_def is_agent_call_def Let_def split: if_splits)
  then show thesis
  proof cases
    case 1
    with assms(2) show thesis
      by (intro poll [of "snd (agent_poll rt env r st)"])
        (auto simp: handle_agent_direct_request_def is_agent_call_def Let_def split: prod.splits)
  next
    case 2
    with assms(2) show thesis
      using other_calls_keep_tasks(1) [of rt env r st] other_calls_hand_out_nothing(1) [of _ rt env r st]
      by (intro other) (auto simp: handle_agent_direct_request_def Let_def split: prod.splits)
  next
    case 3
    with assms(2) show thesis
      using other_calls_keep_tasks(2) [of rt env r st] other_calls_hand_out_nothing(2) [of _ rt env r st]
      by (intro other) (auto simp: handle_agent_direct_request_def Let_def split: prod.splits)
  next
    case 4
    with assms(2) show thesis
      using other_calls_keep_tasks(3) [of env st] other_calls_hand_out_nothing(3) [of _ env st]
      by (intro other) (auto simp: handle_agent_direct_request_def Let_def split: prod.splits)
  next
    case 5
    then show thesis by (intro other) (auto simp: hands_out_def)
  qed
qed

definition leased :: "int \<Rightarrow> task_row \<Rightarrow> agent_state \<Rightarrow> bool" where
  "leased until t st \<longleftrightarrow> distinct (map tk_id (as_tasks st)) \<and> t \<in> set (as_tasks st)
     \<and> tk_status t = ''CLAIMED'' \<and> tk_locked_until t = Some until"

lemma task_json_id [simp]: "task_json t = task_json u \<longleftrightarrow> tk_id t = tk_id u \<and> tk_name t = tk_name u \<and> tk_payload t = tk_payload u"
  by (auto simp: task_json_def)

lemma lease_step:
  assumes "leased until t st" and "ae_now env \<le> until" and "\<not> is_agent_call ''/v1/agent/result'' r"
    and step: "handle_agent_direct_request rt env r st = (st', res)"
  shows "leased until t st'" and "\<not> hands_out (tk_id t) res"
proof -
  let ?rel = "release_expired (ae_now env) (as_tasks st)"
  have rel: "t \<in> set ?rel" "distinct (map tk_id ?rel)"
    using assms(1,2) by (auto simp: leased_def lease_expired_def intro!: release_keeps)
  have other: "tk_id u \<noteq> tk_id t" if "next_task n ?rel = Some u" for n u
  proof
    assume "tk_id u = tk_id t"
    then have "u = t" using distinct_ids_eq [OF rel(2) next_task_Some(1) [OF that] rel(1)] by simp
    then show False using next_task_Some(2) [OF that] assms(1) by (simp add: leased_def claimable_def)
  qed
  from assms(3) step have "leased until t st' \<and> \<not> hands_out (tk_id t) res"
  proof (cases rule: direct_call_cases)
    case other
    with assms(1) show ?thesis by (simp add: leased_def)
  next
    case (poll x)
    show ?thesis
    proof (cases rule: agent_poll_cases [of rt env r st])
      case (rejected y)
      with poll assms(1) show ?thesis by (cases y) (auto simp: hands_out_def)
    next
      case idle
      with poll assms(1) rel show ?thesis by (auto simp: leased_def hands_out_def)
    next
      case (given u agent payload)
      with poll assms(1) rel other [OF given(1)] show ?thesis
        by (auto simp: leased_def hands_out_def intro!: update_row_other)
    next
      case (returned u agent)
      with poll assms(1) rel other [OF returned(1)] show ?thesis
        by (auto simp: leased_def hands_out_def intro!: update_row_other)
    qed
  qed
  then show "leased until t st'" "\<not> hands_out (tk_id t) res" by simp_all
qed

text \<open>
  A task at the head of the queue that no agent can take: pending, due, first in the dispatch order, and
  with a payload that names no agent (an ordinary workflow, say, or no JSON at all).
\<close>

definition poison :: "runtime \<Rightarrow> task_row \<Rightarrow> agent_state \<Rightarrow> bool" where
  "poison rt t st \<longleftrightarrow> distinct (map tk_id (as_tasks st)) \<and> t \<in> set (as_tasks st)
     \<and> tk_name t \<in> set agent_task_names \<and> tk_status t = ''PENDING''
     \<and> tk_locked_by t = None \<and> tk_locked_until t = None
     \<and> (\<forall>agent payload. rt_json_parse rt (tk_payload t) = Some payload \<longrightarrow>
          targets_agent agent (tk_name t) payload \<noteq> Some True)
     \<and> (\<forall>u \<in> set (as_tasks st). tk_name u \<in> set agent_task_names \<longrightarrow> dispatch_le t u)"

lemma claim_unlock_id:
  "tk_status t = ''PENDING'' \<Longrightarrow> tk_locked_by t = None \<Longrightarrow> tk_locked_until t = None \<Longrightarrow> unlock (claim a u t) = t"
  by (simp add: unlock_def claim_def)

definition same_keys :: "task_row \<Rightarrow> task_row \<Rightarrow> bool" where
  "same_keys u v \<longleftrightarrow> tk_id u = tk_id v \<and> tk_name u = tk_name v \<and> tk_priority u = tk_priority v"

lemma update_row_keys:
  "u \<in> set (update_row i f ts) \<Longrightarrow> (\<And>t. same_keys (f t) t) \<Longrightarrow> \<exists>v \<in> set ts. same_keys u v"
  by (fastforce simp: update_row_def same_keys_def)

lemma release_keys:
  "u \<in> set (release_expired now ts) \<Longrightarrow>
     \<exists>v \<in> set ts. tk_id u = tk_id v \<and> tk_name u = tk_name v \<and> tk_priority u = tk_priority v"
  by (auto simp: release_expired_def unlock_def)

lemma poison_head:
  assumes "poison rt t st" and "tk_scheduled_at t \<le> due"
  shows "next_task due (release_expired now (as_tasks st)) = Some t" and "t \<in> set (release_expired now (as_tasks st))"
proof -
  let ?rel = "release_expired now (as_tasks st)"
  show mem: "t \<in> set ?rel"
    using assms(1) by (auto simp: poison_def lease_expired_def intro!: release_keeps)
  have "claimable due t" using assms by (simp add: poison_def claimable_def)
  with mem have "next_task due ?rel \<noteq> None" by (auto simp: next_task_None)
  then obtain u where u: "next_task due ?rel = Some u" by blast
  obtain v where v: "v \<in> set (as_tasks st)" "tk_id u = tk_id v" "tk_name u = tk_name v" "tk_priority u = tk_priority v"
    using release_keys [OF next_task_Some(1) [OF u]] by blast
  have "tk_name v \<in> set agent_task_names"
    using next_task_Some(2) [OF u] v(3) by (simp add: claimable_def)
  moreover have "\<forall>u \<in> set (as_tasks st). tk_name u \<in> set agent_task_names \<longrightarrow> dispatch_le t u"
    using assms(1) by (simp add: poison_def)
  ultimately have "dispatch_le t v" using v(1) by blast
  moreover have "dispatch_le u t" using next_task_Some(3) [OF u mem \<open>claimable due t\<close>] .
  ultimately have "tk_id u = tk_id t" unfolding dispatch_le_def v(2,4) by linarith
  moreover have "distinct (map tk_id ?rel)" using assms(1) by (simp add: poison_def)
  ultimately have "u = t" using distinct_ids_eq mem next_task_Some(1) [OF u] by blast
  with u show "next_task due ?rel = Some t" by simp
qed

text \<open>A report of a result for this row.\<close>

definition reports_on :: "runtime \<Rightarrow> agent_env \<Rightarrow> int \<Rightarrow> request \<Rightarrow> bool" where
  "reports_on rt env i r \<longleftrightarrow> is_agent_call ''/v1/agent/result'' r
     \<and> (case field (json_or_empty rt r) ''task_id'' of None \<Rightarrow> False | Some v \<Rightarrow> ae_row_id env v = Some i)"

lemma result_tasks:
  "as_tasks (fst (agent_result rt env r st)) = as_tasks st
   \<or> (\<exists>v i s. field (json_or_empty rt r) ''task_id'' = Some v \<and> ae_row_id env v = Some i
        \<and> as_tasks (fst (agent_result rt env r st)) = update_row i (\<lambda>t. t\<lparr>tk_status := s\<rparr>) (as_tasks st))"
  by (cases "field (json_or_empty rt r) ''task_id''")
    (auto simp: agent_result_def Let_def split: option.splits if_splits)

lemma result_hands_out_nothing: "\<not> hands_out i (map_sum id Some (snd (agent_result rt env r st)))"
  by (auto simp: hands_out_def agent_result_def Let_def agent_error_def task_json_def split: option.splits)

lemma poison_result:
  assumes "poison rt t st" and "is_agent_call ''/v1/agent/result'' r" and "\<not> reports_on rt env (tk_id t) r"
    and "handle_agent_direct_request rt env r st = (st', res)"
  shows "poison rt t st'" and "\<not> hands_out i res"
proof -
  have st: "st' = fst (agent_result rt env r st)" and res: "res = map_sum id Some (snd (agent_result rt env r st))"
    using assms(2,4) by (auto simp: handle_agent_direct_request_def is_agent_call_def Let_def split: prod.splits)
  show "\<not> hands_out i res" unfolding res by (rule result_hands_out_nothing)
  from result_tasks [of rt env r st] show "poison rt t st'"
  proof (elim disjE exE conjE)
    fix v j s
    assume v: "field (json_or_empty rt r) ''task_id'' = Some v" "ae_row_id env v = Some j"
      and tasks: "as_tasks (fst (agent_result rt env r st)) = update_row j (\<lambda>t. t\<lparr>tk_status := s\<rparr>) (as_tasks st)"
    have "j \<noteq> tk_id t" using assms(2,3) v by (simp add: reports_on_def)
    then have "t \<in> set (as_tasks st')" unfolding st tasks using assms(1) by (intro update_row_other) (simp_all add: poison_def)
    moreover have "dispatch_le t w" if w: "w \<in> set (as_tasks st')" "tk_name w \<in> set agent_task_names" for w
    proof -
      obtain u where "u \<in> set (as_tasks st)" "same_keys w u"
        using update_row_keys [OF w(1) [unfolded st tasks]] by (auto simp: same_keys_def)
      with w(2) assms(1) show ?thesis by (auto simp: poison_def same_keys_def dispatch_le_def)
    qed
    ultimately show ?thesis using assms(1) by (auto simp: poison_def st tasks)
  qed (use assms(1) in \<open>simp add: poison_def st\<close>)
qed

lemma poison_step:
  assumes "poison rt t st" and "tk_scheduled_at t \<le> ae_now_due env" and "\<not> is_agent_call ''/v1/agent/result'' r"
    and step: "handle_agent_direct_request rt env r st = (st', res)"
  shows "poison rt t st'" and "\<not> hands_out i res"
proof -
  let ?rel = "release_expired (ae_now env) (as_tasks st)"
  note head = poison_head [OF assms(1,2), of "ae_now env"]
  have keys: "\<exists>v \<in> set (as_tasks st). tk_id u = tk_id v \<and> tk_name u = tk_name v \<and> tk_priority u = tk_priority v"
    if "u \<in> set (update_row (tk_id t) unlock (update_row (tk_id t) (claim a n) ?rel))" for u a n
  proof -
    from update_row_keys [OF that] obtain w where w: "w \<in> set (update_row (tk_id t) (claim a n) ?rel)"
      "same_keys u w" by (auto simp: same_keys_def unlock_def)
    from update_row_keys [OF w(1)] obtain x where "x \<in> set ?rel" "same_keys w x"
      by (auto simp: same_keys_def claim_def)
    with w(2) release_keys [of x "ae_now env" "as_tasks st"] show ?thesis by (auto simp: same_keys_def)
  qed
  have mem: "t \<in> set (update_row (tk_id t) unlock (update_row (tk_id t) (claim a n) ?rel))" for a n
  proof -
    have "unlock (claim a n t) = t" using assms(1) by (intro claim_unlock_id) (simp_all add: poison_def)
    moreover have "tk_id (claim a n t) = tk_id t" by (simp add: claim_def)
    ultimately show ?thesis using head(2) by (force simp: update_row_def)
  qed
  have "poison rt t st' \<and> \<not> hands_out i res"
    using assms(3) step
  proof (cases rule: direct_call_cases)
    case other
    with assms(1) show ?thesis by (simp add: poison_def)
  next
    case (poll x)
    show ?thesis
    proof (cases rule: agent_poll_cases [of rt env r st])
      case (rejected y)
      with poll assms(1) show ?thesis by (cases y) (auto simp: hands_out_def)
    next
      case idle
      with head show ?thesis by simp
    next
      case (given u agent payload)
      with head assms(1) show ?thesis by (simp add: poison_def)
    next
      case (returned u agent)
      with head have u: "u = t" by simp
      have "poison rt t st'"
        unfolding poison_def
      proof (intro conjI ballI impI)
        have tasks: "as_tasks st' = update_row (tk_id t) unlock (update_row (tk_id t) (claim agent (ae_now_lock env + 60000)) ?rel)"
          using returned(4) poll(2) u by simp
        show "t \<in> set (as_tasks st')" using tasks mem by simp
        fix w assume w: "w \<in> set (as_tasks st')" "tk_name w \<in> set agent_task_names"
        obtain v where "v \<in> set (as_tasks st)" "tk_id w = tk_id v" "tk_name w = tk_name v" "tk_priority w = tk_priority v"
          using keys w(1) unfolding tasks by blast
        with w(2) assms(1) have "dispatch_le t v" by (simp add: poison_def)
        then show "dispatch_le t w"
          using \<open>tk_id w = tk_id v\<close> \<open>tk_priority w = tk_priority v\<close> by (simp add: dispatch_le_def)
      qed (use assms(1) returned(4) poll(2) in \<open>auto simp: poison_def\<close>)
      moreover have "\<not> hands_out i res" using returned(4) poll by (auto simp: hands_out_def)
      ultimately show ?thesis by simp
    qed
  qed
  then show "poison rt t st'" "\<not> hands_out i res" by simp_all
qed

lemma leased_run:
  assumes "leased until t st"
    and "\<forall>(env, r) \<in> set calls. ae_now env \<le> until \<and> \<not> is_agent_call ''/v1/agent/result'' r"
    and "agent_run rt calls st = (st', responses)"
  shows "leased until t st' \<and> (\<forall>res \<in> set responses. \<not> hands_out (tk_id t) res)"
  using assms
proof (induction calls arbitrary: st responses)
  case (Cons call calls)
  obtain env r where call: "call = (env, r)" by (cases call)
  obtain st1 res where step: "handle_agent_direct_request rt env r st = (st1, res)" by fastforce
  obtain rest where rest: "agent_run rt calls st1 = (st', rest)" "responses = res # rest"
    using Cons.prems(3) by (auto simp: call step Let_def split: prod.splits)
  have now: "ae_now env \<le> until" "\<not> is_agent_call ''/v1/agent/result'' r"
    using Cons.prems(2) by (simp_all add: call)
  note one = lease_step [OF Cons.prems(1) now step]
  from Cons.IH [OF one(1) _ rest(1)] Cons.prems(2) one(2) rest(2) show ?case by simp
qed simp

lemma poison_run:
  assumes "poison rt t st"
    and "\<forall>(env, r) \<in> set calls. tk_scheduled_at t \<le> ae_now_due env \<and> \<not> reports_on rt env (tk_id t) r"
    and "agent_run rt calls st = (st', responses)"
  shows "poison rt t st' \<and> (\<forall>res \<in> set responses. \<forall>i. \<not> hands_out i res)"
  using assms
proof (induction calls arbitrary: st responses)
  case (Cons call calls)
  obtain env r where call: "call = (env, r)" by (cases call)
  obtain st1 res where step: "handle_agent_direct_request rt env r st = (st1, res)" by fastforce
  obtain rest where rest: "agent_run rt calls st1 = (st', rest)" "responses = res # rest"
    using Cons.prems(3) by (auto simp: call step Let_def split: prod.splits)
  have now: "tk_scheduled_at t \<le> ae_now_due env" "\<not> reports_on rt env (tk_id t) r"
    using Cons.prems(2) by (simp_all add: call)
  have one: "poison rt t st1" "\<not> hands_out i res" for i
    using poison_step [OF Cons.prems(1) now(1) _ step] poison_result [OF Cons.prems(1) _ now(2) step] by blast+
  from Cons.IH [OF one(1) _ rest(1)] Cons.prems(2) one(2) rest(2) show ?case by simp
qed simp

section \<open>Properties\<close>

text \<open>
  A poll that hands out a task gives it to one authenticated agent with a lease. The caller's token
  is the registered one; the task is the first due pending agent task in the order of descending
  priority, then ascending id, once expired leases are released; its payload names the agent; and in
  the new state the task's row is claimed by that agent until a minute from now, under unchanged ids.
\<close>

theorem poll_grants_lease:
  assumes "agent_poll rt env r st = (st', Inr res)" and "rs_status res = 200"
    and "distinct (map tk_id (as_tasks st))"
  shows "\<exists>agent t payload. verify_agent_token st r (Some (JStr agent))
     \<and> t \<in> set (release_expired (ae_now env) (as_tasks st)) \<and> claimable (ae_now_due env) t
     \<and> (\<forall>u \<in> set (release_expired (ae_now env) (as_tasks st)). claimable (ae_now_due env) u \<longrightarrow> dispatch_le t u)
     \<and> rt_json_parse rt (tk_payload t) = Some payload \<and> targets_agent agent (tk_name t) payload = Some True
     \<and> res = plain_json (task_json t) 200
     \<and> leased (ae_now_lock env + 60000) (claim agent (ae_now_lock env + 60000) t) st'
     \<and> map tk_id (as_tasks st') = map tk_id (as_tasks st)"
proof (cases rule: agent_poll_cases [of rt env r st])
  case (given t agent payload)
  note nt = next_task_Some [OF given(1)]
  have "claim agent n t \<in> set (update_row (tk_id t) (claim agent n) (release_expired (ae_now env) (as_tasks st)))" for n
    using nt(1) by (force simp: update_row_def)
  with given assms(1,3) have "leased (ae_now_lock env + 60000) (claim agent (ae_now_lock env + 60000) t) st'"
    by (auto simp: leased_def claim_def)
  with given nt assms(1) show ?thesis by auto
qed (use assms in auto)

text \<open>
  C33. A lease is exclusive. Once a task is claimed until some time, no sequence of polls, registrations,
  heartbeats and listings by any agents at times up to then hands the task out again or changes its
  row; only a result report can.
\<close>

theorem lease_exclusive:
  assumes "leased until t st"
    and "\<forall>(env, r) \<in> set calls. ae_now env \<le> until \<and> \<not> is_agent_call ''/v1/agent/result'' r"
    and "agent_run rt calls st = (st', responses)"
  shows "t \<in> set (as_tasks st') \<and> (\<forall>res \<in> set responses. \<not> hands_out (tk_id t) res)"
  using leased_run [OF assms] by (simp add: leased_def)

text \<open>
  C39. One foreign task stops the queue for every agent. While the first task in the dispatch order is pending and due
  and has a payload that names no agent (an ordinary workflow does), no sequence of calls of the agents hands out any
  task, as long as none of them reports a result for this very task: each poll claims it, puts it back and answers 204,
  reports on other tasks change nothing about it, and its row ends as it was.
\<close>

theorem poison_task_starves_queue:
  assumes "poison rt t st"
    and "\<forall>(env, r) \<in> set calls. tk_scheduled_at t \<le> ae_now_due env \<and> \<not> reports_on rt env (tk_id t) r"
    and "agent_run rt calls st = (st', responses)"
  shows "t \<in> set (as_tasks st') \<and> (\<forall>res \<in> set responses. \<forall>i. \<not> hands_out i res)"
  using poison_run [OF assms] by (simp add: poison_def)

text \<open>
  Without a registered token a call changes no task and no result. Whatever its path, a call whose
  \<open>x-agent-token\<close> header is missing or is nobody's token leaves the task table, the results and, unless
  it registers, every token as they were.
\<close>

theorem unknown_token_changes_no_task:
  assumes "\<forall>a token. header r ''x-agent-token'' = Some token \<longrightarrow> map_of (as_tokens st) a \<noteq> Some token"
    and "handle_agent_direct_request rt env r st = (st', res)"
  shows "as_tasks st' = as_tasks st \<and> as_results st' = as_results st
     \<and> (\<not> is_agent_call ''/v1/agent/register'' r \<longrightarrow> as_tokens st' = as_tokens st)"
proof -
  have no: "\<not> verify_agent_token st r v" for v
    using assms(1) by (auto simp: verify_agent_token_def split: option.splits)
  show ?thesis
    using assms(2)
    by (auto simp: handle_agent_direct_request_def is_agent_call_def Let_def no agent_poll_def agent_result_def
        agent_register_def agent_heartbeat_def agent_list_def split: if_splits)
qed

text \<open>
  C38. A stranger can finish any task. With no prior secret, a caller that registers a name and then
  reports a result under it completes a task whatever its status and whoever holds its lease: the row
  becomes \<open>COMPLETED\<close>, and the result row of the task is the caller's. Registering overwrites the token
  of an agent that already has this name.
\<close>

theorem stranger_completes_any_task:
  assumes "t \<in> set (as_tasks st)"
    and r1: "is_agent_call ''/v1/agent/register'' r1" "json_or_empty rt r1 = JObj [(''agent_id'', JStr name)]"
      "name \<noteq> []" "length name \<le> 64"
    and r2: "is_agent_call ''/v1/agent/result'' r2" "header r2 ''x-agent-id'' = Some name"
      "header r2 ''x-agent-token'' = Some (ae_token env1)" "ae_token env1 \<noteq> []"
      "json_or_empty rt r2 = JObj [(''task_id'', JInt (tk_id t)), (''result'', v)]"
      "ae_row_id env2 (JInt (tk_id t)) = Some (tk_id t)" "tk_id t \<noteq> 0"
    and run: "agent_run rt [(env1, r1), (env2, r2)] st = (st', responses)"
  shows "t\<lparr>tk_status := ''COMPLETED''\<rparr> \<in> set (as_tasks st')
     \<and> (\<exists>row. map_of (as_results st') (tk_id t) = Some row \<and> rr_json row = rt_json_text rt v)
     \<and> map_of (as_tokens st') name = Some (ae_token env1)"
proof -
  obtain st1 where st1: "handle_agent_direct_request rt env1 r1 st = (st1, snd (handle_agent_direct_request rt env1 r1 st))"
    and tasks: "as_tasks st1 = as_tasks st" and tokens: "map_of (as_tokens st1) name = Some (ae_token env1)"
    using r1 by (auto simp: handle_agent_direct_request_def is_agent_call_def agent_register_def Let_def)
  have mem: "t\<lparr>tk_status := ''COMPLETED''\<rparr> \<in> set (update_row (tk_id t) (\<lambda>t. t\<lparr>tk_status := ''COMPLETED''\<rparr>) (as_tasks st))"
    using assms(1) by (force simp: update_row_def)
  have "\<exists>row. map_of (upsert_result (tk_id t) x n rs) (tk_id t) = Some row \<and> rr_json row = x" for x n rs
    by (auto simp: upsert_result_def split: option.split)
  with r2 r1(3) tasks tokens mem have "t\<lparr>tk_status := ''COMPLETED''\<rparr> \<in> set (as_tasks (fst (handle_agent_direct_request rt env2 r2 st1)))
     \<and> (\<exists>row. map_of (as_results (fst (handle_agent_direct_request rt env2 r2 st1))) (tk_id t) = Some row \<and> rr_json row = rt_json_text rt v)
     \<and> map_of (as_tokens (fst (handle_agent_direct_request rt env2 r2 st1))) name = Some (ae_token env1)"
    by (simp add: handle_agent_direct_request_def is_agent_call_def agent_result_def verify_agent_token_def Let_def)
  moreover have "st' = fst (handle_agent_direct_request rt env2 r2 st1)"
    using run st1 by (auto simp: Let_def split: prod.splits)
  ultimately show ?thesis by simp
qed

text \<open>A small table, two agents, and a runtime that knows the bodies the examples use.\<close>

definition agent_runtime :: runtime where
  "agent_runtime = null_runtime\<lparr>rt_json_parse := map_of
     [(''payload'', JObj [(''agent'', JStr ''ann'')]), (''ann'', JObj [(''agent_id'', JStr ''ann'')]),
      (''eve'', JObj [(''agent_id'', JStr ''eve'')]),
      (''done'', JObj [(''task_id'', JInt 7), (''result'', JNull)])]\<rparr>"

definition agent_row :: "string \<Rightarrow> task_row" where
  "agent_row txt = \<lparr>tk_id = 7, tk_name = ''agent.invoke'', tk_payload = txt, tk_priority = 0,
     tk_status = ''PENDING'', tk_locked_by = None, tk_locked_until = None, tk_scheduled_at = 0\<rparr>"

definition agent_example :: "task_row \<Rightarrow> agent_state" where
  "agent_example t = \<lparr>as_presence = [], as_tokens = [(''ann'', ''secret'')], as_tasks = [t], as_results = []\<rparr>"

definition agent_env_at :: "int \<Rightarrow> agent_env" where
  "agent_env_at n = \<lparr>ae_now = n, ae_now_lock = n, ae_now_due = n, ae_token = ''fresh'',
     ae_row_id = (\<lambda>v. case v of JInt i \<Rightarrow> Some i | _ \<Rightarrow> None)\<rparr>"

definition agent_call :: "string \<Rightarrow> string \<Rightarrow> string \<Rightarrow> string \<Rightarrow> request" where
  "agent_call path name token txt =
     \<lparr>rq_method = ''POST'', rq_url = example_url path,
      rq_headers = [(''x-agent-token'', token), (''x-agent-id'', name)], rq_body = txt\<rparr>"

lemma example_poll:
  "agent_poll agent_runtime (agent_env_at 5) (agent_call ''/v1/agent/poll'' ''ann'' ''secret'' ''ann'') (agent_example (agent_row ''payload'')) =
     (agent_example (claim ''ann'' 60005 (agent_row ''payload'')), Inr (plain_json (task_json (agent_row ''payload'')) 200))"
  by code_simp

theorem poll_grants_lease_witness:
  "leased 60005 (claim ''ann'' 60005 (agent_row ''payload'')) (agent_example (claim ''ann'' 60005 (agent_row ''payload'')))"
proof -
  have "tk_id (agent_row ''payload'') = 7" by (simp add: agent_row_def)
  then obtain agent t where "leased 60005 (claim agent 60005 t) (agent_example (claim ''ann'' 60005 (agent_row ''payload'')))"
    using poll_grants_lease [OF example_poll] by (auto simp: agent_example_def agent_env_at_def)
  moreover from this have "claim agent 60005 t = claim ''ann'' 60005 (agent_row ''payload'')"
    by (simp add: leased_def agent_example_def)
  ultimately show ?thesis by simp
qed

theorem lease_exclusive_witness:
  "claim ''ann'' 60005 (agent_row ''payload'') \<in> set (as_tasks (fst (agent_run agent_runtime
      [(agent_env_at 60005, agent_call ''/v1/agent/poll'' ''ann'' ''secret'' ''ann'')]
      (agent_example (claim ''ann'' 60005 (agent_row ''payload''))))))"
proof -
  let ?c = "[(agent_env_at 60005, agent_call ''/v1/agent/poll'' ''ann'' ''secret'' ''ann'')]"
  have "leased 60005 (claim ''ann'' 60005 (agent_row ''payload'')) (agent_example (claim ''ann'' 60005 (agent_row ''payload'')))"
    by (simp add: leased_def agent_example_def claim_def)
  moreover have "\<forall>(env, r) \<in> set ?c. ae_now env \<le> 60005 \<and> \<not> is_agent_call ''/v1/agent/result'' r"
    by (simp add: agent_env_at_def is_agent_call_def agent_call_def)
  ultimately show ?thesis by (blast dest: lease_exclusive [OF _ _ prod.collapse [symmetric]])
qed

theorem poison_task_starves_queue_witness:
  "agent_row ''eve'' \<in> set (as_tasks (fst (agent_run agent_runtime
      [(agent_env_at 5, agent_call ''/v1/agent/poll'' ''ann'' ''secret'' ''ann''),
       (agent_env_at 6, agent_call ''/v1/agent/result'' ''ann'' ''secret'' ''eve'')] (agent_example (agent_row ''eve'')))))"
proof -
  let ?c = "[(agent_env_at 5, agent_call ''/v1/agent/poll'' ''ann'' ''secret'' ''ann''),
       (agent_env_at 6, agent_call ''/v1/agent/result'' ''ann'' ''secret'' ''eve'')]"
  have "poison agent_runtime (agent_row ''eve'') (agent_example (agent_row ''eve''))"
    by (simp add: poison_def agent_example_def agent_row_def agent_runtime_def agent_task_names_def dispatch_le_def
        targets_agent_def field_def)
  moreover have "\<forall>(env, r) \<in> set ?c. tk_scheduled_at (agent_row ''eve'') \<le> ae_now_due env \<and> \<not> reports_on agent_runtime env (tk_id (agent_row ''eve'')) r"
    by (simp add: agent_env_at_def reports_on_def is_agent_call_def agent_call_def agent_row_def json_or_empty_def agent_runtime_def field_def)
  ultimately show ?thesis by (blast dest: poison_task_starves_queue [OF _ _ prod.collapse [symmetric]])
qed

theorem unknown_token_changes_no_task_witness:
  "as_tasks (fst (handle_agent_direct_request agent_runtime (agent_env_at 5)
      (agent_call ''/v1/agent/poll'' ''ann'' ''guess'' ''ann'') (agent_example (agent_row ''payload'')))) = [agent_row ''payload'']"
proof -
  have "\<forall>a token. header (agent_call ''/v1/agent/poll'' ''ann'' ''guess'' ''ann'') ''x-agent-token'' = Some token
      \<longrightarrow> map_of (as_tokens (agent_example (agent_row ''payload''))) a \<noteq> Some token"
    by (simp add: agent_call_def header_def agent_example_def)
  from unknown_token_changes_no_task [OF this prod.collapse [symmetric]] show ?thesis
    by (simp add: agent_example_def)
qed

theorem stranger_completes_any_task_witness:
  "claim ''ann'' 60005 (agent_row ''payload'')\<lparr>tk_status := ''COMPLETED''\<rparr> \<in> set (as_tasks (fst (agent_run agent_runtime
      [(agent_env_at 5, agent_call ''/v1/agent/register'' ''eve'' [] ''eve''),
       (agent_env_at 6, agent_call ''/v1/agent/result'' ''eve'' ''fresh'' ''done'')]
      (agent_example (claim ''ann'' 60005 (agent_row ''payload''))))))"
proof -
  let ?t = "claim ''ann'' 60005 (agent_row ''payload'')"
  have "?t \<in> set (as_tasks (agent_example ?t))" by (simp add: agent_example_def)
  from stranger_completes_any_task [OF this _ _ _ _ _ _ _ _ _ _ _ prod.collapse [symmetric],
      of "agent_call ''/v1/agent/register'' ''eve'' [] ''eve''" agent_runtime "''eve''"
        "agent_call ''/v1/agent/result'' ''eve'' ''fresh'' ''done''" "agent_env_at 5" JNull "agent_env_at 6"]
  show ?thesis
    by (simp add: agent_call_def is_agent_call_def json_or_empty_def agent_runtime_def header_def
        agent_env_at_def claim_def agent_row_def)
qed

end
