(* ===== verification/OAuthValidation.thy ===== *)
theory OAuthValidation
  imports Sessions
begin

text \<open>
  The checks on OAuth requests, which keep no state: the authorization request against the client's
  policy (\<open>gateway/src/oauth-authorization-validation.ts\<close>), the token request against the code's binding
  with PKCE (\<open>oauth-token-validation.ts\<close>), and the redirect that carries the answer
  (\<open>oauth-authorization-response.ts\<close>).
\<close>

section \<open>The authorization request\<close>

record oauth_client_policy =
  pc_client_id :: string
  pc_redirect_uri :: string
  pc_resource :: string
  pc_scopes :: "string list"

record oauth_request =
  or_response_type :: string
  or_client_id :: string
  or_redirect_uri :: string
  or_resource :: string
  or_scopes :: "string list"
  or_state :: "string option"
  or_code_challenge :: string
  or_challenge_method :: string

datatype authorization_error_code =
    InvalidRequest | UnauthorizedClient | UnsupportedResponseType | InvalidRedirectUri | InvalidTarget
  | InvalidScope | InvalidCodeChallenge

record authorization_failure =
  af_error :: authorization_error_code
  af_description :: string
  af_redirect_allowed :: bool

abbreviation failure_of :: "authorization_error_code \<Rightarrow> string \<Rightarrow> bool \<Rightarrow> authorization_failure + 'a" where
  "failure_of e d allowed \<equiv> Inl \<lparr>af_error = e, af_description = d, af_redirect_allowed = allowed\<rparr>"

definition SINGLE_VALUE_PARAMS :: "string list" where
  "SINGLE_VALUE_PARAMS =
     [''response_type'', ''client_id'', ''redirect_uri'', ''resource'', ''scope'', ''state'',
      ''code_challenge'', ''code_challenge_method'']"

definition pkce_challenge_ok :: "string \<Rightarrow> bool" where
  "pkce_challenge_ok = rx_range is_base64url 43 43"

definition scope_token_ok :: "string \<Rightarrow> bool" where
  "scope_token_ok = rx_plus is_scope_char"

text \<open>
  \<open>exactSingleValue\<close> answers with the string \<open>duplicate\<close> for a repeated parameter, which its callers test
  for; a single parameter with this value is the same to them.
\<close>

definition exact_single_value :: "(string \<times> string) list \<Rightarrow> string \<Rightarrow> string option" where
  "exact_single_value ps name =
     (case get_all ps name of [] \<Rightarrow> None | [v] \<Rightarrow> Some v | v # w # vs \<Rightarrow> Some ''duplicate'')"

definition first_duplicate :: "string list \<Rightarrow> (string \<times> string) list \<Rightarrow> string option" where
  "first_duplicate names ps = find (\<lambda>name. exact_single_value ps name = Some ''duplicate'') names"

definition policy_is_valid :: "oauth_client_policy \<Rightarrow> bool" where
  "policy_is_valid p \<longleftrightarrow>
     (if pc_client_id p = [] \<or> pc_redirect_uri p = [] \<or> pc_resource p = [] then False
      else if pc_scopes p = [] then False
      else length (remdups (pc_scopes p)) = length (pc_scopes p)
           \<and> list_all (\<lambda>scope. length scope > 0 \<and> scope_token_ok scope) (pc_scopes p))"

definition validate_oauth_authorization_request ::
  "url option \<Rightarrow> oauth_client_policy \<Rightarrow> authorization_failure + oauth_request" where
  "validate_oauth_authorization_request request_url p =
     (if \<not> policy_is_valid p then failure_of InvalidRequest ''OAuth client policy is invalid'' False
      else case request_url of
        None \<Rightarrow> failure_of InvalidRequest ''authorization request URL is invalid'' False
      | Some url \<Rightarrow>
      (case first_duplicate SINGLE_VALUE_PARAMS (u_params url) of
         Some name \<Rightarrow> failure_of InvalidRequest (''duplicate '' @ name @ '' parameter'') False
       | None \<Rightarrow>
      (let param = exact_single_value (u_params url);
           scope_text = (case param ''scope'' of None \<Rightarrow> [] | Some s \<Rightarrow> s);
           requested = split_on (CHR '' '') scope_text
       in if param ''client_id'' \<noteq> Some (pc_client_id p)
            then failure_of UnauthorizedClient ''client_id is not registered'' False
          else if param ''redirect_uri'' \<noteq> Some (pc_redirect_uri p)
            then failure_of InvalidRedirectUri ''redirect_uri does not exactly match the registered URI'' False
          else if param ''response_type'' \<noteq> Some ''code''
            then failure_of UnsupportedResponseType ''response_type must be code'' True
          else if param ''resource'' \<noteq> Some (pc_resource p)
            then failure_of InvalidTarget ''resource does not exactly match the configured MCP resource'' True
          else if param ''scope'' = None \<or> trim scope_text = []
            then failure_of InvalidScope ''scope must be non-empty'' True
          else if scope_text \<noteq> trim scope_text \<or> includes_str scope_text ''  ''
            then failure_of InvalidScope ''scope must use single ASCII-space separators'' True
          else if length (remdups requested) \<noteq> length requested
                  \<or> list_ex (\<lambda>s. \<not> scope_token_ok s) requested
                  \<or> list_ex (\<lambda>s. s \<notin> set (pc_scopes p)) requested
            then failure_of InvalidScope
                   ''requested scopes must be a unique subset of the registered client scopes'' True
          else if param ''code_challenge_method'' \<noteq> Some ''S256''
                  \<or> param ''code_challenge'' = None
                  \<or> \<not> pkce_challenge_ok (the (param ''code_challenge''))
            then failure_of InvalidCodeChallenge
                   ''PKCE S256 with a 43-character base64url challenge is required'' True
          else if param ''state'' = Some []
            then failure_of InvalidRequest ''state must not be empty when present'' True
          else Inr \<lparr>or_response_type = ''code'', or_client_id = pc_client_id p,
                     or_redirect_uri = pc_redirect_uri p, or_resource = pc_resource p,
                     or_scopes = requested, or_state = param ''state'',
                     or_code_challenge = the (param ''code_challenge''), or_challenge_method = ''S256''\<rparr>)))"

section \<open>The token request\<close>

record code_binding =
  cb_code :: string
  cb_client_id :: string
  cb_redirect_uri :: string
  cb_resource :: string
  cb_code_challenge :: string

record token_request =
  tr_grant_type :: string
  tr_code :: string
  tr_client_id :: string
  tr_redirect_uri :: string
  tr_resource :: string
  tr_code_verifier :: string

datatype token_error_code = TokenInvalidRequest | TokenInvalidClient | TokenInvalidGrant | TokenInvalidTarget

record token_failure =
  tf_error :: token_error_code
  tf_description :: string

abbreviation token_fails :: "token_error_code \<Rightarrow> string \<Rightarrow> token_failure + 'a" where
  "token_fails e d \<equiv> Inl \<lparr>tf_error = e, tf_description = d\<rparr>"

definition TOKEN_PARAMS :: "string list" where
  "TOKEN_PARAMS = [''grant_type'', ''code'', ''client_id'', ''redirect_uri'', ''resource'', ''code_verifier'']"

definition pkce_verifier_ok :: "string \<Rightarrow> bool" where
  "pkce_verifier_ok = rx_range (\<lambda>c. is_alnum c \<or> c \<in> set ''-._~'') 43 128"

definition pkce_s256_challenge :: "runtime \<Rightarrow> string \<Rightarrow> string option" where
  "pkce_s256_challenge rt verifier =
     (if \<not> pkce_verifier_ok verifier then None
      else Some (base64_url_encode (rt_sha256 rt (utf8 verifier))))"

definition validate_oauth_token_request ::
  "runtime \<Rightarrow> (string \<times> string) list \<Rightarrow> code_binding \<Rightarrow> token_failure + token_request" where
  "validate_oauth_token_request rt ps b =
     (if cb_code b = [] \<or> cb_client_id b = [] \<or> cb_redirect_uri b = [] \<or> cb_resource b = []
         \<or> \<not> pkce_challenge_ok (cb_code_challenge b)
      then token_fails TokenInvalidGrant ''authorization-code binding is invalid''
      else case first_duplicate TOKEN_PARAMS ps of
        Some name \<Rightarrow> token_fails TokenInvalidRequest (''duplicate '' @ name @ '' parameter'')
      | None \<Rightarrow>
      (let param = exact_single_value ps
       in if param ''grant_type'' \<noteq> Some ''authorization_code''
            then token_fails TokenInvalidRequest ''grant_type must be authorization_code''
          else if param ''client_id'' \<noteq> Some (cb_client_id b)
            then token_fails TokenInvalidClient ''client_id does not match the authorization code''
          else if param ''redirect_uri'' \<noteq> Some (cb_redirect_uri b)
            then token_fails TokenInvalidGrant ''redirect_uri does not match the authorization code''
          else if param ''resource'' \<noteq> Some (cb_resource b)
            then token_fails TokenInvalidTarget ''resource does not match the authorization code''
          else if param ''code'' \<noteq> Some (cb_code b)
            then token_fails TokenInvalidGrant ''authorization code is invalid''
          else (case param ''code_verifier'' of
            None \<Rightarrow> token_fails TokenInvalidGrant ''PKCE code_verifier is invalid''
          | Some verifier \<Rightarrow>
              if \<not> pkce_verifier_ok verifier
                then token_fails TokenInvalidGrant ''PKCE code_verifier is invalid''
              else if pkce_s256_challenge rt verifier \<noteq> Some (cb_code_challenge b)
                then token_fails TokenInvalidGrant ''PKCE verification failed''
              else Inr \<lparr>tr_grant_type = ''authorization_code'', tr_code = cb_code b,
                         tr_client_id = cb_client_id b, tr_redirect_uri = cb_redirect_uri b,
                         tr_resource = cb_resource b, tr_code_verifier = verifier\<rparr>)))"

section \<open>The redirect with the answer\<close>

definition MAX_URI_BYTES :: nat where "MAX_URI_BYTES = 4096"
definition MAX_STATE_BYTES :: nat where "MAX_STATE_BYTES = 1024"
definition MAX_ERROR_DESCRIPTION_BYTES :: nat where "MAX_ERROR_DESCRIPTION_BYTES = 512"

definition RESERVED_RESPONSE_PARAMS :: "string list" where
  "RESERVED_RESPONSE_PARAMS = [''code'', ''error'', ''error_description'', ''error_uri'', ''state'', ''iss'']"

datatype redirect_error =
    InvalidResponseRedirectUri | AmbiguousRedirectUri | InvalidIssuer | InvalidState | InvalidCode | InvalidError

definition response_code_ok :: "string \<Rightarrow> bool" where
  "response_code_ok = rx_range is_base64url 32 128"

text \<open>\<open>/^[A-Za-z_][A-Za-z0-9_.-]{0,63}$/\<close>.\<close>

fun oauth_error_ok :: "string \<Rightarrow> bool" where
  "oauth_error_ok [] = False"
| "oauth_error_ok (c # s) \<longleftrightarrow>
     (is_alpha c \<or> c = CHR ''_'') \<and> rx_range (\<lambda>d. is_alnum d \<or> d \<in> set ''_.-'') 0 63 s"

definition parse_redirect_uri :: "runtime \<Rightarrow> oauth_request \<Rightarrow> url option" where
  "parse_redirect_uri rt q =
     (if or_response_type q \<noteq> ''code'' \<or> length (or_redirect_uri q) = 0
         \<or> byte_length (or_redirect_uri q) > MAX_URI_BYTES then None
      else case rt_url rt (or_redirect_uri q) of
        None \<Rightarrow> None
      | Some u \<Rightarrow>
          if u_protocol u \<noteq> ''https:'' \<or> u_username u \<noteq> [] \<or> u_password u \<noteq> [] \<or> u_hash u \<noteq> []
          then None else Some u)"

definition redirect_has_reserved_params :: "url \<Rightarrow> bool" where
  "redirect_has_reserved_params u \<longleftrightarrow> list_ex (\<lambda>p. fst p \<in> set RESERVED_RESPONSE_PARAMS) (u_params u)"

definition normalize_issuer :: "runtime \<Rightarrow> string \<Rightarrow> string option" where
  "normalize_issuer rt issuer =
     (if issuer = [] \<or> byte_length issuer > MAX_URI_BYTES then None
      else case rt_url rt issuer of
        None \<Rightarrow> None
      | Some u \<Rightarrow>
          if u_protocol u \<noteq> ''https:'' \<or> u_username u \<noteq> [] \<or> u_password u \<noteq> [] \<or> u_search u \<noteq> []
             \<or> u_hash u \<noteq> []
          then None else Some issuer)"

definition prepare_redirect :: "runtime \<Rightarrow> oauth_request \<Rightarrow> string \<Rightarrow> redirect_error + string" where
  "prepare_redirect rt q issuer =
     (case parse_redirect_uri rt q of
        None \<Rightarrow> Inl InvalidResponseRedirectUri
      | Some redirect \<Rightarrow>
          if (case or_state q of None \<Rightarrow> False
              | Some s \<Rightarrow> length s = 0 \<or> byte_length s > MAX_STATE_BYTES) then Inl InvalidState
          else if redirect_has_reserved_params redirect then Inl AmbiguousRedirectUri
          else case normalize_issuer rt issuer of
            None \<Rightarrow> Inl InvalidIssuer
          | Some normalized \<Rightarrow> Inr normalized)"

definition common_response_params :: "oauth_request \<Rightarrow> string \<Rightarrow> (string \<times> string) list" where
  "common_response_params q issuer =
     (case or_state q of None \<Rightarrow> [] | Some s \<Rightarrow> [(''state'', s)]) @ [(''iss'', issuer)]"

definition query_separator :: "string \<Rightarrow> string" where
  "query_separator uri =
     (if ends_with uri ''?'' \<or> ends_with uri ''&'' then [] else if includes_str uri ''?'' then ''&'' else ''?'')"

definition append_response_query :: "runtime \<Rightarrow> string \<Rightarrow> (string \<times> string) list \<Rightarrow> string" where
  "append_response_query rt uri ps = uri @ query_separator uri @ rt_form_text rt ps"

definition build_success_redirect ::
  "runtime \<Rightarrow> oauth_request \<Rightarrow> string \<Rightarrow> string \<Rightarrow> redirect_error + string" where
  "build_success_redirect rt q issuer code =
     (if \<not> response_code_ok code then Inl InvalidCode
      else case prepare_redirect rt q issuer of
        Inl e \<Rightarrow> Inl e
      | Inr normalized \<Rightarrow>
          Inr (append_response_query rt (or_redirect_uri q)
                ((''code'', code) # common_response_params q normalized)))"

definition build_error_redirect ::
  "runtime \<Rightarrow> oauth_request \<Rightarrow> string \<Rightarrow> string \<Rightarrow> string option \<Rightarrow> redirect_error + string" where
  "build_error_redirect rt q issuer err description =
     (if \<not> oauth_error_ok err
         \<or> (case description of None \<Rightarrow> False
            | Some d \<Rightarrow> length d = 0 \<or> byte_length d > MAX_ERROR_DESCRIPTION_BYTES
                \<or> list_ex (\<lambda>c. unit_of c = 13 \<or> unit_of c = 10) d)
      then Inl InvalidError
      else case prepare_redirect rt q issuer of
        Inl e \<Rightarrow> Inl e
      | Inr normalized \<Rightarrow>
          Inr (append_response_query rt (or_redirect_uri q)
                ((''error'', err)
                 # (case description of None \<Rightarrow> [] | Some d \<Rightarrow> [(''error_description'', d)])
                 @ common_response_params q normalized)))"

section \<open>Lemmas on parameters and scope texts\<close>

lemma first_duplicate_None:
  "first_duplicate names ps = None \<longleftrightarrow> (\<forall>n \<in> set names. exact_single_value ps n \<noteq> Some ''duplicate'')"
  by (auto simp: first_duplicate_def find_None_iff)

lemma exact_single_value_iff:
  assumes "exact_single_value ps n \<noteq> Some ''duplicate''"
  shows "exact_single_value ps n = Some v \<longleftrightarrow> get_all ps n = [v]" and "exact_single_value ps n = None \<longleftrightarrow> get_all ps n = []"
  using assms by (auto simp: exact_single_value_def split: list.splits)

lemma exact_single_value_simps [simp]:
  "get_all ps n = [] \<Longrightarrow> exact_single_value ps n = None"
  "get_all ps n = [v] \<Longrightarrow> exact_single_value ps n = Some v"
  by (simp_all add: exact_single_value_def)

lemma trim_id:
  assumes "s \<noteq> []" and "\<not> is_space (hd s)" and "\<not> is_space (last s)"
  shows "trim s = s"
proof -
  have "dropWhile is_space s = s" using assms by (cases s) simp_all
  moreover have "dropWhile is_space (rev s) = rev s" using assms by (cases s rule: rev_cases) simp_all
  ultimately show ?thesis by (simp add: trim_def)
qed

lemma double_sep_piece: "[] \<in> set (tl (split_on d (u @ d # d # v)))"
proof (induction u)
  case (Cons c u)
  then show ?case by (cases "split_on d (u @ d # d # v)") auto
qed simp

lemma scope_char_no_space: "is_scope_char c \<Longrightarrow> \<not> is_space c" "is_scope_char c \<Longrightarrow> c \<noteq> CHR '' ''"
  by (auto simp: char_class_defs is_space_def)

lemma hd_last_join:
  "ss \<noteq> [] \<Longrightarrow> [] \<notin> set ss \<Longrightarrow> hd (join d ss) = hd (hd ss) \<and> last (join d ss) = last (last ss) \<and> join d ss \<noteq> []"
proof (induction ss rule: induct_list012)
  case (3 s t ss)
  then show ?case by (auto simp: join_Cons)
qed simp_all

lemma scope_text_ok:
  assumes "ss \<noteq> []" and tokens: "\<forall>s \<in> set ss. scope_token_ok s"
  shows "split_on (CHR '' '') (join '' '' ss) = ss" and "trim (join '' '' ss) = join '' '' ss"
    and "join '' '' ss \<noteq> []" and "\<not> includes_str (join '' '' ss) ''  ''"
proof -
  have nonempty: "[] \<notin> set ss" using tokens by (auto simp: scope_token_ok_def rx_plus_def)
  show split: "split_on (CHR '' '') (join '' '' ss) = ss"
    using assms scope_char_no_space(2)
    by (intro split_on_join) (auto simp: scope_token_ok_def rx_plus_def list_all_iff)
  note hl = hd_last_join [OF assms(1) nonempty, of "'' ''"]
  then show "join '' '' ss \<noteq> []" by simp
  have "hd ss \<in> set ss" "last ss \<in> set ss" using assms(1) by simp_all
  then have "is_scope_char (hd (hd ss))" "is_scope_char (last (last ss))"
    using tokens by (auto simp: scope_token_ok_def rx_plus_def list_all_iff)
  then show "trim (join '' '' ss) = join '' '' ss"
    using hl scope_char_no_space(1) by (intro trim_id) auto
  show "\<not> includes_str (join '' '' ss) ''  ''"
  proof
    assume "includes_str (join '' '' ss) ''  ''"
    then obtain u v where "join '' '' ss = u @ CHR '' '' # CHR '' '' # v"
      by (auto simp: includes_str_iff)
    with double_sep_piece [of "CHR '' ''" u v] split nonempty show False
      by (auto dest: list.set_sel(2) [OF split_on_not_Nil])
  qed
qed

section \<open>Printing a request\<close>

text \<open>The parameters a request and a token request are printed as.\<close>

definition request_params :: "oauth_request \<Rightarrow> (string \<times> string) list" where
  "request_params q =
     [(''response_type'', or_response_type q), (''client_id'', or_client_id q),
      (''redirect_uri'', or_redirect_uri q), (''resource'', or_resource q),
      (''scope'', join '' '' (or_scopes q)), (''code_challenge'', or_code_challenge q),
      (''code_challenge_method'', or_challenge_method q)]
     @ (case or_state q of None \<Rightarrow> [] | Some s \<Rightarrow> [(''state'', s)])"

definition same_params :: "string list \<Rightarrow> (string \<times> string) list \<Rightarrow> (string \<times> string) list \<Rightarrow> bool" where
  "same_params names ps qs \<longleftrightarrow>
     (\<forall>n \<in> set names. get_all ps n = get_all qs n \<and> get_all ps n \<noteq> [''duplicate''])"

text \<open>A request that stays within a policy.\<close>

definition within_policy :: "oauth_client_policy \<Rightarrow> oauth_request \<Rightarrow> bool" where
  "within_policy p q \<longleftrightarrow>
     or_response_type q = ''code'' \<and> or_client_id q = pc_client_id p \<and> or_redirect_uri q = pc_redirect_uri p
     \<and> or_resource q = pc_resource p \<and> or_scopes q \<noteq> [] \<and> distinct (or_scopes q)
     \<and> set (or_scopes q) \<subseteq> set (pc_scopes p) \<and> or_state q \<noteq> Some []
     \<and> pkce_challenge_ok (or_code_challenge q) \<and> or_challenge_method q = ''S256''"

lemma policy_is_valid_iff:
  "policy_is_valid p \<longleftrightarrow> pc_client_id p \<noteq> [] \<and> pc_redirect_uri p \<noteq> [] \<and> pc_resource p \<noteq> []
     \<and> pc_scopes p \<noteq> [] \<and> distinct (pc_scopes p) \<and> (\<forall>s \<in> set (pc_scopes p). scope_token_ok s)"
  by (auto simp: policy_is_valid_def length_remdups_eq list_all_iff scope_token_ok_def rx_plus_def)

lemma get_all_request_params:
  "get_all (request_params q) ''response_type'' = [or_response_type q]"
  "get_all (request_params q) ''client_id'' = [or_client_id q]"
  "get_all (request_params q) ''redirect_uri'' = [or_redirect_uri q]"
  "get_all (request_params q) ''resource'' = [or_resource q]"
  "get_all (request_params q) ''scope'' = [join '' '' (or_scopes q)]"
  "get_all (request_params q) ''code_challenge'' = [or_code_challenge q]"
  "get_all (request_params q) ''code_challenge_method'' = [or_challenge_method q]"
  "get_all (request_params q) ''state'' = (case or_state q of None \<Rightarrow> [] | Some s \<Rightarrow> [s])"
  by (auto simp: get_all_def request_params_def split: option.split)

lemma same_params_noduplicate:
  assumes "same_params names ps (request_params q)" and "set names \<subseteq> set SINGLE_VALUE_PARAMS"
  shows "first_duplicate names ps = None"
  using assms
  by (auto simp: first_duplicate_None same_params_def exact_single_value_def SINGLE_VALUE_PARAMS_def
      get_all_request_params dest!: bspec subsetD split: list.splits option.splits)

lemma authorization_request_sound:
  assumes "validate_oauth_authorization_request (Some url) p = Inr q"
  shows "policy_is_valid p \<and> within_policy p q \<and> same_params SINGLE_VALUE_PARAMS (u_params url) (request_params q)"
proof -
  let ?ps = "u_params url" and ?v = "exact_single_value (u_params url)"
  from assms have valid: "policy_is_valid p" and nodup: "first_duplicate SINGLE_VALUE_PARAMS ?ps = None"
    by (auto simp: validate_oauth_authorization_request_def split: if_splits option.splits)
  define scope_text where "scope_text = (case ?v ''scope'' of None \<Rightarrow> [] | Some s \<Rightarrow> s)"
  from assms valid nodup have vals: "?v ''client_id'' = Some (pc_client_id p)"
    "?v ''redirect_uri'' = Some (pc_redirect_uri p)" "?v ''response_type'' = Some ''code''"
    "?v ''resource'' = Some (pc_resource p)" "?v ''scope'' = Some scope_text"
    "distinct (split_on (CHR '' '') scope_text)" "set (split_on (CHR '' '') scope_text) \<subseteq> set (pc_scopes p)"
    "?v ''code_challenge_method'' = Some ''S256''" "\<exists>c. ?v ''code_challenge'' = Some c \<and> pkce_challenge_ok c"
    "?v ''state'' \<noteq> Some []"
    "q = \<lparr>or_response_type = ''code'', or_client_id = pc_client_id p, or_redirect_uri = pc_redirect_uri p,
          or_resource = pc_resource p, or_scopes = split_on (CHR '' '') scope_text, or_state = ?v ''state'',
          or_code_challenge = the (?v ''code_challenge''), or_challenge_method = ''S256''\<rparr>"
    by (auto simp: validate_oauth_authorization_request_def Let_def scope_text_def length_remdups_eq list_ex_iff
        split: if_splits option.splits)
  have get: "get_all ?ps n = (case ?v n of None \<Rightarrow> [] | Some v \<Rightarrow> [v])" if "n \<in> set SINGLE_VALUE_PARAMS" for n
    using that nodup by (auto simp: first_duplicate_None exact_single_value_iff split: option.splits)
  obtain c where c: "?v ''code_challenge'' = Some c" using vals(9) by blast
  have "get_all ?ps n = get_all (request_params q) n" if "n \<in> set SINGLE_VALUE_PARAMS" for n
    using that unfolding get [OF that]
    by (auto simp: SINGLE_VALUE_PARAMS_def get_all_request_params vals(1-5,8,11) c join_split_on)
  moreover have "get_all ?ps n \<noteq> [''duplicate'']" if "n \<in> set SINGLE_VALUE_PARAMS" for n
    using that nodup by (auto simp: first_duplicate_None)
  ultimately show ?thesis using valid vals
    by (auto simp: within_policy_def same_params_def)
qed

lemma authorization_request_complete:
  assumes valid: "policy_is_valid p" and q: "within_policy p q"
    and same: "same_params SINGLE_VALUE_PARAMS (u_params url) (request_params q)"
  shows "validate_oauth_authorization_request (Some url) p = Inr q"
proof -
  let ?ps = "u_params url" and ?v = "exact_single_value (u_params url)"
  have get: "get_all ?ps n = get_all (request_params q) n" if "n \<in> set SINGLE_VALUE_PARAMS" for n
    using same that by (simp add: same_params_def)
  have vals: "?v ''client_id'' = Some (pc_client_id p)"
    "?v ''redirect_uri'' = Some (pc_redirect_uri p)" "?v ''response_type'' = Some ''code''"
    "?v ''resource'' = Some (pc_resource p)" "?v ''scope'' = Some (join '' '' (or_scopes q))"
    "?v ''code_challenge_method'' = Some ''S256''" "?v ''code_challenge'' = Some (or_code_challenge q)"
    "?v ''state'' = or_state q"
    using q by (simp_all add: exact_single_value_def get SINGLE_VALUE_PARAMS_def get_all_request_params within_policy_def split: option.split)
  have tokens: "\<forall>s \<in> set (or_scopes q). scope_token_ok s" "or_scopes q \<noteq> []"
    using valid q by (auto simp: policy_is_valid_iff within_policy_def)
  note scope = scope_text_ok [OF tokens(2,1)]
  have "first_duplicate SINGLE_VALUE_PARAMS ?ps = None" by (rule same_params_noduplicate [OF same]) simp
  with valid vals scope tokens q show ?thesis
    by (auto simp: validate_oauth_authorization_request_def Let_def within_policy_def length_remdups_eq list_ex_iff)
qed

definition token_params :: "token_request \<Rightarrow> (string \<times> string) list" where
  "token_params t =
     [(''grant_type'', tr_grant_type t), (''code'', tr_code t), (''client_id'', tr_client_id t),
      (''redirect_uri'', tr_redirect_uri t), (''resource'', tr_resource t), (''code_verifier'', tr_code_verifier t)]"

definition binding_ok :: "code_binding \<Rightarrow> bool" where
  "binding_ok b \<longleftrightarrow> cb_code b \<noteq> [] \<and> cb_client_id b \<noteq> [] \<and> cb_redirect_uri b \<noteq> [] \<and> cb_resource b \<noteq> []
     \<and> pkce_challenge_ok (cb_code_challenge b)"

definition redeems :: "runtime \<Rightarrow> code_binding \<Rightarrow> token_request \<Rightarrow> bool" where
  "redeems rt b t \<longleftrightarrow> tr_grant_type t = ''authorization_code'' \<and> tr_code t = cb_code b
     \<and> tr_client_id t = cb_client_id b \<and> tr_redirect_uri t = cb_redirect_uri b \<and> tr_resource t = cb_resource b
     \<and> pkce_verifier_ok (tr_code_verifier t)
     \<and> base64_url_encode (rt_sha256 rt (utf8 (tr_code_verifier t))) = cb_code_challenge b"

lemma get_all_token_params:
  "get_all (token_params t) ''grant_type'' = [tr_grant_type t]"
  "get_all (token_params t) ''code'' = [tr_code t]"
  "get_all (token_params t) ''client_id'' = [tr_client_id t]"
  "get_all (token_params t) ''redirect_uri'' = [tr_redirect_uri t]"
  "get_all (token_params t) ''resource'' = [tr_resource t]"
  "get_all (token_params t) ''code_verifier'' = [tr_code_verifier t]"
  by (auto simp: get_all_def token_params_def)

lemma token_request_sound:
  assumes "validate_oauth_token_request rt ps b = Inr t"
  shows "binding_ok b \<and> redeems rt b t \<and> same_params TOKEN_PARAMS ps (token_params t)"
proof -
  let ?v = "exact_single_value ps"
  from assms have b: "binding_ok b" and nodup: "first_duplicate TOKEN_PARAMS ps = None"
    by (auto simp: validate_oauth_token_request_def binding_ok_def split: if_splits option.splits)
  from assms b nodup obtain verifier where vals: "?v ''grant_type'' = Some ''authorization_code''"
    "?v ''code'' = Some (cb_code b)" "?v ''client_id'' = Some (cb_client_id b)"
    "?v ''redirect_uri'' = Some (cb_redirect_uri b)" "?v ''resource'' = Some (cb_resource b)"
    "?v ''code_verifier'' = Some verifier"
    and pkce: "pkce_verifier_ok verifier" "pkce_s256_challenge rt verifier = Some (cb_code_challenge b)"
    and t: "t = \<lparr>tr_grant_type = ''authorization_code'', tr_code = cb_code b, tr_client_id = cb_client_id b,
               tr_redirect_uri = cb_redirect_uri b, tr_resource = cb_resource b, tr_code_verifier = verifier\<rparr>"
    by (auto simp: validate_oauth_token_request_def Let_def split: if_splits option.splits)
  have get: "get_all ps n = (case ?v n of None \<Rightarrow> [] | Some v \<Rightarrow> [v])" if "n \<in> set TOKEN_PARAMS" for n
    using that nodup by (auto simp: first_duplicate_None exact_single_value_iff split: option.splits)
  have "get_all ps n = get_all (token_params t) n" if "n \<in> set TOKEN_PARAMS" for n
    using that unfolding get [OF that] by (auto simp: TOKEN_PARAMS_def get_all_token_params vals t)
  moreover have "get_all ps n \<noteq> [''duplicate'']" if "n \<in> set TOKEN_PARAMS" for n
    using that nodup by (auto simp: first_duplicate_None)
  ultimately show ?thesis using b pkce
    by (auto simp: redeems_def t same_params_def pkce_s256_challenge_def)
qed

lemma token_request_complete:
  assumes "binding_ok b" and t: "redeems rt b t" and same: "same_params TOKEN_PARAMS ps (token_params t)"
  shows "validate_oauth_token_request rt ps b = Inr t"
proof -
  let ?v = "exact_single_value ps"
  have get: "get_all ps n = get_all (token_params t) n" if "n \<in> set TOKEN_PARAMS" for n
    using same that by (simp add: same_params_def)
  have vals: "?v ''grant_type'' = Some ''authorization_code''" "?v ''code'' = Some (cb_code b)"
    "?v ''client_id'' = Some (cb_client_id b)" "?v ''redirect_uri'' = Some (cb_redirect_uri b)"
    "?v ''resource'' = Some (cb_resource b)" "?v ''code_verifier'' = Some (tr_code_verifier t)"
    using t by (simp_all add: exact_single_value_def get TOKEN_PARAMS_def get_all_token_params redeems_def)
  have "first_duplicate TOKEN_PARAMS ps = None"
    using same by (auto simp: first_duplicate_None same_params_def exact_single_value_def TOKEN_PARAMS_def
        get_all_token_params dest!: bspec split: list.splits)
  with vals assms(1) t show ?thesis
    by (simp add: validate_oauth_token_request_def Let_def binding_ok_def redeems_def pkce_s256_challenge_def)
qed

section \<open>Properties\<close>

text \<open>
  C26. Accepting an authorization request is the inverse of printing it, but for the word \<open>duplicate\<close>: the code
  takes a parameter with that one value for a repeated one and refuses it. Under a policy, a URL is
  accepted as the request \<open>q\<close> exactly when the policy is well formed, \<open>q\<close> stays within it (its client,
  redirect URI and resource, a non-empty set of its scopes without repetition, an S256 challenge of 43
  characters, no empty state) and each of the eight OAuth parameters of the URL is exactly what \<open>q\<close> is
  printed as, none of them being the word \<open>duplicate\<close> (\<open>state_duplicate_refused\<close> below shows that such a
  request is refused although it is printed from one within the policy).
\<close>

theorem authorization_request_accepted_iff:
  "validate_oauth_authorization_request (Some url) p = Inr q \<longleftrightarrow>
     policy_is_valid p \<and> within_policy p q \<and> same_params SINGLE_VALUE_PARAMS (u_params url) (request_params q)"
  using authorization_request_sound authorization_request_complete by blast

text \<open>
  An error may be sent to the redirect URI only once client and redirect URI are authenticated: a
  refusal allows the redirect exactly when the policy is well formed, no parameter is a duplicate, and
  the client id and redirect URI are the policy's.
\<close>

theorem redirect_allowed_iff:
  assumes "validate_oauth_authorization_request (Some url) p = Inl f"
  shows "af_redirect_allowed f \<longleftrightarrow>
     policy_is_valid p \<and> first_duplicate SINGLE_VALUE_PARAMS (u_params url) = None
     \<and> get_all (u_params url) ''client_id'' = [pc_client_id p]
     \<and> get_all (u_params url) ''redirect_uri'' = [pc_redirect_uri p]"
proof (cases "first_duplicate SINGLE_VALUE_PARAMS (u_params url)")
  case None
  then have get: "get_all (u_params url) n = [v] \<longleftrightarrow> exact_single_value (u_params url) n = Some v"
    if "n \<in> set SINGLE_VALUE_PARAMS" for n v
    using that exact_single_value_iff(1) [of "u_params url" n v] by (simp add: first_duplicate_None)
  have ids: "get_all (u_params url) ''client_id'' = [pc_client_id p] \<longleftrightarrow>
      exact_single_value (u_params url) ''client_id'' = Some (pc_client_id p)"
    "get_all (u_params url) ''redirect_uri'' = [pc_redirect_uri p] \<longleftrightarrow>
      exact_single_value (u_params url) ''redirect_uri'' = Some (pc_redirect_uri p)"
    by (rule get, simp add: SINGLE_VALUE_PARAMS_def)+
  show ?thesis
    using assms None unfolding ids validate_oauth_authorization_request_def Let_def
    by (simp split: if_split_asm) auto
qed (use assms in \<open>auto simp: validate_oauth_authorization_request_def split: if_splits\<close>)

text \<open>
  The word \<open>duplicate\<close> is mistaken for a repeated parameter. A request that is well formed in every
  respect but whose \<open>state\<close> is the string \<open>duplicate\<close>, given once, is refused as having a duplicate
  \<open>state\<close>, and without a redirect to the client.
\<close>

theorem state_duplicate_refused:
  assumes "policy_is_valid p" and "within_policy p q" and "or_state q = Some ''duplicate''"
    and "\<forall>n \<in> set SINGLE_VALUE_PARAMS. get_all (u_params url) n = get_all (request_params q) n"
    and "pc_client_id p \<noteq> ''duplicate''" "pc_redirect_uri p \<noteq> ''duplicate''" "pc_resource p \<noteq> ''duplicate''"
      "join '' '' (or_scopes q) \<noteq> ''duplicate''"
  shows "validate_oauth_authorization_request (Some url) p =
     Inl \<lparr>af_error = InvalidRequest, af_description = ''duplicate state parameter'', af_redirect_allowed = False\<rparr>"
proof -
  have "first_duplicate SINGLE_VALUE_PARAMS (u_params url) = Some ''state''"
    using assms by (simp add: first_duplicate_def SINGLE_VALUE_PARAMS_def exact_single_value_def
        get_all_request_params within_policy_def)
  with assms(1) show ?thesis by (simp add: validate_oauth_authorization_request_def)
qed

text \<open>
  C27. Redeeming a code needs everything it was bound to. A token request is accepted as \<open>t\<close> exactly when
  the binding is well formed, the six parameters are those \<open>t\<close> is printed as, none of them being the word
  \<open>duplicate\<close>, \<open>t\<close> names the binding's
  code, client, redirect URI and resource, and its verifier has the PKCE form and hashes to the
  binding's challenge.
\<close>

theorem token_request_accepted_iff:
  "validate_oauth_token_request rt ps b = Inr t \<longleftrightarrow>
     binding_ok b \<and> redeems rt b t \<and> same_params TOKEN_PARAMS ps (token_params t)"
  using token_request_sound token_request_complete by blast

text \<open>
  The success redirect is unambiguous. When it is built, it extends the request's redirect URI, which
  parses to an HTTPS URL without credentials or fragment; and where the URL parser reads the location as
  the URI's parameters followed by the appended ones, the client finds exactly one
  \<open>code\<close>, exactly one \<open>iss\<close>, the request's \<open>state\<close> and no \<open>error\<close> in it.
\<close>

theorem success_redirect_unambiguous:
  assumes "build_success_redirect rt q issuer code = Inr location"
    and "rt_url rt (or_redirect_uri q) = Some u" and "rt_url rt location = Some w"
    and "u_params w = u_params u @ (''code'', code) # common_response_params q issuer"
  shows "starts_with location (or_redirect_uri q) \<and> u_protocol u = ''https:'' \<and> u_username u = [] \<and> u_password u = [] \<and> u_hash u = []
     \<and> get_all (u_params w) ''code'' = [code]
     \<and> get_all (u_params w) ''iss'' = [issuer] \<and> get_all (u_params w) ''error'' = []
     \<and> get_all (u_params w) ''state'' = (case or_state q of None \<Rightarrow> [] | Some s \<Rightarrow> [s])"
proof -
  from assms(1,2) have u: "u_protocol u = ''https:''"
      "u_username u = []" "u_password u = []" "u_hash u = []"
    and reserved: "\<not> redirect_has_reserved_params u"
    and loc: "location = append_response_query rt (or_redirect_uri q) ((''code'', code) # common_response_params q issuer)"
    by (auto simp: build_success_redirect_def prepare_redirect_def parse_redirect_uri_def normalize_issuer_def
        split: if_splits option.splits sum.splits)
  have "get_all (u_params u) n = []" if "n \<in> set RESERVED_RESPONSE_PARAMS" for n
    using reserved that by (auto simp: redirect_has_reserved_params_def list_ex_iff get_all_def filter_empty_conv)
  then have "get_all (u_params u) n = []" if "n \<in> {''code'', ''iss'', ''error'', ''state''}" for n
    using that by (auto simp: RESERVED_RESPONSE_PARAMS_def)
  then have "get_all (u_params w) ''code'' = [code]" "get_all (u_params w) ''iss'' = [issuer]"
    "get_all (u_params w) ''error'' = []"
    "get_all (u_params w) ''state'' = (case or_state q of None \<Rightarrow> [] | Some s \<Rightarrow> [s])"
    by (auto simp: assms(4) get_all_def common_response_params_def filter_empty_conv split: option.split)
  with u show ?thesis by (auto simp: starts_with_iff loc append_response_query_def)
qed

text \<open>A client, its request, and a runtime that parses the URLs of the example.\<close>

definition example_policy :: oauth_client_policy where
  "example_policy =
     \<lparr>pc_client_id = ''client-1'', pc_redirect_uri = ''https://app.example/cb'',
      pc_resource = ''https://gateway.example/mcp'', pc_scopes = [''capability.read'', ''task.submit'']\<rparr>"

definition example_oauth_request :: "string \<Rightarrow> oauth_request" where
  "example_oauth_request state =
     \<lparr>or_response_type = ''code'', or_client_id = ''client-1'', or_redirect_uri = ''https://app.example/cb'',
      or_resource = ''https://gateway.example/mcp'', or_scopes = [''capability.read''], or_state = Some state,
      or_code_challenge = replicate 43 (CHR ''A''), or_challenge_method = ''S256''\<rparr>"

definition example_authorize_url :: "string \<Rightarrow> url" where
  "example_authorize_url state =
     (example_url ''/oauth/authorize'')\<lparr>u_params := request_params (example_oauth_request state)\<rparr>"

definition example_location :: string where
  "example_location = ''https://app.example/cb?code''"

definition example_oauth_runtime :: runtime where
  "example_oauth_runtime = null_runtime\<lparr>
     rt_form_text := (\<lambda>ps. ''code''),
     rt_url := (\<lambda>s. if s \<in> set [''https://app.example/cb'', ''https://gateway.example'', ''https://gateway.example/mcp'']
                     then Some (example_url s)
                     else if s = example_location
                     then Some ((example_url s)\<lparr>u_params := (''code'', replicate 43 (CHR ''B''))
                            # common_response_params (example_oauth_request ''xyz'') ''https://gateway.example''\<rparr>)
                     else None)\<rparr>"

lemma example_request_within:
  "policy_is_valid example_policy" "within_policy example_policy (example_oauth_request ''duplicate'')"
  by code_simp+

theorem redirect_allowed_iff_witness:
  "\<exists>f. validate_oauth_authorization_request (Some (example_authorize_url []))
         (example_policy\<lparr>pc_resource := ''https://other.example/mcp''\<rparr>) = Inl f \<and> af_redirect_allowed f"
proof -
  let ?p = "example_policy\<lparr>pc_resource := ''https://other.example/mcp''\<rparr>"
  have "case validate_oauth_authorization_request (Some (example_authorize_url [])) ?p of Inl f \<Rightarrow> True | Inr q \<Rightarrow> False"
    by code_simp
  then obtain f where f: "validate_oauth_authorization_request (Some (example_authorize_url [])) ?p = Inl f"
    by (auto split: sum.splits)
  have "policy_is_valid ?p" "first_duplicate SINGLE_VALUE_PARAMS (u_params (example_authorize_url [])) = None"
    "get_all (u_params (example_authorize_url [])) ''client_id'' = [pc_client_id ?p]"
    "get_all (u_params (example_authorize_url [])) ''redirect_uri'' = [pc_redirect_uri ?p]"
    by code_simp+
  with redirect_allowed_iff [OF f] f show ?thesis by blast
qed

theorem state_duplicate_refused_witness:
  "validate_oauth_authorization_request (Some (example_authorize_url ''duplicate'')) example_policy =
     Inl \<lparr>af_error = InvalidRequest, af_description = ''duplicate state parameter'', af_redirect_allowed = False\<rparr>"
  by (rule state_duplicate_refused [OF example_request_within])
    (simp_all add: example_oauth_request_def example_authorize_url_def example_policy_def)

theorem success_redirect_unambiguous_witness:
  "get_all (u_params (the (rt_url example_oauth_runtime example_location))) ''code'' = [replicate 43 (CHR ''B'')]"
proof -
  have "build_success_redirect example_oauth_runtime (example_oauth_request ''xyz'') ''https://gateway.example''
      (replicate 43 (CHR ''B'')) = Inr example_location"
    by code_simp
  from success_redirect_unambiguous [OF this, of "example_url ''https://app.example/cb''"
      "the (rt_url example_oauth_runtime example_location)"]
  show ?thesis
    by (simp add: example_oauth_runtime_def example_oauth_request_def example_location_def example_url_def)
qed

end
