(* ===== verification/TtlStore.thy ===== *)
theory TtlStore
  imports OAuthValidation
begin

text \<open>
  What the two in-memory OAuth stores (\<open>oauth-pending-consent-store.ts\<close> and
  \<open>oauth-authorization-code-store.ts\<close>) have in common, as two interfaces. \<open>ttl_store\<close> is a bounded map
  whose entries expire and are purged at the start of every operation. \<open>ticket_store\<close> is a machine that
  hands out tickets and takes each back once; its lemma bounds the redemptions of a ticket by its issues
  in any run. The theories of the stores interpret them on the code's operations. The checks both
  stores make on a request, on the clock and on fresh identifiers stand here too.
\<close>

section \<open>Expiring, bounded maps\<close>

definition store_ok :: "nat \<Rightarrow> ('k \<times> 'e) list \<Rightarrow> bool" where
  "store_ok limit es \<longleftrightarrow> distinct (keys_of es) \<and> length es \<le> limit"

locale ttl_store =
  fixes entries :: "'s \<Rightarrow> (string \<times> 'e) list"
    and limit :: "'s \<Rightarrow> nat"
    and expires :: "'e \<Rightarrow> int"
    and purge :: "int \<Rightarrow> 's \<Rightarrow> 's"
    and put :: "string \<Rightarrow> 'e \<Rightarrow> 's \<Rightarrow> 's"
    and remove :: "string \<Rightarrow> 's \<Rightarrow> 's"
  assumes entries_purge: "entries (purge now s) = filter (\<lambda>e. now < expires (snd e)) (entries s)"
    and entries_put: "entries (put k e s) = map_set k e (entries s)"
    and entries_remove: "entries (remove k s) = map_delete k (entries s)"
    and limit_same: "limit (purge now s) = limit s" "limit (put k e s) = limit s" "limit (remove k s) = limit s"
begin

abbreviation ok :: "'s \<Rightarrow> bool" where
  "ok s \<equiv> store_ok (limit s) (entries s)"

abbreviation look :: "string \<Rightarrow> 's \<Rightarrow> 'e option" where
  "look k s \<equiv> map_of (entries s) k"

lemma ok_purge: "ok s \<Longrightarrow> ok (purge now s)"
  by (auto simp: store_ok_def entries_purge limit_same intro: le_trans [OF length_filter_le])

lemma ok_put_new: "ok s \<Longrightarrow> length (entries s) < limit s \<Longrightarrow> ok (put k e s)"
  by (simp add: store_ok_def entries_put limit_same length_map_set)

lemma ok_put_same: "ok s \<Longrightarrow> look k s \<noteq> None \<Longrightarrow> ok (put k e s)"
  by (simp add: store_ok_def entries_put limit_same length_map_set map_has_def)

lemma ok_remove: "ok s \<Longrightarrow> ok (remove k s)"
  by (auto simp: store_ok_def entries_remove limit_same map_delete_def intro: le_trans [OF length_filter_le])

lemma look_purge:
  "ok s \<Longrightarrow> look k (purge now s) = (case look k s of None \<Rightarrow> None | Some e \<Rightarrow> if now < expires e then Some e else None)"
  by (simp add: entries_purge store_ok_def map_of_filter_distinct split: option.split)

lemma look_purge_Some: "ok s \<Longrightarrow> look k (purge now s) = Some e \<longleftrightarrow> look k s = Some e \<and> now < expires e"
  by (auto simp: look_purge split: option.splits)

lemma look_put: "look k (put k' e s) = (if k = k' then Some e else look k s)"
  by (simp add: entries_put)

lemma look_remove: "look k (remove k' s) = (if k = k' then None else look k s)"
  by (simp add: entries_remove)

lemma purge_purge: "entries (purge m (purge n s)) = entries (purge (max m n) s)"
  by (auto simp: entries_purge conj_commute intro: filter_cong)

lemma all_live: "\<forall>e \<in> set (entries (purge now s)). now < expires (snd e)"
  by (simp add: entries_purge)

end

section \<open>Tickets\<close>

text \<open>A run of a machine: the state at the end and what each step put out.\<close>

fun run_steps :: "('op \<Rightarrow> 's \<Rightarrow> 's \<times> 'out) \<Rightarrow> 'op list \<Rightarrow> 's \<Rightarrow> 's \<times> 'out list" where
  "run_steps step [] s = (s, [])"
| "run_steps step (x # xs) s =
     (let (s1, out) = step x s; (s2, outs) = run_steps step xs s1 in (s2, out # outs))"

lemma run_steps_append:
  "run_steps step (xs @ ys) s =
     (let (s1, outs) = run_steps step xs s; (s2, outs') = run_steps step ys s1 in (s2, outs @ outs'))"
  by (induction xs arbitrary: s) (auto simp: Let_def split: prod.splits)

lemma run_steps_invariant:
  assumes "\<And>x s. I s \<Longrightarrow> I (fst (step x s))" and "I s"
  shows "I (fst (run_steps step xs s))"
  using assms(2)
proof (induction xs arbitrary: s)
  case (Cons x xs)
  have "I (fst (step x s))" using assms(1) Cons.prems by blast
  from Cons.IH [OF this] show ?case by (auto simp: Let_def split: prod.splits)
qed simp

definition occurrences :: "('out \<Rightarrow> 'a option) \<Rightarrow> 'a \<Rightarrow> 'out list \<Rightarrow> nat" where
  "occurrences f a outs = length (filter (\<lambda>out. f out = Some a) outs)"

lemma occurrences_simps [simp]:
  "occurrences f a [] = 0"
  "occurrences f a (out # outs) = (if f out = Some a then 1 else 0) + occurrences f a outs"
  by (simp_all add: occurrences_def)

text \<open>
  \<open>content s k\<close> is what ticket \<open>k\<close> stands for while it is outstanding, \<open>issued\<close> and \<open>redeemed\<close> read from
  an output which ticket with which content it gave out or took back.
\<close>

locale ticket_store =
  fixes inv :: "'s \<Rightarrow> bool"
    and step :: "'op \<Rightarrow> 's \<Rightarrow> 's \<times> 'out"
    and content :: "'s \<Rightarrow> 'k \<Rightarrow> 'c option"
    and issued :: "'out \<Rightarrow> ('k \<times> 'c) option"
    and redeemed :: "'out \<Rightarrow> ('k \<times> 'c) option"
  assumes inv_step: "inv s \<Longrightarrow> inv (fst (step x s))"
    and appears: "inv s \<Longrightarrow> content (fst (step x s)) k = Some c \<Longrightarrow>
      content s k = Some c \<or> issued (snd (step x s)) = Some (k, c)"
    and taken: "inv s \<Longrightarrow> redeemed (snd (step x s)) = Some (k, c) \<Longrightarrow>
      content s k = Some c \<and> content (fst (step x s)) k = None \<and> issued (snd (step x s)) = None"
begin

lemma redeemed_at_most_issued:
  assumes "inv s"
  shows "occurrences redeemed (k, c) (snd (run_steps step xs s))
     \<le> occurrences issued (k, c) (snd (run_steps step xs s)) + (if content s k = Some c then 1 else 0)"
  using assms
proof (induction xs arbitrary: s)
  case (Cons x xs)
  obtain s1 out where step: "step x s = (s1, out)" by (cases "step x s")
  obtain s2 outs where rest: "run_steps step xs s1 = (s2, outs)" by (cases "run_steps step xs s1")
  have "inv s1" using inv_step [OF Cons.prems, of x] by (simp add: step)
  from Cons.IH [OF this]
  have "occurrences redeemed (k, c) outs \<le> occurrences issued (k, c) outs + (if content s1 k = Some c then 1 else 0)"
    by (simp add: rest)
  moreover have "redeemed out = Some (k, c) \<Longrightarrow> content s k = Some c \<and> content s1 k = None"
    using taken [OF Cons.prems, of x k c] by (simp add: step)
  moreover have "content s1 k = Some c \<Longrightarrow> content s k = Some c \<or> issued out = Some (k, c)"
    using appears [OF Cons.prems, of x k c] by (simp add: step)
  ultimately show ?case
    by (cases "content s1 k = Some c") (auto simp: step rest split: if_splits)
qed simp

lemma redeemed_was_issued:
  assumes "inv s" and "content s k = None" and run: "run_steps step xs s = (s1, outs)"
    and redeem: "redeemed (snd (step x s1)) = Some (k, c)"
  shows "occurrences redeemed (k, c) outs < occurrences issued (k, c) outs"
proof -
  have "inv s1"
    using run_steps_invariant [of inv step s xs, OF inv_step assms(1)] run by simp
  obtain s2 out where step: "step x s1 = (s2, out)" by (cases "step x s1")
  have "snd (run_steps step (xs @ [x]) s) = outs @ [out]"
    by (simp add: run_steps_append run step)
  then have "occurrences redeemed (k, c) (outs @ [out]) \<le> occurrences issued (k, c) (outs @ [out])"
    using redeemed_at_most_issued [OF assms(1), of k c "xs @ [x]"] assms(2) by simp
  moreover have "redeemed out = Some (k, c)" "issued out = None"
    using redeem taken [OF \<open>inv s1\<close> redeem] by (simp_all add: step)
  ultimately show ?thesis by (simp add: occurrences_def)
qed

end

section \<open>What both stores check\<close>

definition HARD_MAX_ENTRIES :: int where "HARD_MAX_ENTRIES = 64"
definition MIN_TTL_MS :: int where "MIN_TTL_MS = 1000"
definition MAX_TTL_MS :: int where "MAX_TTL_MS = 300000"

text \<open>
  The two checks of the constructors on \<open>maxEntries\<close> and \<open>ttlMs\<close>; an option is \<open>None\<close> where the value
  given is no integer.
\<close>

definition store_options :: "int option \<Rightarrow> int option \<Rightarrow> string + nat \<times> int" where
  "store_options max_entries ttl_ms =
     (if max_entries = None \<or> the max_entries < 1 \<or> the max_entries > HARD_MAX_ENTRIES
        then Inl ''maxEntries must be an integer between 1 and 64''
      else if ttl_ms = None \<or> the ttl_ms < MIN_TTL_MS \<or> the ttl_ms > MAX_TTL_MS
        then Inl ''ttlMs must be an integer between 1000 and 300000''
      else Inr (nat (the max_entries), the ttl_ms))"

text \<open>\<open>currentTime\<close>: a reading is \<open>None\<close> where the clock returns no finite integer.\<close>

definition current_time :: "string \<Rightarrow> int option \<Rightarrow> string + int" where
  "current_time message reading =
     (case reading of None \<Rightarrow> Inl message | Some t \<Rightarrow> if t < 0 then Inl message else Inr t)"

definition is_bounded_https_uri :: "runtime \<Rightarrow> string \<Rightarrow> bool \<Rightarrow> bool" where
  "is_bounded_https_uri rt value allow_query \<longleftrightarrow>
     (if length value = 0 \<or> byte_length value > MAX_URI_BYTES then False
      else case rt_url rt value of
        None \<Rightarrow> False
      | Some u \<Rightarrow> u_protocol u = ''https:'' \<and> u_username u = [] \<and> u_password u = [] \<and> u_hash u = []
          \<and> (allow_query \<or> u_search u = []))"

fun scopes_bounded :: "string list \<Rightarrow> string list \<Rightarrow> bool" where
  "scopes_bounded [] seen = True"
| "scopes_bounded (s # ss) seen \<longleftrightarrow>
     \<not> (\<not> scope_token_ok s \<or> byte_length s > MAX_SCOPE_BYTES \<or> s \<in> set seen) \<and> scopes_bounded ss (s # seen)"

definition request_is_bounded :: "runtime \<Rightarrow> (string \<Rightarrow> bool) \<Rightarrow> oauth_request \<Rightarrow> bool" where
  "request_is_bounded rt client_ok q \<longleftrightarrow>
     (if or_response_type q \<noteq> ''code'' then False
      else if \<not> client_ok (or_client_id q) \<or> \<not> is_bounded_https_uri rt (or_redirect_uri q) True
              \<or> \<not> is_bounded_https_uri rt (or_resource q) False then False
      else if length (or_scopes q) = 0 \<or> length (or_scopes q) > 64 then False
      else if \<not> scopes_bounded (or_scopes q) [] then False
      else if (case or_state q of None \<Rightarrow> False
               | Some s \<Rightarrow> length s = 0 \<or> byte_length s > MAX_STATE_BYTES) then False
      else or_challenge_method q = ''S256'' \<and> pkce_challenge_ok (or_code_challenge q))"

text \<open>
  The loop over fresh identifiers: the factory's results in order, at most four; one of the wrong form
  ends it, one already taken asks for the next.
\<close>

fun pick_fresh :: "(string \<Rightarrow> bool) \<Rightarrow> (string \<Rightarrow> bool) \<Rightarrow> string list \<Rightarrow> string option" where
  "pick_fresh form in_use [] = None"
| "pick_fresh form in_use (c # cs) =
     (if \<not> form c then None else if \<not> in_use c then Some c else pick_fresh form in_use cs)"

lemma scopes_bounded_iff:
  "scopes_bounded ss seen \<longleftrightarrow> (\<forall>s \<in> set ss. scope_token_ok s \<and> byte_length s \<le> MAX_SCOPE_BYTES)
     \<and> distinct ss \<and> set ss \<inter> set seen = {}"
  by (induction ss seen rule: scopes_bounded.induct) auto

lemma pick_fresh_Some:
  "pick_fresh form in_use cs = Some c \<Longrightarrow> c \<in> set cs \<and> form c \<and> \<not> in_use c"
  by (induction form in_use cs rule: pick_fresh.induct) (auto split: if_splits)

lemma current_time_Inr: "current_time m reading = Inr t \<longleftrightarrow> reading = Some t \<and> 0 \<le> t"
  by (auto simp: current_time_def split: option.splits)

end
