(* ===== verification/PendingStore.thy ===== *)
theory PendingStore
  imports TtlStore
begin

text \<open>
  The store of consents that wait for the operator
  (\<open>gateway/src/oauth-pending-consent-store.ts\<close>): a bounded map from request ids to frozen requests, each
  pending, approved or denied, and gone after its time to live or when its decision is consumed. The
  clock and the id factory are arguments: a reading for each call of \<open>now()\<close>, the factory's successive
  results as a list.
\<close>

datatype consent_decision = Approved | Denied
datatype consent_status = Pending | Decided consent_decision

record pending_entry =
  pe_request_id :: string
  pe_request :: oauth_request
  pe_status :: consent_status
  pe_created_at_ms :: int
  pe_expires_at_ms :: int

record consent_projection =
  pp_request_id :: string
  pp_client_id :: string
  pp_redirect_uri :: string
  pp_resource :: string
  pp_scopes :: "string list"
  pp_status :: consent_status
  pp_created_at_ms :: int
  pp_expires_at_ms :: int

record pending_store =
  ps_entries :: "(string \<times> pending_entry) list"
  ps_max_entries :: nat
  ps_ttl_ms :: int

datatype pending_error = PendingInvalidRequest | PendingCapacity | PendingIdGenerationFailed
datatype decide_error = DecideNotFound | AlreadyDecided
datatype consume_error = ConsumeNotFound | StillPending

definition pending_client_ok :: "string \<Rightarrow> bool" where
  "pending_client_ok = rx_range is_visible 1 512"

definition request_id_ok :: "string \<Rightarrow> bool" where
  "request_id_ok = rx_range is_base64url 16 128"

definition new_pending_store :: "int option \<Rightarrow> int option \<Rightarrow> string + pending_store" where
  "new_pending_store max_entries ttl_ms =
     (case store_options max_entries ttl_ms of
        Inl e \<Rightarrow> Inl e
      | Inr (n, ttl) \<Rightarrow> Inr \<lparr>ps_entries = [], ps_max_entries = n, ps_ttl_ms = ttl\<rparr>)"

definition pending_clock_error :: string where
  "pending_clock_error = ''pending consent clock returned an invalid timestamp''"

definition pending_projection :: "pending_entry \<Rightarrow> consent_projection" where
  "pending_projection e =
     \<lparr>pp_request_id = pe_request_id e, pp_client_id = or_client_id (pe_request e),
      pp_redirect_uri = or_redirect_uri (pe_request e), pp_resource = or_resource (pe_request e),
      pp_scopes = or_scopes (pe_request e), pp_status = pe_status e,
      pp_created_at_ms = pe_created_at_ms e, pp_expires_at_ms = pe_expires_at_ms e\<rparr>"

definition pending_purge_at :: "int \<Rightarrow> pending_store \<Rightarrow> pending_store \<times> nat" where
  "pending_purge_at now st =
     (let kept = filter (\<lambda>e. \<not> pe_expires_at_ms (snd e) \<le> now) (ps_entries st)
      in (st\<lparr>ps_entries := kept\<rparr>, length (ps_entries st) - length kept))"

abbreviation pending_purged :: "int \<Rightarrow> pending_store \<Rightarrow> pending_store" where
  "pending_purged now st \<equiv> fst (pending_purge_at now st)"

text \<open>Every operation is \<open>Inl\<close> of the thrown message when the clock's reading is invalid.\<close>

definition pending_purge_expired :: "int option \<Rightarrow> pending_store \<Rightarrow> string + pending_store \<times> nat" where
  "pending_purge_expired reading st =
     map_sum id (\<lambda>now. pending_purge_at now st) (current_time pending_clock_error reading)"

definition pending_size :: "int option \<Rightarrow> pending_store \<Rightarrow> string + pending_store \<times> nat" where
  "pending_size reading st =
     map_sum id (\<lambda>(st', removed). (st', length (ps_entries st'))) (pending_purge_expired reading st)"

definition pending_create ::
  "runtime \<Rightarrow> int option \<Rightarrow> string list \<Rightarrow> oauth_request \<Rightarrow> pending_store
   \<Rightarrow> string + pending_store \<times> (pending_error + consent_projection)" where
  "pending_create rt reading ids q st =
     map_sum id (\<lambda>now.
       let st1 = pending_purged now st
       in if \<not> request_is_bounded rt pending_client_ok q then (st1, Inl PendingInvalidRequest)
          else if length (ps_entries st1) \<ge> ps_max_entries st1 then (st1, Inl PendingCapacity)
          else
            (case pick_fresh request_id_ok (\<lambda>i. map_has i (ps_entries st1)) (take 4 ids) of
               None \<Rightarrow> (st1, Inl PendingIdGenerationFailed)
             | Some request_id \<Rightarrow>
                 (let e = \<lparr>pe_request_id = request_id, pe_request = q, pe_status = Pending,
                           pe_created_at_ms = now, pe_expires_at_ms = now + ps_ttl_ms st1\<rparr>
                  in (st1\<lparr>ps_entries := map_set request_id e (ps_entries st1)\<rparr>,
                      Inr (pending_projection e)))))
       (current_time pending_clock_error reading)"

definition pending_get ::
  "int option \<Rightarrow> string \<Rightarrow> pending_store \<Rightarrow> string + pending_store \<times> consent_projection option" where
  "pending_get reading request_id st =
     map_sum id (\<lambda>now.
       let st1 = pending_purged now st
       in (st1, map_option pending_projection (map_of (ps_entries st1) request_id)))
       (current_time pending_clock_error reading)"

text \<open>Oldest first; \<open>localeCompare\<close> of the ids breaks ties.\<close>

definition pending_le :: "runtime \<Rightarrow> pending_entry \<Rightarrow> pending_entry \<Rightarrow> bool" where
  "pending_le rt l r \<longleftrightarrow>
     pe_created_at_ms l < pe_created_at_ms r
     \<or> pe_created_at_ms l = pe_created_at_ms r \<and> rt_locale_le rt (pe_request_id l) (pe_request_id r)"

definition pending_list ::
  "runtime \<Rightarrow> int option \<Rightarrow> pending_store \<Rightarrow> string + pending_store \<times> consent_projection list" where
  "pending_list rt reading st =
     map_sum id (\<lambda>now.
       let st1 = pending_purged now st
       in (st1, map pending_projection (sort_by (pending_le rt) (map snd (ps_entries st1)))))
       (current_time pending_clock_error reading)"

definition pending_decide ::
  "int option \<Rightarrow> string \<Rightarrow> consent_decision \<Rightarrow> pending_store
   \<Rightarrow> string + pending_store \<times> (decide_error + consent_projection)" where
  "pending_decide reading request_id decision st =
     map_sum id (\<lambda>now.
       let st1 = pending_purged now st
       in case map_of (ps_entries st1) request_id of
            None \<Rightarrow> (st1, Inl DecideNotFound)
          | Some e \<Rightarrow>
              if pe_status e \<noteq> Pending then (st1, Inl AlreadyDecided)
              else (let e' = e\<lparr>pe_status := Decided decision\<rparr>
                    in (st1\<lparr>ps_entries := map_set request_id e' (ps_entries st1)\<rparr>,
                        Inr (pending_projection e'))))
       (current_time pending_clock_error reading)"

definition pending_consume_decision ::
  "int option \<Rightarrow> string \<Rightarrow> pending_store
   \<Rightarrow> string + pending_store \<times> (consume_error + consent_decision \<times> oauth_request)" where
  "pending_consume_decision reading request_id st =
     map_sum id (\<lambda>now.
       let st1 = pending_purged now st
       in case map_of (ps_entries st1) request_id of
            None \<Rightarrow> (st1, Inl ConsumeNotFound)
          | Some e \<Rightarrow>
              (case pe_status e of
                 Pending \<Rightarrow> (st1, Inl StillPending)
               | Decided decision \<Rightarrow>
                   (st1\<lparr>ps_entries := map_delete request_id (ps_entries st1)\<rparr>,
                    Inr (decision, pe_request e))))
       (current_time pending_clock_error reading)"

section \<open>The store as a machine\<close>

text \<open>
  Any operation with a clock reading, as one step. An output repeats the operation's key and the request
  the entry holds, so that a run's outputs tell what was created, decided and consumed.
\<close>

datatype pending_op =
    PendingPurge | PendingSize
  | PendingCreate "string list" oauth_request
  | PendingGet string
  | PendingList
  | PendingDecide string consent_decision
  | PendingConsume string

datatype pending_out =
    PendingThrew string | PendingCount nat
  | PendingCreated oauth_request "pending_error + consent_projection"
  | PendingGot "consent_projection option"
  | PendingListed "consent_projection list"
  | PendingDecided string consent_decision "oauth_request option" "decide_error + consent_projection"
  | PendingConsumed string "consume_error + consent_decision \<times> oauth_request"

definition pending_answer ::
  "('a \<Rightarrow> pending_out) \<Rightarrow> pending_store \<Rightarrow> string + pending_store \<times> 'a \<Rightarrow> pending_store \<times> pending_out" where
  "pending_answer f st res = (case res of Inl e \<Rightarrow> (st, PendingThrew e) | Inr (st', a) \<Rightarrow> (st', f a))"

fun pending_step :: "runtime \<Rightarrow> int option \<times> pending_op \<Rightarrow> pending_store \<Rightarrow> pending_store \<times> pending_out" where
  "pending_step rt (reading, PendingPurge) st = pending_answer PendingCount st (pending_purge_expired reading st)"
| "pending_step rt (reading, PendingSize) st = pending_answer PendingCount st (pending_size reading st)"
| "pending_step rt (reading, PendingCreate ids q) st =
     pending_answer (PendingCreated q) st (pending_create rt reading ids q st)"
| "pending_step rt (reading, PendingGet k) st = pending_answer PendingGot st (pending_get reading k st)"
| "pending_step rt (reading, PendingList) st = pending_answer PendingListed st (pending_list rt reading st)"
| "pending_step rt (reading, PendingDecide k d) st =
     pending_answer (PendingDecided k d (map_option pe_request (map_of (ps_entries st) k))) st
       (pending_decide reading k d st)"
| "pending_step rt (reading, PendingConsume k) st =
     pending_answer (PendingConsumed k) st (pending_consume_decision reading k st)"

section \<open>The store interface\<close>

definition pending_put :: "string \<Rightarrow> pending_entry \<Rightarrow> pending_store \<Rightarrow> pending_store" where
  "pending_put k e st = st\<lparr>ps_entries := map_set k e (ps_entries st)\<rparr>"

definition pending_remove :: "string \<Rightarrow> pending_store \<Rightarrow> pending_store" where
  "pending_remove k st = st\<lparr>ps_entries := map_delete k (ps_entries st)\<rparr>"

interpretation pending: ttl_store ps_entries ps_max_entries pe_expires_at_ms pending_purged pending_put pending_remove
  by unfold_locales (auto simp: pending_purge_at_def pending_put_def pending_remove_def Let_def not_le)

definition entry_ok :: "runtime \<Rightarrow> pending_store \<Rightarrow> string \<Rightarrow> pending_entry \<Rightarrow> bool" where
  "entry_ok rt st k e \<longleftrightarrow> pe_request_id e = k \<and> request_id_ok k
     \<and> request_is_bounded rt pending_client_ok (pe_request e)
     \<and> pe_expires_at_ms e = pe_created_at_ms e + ps_ttl_ms st"

definition pending_ok :: "runtime \<Rightarrow> pending_store \<Rightarrow> bool" where
  "pending_ok rt st \<longleftrightarrow> store_ok (ps_max_entries st) (ps_entries st)
     \<and> (\<forall>k e. map_of (ps_entries st) k = Some e \<longrightarrow> entry_ok rt st k e)"

lemma ttl_same [simp]:
  "ps_ttl_ms (pending_purged now st) = ps_ttl_ms st" "ps_ttl_ms (pending_put k e st) = ps_ttl_ms st"
  "ps_ttl_ms (pending_remove k st) = ps_ttl_ms st"
  by (simp_all add: pending_purge_at_def pending_put_def pending_remove_def Let_def)

text \<open>
  What a step can do to the store: nothing (the clock failed), purge, or purge and then put a fresh
  pending entry, set the status of a pending entry, or remove a decided entry.
\<close>

lemma pending_step_cases:
  obtains (threw) m where "pending_step rt (reading, op) st = (st, PendingThrew m)"
  | (purged) now out where "reading = Some now" "pending_step rt (reading, op) st = (pending_purged now st, out)"
      "\<And>q p. out \<noteq> PendingCreated q (Inr p)" "\<And>k d q p. out \<noteq> PendingDecided k d q (Inr p)"
      "\<And>k x. out \<noteq> PendingConsumed k (Inr x)"
  | (created) now ids q k e where "reading = Some now" "op = PendingCreate ids q"
      "request_is_bounded rt pending_client_ok q" "request_id_ok k"
      "length (ps_entries (pending_purged now st)) < ps_max_entries st"
      "map_of (ps_entries (pending_purged now st)) k = None"
      "e = \<lparr>pe_request_id = k, pe_request = q, pe_status = Pending, pe_created_at_ms = now,
            pe_expires_at_ms = now + ps_ttl_ms st\<rparr>"
      "pending_step rt (reading, op) st =
         (pending_put k e (pending_purged now st), PendingCreated q (Inr (pending_projection e)))"
  | (decided) now k d e where "reading = Some now" "op = PendingDecide k d"
      "map_of (ps_entries (pending_purged now st)) k = Some e" "pe_status e = Pending"
      "pending_step rt (reading, op) st =
         (pending_put k (e\<lparr>pe_status := Decided d\<rparr>) (pending_purged now st),
          PendingDecided k d (map_option pe_request (map_of (ps_entries st) k))
            (Inr (pending_projection (e\<lparr>pe_status := Decided d\<rparr>))))"
  | (consumed) now k d e where "reading = Some now" "op = PendingConsume k"
      "map_of (ps_entries (pending_purged now st)) k = Some e" "pe_status e = Decided d"
      "pending_step rt (reading, op) st =
         (pending_remove k (pending_purged now st), PendingConsumed k (Inr (d, pe_request e)))"
proof (cases "current_time pending_clock_error reading")
  case (Inl m)
  have "pending_step rt (reading, op) st = (st, PendingThrew m)"
    by (cases op) (simp_all add: Inl pending_answer_def pending_purge_expired_def pending_size_def
        pending_create_def pending_get_def pending_list_def pending_decide_def pending_consume_decision_def)
  then show thesis by (rule threw)
next
  case (Inr now)
  then have reading: "reading = Some now" by (simp add: current_time_Inr)
  note defs = Inr Inr [unfolded reading] pending_answer_def pending_purge_expired_def pending_size_def pending_create_def pending_get_def
    pending_list_def pending_decide_def pending_consume_decision_def Let_def
  have max: "ps_max_entries (pending_purged now st) = ps_max_entries st" by (rule pending.limit_same)
  show thesis
  proof (cases op)
    case (PendingCreate ids q)
    show thesis
    proof (cases "request_is_bounded rt pending_client_ok q
        \<and> length (ps_entries (pending_purged now st)) < ps_max_entries st")
      case True
      show thesis
      proof (cases "pick_fresh request_id_ok (\<lambda>i. map_has i (ps_entries (pending_purged now st))) (take 4 ids)")
        case (Some k)
        from pick_fresh_Some [OF this] have "request_id_ok k" "map_of (ps_entries (pending_purged now st)) k = None"
          by (simp_all add: map_has_def)
        with True Some PendingCreate reading max show thesis
          by (intro created [of now ids q k]) (simp_all add: defs pending_put_def)
      qed (use True PendingCreate reading max in \<open>auto simp: defs intro!: purged\<close>)
    next
      case False
      then have "\<exists>err. pending_step rt (reading, op) st = (pending_purged now st, PendingCreated q (Inl err))"
        using PendingCreate max by (auto simp: defs)
      then show thesis using reading by (auto intro: purged)
    qed
  next
    case (PendingDecide k d)
    show thesis
    proof (cases "map_of (ps_entries (pending_purged now st)) k")
      case (Some e)
      show thesis
      proof (cases "pe_status e = Pending")
        case True
        with Some PendingDecide reading show thesis
          by (intro decided [of now k d e]) (simp_all add: defs pending_put_def)
      qed (use Some PendingDecide reading in \<open>auto simp: defs intro!: purged\<close>)
    qed (use PendingDecide reading in \<open>auto simp: defs intro!: purged\<close>)
  next
    case (PendingConsume k)
    show thesis
    proof (cases "map_of (ps_entries (pending_purged now st)) k")
      case (Some e)
      show thesis
      proof (cases "pe_status e")
        case (Decided d)
        with Some PendingConsume reading show thesis
          by (intro consumed [of now k e d]) (simp_all add: defs pending_remove_def)
      qed (use Some PendingConsume reading in \<open>auto simp: defs intro!: purged\<close>)
    qed (use PendingConsume reading in \<open>auto simp: defs intro!: purged\<close>)
  next
    case PendingPurge
    have "pending_step rt (reading, op) st = (pending_purged now st, PendingCount (snd (pending_purge_at now st)))"
      by (simp add: PendingPurge defs split: prod.split)
    from purged [OF reading this] show thesis by simp
  next
    case PendingSize
    have "pending_step rt (reading, op) st =
        (pending_purged now st, PendingCount (length (ps_entries (pending_purged now st))))"
      by (simp add: PendingSize defs split: prod.split)
    from purged [OF reading this] show thesis by simp
  qed (use reading in \<open>auto simp: defs intro!: purged\<close>)
qed

text \<open>The invariant, and what becomes of an entry in a step.\<close>

lemma entry_ok_same_ttl: "ps_ttl_ms st' = ps_ttl_ms st \<Longrightarrow> entry_ok rt st' k e = entry_ok rt st k e"
  by (simp add: entry_ok_def)

lemma pending_ok_purge: "pending_ok rt st \<Longrightarrow> pending_ok rt (pending_purged now st)"
  using pending.ok_purge [of st now]
  by (auto simp: pending_ok_def pending.look_purge_Some entry_ok_same_ttl [OF ttl_same(1)])

lemma pending_ok_step:
  assumes "pending_ok rt st"
  shows "pending_ok rt (fst (pending_step rt (reading, op) st))"
proof (cases rule: pending_step_cases [of rt reading op st])
  case (created now ids q k e)
  let ?st1 = "pending_purged now st"
  have ok1: "pending_ok rt ?st1" by (rule pending_ok_purge [OF assms])
  have "store_ok (ps_max_entries (pending_put k e ?st1)) (ps_entries (pending_put k e ?st1))"
    using ok1 created(5) by (intro pending.ok_put_new) (simp_all add: pending_ok_def pending.limit_same)
  moreover have "entry_ok rt ?st1 k e" using created by (simp add: entry_ok_def)
  ultimately show ?thesis
    using ok1 created(8)
    by (auto simp: pending_ok_def pending.look_put entry_ok_same_ttl [OF ttl_same(2)])
next
  case (decided now k d e)
  let ?st1 = "pending_purged now st" and ?e = "e\<lparr>pe_status := Decided d\<rparr>"
  have ok1: "pending_ok rt ?st1" by (rule pending_ok_purge [OF assms])
  have "store_ok (ps_max_entries (pending_put k ?e ?st1)) (ps_entries (pending_put k ?e ?st1))"
    using ok1 decided(3) by (intro pending.ok_put_same) (simp_all add: pending_ok_def)
  moreover have "entry_ok rt ?st1 k ?e" using ok1 decided(3) by (simp add: pending_ok_def entry_ok_def)
  ultimately show ?thesis
    using ok1 decided(5)
    by (auto simp: pending_ok_def pending.look_put entry_ok_same_ttl [OF ttl_same(2)])
next
  case (consumed now k d e)
  have "pending_ok rt (pending_purged now st)" by (rule pending_ok_purge [OF assms])
  then show ?thesis
    using consumed(5) pending.ok_remove [of "pending_purged now st" k]
    by (auto simp: pending_ok_def pending.look_remove entry_ok_same_ttl [OF ttl_same(3)])
qed (use assms pending_ok_purge in simp_all)

text \<open>Where an entry after a step comes from, and what a consumption returns.\<close>

lemma pending_step_entry:
  assumes "pending_ok rt st" and "pending_step rt (reading, op) st = (st', out)"
    and "map_of (ps_entries st') k = Some e'"
  shows "map_of (ps_entries st) k = Some e'
     \<or> (\<exists>ids q. op = PendingCreate ids q \<and> pe_request e' = q \<and> pe_status e' = Pending)
     \<or> (\<exists>d e p. op = PendingDecide k d \<and> map_of (ps_entries st) k = Some e \<and> pe_status e = Pending
          \<and> e' = e\<lparr>pe_status := Decided d\<rparr> \<and> out = PendingDecided k d (Some (pe_request e)) (Inr p))"
proof -
  have look: "map_of (ps_entries (pending_purged now st)) j = Some e \<Longrightarrow> map_of (ps_entries st) j = Some e" for now j e
    using assms(1) by (simp add: pending_ok_def pending.look_purge_Some)
  show ?thesis
  proof (cases rule: pending_step_cases [of rt reading op st])
    case (created now ids q k' e)
    with assms(2,3) look [of now k e'] show ?thesis by (cases "k = k'") (auto simp: pending.look_put)
  next
    case (decided now k' d e)
    with assms(2,3) look [of now k e'] look [of now k' e] show ?thesis
      by (cases "k = k'") (auto simp: pending.look_put)
  next
    case (consumed now k' d e)
    with assms(2,3) look [of now k e'] show ?thesis by (auto simp: pending.look_remove split: if_splits)
  qed (use assms(2,3) look in auto)
qed

lemma pending_step_consumed:
  assumes "pending_ok rt st" and "pending_step rt (reading, op) st = (st', PendingConsumed k (Inr (d, q)))"
  shows "\<exists>e. map_of (ps_entries st) k = Some e \<and> pe_status e = Decided d \<and> pe_request e = q"
  using assms
  by (cases rule: pending_step_cases [of rt reading op st])
    (auto simp: pending_ok_def pending.look_purge_Some)

definition pending_content :: "pending_store \<Rightarrow> string \<Rightarrow> oauth_request option" where
  "pending_content st k = map_option pe_request (map_of (ps_entries st) k)"

definition approved_content :: "pending_store \<Rightarrow> string \<Rightarrow> oauth_request option" where
  "approved_content st k =
     (case map_of (ps_entries st) k of
        None \<Rightarrow> None
      | Some e \<Rightarrow> if pe_status e = Decided Approved then Some (pe_request e) else None)"

fun created_ticket :: "pending_out \<Rightarrow> (string \<times> oauth_request) option" where
  "created_ticket (PendingCreated q (Inr p)) = Some (pp_request_id p, q)"
| "created_ticket out = None"

fun consumed_ticket :: "pending_out \<Rightarrow> (string \<times> oauth_request) option" where
  "consumed_ticket (PendingConsumed k (Inr (d, q))) = Some (k, q)"
| "consumed_ticket out = None"

fun approved_ticket :: "pending_out \<Rightarrow> (string \<times> oauth_request) option" where
  "approved_ticket (PendingDecided k Approved (Some q) (Inr p)) = Some (k, q)"
| "approved_ticket out = None"

fun consumed_approval :: "pending_out \<Rightarrow> (string \<times> oauth_request) option" where
  "consumed_approval (PendingConsumed k (Inr (Approved, q))) = Some (k, q)"
| "consumed_approval out = None"

lemma created_ticket_Some: "created_ticket out = Some (k, q) \<longleftrightarrow> (\<exists>p. out = PendingCreated q (Inr p) \<and> pp_request_id p = k)"
  by (cases out rule: created_ticket.cases) auto

lemma consumed_ticket_Some: "consumed_ticket out = Some (k, q) \<longleftrightarrow> (\<exists>d. out = PendingConsumed k (Inr (d, q)))"
  by (cases out rule: consumed_ticket.cases) auto

lemma approved_ticket_Some:
  "approved_ticket out = Some (k, q) \<longleftrightarrow> (\<exists>p. out = PendingDecided k Approved (Some q) (Inr p))"
  by (cases out rule: approved_ticket.cases) auto

lemma consumed_approval_Some: "consumed_approval out = Some (k, q) \<longleftrightarrow> out = PendingConsumed k (Inr (Approved, q))"
  by (cases out rule: consumed_approval.cases) auto

lemma look_purged: "pending_ok rt st \<Longrightarrow>
    map_of (ps_entries (pending_purged now st)) k = Some e \<longleftrightarrow> map_of (ps_entries st) k = Some e \<and> now < pe_expires_at_ms e"
  by (simp add: pending_ok_def pending.look_purge_Some)

lemma pending_content_Some: "pending_content st k = Some q \<longleftrightarrow> (\<exists>e. map_of (ps_entries st) k = Some e \<and> pe_request e = q)"
  by (auto simp: pending_content_def)

lemma approved_content_Some:
  "approved_content st k = Some q \<longleftrightarrow>
     (\<exists>e. map_of (ps_entries st) k = Some e \<and> pe_status e = Decided Approved \<and> pe_request e = q)"
  by (auto simp: approved_content_def split: option.splits)

lemma content_None:
  "map_of (ps_entries st) k = None \<Longrightarrow> pending_content st k = None"
  "map_of (ps_entries st) k = None \<Longrightarrow> approved_content st k = None"
  by (simp_all add: pending_content_def approved_content_def)

interpretation requests: ticket_store "pending_ok rt" "pending_step rt" pending_content created_ticket consumed_ticket
  for rt
proof
  fix st :: pending_store and x :: "int option \<times> pending_op" and k q
  assume ok: "pending_ok rt st"
  obtain reading op where x: "x = (reading, op)" by (cases x)
  show "pending_ok rt (fst (pending_step rt x st))" unfolding x by (rule pending_ok_step [OF ok])
  { assume "pending_content (fst (pending_step rt x st)) k = Some q"
    then show "pending_content st k = Some q \<or> created_ticket (snd (pending_step rt x st)) = Some (k, q)"
      unfolding x
      by (cases rule: pending_step_cases [of rt reading op st])
        (auto simp: pending_content_Some look_purged [OF ok] pending.look_put pending.look_remove
          created_ticket_Some pending_projection_def split: if_splits) }
  { assume "consumed_ticket (snd (pending_step rt x st)) = Some (k, q)"
    then show "pending_content st k = Some q \<and> pending_content (fst (pending_step rt x st)) k = None
        \<and> created_ticket (snd (pending_step rt x st)) = None"
      unfolding x
      by (cases rule: pending_step_cases [of rt reading op st])
        (auto simp: pending_content_Some look_purged [OF ok] pending.look_remove consumed_ticket_Some content_None) }
qed

interpretation approvals: ticket_store "pending_ok rt" "pending_step rt" approved_content approved_ticket consumed_approval
  for rt
proof
  fix st :: pending_store and x :: "int option \<times> pending_op" and k q
  assume ok: "pending_ok rt st"
  obtain reading op where x: "x = (reading, op)" by (cases x)
  show "pending_ok rt (fst (pending_step rt x st))" unfolding x by (rule pending_ok_step [OF ok])
  { assume "approved_content (fst (pending_step rt x st)) k = Some q"
    then show "approved_content st k = Some q \<or> approved_ticket (snd (pending_step rt x st)) = Some (k, q)"
      unfolding x
      by (cases rule: pending_step_cases [of rt reading op st])
        (auto simp: approved_content_Some look_purged [OF ok] pending.look_put pending.look_remove
          approved_ticket_Some split: if_splits) }
  { assume "consumed_approval (snd (pending_step rt x st)) = Some (k, q)"
    then show "approved_content st k = Some q \<and> approved_content (fst (pending_step rt x st)) k = None
        \<and> approved_ticket (snd (pending_step rt x st)) = None"
      unfolding x
      by (cases rule: pending_step_cases [of rt reading op st])
        (auto simp: approved_content_Some look_purged [OF ok] pending.look_remove consumed_approval_Some content_None) }
qed

section \<open>Properties\<close>

lemma new_pending_store_Inr:
  assumes "new_pending_store m t = Inr st"
  shows "ps_entries st = []" and "ps_max_entries st \<le> 64" and "pending_ok rt st"
    and "1000 \<le> ps_ttl_ms st \<and> ps_ttl_ms st \<le> 300000"
  using assms
  by (auto simp: new_pending_store_def store_options_def pending_ok_def store_ok_def HARD_MAX_ENTRIES_def
      MIN_TTL_MS_def MAX_TTL_MS_def split: sum.splits prod.splits if_splits)

text \<open>
  C23. An approval is used once. Whatever operations run on a new store, with whatever clock and ids: for
  every request id and request, approved decisions are consumed at most as often as the operator
  approved that request under that id, and decisions are consumed at most as often as the request was
  created under that id. At the end the store holds at most 64 entries, one per id, each well formed.
\<close>

theorem approvals_consumed_once:
  assumes "new_pending_store m t = Inr st" and "run_steps (pending_step rt) ops st = (st', outs)"
  shows "occurrences consumed_approval (k, q) outs \<le> occurrences approved_ticket (k, q) outs
     \<and> occurrences consumed_ticket (k, q) outs \<le> occurrences created_ticket (k, q) outs
     \<and> length (ps_entries st') \<le> 64 \<and> pending_ok rt st'"
proof -
  note new = new_pending_store_Inr [OF assms(1)]
  have ok: "pending_ok rt st" by (rule new(3))
  have "pending_content st k = None" "approved_content st k = None" using new(1) by (simp_all add: content_None)
  then have "occurrences consumed_approval (k, q) outs \<le> occurrences approved_ticket (k, q) outs"
    "occurrences consumed_ticket (k, q) outs \<le> occurrences created_ticket (k, q) outs"
    using approvals.redeemed_at_most_issued [OF ok, where xs = ops and k = k and c = q] requests.redeemed_at_most_issued [OF ok, where xs = ops and k = k and c = q]
    by (simp_all add: assms(2))
  moreover have "pending_ok rt st' \<and> ps_max_entries st' \<le> 64"
  proof -
    have max: "ps_max_entries (fst (pending_step rt x st)) = ps_max_entries st" for x st
      by (cases x; cases rule: pending_step_cases [of rt "fst x" "snd x" st])
        (auto simp: pending.limit_same)
    show ?thesis
      using run_steps_invariant [of "\<lambda>st. pending_ok rt st \<and> ps_max_entries st \<le> 64" "pending_step rt" st ops]
        new pending_ok_step max by (auto simp: assms(2))
  qed
  ultimately show ?thesis by (auto simp: pending_ok_def store_ok_def)
qed

text \<open>
  The life of a pending consent. In any step of a well-formed store an entry stays as it is, or a
  pending one gets the operator's decision and nothing else changes; it disappears only because its
  time has passed, or because its decision was consumed, and then the step returns exactly that
  decision and the request as it was created. Its id can return only after it expired, for a new
  request.
\<close>

theorem pending_entry_lifecycle:
  assumes "pending_ok rt st" and "map_of (ps_entries st) k = Some e"
    and "pending_step rt (reading, op) st = (st', out)"
  shows "case map_of (ps_entries st') k of
       Some e' \<Rightarrow> e' = e
         \<or> (\<exists>d. op = PendingDecide k d \<and> pe_status e = Pending \<and> e' = e\<lparr>pe_status := Decided d\<rparr>)
         \<or> (\<exists>now ids. reading = Some now \<and> pe_expires_at_ms e \<le> now \<and> op = PendingCreate ids (pe_request e')
              \<and> pe_status e' = Pending)
     | None \<Rightarrow> (\<exists>now. reading = Some now \<and> pe_expires_at_ms e \<le> now)
         \<or> op = PendingConsume k \<and> (\<exists>d. pe_status e = Decided d \<and> out = PendingConsumed k (Inr (d, pe_request e)))"
proof -
  have look: "map_of (ps_entries (pending_purged now st)) k = (if now < pe_expires_at_ms e then Some e else None)" for now
  proof -
    have "store_ok (ps_max_entries st) (ps_entries st)" using assms(1) by (simp only: pending_ok_def)
    from pending.look_purge [OF this] show ?thesis by (simp add: assms(2))
  qed
  show ?thesis
  proof (cases rule: pending_step_cases [of rt reading op st])
    case (threw m)
    with assms(2,3) show ?thesis by simp
  next
    case (purged now out')
    with assms(3) have "st' = pending_purged now st" by simp
    with look [of now] purged(1) show ?thesis by (simp add: not_less)
  next
    case (created now ids q k' e')
    with assms(3) have "st' = pending_put k' e' (pending_purged now st)" by simp
    with look [of now] created show ?thesis by (cases "k = k'") (simp_all add: pending.look_put not_less split: if_splits)
  next
    case (decided now k' d e')
    with assms(3) have "st' = pending_put k' (e'\<lparr>pe_status := Decided d\<rparr>) (pending_purged now st)" by simp
    with look [of now] decided show ?thesis by (cases "k = k'") (auto simp: pending.look_put not_less split: if_splits)
  next
    case (consumed now k' d e')
    with assms(3) have "st' = pending_remove k' (pending_purged now st)" "out = PendingConsumed k' (Inr (d, pe_request e'))"
      by simp_all
    with look [of now] consumed show ?thesis by (cases "k = k'") (auto simp: pending.look_remove not_less split: if_splits)
  qed
qed

text \<open>A consent is created, approved and consumed within its time.\<close>

definition example_store :: pending_store where
  "example_store = \<lparr>ps_entries = [], ps_max_entries = 64, ps_ttl_ms = 300000\<rparr>"

definition example_entry :: pending_entry where
  "example_entry = \<lparr>pe_request_id = ''AAAAAAAAAAAAAAAA'', pe_request = example_oauth_request ''xyz'',
     pe_status = Decided Approved, pe_created_at_ms = 10, pe_expires_at_ms = 300010\<rparr>"

definition example_run :: "pending_store \<times> pending_out list" where
  "example_run = run_steps (pending_step example_oauth_runtime)
     [(Some 10, PendingCreate [''AAAAAAAAAAAAAAAA''] (example_oauth_request ''xyz'')),
      (Some 20, PendingDecide ''AAAAAAAAAAAAAAAA'' Approved), (Some 30, PendingConsume ''AAAAAAAAAAAAAAAA''),
      (Some 40, PendingConsume ''AAAAAAAAAAAAAAAA'')] example_store"

theorem approvals_consumed_once_witness:
  "occurrences consumed_approval (''AAAAAAAAAAAAAAAA'', example_oauth_request ''xyz'') (snd example_run) = 1"
proof -
  let ?t = "(''AAAAAAAAAAAAAAAA'', example_oauth_request ''xyz'')"
  have "new_pending_store (Some 64) (Some 300000) = Inr example_store" by code_simp
  from approvals_consumed_once [OF this prod.collapse [symmetric]]
  have "occurrences consumed_approval ?t (snd example_run) \<le> occurrences approved_ticket ?t (snd example_run)"
    unfolding example_run_def by blast
  moreover have "occurrences approved_ticket ?t (snd example_run) = 1" by code_simp
  moreover have "0 < occurrences consumed_approval ?t (snd example_run)" by code_simp
  ultimately show ?thesis by linarith
qed

theorem pending_entry_lifecycle_witness:
  "\<exists>st' out. pending_step example_oauth_runtime (Some 30, PendingConsume ''AAAAAAAAAAAAAAAA'')
       (example_store\<lparr>ps_entries := [(''AAAAAAAAAAAAAAAA'', example_entry)]\<rparr>) = (st', out)
     \<and> out = PendingConsumed ''AAAAAAAAAAAAAAAA'' (Inr (Approved, example_oauth_request ''xyz''))"
proof -
  let ?st = "example_store\<lparr>ps_entries := [(''AAAAAAAAAAAAAAAA'', example_entry)]\<rparr>"
  have "entry_ok example_oauth_runtime ?st ''AAAAAAAAAAAAAAAA'' example_entry" by code_simp
  then have ok: "pending_ok example_oauth_runtime ?st"
    by (simp add: pending_ok_def store_ok_def example_store_def)
  obtain st' out where step: "pending_step example_oauth_runtime (Some 30, PendingConsume ''AAAAAAAAAAAAAAAA'') ?st = (st', out)"
    by fastforce
  have "map_of (ps_entries st') ''AAAAAAAAAAAAAAAA'' = None"
  proof -
    have "map_of (ps_entries (fst (pending_step example_oauth_runtime (Some 30, PendingConsume ''AAAAAAAAAAAAAAAA'') ?st)))
        ''AAAAAAAAAAAAAAAA'' = None" by code_simp
    with step show ?thesis by simp
  qed
  with pending_entry_lifecycle [OF ok _ step, of "''AAAAAAAAAAAAAAAA''" example_entry] step show ?thesis
    by (auto simp: example_entry_def)
qed

end
