(* ===== verification/CodeStore.thy ===== *)
theory CodeStore
  imports TtlStore
begin

text \<open>
  The store of authorization codes (\<open>gateway/src/oauth-authorization-code-store.ts\<close>): a bounded map from
  the SHA-256 digest of a code to what the code is bound to. A code is handed out once, at issue, and an
  entry is deleted before its binding is returned. Clock readings and the factory's results are
  arguments, as for the pending consents.
\<close>

record code_entry =
  ce_digest :: string
  ce_client_id :: string
  ce_redirect_uri :: string
  ce_resource :: string
  ce_scopes :: "string list"
  ce_code_challenge :: string
  ce_created_at_ms :: int
  ce_expires_at_ms :: int

record code_store =
  cs_entries :: "(string \<times> code_entry) list"
  cs_max_entries :: nat
  cs_ttl_ms :: int

record issued_code =
  ic_code :: string
  ic_expires_at_ms :: int

record consumed_code =
  cc_binding :: code_binding
  cc_scopes :: "string list"
  cc_expires_at_ms :: int

datatype code_issue_error = IssueInvalidGrant | IssueCapacity | CodeGenerationFailed

definition MAX_CLIENT_ID_BYTES :: nat where "MAX_CLIENT_ID_BYTES = 2048"

definition code_client_ok :: "string \<Rightarrow> bool" where
  "code_client_ok c \<longleftrightarrow> rx_plus is_visible c \<and> \<not> byte_length c > MAX_CLIENT_ID_BYTES"

text \<open>\<open>isBoundedHttpsUri\<close> and \<open>requestIsBounded\<close> of this module, which checks the state before the scopes.\<close>

definition code_uri_bounded :: "runtime \<Rightarrow> string \<Rightarrow> bool \<Rightarrow> bool" where
  "code_uri_bounded rt value allow_query \<longleftrightarrow>
     (if length value = 0 \<or> byte_length value > MAX_URI_BYTES then False
      else case rt_url rt value of
        None \<Rightarrow> False
      | Some u \<Rightarrow> u_protocol u = ''https:'' \<and> u_username u = [] \<and> u_password u = [] \<and> u_hash u = []
          \<and> (allow_query \<or> u_search u = []))"

definition code_request_bounded :: "runtime \<Rightarrow> oauth_request \<Rightarrow> bool" where
  "code_request_bounded rt q \<longleftrightarrow>
     (if or_response_type q \<noteq> ''code'' \<or> \<not> code_client_ok (or_client_id q)
         \<or> \<not> code_uri_bounded rt (or_redirect_uri q) True \<or> \<not> code_uri_bounded rt (or_resource q) False
         \<or> length (or_scopes q) = 0 \<or> length (or_scopes q) > 64 \<or> or_challenge_method q \<noteq> ''S256''
         \<or> \<not> pkce_challenge_ok (or_code_challenge q) then False
      else if (case or_state q of None \<Rightarrow> False
               | Some s \<Rightarrow> length s = 0 \<or> byte_length s > MAX_STATE_BYTES) then False
      else scopes_bounded (or_scopes q) [])"

definition authorization_code_ok :: "string \<Rightarrow> bool" where
  "authorization_code_ok = rx_range is_base64url 43 43"

definition new_code_store :: "int option \<Rightarrow> int option \<Rightarrow> string + code_store" where
  "new_code_store max_entries ttl_ms =
     (case store_options max_entries ttl_ms of
        Inl e \<Rightarrow> Inl e
      | Inr (n, ttl) \<Rightarrow> Inr \<lparr>cs_entries = [], cs_max_entries = n, cs_ttl_ms = ttl\<rparr>)"

definition code_clock_error :: string where
  "code_clock_error = ''authorization-code clock returned an invalid timestamp''"

definition digest_code :: "runtime \<Rightarrow> string \<Rightarrow> string" where
  "digest_code rt code = hex_of (rt_sha256 rt (utf8 code))"

definition code_purge_at :: "int \<Rightarrow> code_store \<Rightarrow> code_store \<times> nat" where
  "code_purge_at now st =
     (let kept = filter (\<lambda>e. \<not> ce_expires_at_ms (snd e) \<le> now) (cs_entries st)
      in (st\<lparr>cs_entries := kept\<rparr>, length (cs_entries st) - length kept))"

abbreviation code_purged :: "int \<Rightarrow> code_store \<Rightarrow> code_store" where
  "code_purged now st \<equiv> fst (code_purge_at now st)"

definition code_purge_expired :: "int option \<Rightarrow> code_store \<Rightarrow> string + code_store \<times> nat" where
  "code_purge_expired reading st =
     map_sum id (\<lambda>now. code_purge_at now st) (current_time code_clock_error reading)"

definition code_size :: "int option \<Rightarrow> code_store \<Rightarrow> string + code_store \<times> nat" where
  "code_size reading st =
     map_sum id (\<lambda>(st', removed). (st', length (cs_entries st'))) (code_purge_expired reading st)"

text \<open>The argument is the grant's request, \<open>None\<close> where the grant or its request is missing.\<close>

definition code_issue ::
  "runtime \<Rightarrow> int option \<Rightarrow> string list \<Rightarrow> oauth_request option \<Rightarrow> code_store
   \<Rightarrow> string + code_store \<times> (code_issue_error + issued_code)" where
  "code_issue rt reading codes grant st =
     map_sum id (\<lambda>now.
       let st1 = code_purged now st
       in case grant of
            None \<Rightarrow> (st1, Inl IssueInvalidGrant)
          | Some q \<Rightarrow>
              if \<not> code_request_bounded rt q then (st1, Inl IssueInvalidGrant)
              else if length (cs_entries st1) \<ge> cs_max_entries st1 then (st1, Inl IssueCapacity)
              else
                (case pick_fresh authorization_code_ok (\<lambda>c. map_has (digest_code rt c) (cs_entries st1)) (take 4 codes) of
                   None \<Rightarrow> (st1, Inl CodeGenerationFailed)
                 | Some code \<Rightarrow>
                     (let digest = digest_code rt code;
                          e = \<lparr>ce_digest = digest, ce_client_id = or_client_id q,
                               ce_redirect_uri = or_redirect_uri q, ce_resource = or_resource q,
                               ce_scopes = or_scopes q, ce_code_challenge = or_code_challenge q,
                               ce_created_at_ms = now, ce_expires_at_ms = now + cs_ttl_ms st1\<rparr>
                      in (st1\<lparr>cs_entries := map_set digest e (cs_entries st1)\<rparr>,
                          Inr \<lparr>ic_code = code, ic_expires_at_ms = ce_expires_at_ms e\<rparr>))))
       (current_time code_clock_error reading)"

definition consumed_of :: "string \<Rightarrow> code_entry \<Rightarrow> consumed_code" where
  "consumed_of presented e =
     \<lparr>cc_binding = \<lparr>cb_code = presented, cb_client_id = ce_client_id e, cb_redirect_uri = ce_redirect_uri e,
                   cb_resource = ce_resource e, cb_code_challenge = ce_code_challenge e\<rparr>,
      cc_scopes = ce_scopes e, cc_expires_at_ms = ce_expires_at_ms e\<rparr>"

text \<open>The one error of \<open>consume\<close>, \<open>invalid_grant\<close>, is \<open>None\<close>.\<close>

definition code_consume ::
  "runtime \<Rightarrow> int option \<Rightarrow> string \<Rightarrow> code_store \<Rightarrow> string + code_store \<times> consumed_code option" where
  "code_consume rt reading presented st =
     map_sum id (\<lambda>now.
       let st1 = code_purged now st
       in if \<not> authorization_code_ok presented then (st1, None)
          else
            (let digest = digest_code rt presented
             in case map_of (cs_entries st1) digest of
                  None \<Rightarrow> (st1, None)
                | Some e \<Rightarrow> (st1\<lparr>cs_entries := map_delete digest (cs_entries st1)\<rparr>, Some (consumed_of presented e))))
       (current_time code_clock_error reading)"

section \<open>The store as a machine\<close>

datatype code_op =
    CodePurge | CodeSize
  | CodeIssue "string list" "oauth_request option"
  | CodeConsume string

datatype code_out =
    CodeThrew string | CodeCount nat
  | CodeIssued "oauth_request option" "code_issue_error + issued_code"
  | CodeConsumed string "consumed_code option"

definition code_answer :: "('a \<Rightarrow> code_out) \<Rightarrow> code_store \<Rightarrow> string + code_store \<times> 'a \<Rightarrow> code_store \<times> code_out" where
  "code_answer f st res = (case res of Inl e \<Rightarrow> (st, CodeThrew e) | Inr (st', a) \<Rightarrow> (st', f a))"

fun code_step :: "runtime \<Rightarrow> int option \<times> code_op \<Rightarrow> code_store \<Rightarrow> code_store \<times> code_out" where
  "code_step rt (reading, CodePurge) st = code_answer CodeCount st (code_purge_expired reading st)"
| "code_step rt (reading, CodeSize) st = code_answer CodeCount st (code_size reading st)"
| "code_step rt (reading, CodeIssue codes grant) st =
     code_answer (CodeIssued grant) st (code_issue rt reading codes grant st)"
| "code_step rt (reading, CodeConsume c) st = code_answer (CodeConsumed c) st (code_consume rt reading c st)"

section \<open>The store interface\<close>

definition code_put :: "string \<Rightarrow> code_entry \<Rightarrow> code_store \<Rightarrow> code_store" where
  "code_put k e st = st\<lparr>cs_entries := map_set k e (cs_entries st)\<rparr>"

definition code_remove :: "string \<Rightarrow> code_store \<Rightarrow> code_store" where
  "code_remove k st = st\<lparr>cs_entries := map_delete k (cs_entries st)\<rparr>"

interpretation codes: ttl_store cs_entries cs_max_entries ce_expires_at_ms code_purged code_put code_remove
  by unfold_locales (auto simp: code_purge_at_def code_put_def code_remove_def Let_def not_le)

text \<open>What a code stands for: client, redirect URI, resource, scopes and challenge.\<close>

record code_authority =
  ca_client_id :: string
  ca_redirect_uri :: string
  ca_resource :: string
  ca_scopes :: "string list"
  ca_code_challenge :: string

definition authority_of_request :: "oauth_request \<Rightarrow> code_authority" where
  "authority_of_request q =
     \<lparr>ca_client_id = or_client_id q, ca_redirect_uri = or_redirect_uri q, ca_resource = or_resource q,
      ca_scopes = or_scopes q, ca_code_challenge = or_code_challenge q\<rparr>"

definition authority_of_entry :: "code_entry \<Rightarrow> code_authority" where
  "authority_of_entry e =
     \<lparr>ca_client_id = ce_client_id e, ca_redirect_uri = ce_redirect_uri e, ca_resource = ce_resource e,
      ca_scopes = ce_scopes e, ca_code_challenge = ce_code_challenge e\<rparr>"

definition authority_of_consumed :: "consumed_code \<Rightarrow> code_authority" where
  "authority_of_consumed c =
     \<lparr>ca_client_id = cb_client_id (cc_binding c), ca_redirect_uri = cb_redirect_uri (cc_binding c),
      ca_resource = cb_resource (cc_binding c), ca_scopes = cc_scopes c,
      ca_code_challenge = cb_code_challenge (cc_binding c)\<rparr>"

lemma authority_of_consumed_of [simp]: "authority_of_consumed (consumed_of c e) = authority_of_entry e"
  by (simp add: authority_of_consumed_def consumed_of_def authority_of_entry_def)

definition authority_ok :: "runtime \<Rightarrow> code_authority \<Rightarrow> bool" where
  "authority_ok rt a \<longleftrightarrow> code_client_ok (ca_client_id a) \<and> is_bounded_https_uri rt (ca_redirect_uri a) True
     \<and> is_bounded_https_uri rt (ca_resource a) False \<and> ca_scopes a \<noteq> [] \<and> length (ca_scopes a) \<le> 64
     \<and> scopes_bounded (ca_scopes a) [] \<and> pkce_challenge_ok (ca_code_challenge a)"

text \<open>The two stores bound a request by the same conditions, the form of the client id apart.\<close>

lemma code_uri_bounded_eq: "code_uri_bounded rt = is_bounded_https_uri rt"
  by (intro ext) (simp add: code_uri_bounded_def is_bounded_https_uri_def)

lemma code_request_bounded_eq: "code_request_bounded rt q \<longleftrightarrow> request_is_bounded rt code_client_ok q"
  unfolding code_request_bounded_def request_is_bounded_def code_uri_bounded_eq by argo

lemma request_authority_ok: "code_request_bounded rt q \<Longrightarrow> authority_ok rt (authority_of_request q)"
  by (auto simp: code_request_bounded_eq request_is_bounded_def authority_ok_def authority_of_request_def split: if_splits)

definition code_entry_ok :: "runtime \<Rightarrow> code_store \<Rightarrow> string \<Rightarrow> code_entry \<Rightarrow> bool" where
  "code_entry_ok rt st k e \<longleftrightarrow> ce_digest e = k \<and> authority_ok rt (authority_of_entry e)
     \<and> ce_expires_at_ms e = ce_created_at_ms e + cs_ttl_ms st"

definition code_store_ok :: "runtime \<Rightarrow> code_store \<Rightarrow> bool" where
  "code_store_ok rt st \<longleftrightarrow> store_ok (cs_max_entries st) (cs_entries st)
     \<and> (\<forall>k e. map_of (cs_entries st) k = Some e \<longrightarrow> code_entry_ok rt st k e)"

lemma code_ttl_same [simp]:
  "cs_ttl_ms (code_purged now st) = cs_ttl_ms st" "cs_ttl_ms (code_put k e st) = cs_ttl_ms st"
  "cs_ttl_ms (code_remove k st) = cs_ttl_ms st"
  by (simp_all add: code_purge_at_def code_put_def code_remove_def Let_def)

lemma code_entry_ok_same_ttl: "cs_ttl_ms st' = cs_ttl_ms st \<Longrightarrow> code_entry_ok rt st' k e = code_entry_ok rt st k e"
  by (simp add: code_entry_ok_def)

lemma code_step_cases:
  obtains (threw) m where "code_step rt (reading, op) st = (st, CodeThrew m)"
  | (purged) now out where "reading = Some now" "code_step rt (reading, op) st = (code_purged now st, out)"
      "\<And>q i. out \<noteq> CodeIssued q (Inr i)" "\<And>c x. out \<noteq> CodeConsumed c (Some x)"
  | (issued) now cs q c e where "reading = Some now" "op = CodeIssue cs (Some q)"
      "code_request_bounded rt q" "authorization_code_ok c"
      "length (cs_entries (code_purged now st)) < cs_max_entries st"
      "map_of (cs_entries (code_purged now st)) (digest_code rt c) = None"
      "ce_digest e = digest_code rt c" "authority_of_entry e = authority_of_request q"
      "ce_created_at_ms e = now" "ce_expires_at_ms e = now + cs_ttl_ms st"
      "code_step rt (reading, op) st =
         (code_put (digest_code rt c) e (code_purged now st),
          CodeIssued (Some q) (Inr \<lparr>ic_code = c, ic_expires_at_ms = now + cs_ttl_ms st\<rparr>))"
  | (consumed) now c e where "reading = Some now" "op = CodeConsume c" "authorization_code_ok c"
      "map_of (cs_entries (code_purged now st)) (digest_code rt c) = Some e"
      "code_step rt (reading, op) st =
         (code_remove (digest_code rt c) (code_purged now st), CodeConsumed c (Some (consumed_of c e)))"
proof (cases "current_time code_clock_error reading")
  case (Inl m)
  have "code_step rt (reading, op) st = (st, CodeThrew m)"
    by (cases op) (simp_all add: Inl code_answer_def code_purge_expired_def code_size_def code_issue_def code_consume_def)
  then show thesis by (rule threw)
next
  case (Inr now)
  then have reading: "reading = Some now" by (simp add: current_time_Inr)
  note defs = Inr Inr [unfolded reading] code_answer_def code_purge_expired_def code_size_def code_issue_def
    code_consume_def Let_def
  have max: "cs_max_entries (code_purged now st) = cs_max_entries st" by (rule codes.limit_same)
  show thesis
  proof (cases op)
    case (CodeIssue cs grant)
    show thesis
    proof (cases "\<exists>q c. grant = Some q \<and> code_request_bounded rt q
        \<and> length (cs_entries (code_purged now st)) < cs_max_entries st
        \<and> pick_fresh authorization_code_ok (\<lambda>c. map_has (digest_code rt c) (cs_entries (code_purged now st))) (take 4 cs) = Some c")
      case True
      then obtain q c where q: "grant = Some q" "code_request_bounded rt q"
        "length (cs_entries (code_purged now st)) < cs_max_entries st"
        and c: "pick_fresh authorization_code_ok (\<lambda>c. map_has (digest_code rt c) (cs_entries (code_purged now st))) (take 4 cs) = Some c"
        by blast
      from pick_fresh_Some [OF c] have "authorization_code_ok c" "map_of (cs_entries (code_purged now st)) (digest_code rt c) = None"
        by (simp_all add: map_has_def)
      with q c CodeIssue reading max show thesis
        by (intro issued [of now cs q c "\<lparr>ce_digest = digest_code rt c, ce_client_id = or_client_id q,
              ce_redirect_uri = or_redirect_uri q, ce_resource = or_resource q, ce_scopes = or_scopes q,
              ce_code_challenge = or_code_challenge q, ce_created_at_ms = now,
              ce_expires_at_ms = now + cs_ttl_ms st\<rparr>"])
          (simp_all add: defs code_put_def authority_of_entry_def authority_of_request_def)
    next
      case False
      then have "\<exists>err. code_step rt (reading, op) st = (code_purged now st, CodeIssued grant (Inl err))"
        using CodeIssue max by (auto simp: defs not_less split: option.splits)
      then show thesis using reading by (auto intro: purged)
    qed
  next
    case (CodeConsume c)
    show thesis
    proof (cases "authorization_code_ok c \<and> map_of (cs_entries (code_purged now st)) (digest_code rt c) \<noteq> None")
      case True
      with CodeConsume reading show thesis
        by (auto simp: defs code_remove_def intro: consumed)
    next
      case False
      then have "code_step rt (reading, op) st = (code_purged now st, CodeConsumed c None)"
        using CodeConsume by (auto simp: defs split: option.splits)
      from purged [OF reading this] show thesis by simp
    qed
  next
    case CodePurge
    have "code_step rt (reading, op) st = (code_purged now st, CodeCount (snd (code_purge_at now st)))"
      by (simp add: CodePurge defs split: prod.split)
    from purged [OF reading this] show thesis by simp
  next
    case CodeSize
    have "code_step rt (reading, op) st = (code_purged now st, CodeCount (length (cs_entries (code_purged now st))))"
      by (simp add: CodeSize defs split: prod.split)
    from purged [OF reading this] show thesis by simp
  qed
qed

lemma code_store_ok_purge: "code_store_ok rt st \<Longrightarrow> code_store_ok rt (code_purged now st)"
  using codes.ok_purge [of st now]
  by (auto simp: code_store_ok_def codes.look_purge_Some code_entry_ok_same_ttl [OF code_ttl_same(1)])

lemma code_store_ok_step:
  assumes "code_store_ok rt st"
  shows "code_store_ok rt (fst (code_step rt (reading, op) st))"
proof (cases rule: code_step_cases [of rt reading op st])
  case (issued now cs q c e)
  let ?st1 = "code_purged now st" and ?k = "digest_code rt c"
  have ok1: "code_store_ok rt ?st1" by (rule code_store_ok_purge [OF assms])
  have "store_ok (cs_max_entries (code_put ?k e ?st1)) (cs_entries (code_put ?k e ?st1))"
    using ok1 issued(5) by (intro codes.ok_put_new) (simp_all add: code_store_ok_def codes.limit_same)
  moreover have "code_entry_ok rt ?st1 ?k e"
    using issued request_authority_ok by (simp add: code_entry_ok_def)
  ultimately show ?thesis
    using ok1 issued(11)
    by (auto simp: code_store_ok_def codes.look_put code_entry_ok_same_ttl [OF code_ttl_same(2)])
next
  case (consumed now c e)
  have "code_store_ok rt (code_purged now st)" by (rule code_store_ok_purge [OF assms])
  then show ?thesis
    using consumed(5) codes.ok_remove [of "code_purged now st" "digest_code rt c"]
    by (auto simp: code_store_ok_def codes.look_remove code_entry_ok_same_ttl [OF code_ttl_same(3)])
qed (use assms code_store_ok_purge in simp_all)

lemma code_step_entry:
  assumes "code_store_ok rt st" and "code_step rt (reading, op) st = (st', out)"
    and "map_of (cs_entries st') k = Some e'"
  shows "map_of (cs_entries st) k = Some e'
     \<or> (\<exists>codes q. op = CodeIssue codes (Some q) \<and> authority_of_entry e' = authority_of_request q)"
proof -
  have look: "map_of (cs_entries (code_purged now st)) j = Some e \<Longrightarrow> map_of (cs_entries st) j = Some e" for now j e
    using assms(1) by (simp add: code_store_ok_def codes.look_purge_Some)
  show ?thesis
  proof (cases rule: code_step_cases [of rt reading op st])
    case (issued now cs q c e)
    with assms(2,3) look [of now k e'] show ?thesis by (auto simp: codes.look_put split: if_splits)
  next
    case (consumed now c e)
    with assms(2,3) look [of now k e'] show ?thesis by (auto simp: codes.look_remove split: if_splits)
  qed (use assms(2,3) look in auto)
qed

lemma code_step_consumed:
  assumes "code_store_ok rt st" and "code_step rt (reading, op) st = (st', CodeConsumed c (Some x))"
  shows "\<exists>e. map_of (cs_entries st) (digest_code rt c) = Some e \<and> x = consumed_of c e"
  using assms
  by (cases rule: code_step_cases [of rt reading op st])
    (auto simp: code_store_ok_def codes.look_purge_Some)

definition code_content :: "code_store \<Rightarrow> string \<Rightarrow> code_authority option" where
  "code_content st k = map_option authority_of_entry (map_of (cs_entries st) k)"

fun issued_ticket :: "runtime \<Rightarrow> code_out \<Rightarrow> (string \<times> code_authority) option" where
  "issued_ticket rt (CodeIssued (Some q) (Inr i)) = Some (digest_code rt (ic_code i), authority_of_request q)"
| "issued_ticket rt out = None"

fun redeemed_ticket :: "runtime \<Rightarrow> code_out \<Rightarrow> (string \<times> code_authority) option" where
  "redeemed_ticket rt (CodeConsumed c (Some x)) = Some (digest_code rt c, authority_of_consumed x)"
| "redeemed_ticket rt out = None"

lemma code_look_purged: "code_store_ok rt st \<Longrightarrow>
    map_of (cs_entries (code_purged now st)) k = Some e \<longleftrightarrow> map_of (cs_entries st) k = Some e \<and> now < ce_expires_at_ms e"
  by (simp add: code_store_ok_def codes.look_purge_Some)

lemma code_content_Some: "code_content st k = Some a \<longleftrightarrow> (\<exists>e. map_of (cs_entries st) k = Some e \<and> authority_of_entry e = a)"
  by (auto simp: code_content_def)

lemma issued_ticket_Some: "issued_ticket rt out = Some (k, a) \<longleftrightarrow>
    (\<exists>q i. out = CodeIssued (Some q) (Inr i) \<and> k = digest_code rt (ic_code i) \<and> a = authority_of_request q)"
  by (cases "(rt, out)" rule: issued_ticket.cases) auto

lemma redeemed_ticket_Some: "redeemed_ticket rt out = Some (k, a) \<longleftrightarrow>
    (\<exists>c x. out = CodeConsumed c (Some x) \<and> k = digest_code rt c \<and> a = authority_of_consumed x)"
  by (cases "(rt, out)" rule: redeemed_ticket.cases) auto

interpretation code_tickets: ticket_store "code_store_ok rt" "code_step rt" code_content "issued_ticket rt" "redeemed_ticket rt"
  for rt
proof
  fix st :: code_store and x :: "int option \<times> code_op" and k a
  assume ok: "code_store_ok rt st"
  obtain reading op where x: "x = (reading, op)" by (cases x)
  show "code_store_ok rt (fst (code_step rt x st))" unfolding x by (rule code_store_ok_step [OF ok])
  { assume "code_content (fst (code_step rt x st)) k = Some a"
    then show "code_content st k = Some a \<or> issued_ticket rt (snd (code_step rt x st)) = Some (k, a)"
      unfolding x
      by (cases rule: code_step_cases [of rt reading op st])
        (auto simp: code_content_Some code_look_purged [OF ok] codes.look_put codes.look_remove
          issued_ticket_Some split: if_splits) }
  { assume "redeemed_ticket rt (snd (code_step rt x st)) = Some (k, a)"
    then show "code_content st k = Some a \<and> code_content (fst (code_step rt x st)) k = None
        \<and> issued_ticket rt (snd (code_step rt x st)) = None"
      unfolding x
      by (cases rule: code_step_cases [of rt reading op st])
        (auto simp: code_content_Some code_content_def code_look_purged [OF ok] codes.look_remove redeemed_ticket_Some) }
qed

section \<open>Properties\<close>

lemma new_code_store_Inr:
  assumes "new_code_store m t = Inr st"
  shows "cs_entries st = []" and "cs_max_entries st \<le> 64" and "code_store_ok rt st"
  using assms
  by (auto simp: new_code_store_def store_options_def code_store_ok_def store_ok_def HARD_MAX_ENTRIES_def
      split: sum.splits prod.splits if_splits)

text \<open>
  C9. A code is redeemed at most once for each time it was issued. Whatever operations run on a new
  store, for every digest and every authority (client, redirect URI, resource, scopes, challenge) the
  codes redeemed with this digest for this authority are no more than those issued with it for it. At
  the end the store holds at most 64 entries, one per digest, each with a well-formed authority.
\<close>

theorem codes_redeemed_once:
  assumes "new_code_store m t = Inr st" and "run_steps (code_step rt) ops st = (st', outs)"
  shows "occurrences (redeemed_ticket rt) (digest, a) outs \<le> occurrences (issued_ticket rt) (digest, a) outs
     \<and> length (cs_entries st') \<le> 64 \<and> code_store_ok rt st'"
proof -
  note new = new_code_store_Inr [OF assms(1)]
  have ok: "code_store_ok rt st" by (rule new(3))
  have "code_content st digest = None" using new(1) by (simp add: code_content_def)
  then have "occurrences (redeemed_ticket rt) (digest, a) outs \<le> occurrences (issued_ticket rt) (digest, a) outs"
    using code_tickets.redeemed_at_most_issued [OF ok, where xs = ops and k = digest and c = a]
    by (simp add: assms(2))
  moreover have "code_store_ok rt st' \<and> cs_max_entries st' \<le> 64"
  proof -
    have max: "cs_max_entries (fst (code_step rt x st)) = cs_max_entries st" for x st
      by (cases x; cases rule: code_step_cases [of rt "fst x" "snd x" st]) (auto simp: codes.limit_same)
    show ?thesis
      using run_steps_invariant [of "\<lambda>st. code_store_ok rt st \<and> cs_max_entries st \<le> 64" "code_step rt" st ops]
        new(2) ok code_store_ok_step max by (auto simp: assms(2))
  qed
  ultimately show ?thesis by (auto simp: code_store_ok_def store_ok_def)
qed

text \<open>
  What a redemption returns was issued before and is still owed. If after a run of a new store a
  consumption of a presented code succeeds, then its binding carries the presented code, its time has
  not passed, and in the run a code with the same digest was issued for exactly the client, redirect
  URI, resource, scopes and challenge it returns, more often than it was redeemed.
\<close>

theorem redemption_was_issued:
  assumes "new_code_store m t = Inr st" and "run_steps (code_step rt) ops st = (st1, outs)"
    and "code_consume rt (Some now) presented st1 = Inr (st2, Some consumed)"
  shows "cb_code (cc_binding consumed) = presented \<and> now < cc_expires_at_ms consumed
     \<and> authority_ok rt (authority_of_consumed consumed)
     \<and> occurrences (redeemed_ticket rt) (digest_code rt presented, authority_of_consumed consumed) outs
       < occurrences (issued_ticket rt) (digest_code rt presented, authority_of_consumed consumed) outs"
proof -
  note new = new_code_store_Inr [OF assms(1)]
  have ok: "code_store_ok rt st" by (rule new(3))
  have ok1: "code_store_ok rt st1"
    using run_steps_invariant [of "code_store_ok rt" "code_step rt" st ops, OF code_tickets.inv_step ok] assms(2) by simp
  have step: "code_step rt (Some now, CodeConsume presented) st1 = (st2, CodeConsumed presented (Some consumed))"
    using assms(3) by (simp add: code_answer_def)
  have "occurrences (redeemed_ticket rt) (digest_code rt presented, authority_of_consumed consumed) outs
       < occurrences (issued_ticket rt) (digest_code rt presented, authority_of_consumed consumed) outs"
    using code_tickets.redeemed_was_issued [OF ok _ assms(2), of "digest_code rt presented" "(Some now, CodeConsume presented)"]
      step new(1) by (simp add: code_content_def)
  moreover obtain e where "map_of (cs_entries (code_purged now st1)) (digest_code rt presented) = Some e"
    "consumed = consumed_of presented e"
    using step by (cases rule: code_step_cases [of rt "Some now" "CodeConsume presented" st1]) auto
  ultimately show ?thesis
    using ok1 code_look_purged [OF ok1, of now]
    by (auto simp: consumed_of_def code_store_ok_def code_entry_ok_def authority_of_consumed_def authority_of_entry_def)
qed

definition example_code_store :: code_store where
  "example_code_store = \<lparr>cs_entries = [], cs_max_entries = 64, cs_ttl_ms = 120000\<rparr>"

definition example_code :: string where
  "example_code = replicate 43 (CHR ''B'')"

definition example_issue :: "int option \<times> code_op" where
  "example_issue = (Some 10, CodeIssue [example_code] (Some (example_oauth_request ''xyz'')))"

definition example_ticket :: "string \<times> code_authority" where
  "example_ticket = (digest_code example_oauth_runtime example_code, authority_of_request (example_oauth_request ''xyz''))"

theorem codes_redeemed_once_witness:
  "occurrences (redeemed_ticket example_oauth_runtime) example_ticket
     (snd (run_steps (code_step example_oauth_runtime)
       [example_issue, (Some 20, CodeConsume example_code), (Some 30, CodeConsume example_code)] example_code_store)) = 1"
  (is "occurrences _ _ (snd ?run) = 1")
proof -
  have "new_code_store (Some 64) (Some 120000) = Inr example_code_store" by code_simp
  from codes_redeemed_once [OF this prod.collapse [symmetric], of example_oauth_runtime "fst example_ticket" "snd example_ticket"]
  have "occurrences (redeemed_ticket example_oauth_runtime) example_ticket (snd ?run)
      \<le> occurrences (issued_ticket example_oauth_runtime) example_ticket (snd ?run)"
    unfolding prod.collapse by blast
  moreover have "occurrences (issued_ticket example_oauth_runtime) example_ticket (snd ?run) = 1" by code_simp
  moreover have "0 < occurrences (redeemed_ticket example_oauth_runtime) example_ticket (snd ?run)" by code_simp
  ultimately show ?thesis by linarith
qed

theorem redemption_was_issued_witness:
  "\<exists>st2 consumed. code_consume example_oauth_runtime (Some 20) example_code
       (fst (run_steps (code_step example_oauth_runtime) [example_issue] example_code_store)) = Inr (st2, Some consumed)
     \<and> cb_code (cc_binding consumed) = example_code \<and> 20 < cc_expires_at_ms consumed"
proof -
  let ?run = "run_steps (code_step example_oauth_runtime) [example_issue] example_code_store"
  have new: "new_code_store (Some 64) (Some 120000) = Inr example_code_store" by code_simp
  have "case code_consume example_oauth_runtime (Some 20) example_code (fst ?run) of
      Inr (st2, Some consumed) \<Rightarrow> True | _ \<Rightarrow> False"
    by code_simp
  then obtain st2 consumed where c: "code_consume example_oauth_runtime (Some 20) example_code (fst ?run) = Inr (st2, Some consumed)"
    by (auto split: sum.splits option.splits)
  from redemption_was_issued [OF new prod.collapse [symmetric] c] c show ?thesis by blast
qed

end
