(* ===== verification/CimdNetwork.thy ===== *)
theory CimdNetwork
  imports Prelude "HOL-Library.Word"
begin

text \<open>
  Which network addresses a client metadata document may be fetched from
  (\<open>gateway/src/oauth-cimd-network.ts\<close>): parsing of IPv4 and IPv6 addresses, the special-use ranges, and
  the check of a DNS result. Bytes of an IPv6 address are 8-bit words, as in the code's \<open>Uint8Array\<close>;
  \<open>isIP\<close> is the runtime's.
\<close>

unbundle bit_operations_syntax

section \<open>Parsing\<close>

fun decimal_value :: "string \<Rightarrow> nat \<Rightarrow> nat" where
  "decimal_value [] n = n"
| "decimal_value (c # s) n = decimal_value s (n * 10 + (unit_of c - 48))"

text \<open>\<open>/^(0|[1-9][0-9]{0,2})$/\<close>.\<close>

fun decimal_byte_form :: "string \<Rightarrow> bool" where
  "decimal_byte_form [] = False"
| "decimal_byte_form (c # s) \<longleftrightarrow> c # s = ''0'' \<or> between 49 57 c \<and> rx_range is_digit 0 2 s"

fun parse_bytes :: "string list \<Rightarrow> nat list option" where
  "parse_bytes [] = Some []"
| "parse_bytes (part # parts) =
     (if \<not> decimal_byte_form part then None
      else if decimal_value part 0 > 255 then None
      else map_option ((#) (decimal_value part 0)) (parse_bytes parts))"

definition parse_ipv4 :: "string \<Rightarrow> nat list option" where
  "parse_ipv4 value =
     (let parts = split_on (CHR ''.'') value in if length parts \<noteq> 4 then None else parse_bytes parts)"

definition strip_brackets :: "string \<Rightarrow> string" where
  "strip_brackets s = (if starts_with s ''['' \<and> ends_with s '']'' then drop 1 (take (length s - 1) s) else s)"

fun split_double_colon :: "string \<Rightarrow> string list" where
  "split_double_colon [] = [[]]"
| "split_double_colon (c # s) =
     (if c = CHR '':'' \<and> starts_with s '':'' then [] # split_double_colon (drop 1 s)
      else (case split_double_colon s of p # ps \<Rightarrow> (c # p) # ps | [] \<Rightarrow> [[c]]))"

fun to_hex :: "nat \<Rightarrow> string" where
  "to_hex n = (if n < 16 then [hex_digit n] else to_hex (n div 16) @ [hex_digit (n mod 16)])"

declare to_hex.simps [simp del]

definition hex_value_of :: "char \<Rightarrow> nat" where
  "hex_value_of c = (if is_digit c then unit_of c - 48 else unit_of c - 87)"

definition from_hex :: "string \<Rightarrow> nat" where
  "from_hex s = foldl (\<lambda>n c. n * 16 + hex_value_of c) 0 s"

definition hex_group :: "string \<Rightarrow> bool" where
  "hex_group = rx_range (\<lambda>c. is_digit c \<or> between 97 102 c) 1 4"

text \<open>\<open>value.slice(0, value.lastIndexOf(":"))\<close> and the rest after the colon.\<close>

definition before_last_colon :: "string \<Rightarrow> string" where
  "before_last_colon s =
     (if CHR '':'' \<in> set s then join '':'' (butlast (split_on (CHR '':'') s)) else butlast s)"

definition after_last_colon :: "string \<Rightarrow> string" where
  "after_last_colon s = last (split_on (CHR '':'') s)"

text \<open>An IPv4 tail as two hexadecimal groups.\<close>

definition expand_ipv4_tail :: "string \<Rightarrow> string option" where
  "expand_ipv4_tail value =
     (if includes_str (after_last_colon value) ''.'' then
        (case parse_ipv4 (after_last_colon value) of
           None \<Rightarrow> None
         | Some bs \<Rightarrow>
             Some (before_last_colon value @ '':'' @ to_hex (push_bit 8 (bs ! 0) OR bs ! 1)
                   @ '':'' @ to_hex (push_bit 8 (bs ! 2) OR bs ! 3)))
      else Some value)"

definition pieces :: "string \<Rightarrow> string list" where
  "pieces s = (if s = [] then [] else split_on (CHR '':'') s)"

definition ipv6_groups :: "string \<Rightarrow> string list option" where
  "ipv6_groups value =
     (let halves = split_double_colon value
      in if length halves > 2 then None
         else
           (let left = pieces (halves ! 0); right = (if length halves = 2 then pieces (halves ! 1) else [])
            in if list_ex (\<lambda>p. \<not> hex_group p) left \<or> list_ex (\<lambda>p. \<not> hex_group p) right then None
               else if length halves = 1 then (if length left \<noteq> 8 then None else Some left)
               else if 8 < length left + length right + 1 then None
               else Some (left @ replicate (8 - length left - length right) ''0'' @ right)))"

definition group_bytes :: "string \<Rightarrow> 8 word list" where
  "group_bytes g = [word_of_nat (drop_bit 8 (from_hex g)), word_of_nat (from_hex g)]"

definition parse_ipv6 :: "runtime \<Rightarrow> string \<Rightarrow> 8 word list option" where
  "parse_ipv6 rt raw =
     (let value = strip_brackets (to_lower raw)
      in if includes_str value ''%'' \<or> rt_is_ip rt value \<noteq> 6 then None
         else (case expand_ipv4_tail value of
                 None \<Rightarrow> None
               | Some expanded \<Rightarrow> map_option (\<lambda>gs. concat (map group_bytes gs)) (ipv6_groups expanded)))"

section \<open>Special-use ranges\<close>

definition ipv4_special_use :: "nat list \<Rightarrow> bool" where
  "ipv4_special_use bs \<longleftrightarrow>
     (let a = bs ! 0; b = bs ! 1; c = bs ! 2
      in a = 0 \<or> a = 10 \<or> a = 127
         \<or> (a = 100 \<and> b \<ge> 64 \<and> b \<le> 127)
         \<or> (a = 169 \<and> b = 254)
         \<or> (a = 172 \<and> b \<ge> 16 \<and> b \<le> 31)
         \<or> (a = 192 \<and> b = 0 \<and> c = 0)
         \<or> (a = 192 \<and> b = 0 \<and> c = 2)
         \<or> (a = 192 \<and> b = 88 \<and> c = 99)
         \<or> (a = 192 \<and> b = 168)
         \<or> (a = 198 \<and> (b = 18 \<or> b = 19))
         \<or> (a = 198 \<and> b = 51 \<and> c = 100)
         \<or> (a = 203 \<and> b = 0 \<and> c = 113)
         \<or> a \<ge> 224)"

text \<open>The loop over the whole bytes, then the remaining bits under a mask.\<close>

definition prefix_matches :: "8 word list \<Rightarrow> 8 word list \<Rightarrow> nat \<Rightarrow> bool" where
  "prefix_matches bytes prefix bits \<longleftrightarrow>
     (let whole = bits div 8; remainder = bits mod 8
      in if list_ex (\<lambda>i. bytes ! i \<noteq> prefix ! i) [0..<whole] then False
         else if remainder = 0 then True
         else (let mask = push_bit (8 - remainder) 0xFF in bytes ! whole AND mask = prefix ! whole AND mask))"

definition ipv6_prefixes :: "(8 word list \<times> nat) list" where
  "ipv6_prefixes =
     [([0x00], 8),
      ([0x00, 0x64, 0xff, 0x9b, 0x00, 0x00, 0x00, 0x00, 0x00, 0x00, 0x00, 0x00], 96),
      ([0x01, 0x00, 0x00, 0x00, 0x00, 0x00, 0x00, 0x00], 64),
      ([0x20, 0x01, 0x00], 23),
      ([0x20, 0x01, 0x0d, 0xb8], 32),
      ([0x20, 0x02], 16),
      ([0x3f, 0xff, 0x00], 20),
      ([0xfc], 7),
      ([0xfe, 0x80], 10),
      ([0xff], 8)]"

definition ipv6_special_use :: "8 word list \<Rightarrow> bool" where
  "ipv6_special_use bytes \<longleftrightarrow> list_ex (\<lambda>(prefix, bits). prefix_matches bytes prefix bits) ipv6_prefixes"

definition is_special_use_ip_address :: "runtime \<Rightarrow> string \<Rightarrow> bool" where
  "is_special_use_ip_address rt address \<longleftrightarrow>
     (let version = rt_is_ip rt (strip_brackets address)
      in if version = 4 then
           (case parse_ipv4 address of None \<Rightarrow> True | Some bs \<Rightarrow> ipv4_special_use bs)
         else if version = 6 then
           (case parse_ipv6 rt address of None \<Rightarrow> True | Some bs \<Rightarrow> ipv6_special_use bs)
         else True)"

section \<open>A DNS result\<close>

datatype resolution_error =
    EmptyResolution | TooManyAddresses | InvalidAddress string | SpecialUseAddress string

fun check_addresses :: "runtime \<Rightarrow> string list \<Rightarrow> string list \<Rightarrow> resolution_error + string list" where
  "check_addresses rt [] unique = Inr unique"
| "check_addresses rt (raw # raws) unique =
     (let address = strip_brackets raw
      in if rt_is_ip rt address = 0 then Inl (InvalidAddress raw)
         else if is_special_use_ip_address rt address then Inl (SpecialUseAddress raw)
         else check_addresses rt raws (if address \<in> set unique then unique else unique @ [address]))"

definition validate_cimd_resolved_addresses :: "runtime \<Rightarrow> string list \<Rightarrow> resolution_error + string list" where
  "validate_cimd_resolved_addresses rt addresses =
     (if length addresses = 0 then Inl EmptyResolution
      else if length addresses > 16 then Inl TooManyAddresses
      else check_addresses rt addresses [])"

section \<open>The ranges as address blocks\<close>

text \<open>
  The reference: an IPv4 address as a number and the blocks of the special-purpose registry, each a base
  address and a prefix length; an IPv6 prefix as its leading bits.
\<close>

definition ipv4_value :: "nat list \<Rightarrow> nat" where
  "ipv4_value bs = ((bs ! 0 * 256 + bs ! 1) * 256 + bs ! 2) * 256 + bs ! 3"

definition in_block :: "nat \<Rightarrow> nat list \<times> nat \<Rightarrow> bool" where
  "in_block v block \<longleftrightarrow> v div 2 ^ (32 - snd block) = ipv4_value (fst block) div 2 ^ (32 - snd block)"

definition ipv4_blocks :: "(nat list \<times> nat) list" where
  "ipv4_blocks =
     [([0, 0, 0, 0], 8), ([10, 0, 0, 0], 8), ([127, 0, 0, 0], 8), ([100, 64, 0, 0], 10), ([169, 254, 0, 0], 16),
      ([172, 16, 0, 0], 12), ([192, 0, 0, 0], 24), ([192, 0, 2, 0], 24), ([192, 88, 99, 0], 24),
      ([192, 168, 0, 0], 16), ([198, 18, 0, 0], 15), ([198, 51, 100, 0], 24), ([203, 0, 113, 0], 24),
      ([224, 0, 0, 0], 4), ([240, 0, 0, 0], 4)]"

definition address_bit :: "8 word list \<Rightarrow> nat \<Rightarrow> bool" where
  "address_bit bs i \<longleftrightarrow> bit (bs ! (i div 8)) (7 - i mod 8)"

lemma div_digit:
  "r < 256 \<Longrightarrow> (x * 256 + r) div (256 * k) = x div (k::nat)"
  by (simp add: div_mult2_eq)

lemma ipv4_value_div:
  assumes "b < 256" "c < 256" "d < 256"
  shows "ipv4_value [a, b, c, d] div 2 ^ 28 = a div 16" and "ipv4_value [a, b, c, d] div 2 ^ 24 = a"
    and "ipv4_value [a, b, c, d] div 2 ^ 22 = (a * 256 + b) div 64"
    and "ipv4_value [a, b, c, d] div 2 ^ 20 = (a * 256 + b) div 16"
    and "ipv4_value [a, b, c, d] div 2 ^ 17 = (a * 256 + b) div 2"
    and "ipv4_value [a, b, c, d] div 2 ^ 16 = a * 256 + b"
    and "ipv4_value [a, b, c, d] div 2 ^ 8 = (a * 256 + b) * 256 + c"
proof -
  have v: "ipv4_value [a, b, c, d] = ((a * 256 + b) * 256 + c) * 256 + d" by (simp add: ipv4_value_def)
  have d16: "v div (256 * k) = w div k" if "v = w * 256 + r" "r < 256" for v w r k :: nat
    using that div_digit by simp
  have two: "ipv4_value [a, b, c, d] div (256 * (256 * k)) = (a * 256 + b) div k" for k
    using d16 [OF v assms(3), of "256 * k"] d16 [OF refl assms(2), of "a * 256 + b" k] by simp
  have three: "ipv4_value [a, b, c, d] div (256 * (256 * (256 * k))) = a div k" for k
    using two [of "256 * k"] d16 [OF refl assms(1), of a k] by simp
  show "ipv4_value [a, b, c, d] div 2 ^ 28 = a div 16" using three [of 16] by simp
  show "ipv4_value [a, b, c, d] div 2 ^ 24 = a" using three [of 1] by simp
  show "ipv4_value [a, b, c, d] div 2 ^ 22 = (a * 256 + b) div 64" using two [of 64] by simp
  show "ipv4_value [a, b, c, d] div 2 ^ 20 = (a * 256 + b) div 16" using two [of 16] by simp
  show "ipv4_value [a, b, c, d] div 2 ^ 17 = (a * 256 + b) div 2" using two [of 2] by simp
  show "ipv4_value [a, b, c, d] div 2 ^ 16 = a * 256 + b" using two [of 1] by simp
  show "ipv4_value [a, b, c, d] div 2 ^ 8 = (a * 256 + b) * 256 + c" using d16 [OF v assms(3), of 1] by simp
qed

lemma div_range: "x div numeral k = (numeral q :: nat) \<longleftrightarrow> numeral q * numeral k \<le> x \<and> x < (numeral q + 1) * numeral k"
proof -
  have "x div numeral k = numeral q \<longleftrightarrow> numeral q \<le> x div numeral k \<and> x div numeral k < numeral q + 1" by linarith
  then show ?thesis by (simp add: less_eq_div_iff_mult_less_eq div_less_iff_less_mult)
qed

lemma pack_range:
  assumes "b < (256::nat)" and "hi \<le> 256"
  shows "A * 256 + lo \<le> a * 256 + b \<and> a * 256 + b < A * 256 + hi \<longleftrightarrow> a = A \<and> lo \<le> b \<and> b < hi"
proof
  assume r: "A * 256 + lo \<le> a * 256 + b \<and> a * 256 + b < A * 256 + hi"
  then have "a = A" using assms by linarith
  with r show "a = A \<and> lo \<le> b \<and> b < hi" by simp
qed simp

lemma pack_eq: "b < (256::nat) \<Longrightarrow> B < 256 \<Longrightarrow> a * 256 + b = A * 256 + B \<longleftrightarrow> a = A \<and> b = B"
  using pack_range [of b "Suc B" A B a] by auto

lemma pack_eq3:
  "b < (256::nat) \<Longrightarrow> c < 256 \<Longrightarrow> B < 256 \<Longrightarrow> C < 256 \<Longrightarrow>
     (a * 256 + b) * 256 + c = (A * 256 + B) * 256 + C \<longleftrightarrow> a = A \<and> b = B \<and> c = C"
  by (simp only: pack_eq) auto

lemma ipv4_special_use_blocks:
  assumes "a < 256" "b < 256" "c < 256" "d < 256"
  shows "ipv4_special_use [a, b, c, d] \<longleftrightarrow> (\<exists>block \<in> set ipv4_blocks. in_block (ipv4_value [a, b, c, d]) block)"
proof -
  have "(\<exists>block \<in> set ipv4_blocks. in_block (ipv4_value [a, b, c, d]) block) \<longleftrightarrow>
      a = 0 \<or> a = 10 \<or> a = 127 \<or> (a * 256 + b) div 64 = 401 \<or> a * 256 + b = 43518 \<or> (a * 256 + b) div 16 = 2753
      \<or> (a * 256 + b) * 256 + c = 12582912 \<or> (a * 256 + b) * 256 + c = 12582914 \<or> (a * 256 + b) * 256 + c = 12605539
      \<or> a * 256 + b = 49320 \<or> (a * 256 + b) div 2 = 25353 \<or> (a * 256 + b) * 256 + c = 12989284
      \<or> (a * 256 + b) * 256 + c = 13303921 \<or> a div 16 = 14 \<or> a div 16 = 15"
    by (simp add: ipv4_blocks_def in_block_def ipv4_value_div [OF assms(2-4), simplified] ipv4_value_div [simplified])
  moreover have "(a * 256 + b) div 64 = 401 \<longleftrightarrow> a = 100 \<and> 64 \<le> b \<and> b \<le> 127"
    using pack_range [OF assms(2), of 128 100 64 a] by (auto simp: div_range)
  moreover have "(a * 256 + b) div 16 = 2753 \<longleftrightarrow> a = 172 \<and> 16 \<le> b \<and> b \<le> 31"
    using pack_range [OF assms(2), of 32 172 16 a] by (auto simp: div_range)
  moreover have "(a * 256 + b) div 2 = 25353 \<longleftrightarrow> a = 198 \<and> (b = 18 \<or> b = 19)"
    using pack_range [OF assms(2), of 20 198 18 a] by (auto simp: div_range)
  moreover have "a * 256 + b = 43518 \<longleftrightarrow> a = 169 \<and> b = 254" "a * 256 + b = 49320 \<longleftrightarrow> a = 192 \<and> b = 168"
    using pack_eq [OF assms(2), of 254 a 169] pack_eq [OF assms(2), of 168 a 192] by simp_all
  moreover have "(a * 256 + b) * 256 + c = 12582912 \<longleftrightarrow> a = 192 \<and> b = 0 \<and> c = 0"
    "(a * 256 + b) * 256 + c = 12582914 \<longleftrightarrow> a = 192 \<and> b = 0 \<and> c = 2"
    "(a * 256 + b) * 256 + c = 12605539 \<longleftrightarrow> a = 192 \<and> b = 88 \<and> c = 99"
    "(a * 256 + b) * 256 + c = 12989284 \<longleftrightarrow> a = 198 \<and> b = 51 \<and> c = 100"
    "(a * 256 + b) * 256 + c = 13303921 \<longleftrightarrow> a = 203 \<and> b = 0 \<and> c = 113"
    using pack_eq3 [OF assms(2,3), of 0 0 a 192] pack_eq3 [OF assms(2,3), of 0 2 a 192]
      pack_eq3 [OF assms(2,3), of 88 99 a 192] pack_eq3 [OF assms(2,3), of 51 100 a 198]
      pack_eq3 [OF assms(2,3), of 0 113 a 203] by simp_all
  moreover have "a div 16 = 14 \<or> a div 16 = 15 \<longleftrightarrow> 224 \<le> a"
    using assms(1) by (auto simp: div_range)
  ultimately show ?thesis by (simp add: ipv4_special_use_def Let_def)
qed

lemma mask_eq_iff:
  fixes x y :: "8 word"
  assumes "r < 8"
  shows "x AND push_bit (8 - r) 0xFF = y AND push_bit (8 - r) 0xFF \<longleftrightarrow> (\<forall>j < r. bit x (7 - j) = bit y (7 - j))"
proof -
  have ones: "bit (0xFF :: 8 word) n \<longleftrightarrow> n < 8" for n
  proof -
    have "(0xFF :: 8 word) = mask 8" by (simp add: mask_eq_exp_minus_1)
    then show ?thesis by (simp only: bit_mask_iff) (simp add: conj_commute)
  qed
  have shifted: "bit (push_bit (8 - r) 0xFF :: 8 word) n \<longleftrightarrow> 8 - r \<le> n \<and> n < 8" for n
    by (auto simp only: bit_push_bit_iff ones possible_bit_word) simp_all
  have "x AND push_bit (8 - r) 0xFF = y AND push_bit (8 - r) 0xFF \<longleftrightarrow>
      (\<forall>n < 8. (bit x n \<and> bit (push_bit (8 - r) 0xFF :: 8 word) n) = (bit y n \<and> bit (push_bit (8 - r) 0xFF :: 8 word) n))"
    unfolding bit_eq_iff [of "x AND _"] by (simp add: bit_and_iff)
  also have "\<dots> \<longleftrightarrow> (\<forall>n < 8. 8 - r \<le> n \<longrightarrow> bit x n = bit y n)"
    unfolding shifted by auto
  finally have "x AND push_bit (8 - r) 0xFF = y AND push_bit (8 - r) 0xFF \<longleftrightarrow> (\<forall>n < 8. 8 - r \<le> n \<longrightarrow> bit x n = bit y n)" .
  also have "\<dots> \<longleftrightarrow> (\<forall>j < r. bit x (7 - j) = bit y (7 - j))"
  proof (safe)
    fix j assume "\<forall>n < 8. 8 - r \<le> n \<longrightarrow> bit x n = bit y n" "j < r"
    then show "bit x (7 - j) \<Longrightarrow> bit y (7 - j)" "bit y (7 - j) \<Longrightarrow> bit x (7 - j)" by auto
  next
    fix n assume a: "\<forall>j < r. bit x (7 - j) = bit y (7 - j)" "n < 8" "8 - r \<le> n"
    then have "bit x (7 - (7 - n)) = bit y (7 - (7 - n))" using assms by (intro mp [OF spec [OF a(1)]]) linarith
    with a(2) show "bit x n \<Longrightarrow> bit y n" "bit y n \<Longrightarrow> bit x n" by simp_all
  qed
  finally show ?thesis .
qed

lemma byte_eq_iff: "x = y \<longleftrightarrow> (\<forall>j < 8. bit x (7 - j) = bit y (7 - j))" for x y :: "8 word"
proof -
  have "x = y \<longleftrightarrow> (\<forall>n < 8. bit x n = bit y n)" by (auto simp: bit_eq_iff)
  also have "\<dots> \<longleftrightarrow> (\<forall>j < 8. bit x (7 - j) = bit y (7 - j))"
  proof (safe)
    fix n assume a: "\<forall>j < 8. bit x (7 - j) = bit y (7 - j)" "n < (8::nat)"
    then have "bit x (7 - (7 - n)) = bit y (7 - (7 - n))" by (intro mp [OF spec [OF a(1)]]) linarith
    with a(2) show "bit x n \<Longrightarrow> bit y n" "bit y n \<Longrightarrow> bit x n" by simp_all
  qed auto
  finally show ?thesis .
qed

lemma all_less_split: "(\<forall>i < 8 * w + r. P i) \<longleftrightarrow> (\<forall>k < w. \<forall>j < 8. P (8 * k + j)) \<and> (\<forall>j < r. P (8 * w + j))"
  for P :: "nat \<Rightarrow> bool"
proof safe
  fix i assume a: "\<forall>k < w. \<forall>j < 8. P (8 * k + j)" "\<forall>j < r. P (8 * w + j)" "i < 8 * w + r"
  show "P i"
  proof (cases "i < 8 * w")
    case True
    then have "i div 8 < w" "i mod 8 < 8" by auto
    with a(1) have "P (8 * (i div 8) + i mod 8)" by blast
    then show ?thesis by simp
  next
    case False
    with a(3) have "i - 8 * w < r" "8 * w + (i - 8 * w) = i" by linarith+
    with a(2) show ?thesis by metis
  qed
qed auto

lemma prefix_matches_bits:
  "prefix_matches bytes prefix bits \<longleftrightarrow> (\<forall>i < bits. address_bit bytes i = address_bit prefix i)"
proof -
  define w r where "w = bits div 8" and "r = bits mod 8"
  have bits: "bits = 8 * w + r" and r: "r < 8" by (simp_all add: w_def r_def)
  have abit: "address_bit bs (8 * k + j) = bit (bs ! k) (7 - j)" if "j < 8" for bs k j
    using that by (simp add: address_bit_def)
  have "prefix_matches bytes prefix bits \<longleftrightarrow> (\<forall>k < w. bytes ! k = prefix ! k)
      \<and> (r = 0 \<or> bytes ! w AND push_bit (8 - r) 0xFF = prefix ! w AND push_bit (8 - r) 0xFF)"
    by (auto simp: prefix_matches_def Let_def list_ex_iff w_def r_def)
  also have "\<dots> \<longleftrightarrow> (\<forall>k < w. \<forall>j < 8. address_bit bytes (8 * k + j) = address_bit prefix (8 * k + j))
      \<and> (\<forall>j < r. address_bit bytes (8 * w + j) = address_bit prefix (8 * w + j))"
    unfolding mask_eq_iff [OF r] unfolding byte_eq_iff using r by (auto simp: abit)
  also have "\<dots> \<longleftrightarrow> (\<forall>i < bits. address_bit bytes i = address_bit prefix i)"
    unfolding bits by (rule all_less_split [symmetric])
  finally show ?thesis .
qed

lemma check_addresses_Inr:
  assumes "check_addresses rt raws unique = Inr as" and "distinct unique"
  shows "set as = set unique \<union> set (map strip_brackets raws) \<and> distinct as
    \<and> (\<forall>raw \<in> set raws. rt_is_ip rt (strip_brackets raw) \<noteq> 0 \<and> \<not> is_special_use_ip_address rt (strip_brackets raw))"
  using assms
proof (induction raws arbitrary: unique)
  case (Cons raw raws)
  let ?next = "if strip_brackets raw \<in> set unique then unique else unique @ [strip_brackets raw]"
  from Cons.prems have ok: "rt_is_ip rt (strip_brackets raw) \<noteq> 0" "\<not> is_special_use_ip_address rt (strip_brackets raw)"
    and rest: "check_addresses rt raws ?next = Inr as"
    by (simp_all add: Let_def split: if_split_asm)
  have "distinct ?next" "set ?next = insert (strip_brackets raw) (set unique)" using Cons.prems(2) by auto
  with Cons.IH [OF rest] ok show ?case by simp
qed simp

section \<open>Properties\<close>

text \<open>
  The address tests are the special-purpose registry. On the bytes of an IPv4 address the chain of
  comparisons says exactly that the address, as a number, lies in one of the fifteen listed blocks; an
  IPv6 address is special exactly when its leading bits are those of one of the ten listed prefixes.
\<close>

theorem special_use_ranges:
  assumes "a < 256" and "b < 256" and "c < 256" and "d < 256"
  shows "(ipv4_special_use [a, b, c, d] \<longleftrightarrow> (\<exists>block \<in> set ipv4_blocks. in_block (ipv4_value [a, b, c, d]) block))
     \<and> (ipv6_special_use bytes \<longleftrightarrow>
          (\<exists>(prefix, bits) \<in> set ipv6_prefixes. \<forall>i < bits. address_bit bytes i = address_bit prefix i))"
  using ipv4_special_use_blocks [OF assms] by (auto simp: ipv6_special_use_def list_ex_iff prefix_matches_bits)

theorem special_use_ranges_witness:
  "\<exists>block \<in> set ipv4_blocks. in_block (ipv4_value [100, 127, 255, 255]) block"
proof -
  have "ipv4_special_use [100, 127, 255, 255]" by code_simp
  then show ?thesis using special_use_ranges [of 100 127 255 255] by simp
qed

text \<open>
  A DNS result is usable only as a whole: when it is accepted, it had between one and sixteen
  addresses, every one of them is an IP address outside the special-use ranges, and the result is those
  addresses without brackets, each once.
\<close>

theorem resolved_addresses_all_public:
  assumes "validate_cimd_resolved_addresses rt addresses = Inr as"
  shows "1 \<le> length addresses \<and> length addresses \<le> 16 \<and> distinct as \<and> set as = strip_brackets ` set addresses
     \<and> (\<forall>a \<in> set as. rt_is_ip rt a \<noteq> 0 \<and> \<not> is_special_use_ip_address rt a)"
proof -
  from assms have len: "1 \<le> length addresses" "length addresses \<le> 16" and check: "check_addresses rt addresses [] = Inr as"
    by (auto simp: validate_cimd_resolved_addresses_def not_less Suc_le_eq split: if_splits)
  from check_addresses_Inr [OF check] len show ?thesis by simp
qed

definition ip_runtime :: runtime where
  "ip_runtime = null_runtime\<lparr>rt_is_ip := (\<lambda>s. if s = ''8.8.8.8'' then 4 else 0)\<rparr>"

theorem resolved_addresses_all_public_witness:
  "\<not> is_special_use_ip_address ip_runtime ''8.8.8.8''"
proof -
  have "validate_cimd_resolved_addresses ip_runtime [''[8.8.8.8]'', ''8.8.8.8''] = Inr [''8.8.8.8'']"
    by code_simp
  from resolved_addresses_all_public [OF this] show ?thesis by simp
qed

end
