(* ===== verification/Cimd.thy ===== *)
theory Cimd
  imports CimdNetwork OAuthValidation
begin

text \<open>
  Client ID metadata documents: the URL that is a client's identifier
  (\<open>gateway/src/oauth-cimd-client-id.ts\<close>), the document it points to (\<open>oauth-cimd-document.ts\<close>), fetching it
  from a checked address (\<open>oauth-cimd-discovery.ts\<close>) and the policy an authorization request is judged by
  (\<open>oauth-cimd-policy.ts\<close>). The DNS resolver and the pinned transport are arguments.
\<close>

section \<open>The client identifier\<close>

definition MAX_CIMD_CLIENT_ID_BYTES :: nat where "MAX_CIMD_CLIENT_ID_BYTES = 2048"

record cimd_client_id =
  ci_value :: string
  ci_hostname :: string
  ci_port :: "string option"

datatype client_id_error =
    InvalidUrl | TooLarge | HttpsRequired | UserinfoForbidden | QueryForbidden | FragmentForbidden
  | PathRequired | RootPathForbidden | DotSegmentForbidden | LocalhostForbidden | SpecialUseIp

text \<open>\<open>value.indexOf(pattern, from)\<close>.\<close>

fun find_at :: "string \<Rightarrow> string \<Rightarrow> nat option" where
  "find_at p [] = (if p = [] then Some 0 else None)"
| "find_at p (c # s) = (if starts_with (c # s) p then Some 0 else map_option Suc (find_at p s))"

definition index_from :: "string \<Rightarrow> string \<Rightarrow> nat \<Rightarrow> nat option" where
  "index_from p s start = map_option (\<lambda>i. start + i) (find_at p (drop start s))"

definition raw_path :: "string \<Rightarrow> string option" where
  "raw_path value =
     (case find_at ''://'' value of
        None \<Rightarrow> None
      | Some scheme \<Rightarrow>
          (let authority_start = scheme + 3;
               end0 = length value;
               end1 = (case index_from ''?'' value authority_start of None \<Rightarrow> end0 | Some i \<Rightarrow> min end0 i);
               end2 = (case index_from ''#'' value authority_start of None \<Rightarrow> end1 | Some i \<Rightarrow> min end1 i)
           in case index_from ''/'' value authority_start of
                None \<Rightarrow> None
              | Some slash \<Rightarrow> if slash \<ge> end2 then None else Some (drop slash (take end2 value))))"

fun segments_have_dot :: "runtime \<Rightarrow> string list \<Rightarrow> bool" where
  "segments_have_dot rt [] = False"
| "segments_have_dot rt (segment # segments) =
     (if segment = [] then segments_have_dot rt segments
      else (case rt_decode_uri rt segment of
              None \<Rightarrow> True
            | Some decoded \<Rightarrow> if decoded = ''.'' \<or> decoded = ''..'' then True else segments_have_dot rt segments))"

definition has_dot_segment :: "runtime \<Rightarrow> string \<Rightarrow> bool" where
  "has_dot_segment rt path = segments_have_dot rt (split_on (CHR ''/'') path)"

definition bare_hostname :: "string \<Rightarrow> string" where
  "bare_hostname h =
     (let h1 = (if starts_with h ''['' then drop 1 h else h);
          h2 = (if ends_with h1 '']'' then butlast h1 else h1)
      in to_lower h2)"

definition validate_cimd_client_id :: "runtime \<Rightarrow> string \<Rightarrow> client_id_error + cimd_client_id" where
  "validate_cimd_client_id rt value =
     (if length value = 0 \<or> value \<noteq> trim value \<or> CHR 0x5C \<in> set value \<or> \<not> rx_plus is_visible value
        then Inl InvalidUrl
      else if byte_length value > MAX_CIMD_CLIENT_ID_BYTES then Inl TooLarge
      else case rt_url rt value of
        None \<Rightarrow> Inl InvalidUrl
      | Some url \<Rightarrow>
          if u_protocol url \<noteq> ''https:'' then Inl HttpsRequired
          else if u_username url \<noteq> [] \<or> u_password url \<noteq> [] then Inl UserinfoForbidden
          else if u_search url \<noteq> [] then Inl QueryForbidden
          else if u_hash url \<noteq> [] then Inl FragmentForbidden
          else (case raw_path value of
            None \<Rightarrow> Inl PathRequired
          | Some path \<Rightarrow>
              if path = [] then Inl PathRequired
              else if path = ''/'' then Inl RootPathForbidden
              else if has_dot_segment rt path then Inl DotSegmentForbidden
              else (let hostname = bare_hostname (u_hostname url)
                    in if hostname = ''localhost'' \<or> ends_with hostname ''.localhost'' then Inl LocalhostForbidden
                       else if rt_is_ip rt hostname \<noteq> 0 \<and> is_special_use_ip_address rt hostname
                         then Inl SpecialUseIp
                       else Inr \<lparr>ci_value = value, ci_hostname = hostname,
                                  ci_port = truthy (Some (u_port url))\<rparr>)))"

section \<open>The metadata document\<close>

definition MAX_CIMD_DOCUMENT_BYTES :: nat where "MAX_CIMD_DOCUMENT_BYTES = 5 * 1024"
definition MAX_CIMD_REDIRECT_URIS :: nat where "MAX_CIMD_REDIRECT_URIS = 16"
definition MAX_CLIENT_NAME_BYTES :: nat where "MAX_CLIENT_NAME_BYTES = 256"
definition MAX_REDIRECT_URI_BYTES :: nat where "MAX_REDIRECT_URI_BYTES = 2048"

record cimd_document =
  cd_client_id :: string
  cd_client_name :: string
  cd_redirect_uris :: "string list"
  cd_auth_method :: string

datatype document_error =
    DocumentTooLarge | InvalidJson | InvalidDocument | ClientIdMismatch | InvalidClientName
  | InvalidRedirectUris | UnsupportedClientAuthentication | ClientSecretForbidden
  | UnsupportedGrantType | UnsupportedDocumentResponseType

definition string_array :: "json option \<Rightarrow> string list option" where
  "string_array v =
     (if \<not> is_array v \<or> arr_of v = [] \<or> list_ex (\<lambda>e. \<not> is_string (Some e)) (arr_of v) then None
      else Some (map (\<lambda>e. str_of (Some e)) (arr_of v)))"

definition valid_client_name :: "json option \<Rightarrow> bool" where
  "valid_client_name v \<longleftrightarrow>
     is_string v \<and> length (str_of v) > 0 \<and> str_of v = trim (str_of v)
     \<and> byte_length (str_of v) \<le> MAX_CLIENT_NAME_BYTES
     \<and> \<not> list_ex (\<lambda>c. unit_of c \<le> 31 \<or> unit_of c = 127) (str_of v)"

definition valid_redirect_uri :: "runtime \<Rightarrow> string \<Rightarrow> bool" where
  "valid_redirect_uri rt value \<longleftrightarrow>
     (if length value = 0 \<or> value \<noteq> trim value \<or> byte_length value > MAX_REDIRECT_URI_BYTES then False
      else case rt_url rt value of
        None \<Rightarrow> False
      | Some u \<Rightarrow> u_protocol u = ''https:'' \<and> u_username u = [] \<and> u_password u = [] \<and> u_hash u = [])"

definition names_value :: "json \<Rightarrow> string \<Rightarrow> string \<Rightarrow> bool" where
  "names_value document key wanted \<longleftrightarrow>
     field document key = None
     \<or> (case string_array (field document key) of None \<Rightarrow> False | Some vs \<Rightarrow> wanted \<in> set vs)"

definition validate_cimd_document :: "runtime \<Rightarrow> string \<Rightarrow> string \<Rightarrow> document_error + cimd_document" where
  "validate_cimd_document rt client_url raw =
     (if byte_length raw > MAX_CIMD_DOCUMENT_BYTES then Inl DocumentTooLarge
      else (case validate_cimd_client_id rt client_url of
        Inl e \<Rightarrow> Inl InvalidDocument
      | Inr client_id \<Rightarrow>
      (case rt_json_parse rt raw of
         None \<Rightarrow> Inl InvalidJson
       | Some document \<Rightarrow>
           if \<not> is_record document then Inl InvalidDocument
           else if field document ''client_id'' \<noteq> Some (JStr client_url) then Inl ClientIdMismatch
           else if \<not> valid_client_name (field document ''client_name'') then Inl InvalidClientName
           else (case string_array (field document ''redirect_uris'') of
             None \<Rightarrow> Inl InvalidRedirectUris
           | Some uris \<Rightarrow>
               if length uris > MAX_CIMD_REDIRECT_URIS \<or> length (remdups uris) \<noteq> length uris
                  \<or> list_ex (\<lambda>uri. \<not> valid_redirect_uri rt uri) uris
                 then Inl InvalidRedirectUris
               else if field document ''client_secret'' \<noteq> None
                       \<or> field document ''client_secret_expires_at'' \<noteq> None
                 then Inl ClientSecretForbidden
               else if field document ''token_endpoint_auth_method'' \<noteq> Some (JStr ''none'')
                 then Inl UnsupportedClientAuthentication
               else if \<not> names_value document ''grant_types'' ''authorization_code'' then Inl UnsupportedGrantType
               else if \<not> names_value document ''response_types'' ''code''
                 then Inl UnsupportedDocumentResponseType
               else Inr \<lparr>cd_client_id = client_url, cd_client_name = str_of (field document ''client_name''),
                          cd_redirect_uris = uris, cd_auth_method = ''none''\<rparr>))))"

section \<open>Discovery\<close>

definition DEFAULT_CIMD_FETCH_TIMEOUT_MS :: int where "DEFAULT_CIMD_FETCH_TIMEOUT_MS = 3000"

record pinned_request =
  pf_url :: string
  pf_allowed_addresses :: "string list"
  pf_max_bytes :: nat
  pf_timeout_ms :: int

record pinned_response =
  pf_status :: int
  pf_content_type :: "string option"
  pf_body :: string
  pf_peer_address :: string

text \<open>The two services, \<open>None\<close> where the promise is rejected, and the optional timeout; a timeout that is
  no integer is \<open>Some None\<close>.\<close>

record cimd_discovery =
  dd_resolve :: "string \<Rightarrow> string list option"
  dd_fetch_pinned :: "pinned_request \<Rightarrow> pinned_response option"
  dd_timeout_ms :: "int option option"

record discovered_client =
  dc_identifier :: cimd_client_id
  dc_metadata :: cimd_document

datatype discovery_error =
    InvalidClientId | ResolutionFailed | UnsafeResolution | FetchFailed | PeerMismatch | HttpStatus
  | InvalidContentType | DiscoveryInvalidDocument

definition json_media_type :: "string option \<Rightarrow> bool" where
  "json_media_type value \<longleftrightarrow>
     (case truthy value of
        None \<Rightarrow> False
      | Some v \<Rightarrow>
          (let media_type = to_lower (trim (hd (split_on (CHR '';'') v)))
           in media_type = ''application/json''
              \<or> (starts_with media_type ''application/'' \<and> ends_with media_type ''+json'')))"

definition discover_cimd_client :: "runtime \<Rightarrow> string \<Rightarrow> cimd_discovery \<Rightarrow> discovery_error + discovered_client" where
  "discover_cimd_client rt client_url deps =
     (case validate_cimd_client_id rt client_url of
        Inl e \<Rightarrow> Inl InvalidClientId
      | Inr identifier \<Rightarrow>
      (case (if rt_is_ip rt (ci_hostname identifier) \<noteq> 0 then Some [ci_hostname identifier]
             else dd_resolve deps (ci_hostname identifier)) of
         None \<Rightarrow> Inl ResolutionFailed
       | Some addresses \<Rightarrow>
      (case validate_cimd_resolved_addresses rt addresses of
         Inl e \<Rightarrow> Inl UnsafeResolution
       | Inr safe \<Rightarrow>
      (let timeout = (case dd_timeout_ms deps of None \<Rightarrow> Some DEFAULT_CIMD_FETCH_TIMEOUT_MS | Some t \<Rightarrow> t)
       in if timeout = None \<or> the timeout < 100 \<or> the timeout > 10000 then Inl FetchFailed
          else (case dd_fetch_pinned deps \<lparr>pf_url = ci_value identifier, pf_allowed_addresses = safe,
                        pf_max_bytes = MAX_CIMD_DOCUMENT_BYTES, pf_timeout_ms = the timeout\<rparr> of
            None \<Rightarrow> Inl FetchFailed
          | Some response \<Rightarrow>
              if strip_brackets (pf_peer_address response) \<notin> set safe then Inl PeerMismatch
              else if pf_status response \<noteq> 200 then Inl HttpStatus
              else if \<not> json_media_type (pf_content_type response) then Inl InvalidContentType
              else (case validate_cimd_document rt (ci_value identifier) (pf_body response) of
                Inl e \<Rightarrow> Inl DiscoveryInvalidDocument
              | Inr metadata \<Rightarrow> Inr \<lparr>dc_identifier = identifier, dc_metadata = metadata\<rparr>))))))"

section \<open>The policy of an authorization request\<close>

definition CIMD_DYNAMIC_SCOPES :: "string list" where
  "CIMD_DYNAMIC_SCOPES = [''capability.read'']"

datatype policy_source = PreRegistered | FromCimd

record resolved_policy =
  rp_source :: policy_source
  rp_policy :: oauth_client_policy
  rp_client_name :: "string option"

record policy_failure =
  pl_error :: string
  pl_description :: string
  pl_status :: nat

definition static_policy_matches :: "oauth_client_policy option \<Rightarrow> string \<Rightarrow> bool" where
  "static_policy_matches policy client_id \<longleftrightarrow>
     (case policy of None \<Rightarrow> False | Some p \<Rightarrow> pc_client_id p = client_id)"

definition discovery_unavailable :: "discovery_error \<Rightarrow> bool" where
  "discovery_unavailable e \<longleftrightarrow> e = ResolutionFailed \<or> e = FetchFailed"

definition resolve_client_policy ::
  "runtime \<Rightarrow> url \<Rightarrow> string \<Rightarrow> oauth_client_policy option \<Rightarrow> cimd_discovery option \<Rightarrow> policy_failure + resolved_policy" where
  "resolve_client_policy rt url public_origin static cimd =
     (case exact_single_value (u_params url) ''client_id'' of
        None \<Rightarrow> Inl \<lparr>pl_error = ''invalid_request'',
          pl_description = ''authorization request must contain exactly one non-empty client_id'', pl_status = 400\<rparr>
      | Some client_id \<Rightarrow>
      if client_id = ''duplicate'' \<or> length client_id = 0
        then Inl \<lparr>pl_error = ''invalid_request'',
          pl_description = ''authorization request must contain exactly one non-empty client_id'', pl_status = 400\<rparr>
      else (case exact_single_value (u_params url) ''redirect_uri'' of
        None \<Rightarrow> Inl \<lparr>pl_error = ''invalid_request'',
          pl_description = ''authorization request must contain exactly one non-empty redirect_uri'', pl_status = 400\<rparr>
      | Some redirect_uri \<Rightarrow>
      if redirect_uri = ''duplicate'' \<or> length redirect_uri = 0
        then Inl \<lparr>pl_error = ''invalid_request'',
          pl_description = ''authorization request must contain exactly one non-empty redirect_uri'', pl_status = 400\<rparr>
      else if static_policy_matches static client_id
        then Inr \<lparr>rp_source = PreRegistered, rp_policy = the static, rp_client_name = None\<rparr>
      else (case cimd of
        None \<Rightarrow> Inl \<lparr>pl_error = ''unauthorized_client'',
          pl_description = ''client_id is not pre-registered and CIMD discovery is not configured'', pl_status = 400\<rparr>
      | Some deps \<Rightarrow>
      (case discover_cimd_client rt client_id deps of
         Inl e \<Rightarrow>
           if discovery_unavailable e
             then Inl \<lparr>pl_error = ''cimd_discovery_unavailable'',
               pl_description = ''client metadata could not be retrieved safely'', pl_status = 503\<rparr>
           else Inl \<lparr>pl_error = ''unauthorized_client'',
               pl_description = ''client metadata is invalid or does not satisfy server policy'', pl_status = 400\<rparr>
       | Inr discovered \<Rightarrow>
           if redirect_uri \<notin> set (cd_redirect_uris (dc_metadata discovered))
             then Inl \<lparr>pl_error = ''invalid_redirect_uri'',
               pl_description = ''redirect_uri does not exactly match a CIMD-registered URI'', pl_status = 400\<rparr>
           else Inr \<lparr>rp_source = FromCimd,
                      rp_policy = \<lparr>pc_client_id = client_id, pc_redirect_uri = redirect_uri,
                                   pc_resource = public_origin @ ''/mcp'', pc_scopes = CIMD_DYNAMIC_SCOPES\<rparr>,
                      rp_client_name = Some (cd_client_name (dc_metadata discovered))\<rparr>))))"

section \<open>Lemmas\<close>

lemma validate_cimd_client_id_InrD:
  assumes "validate_cimd_client_id rt value = Inr i"
  shows "ci_value i = value" and "value \<noteq> []" and "rx_plus is_visible value" and "byte_length value \<le> MAX_CIMD_CLIENT_ID_BYTES"
    and "\<exists>url path. rt_url rt value = Some url \<and> u_protocol url = ''https:'' \<and> u_username url = [] \<and> u_password url = []
       \<and> u_search url = [] \<and> u_hash url = [] \<and> ci_hostname i = bare_hostname (u_hostname url)
       \<and> raw_path value = Some path \<and> path \<noteq> [] \<and> path \<noteq> ''/'' \<and> \<not> has_dot_segment rt path"
    and "ci_hostname i \<noteq> ''localhost''" and "\<not> ends_with (ci_hostname i) ''.localhost''"
    and "rt_is_ip rt (ci_hostname i) \<noteq> 0 \<Longrightarrow> \<not> is_special_use_ip_address rt (ci_hostname i)"
  using assms by (auto simp: validate_cimd_client_id_def Let_def split: if_splits option.splits)

lemma string_array_Some:
  "string_array v = Some ss \<longleftrightarrow> v = Some (JArr (map JStr ss)) \<and> ss \<noteq> []"
proof
  assume "string_array v = Some ss"
  then obtain vs where v: "v = Some (JArr vs)" "vs \<noteq> []" "\<forall>e \<in> set vs. is_string (Some e)"
    and ss: "ss = map (\<lambda>e. str_of (Some e)) vs"
    by (auto simp: string_array_def list_ex_iff is_array_iff split: if_splits)
  have "map JStr ss = vs" using v(3) unfolding ss by (induction vs) (auto simp: is_string_iff)
  with v ss show "v = Some (JArr (map JStr ss)) \<and> ss \<noteq> []" by simp
qed (auto simp: string_array_def list_ex_iff comp_def)

lemma validate_cimd_document_InrD:
  assumes "validate_cimd_document rt client_url raw = Inr d"
  shows "cd_client_id d = client_url" and "cd_auth_method d = ''none''"
    and "cd_redirect_uris d \<noteq> []" and "length (cd_redirect_uris d) \<le> MAX_CIMD_REDIRECT_URIS"
    and "distinct (cd_redirect_uris d)" and "\<forall>u \<in> set (cd_redirect_uris d). valid_redirect_uri rt u"
    and "\<exists>document. rt_json_parse rt raw = Some document \<and> field document ''client_id'' = Some (JStr client_url)
       \<and> field document ''redirect_uris'' = Some (JArr (map JStr (cd_redirect_uris d)))
       \<and> field document ''client_secret'' = None \<and> field document ''token_endpoint_auth_method'' = Some (JStr ''none'')"
    and "byte_length raw \<le> MAX_CIMD_DOCUMENT_BYTES"
  using assms
  by (auto simp: validate_cimd_document_def string_array_Some length_remdups_eq list_ex_iff
      split: if_splits option.splits sum.splits)

section \<open>Properties\<close>

text \<open>
  Discovery only trusts a document fetched from a public address. When it succeeds, the transport
  was asked for exactly the client identifier, an HTTPS URL without credentials, query or fragment, with
  a list of allowed addresses that are all IP addresses outside the special-use ranges; the peer that
  answered is one of them, with status 200 and at most 5 KiB; and the document names the identifier
  itself as its client id, no client secret, and only valid HTTPS redirect URIs, at most 16, each once.
\<close>

theorem discovery_from_public_address:
  assumes "discover_cimd_client rt client_url deps = Inr found"
  shows "\<exists>req resp. dd_fetch_pinned deps req = Some resp \<and> pf_url req = client_url
     \<and> (\<forall>a \<in> set (pf_allowed_addresses req). rt_is_ip rt a \<noteq> 0 \<and> \<not> is_special_use_ip_address rt a)
     \<and> strip_brackets (pf_peer_address resp) \<in> set (pf_allowed_addresses req)
     \<and> pf_status resp = 200 \<and> byte_length (pf_body resp) \<le> 5120
     \<and> (\<exists>url. rt_url rt client_url = Some url \<and> u_protocol url = ''https:'' \<and> u_username url = []
          \<and> u_password url = [] \<and> u_search url = [] \<and> u_hash url = [])
     \<and> (\<exists>document. rt_json_parse rt (pf_body resp) = Some document
          \<and> field document ''client_id'' = Some (JStr client_url) \<and> field document ''client_secret'' = None)
     \<and> cd_client_id (dc_metadata found) = client_url
     \<and> distinct (cd_redirect_uris (dc_metadata found)) \<and> length (cd_redirect_uris (dc_metadata found)) \<le> 16
     \<and> (\<forall>u \<in> set (cd_redirect_uris (dc_metadata found)). valid_redirect_uri rt u)"
proof -
  from assms obtain i addresses safe timeout resp where
    i: "validate_cimd_client_id rt client_url = Inr i"
    and safe: "validate_cimd_resolved_addresses rt addresses = Inr safe"
    and fetch: "dd_fetch_pinned deps \<lparr>pf_url = ci_value i, pf_allowed_addresses = safe,
          pf_max_bytes = MAX_CIMD_DOCUMENT_BYTES, pf_timeout_ms = timeout\<rparr> = Some resp"
    and peer: "strip_brackets (pf_peer_address resp) \<in> set safe" and status: "pf_status resp = 200"
    and doc: "validate_cimd_document rt (ci_value i) (pf_body resp) = Inr (dc_metadata found)"
    by (auto simp: discover_cimd_client_def Let_def split: if_splits option.splits sum.splits)
  note id = validate_cimd_client_id_InrD [OF i]
  have public: "\<forall>a \<in> set safe. rt_is_ip rt a \<noteq> 0 \<and> \<not> is_special_use_ip_address rt a"
  proof -
    have "distinct ([] :: string list)" by simp
    moreover have "check_addresses rt addresses [] = Inr safe"
      using safe by (simp add: validate_cimd_resolved_addresses_def split: if_splits)
    ultimately show ?thesis using check_addresses_Inr by fastforce
  qed
  show ?thesis
    using fetch id(1,5) public peer status validate_cimd_document_InrD [OF doc]
    by (intro exI [of _ "\<lparr>pf_url = ci_value i, pf_allowed_addresses = safe,
          pf_max_bytes = MAX_CIMD_DOCUMENT_BYTES, pf_timeout_ms = timeout\<rparr>"] exI [of _ resp])
      (auto simp: MAX_CIMD_DOCUMENT_BYTES_def MAX_CIMD_REDIRECT_URIS_def)
qed

text \<open>
  Whose policy an authorization request is judged by. A resolved policy has the request's client id
  and is either the operator's pre-registered one, unchanged, or, only for a client that is not
  pre-registered, one made from the client's own discovered document: its redirect URI is the request's
  and is in the document, its resource is this gateway's, and its only scope is \<open>capability.read\<close>.
\<close>

theorem resolved_policy_sources:
  assumes "resolve_client_policy rt url public_origin static cimd = Inr rp"
  shows "get_all (u_params url) ''client_id'' = [pc_client_id (rp_policy rp)]
     \<and> (case rp_source rp of
          PreRegistered \<Rightarrow> static = Some (rp_policy rp)
        | FromCimd \<Rightarrow> (\<forall>p. static = Some p \<longrightarrow> pc_client_id p \<noteq> pc_client_id (rp_policy rp))
            \<and> get_all (u_params url) ''redirect_uri'' = [pc_redirect_uri (rp_policy rp)]
            \<and> pc_resource (rp_policy rp) = public_origin @ ''/mcp'' \<and> pc_scopes (rp_policy rp) = [''capability.read'']
            \<and> (\<exists>deps found. cimd = Some deps
                 \<and> discover_cimd_client rt (pc_client_id (rp_policy rp)) deps = Inr found
                 \<and> pc_redirect_uri (rp_policy rp) \<in> set (cd_redirect_uris (dc_metadata found))))"
proof -
  from assms obtain client_id redirect_uri where
    params: "exact_single_value (u_params url) ''client_id'' = Some client_id" "client_id \<noteq> ''duplicate''"
      "exact_single_value (u_params url) ''redirect_uri'' = Some redirect_uri" "redirect_uri \<noteq> ''duplicate''"
    by (auto simp: resolve_client_policy_def split: option.splits if_splits)
  have ids: "get_all (u_params url) ''client_id'' = [client_id]" "get_all (u_params url) ''redirect_uri'' = [redirect_uri]"
    using params exact_single_value_iff(1) [of "u_params url" "''client_id''" client_id]
      exact_single_value_iff(1) [of "u_params url" "''redirect_uri''" redirect_uri] by auto
  show ?thesis
  proof (cases "static_policy_matches static client_id")
    case True
    with assms params ids show ?thesis
      by (auto simp: resolve_client_policy_def static_policy_matches_def split: option.splits if_splits)
  next
    case False
    with assms params obtain deps found where "cimd = Some deps" "discover_cimd_client rt client_id deps = Inr found"
      "redirect_uri \<in> set (cd_redirect_uris (dc_metadata found))"
      "rp = \<lparr>rp_source = FromCimd, rp_policy = \<lparr>pc_client_id = client_id, pc_redirect_uri = redirect_uri,
               pc_resource = public_origin @ ''/mcp'', pc_scopes = CIMD_DYNAMIC_SCOPES\<rparr>,
             rp_client_name = Some (cd_client_name (dc_metadata found))\<rparr>"
      by (auto simp: resolve_client_policy_def split: option.splits if_splits sum.splits)
    with ids False show ?thesis
      by (auto simp: CIMD_DYNAMIC_SCOPES_def static_policy_matches_def split: option.splits)
  qed
qed

text \<open>A client whose document is served from a public address.\<close>

definition example_client_url :: string where
  "example_client_url = ''https://c.example/meta''"

definition example_document :: json where
  "example_document = JObj [(''client_id'', JStr example_client_url), (''client_name'', JStr ''C''),
     (''redirect_uris'', JArr [JStr ''https://c.example/cb'']), (''token_endpoint_auth_method'', JStr ''none'')]"

definition cimd_runtime :: runtime where
  "cimd_runtime = null_runtime\<lparr>rt_url := (\<lambda>s. Some (example_url s)), rt_json_parse := (\<lambda>s. Some example_document),
     rt_is_ip := (\<lambda>s. if s = ''8.8.8.8'' then 4 else 0)\<rparr>"

definition cimd_deps :: cimd_discovery where
  "cimd_deps = \<lparr>dd_resolve = (\<lambda>h. Some [''8.8.8.8'']),
     dd_fetch_pinned = (\<lambda>req. Some \<lparr>pf_status = 200, pf_content_type = Some ''application/json; charset=utf-8'',
        pf_body = ''{}'', pf_peer_address = ''8.8.8.8''\<rparr>), dd_timeout_ms = None\<rparr>"

definition cimd_found :: discovered_client where
  "cimd_found = \<lparr>dc_identifier = \<lparr>ci_value = example_client_url, ci_hostname = ''gateway.example'', ci_port = None\<rparr>,
     dc_metadata = \<lparr>cd_client_id = example_client_url, cd_client_name = ''C'',
        cd_redirect_uris = [''https://c.example/cb''], cd_auth_method = ''none''\<rparr>\<rparr>"

lemma example_discovery: "discover_cimd_client cimd_runtime example_client_url cimd_deps = Inr cimd_found"
  by code_simp

theorem discovery_from_public_address_witness:
  "\<exists>req resp. dd_fetch_pinned cimd_deps req = Some resp \<and> pf_url req = example_client_url
     \<and> strip_brackets (pf_peer_address resp) \<in> set (pf_allowed_addresses req)"
  using discovery_from_public_address [OF example_discovery] by blast

theorem resolved_policy_sources_witness:
  "\<exists>rp. resolve_client_policy cimd_runtime
       ((example_url ''/oauth/authorize'')\<lparr>u_params := [(''client_id'', example_client_url), (''redirect_uri'', ''https://c.example/cb'')]\<rparr>)
       ''https://gateway.example'' (Some example_policy) (Some cimd_deps) = Inr rp
     \<and> pc_scopes (rp_policy rp) = [''capability.read'']"
proof -
  let ?url = "(example_url ''/oauth/authorize'')\<lparr>u_params := [(''client_id'', example_client_url), (''redirect_uri'', ''https://c.example/cb'')]\<rparr>"
  have "case resolve_client_policy cimd_runtime ?url ''https://gateway.example'' (Some example_policy) (Some cimd_deps) of
      Inr rp \<Rightarrow> rp_source rp = FromCimd | Inl f \<Rightarrow> False"
    by code_simp
  then obtain rp where rp: "resolve_client_policy cimd_runtime ?url ''https://gateway.example'' (Some example_policy) (Some cimd_deps) = Inr rp"
    and "rp_source rp = FromCimd" by (auto split: sum.splits)
  with resolved_policy_sources [OF rp] show ?thesis by auto
qed

end
