(* ===== verification/OAuthApi.thy ===== *)
theory OAuthApi
  imports Access PendingStore CodeStore Cimd
begin

text \<open>
  The OAuth endpoints of the gateway: authorization (\<open>gateway/src/oauth-authorization-api.ts\<close>), the
  operator's decisions (\<open>oauth-consent-operator-api.ts\<close>) and the token exchange
  (\<open>oauth-token-api.ts\<close>). A handler is a function on the two stores: it returns the new stores and its
  answer, \<open>Inl\<close> where its promise is rejected, \<open>None\<close> where it passes the request on. What a request reads
  from its surroundings (the clock, in the order it is read; the factories of ids and codes; the
  building of the continuation URL) is in its \<open>oauth_env\<close>.
\<close>

record oauth_state =
  os_pending :: "pending_store option"
  os_codes :: "code_store option"

record oauth_env =
  oe_clock :: "nat \<Rightarrow> int option"
  oe_ids :: "string list"
  oe_codes :: "string list"
  oe_now_ms :: int
  oe_uuid :: string
  oe_continue_uri :: "string \<Rightarrow> string \<Rightarrow> string option"

record oauth_context =
  ox_runtime :: runtime
  ox_config :: gateway_config
  ox_policy :: "oauth_client_policy option"
  ox_cimd :: "cimd_discovery option"

type_synonym 'a oauth_io = "oauth_state \<Rightarrow> oauth_state \<times> (string + 'a)"

definition io_ret :: "'a \<Rightarrow> 'a oauth_io" where
  "io_ret a = (\<lambda>st. (st, Inr a))"

definition io_bind :: "'a oauth_io \<Rightarrow> ('a \<Rightarrow> 'b oauth_io) \<Rightarrow> 'b oauth_io" where
  "io_bind m f = (\<lambda>st. case m st of (st', Inl e) \<Rightarrow> (st', Inl e) | (st', Inr a) \<Rightarrow> f a st')"

definition on_pending :: "(pending_store \<Rightarrow> string + pending_store \<times> 'a) \<Rightarrow> 'a oauth_io" where
  "on_pending op st =
     (case os_pending st of
        None \<Rightarrow> (st, Inl ''TypeError'')
      | Some ps \<Rightarrow> (case op ps of Inl e \<Rightarrow> (st, Inl e) | Inr (ps', a) \<Rightarrow> (st\<lparr>os_pending := Some ps'\<rparr>, Inr a)))"

definition on_codes :: "(code_store \<Rightarrow> string + code_store \<times> 'a) \<Rightarrow> 'a oauth_io" where
  "on_codes op st =
     (case os_codes st of
        None \<Rightarrow> (st, Inl ''TypeError'')
      | Some cs \<Rightarrow> (case op cs of Inl e \<Rightarrow> (st, Inl e) | Inr (cs', a) \<Rightarrow> (st\<lparr>os_codes := Some cs'\<rparr>, Inr a)))"

section \<open>The authorization endpoint\<close>

definition AUTHORIZATION_PATH :: string where "AUTHORIZATION_PATH = ''/oauth/authorize''"

definition PREFLIGHT_CODE :: string where "PREFLIGHT_CODE = replicate 43 (CHR ''A'')"

definition redirect_response :: "string \<Rightarrow> response" where
  "redirect_response location =
     \<lparr>rs_status = 302,
      rs_headers = [(''location'', location), (''cache-control'', ''no-store''), (''x-gateway-version'', GATEWAY_VERSION)],
      rs_body = NoBody\<rparr>"

fun authorization_error_text :: "authorization_error_code \<Rightarrow> string" where
  "authorization_error_text InvalidRequest = ''invalid_request''"
| "authorization_error_text UnauthorizedClient = ''unauthorized_client''"
| "authorization_error_text UnsupportedResponseType = ''unsupported_response_type''"
| "authorization_error_text InvalidRedirectUri = ''invalid_redirect_uri''"
| "authorization_error_text InvalidTarget = ''invalid_target''"
| "authorization_error_text InvalidScope = ''invalid_scope''"
| "authorization_error_text InvalidCodeChallenge = ''invalid_code_challenge''"

definition safe_reflected_state :: "url \<Rightarrow> string option" where
  "safe_reflected_state url =
     (case get_all (u_params url) ''state'' of
        [v] \<Rightarrow> if length v = 0 \<or> byte_length v > MAX_STATE_BYTES then None else Some v
      | _ \<Rightarrow> None)"

definition redirect_context :: "oauth_client_policy \<Rightarrow> url \<Rightarrow> oauth_request" where
  "redirect_context p url =
     \<lparr>or_response_type = ''code'', or_client_id = pc_client_id p, or_redirect_uri = pc_redirect_uri p,
      or_resource = pc_resource p, or_scopes = pc_scopes p, or_state = safe_reflected_state url,
      or_code_challenge = PREFLIGHT_CODE, or_challenge_method = ''S256''\<rparr>"

definition oauth_error_code :: "string \<Rightarrow> string" where
  "oauth_error_code e = (if e = ''invalid_code_challenge'' then ''invalid_request'' else e)"

definition pending_response :: "oauth_env \<Rightarrow> string \<Rightarrow> int \<Rightarrow> string \<Rightarrow> response oauth_io" where
  "pending_response env request_id expires_at_ms issuer =
     (case oe_continue_uri env issuer request_id of
        None \<Rightarrow> (\<lambda>st. (st, Inl ''TypeError''))
      | Some uri \<Rightarrow>
          io_ret (json_response_with
            (JObj [(''schema_version'', JInt 1), (''status'', JStr ''pending_operator_consent''),
                   (''request_id'', JStr request_id), (''expires_at_ms'', JInt expires_at_ms),
                   (''continue_uri'', JStr uri)]) 202 [(''retry-after'', ''2'')]))"

text \<open>\<open>Inl\<close> is a response, \<open>Inr None\<close> the absence of the parameter.\<close>

definition exact_request_id :: "url \<Rightarrow> response + string option" where
  "exact_request_id url =
     (case get_all (u_params url) ''request_id'' of
        [] \<Rightarrow> Inr None
      | v # vs \<Rightarrow>
          if vs \<noteq> [] \<or> \<not> request_id_ok v
            then Inl (error_response 400 ''invalid_request_id'' ''request_id is invalid'')
          else if list_ex (\<lambda>p. fst p \<noteq> ''request_id'') (u_params url)
            then Inl (error_response 400 ''ambiguous_authorization_request''
                   ''request_id continuation cannot be combined with authorization parameters'')
          else Inr (Some v))"

definition start_authorization ::
  "runtime \<Rightarrow> oauth_env \<Rightarrow> url \<Rightarrow> string \<Rightarrow> oauth_client_policy \<Rightarrow> response oauth_io" where
  "start_authorization rt env url issuer p =
     (case validate_oauth_authorization_request (Some url) p of
        Inl f \<Rightarrow>
          if \<not> af_redirect_allowed f
            then io_ret (error_response 400 (authorization_error_text (af_error f)) (af_description f))
          else io_ret
            (case build_error_redirect rt (redirect_context p url) issuer
                    (oauth_error_code (authorization_error_text (af_error f))) (Some (af_description f)) of
               Inl e \<Rightarrow> error_response 400 ''invalid_authorization_request''
                          ''authorization request could not be redirected safely''
             | Inr location \<Rightarrow> redirect_response location)
      | Inr q \<Rightarrow>
          io_bind (on_pending (pending_create rt (oe_clock env 0) (oe_ids env) q)) (\<lambda>created.
            case created of
              Inl PendingCapacity \<Rightarrow>
                io_ret (error_response 503 ''oauth_consent_capacity'' ''OAuth consent capacity is temporarily exhausted'')
            | Inl e \<Rightarrow>
                io_ret (error_response 500 ''oauth_consent_unavailable'' ''OAuth consent request could not be created'')
            | Inr p \<Rightarrow> pending_response env (pp_request_id p) (pp_expires_at_ms p) issuer))"

definition finish_approved :: "runtime \<Rightarrow> oauth_env \<Rightarrow> string \<Rightarrow> oauth_request \<Rightarrow> response oauth_io" where
  "finish_approved rt env issuer q =
     (case build_success_redirect rt q issuer PREFLIGHT_CODE of
        Inl e \<Rightarrow> io_ret (error_response 500 ''oauth_redirect_failure'' ''OAuth success response could not be built safely'')
      | Inr location \<Rightarrow>
          io_bind (on_codes (code_issue rt (oe_clock env 2) (oe_codes env) (Some q))) (\<lambda>issued.
            case issued of
              Inl e \<Rightarrow>
                io_ret (error_response (if e = IssueCapacity then 503 else 500)
                  ''oauth_authorization_code_unavailable'' ''OAuth authorization code could not be issued'')
            | Inr i \<Rightarrow>
                (case build_success_redirect rt q issuer (ic_code i) of
                   Inl e \<Rightarrow>
                     io_bind (on_codes (code_consume rt (oe_clock env 3) (ic_code i))) (\<lambda>ignored.
                       io_ret (error_response 500 ''oauth_redirect_failure''
                         ''OAuth success response could not be built safely''))
                 | Inr location \<Rightarrow> io_ret (redirect_response location))))"

definition continue_authorization :: "runtime \<Rightarrow> oauth_env \<Rightarrow> string \<Rightarrow> string \<Rightarrow> response oauth_io" where
  "continue_authorization rt env request_id issuer =
     io_bind (on_pending (pending_get (oe_clock env 0) request_id)) (\<lambda>projection.
       case projection of
         None \<Rightarrow> io_ret (error_response 404 ''pending_consent_not_found''
                   ''pending consent request was not found or has expired'')
       | Some p \<Rightarrow>
           if pp_status p = Pending then pending_response env (pp_request_id p) (pp_expires_at_ms p) issuer
           else
             io_bind (on_pending (pending_consume_decision (oe_clock env 1) request_id)) (\<lambda>consumed.
               case consumed of
                 Inl e \<Rightarrow> io_ret (error_response 409 ''pending_consent_unavailable''
                            ''pending consent decision could not be consumed'')
               | Inr (Denied, q) \<Rightarrow>
                   io_ret
                     (case build_error_redirect rt q issuer ''access_denied''
                             (Some ''resource owner denied the authorization request'') of
                        Inl e \<Rightarrow> error_response 500 ''oauth_redirect_failure''
                                   ''OAuth denial response could not be built safely''
                      | Inr location \<Rightarrow> redirect_response location)
               | Inr (Approved, q) \<Rightarrow> finish_approved rt env issuer q))"

definition handle_oauth_authorization_request ::
  "oauth_context \<Rightarrow> oauth_env \<Rightarrow> request \<Rightarrow> response option oauth_io" where
  "handle_oauth_authorization_request cx env r =
     (\<lambda>st. let url = rq_url r; answer = (\<lambda>m. io_bind m (\<lambda>a. io_ret (Some a)))
       in if u_pathname url \<noteq> AUTHORIZATION_PATH then io_ret None st
          else if rq_method r \<noteq> ''GET'' then answer (io_ret (error_response 405 ''method_not_allowed'' ''GET required'')) st
          else (case self_hosted_issuer (ox_config cx) of
            None \<Rightarrow> answer (io_ret (error_response 404 ''oauth_authorization_unavailable''
                      ''local OAuth authorization is not configured'')) st
          | Some issuer \<Rightarrow>
              if (ox_policy cx = None \<and> ox_cimd cx = None) \<or> os_pending st = None \<or> os_codes st = None
                then answer (io_ret (error_response 404 ''oauth_authorization_unavailable''
                       ''local OAuth authorization is not configured'')) st
              else (case exact_request_id url of
                Inl response \<Rightarrow> answer (io_ret response) st
              | Inr (Some request_id) \<Rightarrow> answer (continue_authorization (ox_runtime cx) env request_id issuer) st
              | Inr None \<Rightarrow>
                  (case resolve_client_policy (ox_runtime cx) url issuer (ox_policy cx) (ox_cimd cx) of
                     Inl f \<Rightarrow> answer (io_ret (error_response (pl_status f) (pl_error f) (pl_description f))) st
                   | Inr rp \<Rightarrow> answer (start_authorization (ox_runtime cx) env url issuer (rp_policy rp)) st))))"

section \<open>The operator's endpoint\<close>

definition MAX_DECISION_BODY_BYTES :: nat where "MAX_DECISION_BODY_BYTES = 4 * 1024"
definition CONSENT_PREFIX :: string where "CONSENT_PREFIX = ''/v1/oauth/pending-consents/''"
definition CONSENT_SUFFIX :: string where "CONSENT_SUFFIX = ''/decision''"

text \<open>The captured group of \<open>/^\/v1\/oauth\/pending-consents\/([^/]+)\/decision$/\<close>.\<close>

definition decision_match :: "string \<Rightarrow> string option" where
  "decision_match path =
     (if mid_segment CONSENT_PREFIX CONSENT_SUFFIX path
      then Some (take (length path - length CONSENT_PREFIX - length CONSENT_SUFFIX) (drop (length CONSENT_PREFIX) path))
      else None)"

definition parse_decision :: "runtime \<Rightarrow> request \<Rightarrow> response + consent_decision" where
  "parse_decision rt r =
     (if \<not> json_content_type r
        then Inl (error_response 415 ''unsupported_media_type'' ''content-type must be application/json'')
      else
        (case check_declared_length rt r MAX_DECISION_BODY_BYTES of
           LengthInvalid \<Rightarrow> Inl (error_response 400 ''invalid_content_length'' ''invalid content-length'')
         | LengthTooLarge \<Rightarrow> Inl (error_response 413 ''request_too_large'' ''decision body exceeds 4 KiB'')
         | LengthOk \<Rightarrow>
      if byte_length (rq_body r) > MAX_DECISION_BODY_BYTES
        then Inl (error_response 413 ''request_too_large'' ''decision body exceeds 4 KiB'')
      else
        (case rt_json_parse rt (rq_body r) of
           None \<Rightarrow> Inl (error_response 400 ''invalid_json'' ''decision body must contain valid JSON'')
         | Some parsed \<Rightarrow>
      if \<not> is_record parsed
        then Inl (error_response 400 ''invalid_decision'' ''decision body must be a JSON object'')
      else
        (case find (\<lambda>k. k \<noteq> ''decision'') (keys_of (fields_of parsed)) of
           Some key \<Rightarrow> Inl (error_response 400 ''unknown_field'' (''unknown decision field: '' @ key))
         | None \<Rightarrow>
             if length (fields_of parsed) \<noteq> 1
               then Inl (error_response 400 ''invalid_decision'' ''decision field is required'')
             else if field parsed ''decision'' = Some (JStr ''approved'') then Inr Approved
             else if field parsed ''decision'' = Some (JStr ''denied'') then Inr Denied
             else Inl (error_response 400 ''invalid_decision'' ''decision must be approved or denied'')))))"

fun status_text :: "consent_status \<Rightarrow> string" where
  "status_text Pending = ''pending''"
| "status_text (Decided Approved) = ''approved''"
| "status_text (Decided Denied) = ''denied''"

definition consent_json :: "consent_projection \<Rightarrow> json" where
  "consent_json p =
     JObj [(''requestId'', JStr (pp_request_id p)), (''clientId'', JStr (pp_client_id p)),
           (''redirectUri'', JStr (pp_redirect_uri p)), (''resource'', JStr (pp_resource p)),
           (''scopes'', JArr (map JStr (pp_scopes p))), (''status'', JStr (status_text (pp_status p))),
           (''createdAtMs'', JInt (pp_created_at_ms p)), (''expiresAtMs'', JInt (pp_expires_at_ms p))]"

definition decide_consent :: "runtime \<Rightarrow> oauth_env \<Rightarrow> request \<Rightarrow> string \<Rightarrow> response oauth_io" where
  "decide_consent rt env r request_id =
     (if \<not> request_id_ok request_id
        then io_ret (error_response 400 ''invalid_request_id'' ''pending consent request id is invalid'')
      else
        (case parse_decision rt r of
           Inl response \<Rightarrow> io_ret response
         | Inr decision \<Rightarrow>
             io_bind (on_pending (pending_decide (oe_clock env 0) request_id decision)) (\<lambda>result.
               io_ret
                 (case result of
                    Inl DecideNotFound \<Rightarrow> error_response 404 ''pending_consent_not_found''
                      ''pending consent request was not found or has expired''
                  | Inl AlreadyDecided \<Rightarrow> error_response 409 ''pending_consent_already_decided''
                      ''pending consent request has already been decided''
                  | Inr p \<Rightarrow> json_response
                      (JObj [(''schema_version'', JInt 1), (''pending_consent'', consent_json p)]) 200))))"

definition handle_oauth_consent_operator_request ::
  "oauth_context \<Rightarrow> oauth_env \<Rightarrow> request \<Rightarrow> response option oauth_io" where
  "handle_oauth_consent_operator_request cx env r =
     (\<lambda>st. let path = u_pathname (rq_url r); collection = (path = ''/v1/oauth/pending-consents'');
               answer = (\<lambda>m. io_bind m (\<lambda>a. io_ret (Some a)))
       in if \<not> collection \<and> decision_match path = None then io_ret None st
          else if \<not> is_root_authorization r (ox_config cx)
            then answer (io_ret (error_response 401 ''root_authorization_required'' ''root bearer token required'')) st
          else if u_search (rq_url r) \<noteq> []
            then answer (io_ret (error_response 400 ''query_forbidden''
                   ''operator consent routes do not accept query parameters'')) st
          else if os_pending st = None
            then answer (io_ret (error_response 503 ''oauth_consent_store_unavailable''
                   ''OAuth pending consent store is unavailable'')) st
          else if collection then
            (if rq_method r \<noteq> ''GET'' then answer (io_ret (error_response 405 ''method_not_allowed'' ''GET required'')) st
             else answer (io_bind (on_pending (pending_list (ox_runtime cx) (oe_clock env 0))) (\<lambda>ps.
                    io_ret (json_response (JObj [(''schema_version'', JInt 1),
                      (''pending_consents'', JArr (map consent_json ps))]) 200))) st)
          else if rq_method r \<noteq> ''POST''
            then answer (io_ret (error_response 405 ''method_not_allowed'' ''POST required'')) st
          else answer (decide_consent (ox_runtime cx) env r (the (decision_match path))) st)"

section \<open>The token endpoint\<close>

definition OAUTH_TOKEN_PATH :: string where "OAUTH_TOKEN_PATH = ''/oauth/token''"
definition OAUTH_ACCESS_TOKEN_TTL_SECONDS :: int where "OAUTH_ACCESS_TOKEN_TTL_SECONDS = 15 * 60"
definition MAX_TOKEN_REQUEST_BYTES :: nat where "MAX_TOKEN_REQUEST_BYTES = 16 * 1024"

definition oauth_json :: "json \<Rightarrow> nat \<Rightarrow> (string \<times> string) list \<Rightarrow> response" where
  "oauth_json v status extra =
     \<lparr>rs_status = status,
      rs_headers =
        map_set ''x-gateway-version'' GATEWAY_VERSION
          (map_set ''pragma'' ''no-cache''
            (map_set ''cache-control'' ''no-store''
              (map_set ''content-type'' ''application/json; charset=utf-8'' extra))),
      rs_body = JsonBody v\<rparr>"

definition oauth_error :: "string \<Rightarrow> string \<Rightarrow> nat \<Rightarrow> (string \<times> string) list \<Rightarrow> response" where
  "oauth_error e description status extra =
     oauth_json (JObj [(''error'', JStr e), (''error_description'', JStr description)]) status extra"

lemma oauth_json_status [simp]: "rs_status (oauth_json v n h) = n" "rs_status (oauth_error e d n h) = n"
  by (simp_all add: oauth_json_def oauth_error_def)

text \<open>The captured group of \<open>/^([A-Za-z][A-Za-z0-9+.-]*)\s/\<close>.\<close>

definition auth_scheme :: "string \<Rightarrow> string option" where
  "auth_scheme v =
     (let scheme = takeWhile (\<lambda>c. is_alnum c \<or> c \<in> set ''+.-'') v; rest = drop (length scheme) v
      in if scheme \<noteq> [] \<and> is_alpha (hd scheme) \<and> rest \<noteq> [] \<and> is_space (hd rest) then Some scheme else None)"

definition parse_token_form :: "runtime \<Rightarrow> request \<Rightarrow> response + (string \<times> string) list" where
  "parse_token_form rt r =
     (if u_search (rq_url r) \<noteq> []
        then Inl (oauth_error ''invalid_request'' ''token endpoint does not accept query parameters'' 400 [])
      else case header r ''authorization'' of
        Some authorization \<Rightarrow>
          Inl (oauth_error ''invalid_client'' ''this public client uses token_endpoint_auth_method=none'' 401
            (case auth_scheme authorization of
               None \<Rightarrow> []
             | Some scheme \<Rightarrow> [(''www-authenticate'',
                 scheme @ '' realm='' @ [CHR 0x22] @ ''oauth-token'' @ [CHR 0x22])]))
      | None \<Rightarrow>
      if \<not> starts_with (case header r ''content-type'' of None \<Rightarrow> [] | Some v \<Rightarrow> to_lower v)
             ''application/x-www-form-urlencoded''
        then Inl (oauth_error ''invalid_request'' ''content-type must be application/x-www-form-urlencoded'' 415 [])
      else
        (case check_declared_length rt r MAX_TOKEN_REQUEST_BYTES of
           LengthInvalid \<Rightarrow> Inl (oauth_error ''invalid_request'' ''invalid content-length'' 400 [])
         | LengthTooLarge \<Rightarrow> Inl (oauth_error ''invalid_request'' ''token request is too large'' 413 [])
         | LengthOk \<Rightarrow>
             if byte_length (rq_body r) > MAX_TOKEN_REQUEST_BYTES
               then Inl (oauth_error ''invalid_request'' ''token request is too large'' 413 [])
             else Inr (rt_form_parse rt (rq_body r))))"

definition exact_code :: "(string \<times> string) list \<Rightarrow> string option" where
  "exact_code ps = (case get_all ps ''code'' of [v] \<Rightarrow> if authorization_code_ok v then Some v else None | _ \<Rightarrow> None)"

definition static_identity_matches :: "consumed_code \<Rightarrow> oauth_client_policy option \<Rightarrow> bool" where
  "static_identity_matches c policy \<longleftrightarrow>
     (case policy of
        None \<Rightarrow> False
      | Some p \<Rightarrow> cb_client_id (cc_binding c) = pc_client_id p \<and> cb_redirect_uri (cc_binding c) = pc_redirect_uri p
          \<and> cb_resource (cc_binding c) = pc_resource p)"

definition binding_matches_configured_authority ::
  "runtime \<Rightarrow> consumed_code \<Rightarrow> gateway_config \<Rightarrow> oauth_client_policy option \<Rightarrow> bool \<Rightarrow> bool" where
  "binding_matches_configured_authority rt c config policy cimd_enabled \<longleftrightarrow>
     (if static_identity_matches c policy
        then list_all (\<lambda>scope. scope \<in> set (pc_scopes (the policy))) (cc_scopes c)
      else if \<not> cimd_enabled \<or> truthy (cfg_public_origin config) = None
           \<or> cb_resource (cc_binding c) \<noteq> the (cfg_public_origin config) @ ''/mcp''
           \<or> (case validate_cimd_client_id rt (cb_client_id (cc_binding c)) of Inl e \<Rightarrow> True | Inr i \<Rightarrow> False)
        then False
      else (case rt_url rt (cb_redirect_uri (cc_binding c)) of
        None \<Rightarrow> False
      | Some u \<Rightarrow>
          if u_protocol u \<noteq> ''https:'' \<or> u_username u \<noteq> [] \<or> u_password u \<noteq> [] \<or> u_hash u \<noteq> [] then False
          else cc_scopes c = CIMD_DYNAMIC_SCOPES))"

fun token_error_text :: "token_error_code \<Rightarrow> string" where
  "token_error_text TokenInvalidRequest = ''invalid_request''"
| "token_error_text TokenInvalidClient = ''invalid_client''"
| "token_error_text TokenInvalidGrant = ''invalid_grant''"
| "token_error_text TokenInvalidTarget = ''invalid_target''"

definition token_json :: "string \<Rightarrow> session_claims \<Rightarrow> json" where
  "token_json token claims =
     JObj [(''access_token'', JStr token), (''token_type'', JStr ''Bearer''),
           (''expires_in'', JInt OAUTH_ACCESS_TOKEN_TTL_SECONDS), (''scope'', JStr (join '' '' (cl_scopes claims)))]"

text \<open>What follows the consumption of a code: everything up to the answer, without touching a store.\<close>

definition redeem_consumed ::
  "oauth_context \<Rightarrow> oauth_env \<Rightarrow> string \<Rightarrow> (string \<times> string) list \<Rightarrow> consumed_code \<Rightarrow> response" where
  "redeem_consumed cx env api_token ps c =
     (if \<not> binding_matches_configured_authority (ox_runtime cx) c (ox_config cx) (ox_policy cx) (ox_cimd cx \<noteq> None)
        then oauth_error ''invalid_grant'' ''authorization code is not bound to an accepted OAuth client policy'' 400 []
      else (case validate_oauth_token_request (ox_runtime cx) ps (cc_binding c) of
        Inl f \<Rightarrow> oauth_error (token_error_text (tf_error f)) (tf_description f) 400 []
      | Inr validated \<Rightarrow>
      (case derive_oauth_capability_grant (cc_scopes c) CAPABILITY_REGISTRY of
         Inl e \<Rightarrow> oauth_error ''invalid_scope'' ''approved OAuth scopes cannot be mapped to bounded capability authority'' 400 []
       | Inr grant \<Rightarrow>
      (case derive_oauth_resource_session_secret (ox_runtime cx) api_token (cb_resource (cc_binding c)) of
         Inl e \<Rightarrow> oauth_error ''temporarily_unavailable'' ''capability-session issuance failed'' 503 []
       | Inr secret \<Rightarrow>
      (case issue_capability_session (ox_runtime cx) secret grant OAUTH_ACCESS_TOKEN_TTL_SECONDS
              (oe_now_ms env) (oe_uuid env) of
         Inl e \<Rightarrow> oauth_error ''temporarily_unavailable'' ''capability-session issuance failed'' 503 []
       | Inr (token, claims) \<Rightarrow> oauth_json (token_json token claims) 200 [])))))"

definition handle_oauth_token_request :: "oauth_context \<Rightarrow> oauth_env \<Rightarrow> request \<Rightarrow> response option oauth_io" where
  "handle_oauth_token_request cx env r =
     (\<lambda>st. let answer = (\<lambda>m. io_bind m (\<lambda>a. io_ret (Some a)))
       in if u_pathname (rq_url r) \<noteq> OAUTH_TOKEN_PATH then io_ret None st
          else if rq_method r \<noteq> ''POST'' then answer (io_ret (oauth_error ''invalid_request'' ''POST required'' 405 [])) st
          else (case truthy (cfg_api_token (ox_config cx)) of
            None \<Rightarrow> answer (io_ret (oauth_error ''temporarily_unavailable''
                      ''local OAuth token exchange is not configured'' 404 [])) st
          | Some api_token \<Rightarrow>
              if self_hosted_issuer (ox_config cx) = None \<or> (ox_policy cx = None \<and> ox_cimd cx = None)
                 \<or> os_codes st = None
                then answer (io_ret (oauth_error ''temporarily_unavailable''
                       ''local OAuth token exchange is not configured'' 404 [])) st
              else (case parse_token_form (ox_runtime cx) r of
                Inl response \<Rightarrow> answer (io_ret response) st
              | Inr ps \<Rightarrow>
                  (case exact_code ps of
                     None \<Rightarrow> answer (io_ret (oauth_error ''invalid_grant'' ''authorization code is invalid'' 400 [])) st
                   | Some code \<Rightarrow>
                       answer (io_bind (on_codes (code_consume (ox_runtime cx) (oe_clock env 0) code)) (\<lambda>consumed.
                         io_ret
                           (case consumed of
                              None \<Rightarrow> oauth_error ''invalid_grant''
                                ''authorization code is invalid, expired, or already used'' 400 []
                            | Some c \<Rightarrow> redeem_consumed cx env api_token ps c))) st))))"

section \<open>Any sequence of OAuth requests\<close>

text \<open>The three endpoints in the order of the router, which tries the operator's first.\<close>

definition oauth_step :: "oauth_context \<Rightarrow> oauth_env \<times> request \<Rightarrow> response option oauth_io" where
  "oauth_step cx call =
     io_bind (handle_oauth_consent_operator_request cx (fst call) (snd call)) (\<lambda>a.
       if a \<noteq> None then io_ret a
       else io_bind (handle_oauth_authorization_request cx (fst call) (snd call)) (\<lambda>b.
         if b \<noteq> None then io_ret b else handle_oauth_token_request cx (fst call) (snd call)))"

text \<open>A run keeps, for each call, the state before it, the request and the answer.\<close>

record oauth_event =
  ev_state :: oauth_state
  ev_request :: request
  ev_answer :: "string + response option"

fun oauth_run :: "oauth_context \<Rightarrow> (oauth_env \<times> request) list \<Rightarrow> oauth_state \<Rightarrow> oauth_state \<times> oauth_event list" where
  "oauth_run cx [] st = (st, [])"
| "oauth_run cx (call # calls) st =
     (let (st1, answer) = oauth_step cx call st; (st2, events) = oauth_run cx calls st1
      in (st2, \<lparr>ev_state = st, ev_request = snd call, ev_answer = answer\<rparr> # events))"

section \<open>Reasoning about handlers\<close>

text \<open>
  \<open>io_keeps I m Q\<close>: from a state with the invariant \<open>I\<close>, \<open>m\<close> ends in one, and its result, if it does not
  throw, satisfies \<open>Q\<close>.
\<close>

definition io_keeps :: "(oauth_state \<Rightarrow> bool) \<Rightarrow> 'a oauth_io \<Rightarrow> ('a \<Rightarrow> bool) \<Rightarrow> bool" where
  "io_keeps I m Q \<longleftrightarrow> (\<forall>st. I st \<longrightarrow> I (fst (m st)) \<and> (\<forall>a. snd (m st) = Inr a \<longrightarrow> Q a))"

lemma io_keeps_ret: "Q a \<Longrightarrow> io_keeps I (io_ret a) Q"
  by (simp add: io_keeps_def io_ret_def)

lemma io_keeps_throw: "io_keeps I (\<lambda>st. (st, Inl e)) Q"
  by (simp add: io_keeps_def)

lemma io_keeps_bind: "io_keeps I m Q \<Longrightarrow> (\<And>a. Q a \<Longrightarrow> io_keeps I (f a) R) \<Longrightarrow> io_keeps I (io_bind m f) R"
  by (fastforce simp: io_keeps_def io_bind_def split: prod.split sum.split)

lemma io_keeps_weaken: "io_keeps I m Q \<Longrightarrow> (\<And>a. Q a \<Longrightarrow> R a) \<Longrightarrow> io_keeps I m R"
  by (auto simp: io_keeps_def)

text \<open>
  The invariant of the two stores, for the requests \<open>S\<close> that were validated and the requests \<open>A\<close> that
  were approved: every pending entry is of \<open>S\<close> and, if approved, of \<open>A\<close>; every live code stands for the
  authority of a request in both.
\<close>

definition stores_inv :: "runtime \<Rightarrow> oauth_request set \<Rightarrow> oauth_request set \<Rightarrow> oauth_state \<Rightarrow> bool" where
  "stores_inv rt S A st \<longleftrightarrow>
     (\<forall>ps. os_pending st = Some ps \<longrightarrow> pending_ok rt ps
        \<and> (\<forall>k e. map_of (ps_entries ps) k = Some e \<longrightarrow>
             pe_request e \<in> S \<and> (pe_status e = Decided Approved \<longrightarrow> pe_request e \<in> A)))
     \<and> (\<forall>cs. os_codes st = Some cs \<longrightarrow> code_store_ok rt cs
        \<and> (\<forall>k e. map_of (cs_entries cs) k = Some e \<longrightarrow>
             (\<exists>q \<in> S \<inter> A. authority_of_entry e = authority_of_request q)))"

lemma stores_inv_mono: "stores_inv rt S A st \<Longrightarrow> S \<subseteq> S' \<Longrightarrow> A \<subseteq> A' \<Longrightarrow> stores_inv rt S' A' st"
  unfolding stores_inv_def by blast

text \<open>An operation on a store is a step of its machine.\<close>

lemma pending_op_step:
  "pending_create rt n ids q ps = Inr (ps', a) \<Longrightarrow> pending_step rt (n, PendingCreate ids q) ps = (ps', PendingCreated q a)"
  "pending_get n k ps = Inr (ps', b) \<Longrightarrow> pending_step rt (n, PendingGet k) ps = (ps', PendingGot b)"
  "pending_list rt n ps = Inr (ps', c) \<Longrightarrow> pending_step rt (n, PendingList) ps = (ps', PendingListed c)"
  "pending_decide n k d ps = Inr (ps', x) \<Longrightarrow>
     pending_step rt (n, PendingDecide k d) ps = (ps', PendingDecided k d (map_option pe_request (map_of (ps_entries ps) k)) x)"
  "pending_consume_decision n k ps = Inr (ps', y) \<Longrightarrow> pending_step rt (n, PendingConsume k) ps = (ps', PendingConsumed k y)"
  by (simp_all add: pending_answer_def)

lemma stores_inv_pending:
  assumes "stores_inv rt S A st" and "os_pending st = Some ps"
    and step: "pending_step rt (n, op) ps = (ps', out)"
    and new: "\<And>ids q. op = PendingCreate ids q \<Longrightarrow> q \<in> S"
    and approve: "\<And>k e. op = PendingDecide k Approved \<Longrightarrow> map_of (ps_entries ps) k = Some e \<Longrightarrow> pe_status e = Pending
        \<Longrightarrow> pe_request e \<in> A"
  shows "stores_inv rt S A (st\<lparr>os_pending := Some ps'\<rparr>)"
proof -
  have ok: "pending_ok rt ps"
    and old: "\<And>k e. map_of (ps_entries ps) k = Some e \<Longrightarrow> pe_request e \<in> S \<and> (pe_status e = Decided Approved \<longrightarrow> pe_request e \<in> A)"
    using assms(1,2) by (auto simp: stores_inv_def)
  have "pending_ok rt ps'" using pending_ok_step [OF ok, of n op] step by simp
  moreover have "pe_request e \<in> S \<and> (pe_status e = Decided Approved \<longrightarrow> pe_request e \<in> A)"
    if "map_of (ps_entries ps') k = Some e" for k e
    using pending_step_entry [OF ok step that] new approve old by fastforce
  ultimately show ?thesis using assms(1) by (simp add: stores_inv_def)
qed

lemma keeps_on_pending:
  assumes "\<And>ps ps' a. op ps = Inr (ps', a) \<Longrightarrow> pending_step rt (n, x) ps = (ps', out a)"
    and "\<And>ids q. x = PendingCreate ids q \<Longrightarrow> q \<in> S" and "\<And>k d. x \<noteq> PendingDecide k d"
  shows "io_keeps (stores_inv rt S A) (on_pending op)
     (\<lambda>a. \<forall>k q. out a = PendingConsumed k (Inr (Approved, q)) \<longrightarrow> q \<in> S \<inter> A)"
  unfolding io_keeps_def
proof (intro allI impI)
  fix st assume inv: "stores_inv rt S A st"
  show "stores_inv rt S A (fst (on_pending op st)) \<and> (\<forall>a. snd (on_pending op st) = Inr a \<longrightarrow>
      (\<forall>k q. out a = PendingConsumed k (Inr (Approved, q)) \<longrightarrow> q \<in> S \<inter> A))"
  proof (cases "os_pending st")
    case None
    with inv show ?thesis by (simp add: on_pending_def)
  next
    case (Some ps)
    show ?thesis
    proof (cases "op ps")
      case (Inl e)
      with Some inv show ?thesis by (simp add: on_pending_def)
    next
      case (Inr r)
      obtain ps' a where r: "r = (ps', a)" by (cases r)
      have step: "pending_step rt (n, x) ps = (ps', out a)" using assms(1) Inr r by simp
      have "stores_inv rt S A (st\<lparr>os_pending := Some ps'\<rparr>)"
        by (rule stores_inv_pending [OF inv Some step]) (use assms(2,3) in auto)
      moreover have "q \<in> S \<inter> A" if "out a = PendingConsumed k (Inr (Approved, q))" for k q
      proof -
        have ok: "pending_ok rt ps" using inv Some by (simp add: stores_inv_def)
        from pending_step_consumed [OF ok] step that obtain e where
          "map_of (ps_entries ps) k = Some e" "pe_status e = Decided Approved" "pe_request e = q" by metis
        with inv Some show ?thesis by (auto simp: stores_inv_def)
      qed
      ultimately show ?thesis using Some Inr r by (simp add: on_pending_def)
    qed
  qed
qed

lemma keeps_on_codes:
  assumes "\<And>cs cs' a. op cs = Inr (cs', a) \<Longrightarrow> code_step rt (n, x) cs = (cs', out a)"
    and "\<And>codes q. x = CodeIssue codes (Some q) \<Longrightarrow> q \<in> S \<inter> A"
  shows "io_keeps (stores_inv rt S A) (on_codes op)
     (\<lambda>a. \<forall>c y. out a = CodeConsumed c (Some y) \<longrightarrow>
        cb_code (cc_binding y) = c \<and> (\<exists>q \<in> S \<inter> A. authority_of_consumed y = authority_of_request q))"
  unfolding io_keeps_def
proof (intro allI impI)
  fix st assume inv: "stores_inv rt S A st"
  show "stores_inv rt S A (fst (on_codes op st)) \<and> (\<forall>a. snd (on_codes op st) = Inr a \<longrightarrow>
      (\<forall>c y. out a = CodeConsumed c (Some y) \<longrightarrow>
        cb_code (cc_binding y) = c \<and> (\<exists>q \<in> S \<inter> A. authority_of_consumed y = authority_of_request q)))"
  proof (cases "os_codes st")
    case None
    with inv show ?thesis by (simp add: on_codes_def)
  next
    case (Some cs)
    show ?thesis
    proof (cases "op cs")
      case (Inl e)
      with Some inv show ?thesis by (simp add: on_codes_def)
    next
      case (Inr r)
      obtain cs' a where r: "r = (cs', a)" by (cases r)
      have step: "code_step rt (n, x) cs = (cs', out a)" using assms(1) Inr r by simp
      have ok: "code_store_ok rt cs"
        and old: "\<And>k e. map_of (cs_entries cs) k = Some e \<Longrightarrow> \<exists>q \<in> S \<inter> A. authority_of_entry e = authority_of_request q"
        using inv Some by (auto simp: stores_inv_def)
      have "code_store_ok rt cs'" using code_store_ok_step [OF ok, of n x] step by simp
      moreover have "\<exists>q \<in> S \<inter> A. authority_of_entry e = authority_of_request q" if "map_of (cs_entries cs') k = Some e" for k e
        using code_step_entry [OF ok step that] assms(2) old by blast
      ultimately have "stores_inv rt S A (st\<lparr>os_codes := Some cs'\<rparr>)" using inv by (simp add: stores_inv_def)
      moreover have "cb_code (cc_binding y) = c \<and> (\<exists>q \<in> S \<inter> A. authority_of_consumed y = authority_of_request q)"
        if "out a = CodeConsumed c (Some y)" for c y
      proof -
        from code_step_consumed [OF ok] step that obtain e where
          "map_of (cs_entries cs) (digest_code rt c) = Some e" "y = consumed_of c e" by metis
        with old show ?thesis by (auto simp: consumed_of_def authority_of_consumed_def authority_of_entry_def)
      qed
      ultimately show ?thesis using Some Inr r by (simp add: on_codes_def)
    qed
  qed
qed

end
