(* ===== verification/OAuthFlow.thy ===== *)
theory OAuthFlow
  imports OAuthApi
begin

text \<open>
  The OAuth endpoints together, over any sequence of requests: what must have happened before the token
  endpoint answers with a token.
\<close>

section \<open>The two events a token rests on\<close>

text \<open>The request \<open>q\<close> was validated at the authorization endpoint, under the policy its URL resolves to.\<close>

definition started :: "oauth_context \<Rightarrow> request \<Rightarrow> oauth_request \<Rightarrow> bool" where
  "started cx r q \<longleftrightarrow>
     u_pathname (rq_url r) = AUTHORIZATION_PATH \<and> rq_method r = ''GET''
     \<and> (\<exists>issuer rp. self_hosted_issuer (ox_config cx) = Some issuer
          \<and> resolve_client_policy (ox_runtime cx) (rq_url r) issuer (ox_policy cx) (ox_cimd cx) = Inr rp
          \<and> validate_oauth_authorization_request (Some (rq_url r)) (rp_policy rp) = Inr q)"

text \<open>The root token's bearer approved the entry of \<open>q\<close> while it was pending.\<close>

definition approves :: "oauth_context \<Rightarrow> oauth_event \<Rightarrow> oauth_request \<Rightarrow> bool" where
  "approves cx ev q \<longleftrightarrow>
     rq_method (ev_request ev) = ''POST'' \<and> is_root_authorization (ev_request ev) (ox_config cx)
     \<and> parse_decision (ox_runtime cx) (ev_request ev) = Inr Approved
     \<and> (\<exists>k ps e. decision_match (u_pathname (rq_url (ev_request ev))) = Some k \<and> os_pending (ev_state ev) = Some ps
          \<and> map_of (ps_entries ps) k = Some e \<and> pe_status e = Pending \<and> pe_request e = q)"

definition started_in :: "oauth_context \<Rightarrow> oauth_event list \<Rightarrow> oauth_request set" where
  "started_in cx events = {q. \<exists>ev \<in> set events. started cx (ev_request ev) q}"

text \<open>Approved in one of the events, and started in an earlier one.\<close>

definition approved_in :: "oauth_context \<Rightarrow> oauth_event list \<Rightarrow> oauth_request set" where
  "approved_in cx events =
     {q. \<exists>before ev after. events = before @ ev # after \<and> approves cx ev q \<and> q \<in> started_in cx before}"

lemma started_in_mono: "started_in cx xs \<subseteq> started_in cx (xs @ ys)"
  by (auto simp: started_in_def)

lemma approved_in_mono: "approved_in cx xs \<subseteq> approved_in cx (xs @ ys)"
proof
  fix q assume "q \<in> approved_in cx xs"
  then obtain before ev after where "xs = before @ ev # after" "approves cx ev q" "q \<in> started_in cx before"
    by (auto simp: approved_in_def)
  then have "xs @ ys = before @ ev # (after @ ys)" "approves cx ev q" "q \<in> started_in cx before" by simp_all
  then show "q \<in> approved_in cx (xs @ ys)" by (auto simp: approved_in_def)
qed

section \<open>Each endpoint keeps the stores' invariant\<close>

lemma keeps_create:
  "q \<in> S \<Longrightarrow> io_keeps (stores_inv rt S A) (on_pending (pending_create rt n ids q)) (\<lambda>a. True)"
  by (rule io_keeps_weaken [OF keeps_on_pending [where x = "PendingCreate ids q" and out = "PendingCreated q" and n = n]])
    (auto simp: pending_answer_def)

lemma keeps_get: "io_keeps (stores_inv rt S A) (on_pending (pending_get n k)) (\<lambda>a. True)"
  by (rule io_keeps_weaken [OF keeps_on_pending [where x = "PendingGet k" and out = PendingGot and n = n]])
    (auto simp: pending_answer_def)

lemma keeps_list: "io_keeps (stores_inv rt S A) (on_pending (pending_list rt n)) (\<lambda>a. True)"
  by (rule io_keeps_weaken [OF keeps_on_pending [where x = "PendingList" and out = PendingListed and n = n]])
    (auto simp: pending_answer_def)

lemma keeps_consume_decision:
  "io_keeps (stores_inv rt S A) (on_pending (pending_consume_decision n k))
     (\<lambda>y. \<forall>q. y = Inr (Approved, q) \<longrightarrow> q \<in> S \<inter> A)"
  by (rule io_keeps_weaken [OF keeps_on_pending [where x = "PendingConsume k" and out = "PendingConsumed k" and n = n]])
    (auto simp: pending_answer_def)

lemma keeps_issue:
  "q \<in> S \<inter> A \<Longrightarrow> io_keeps (stores_inv rt S A) (on_codes (code_issue rt n codes (Some q))) (\<lambda>a. True)"
  by (rule io_keeps_weaken [OF keeps_on_codes [where x = "CodeIssue codes (Some q)" and out = "CodeIssued (Some q)" and n = n]])
    (auto simp: code_answer_def)

lemma keeps_consume:
  "io_keeps (stores_inv rt S A) (on_codes (code_consume rt n c))
     (\<lambda>a. \<forall>y. a = Some y \<longrightarrow> cb_code (cc_binding y) = c
        \<and> (\<exists>q \<in> S \<inter> A. authority_of_consumed y = authority_of_request q))"
  by (rule io_keeps_weaken [OF keeps_on_codes [where x = "CodeConsume c" and out = "CodeConsumed c" and n = n]])
    (auto simp: code_answer_def)

lemma keeps_ret: "io_keeps I (io_ret a) (\<lambda>a. True)"
  by (rule io_keeps_ret) simp

lemma keeps_discard: "io_keeps (stores_inv rt S A) (io_bind (on_codes (code_consume rt n c)) (\<lambda>ignored. io_ret a)) (\<lambda>a. True)"
  by (rule io_keeps_bind [OF keeps_consume keeps_ret])

lemmas keeps_rules = keeps_ret io_keeps_throw keeps_create keeps_get keeps_list keeps_issue

lemma keeps_pending_response: "io_keeps I (pending_response env k n issuer) (\<lambda>a. True)"
  by (simp add: pending_response_def keeps_rules split: option.split)

lemma keeps_start:
  assumes "\<And>q. validate_oauth_authorization_request (Some url) p = Inr q \<Longrightarrow> q \<in> S"
  shows "io_keeps (stores_inv rt S A) (start_authorization rt env url issuer p) (\<lambda>a. True)"
proof (cases "validate_oauth_authorization_request (Some url) p")
  case (Inl f)
  then show ?thesis by (simp add: start_authorization_def keeps_rules)
next
  case (Inr q)
  show ?thesis
    unfolding start_authorization_def Inr sum.case
    by (rule io_keeps_bind [OF keeps_create]; simp add: assms [OF Inr])
      (simp add: keeps_rules keeps_pending_response split: sum.split pending_error.split)
qed

lemma keeps_finish:
  assumes "q \<in> S \<inter> A"
  shows "io_keeps (stores_inv rt S A) (finish_approved rt env issuer q) (\<lambda>a. True)"
proof (cases "build_success_redirect rt q issuer PREFLIGHT_CODE")
  case (Inl e)
  then show ?thesis by (simp add: finish_approved_def keeps_rules)
next
  case (Inr location)
  show ?thesis
    unfolding finish_approved_def Inr sum.case
    by (intro io_keeps_bind [OF keeps_issue [OF assms]]) (simp add: keeps_rules keeps_discard split: sum.split)
qed

lemma keeps_continue: "io_keeps (stores_inv rt S A) (continue_authorization rt env k issuer) (\<lambda>a. True)"
proof -
  have finish: "io_keeps (stores_inv rt S A)
      (case consumed of
         Inl e \<Rightarrow> io_ret r1 | Inr (Denied, q) \<Rightarrow> io_ret (r2 q) | Inr (Approved, q) \<Rightarrow> finish_approved rt env issuer q) (\<lambda>a. True)"
    if "\<forall>q. consumed = Inr (Approved, q) \<longrightarrow> q \<in> S \<inter> A" for consumed :: "consume_error + consent_decision \<times> oauth_request" and r1 r2
    using that by (auto simp: keeps_rules keeps_finish split: sum.split consent_decision.split)
  show ?thesis
    unfolding continue_authorization_def
    by (rule io_keeps_bind [OF keeps_get])
      (auto split: option.split intro!: keeps_ret keeps_pending_response io_keeps_bind [OF keeps_consume_decision] finish)
qed

lemma keeps_answer: "io_keeps I m (\<lambda>a. True) \<Longrightarrow> io_keeps I (io_bind m (\<lambda>a. io_ret (Some a))) (\<lambda>a. True)"
  by (rule io_keeps_bind [OF _ keeps_ret])

lemma io_keepsD: "io_keeps I m Q \<Longrightarrow> I st \<Longrightarrow> I (fst (m st))"
  by (simp add: io_keeps_def)


lemma authorization_keeps:
  assumes "\<And>q. started cx r q \<Longrightarrow> q \<in> S"
  shows "io_keeps (stores_inv (ox_runtime cx) S A) (handle_oauth_authorization_request cx env r) (\<lambda>a. True)"
  unfolding io_keeps_def
proof (intro allI impI conjI)
  let ?I = "stores_inv (ox_runtime cx) S A"
  fix st assume inv: "?I st"
  have start: "?I (fst (io_bind (start_authorization (ox_runtime cx) env (rq_url r) issuer (rp_policy rp)) (\<lambda>a. io_ret (Some a)) st))"
    if "u_pathname (rq_url r) = AUTHORIZATION_PATH" "rq_method r = ''GET''" "self_hosted_issuer (ox_config cx) = Some issuer"
      "resolve_client_policy (ox_runtime cx) (rq_url r) issuer (ox_policy cx) (ox_cimd cx) = Inr rp" for issuer rp
    by (rule io_keepsD [OF keeps_answer [OF keeps_start] inv], rule assms) (use that in \<open>auto simp: started_def\<close>)
  have continue: "?I (fst (io_bind (continue_authorization (ox_runtime cx) env k issuer) (\<lambda>a. io_ret (Some a)) st))" for k issuer
    by (rule io_keepsD [OF keeps_answer [OF keeps_continue] inv])
  have ret: "?I (fst (io_bind (io_ret x) (\<lambda>a. io_ret (Some a)) st))" "?I (fst (io_ret y st))" for x :: response and y :: "response option"
    using inv by (simp_all add: io_bind_def io_ret_def)
  show "?I (fst (handle_oauth_authorization_request cx env r st))"
    unfolding handle_oauth_authorization_request_def Let_def
    by (auto simp: ret start continue split: option.split sum.split)
qed simp

lemma token_keeps: "io_keeps (stores_inv (ox_runtime cx) S A) (handle_oauth_token_request cx env r) (\<lambda>a. True)"
  unfolding io_keeps_def
proof (intro allI impI conjI)
  let ?I = "stores_inv (ox_runtime cx) S A"
  fix st assume inv: "?I st"
  have consume: "?I (fst (io_bind (io_bind (on_codes (code_consume (ox_runtime cx) n c)) (\<lambda>y. io_ret (f y))) (\<lambda>a. io_ret (Some a)) st))"
    for n c and f :: "consumed_code option \<Rightarrow> response"
    by (rule io_keepsD [OF keeps_answer [OF io_keeps_bind [OF keeps_consume keeps_ret]] inv])
  have ret: "?I (fst (io_bind (io_ret x) (\<lambda>a. io_ret (Some a)) st))" "?I (fst (io_ret y st))" for x :: response and y :: "response option"
    using inv by (simp_all add: io_bind_def io_ret_def)
  show "?I (fst (handle_oauth_token_request cx env r st))"
    unfolding handle_oauth_token_request_def Let_def
    by (auto simp: ret consume split: option.split sum.split)
qed simp

text \<open>The operator's endpoint adds the request of an approved entry to what may be redeemed.\<close>

lemma consent_keeps:
  assumes inv: "stores_inv (ox_runtime cx) S A st"
    and approve: "\<And>q. q \<in> S \<Longrightarrow> approves cx \<lparr>ev_state = st, ev_request = r, ev_answer = x\<rparr> q \<Longrightarrow> q \<in> A"
  shows "stores_inv (ox_runtime cx) S A (fst (handle_oauth_consent_operator_request cx env r st))"
proof -
  let ?I = "stores_inv (ox_runtime cx) S A" and ?rt = "ox_runtime cx"
  have ret: "?I (fst (io_bind (io_ret x) (\<lambda>a. io_ret (Some a)) st))" "?I (fst (io_ret y st))" for x :: response and y :: "response option"
    using inv by (simp_all add: io_bind_def io_ret_def)
  have list: "?I (fst (io_bind (io_bind (on_pending (pending_list ?rt n)) (\<lambda>ps. io_ret (f ps))) (\<lambda>a. io_ret (Some a)) st))"
    for n and f :: "consent_projection list \<Rightarrow> response"
    by (rule io_keepsD [OF keeps_answer [OF io_keeps_bind [OF keeps_list keeps_ret]] inv])
  have decide: "?I (fst (io_bind (decide_consent ?rt env r k) (\<lambda>a. io_ret (Some a)) st))"
    if k: "decision_match (u_pathname (rq_url r)) = Some k" and root: "is_root_authorization r (ox_config cx)"
      and post: "rq_method r = ''POST''" for k
  proof -
    have op: "?I (fst (on_pending (pending_decide n k d) st))" if d: "parse_decision ?rt r = Inr d" for n d
    proof (cases "os_pending st")
      case (Some ps)
      show ?thesis
      proof (cases "pending_decide n k d ps")
        case (Inr res)
        obtain ps' a where res: "res = (ps', a)" by (cases res)
        have "?I (st\<lparr>os_pending := Some ps'\<rparr>)"
        proof (rule stores_inv_pending [OF inv Some pending_op_step(4) [OF Inr [unfolded res]]])
          fix k' e assume op: "PendingDecide k d = PendingDecide k' Approved" and e: "map_of (ps_entries ps) k' = Some e" "pe_status e = Pending"
          have "pe_request e \<in> S" using inv Some e(1) by (auto simp: stores_inv_def)
          then show "pe_request e \<in> A"
            by (rule approve) (use op e d k root post Some in \<open>auto simp: approves_def\<close>)
        qed simp
        with Some Inr res show ?thesis by (simp add: on_pending_def)
      qed (use Some inv in \<open>simp add: on_pending_def\<close>)
    qed (use inv in \<open>simp add: on_pending_def\<close>)
    show ?thesis
      using inv op [of _ "oe_clock env 0"]
      by (auto simp: decide_consent_def io_bind_def io_ret_def split: sum.split prod.split)
  qed
  show ?thesis
    unfolding handle_oauth_consent_operator_request_def Let_def
    by (auto simp: ret list decide split: option.split)
qed


section \<open>The invariant of a run\<close>

lemma io_bind_inv: "I (fst (m st)) \<Longrightarrow> (\<And>a. io_keeps I (f a) Q) \<Longrightarrow> I (fst (io_bind m f st))"
  by (auto simp: io_bind_def io_keeps_def split: prod.split sum.split)

lemma oauth_step_keeps:
  assumes "stores_inv (ox_runtime cx) S A st"
    and "\<And>q. started cx (snd call) q \<Longrightarrow> q \<in> S"
    and "\<And>q x. q \<in> S \<Longrightarrow> approves cx \<lparr>ev_state = st, ev_request = snd call, ev_answer = x\<rparr> q \<Longrightarrow> q \<in> A"
  shows "stores_inv (ox_runtime cx) S A (fst (oauth_step cx call st))"
proof -
  let ?I = "stores_inv (ox_runtime cx) S A"
  have rest: "io_keeps ?I
      (if a \<noteq> None then io_ret a
       else io_bind (handle_oauth_authorization_request cx (fst call) (snd call)) (\<lambda>b.
         if b \<noteq> None then io_ret b else handle_oauth_token_request cx (fst call) (snd call))) (\<lambda>a. True)" for a
    by (auto intro!: keeps_ret io_keeps_bind [OF authorization_keeps [OF assms(2)]] token_keeps)
  have "?I (fst (handle_oauth_consent_operator_request cx (fst call) (snd call) st))"
    by (rule consent_keeps [OF assms(1) assms(3)])
  then show ?thesis
    unfolding oauth_step_def by (rule io_bind_inv [OF _ rest])
qed

lemma oauth_run_keeps:
  assumes "stores_inv (ox_runtime cx) (started_in cx past) (approved_in cx past) st"
    and "oauth_run cx calls st = (st', events)"
  shows "stores_inv (ox_runtime cx) (started_in cx (past @ events)) (approved_in cx (past @ events)) st'"
  using assms
proof (induction calls arbitrary: past st events)
  case (Cons call calls)
  obtain st1 answer where step: "oauth_step cx call st = (st1, answer)" by fastforce
  let ?ev = "\<lparr>ev_state = st, ev_request = snd call, ev_answer = answer\<rparr>"
  obtain rest where rest: "oauth_run cx calls st1 = (st', rest)" "events = ?ev # rest"
    using Cons.prems(2) by (auto simp: step Let_def split: prod.splits)
  let ?S = "started_in cx (past @ [?ev])" and ?A = "approved_in cx (past @ [?ev])"
  have new: "q \<in> ?A" if "q \<in> started_in cx past" "approves cx ?ev q" for q
    using that by (auto simp: approved_in_def)
  have entry: "q \<in> started_in cx past" if "approves cx \<lparr>ev_state = st, ev_request = snd call, ev_answer = x\<rparr> q" for q x
    using Cons.prems(1) that by (auto simp: approves_def stores_inv_def)
  have "stores_inv (ox_runtime cx) ?S ?A (fst (oauth_step cx call st))"
  proof (rule oauth_step_keeps)
    show "stores_inv (ox_runtime cx) ?S ?A st"
      by (rule stores_inv_mono [OF Cons.prems(1) started_in_mono approved_in_mono])
    show "q \<in> ?S" if "started cx (snd call) q" for q using that by (auto simp: started_in_def)
    show "q \<in> ?A" if "approves cx \<lparr>ev_state = st, ev_request = snd call, ev_answer = x\<rparr> q" for q x
      by (rule new [OF entry [OF that]]) (use that in \<open>simp add: approves_def\<close>)
  qed
  then show ?case using Cons.IH [OF _ rest(1), of "past @ [?ev]"] by (simp add: step rest(2))
qed simp

lemma new_stores_inv:
  "new_pending_store m t = Inr ps \<Longrightarrow> new_code_store m' t' = Inr cs \<Longrightarrow>
     stores_inv rt S A \<lparr>os_pending = Some ps, os_codes = Some cs\<rparr>"
  using new_pending_store_Inr new_code_store_Inr by (simp add: stores_inv_def)

lemma token_answer_cases:
  assumes "handle_oauth_token_request cx env r st = (st', Inr (Some res))" and "rs_status res = 200"
  obtains api_token code c where
    "truthy (cfg_api_token (ox_config cx)) = Some api_token" "rq_method r = ''POST''"
    "exact_code (rt_form_parse (ox_runtime cx) (rq_body r)) = Some code"
    "snd (on_codes (code_consume (ox_runtime cx) (oe_clock env 0) code) st) = Inr (Some c)"
    "res = redeem_consumed cx env api_token (rt_form_parse (ox_runtime cx) (rq_body r)) c"
proof -
  have form: "rs_status e \<noteq> 200" if "parse_token_form (ox_runtime cx) r = Inl e" for e
    using that by (auto simp: parse_token_form_def split: if_splits option.splits length_check.splits)
  have ps: "ps = rt_form_parse (ox_runtime cx) (rq_body r)" if "parse_token_form (ox_runtime cx) r = Inr ps" for ps
    using that by (auto simp: parse_token_form_def split: if_splits option.splits length_check.splits)
  show thesis
    using assms that form ps unfolding handle_oauth_token_request_def Let_def
    by (auto simp: io_bind_def io_ret_def split: if_splits option.splits sum.splits prod.splits)
qed

lemma redeem_consumed_200:
  assumes "rs_status (redeem_consumed cx env api_token ps c) = 200"
  obtains t grant secret token claims where
    "validate_oauth_token_request (ox_runtime cx) ps (cc_binding c) = Inr t"
    "derive_oauth_capability_grant (cc_scopes c) CAPABILITY_REGISTRY = Inr grant"
    "derive_oauth_resource_session_secret (ox_runtime cx) api_token (cb_resource (cc_binding c)) = Inr secret"
    "issue_capability_session (ox_runtime cx) secret grant OAUTH_ACCESS_TOKEN_TTL_SECONDS (oe_now_ms env) (oe_uuid env)
       = Inr (token, claims)"
    "redeem_consumed cx env api_token ps c = oauth_json (token_json token claims) 200 []"
  using assms unfolding redeem_consumed_def
  by (auto split: if_splits sum.splits prod.splits)


section \<open>The property\<close>

text \<open>
  C1. No token without the operator's approval. Take any sequence of requests to the three OAuth
  endpoints, from two new stores, and then a token request that is answered 200. There is an
  authorization request \<open>q\<close> that was validated, under the policy its URL resolved to, in one call of the
  sequence and approved, while it was pending, in a later one by the bearer of the root token. The token
  request names the client, redirect URI and resource of \<open>q\<close> and proves its PKCE challenge; and the
  answer is the token for fifteen minutes of exactly the grant that the scopes of \<open>q\<close> derive, signed with
  the secret of the resource of \<open>q\<close>.
\<close>

theorem token_needs_root_approval:
  assumes "new_pending_store m t = Inr ps" and "new_code_store m' t' = Inr cs"
    and "oauth_run cx calls \<lparr>os_pending = Some ps, os_codes = Some cs\<rparr> = (st, events)"
    and "handle_oauth_token_request cx env r st = (st', Inr (Some res))" and "rs_status res = 200"
  shows "\<exists>q before ev after v grant api_token secret token claims.
     events = before @ ev # after \<and> approves cx ev q \<and> (\<exists>first \<in> set before. started cx (ev_request first) q)
     \<and> same_params TOKEN_PARAMS (rt_form_parse (ox_runtime cx) (rq_body r)) (token_params v)
     \<and> tr_client_id v = or_client_id q \<and> tr_redirect_uri v = or_redirect_uri q \<and> tr_resource v = or_resource q
     \<and> pkce_s256_challenge (ox_runtime cx) (tr_code_verifier v) = Some (or_code_challenge q)
     \<and> derive_oauth_capability_grant (or_scopes q) CAPABILITY_REGISTRY = Inr grant
     \<and> cfg_api_token (ox_config cx) = Some api_token
     \<and> derive_oauth_resource_session_secret (ox_runtime cx) api_token (or_resource q) = Inr secret
     \<and> issue_capability_session (ox_runtime cx) secret grant 900 (oe_now_ms env) (oe_uuid env) = Inr (token, claims)
     \<and> res = oauth_json (token_json token claims) 200 []"
proof -
  let ?rt = "ox_runtime cx" and ?form = "rt_form_parse (ox_runtime cx) (rq_body r)"
  have inv: "stores_inv ?rt (started_in cx events) (approved_in cx events) st"
    using oauth_run_keeps [OF new_stores_inv [OF assms(1,2)] assms(3), of "[]"] by simp
  obtain api_token code c where api: "truthy (cfg_api_token (ox_config cx)) = Some api_token"
    and c: "snd (on_codes (code_consume ?rt (oe_clock env 0) code) st) = Inr (Some c)"
    and res: "res = redeem_consumed cx env api_token ?form c"
    by (rule token_answer_cases [OF assms(4,5)])
  obtain q where q: "q \<in> approved_in cx events" "authority_of_consumed c = authority_of_request q"
    using keeps_consume inv c unfolding io_keeps_def by blast
  then have same: "cb_client_id (cc_binding c) = or_client_id q" "cb_redirect_uri (cc_binding c) = or_redirect_uri q"
    "cb_resource (cc_binding c) = or_resource q" "cc_scopes c = or_scopes q"
    "cb_code_challenge (cc_binding c) = or_code_challenge q"
    by (simp_all add: authority_of_consumed_def authority_of_request_def)
  obtain v grant secret token claims where
    v: "validate_oauth_token_request ?rt ?form (cc_binding c) = Inr v"
    and raw: "derive_oauth_capability_grant (cc_scopes c) CAPABILITY_REGISTRY = Inr grant"
      "derive_oauth_resource_session_secret ?rt api_token (cb_resource (cc_binding c)) = Inr secret"
      "issue_capability_session ?rt secret grant OAUTH_ACCESS_TOKEN_TTL_SECONDS (oe_now_ms env) (oe_uuid env) = Inr (token, claims)"
      "redeem_consumed cx env api_token ?form c = oauth_json (token_json token claims) 200 []"
    by (rule redeem_consumed_200 [OF assms(5) [unfolded res]])
  have "OAUTH_ACCESS_TOKEN_TTL_SECONDS = 900" by (simp add: OAUTH_ACCESS_TOKEN_TTL_SECONDS_def)
  note rest = raw [unfolded same this, folded res]
  have "redeems ?rt (cc_binding c) v" and form: "same_params TOKEN_PARAMS ?form (token_params v)"
    using token_request_sound [OF v] by simp_all
  then have bound: "tr_client_id v = or_client_id q" "tr_redirect_uri v = or_redirect_uri q" "tr_resource v = or_resource q"
    "pkce_s256_challenge ?rt (tr_code_verifier v) = Some (or_code_challenge q)"
    by (simp_all add: redeems_def same pkce_s256_challenge_def)
  have "cfg_api_token (ox_config cx) = Some api_token" using api by simp
  moreover obtain before ev after where "events = before @ ev # after" "approves cx ev q"
    "\<exists>first \<in> set before. started cx (ev_request first) q"
    using q(1) by (auto simp: approved_in_def started_in_def)
  ultimately show ?thesis using form bound rest by blast
qed


text \<open>A run of three calls, from the authorization request to the redirect with the code, for a static client.\<close>

definition flow_id :: string where
  "flow_id = replicate 16 (CHR ''A'')"

definition flow_runtime :: runtime where
  "flow_runtime = example_oauth_runtime\<lparr>
     rt_json_parse := (\<lambda>s. Some (JObj [(''decision'', JStr ''approved'')])),
     rt_form_parse := (\<lambda>s. [(''grant_type'', ''authorization_code''), (''code'', example_code), (''client_id'', ''client-1''),
       (''redirect_uri'', ''https://app.example/cb''), (''resource'', ''https://gateway.example/mcp''),
       (''code_verifier'', replicate 43 (CHR ''v''))])\<rparr>"

definition flow_context :: oauth_context where
  "flow_context = \<lparr>ox_runtime = flow_runtime, ox_config = example_config, ox_policy = Some example_policy, ox_cimd = None\<rparr>"

definition flow_env :: oauth_env where
  "flow_env = \<lparr>oe_clock = (\<lambda>n. Some 10), oe_ids = [flow_id], oe_codes = [example_code], oe_now_ms = 1000000,
     oe_uuid = ''0000-1111'', oe_continue_uri = (\<lambda>issuer k. Some issuer)\<rparr>"

definition flow_calls :: "(oauth_env \<times> request) list" where
  "flow_calls =
     [(flow_env, (example_request ''GET'' ''/oauth/authorize'' [])\<lparr>rq_url := example_authorize_url ''xyz''\<rparr>),
      (flow_env, example_request ''POST'' (CONSENT_PREFIX @ flow_id @ CONSENT_SUFFIX) ''root''),
      (flow_env, (example_request ''GET'' ''/oauth/authorize'' [])
         \<lparr>rq_url := (example_url ''/oauth/authorize'')\<lparr>u_params := [(''request_id'', flow_id)]\<rparr>\<rparr>)]"

definition flow_token :: request where
  "flow_token = \<lparr>rq_method = ''POST'', rq_url = example_url ''/oauth/token'',
     rq_headers = [(''content-type'', ''application/x-www-form-urlencoded'')], rq_body = []\<rparr>"

definition flow_run :: "oauth_state \<times> oauth_event list" where
  "flow_run = oauth_run flow_context flow_calls \<lparr>os_pending = Some example_store, os_codes = Some example_code_store\<rparr>"

lemma flow_token_issued:
  "map_option rs_status (case snd (handle_oauth_token_request flow_context flow_env flow_token (fst flow_run)) of
     Inr x \<Rightarrow> x | _ \<Rightarrow> None) = Some 200"
  by code_simp

theorem token_needs_root_approval_witness:
  "\<exists>q before ev after. snd flow_run = before @ ev # after \<and> approves flow_context ev q
     \<and> (\<exists>first \<in> set before. started flow_context (ev_request first) q)"
proof -
  obtain st' res where res: "handle_oauth_token_request flow_context flow_env flow_token (fst flow_run) = (st', Inr (Some res))"
    and status: "rs_status res = 200"
    using flow_token_issued by (cases "handle_oauth_token_request flow_context flow_env flow_token (fst flow_run)")
      (auto split: sum.splits)
  have stores: "new_pending_store (Some 64) (Some 300000) = Inr example_store"
    "new_code_store (Some 64) (Some 120000) = Inr example_code_store"
    by code_simp+
  have run: "oauth_run flow_context flow_calls \<lparr>os_pending = Some example_store, os_codes = Some example_code_store\<rparr>
      = (fst flow_run, snd flow_run)"
    by (simp add: flow_run_def)
  from token_needs_root_approval [OF stores run res status] show ?thesis by blast
qed

end
