(* ===== verification/Doubles.thy ===== *)
theory Doubles
  imports Complex_Main
begin

text \<open>
  Numbers of the language: rationals rounded to the nearest double, ties to even, after each operation. The exponent has no
  upper limit: where the code computes with doubles, a value beyond the largest double is only compared with smaller ones.
\<close>

definition round_even :: "rat \<Rightarrow> int" where
  "round_even y =
     (let f = \<lfloor>y\<rfloor>; r = y - of_int f
      in if r < 1 / 2 then f else if r > 1 / 2 then f + 1 else if even f then f else f + 1)"

text \<open>The length in bits of a positive integer, and the exponent of the leading bit of a positive number.\<close>

function int_bits :: "int \<Rightarrow> nat" where
  "int_bits n = (if n \<le> 0 then 0 else Suc (int_bits (n div 2)))"
  by pat_completeness auto
termination by (relation "measure nat") auto

declare int_bits.simps [simp del]

definition leading_bit :: "rat \<Rightarrow> int" where
  "leading_bit x =
     (let (p, q) = quotient_of x; k = int (int_bits p) - int (int_bits q)
      in if 2 powi k \<le> x then k else k - 1)"

definition least_double :: rat where
  "least_double = 2 powi (- 1074)"

text \<open>The relative error of a rounding.\<close>

definition unit_roundoff :: rat where
  "unit_roundoff = 1 / 2 ^ 53"

definition double_ulp :: "rat \<Rightarrow> rat" where
  "double_ulp x = 2 powi (max (- 1074) (leading_bit \<bar>x\<bar> - 52))"

definition to_double :: "rat \<Rightarrow> rat" where
  "to_double x = (if x = 0 then 0 else of_int (round_even (x / double_ulp x)) * double_ulp x)"

lemma round_even_error: "\<bar>of_int (round_even y) - y\<bar> \<le> 1 / 2"
  using floor_correct [of y] by (auto simp: round_even_def Let_def)

lemma round_even_int [simp]: "round_even (of_int i) = i"
  by (simp add: round_even_def)

lemma round_even_nonneg: "0 \<le> y \<Longrightarrow> 0 \<le> round_even y"
  by (auto simp: round_even_def Let_def)

lemma int_bits_bounds: "0 < n \<Longrightarrow> 2 ^ (int_bits n - 1) \<le> n \<and> n < 2 ^ int_bits n"
proof (induction n rule: int_bits.induct)
  case (1 n)
  show ?case
  proof (cases "n = 1")
    case True
    then show ?thesis by (simp add: int_bits.simps [of 1] int_bits.simps [of 0])
  next
    case False
    define m where "m = n div 2"
    have m: "0 < m" "2 * m \<le> n" "n \<le> 2 * m + 1" using 1(2) False by (auto simp: m_def)
    from 1 m(1) have "2 ^ (int_bits m - 1) \<le> m" "m < 2 ^ int_bits m" by (simp_all add: m_def)
    moreover have "int_bits n = Suc (int_bits m)" using 1(2) by (simp add: int_bits.simps [of n] m_def)
    moreover have "(2::int) ^ int_bits m = 2 * 2 ^ (int_bits m - 1)"
      using m(1) by (simp add: int_bits.simps [of m])
    ultimately show ?thesis using m by simp
  qed
qed

lemma leading_bit_le:
  assumes "0 < x"
  shows "2 powi leading_bit x \<le> x"
proof -
  obtain p q where pq: "quotient_of x = (p, q)" by fastforce
  have q: "0 < q" using pq by (rule quotient_of_denom_pos)
  have x: "x = of_int p / of_int q" using pq by (rule quotient_of_div)
  have p: "0 < p" using assms q by (simp add: x zero_less_divide_iff)
  define a b where "a = int_bits p" and "b = int_bits q"
  have "0 < a" using p by (simp add: a_def int_bits.simps [of p])
  have "(2::int) ^ (a - 1) \<le> p" "q < (2::int) ^ b" using int_bits_bounds p q by (simp_all add: a_def b_def)
  then have "rat_of_int (2 ^ (a - 1)) \<le> of_int p" "rat_of_int q < of_int (2 ^ b)" by (simp_all only: of_int_le_iff of_int_less_iff)
  then have "(2::rat) ^ (a - 1) / 2 ^ b \<le> x"
    unfolding x using p q by (intro frac_le) simp_all
  moreover have "(2::rat) powi (int a - int b - 1) = 2 ^ (a - 1) / 2 ^ b"
  proof -
    have "int a - int b - 1 = int (a - 1) - int b" using \<open>0 < a\<close> by linarith
    moreover have "(2::rat) powi (int (a - 1) - int b) = 2 powi int (a - 1) / 2 powi int b" by (rule power_int_diff) simp
    ultimately show ?thesis by (simp only: power_int_of_nat)
  qed
  ultimately show ?thesis by (simp add: leading_bit_def pq a_def b_def Let_def)
qed

lemma double_ulp_pos [simp]: "0 < double_ulp x"
  by (simp add: double_ulp_def)

lemma least_double_pos [simp]: "0 < least_double"
  by (simp add: least_double_def)

lemma unit_roundoff_bounds: "0 < unit_roundoff" "unit_roundoff \<le> 1 / 8"
  by (simp_all add: unit_roundoff_def)

lemma double_ulp_le:
  assumes "x \<noteq> 0"
  shows "double_ulp x \<le> \<bar>x\<bar> / 2 ^ 52 + least_double"
proof (cases "leading_bit \<bar>x\<bar> - 52 \<le> - 1074")
  case True
  then have "double_ulp x = least_double" unfolding double_ulp_def least_double_def by (simp only: max_absorb1)
  then show ?thesis by simp
next
  case False
  then have "double_ulp x = 2 powi (leading_bit \<bar>x\<bar> - 52)" by (simp add: double_ulp_def max_def)
  also have "\<dots> = 2 powi leading_bit \<bar>x\<bar> / 2 ^ 52" by (simp add: power_int_diff)
  also have "\<dots> \<le> \<bar>x\<bar> / 2 ^ 52" using leading_bit_le [of "\<bar>x\<bar>"] assms by (intro divide_right_mono) simp_all
  also have "\<dots> \<le> \<bar>x\<bar> / 2 ^ 52 + least_double" using least_double_pos by linarith
  finally show ?thesis .
qed

text \<open>The error of one rounding: relative to the value, but for the smallest numbers.\<close>

lemma to_double_error: "\<bar>to_double x - x\<bar> \<le> \<bar>x\<bar> * unit_roundoff + least_double / 2"
proof (cases "x = 0")
  case False
  let ?u = "double_ulp x"
  have u: "0 < ?u" by simp
  have "to_double x - x = (of_int (round_even (x / ?u)) - x / ?u) * ?u"
    using False less_imp_neq [OF u] by (simp add: to_double_def left_diff_distrib)
  then have "\<bar>to_double x - x\<bar> = \<bar>of_int (round_even (x / ?u)) - x / ?u\<bar> * ?u"
    by (simp only: abs_mult abs_of_pos [OF u])
  also have "\<dots> \<le> 1 / 2 * ?u" by (intro mult_right_mono round_even_error less_imp_le u)
  also have "\<dots> \<le> 1 / 2 * (\<bar>x\<bar> / 2 ^ 52 + least_double)" using double_ulp_le [OF False] by simp
  also have "\<dots> = \<bar>x\<bar> * unit_roundoff + least_double / 2" by (simp add: unit_roundoff_def)
  finally show ?thesis .
qed (simp add: to_double_def less_imp_le)

lemma to_double_upper: "0 \<le> x \<Longrightarrow> to_double x \<le> x + x * unit_roundoff + least_double / 2"
  using to_double_error [of x] by linarith

lemma to_double_below:
  assumes "0 \<le> x" and "x \<le> m"
  shows "to_double x \<le> x + m * unit_roundoff + least_double / 2"
proof -
  have "x * unit_roundoff \<le> m * unit_roundoff"
    using assms(2) unit_roundoff_bounds(1) by (intro mult_right_mono) simp_all
  with to_double_upper [OF assms(1)] show ?thesis by linarith
qed

lemma to_double_nonneg: "0 \<le> x \<Longrightarrow> 0 \<le> to_double x"
  by (simp add: to_double_def round_even_nonneg divide_nonneg_pos less_imp_le)

lemma to_double_0 [simp]: "to_double 0 = 0"
  by (simp add: to_double_def)

text \<open>Integers of at most 53 bits are exact.\<close>

lemma to_double_int:
  assumes "\<bar>i\<bar> < 2 ^ 53"
  shows "to_double (of_int i) = of_int i"
proof (cases "i = 0")
  case False
  have "2 powi leading_bit \<bar>rat_of_int i\<bar> \<le> \<bar>rat_of_int i\<bar>" using False by (intro leading_bit_le) simp
  also have "\<dots> < 2 powi 53" using assms by (simp flip: of_int_abs)
  finally have "leading_bit \<bar>rat_of_int i\<bar> < 53"
    using power_int_increasing [of 53 "leading_bit \<bar>rat_of_int i\<bar>" "2::rat"] by (meson linorder_not_less one_le_numeral)
  then have "max (- 1074) (leading_bit \<bar>rat_of_int i\<bar> - 52) \<le> 0" by simp
  then obtain n where n: "max (- 1074) (leading_bit \<bar>rat_of_int i\<bar> - 52) = - int n" by (metis nonpos_int_cases)
  then have ulp: "double_ulp (of_int i) = 1 / 2 ^ n" by (simp add: double_ulp_def power_int_minus divide_inverse)
  have "of_int i / double_ulp (of_int i) = of_int (i * 2 ^ n)" by (simp add: ulp)
  then have "round_even (of_int i / double_ulp (of_int i)) = i * 2 ^ n" by (simp only: round_even_int)
  then have "to_double (of_int i) = of_int (i * 2 ^ n) * double_ulp (of_int i)"
    using False by (simp only: to_double_def of_int_eq_0_iff if_False)
  then show ?thesis by (simp add: ulp)
qed simp

lemma to_double_1 [simp]: "to_double 1 = 1"
  using to_double_int [of 1] by simp

end
