(* ===== verification/Admission.thy ===== *)
theory Admission
  imports Doubles
begin

text \<open>
  The admission of task submissions, a token bucket (\<open>gateway/src/admission.ts\<close>). The rate, the tokens and the clock,
  whose reading in milliseconds may have a fraction, are doubles, and each operation on them rounds (\<open>Doubles\<close>). The
  state of the object is the record, and each call is given the reading of the clock it makes. The wait that a refusal
  advises is infinite in the code for rates below \<open>2\<^sup>-\<^sup>1\<^sup>0\<^sup>2\<^sup>3\<close>; the service's rates are at least 1.
\<close>

record bucket =
  bk_rate :: rat
  bk_burst :: int
  bk_tokens :: rat
  bk_last_ms :: rat

record admission_decision =
  ad_allowed :: bool
  ad_retry_after :: int

definition new_bucket :: "rat \<Rightarrow> int \<Rightarrow> rat \<Rightarrow> string + bucket" where
  "new_bucket rate burst now =
     (if rate \<le> 0 then Inl ''ratePerSecond must be greater than zero''
      else if burst \<le> 0 then Inl ''burst must be a positive integer''
      else Inr \<lparr>bk_rate = rate, bk_burst = burst, bk_tokens = of_int burst, bk_last_ms = now\<rparr>)"

definition refilled :: "rat \<Rightarrow> bucket \<Rightarrow> rat" where
  "refilled now b =
     (let elapsed = max 0 (to_double (now - bk_last_ms b))
      in min (of_int (bk_burst b))
           (to_double (bk_tokens b + to_double (to_double (elapsed / 1000) * bk_rate b))))"

definition try_acquire :: "rat \<Rightarrow> bucket \<Rightarrow> bucket \<times> admission_decision" where
  "try_acquire now b =
     (let tokens = refilled now b
      in if tokens \<ge> 1
           then (b\<lparr>bk_tokens := to_double (tokens - 1), bk_last_ms := now\<rparr>, \<lparr>ad_allowed = True, ad_retry_after = 0\<rparr>)
         else
           (let missing = to_double (1 - tokens)
            in (b\<lparr>bk_tokens := tokens, bk_last_ms := now\<rparr>,
                \<lparr>ad_allowed = False, ad_retry_after = max 1 \<lceil>to_double (missing / bk_rate b)\<rceil>\<rparr>)))"

fun acquire_all :: "rat list \<Rightarrow> bucket \<Rightarrow> bucket \<times> admission_decision list" where
  "acquire_all [] b = (b, [])"
| "acquire_all (now # readings) b =
     (let (b1, d) = try_acquire now b; (b2, ds) = acquire_all readings b1 in (b2, d # ds))"

section \<open>The invariant\<close>

definition bucket_ok :: "bucket \<Rightarrow> bool" where
  "bucket_ok b \<longleftrightarrow> 0 < bk_rate b \<and> 0 < bk_burst b \<and> 0 \<le> bk_tokens b"

definition admitted :: "admission_decision list \<Rightarrow> nat" where
  "admitted ds = length (filter ad_allowed ds)"

lemma admitted_simps [simp]:
  "admitted [] = 0" "admitted (d # ds) = (if ad_allowed d then 1 else 0) + admitted ds"
  by (simp_all add: admitted_def)

lemma new_bucket_Inr:
  "new_bucket rate burst now = Inr b \<longleftrightarrow>
     0 < rate \<and> 0 < burst \<and> b = \<lparr>bk_rate = rate, bk_burst = burst, bk_tokens = of_int burst, bk_last_ms = now\<rparr>"
  by (auto simp: new_bucket_def)

lemma new_bucket_ok: "new_bucket rate burst now = Inr b \<Longrightarrow> bucket_ok b"
  by (auto simp: new_bucket_Inr bucket_ok_def)

lemma try_acquire_same [simp]:
  "bk_rate (fst (try_acquire now b)) = bk_rate b"
  "bk_burst (fst (try_acquire now b)) = bk_burst b"
  "bk_last_ms (fst (try_acquire now b)) = now"
  by (simp_all add: try_acquire_def Let_def)

lemma try_acquire_tokens:
  "bk_tokens (fst (try_acquire now b)) = (if ad_allowed (snd (try_acquire now b)) then to_double (refilled now b - 1) else refilled now b)"
  "ad_allowed (snd (try_acquire now b)) \<longleftrightarrow> 1 \<le> refilled now b"
  by (simp_all add: try_acquire_def Let_def)

lemma retry_after_positive: "try_acquire now b = (b', d) \<Longrightarrow> \<not> ad_allowed d \<Longrightarrow> 1 \<le> ad_retry_after d"
  by (auto simp: try_acquire_def Let_def split: if_splits)

text \<open>What rounding can add in one call: to the refill in proportion to it, to the sums in proportion to the burst.\<close>

definition call_slack :: "rat \<Rightarrow> int \<Rightarrow> rat" where
  "call_slack rate burst = 2 * of_int burst * unit_roundoff + (rate + 2) * least_double"

lemma rounding_factors:
  "(1 + unit_roundoff) ^ 3 \<le> 1 + 4 * unit_roundoff"
  "((1 + unit_roundoff) / 1000 + 1) * (1 + unit_roundoff) \<le> 2"
  by (simp_all add: unit_roundoff_def power3_eq_cube)

lemma refill_upper:
  assumes "0 \<le> d" and "0 \<le> rate"
  shows "to_double (to_double (to_double d / 1000) * rate)
    \<le> d / 1000 * rate * (1 + 4 * unit_roundoff) + rate * least_double + least_double / 2"
proof -
  define h u where "h = least_double / 2" and "u = 1 + unit_roundoff"
  have h: "0 \<le> h" and u: "0 \<le> u" using unit_roundoff_bounds(1) by (simp_all add: h_def u_def less_imp_le)
  have up: "to_double x \<le> x * u + h" if "0 \<le> x" for x
    using to_double_upper [OF that] by (simp add: h_def u_def distrib_left)
  have "0 \<le> to_double d / 1000" using to_double_nonneg [OF assms(1)] by simp
  from up [OF this] have "to_double (to_double d / 1000) \<le> to_double d / 1000 * u + h" .
  also have "\<dots> \<le> (d * u + h) / 1000 * u + h"
    using up [OF assms(1)] u by (intro add_mono mult_right_mono divide_right_mono) simp_all
  finally have 2: "to_double (to_double d / 1000) * rate \<le> ((d * u + h) / 1000 * u + h) * rate" (is "?x \<le> ?y")
    using assms(2) by (rule mult_right_mono)
  have "0 \<le> ?x" using assms by (intro mult_nonneg_nonneg to_double_nonneg divide_nonneg_pos) simp_all
  from up [OF this] have "to_double ?x \<le> ?x * u + h" .
  also have "\<dots> \<le> ?y * u + h" using mult_right_mono [OF 2 u] by simp
  also have "\<dots> = d / 1000 * rate * u ^ 3 + rate * h * ((u / 1000 + 1) * u) + h"
    by (simp add: power3_eq_cube field_simps)
  also have "\<dots> \<le> d / 1000 * rate * (1 + 4 * unit_roundoff) + rate * h * 2 + h"
    using assms h rounding_factors [folded u_def] by (intro add_mono mult_left_mono mult_nonneg_nonneg order_refl) simp_all
  finally show ?thesis by (simp add: h_def)
qed

lemma refilled_bounds:
  assumes "bucket_ok b" and "bk_last_ms b \<le> now"
  shows "0 \<le> refilled now b" and "refilled now b \<le> of_int (bk_burst b)"
    and "refilled now b \<le> bk_tokens b + (now - bk_last_ms b) / 1000 * bk_rate b * (1 + 4 * unit_roundoff)
      + of_int (bk_burst b) * unit_roundoff + (bk_rate b + 1) * least_double"
proof -
  let ?d = "now - bk_last_ms b"
  let ?refill = "to_double (to_double (to_double ?d / 1000) * bk_rate b)"
  have b: "0 < bk_rate b" "0 < bk_burst b" "0 \<le> bk_tokens b" using assms(1) by (simp_all add: bucket_ok_def)
  have "0 \<le> ?d" using assms(2) by simp
  then have d: "max 0 (to_double ?d) = to_double ?d" using to_double_nonneg by (simp add: max_def)
  then have refilled: "refilled now b = min (of_int (bk_burst b)) (to_double (bk_tokens b + ?refill))"
    by (simp add: refilled_def Let_def)
  have pos: "0 \<le> ?refill"
    using b \<open>0 \<le> ?d\<close> by (intro to_double_nonneg mult_nonneg_nonneg divide_nonneg_pos) simp_all
  with b show "0 \<le> refilled now b" unfolding refilled by (simp add: to_double_nonneg)
  show "refilled now b \<le> of_int (bk_burst b)" unfolding refilled by simp
  have sum: "refilled now b \<le> bk_tokens b + ?refill + of_int (bk_burst b) * unit_roundoff + least_double / 2"
  proof (cases "bk_tokens b + ?refill \<le> of_int (bk_burst b)")
    case True
    then have "to_double (bk_tokens b + ?refill) \<le> bk_tokens b + ?refill + of_int (bk_burst b) * unit_roundoff + least_double / 2"
      using pos b by (intro to_double_below) simp_all
    then show ?thesis unfolding refilled by linarith
  next
    case False
    moreover have "0 \<le> rat_of_int (bk_burst b) * unit_roundoff + least_double / 2"
      using b unit_roundoff_bounds(1) by (simp add: less_imp_le)
    ultimately show ?thesis unfolding refilled by linarith
  qed
  have "?refill \<le> ?d / 1000 * bk_rate b * (1 + 4 * unit_roundoff) + bk_rate b * least_double + least_double / 2"
    using \<open>0 \<le> ?d\<close> b by (intro refill_upper) simp_all
  with sum show "refilled now b \<le> bk_tokens b + ?d / 1000 * bk_rate b * (1 + 4 * unit_roundoff)
      + of_int (bk_burst b) * unit_roundoff + (bk_rate b + 1) * least_double"
    by (simp add: distrib_right)
qed

lemma try_acquire_left:
  assumes "bucket_ok b"
  shows "bk_tokens (fst (try_acquire now b)) + (if ad_allowed (snd (try_acquire now b)) then 1 else 0)
    \<le> refilled now b + of_int (bk_burst b) * unit_roundoff + least_double / 2"
proof (cases "1 \<le> refilled now b")
  case True
  then have "to_double (refilled now b - 1) \<le> (refilled now b - 1) + of_int (bk_burst b) * unit_roundoff + least_double / 2"
    by (intro to_double_below) (simp_all add: refilled_def Let_def)
  with True show ?thesis by (simp add: try_acquire_tokens)
next
  case False
  have "0 \<le> rat_of_int (bk_burst b) * unit_roundoff + least_double / 2"
    using assms unit_roundoff_bounds(1) by (simp add: bucket_ok_def less_imp_le)
  with False show ?thesis by (simp add: try_acquire_tokens)
qed

lemma refilled_nonneg: "bucket_ok b \<Longrightarrow> 0 \<le> refilled now b"
  by (auto simp: refilled_def bucket_ok_def Let_def intro!: to_double_nonneg add_nonneg_nonneg mult_nonneg_nonneg)

lemma try_acquire_ok: "bucket_ok b \<Longrightarrow> bucket_ok (fst (try_acquire now b))"
  using refilled_nonneg [of b now] by (auto simp: bucket_ok_def try_acquire_tokens to_double_nonneg)

lemma acquire_all_Cons:
  "fst (acquire_all (now # readings) b) = fst (acquire_all readings (fst (try_acquire now b)))"
  "snd (acquire_all (now # readings) b) = snd (try_acquire now b) # snd (acquire_all readings (fst (try_acquire now b)))"
  by (simp_all add: Let_def split: prod.split)

lemma acquire_all_ok: "bucket_ok b \<Longrightarrow> bucket_ok (fst (acquire_all readings b))"
proof (induction readings arbitrary: b)
  case (Cons now readings)
  then show ?case using try_acquire_ok [of b now] by (simp add: acquire_all_Cons del: acquire_all.simps(2))
qed simp

lemma acquire_all_same:
  "bk_rate (fst (acquire_all readings b)) = bk_rate b \<and> bk_burst (fst (acquire_all readings b)) = bk_burst b"
  by (induction readings arbitrary: b) (simp_all add: acquire_all_Cons del: acquire_all.simps(2))

text \<open>Every admission takes a token, and tokens come back no faster than the rate, but for the rounding.\<close>

lemma tokens_conserved:
  assumes "bucket_ok b" and "sorted (bk_last_ms b # readings)"
  shows "of_nat (admitted (snd (acquire_all readings b))) + bk_tokens (fst (acquire_all readings b))
     \<le> bk_tokens b + (last (bk_last_ms b # readings) - bk_last_ms b) / 1000 * bk_rate b * (1 + 4 * unit_roundoff)
       + of_nat (length readings) * call_slack (bk_rate b) (bk_burst b)"
  using assms
proof (induction readings arbitrary: b)
  case (Cons now readings)
  let ?b = "fst (try_acquire now b)"
  let ?k = "bk_rate b * (1 + 4 * unit_roundoff)" and ?slack = "call_slack (bk_rate b) (bk_burst b)"
  have now: "bk_last_ms b \<le> now" and sorted: "sorted (bk_last_ms ?b # readings)"
    using Cons.prems(2) by auto
  have step: "bk_tokens ?b + (if ad_allowed (snd (try_acquire now b)) then 1 else 0)
      \<le> bk_tokens b + (now - bk_last_ms b) / 1000 * ?k + ?slack"
  proof -
    have "?slack = of_int (bk_burst b) * unit_roundoff + of_int (bk_burst b) * unit_roundoff + (bk_rate b + 1) * least_double + least_double"
      by (simp add: call_slack_def distrib_right)
    moreover have "refilled now b \<le> bk_tokens b + (now - bk_last_ms b) / 1000 * ?k
        + of_int (bk_burst b) * unit_roundoff + (bk_rate b + 1) * least_double"
      using refilled_bounds(3) [OF Cons.prems(1) now] by (simp only: mult.assoc)
    ultimately show ?thesis using try_acquire_left [OF Cons.prems(1), of now] least_double_pos by linarith
  qed
  define l where "l = last (now # readings)"
  have split: "(l - now) / 1000 * ?k + (now - bk_last_ms b) / 1000 * ?k = (l - bk_last_ms b) / 1000 * ?k"
    by (simp add: left_diff_distrib flip: add_divide_distrib distrib_right)
  have "last (bk_last_ms ?b # readings) = l" "last (bk_last_ms b # now # readings) = l"
    by (simp_all add: l_def)
  with Cons.IH [OF try_acquire_ok [OF Cons.prems(1)] sorted] have
    rest: "of_nat (admitted (snd (acquire_all readings ?b))) + bk_tokens (fst (acquire_all readings ?b))
       \<le> bk_tokens ?b + (l - now) / 1000 * ?k + of_nat (length readings) * ?slack"
    by (simp only: try_acquire_same mult.assoc)
  have "rat_of_nat (admitted (snd (acquire_all (now # readings) b)))
      = (if ad_allowed (snd (try_acquire now b)) then 1 else 0) + of_nat (admitted (snd (acquire_all readings ?b)))"
    by (simp add: acquire_all_Cons del: acquire_all.simps(2))
  moreover have "rat_of_nat (length (now # readings)) * ?slack = ?slack + of_nat (length readings) * ?slack"
    by (simp add: distrib_right)
  ultimately show ?case
    using rest step split unfolding acquire_all_Cons(1) \<open>last (bk_last_ms b # now # readings) = l\<close> mult.assoc
    by linarith
qed simp

section \<open>Properties\<close>

text \<open>
  C20. The rate is never exceeded by more than the rounding, in any window. Whatever the bucket went through before, in a
  sequence of calls at non-decreasing times the admissions number at most the burst, plus the rate times the seconds
  between the first and the last of the calls, plus what the rounding of doubles may add: \<open>2\<^sup>-\<^sup>5\<^sup>1\<close> of the refill in
  all (\<open>unit_roundoff\<close> is \<open>2\<^sup>-\<^sup>5\<^sup>3\<close>), and in each call \<open>2\<^sup>-\<^sup>5\<^sup>2\<close> of the burst and a few times the least double. That
  something must be added is shown by the example below.
\<close>

theorem admission_rate_bounded:
  assumes "new_bucket rate burst t0 = Inr b"
    and "sorted (t # readings)"
  shows "rat_of_nat (admitted (snd (acquire_all (t # readings) (fst (acquire_all earlier b)))))
     \<le> of_int burst + (last (t # readings) - t) / 1000 * rate * (1 + 4 * unit_roundoff)
       + of_nat (length (t # readings)) * (2 * of_int burst * unit_roundoff + (rate + 2) * least_double)"
proof -
  let ?b = "fst (acquire_all earlier b)" and ?d = "snd (try_acquire t (fst (acquire_all earlier b)))"
  let ?b1 = "fst (try_acquire t ?b)"
  have b: "bucket_ok ?b" "bk_rate ?b = rate" "bk_burst ?b = burst" "0 < rate" "0 < burst"
    using acquire_all_ok [OF new_bucket_ok [OF assms(1)]] acquire_all_same [of earlier b] assms(1)
    by (auto simp: new_bucket_Inr)
  have "sorted (bk_last_ms ?b1 # readings)" using assms(2) by simp
  from tokens_conserved [OF try_acquire_ok [OF b(1)] this]
  have "rat_of_nat (admitted (snd (acquire_all readings ?b1))) + bk_tokens (fst (acquire_all readings ?b1))
      \<le> bk_tokens ?b1 + (last (t # readings) - t) / 1000 * rate * (1 + 4 * unit_roundoff) + of_nat (length readings) * call_slack rate burst"
    by (simp add: b(2,3))
  moreover have "0 \<le> bk_tokens (fst (acquire_all readings ?b1))"
    using acquire_all_ok [OF try_acquire_ok [OF b(1)]] by (simp add: bucket_ok_def)
  moreover have "bk_tokens ?b1 + (if ad_allowed ?d then 1 else 0) \<le> of_int burst + call_slack rate burst"
  proof -
    have "refilled t ?b \<le> of_int burst" by (simp add: refilled_def Let_def b(3))
    moreover have "bk_tokens ?b1 + (if ad_allowed ?d then 1 else 0) \<le> refilled t ?b + of_int burst * unit_roundoff + least_double / 2"
      using try_acquire_left [OF b(1), of t] by (simp only: b(3))
    moreover have "rat_of_int burst * unit_roundoff + least_double / 2 \<le> call_slack rate burst"
    proof -
      have "least_double / 2 \<le> (rate + 2) * least_double"
        using b(4) mult_right_mono [of "1 / 2" "rate + 2" least_double] by (simp add: less_imp_le)
      moreover have "0 \<le> rat_of_int burst * unit_roundoff" using b(5) unit_roundoff_bounds(1) by simp
      ultimately show ?thesis unfolding call_slack_def by linarith
    qed
    ultimately show ?thesis by linarith
  qed
  moreover have "rat_of_nat (admitted (snd (acquire_all (t # readings) ?b)))
      = (if ad_allowed ?d then 1 else 0) + of_nat (admitted (snd (acquire_all readings ?b1)))"
    by (simp add: acquire_all_Cons del: acquire_all.simps(2))
  moreover have "rat_of_nat (length (t # readings)) * call_slack rate burst
      = call_slack rate burst + of_nat (length readings) * call_slack rate burst"
    by (simp add: distrib_right)
  ultimately show ?thesis unfolding call_slack_def by linarith
qed

text \<open>
  A refill that rounds up to a whole token: with a rate of 3 and a burst of 1, two calls are admitted within less than a
  third of a second.
\<close>

definition rounding_bucket :: bucket where
  "rounding_bucket = \<lparr>bk_rate = 3, bk_burst = 1, bk_tokens = 1, bk_last_ms = 0\<rparr>"

definition rounding_readings :: "rat list" where
  "rounding_readings = [0, 5864062014805333 / 17592186044416]"

lemma rounding_admits_one_more:
  "map to_double rounding_readings = rounding_readings"
  "admitted (snd (acquire_all rounding_readings rounding_bucket)) = 2"
  "1 + last rounding_readings / 1000 * 3 < 2"
  by code_simp+

theorem admission_rate_bounded_witness:
  "admitted (snd (acquire_all rounding_readings (fst (acquire_all [] rounding_bucket)))) \<le> 2"
proof -
  define n where "n = admitted (snd (acquire_all rounding_readings (fst (acquire_all [] rounding_bucket))))"
  have new: "new_bucket 3 1 0 = Inr rounding_bucket" by (simp add: new_bucket_def rounding_bucket_def)
  have least: "least_double \<le> 1 / 1000"
    using power_int_increasing [of "- 1074" "- 10" "2::rat"] by (simp add: least_double_def power_int_minus)
  have "rat_of_nat n \<le> of_int 1 + (last rounding_readings - 0) / 1000 * 3 * (1 + 4 * unit_roundoff)
      + of_nat (length rounding_readings) * (2 * of_int 1 * unit_roundoff + (3 + 2) * least_double)"
    using admission_rate_bounded [OF new, of 0 "tl rounding_readings" "[]"] by (simp add: n_def rounding_readings_def del: acquire_all.simps)
  also have "\<dots> < rat_of_nat 3"
    using least by (simp add: rounding_readings_def unit_roundoff_def)
  finally show ?thesis unfolding n_def [symmetric] of_nat_less_iff by simp
qed

end
