(* ===== verification/CanonicalJson.thy ===== *)
theory CanonicalJson
  imports Prelude
begin

text \<open>
  The canonical text of a JSON value (\<open>canonicalJson\<close> of \<open>gateway/src/app.ts\<close>), from which the fingerprint of
  a task request is made.
\<close>

section \<open>The canonical text of a JSON value\<close>

text \<open>The order of \<open>sort\<close> on strings, by code units.\<close>

fun str_le :: "string \<Rightarrow> string \<Rightarrow> bool" where
  "str_le [] t = True"
| "str_le (c # s) [] = False"
| "str_le (c # s) (d # t) \<longleftrightarrow> unit_of c < unit_of d \<or> c = d \<and> str_le s t"

definition key_le :: "string \<times> 'a \<Rightarrow> string \<times> 'a \<Rightarrow> bool" where
  "key_le p q = str_le (fst p) (fst q)"

lemma size_value [termination_simp]: "p \<in> set ps \<Longrightarrow> size (snd p) < Suc (size_list (size_prod (\<lambda>k. 0) size) ps)"
  by (induction ps) auto

text \<open>
  A property's value is looked up by its key, once each, so the texts may be made before the sorting.
\<close>

fun canonical_json :: "runtime \<Rightarrow> json \<Rightarrow> string" where
  "canonical_json rt (JArr vs) = ''['' @ join '','' (map (canonical_json rt) vs) @ '']''"
| "canonical_json rt (JObj ps) =
     ''{'' @ join '','' (map (\<lambda>p. rt_json_text rt (JStr (fst p)) @ '':'' @ snd p)
                          (sort_by key_le (map (\<lambda>p. (fst p, canonical_json rt (snd p))) ps))) @ ''}''"
| "canonical_json rt v = rt_json_text rt v"

section \<open>Sorting by distinct keys\<close>

lemma str_le_refl [simp]: "str_le s s"
  by (induction s) auto

lemma str_le_total: "str_le s t \<or> str_le t s"
proof (induction s t rule: str_le.induct)
  case (3 c s d t)
  then show ?case by (cases "unit_of c" "unit_of d" rule: linorder_cases) auto
qed auto

lemma str_le_trans: "str_le s t \<Longrightarrow> str_le t u \<Longrightarrow> str_le s u"
proof (induction s t arbitrary: u rule: str_le.induct)
  case (3 c s d t)
  then show ?case by (cases u) auto
qed auto

lemma str_le_antisym: "str_le s t \<Longrightarrow> str_le t s \<Longrightarrow> s = t"
proof (induction s t rule: str_le.induct)
  case (2 c s)
  then show ?case by simp
next
  case (1 t)
  then show ?case by (cases t) auto
qed auto

lemma sorted_wrt_unique:
  assumes "sorted_wrt le xs" "sorted_wrt le ys" "mset xs = mset ys"
    and "\<And>x y. x \<in> set xs \<Longrightarrow> y \<in> set xs \<Longrightarrow> le x y \<Longrightarrow> le y x \<Longrightarrow> x = y"
  shows "xs = ys"
  using assms
proof (induction xs arbitrary: ys)
  case (Cons x xs)
  obtain y zs where ys: "ys = y # zs" using Cons.prems(3) by (cases ys) auto
  have sets: "insert x (set xs) = insert y (set zs)"
    using arg_cong [OF Cons.prems(3), of set_mset] by (simp add: ys)
  have "x = y"
  proof (rule ccontr)
    assume neq: "x \<noteq> y"
    then have "y \<in> set xs" "x \<in> set zs" using sets by auto
    then have "le x y" "le y x" using Cons.prems(1,2) by (simp_all add: ys)
    with neq Cons.prems(4) [of x y] \<open>y \<in> set xs\<close> show False by simp
  qed
  moreover have "xs = zs"
    by (rule Cons.IH) (use Cons.prems \<open>x = y\<close> in \<open>auto simp: ys\<close>)
  ultimately show ?case by (simp add: ys)
qed simp

lemma sort_by_key_eq_iff:
  assumes "distinct (map fst xs)" and "distinct (map fst ys)"
  shows "sort_by key_le xs = sort_by key_le ys \<longleftrightarrow> set xs = set ys"
proof
  assume "sort_by key_le xs = sort_by key_le ys"
  then show "set xs = set ys" by (metis set_sort_by)
next
  assume "set xs = set ys"
  then have mset: "mset xs = mset ys" using assms by (auto simp: distinct_map set_eq_iff_mset_eq_distinct)
  have sorted: "sorted_wrt key_le (sort_by key_le zs)" for zs :: "(string \<times> 'a) list"
    by (rule sorted_wrt_sort_by) (auto simp: key_le_def str_le_total intro: str_le_trans)
  have "x = y" if "x \<in> set xs" "y \<in> set xs" "key_le x y" "key_le y x" for x y
  proof -
    have "fst x = fst y" using that(3,4) by (auto simp: key_le_def intro: str_le_antisym)
    with that(1,2) assms(1) show ?thesis by (auto simp: distinct_map inj_on_def)
  qed
  then show "sort_by key_le xs = sort_by key_le ys"
    by (intro sorted_wrt_unique [OF sorted sorted]) (use mset in auto)
qed


section \<open>Equality up to the order of properties\<close>

text \<open>Every object has each name once, as every value that \<open>JSON.parse\<close> returns.\<close>

fun wf_json :: "json \<Rightarrow> bool" where
  "wf_json (JArr vs) \<longleftrightarrow> (\<forall>v \<in> set vs. wf_json v)"
| "wf_json (JObj ps) \<longleftrightarrow> distinct (map fst ps) \<and> (\<forall>p \<in> set ps. wf_json (snd p))"
| "wf_json v = True"

lemma zip_size [termination_simp]: "p \<in> set (zip vs ws) \<Longrightarrow> size (fst p) < Suc (size_list size vs)"
proof -
  assume "p \<in> set (zip vs ws)"
  then have "fst p \<in> set vs" by (metis prod.collapse set_zip_leftD)
  then have "size (fst p) \<le> size_list size vs" by (rule size_list_estimation') simp
  then show ?thesis by simp
qed

fun json_eq :: "json \<Rightarrow> json \<Rightarrow> bool" where
  "json_eq (JArr vs) (JArr ws) \<longleftrightarrow> length vs = length ws \<and> (\<forall>p \<in> set (zip vs ws). json_eq (fst p) (snd p))"
| "json_eq (JObj ps) (JObj qs) \<longleftrightarrow> fst ` set ps = fst ` set qs
     \<and> (\<forall>p \<in> set ps. case map_of qs (fst p) of None \<Rightarrow> False | Some w \<Rightarrow> json_eq (snd p) w)"
| "json_eq v w \<longleftrightarrow> v = w"

fun sort_keys :: "json \<Rightarrow> json" where
  "sort_keys (JArr vs) = JArr (map sort_keys vs)"
| "sort_keys (JObj ps) = JObj (sort_by key_le (map (\<lambda>p. (fst p, sort_keys (snd p))) ps))"
| "sort_keys v = v"

lemma sort_by_map_keys:
  "sort_by key_le (map (\<lambda>p. (fst p, f (snd p))) ps) = map (\<lambda>p. (fst p, f (snd p))) (sort_by key_le ps)"
proof -
  have "insort_by key_le (fst p, f (snd p)) (map (\<lambda>p. (fst p, f (snd p))) ps)
      = map (\<lambda>p. (fst p, f (snd p))) (insort_by key_le p ps)" for p ps
    by (induction ps) (simp_all add: key_le_def)
  then show ?thesis by (induction ps) (simp_all add: sort_by_def)
qed

lemma set_map_snd_eq_iff:
  assumes "distinct (map fst ps)" and "distinct (map fst qs)"
  shows "set (map (\<lambda>p. (fst p, f (snd p))) ps) = set (map (\<lambda>p. (fst p, f (snd p))) qs) \<longleftrightarrow>
     fst ` set ps = fst ` set qs
     \<and> (\<forall>p \<in> set ps. case map_of qs (fst p) of None \<Rightarrow> False | Some w \<Rightarrow> f (snd p) = f w)" (is "?l \<longleftrightarrow> ?r")
proof
  assume l: ?l
  have "fst ` set ps = fst ` set (map (\<lambda>p. (fst p, f (snd p))) ps)" by force
  also have "\<dots> = fst ` set qs" unfolding l by force
  finally have keys: "fst ` set ps = fst ` set qs" .
  moreover have "case map_of qs (fst p) of None \<Rightarrow> False | Some w \<Rightarrow> f (snd p) = f w" if "p \<in> set ps" for p
  proof -
    have "(fst p, f (snd p)) \<in> set (map (\<lambda>p. (fst p, f (snd p))) qs)" unfolding l [symmetric] using that by auto
    then obtain w where "(fst p, w) \<in> set qs" "f (snd p) = f w" by auto
    then show ?thesis using map_of_is_SomeI [OF assms(2)] by simp
  qed
  ultimately show ?r by simp
next
  assume r: ?r
  have "(k, f v) \<in> set (map (\<lambda>p. (fst p, f (snd p))) qs)" if "(k, v) \<in> set ps" for k v
  proof -
    from r that obtain w where "map_of qs k = Some w" "f v = f w" by (force split: option.splits)
    then show ?thesis by (force dest: map_of_SomeD)
  qed
  moreover have "(k, f w) \<in> set (map (\<lambda>p. (fst p, f (snd p))) ps)" if w: "(k, w) \<in> set qs" for k w
  proof -
    have "k \<in> fst ` set ps" using r w by force
    then obtain v where v: "(k, v) \<in> set ps" by auto
    then have "f v = f w" using r map_of_is_SomeI [OF assms(2) w] by force
    with v show ?thesis by force
  qed
  ultimately show ?l by fastforce
qed

lemma sort_keys_eq_iff: "wf_json v \<Longrightarrow> wf_json w \<Longrightarrow> sort_keys v = sort_keys w \<longleftrightarrow> json_eq v w"
proof (induction v w rule: json_eq.induct)
  case (1 vs ws)
  have "sort_keys (fst p) = sort_keys (snd p) \<longleftrightarrow> json_eq (fst p) (snd p)" if p: "p \<in> set (zip vs ws)" for p
  proof -
    have "fst p \<in> set vs" "snd p \<in> set ws"
      using p by (metis prod.collapse set_zip_leftD) (metis p prod.collapse set_zip_rightD)
    with 1(2,3) show ?thesis by (intro 1(1) p) simp_all
  qed
  then show ?case
    by (auto simp: list_eq_iff_zip_eq [of "map sort_keys vs"] zip_map_map)
next
  case (2 ps qs)
  have keys: "distinct (map fst (map (\<lambda>p. (fst p, sort_keys (snd p))) xs))" if "distinct (map fst xs)" for xs
    using that by (simp add: comp_def)
  have dist: "distinct (map fst ps)" "distinct (map fst qs)" using 2(2,3) by simp_all
  have eq: "sort_keys (snd p) = sort_keys w \<longleftrightarrow> json_eq (snd p) w" if "p \<in> set ps" "map_of qs (fst p) = Some w" for p w
    by (rule 2(1)) (use that 2(2,3) in \<open>auto dest: map_of_SomeD\<close>)
  have "sort_keys (JObj ps) = sort_keys (JObj qs) \<longleftrightarrow>
      set (map (\<lambda>p. (fst p, sort_keys (snd p))) ps) = set (map (\<lambda>p. (fst p, sort_keys (snd p))) qs)"
    using sort_by_key_eq_iff [OF keys keys] dist by simp
  also have "\<dots> \<longleftrightarrow> fst ` set ps = fst ` set qs
     \<and> (\<forall>p \<in> set ps. case map_of qs (fst p) of None \<Rightarrow> False | Some w \<Rightarrow> sort_keys (snd p) = sort_keys w)"
    by (rule set_map_snd_eq_iff [OF dist])
  also have "\<dots> \<longleftrightarrow> json_eq (JObj ps) (JObj qs)"
    using eq by (auto split: option.splits)
  finally show ?case .
qed (auto elim: sort_keys.elims sort_keys.elims [OF sym])


section \<open>The text determines the value\<close>

text \<open>\<open>JSON.stringify\<close> of a value, with the properties in their own order.\<close>

fun compact_json :: "runtime \<Rightarrow> json \<Rightarrow> string" where
  "compact_json rt (JArr vs) = ''['' @ join '','' (map (compact_json rt) vs) @ '']''"
| "compact_json rt (JObj ps) =
     ''{'' @ join '','' (map (\<lambda>p. rt_json_text rt (JStr (fst p)) @ '':'' @ compact_json rt (snd p)) ps) @ ''}''"
| "compact_json rt v = rt_json_text rt v"

lemma canonical_is_compact: "canonical_json rt v = compact_json rt (sort_keys v)"
proof (induction rt v rule: canonical_json.induct)
  case (2 rt ps)
  have texts: "map (\<lambda>p. (fst p, canonical_json rt (snd p))) ps = map (\<lambda>p. (fst p, compact_json rt (sort_keys (snd p)))) ps"
    using 2 by simp
  show ?case
    unfolding canonical_json.simps texts sort_by_map_keys [of "\<lambda>v. compact_json rt (sort_keys v)"] sort_keys.simps
      sort_by_map_keys [of sort_keys] compact_json.simps
    by (simp add: comp_def)
qed (auto intro!: arg_cong [of _ _ "join '',''"])

fun scalars :: "json \<Rightarrow> json set" where
  "scalars (JArr vs) = (\<Union>v \<in> set vs. scalars v)"
| "scalars (JObj ps) = (\<Union>p \<in> set ps. insert (JStr (fst p)) (scalars (snd p)))"
| "scalars v = {v}"

lemma scalars_sort_keys [simp]: "scalars (sort_keys v) = scalars v"
  by (induction v rule: sort_keys.induct) auto

text \<open>
  What is relied on of \<open>JSON.stringify\<close> on the strings, numbers and other scalars of \<open>S\<close>: its text is not
  empty, begins with no structural character, and tells them apart also where more text follows that
  begins with a structural character.
\<close>

definition stops :: "string \<Rightarrow> bool" where
  "stops x \<longleftrightarrow> x = [] \<or> hd x \<in> set '',]}:''"

definition unambiguous :: "runtime \<Rightarrow> json set \<Rightarrow> bool" where
  "unambiguous rt S \<longleftrightarrow>
     (\<forall>v \<in> S. rt_json_text rt v \<noteq> [] \<and> hd (rt_json_text rt v) \<notin> set ''[{,]}:'')
     \<and> (\<forall>v \<in> S. \<forall>w \<in> S. \<forall>x y. stops x \<longrightarrow> stops y \<longrightarrow> rt_json_text rt v @ x = rt_json_text rt w @ y \<longrightarrow> v = w \<and> x = y)"

lemma unambiguous_start:
  "unambiguous rt S \<Longrightarrow> v \<in> S \<Longrightarrow> rt_json_text rt v \<noteq> [] \<and> hd (rt_json_text rt v) \<notin> set ''[{,]}:''"
  by (simp add: unambiguous_def)

lemma unambiguousD:
  "unambiguous rt S \<Longrightarrow> v \<in> S \<Longrightarrow> w \<in> S \<Longrightarrow> stops x \<Longrightarrow> stops y
     \<Longrightarrow> rt_json_text rt v @ x = rt_json_text rt w @ y \<Longrightarrow> v = w \<and> x = y"
  by (simp add: unambiguous_def)

definition separates :: "('a \<Rightarrow> string) \<Rightarrow> 'a \<Rightarrow> 'a \<Rightarrow> bool" where
  "separates f a b \<longleftrightarrow> (\<forall>x y. stops x \<longrightarrow> stops y \<longrightarrow> f a @ x = f b @ y \<longrightarrow> a = b \<and> x = y)"

lemma join_more: "join d (map f (x # xs)) = f x @ concat (map (\<lambda>y. d @ f y) xs)"
  by (induction xs arbitrary: x) auto

lemma stops_tail: "e \<in> set '']}'' \<Longrightarrow> stops (concat (map (\<lambda>y. '','' @ f y) xs) @ e # x)"
  by (cases xs) (auto simp: stops_def)

lemma tails_unique:
  assumes "\<And>a b. a \<in> set as \<Longrightarrow> b \<in> set bs \<Longrightarrow> separates f a b" and "e \<in> set '']}''"
    and "concat (map (\<lambda>y. '','' @ f y) as) @ e # x = concat (map (\<lambda>y. '','' @ f y) bs) @ e # y"
  shows "as = bs \<and> x = y"
  using assms(1,3)
proof (induction as arbitrary: bs)
  case Nil
  with assms(2) show ?case by (cases bs) auto
next
  case (Cons a as)
  from Cons.prems(2) assms(2) obtain b bs' where bs: "bs = b # bs'" by (cases bs) auto
  have "separates f a b" using Cons.prems(1) by (simp add: bs)
  with Cons.prems(2) have "a = b" and rest: "concat (map (\<lambda>y. '','' @ f y) as) @ e # x = concat (map (\<lambda>y. '','' @ f y) bs') @ e # y"
    using stops_tail [OF assms(2), of f as x] stops_tail [OF assms(2), of f bs' y] unfolding separates_def by (auto simp: bs)
  from Cons.IH [OF _ rest] Cons.prems(1) \<open>a = b\<close> show ?case by (simp add: bs)
qed

lemma items_unique:
  assumes sep: "\<And>a b. a \<in> set as \<Longrightarrow> b \<in> set bs \<Longrightarrow> separates f a b" and e: "e \<in> set '']}''"
    and start: "\<And>a. a \<in> set as \<union> set bs \<Longrightarrow> f a \<noteq> [] \<and> hd (f a) \<notin> set '']}''"
    and eq: "join '','' (map f as) @ e # x = join '','' (map f bs) @ e # y"
  shows "as = bs \<and> x = y"
proof (cases "as = [] \<or> bs = []")
  case True
  have clash: "join '','' (map f cs) @ e # z \<noteq> e # z'" if "cs \<noteq> []" "set cs \<subseteq> set as \<union> set bs" for cs z z'
  proof -
    obtain c cs' where cs: "cs = c # cs'" using \<open>cs \<noteq> []\<close> by (cases cs) auto
    have "f c \<noteq> []" "hd (f c) \<noteq> e" using start [of c] that(2) e by (auto simp: cs)
    then show ?thesis by (cases "f c") (auto simp: cs join_more simp del: list.map)
  qed
  have "as = [] \<and> bs = []"
    using True eq clash [of as x y] clash [of bs y x] by (metis append_Nil join.simps(1) list.simps(8) sup_ge1 sup_ge2)
  with eq show ?thesis by simp
next
  case False
  then obtain a as' b bs' where as: "as = a # as'" and bs: "bs = b # bs'" by (meson neq_Nil_conv)
  have "separates f a b" by (rule sep) (simp_all add: as bs)
  then have "a = b" and rest: "concat (map (\<lambda>y. '','' @ f y) as') @ e # x = concat (map (\<lambda>y. '','' @ f y) bs') @ e # y"
    using eq stops_tail [OF e, of f as' x] stops_tail [OF e, of f bs' y] unfolding separates_def as bs join_more append_assoc
    by blast+
  from tails_unique [OF _ e rest] sep \<open>a = b\<close> show ?thesis by (simp add: as bs)
qed

lemma compact_start:
  assumes "unambiguous rt (scalars v)"
  shows "compact_json rt v \<noteq> [] \<and> hd (compact_json rt v) \<notin> set '']}''"
  using assms by (cases v) (auto simp: unambiguous_def)

lemma unambiguous_mono: "unambiguous rt S \<Longrightarrow> T \<subseteq> S \<Longrightarrow> unambiguous rt T"
  unfolding unambiguous_def by blast


lemma compact_hd:
  "unambiguous rt (scalars w) \<Longrightarrow>
     (hd (compact_json rt w @ y) = CHR ''['' \<longleftrightarrow> (\<exists>ws. w = JArr ws)) \<and> (hd (compact_json rt w @ y) = CHR ''{'' \<longleftrightarrow> (\<exists>qs. w = JObj qs))"
  by (cases w) (use unambiguous_start [of rt "scalars w" w] in auto)

lemma scalar_unique:
  assumes "scalars v = {v}" and "compact_json rt v = rt_json_text rt v" and u: "unambiguous rt (scalars v \<union> scalars w)"
  shows "separates (compact_json rt) v w"
  unfolding separates_def
proof (intro allI impI)
  fix x y assume xy: "stops x" "stops y" and eq: "compact_json rt v @ x = compact_json rt w @ y"
  have v: "rt_json_text rt v \<noteq> [] \<and> hd (rt_json_text rt v) \<notin> set ''[{,]}:''"
    by (rule unambiguous_start [OF u]) (simp add: assms(1))
  have "hd (rt_json_text rt v) = hd (compact_json rt w @ y)"
    using arg_cong [OF eq, of hd] v by (simp add: assms(2))
  then have "hd (compact_json rt w @ y) \<noteq> CHR ''[''" "hd (compact_json rt w @ y) \<noteq> CHR ''{''" using v by auto
  then have w: "scalars w = {w}" "compact_json rt w = rt_json_text rt w" by (cases w; simp)+
  show "v = w \<and> x = y"
    by (rule unambiguousD [OF u _ _ xy]) (use eq in \<open>simp_all add: assms(1,2) w\<close>)
qed

lemma compact_unique:
  "unambiguous rt (scalars v \<union> scalars w) \<Longrightarrow> separates (compact_json rt) v w"
proof (induction v arbitrary: w)
  case (JArr vs)
  show ?case
    unfolding separates_def
  proof (intro allI impI)
    fix x y assume eq: "compact_json rt (JArr vs) @ x = compact_json rt w @ y"
    have "hd (compact_json rt w @ y) = CHR ''[''" using arg_cong [OF eq, of hd] by simp
    then obtain ws where w: "w = JArr ws"
      using compact_hd [OF unambiguous_mono [OF JArr.prems], of w y] by auto
    have "vs = ws \<and> x = y"
    proof (rule items_unique [of vs ws "compact_json rt" "CHR '']''"])
      show "separates (compact_json rt) a b" if "a \<in> set vs" "b \<in> set ws" for a b
        by (rule JArr.IH [OF that(1) unambiguous_mono [OF JArr.prems]]) (use that in \<open>auto simp: w\<close>)
      show "compact_json rt a \<noteq> [] \<and> hd (compact_json rt a) \<notin> set '']}''" if "a \<in> set vs \<union> set ws" for a
        by (rule compact_start [OF unambiguous_mono [OF JArr.prems]]) (use that in \<open>auto simp: w\<close>)
    qed (use eq in \<open>simp_all add: w\<close>)
    with w show "JArr vs = w \<and> x = y" by simp
  qed
next
  case (JObj ps)
  let ?f = "\<lambda>p. rt_json_text rt (JStr (fst p)) @ '':'' @ compact_json rt (snd p)"
  show ?case
    unfolding separates_def
  proof (intro allI impI)
    fix x y assume eq: "compact_json rt (JObj ps) @ x = compact_json rt w @ y"
    have "hd (compact_json rt w @ y) = CHR ''{''" using arg_cong [OF eq, of hd] by simp
    then obtain qs where w: "w = JObj qs"
      using compact_hd [OF unambiguous_mono [OF JObj.prems], of w y] by auto
    have key: "JStr (fst p) \<in> scalars (JObj ps) \<union> scalars w" if "p \<in> set ps \<union> set qs" for p
      using that by (auto simp: w)
    have "ps = qs \<and> x = y"
    proof (rule items_unique [of ps qs ?f "CHR ''}''"])
      fix p q assume pq: "p \<in> set ps" "q \<in> set qs"
      have val: "separates (compact_json rt) (snd p) (snd q)"
        by (rule JObj.IH [OF pq(1) _ unambiguous_mono [OF JObj.prems]])
          (use pq in \<open>auto simp: w intro: snds.intros\<close>)
      show "separates ?f p q"
        unfolding separates_def
      proof (intro allI impI)
        fix x y assume "stops x" "stops y" and "?f p @ x = ?f q @ y"
        then have eqt: "rt_json_text rt (JStr (fst p)) @ '':'' @ compact_json rt (snd p) @ x
            = rt_json_text rt (JStr (fst q)) @ '':'' @ compact_json rt (snd q) @ y" by simp
        have "stops ('':'' @ z)" for z by (simp add: stops_def)
        from unambiguousD [OF JObj.prems key key this this eqt] pq
        have "JStr (fst p) = JStr (fst q) \<and> '':'' @ compact_json rt (snd p) @ x = '':'' @ compact_json rt (snd q) @ y" by blast
        then have "fst p = fst q" "compact_json rt (snd p) @ x = compact_json rt (snd q) @ y" by simp_all
        with val \<open>stops x\<close> \<open>stops y\<close> show "p = q \<and> x = y"
          unfolding separates_def by (simp add: prod_eq_iff)
      qed
    next
      fix p assume "p \<in> set ps \<union> set qs"
      then show "?f p \<noteq> [] \<and> hd (?f p) \<notin> set '']}''"
        using unambiguous_start [OF JObj.prems key, of p] by simp
    qed (use eq in \<open>simp_all add: w\<close>)
    with w show "JObj ps = w \<and> x = y" by simp
  qed
qed (auto intro: scalar_unique)

section \<open>Property\<close>

text \<open>
  C34. Two task payloads have the same canonical text exactly when they are equal up to the order of
  properties, at every depth; given that the texts of their scalars and names can be told apart.
\<close>

theorem canonical_json_eq_iff:
  assumes "wf_json v" and "wf_json w" and "unambiguous rt (scalars v \<union> scalars w)"
  shows "canonical_json rt v = canonical_json rt w \<longleftrightarrow> json_eq v w"
proof -
  have "separates (compact_json rt) (sort_keys v) (sort_keys w)"
    by (rule compact_unique) (simp add: assms(3))
  then have "compact_json rt (sort_keys v) = compact_json rt (sort_keys w) \<longleftrightarrow> sort_keys v = sort_keys w"
    unfolding separates_def by (metis append_Nil2 stops_def)
  then show ?thesis
    unfolding canonical_is_compact using sort_keys_eq_iff [OF assms(1,2)] by simp
qed

definition scalar_runtime :: runtime where
  "scalar_runtime = null_runtime\<lparr>rt_json_text := (\<lambda>v. case v of JStr s \<Rightarrow> ''\"'' @ s @ ''\"'' | JBool True \<Rightarrow> ''true'' | _ \<Rightarrow> ''null'')\<rparr>"

theorem canonical_json_eq_iff_witness:
  "canonical_json scalar_runtime (JObj [(''a'', JNull), (''b'', JArr [JBool True, JStr ''x''])])
   = canonical_json scalar_runtime (JObj [(''b'', JArr [JBool True, JStr ''x'']), (''a'', JNull)])"
proof -
  have "unambiguous scalar_runtime {JStr ''a'', JStr ''b'', JNull, JBool True, JStr ''x''}"
    by (simp add: unambiguous_def scalar_runtime_def)
  then show ?thesis
    by (intro canonical_json_eq_iff [THEN iffD2]) (simp_all add: insert_commute)
qed

end
