(* ===== verification/Tasks.thy ===== *)
theory Tasks
  imports Access Admission CanonicalJson Decimal
begin

text \<open>
  The public task surface (\<open>gateway/src/app.ts\<close>): the submission of a task and the query of its state,
  and the health checks. The queue daemon is the argument \<open>fetch\<close>: a request to it gives its status and
  the JSON of its body (\<open>None\<close> inside where the body is no JSON), or \<open>None\<close> where the call fails or times out.
\<close>

section \<open>Calls to the queue daemon\<close>

record upstream_call =
  uc_url :: string
  uc_method :: string
  uc_headers :: "(string \<times> string) list"
  uc_body :: "string option"

type_synonym upstream = "upstream_call \<Rightarrow> (nat \<times> json option) option"

definition upstream_get :: "string \<Rightarrow> upstream_call" where
  "upstream_get url = \<lparr>uc_url = url, uc_method = ''GET'', uc_headers = [], uc_body = None\<rparr>"

definition upstream_url :: "gateway_config \<Rightarrow> string \<Rightarrow> string" where
  "upstream_url config path = cfg_queue_daemon_origin config @ path"

section \<open>The fingerprint of a request\<close>

definition sha256_hex :: "runtime \<Rightarrow> string \<Rightarrow> string" where
  "sha256_hex rt value = hex_of (rt_sha256 rt (utf8 value))"

definition request_fingerprint :: "runtime \<Rightarrow> string \<Rightarrow> string \<Rightarrow> int \<Rightarrow> int \<Rightarrow> json \<Rightarrow> string" where
  "request_fingerprint rt task_type queue_kind priority max_retries payload =
     sha256_hex rt (canonical_json rt
       (JObj [(''contract_version'', JInt 1), (''type'', JStr task_type), (''queue_kind'', JStr queue_kind),
              (''priority'', JInt priority), (''max_retries'', JInt max_retries), (''payload'', payload)]))"

section \<open>The request\<close>

definition is_authorized :: "request \<Rightarrow> gateway_config \<Rightarrow> bool" where
  "is_authorized r config \<longleftrightarrow>
     cfg_allow_unauthenticated config
     \<or> (case truthy (cfg_api_token config) of
          None \<Rightarrow> False
        | Some api_token \<Rightarrow>
            (case header r ''authorization'' of
               None \<Rightarrow> False
             | Some v \<Rightarrow> starts_with v ''Bearer '' \<and> constant_time_equal (drop 7 v) api_token))"

definition require_authorization :: "request \<Rightarrow> gateway_config \<Rightarrow> response option" where
  "require_authorization r config =
     (if is_authorized r config then None else Some (error_response 401 ''unauthorized'' ''valid bearer token required''))"

definition TASK_REQUEST_KEYS :: "string list" where
  "TASK_REQUEST_KEYS = [''type'', ''payload'', ''priority'', ''max_retries'']"

record task_submission =
  ts_type :: string
  ts_payload :: json
  ts_priority :: "int option"
  ts_max_retries :: "int option"

definition optional_int :: "json option \<Rightarrow> int option" where
  "optional_int v = (case v of None \<Rightarrow> None | Some w \<Rightarrow> Some (int_of (Some w)))"

definition task_submission_of :: "json \<Rightarrow> response + task_submission" where
  "task_submission_of parsed =
     (if \<not> is_record parsed
        then Inl (error_response 400 ''invalid_request'' ''request body must be a JSON object'')
      else
        (case find (\<lambda>k. k \<notin> set TASK_REQUEST_KEYS) (keys_of (fields_of parsed)) of
           Some key \<Rightarrow> Inl (error_response 400 ''unknown_field'' (''unknown request field: '' @ key))
         | None \<Rightarrow>
             if \<not> is_string (field parsed ''type'') \<or> length (str_of (field parsed ''type'')) = 0
                \<or> length (str_of (field parsed ''type'')) > 128
               then Inl (error_response 400 ''invalid_task_type'' ''type must be a non-empty string up to 128 bytes'')
             else if field parsed ''payload'' = None
               then Inl (error_response 400 ''missing_payload'' ''payload is required'')
             else if field parsed ''priority'' \<noteq> None \<and> \<not> is_integer (field parsed ''priority'')
               then Inl (error_response 400 ''invalid_priority'' ''priority must be an integer'')
             else if field parsed ''max_retries'' \<noteq> None \<and> \<not> is_integer (field parsed ''max_retries'')
               then Inl (error_response 400 ''invalid_max_retries'' ''max_retries must be an integer'')
             else Inr \<lparr>ts_type = str_of (field parsed ''type''), ts_payload = the (field parsed ''payload''),
                        ts_priority = optional_int (field parsed ''priority''),
                        ts_max_retries = optional_int (field parsed ''max_retries'')\<rparr>))"

text \<open>Here an empty \<open>content-length\<close> counts as none.\<close>

definition parse_public_task_request :: "runtime \<Rightarrow> request \<Rightarrow> response + task_submission" where
  "parse_public_task_request rt r =
     (if \<not> json_content_type r
        then Inl (error_response 415 ''unsupported_media_type'' ''content-type must be application/json'')
      else
        (case (if header r ''content-length'' = Some [] then LengthOk
               else check_declared_length rt r MAX_PUBLIC_REQUEST_BYTES) of
           LengthInvalid \<Rightarrow> Inl (error_response 400 ''invalid_content_length'' ''invalid content-length'')
         | LengthTooLarge \<Rightarrow> Inl (error_response 413 ''request_too_large'' ''request body exceeds 1 MiB'')
         | LengthOk \<Rightarrow>
             if byte_length (rq_body r) > MAX_PUBLIC_REQUEST_BYTES
               then Inl (error_response 413 ''request_too_large'' ''request body exceeds 1 MiB'')
             else
               (case rt_json_parse rt (rq_body r) of
                  None \<Rightarrow> Inl (error_response 400 ''invalid_json'' ''request body must contain valid JSON'')
                | Some parsed \<Rightarrow> task_submission_of parsed)))"

definition idempotency_key_ok :: "string \<Rightarrow> bool" where
  "idempotency_key_ok v \<longleftrightarrow> length v \<le> 128 \<and> rx_plus (\<lambda>c. is_alnum c \<or> c \<in> set ''._:-'') v"

definition parse_idempotency_key :: "request \<Rightarrow> response + string" where
  "parse_idempotency_key r =
     (case truthy (header r ''idempotency-key'') of
        None \<Rightarrow> Inl (error_response 400 ''missing_idempotency_key'' ''Idempotency-Key header is required for task creation'')
      | Some v \<Rightarrow>
          if \<not> idempotency_key_ok v
            then Inl (error_response 400 ''invalid_idempotency_key''
                   ''Idempotency-Key must be 1..128 ASCII characters using A-Z a-z 0-9 . _ : -'')
          else Inr v)"


section \<open>Submitting a task\<close>

record task_plan =
  pl_key :: string
  pl_type :: string
  pl_queue_kind :: string
  pl_priority :: int
  pl_max_retries :: int
  pl_payload :: json

text \<open>Everything up to the admission: the request, its policy and the defaults.\<close>

definition plan_task :: "runtime \<Rightarrow> gateway_config \<Rightarrow> task_registry \<Rightarrow> request \<Rightarrow> response + task_plan" where
  "plan_task rt config registry r =
     (case require_authorization r config of
        Some denied \<Rightarrow> Inl denied
      | None \<Rightarrow>
      (case parse_idempotency_key r of
        Inl response \<Rightarrow> Inl response
      | Inr key \<Rightarrow>
      (case parse_public_task_request rt r of
        Inl response \<Rightarrow> Inl response
      | Inr t \<Rightarrow>
      (case get_task_policy registry (ts_type t) of
        None \<Rightarrow> Inl (error_response 422 ''unregistered_task_type'' ''task type is not registered'')
      | Some policy \<Rightarrow>
          (let priority = (case ts_priority t of None \<Rightarrow> 0 | Some p \<Rightarrow> p);
               max_retries = (case ts_max_retries t of None \<Rightarrow> min 3 (tp_max_retries policy) | Some n \<Rightarrow> n)
           in if priority < tp_min_priority policy \<or> priority > tp_max_priority policy
                then Inl (error_response 422 ''priority_out_of_policy''
                       (''priority must be between '' @ int_text (tp_min_priority policy) @ '' and ''
                        @ int_text (tp_max_priority policy)))
              else if max_retries < 0 \<or> max_retries > tp_max_retries policy
                then Inl (error_response 422 ''max_retries_out_of_policy''
                       (''max_retries must be between 0 and '' @ int_text (tp_max_retries policy)))
              else if byte_length (rt_json_text rt (ts_payload t)) > tp_max_payload_bytes policy
                then Inl (error_response 413 ''payload_too_large''
                       (''serialized payload exceeds '' @ nat_text (tp_max_payload_bytes policy)
                        @ '' bytes for this task type''))
              else Inr \<lparr>pl_key = key, pl_type = ts_type t, pl_queue_kind = tp_queue_kind policy,
                         pl_priority = priority, pl_max_retries = max_retries, pl_payload = ts_payload t\<rparr>)))))"

definition submit_call :: "runtime \<Rightarrow> gateway_config \<Rightarrow> task_plan \<Rightarrow> upstream_call" where
  "submit_call rt config p =
     \<lparr>uc_url = upstream_url config ''/v1/tasks'', uc_method = ''POST'',
      uc_headers =
        [(''content-type'', ''application/json; charset=utf-8''),
         (''x-task-name'', pl_type p),
         (''x-task-type'', pl_queue_kind p),
         (''x-task-priority'', int_text (pl_priority p)),
         (''x-task-max-retries'', int_text (pl_max_retries p)),
         (''x-idempotency-key'', pl_key p),
         (''x-request-fingerprint'',
            request_fingerprint rt (pl_type p) (pl_queue_kind p) (pl_priority p) (pl_max_retries p) (pl_payload p)),
         (''x-queue-max-active-tasks'', int_text (cfg_max_active_tasks config))],
      uc_body = Some (rt_json_text rt (pl_payload p))\<rparr>"

definition queue_unavailable :: response where
  "queue_unavailable = error_response 503 ''queue_unavailable'' ''queue daemon is unavailable''"

text \<open>The body of the answer is read as an object: on \<open>null\<close> this throws, which is caught.\<close>

definition submit_answer :: "(nat \<times> json option) option \<Rightarrow> response" where
  "submit_answer answer =
     (case answer of
        None \<Rightarrow> queue_unavailable
      | Some (status, body) \<Rightarrow>
          if status = 409
            then error_response 409 ''idempotency_conflict''
                   ''Idempotency-Key was already used for a different task request''
          else if status = 503
            then error_response 503 ''queue_capacity_reached''
                   ''queue active-task capacity reached; retry later with the same Idempotency-Key''
          else if status \<noteq> 202
            then error_response 502 ''queue_rejected_task'' ''queue daemon rejected the task''
          else
            (case body of
               None \<Rightarrow> queue_unavailable
             | Some v \<Rightarrow>
                 if v = JNull then queue_unavailable
                 else if \<not> is_integer (field v ''task_id'') \<or> int_of (field v ''task_id'') \<le> 0
                      \<or> field v ''status'' \<noteq> Some (JStr ''PENDING'')
                      \<or> (field v ''idempotency'' \<noteq> Some (JStr ''created'')
                         \<and> field v ''idempotency'' \<noteq> Some (JStr ''replayed''))
                   then error_response 502 ''invalid_queue_response'' ''queue daemon returned an invalid response''
                 else
                   (let replayed = (field v ''idempotency'' = Some (JStr ''replayed''))
                    in json_response_with
                         (JObj [(''task_id'', the (field v ''task_id'')), (''status'', JStr ''PENDING''),
                                (''replayed'', JBool replayed)]) 202
                         (if replayed then [(''idempotency-replayed'', ''true'')] else []))))"

definition handle_create_task ::
  "runtime \<Rightarrow> upstream \<Rightarrow> gateway_config \<Rightarrow> task_registry \<Rightarrow> rat \<Rightarrow> request \<Rightarrow> bucket \<Rightarrow> bucket \<times> response" where
  "handle_create_task rt fetch config registry now r b =
     (case plan_task rt config registry r of
        Inl response \<Rightarrow> (b, response)
      | Inr p \<Rightarrow>
          (let (b', admission) = try_acquire now b
           in if \<not> ad_allowed admission
                then (b', json_response_with
                            (error_body ''rate_limited''
                               ''task admission rate exceeded; retry later with the same Idempotency-Key'') 429
                            [(''retry-after'', int_text (ad_retry_after admission))])
              else (b', submit_answer (fetch (submit_call rt config p)))))"

section \<open>Reading a task\<close>

definition SNAPSHOT_KEYS :: "string list" where
  "SNAPSHOT_KEYS =
     [''id'', ''task_name'', ''task_type'', ''priority'', ''max_retries'', ''retry_count'', ''status'',
      ''scheduled_at'', ''created_at'', ''updated_at'']"

definition public_task_snapshot :: "json \<Rightarrow> json option" where
  "public_task_snapshot v =
     (if \<not> is_record v \<or> \<not> is_integer (field v ''id'') \<or> int_of (field v ''id'') \<le> 0 then None
      else Some (JObj (map (\<lambda>k. (k, case field v k of None \<Rightarrow> JNull | Some w \<Rightarrow> w)) SNAPSHOT_KEYS)))"

definition task_id_ok :: "string \<Rightarrow> bool" where
  "task_id_ok s \<longleftrightarrow> s \<noteq> [] \<and> is_digit (hd s) \<and> hd s \<noteq> CHR ''0'' \<and> list_all is_digit (tl s)"

definition handle_get_task :: "upstream \<Rightarrow> gateway_config \<Rightarrow> request \<Rightarrow> string \<Rightarrow> response" where
  "handle_get_task fetch config r task_id =
     (case require_authorization r config of
        Some denied \<Rightarrow> denied
      | None \<Rightarrow>
          if \<not> task_id_ok task_id
            then error_response 400 ''invalid_task_id'' ''task id must be a positive integer''
          else
            (case fetch (upstream_get (upstream_url config (''/v1/tasks/'' @ task_id))) of
               None \<Rightarrow> queue_unavailable
             | Some (status, body) \<Rightarrow>
                 if status = 404 then error_response 404 ''task_not_found'' ''task not found''
                 else if status \<noteq> 200
                   then error_response 502 ''queue_query_failed'' ''queue daemon could not return task state''
                 else
                   (case body of
                      None \<Rightarrow> queue_unavailable
                    | Some v \<Rightarrow>
                        (case public_task_snapshot v of
                           None \<Rightarrow> error_response 502 ''invalid_queue_response''
                             ''queue daemon returned an invalid task snapshot''
                         | Some snapshot \<Rightarrow> json_response snapshot 200))))"

section \<open>The routes\<close>

definition handle_ready :: "upstream \<Rightarrow> gateway_config \<Rightarrow> response" where
  "handle_ready fetch config =
     (case fetch (upstream_get (upstream_url config ''/readyz'')) of
        None \<Rightarrow> queue_unavailable
      | Some (status, body) \<Rightarrow>
          if status \<noteq> 200 then error_response 503 ''queue_not_ready'' ''queue daemon is not ready''
          else json_response (JObj [(''status'', JStr ''ready''), (''queue'', JStr ''ready'')]) 200)"

definition handle_request ::
  "runtime \<Rightarrow> upstream \<Rightarrow> gateway_config \<Rightarrow> task_registry \<Rightarrow> rat \<Rightarrow> request \<Rightarrow> bucket \<Rightarrow> bucket \<times> response" where
  "handle_request rt fetch config registry now r b =
     (let path = u_pathname (rq_url r);
          not_allowed = (\<lambda>verb. error_response 405 ''method_not_allowed'' (verb @ '' required''))
      in if path = ''/healthz'' then
           (b, if rq_method r = ''GET''
               then json_response (JObj [(''status'', JStr ''ok''), (''version'', JStr GATEWAY_VERSION)]) 200
               else not_allowed ''GET'')
         else if path = ''/readyz'' then
           (b, if rq_method r = ''GET'' then handle_ready fetch config else not_allowed ''GET'')
         else if path = ''/v1/tasks'' then
           (if rq_method r = ''POST'' then handle_create_task rt fetch config registry now r b
            else (b, not_allowed ''POST''))
         else if mid_segment ''/v1/tasks/'' '''' path then
           (b, if rq_method r = ''GET'' then handle_get_task fetch config r (drop 10 path) else not_allowed ''GET'')
         else (b, error_response 404 ''not_found'' ''route not found''))"


section \<open>Properties\<close>

lemma find_None_set: "find P xs = None \<longleftrightarrow> (\<forall>x \<in> set xs. \<not> P x)"
  by (auto simp: find_None_iff)

lemma task_submission_of_Inr:
  assumes "task_submission_of v = Inr t"
  shows "set (keys_of (fields_of v)) \<subseteq> set TASK_REQUEST_KEYS
     \<and> field v ''type'' = Some (JStr (ts_type t)) \<and> 0 < length (ts_type t) \<and> length (ts_type t) \<le> 128
     \<and> field v ''payload'' = Some (ts_payload t)"
proof -
  have str: "is_string w \<longleftrightarrow> w = Some (JStr (str_of w))" for w by (cases w rule: is_string.cases) auto
  from assms show ?thesis
    by (auto simp: task_submission_of_def find_None_set str split: if_splits option.splits)
qed

lemma plan_task_Inr:
  assumes "plan_task rt config registry r = Inr p"
  obtains policy v where "get_task_policy registry (pl_type p) = Some policy" "pl_queue_kind p = tp_queue_kind policy"
    "tp_min_priority policy \<le> pl_priority p" "pl_priority p \<le> tp_max_priority policy"
    "0 \<le> pl_max_retries p" "pl_max_retries p \<le> tp_max_retries policy"
    "byte_length (rt_json_text rt (pl_payload p)) \<le> tp_max_payload_bytes policy"
    "is_authorized r config" "header r ''idempotency-key'' = Some (pl_key p)" "idempotency_key_ok (pl_key p)"
    "rt_json_parse rt (rq_body r) = Some v" "field v ''type'' = Some (JStr (pl_type p))" "field v ''payload'' = Some (pl_payload p)"
proof -
  have key: "header r ''idempotency-key'' = Some key \<and> idempotency_key_ok key" if "parse_idempotency_key r = Inr key" for key
    using that by (auto simp: parse_idempotency_key_def split: option.splits if_splits)
  have body: "\<exists>v. rt_json_parse rt (rq_body r) = Some v \<and> task_submission_of v = Inr t"
    if "parse_public_task_request rt r = Inr t" for t
    using that by (auto simp: parse_public_task_request_def split: if_splits length_check.splits option.splits)
  show thesis
    using assms that key body task_submission_of_Inr unfolding plan_task_def require_authorization_def Let_def
    by (auto split: if_splits option.splits sum.splits)
qed

lemma plan_task_Inl:
  assumes "plan_task rt config registry r = Inl res"
  shows "rs_status res \<noteq> 202"
proof -
  have "rs_status e \<noteq> 202" if "parse_idempotency_key r = Inl e" for e
    using that by (auto simp: parse_idempotency_key_def split: if_splits option.splits)
  moreover have sub: "rs_status e \<noteq> 202" if "task_submission_of v = Inl e" for e v
    using that by (auto simp: task_submission_of_def split: if_splits option.splits)
  then have "rs_status e \<noteq> 202" if "parse_public_task_request rt r = Inl e" for e
    using that by (auto simp: parse_public_task_request_def split: if_splits option.splits length_check.splits)
  ultimately show ?thesis
    using assms unfolding plan_task_def require_authorization_def Let_def
    by (auto split: if_splits option.splits sum.splits)
qed

lemma submit_answer_202:
  assumes "rs_status (submit_answer answer) = 202"
  obtains body n where "answer = Some (202, Some body)" "field body ''task_id'' = Some (JInt n)" "0 < n"
    "field body ''status'' = Some (JStr ''PENDING'')"
    "field body ''idempotency'' \<in> {Some (JStr ''created''), Some (JStr ''replayed'')}"
    "submit_answer answer = json_response_with
       (JObj [(''task_id'', JInt n), (''status'', JStr ''PENDING''),
              (''replayed'', JBool (field body ''idempotency'' = Some (JStr ''replayed'')))]) 202
       (if field body ''idempotency'' = Some (JStr ''replayed'') then [(''idempotency-replayed'', ''true'')] else [])"
proof -
  have int: "is_integer w \<longleftrightarrow> w = Some (JInt (int_of w))" for w by (cases w rule: is_integer.cases) auto
  show thesis
    using assms that unfolding submit_answer_def queue_unavailable_def Let_def
    by (auto simp: int split: option.splits prod.splits if_splits)
qed

text \<open>
  C25. A task is accepted only by the queue, within its policy, and once. An answer 202 means that the
  caller is authorized and sent a well-formed key; that the type is registered and priority, retries and
  payload size are within its policy; that the bucket gave one token; and that the daemon answered 202
  to the call made for exactly this task, whose id and replay mark are the answer.
\<close>

theorem task_accepted_only_by_queue:
  assumes "handle_create_task rt fetch config registry now r b = (b', res)" and "rs_status res = 202"
  shows "\<exists>p policy body n. plan_task rt config registry r = Inr p \<and> is_authorized r config
     \<and> header r ''idempotency-key'' = Some (pl_key p) \<and> idempotency_key_ok (pl_key p)
     \<and> get_task_policy registry (pl_type p) = Some policy \<and> pl_queue_kind p = tp_queue_kind policy
     \<and> tp_min_priority policy \<le> pl_priority p \<and> pl_priority p \<le> tp_max_priority policy
     \<and> 0 \<le> pl_max_retries p \<and> pl_max_retries p \<le> tp_max_retries policy
     \<and> byte_length (rt_json_text rt (pl_payload p)) \<le> tp_max_payload_bytes policy
     \<and> try_acquire now b = (b', \<lparr>ad_allowed = True, ad_retry_after = 0\<rparr>)
     \<and> fetch (submit_call rt config p) = Some (202, Some body)
     \<and> field body ''task_id'' = Some (JInt n) \<and> 0 < n
     \<and> (\<exists>headers. res = json_response_with (JObj [(''task_id'', JInt n), (''status'', JStr ''PENDING''),
            (''replayed'', JBool (field body ''idempotency'' = Some (JStr ''replayed'')))]) 202 headers)"
proof -
  obtain p where p: "plan_task rt config registry r = Inr p"
    using assms plan_task_Inl by (cases "plan_task rt config registry r") (auto simp: handle_create_task_def)
  obtain d where d: "try_acquire now b = (b', d)" and "ad_allowed d" and res: "res = submit_answer (fetch (submit_call rt config p))"
    using assms by (auto simp: handle_create_task_def p Let_def split: prod.splits if_splits)
  then have "d = \<lparr>ad_allowed = True, ad_retry_after = 0\<rparr>"
    by (auto simp: try_acquire_def Let_def split: if_splits)
  with d have d: "try_acquire now b = (b', \<lparr>ad_allowed = True, ad_retry_after = 0\<rparr>)" by simp
  from plan_task_Inr [OF p] obtain policy where policy: "get_task_policy registry (pl_type p) = Some policy"
    "pl_queue_kind p = tp_queue_kind policy" "tp_min_priority policy \<le> pl_priority p" "pl_priority p \<le> tp_max_priority policy"
    "0 \<le> pl_max_retries p" "pl_max_retries p \<le> tp_max_retries policy"
    "byte_length (rt_json_text rt (pl_payload p)) \<le> tp_max_payload_bytes policy"
    "is_authorized r config" "header r ''idempotency-key'' = Some (pl_key p)" "idempotency_key_ok (pl_key p)" by metis
  from submit_answer_202 [OF assms(2) [unfolded res]] show ?thesis
    using p policy d unfolding res by metis
qed

text \<open>
  What the queue says of a task reaches the client through ten names only. An answer 200 to a task
  query is an object with exactly the ten snapshot names, each with the daemon's value or \<open>null\<close>,
  given for a decimal id without leading zero to an authorized caller.
\<close>

theorem snapshot_projects:
  assumes "rs_status (handle_get_task fetch config r task_id) = 200"
  shows "\<exists>v. fetch (upstream_get (upstream_url config (''/v1/tasks/'' @ task_id))) = Some (200, Some v)
     \<and> is_authorized r config \<and> task_id_ok task_id \<and> 0 < int_of (field v ''id'')
     \<and> rs_body (handle_get_task fetch config r task_id) =
         JsonBody (JObj (map (\<lambda>k. (k, case field v k of None \<Rightarrow> JNull | Some w \<Rightarrow> w)) SNAPSHOT_KEYS))"
  using assms
  by (auto simp: handle_get_task_def require_authorization_def public_task_snapshot_def queue_unavailable_def
      split: option.splits if_splits prod.splits)


text \<open>A submission that is accepted, and a task whose state is read.\<close>

definition task_runtime :: runtime where
  "task_runtime = null_runtime\<lparr>rt_json_parse := (\<lambda>s. Some (JObj [(''type'', JStr ''hash.compute''), (''payload'', JNull)]))\<rparr>"

definition task_request :: request where
  "task_request = \<lparr>rq_method = ''POST'', rq_url = example_url ''/v1/tasks'',
     rq_headers = [(''authorization'', ''Bearer root''), (''content-type'', ''application/json''), (''idempotency-key'', ''k-1'')],
     rq_body = ''{}''\<rparr>"

definition task_fetch :: upstream where
  "task_fetch call = (if uc_method call = ''POST''
     then Some (202, Some (JObj [(''task_id'', JInt 5), (''status'', JStr ''PENDING''), (''idempotency'', JStr ''created'')]))
     else Some (200, Some (JObj [(''id'', JInt 5), (''status'', JStr ''PENDING''), (''secret'', JStr ''x'')])))"

definition task_bucket :: bucket where
  "task_bucket = \<lparr>bk_rate = 1, bk_burst = 1, bk_tokens = 1, bk_last_ms = 0\<rparr>"

lemma task_plan_example:
  "plan_task task_runtime example_config TASK_REGISTRY task_request =
     Inr \<lparr>pl_key = ''k-1'', pl_type = ''hash.compute'', pl_queue_kind = ''cpu'', pl_priority = 0, pl_max_retries = 3,
          pl_payload = JNull\<rparr>"
proof -
  let ?v = "JObj [(''type'', JStr ''hash.compute''), (''payload'', JNull)]"
  have "is_authorized task_request example_config" "parse_idempotency_key task_request = Inr ''k-1''"
    "json_content_type task_request" "header task_request ''content-length'' = None" "byte_length ''{}'' = 2"
    "task_submission_of ?v = Inr \<lparr>ts_type = ''hash.compute'', ts_payload = JNull, ts_priority = None, ts_max_retries = None\<rparr>"
    by code_simp+
  then show ?thesis
    by (simp add: plan_task_def require_authorization_def parse_public_task_request_def check_declared_length_def
        MAX_PUBLIC_REQUEST_BYTES_def task_runtime_def null_runtime_def get_task_policy_def TASK_REGISTRY_def standard_policy_def
        task_request_def)
qed

theorem task_accepted_only_by_queue_witness:
  "\<exists>p policy. plan_task task_runtime example_config TASK_REGISTRY task_request = Inr p
     \<and> get_task_policy TASK_REGISTRY (pl_type p) = Some policy \<and> pl_priority p \<le> tp_max_priority policy"
proof -
  have "rs_status (snd (handle_create_task task_runtime task_fetch example_config TASK_REGISTRY 0 task_request task_bucket)) = 202"
    by (simp add: handle_create_task_def task_plan_example try_acquire_def refilled_def task_bucket_def task_fetch_def
        submit_call_def submit_answer_def field_def Let_def)
  from task_accepted_only_by_queue [OF prod.collapse [symmetric] this] show ?thesis by blast
qed

theorem snapshot_projects_witness:
  "\<exists>v. task_fetch (upstream_get (upstream_url example_config (''/v1/tasks/'' @ ''5''))) = Some (200, Some v)
     \<and> rs_body (handle_get_task task_fetch example_config task_request ''5'') =
         JsonBody (JObj (map (\<lambda>k. (k, case field v k of None \<Rightarrow> JNull | Some w \<Rightarrow> w)) SNAPSHOT_KEYS))"
proof -
  have "rs_status (handle_get_task task_fetch example_config task_request ''5'') = 200" by code_simp
  from snapshot_projects [OF this] show ?thesis by blast
qed

end
