(* ===== verification/ResultRefs.thy ===== *)
theory ResultRefs
  imports Decimal
begin

text \<open>
  References of a workflow step to the results of other steps
  (\<open>workers/workflow-bun/src/result-reference.ts\<close>): their syntax, their validation against the steps that may
  be named, and their replacement by parts of stored results. The two error classes and any other
  \<open>Error\<close> are the three kinds of \<open>ref_failure\<close>. The queue's result endpoint is a parameter: a URL gives a
  response, or the message the call is rejected with.
\<close>

datatype ref_failure = ReferenceError string | ReadError string | OtherError string

definition MAX_WORKFLOW_RESULT_REFERENCES :: nat where "MAX_WORKFLOW_RESULT_REFERENCES = 64"
definition MAX_RESULT_PATH_SEGMENTS :: nat where "MAX_RESULT_PATH_SEGMENTS = 8"
definition MAX_RESULT_PATH_BYTES :: nat where "MAX_RESULT_PATH_BYTES = 256"
definition MAX_RESULT_API_RESPONSE_BYTES :: nat where "MAX_RESULT_API_RESPONSE_BYTES = 1048576"
definition MAX_RESOLVED_STEP_PAYLOAD_BYTES :: nat where "MAX_RESOLVED_STEP_PAYLOAD_BYTES = 262144"
definition MAX_REFERENCE_PAYLOAD_DEPTH :: nat where "MAX_REFERENCE_PAYLOAD_DEPTH = 32"

section \<open>Syntax\<close>

definition safe_step_id :: "string \<Rightarrow> bool" where
  "safe_step_id s \<longleftrightarrow> rx_range (\<lambda>c. is_alnum c \<or> c \<in> set ''._:-'') 1 64 s"

definition safe_path_segment :: "string \<Rightarrow> bool" where
  "safe_path_segment s \<longleftrightarrow> rx_range (\<lambda>c. is_alnum c \<or> c \<in> set ''_-'') 1 64 s"

definition safe_array_index :: "string \<Rightarrow> bool" where
  "safe_array_index s \<longleftrightarrow>
     s = ''0'' \<or> s \<noteq> [] \<and> is_digit (hd s) \<and> hd s \<noteq> CHR ''0'' \<and> list_all is_digit (tl s) \<and> length (tl s) \<le> 5"

definition FORBIDDEN_PATH_SEGMENTS :: "string list" where
  "FORBIDDEN_PATH_SEGMENTS = [''__proto__'', ''prototype'', ''constructor'']"

definition segment_ok :: "string \<Rightarrow> bool" where
  "segment_ok s \<longleftrightarrow> \<not> (s \<in> set FORBIDDEN_PATH_SEGMENTS \<or> \<not> safe_path_segment s \<and> \<not> safe_array_index s)"

definition parse_result_path :: "string \<Rightarrow> ref_failure + string list" where
  "parse_result_path raw =
     (if length raw = 0 \<or> byte_length raw > MAX_RESULT_PATH_BYTES
        then Inl (ReferenceError ''result reference path must contain 1-256 bytes'')
      else
        (let segments = split_on (CHR ''.'') raw
         in if length segments = 0 \<or> length segments > MAX_RESULT_PATH_SEGMENTS
              then Inl (ReferenceError ''result reference path supports at most 8 segments'')
            else
              (case find (\<lambda>s. \<not> segment_ok s) segments of
                 Some s \<Rightarrow> Inl (ReferenceError (''invalid result reference path segment: '' @ s))
               | None \<Rightarrow> Inr segments)))"

text \<open>A reference: the step and the path. \<open>None\<close> where the object is none.\<close>

type_synonym result_reference = "string \<times> string"

definition parse_reference :: "json \<Rightarrow> ref_failure + result_reference option" where
  "parse_reference v =
     (if field v ''$from'' = None then Inr None
      else if length (fields_of v) \<noteq> 2 \<or> field v ''path'' = None
        then Inl (ReferenceError ''result reference objects must contain exactly $from and path'')
      else if \<not> is_string (field v ''$from'') \<or> \<not> safe_step_id (str_of (field v ''$from''))
        then Inl (ReferenceError ''result reference $from must be a safe step id'')
      else if \<not> is_string (field v ''path'')
        then Inl (ReferenceError ''result reference path must be a string'')
      else
        (case parse_result_path (str_of (field v ''path'')) of
           Inl e \<Rightarrow> Inl e
         | Inr segments \<Rightarrow> Inr (Some (str_of (field v ''$from''), str_of (field v ''path'')))))"

section \<open>Validation\<close>

definition on_reference :: "string list \<Rightarrow> result_reference \<Rightarrow> nat \<Rightarrow> ref_failure + nat" where
  "on_reference allowed ref n =
     (if n + 1 > MAX_WORKFLOW_RESULT_REFERENCES
        then Inl (ReferenceError ''workflow supports at most 64 result references per step'')
      else if fst ref \<notin> set allowed
        then Inl (ReferenceError (''result reference source '' @ fst ref @ '' is not an ancestor dependency''))
      else Inr (n + 1))"

definition depth_error :: ref_failure where
  "depth_error = ReferenceError ''workflow payload nesting exceeds 32''"

lemma size_values [termination_simp]: "size_list size (map snd ps) \<le> size_list (size_prod (\<lambda>k. 0) size) ps"
  by (induction ps) auto

text \<open>
  The walk over a payload with the count of references so far; a loop over entries is the second
  function, on the list of those left.
\<close>

function walk_references :: "string list \<Rightarrow> json \<Rightarrow> nat \<Rightarrow> nat \<Rightarrow> ref_failure + nat"
  and walk_entries :: "string list \<Rightarrow> json list \<Rightarrow> nat \<Rightarrow> nat \<Rightarrow> ref_failure + nat" where
  "walk_references allowed v depth n =
     (if depth > MAX_REFERENCE_PAYLOAD_DEPTH then Inl depth_error
      else (case v of
        JArr vs \<Rightarrow> walk_entries allowed vs (depth + 1) n
      | JObj ps \<Rightarrow>
          (case parse_reference v of
             Inl e \<Rightarrow> Inl e
           | Inr (Some ref) \<Rightarrow> on_reference allowed ref n
           | Inr None \<Rightarrow> walk_entries allowed (map snd ps) (depth + 1) n)
      | _ \<Rightarrow> Inr n))"
| "walk_entries allowed [] depth n = Inr n"
| "walk_entries allowed (v # vs) depth n =
     (case walk_references allowed v depth n of Inl e \<Rightarrow> Inl e | Inr n' \<Rightarrow> walk_entries allowed vs depth n')"
  by pat_completeness auto
termination
  by (relation "measure (\<lambda>x. case x of Inl (_, v, _) \<Rightarrow> 2 * size v | Inr (_, vs, _) \<Rightarrow> 2 * size_list size vs + 1)")
    (auto simp: less_Suc_eq_le size_values [unfolded size_list_map])

definition validate_result_reference_payload :: "json \<Rightarrow> string list \<Rightarrow> ref_failure + nat" where
  "validate_result_reference_payload payload allowed = walk_references allowed payload 0 0"

section \<open>Reading a stored result\<close>

text \<open>
  The body of a response is \<open>None\<close> or the list of its chunks; \<open>rr_broken\<close> is the message the stream fails
  with after them, if it does. \<open>rc_decode\<close> is the fatal UTF-8 decoder.
\<close>

record result_response =
  rr_status :: nat
  rr_content_length :: "string option"
  rr_body :: "nat list list option"
  rr_broken :: "string option"

record result_config =
  rc_origin :: string
  rc_timeout_ms :: int
  rc_fetch :: "string \<Rightarrow> string + result_response"
  rc_decode :: "nat list \<Rightarrow> string option"

definition response_too_large :: string where
  "response_too_large = ''queue result response exceeds bounded size''"

fun read_chunks :: "nat list list \<Rightarrow> nat list \<Rightarrow> ref_failure + nat list" where
  "read_chunks [] acc = Inr acc"
| "read_chunks (c # cs) acc =
     (if length acc + length c > MAX_RESULT_API_RESPONSE_BYTES then Inl (ReadError response_too_large)
      else read_chunks cs (acc @ c))"

definition read_bounded_text :: "runtime \<Rightarrow> result_config \<Rightarrow> result_response \<Rightarrow> ref_failure + string" where
  "read_bounded_text rt config response =
     (if (case rr_content_length response of
            None \<Rightarrow> False
          | Some declared \<Rightarrow>
              (case rt_number rt declared of
                 None \<Rightarrow> True
               | Some n \<Rightarrow> n > max_safe_integer \<or> n < 0 \<or> n > int MAX_RESULT_API_RESPONSE_BYTES))
        then Inl (ReadError response_too_large)
      else
        (case rr_body response of
           None \<Rightarrow> Inl (ReadError ''queue result response body is missing'')
         | Some chunks \<Rightarrow>
             (case read_chunks chunks [] of
                Inl e \<Rightarrow> Inl e
              | Inr bytes \<Rightarrow>
                  (case rr_broken response of
                     Some message \<Rightarrow> Inl (OtherError message)
                   | None \<Rightarrow>
                       (case rc_decode config bytes of
                          None \<Rightarrow> Inl (ReadError ''queue result response is not valid UTF-8'')
                        | Some s \<Rightarrow> Inr s)))))"

definition request_failed :: "ref_failure \<Rightarrow> ref_failure" where
  "request_failed e =
     (case e of
        ReadError message \<Rightarrow> e
      | ReferenceError message \<Rightarrow> ReadError (''queue result request failed: '' @ message)
      | OtherError message \<Rightarrow> ReadError (''queue result request failed: '' @ message))"

definition fetch_projection :: "runtime \<Rightarrow> result_config \<Rightarrow> int \<Rightarrow> ref_failure + json" where
  "fetch_projection rt config task_id =
     (case rc_fetch config (rc_origin config @ ''/v1/tasks/'' @ int_text task_id @ ''/result'') of
        Inl message \<Rightarrow> Inl (request_failed (OtherError message))
      | Inr response \<Rightarrow>
      (case read_bounded_text rt config response of
        Inl e \<Rightarrow> Inl (request_failed e)
      | Inr raw \<Rightarrow>
          if rr_status response = 404
            then Inl (ReadError (''completed source task '' @ int_text task_id @ '' has no result projection''))
          else if rr_status response \<noteq> 200
            then Inl (ReadError (''queue result read for task '' @ int_text task_id @ '' failed with HTTP ''
                   @ nat_text (rr_status response)))
          else
            (case rt_json_parse rt raw of
               None \<Rightarrow> Inl (ReadError ''queue result endpoint returned invalid JSON'')
             | Some w \<Rightarrow>
                 if \<not> is_record w \<or> field w ''task_id'' \<noteq> Some (JInt task_id)
                    \<or> \<not> is_string (field w ''result_json'')
                    \<or> \<not> is_safe_integer (field w ''result_bytes'')
                    \<or> int_of (field w ''result_bytes'') < 0
                    \<or> int_of (field w ''result_bytes'') > int MAX_RESOLVED_STEP_PAYLOAD_BYTES
                    \<or> int (byte_length (str_of (field w ''result_json''))) \<noteq> int_of (field w ''result_bytes'')
                   then Inl (ReadError ''queue result endpoint returned an invalid projection wrapper'')
                 else
                   (case rt_json_parse rt (str_of (field w ''result_json'')) of
                      None \<Rightarrow> Inl (ReadError ''stored result projection is not valid JSON'')
                    | Some projection \<Rightarrow>
                        if \<not> is_record projection
                          then Inl (ReadError ''stored result projection must be a JSON object'')
                        else Inr projection))))"

fun select_segments :: "string list \<Rightarrow> json \<Rightarrow> ref_failure + json" where
  "select_segments [] current = Inr current"
| "select_segments (s # ss) current =
     (case current of
        JArr vs \<Rightarrow>
          if \<not> safe_array_index s
            then Inl (ReadError (''result path segment '' @ s @ '' is not an array index''))
          else if digits_value s \<ge> length vs
            then Inl (ReadError (''result path array index '' @ s @ '' is out of bounds''))
          else select_segments ss (vs ! digits_value s)
      | _ \<Rightarrow>
          (case field current s of
             None \<Rightarrow> Inl (ReadError (''result path segment '' @ s @ '' does not exist''))
           | Some v \<Rightarrow> select_segments ss v))"

definition select_path :: "json \<Rightarrow> string \<Rightarrow> ref_failure + json" where
  "select_path root path = (case parse_result_path path of Inl e \<Rightarrow> Inl e | Inr segments \<Rightarrow> select_segments segments root)"


section \<open>Resolution\<close>

text \<open>
  The state of a resolution: the references met so far and the projections read so far, by task. The
  entries of an array, which the code resolves concurrently, are taken from left to right. An assignment
  to the property \<open>__proto__\<close> of the new object sets its prototype and makes no property.
\<close>

type_synonym resolve_state = "nat \<times> (int \<times> json) list"

definition resolve_reference ::
  "runtime \<Rightarrow> result_config \<Rightarrow> (string \<times> int) list \<Rightarrow> result_reference \<Rightarrow> resolve_state
   \<Rightarrow> ref_failure + resolve_state \<times> json" where
  "resolve_reference rt config sources ref st =
     (case st of (n, cache) \<Rightarrow>
        if n + 1 > MAX_WORKFLOW_RESULT_REFERENCES
          then Inl (ReferenceError ''workflow supports at most 64 result references per step'')
        else
          (case map_of sources (fst ref) of
             None \<Rightarrow> Inl (ReferenceError (''result reference source '' @ fst ref @ '' is not an available ancestor''))
           | Some task_id \<Rightarrow>
               (case map_of cache task_id of
                  Some projection \<Rightarrow>
                    map_sum id (\<lambda>w. ((n + 1, cache), w)) (select_path projection (snd ref))
                | None \<Rightarrow>
                    (case fetch_projection rt config task_id of
                       Inl e \<Rightarrow> Inl e
                     | Inr projection \<Rightarrow>
                         map_sum id (\<lambda>w. ((n + 1, map_set task_id projection cache), w))
                           (select_path projection (snd ref))))))"

definition assigned :: "string list \<Rightarrow> json list \<Rightarrow> json" where
  "assigned keys ws = JObj (filter (\<lambda>p. fst p \<noteq> ''__proto__'') (zip keys ws))"

function resolve_value ::
    "runtime \<Rightarrow> result_config \<Rightarrow> (string \<times> int) list \<Rightarrow> json \<Rightarrow> nat \<Rightarrow> resolve_state \<Rightarrow> ref_failure + resolve_state \<times> json"
  and resolve_entries ::
    "runtime \<Rightarrow> result_config \<Rightarrow> (string \<times> int) list \<Rightarrow> json list \<Rightarrow> nat \<Rightarrow> resolve_state \<Rightarrow> ref_failure + resolve_state \<times> json list"
  where
  "resolve_value rt config sources v depth st =
     (if depth > MAX_REFERENCE_PAYLOAD_DEPTH then Inl depth_error
      else (case v of
        JArr vs \<Rightarrow>
          (case resolve_entries rt config sources vs (depth + 1) st of
             Inl e \<Rightarrow> Inl e | Inr (st', ws) \<Rightarrow> Inr (st', JArr ws))
      | JObj ps \<Rightarrow>
          (case parse_reference v of
             Inl e \<Rightarrow> Inl e
           | Inr (Some ref) \<Rightarrow> resolve_reference rt config sources ref st
           | Inr None \<Rightarrow>
               (case resolve_entries rt config sources (map snd ps) (depth + 1) st of
                  Inl e \<Rightarrow> Inl e | Inr (st', ws) \<Rightarrow> Inr (st', assigned (map fst ps) ws)))
      | _ \<Rightarrow> Inr (st, v)))"
| "resolve_entries rt config sources [] depth st = Inr (st, [])"
| "resolve_entries rt config sources (v # vs) depth st =
     (case resolve_value rt config sources v depth st of
        Inl e \<Rightarrow> Inl e
      | Inr (st1, w) \<Rightarrow>
          (case resolve_entries rt config sources vs depth st1 of
             Inl e \<Rightarrow> Inl e | Inr (st2, ws) \<Rightarrow> Inr (st2, w # ws)))"
  by pat_completeness auto
termination
  by (relation "measure (\<lambda>x. case x of Inl (_, _, _, v, _) \<Rightarrow> 2 * size v | Inr (_, _, _, vs, _) \<Rightarrow> 2 * size_list size vs + 1)")
    (auto simp: less_Suc_eq_le size_values [unfolded size_list_map])

declare walk_references.simps [simp del] resolve_value.simps [simp del]

definition is_loopback_host :: "string \<Rightarrow> bool" where
  "is_loopback_host host \<longleftrightarrow> host \<in> set [''127.0.0.1'', ''localhost'', ''[::1]'', ''::1'']"

definition loopback_origin :: "runtime \<Rightarrow> string \<Rightarrow> string \<Rightarrow> string + string" where
  "loopback_origin rt name raw =
     (case rt_url rt raw of
        None \<Rightarrow> Inl ''TypeError''
      | Some u \<Rightarrow>
          if u_protocol u \<noteq> ''http:'' \<or> \<not> is_loopback_host (to_lower (u_hostname u))
            then Inl (name @ '' must be a loopback http origin'')
          else if u_username u \<noteq> [] \<or> u_password u \<noteq> [] \<or> u_search u \<noteq> [] \<or> u_hash u \<noteq> []
                  \<or> (u_pathname u \<noteq> [] \<and> u_pathname u \<noteq> ''/'')
            then Inl (name @ '' must contain only scheme, host, and port'')
          else Inr (u_origin u))"

definition normalize_workflow_result_origin :: "runtime \<Rightarrow> string \<Rightarrow> string + string" where
  "normalize_workflow_result_origin rt raw = loopback_origin rt ''WORKFLOW_RESULT_ORIGIN'' raw"

definition resolve_result_references ::
  "runtime \<Rightarrow> json \<Rightarrow> (string \<times> int) list \<Rightarrow> result_config \<Rightarrow> ref_failure + json" where
  "resolve_result_references rt payload sources raw_config =
     (case normalize_workflow_result_origin rt (rc_origin raw_config) of
        Inl e \<Rightarrow> Inl (OtherError e)
      | Inr origin \<Rightarrow>
          (let config = raw_config\<lparr>rc_origin := origin\<rparr>
           in if rc_timeout_ms config < 100 \<or> rc_timeout_ms config > 60000
                then Inl (OtherError ''workflow result request timeout must be between 100 and 60000'')
              else
                (case validate_result_reference_payload payload (keys_of sources) of
                   Inl e \<Rightarrow> Inl e
                 | Inr n \<Rightarrow>
                     (case resolve_value rt config sources payload 0 (0, []) of
                        Inl e \<Rightarrow> Inl e
                      | Inr (st, resolved) \<Rightarrow>
                          if byte_length (rt_json_text rt resolved) > MAX_RESOLVED_STEP_PAYLOAD_BYTES
                            then Inl (ReadError ''resolved workflow step payload exceeds 256 KiB'')
                          else Inr resolved))))"

section \<open>Resolution is substitution\<close>

text \<open>What a reference stands for, and a payload with every reference replaced by it: no depth, no count, no cache.\<close>

definition referenced :: "runtime \<Rightarrow> result_config \<Rightarrow> (string \<times> int) list \<Rightarrow> result_reference \<Rightarrow> ref_failure + json" where
  "referenced rt config sources ref =
     (case fetch_projection rt config (the (map_of sources (fst ref))) of
        Inl e \<Rightarrow> Inl e | Inr projection \<Rightarrow> select_path projection (snd ref))"

function substitute :: "(result_reference \<Rightarrow> ref_failure + json) \<Rightarrow> json \<Rightarrow> ref_failure + json"
  and substitute_all :: "(result_reference \<Rightarrow> ref_failure + json) \<Rightarrow> json list \<Rightarrow> ref_failure + json list" where
  "substitute f v =
     (case v of
        JArr vs \<Rightarrow> map_sum id JArr (substitute_all f vs)
      | JObj ps \<Rightarrow>
          (case parse_reference v of
             Inr (Some ref) \<Rightarrow> f ref
           | _ \<Rightarrow> map_sum id (assigned (map fst ps)) (substitute_all f (map snd ps)))
      | _ \<Rightarrow> Inr v)"
| "substitute_all f [] = Inr []"
| "substitute_all f (v # vs) =
     (case substitute f v of Inl e \<Rightarrow> Inl e | Inr w \<Rightarrow> map_sum id ((#) w) (substitute_all f vs))"
  by pat_completeness auto
termination
  by (relation "measure (\<lambda>x. case x of Inl (_, v) \<Rightarrow> 2 * size v | Inr (_, vs) \<Rightarrow> 2 * size_list size vs + 1)")
    (auto simp: less_Suc_eq_le size_values [unfolded size_list_map])

declare substitute.simps [simp del]

definition cache_ok :: "runtime \<Rightarrow> result_config \<Rightarrow> (int \<times> json) list \<Rightarrow> bool" where
  "cache_ok rt config cache \<longleftrightarrow> (\<forall>t p. map_of cache t = Some p \<longrightarrow> fetch_projection rt config t = Inr p)"

lemma parse_result_path_error: "parse_result_path raw = Inl e \<Longrightarrow> \<exists>m. e = ReferenceError m"
  by (auto simp: parse_result_path_def Let_def split: if_splits option.splits)

lemma parse_reference_Some:
  assumes "parse_reference v = Inr (Some ref)"
  obtains segments where "parse_result_path (snd ref) = Inr segments"
  using assms by (auto simp: parse_reference_def split: if_splits sum.splits)

lemma select_segments_error: "select_segments ss v = Inl e \<Longrightarrow> \<exists>m. e = ReadError m"
  by (induction ss v rule: select_segments.induct) (auto split: json.splits if_splits option.splits)

lemma request_failed_ReadError: "\<exists>m. request_failed e = ReadError m"
  by (cases e) (auto simp: request_failed_def)

lemma fetch_projection_error: "fetch_projection rt config t = Inl e \<Longrightarrow> \<exists>m. e = ReadError m"
  using request_failed_ReadError by (auto simp: fetch_projection_def split: sum.splits option.splits if_splits)

lemma referenced_error:
  "parse_reference v = Inr (Some ref) \<Longrightarrow> referenced rt config sources ref = Inl e \<Longrightarrow> \<exists>m. e = ReadError m"
  by (elim parse_reference_Some)
    (auto simp: referenced_def select_path_def dest: fetch_projection_error select_segments_error split: sum.splits)

lemma resolve_reference_eq:
  assumes "on_reference (keys_of sources) ref n = Inr n'" and "cache_ok rt config cache"
  shows "\<exists>cache'. cache_ok rt config cache'
     \<and> resolve_reference rt config sources ref (n, cache)
         = map_sum id (\<lambda>w. ((n', cache'), w)) (referenced rt config sources ref)"
proof -
  obtain t where t: "map_of sources (fst ref) = Some t" and n: "n + 1 \<le> MAX_WORKFLOW_RESULT_REFERENCES" "n' = n + 1"
    using assms(1) by (cases "map_of sources (fst ref)")
      (auto simp: on_reference_def map_of_eq_None_iff split: if_splits)
  show ?thesis
  proof (cases "map_of cache t")
    case (Some p)
    then have "fetch_projection rt config t = Inr p" using assms(2) by (simp add: cache_ok_def)
    with Some t n assms(2) show ?thesis
      by (intro exI [of _ cache]) (simp add: resolve_reference_def referenced_def)
  next
    case None
    show ?thesis
    proof (cases "fetch_projection rt config t")
      case (Inl e)
      with None t n assms(2) show ?thesis
        by (intro exI [of _ cache]) (simp add: resolve_reference_def referenced_def)
    next
      case (Inr p)
      with None t n assms(2) show ?thesis
        by (intro exI [of _ "map_set t p cache"]) (auto simp: resolve_reference_def referenced_def cache_ok_def)
    qed
  qed
qed


lemma substitute_error:
  "substitute (referenced rt config sources) v = Inl e \<Longrightarrow> \<exists>m. e = ReadError m"
  "substitute_all (referenced rt config sources) vs = Inl e \<Longrightarrow> \<exists>m. e = ReadError m"
proof (induction "referenced rt config sources" v and "referenced rt config sources" vs
    arbitrary: e and e rule: substitute_substitute_all.induct)
  case (1 v)
  then show ?case
    by (cases v) (auto simp: substitute.simps map_sum_def dest: referenced_error split: sum.splits option.splits)
next
  case (3 v vs)
  then show ?case by (auto simp: map_sum_def split: sum.splits)
qed simp

lemma resolve_value_eq:
  "allowed = keys_of sources \<Longrightarrow> walk_references allowed v d n = Inr n' \<Longrightarrow> cache_ok rt config cache \<Longrightarrow>
   \<exists>cache'. cache_ok rt config cache'
     \<and> resolve_value rt config sources v d (n, cache)
         = map_sum id (\<lambda>w. ((n', cache'), w)) (substitute (referenced rt config sources) v)"
  "allowed = keys_of sources \<Longrightarrow> walk_entries allowed vs d n = Inr n' \<Longrightarrow> cache_ok rt config cache \<Longrightarrow>
   \<exists>cache'. cache_ok rt config cache'
     \<and> resolve_entries rt config sources vs d (n, cache)
         = map_sum id (\<lambda>ws. ((n', cache'), ws)) (substitute_all (referenced rt config sources) vs)"
proof (induction allowed v d n and allowed vs d n arbitrary: n' cache and n' cache
    rule: walk_references_walk_entries.induct)
  case (1 allowed v d n)
  show ?case
  proof (cases v)
    case (JArr vs)
    have "\<not> d > MAX_REFERENCE_PAYLOAD_DEPTH" and w: "walk_entries allowed vs (d + 1) n = Inr n'"
      using "1.prems"(2) JArr by (auto simp: walk_references.simps split: if_splits)
    with "1.IH"(1) [OF this(1) JArr "1.prems"(1) w "1.prems"(3)] JArr show ?thesis
      by (fastforce simp: resolve_value.simps substitute.simps map_sum_def split: sum.splits)
  next
    case (JObj ps)
    have d: "\<not> d > MAX_REFERENCE_PAYLOAD_DEPTH" using "1.prems"(2) by (auto simp: walk_references.simps split: if_splits)
    obtain oref where r: "parse_reference v = Inr oref"
      using "1.prems"(2) d JObj by (auto simp: walk_references.simps split: sum.splits)
    show ?thesis
    proof (cases oref)
      case None
      have w: "walk_entries allowed (map snd ps) (d + 1) n = Inr n'"
        using "1.prems"(2) d JObj r None by (auto simp: walk_references.simps)
      from "1.IH"(2) [OF d JObj r None "1.prems"(1) w "1.prems"(3)] d JObj r None show ?thesis
        by (fastforce simp: resolve_value.simps substitute.simps map_sum_def split: sum.splits)
    next
      case (Some ref)
      have "on_reference (keys_of sources) ref n = Inr n'"
        using "1.prems"(1,2) d JObj r Some by (auto simp: walk_references.simps)
      from resolve_reference_eq [OF this "1.prems"(3)] d JObj r Some show ?thesis
        by (simp add: resolve_value.simps substitute.simps id_def)
    qed
  qed (use 1 in \<open>auto simp: walk_references.simps resolve_value.simps substitute.simps split: if_splits\<close>)
next
  case (3 allowed v vs d n)
  obtain n1 where n1: "walk_references allowed v d n = Inr n1" and w: "walk_entries allowed vs d n1 = Inr n'"
    using "3.prems"(2) by (auto split: sum.splits)
  obtain c1 where c1: "cache_ok rt config c1"
    and v: "resolve_value rt config sources v d (n, cache)
              = map_sum id (\<lambda>w. ((n1, c1), w)) (substitute (referenced rt config sources) v)"
    using "3.IH"(1) [OF "3.prems"(1) n1 "3.prems"(3)] by blast
  obtain c2 where c2: "cache_ok rt config c2"
    and vs: "resolve_entries rt config sources vs d (n1, c1)
              = map_sum id (\<lambda>ws. ((n', c2), ws)) (substitute_all (referenced rt config sources) vs)"
    using "3.IH"(2) [OF n1 "3.prems"(1) w c1] by blast
  show ?case
    by (rule exI [of _ c2]) (use c2 v vs in \<open>auto simp: map_sum_def split: sum.splits\<close>)
qed auto


lemma walk_references_bound:
  "walk_references allowed v d n = Inr n' \<Longrightarrow> n \<le> MAX_WORKFLOW_RESULT_REFERENCES
    \<Longrightarrow> n \<le> n' \<and> n' \<le> MAX_WORKFLOW_RESULT_REFERENCES"
  "walk_entries allowed vs d n = Inr n' \<Longrightarrow> n \<le> MAX_WORKFLOW_RESULT_REFERENCES
    \<Longrightarrow> n \<le> n' \<and> n' \<le> MAX_WORKFLOW_RESULT_REFERENCES"
proof (induction allowed v d n and allowed vs d n arbitrary: n' and n'
    rule: walk_references_walk_entries.induct)
  case (1 allowed v d n)
  show ?case
    using 1 by (cases v) (auto simp: walk_references.simps on_reference_def split: if_splits sum.splits option.splits)
next
  case (3 allowed v vs d n)
  obtain n1 where n1: "walk_references allowed v d n = Inr n1" and w: "walk_entries allowed vs d n1 = Inr n'"
    using "3.prems"(1) by (auto split: sum.splits)
  from "3.IH"(1) [OF n1 "3.prems"(2)] "3.IH"(2) [OF n1 w] show ?case by auto
qed auto

lemma resolve_validated:
  assumes "normalize_workflow_result_origin rt (rc_origin raw) = Inr origin"
    and "100 \<le> rc_timeout_ms raw" and "rc_timeout_ms raw \<le> 60000"
    and "validate_result_reference_payload payload (keys_of sources) = Inr n"
  shows "resolve_result_references rt payload sources raw =
         (case substitute (referenced rt (raw\<lparr>rc_origin := origin\<rparr>) sources) payload of
            Inl e \<Rightarrow> Inl e
          | Inr w \<Rightarrow>
              if byte_length (rt_json_text rt w) > MAX_RESOLVED_STEP_PAYLOAD_BYTES
                then Inl (ReadError ''resolved workflow step payload exceeds 256 KiB'')
              else Inr w)"
proof -
  let ?c = "raw\<lparr>rc_origin := origin\<rparr>"
  have w: "walk_references (keys_of sources) payload 0 0 = Inr n"
    using assms(4) by (simp add: validate_result_reference_payload_def)
  obtain cache where "resolve_value rt ?c sources payload 0 (0, [])
      = map_sum id (\<lambda>w. ((n, cache), w)) (substitute (referenced rt ?c sources) payload)"
    using resolve_value_eq(1) [OF refl w, of rt ?c "[]"] by (auto simp: cache_ok_def)
  then show ?thesis
    using assms by (simp add: resolve_result_references_def Let_def split: sum.splits)
qed

lemma resolve_validated_error:
  assumes "validate_result_reference_payload payload (keys_of sources) = Inr n"
    and "resolve_result_references rt payload sources raw = Inl e"
  shows "\<exists>m. e = ReadError m \<or> e = OtherError m"
proof (cases "\<exists>origin. normalize_workflow_result_origin rt (rc_origin raw) = Inr origin
      \<and> 100 \<le> rc_timeout_ms raw \<and> rc_timeout_ms raw \<le> 60000")
  case True
  then obtain origin where o: "normalize_workflow_result_origin rt (rc_origin raw) = Inr origin"
    "100 \<le> rc_timeout_ms raw" "rc_timeout_ms raw \<le> 60000" by blast
  from assms(2) show ?thesis
    unfolding resolve_validated [OF o assms(1)] by (auto dest: substitute_error(1) split: sum.splits if_splits)
next
  case False
  with assms(2) show ?thesis
    by (auto simp: resolve_result_references_def Let_def split: sum.splits if_splits)
qed

text \<open>
  C10. A payload that passes the validation of its result references carries at most 64 of them and
  resolves exactly as plain substitution does: every reference is replaced by what its path selects in
  the stored result of the step it names, whatever the nesting, the count and the order in which results
  are read and reused; the only further limit is the size of the outcome. And once validated, the only
  failure left is a failure to read a result, never a reference error.
\<close>

theorem validated_payload_resolves_by_substitution:
  assumes "normalize_workflow_result_origin rt (rc_origin raw) = Inr origin"
    and "100 \<le> rc_timeout_ms raw" and "rc_timeout_ms raw \<le> 60000"
    and "validate_result_reference_payload payload (map fst sources) = Inr n"
  shows "n \<le> MAX_WORKFLOW_RESULT_REFERENCES
     \<and> resolve_result_references rt payload sources raw =
         (case substitute (referenced rt (raw\<lparr>rc_origin := origin\<rparr>) sources) payload of
            Inl e \<Rightarrow> Inl e
          | Inr w \<Rightarrow>
              if byte_length (rt_json_text rt w) > MAX_RESOLVED_STEP_PAYLOAD_BYTES
                then Inl (ReadError ''resolved workflow step payload exceeds 256 KiB'')
              else Inr w)
     \<and> (\<forall>e. resolve_result_references rt payload sources raw = Inl e \<longrightarrow> (\<exists>m. e = ReadError m))"
proof -
  have "n \<le> MAX_WORKFLOW_RESULT_REFERENCES"
    using assms(4) walk_references_bound(1) by (fastforce simp: validate_result_reference_payload_def)
  with resolve_validated [OF assms] show ?thesis
    by (auto dest: substitute_error(1) split: sum.splits if_splits)
qed

definition result_runtime :: runtime where
  "result_runtime = null_runtime
     \<lparr>rt_url := (\<lambda>s. Some ((example_url ''/'')\<lparr>u_protocol := ''http:'', u_hostname := ''localhost'', u_origin := s\<rparr>)),
      rt_json_parse := (\<lambda>s.
        if s = ''{}'' then Some (JObj [(''answer'', JArr [JInt 5, JInt 42])])
        else Some (JObj [(''task_id'', JInt 7), (''result_json'', JStr ''{}''), (''result_bytes'', JInt 2)]))\<rparr>"

definition example_results :: result_config where
  "example_results =
     \<lparr>rc_origin = ''http://localhost:7000'', rc_timeout_ms = 1000,
      rc_fetch = (\<lambda>u. if u = ''http://localhost:7000/v1/tasks/7/result''
        then Inr \<lparr>rr_status = 200, rr_content_length = None, rr_body = Some [[87]], rr_broken = None\<rparr>
        else Inl ''refused''),
      rc_decode = (\<lambda>bs. Some (map char_of bs))\<rparr>"

definition example_payload :: json where
  "example_payload = JObj [(''x'', JArr [JObj [(''$from'', JStr ''a''), (''path'', JStr ''answer.1'')]])]"

lemma example_payload_facts:
  "to_lower ''localhost'' = ''localhost''"
  "validate_result_reference_payload example_payload [''a''] = Inr 1"
  "parse_reference example_payload = Inr None"
  "parse_reference (JObj [(''$from'', JStr ''a''), (''path'', JStr ''answer.1'')]) = Inr (Some (''a'', ''answer.1''))"
  "select_path (JObj [(''answer'', JArr [JInt 5, JInt 42])]) ''answer.1'' = Inr (JInt 42)"
  "int_text 7 = ''7''"
  by code_simp+

lemma validated_payload_resolves_by_substitution_witness:
  "resolve_result_references result_runtime example_payload [(''a'', 7)] example_results
     = Inr (JObj [(''x'', JArr [JInt 42])])"
proof -
  let ?c = "example_results\<lparr>rc_origin := ''http://localhost:7000''\<rparr>"
  have o: "normalize_workflow_result_origin result_runtime (rc_origin example_results) = Inr ''http://localhost:7000''"
    by (simp add: normalize_workflow_result_origin_def loopback_origin_def result_runtime_def example_results_def
        example_url_def is_loopback_host_def example_payload_facts)
  have "fetch_projection result_runtime ?c 7 = Inr (JObj [(''answer'', JArr [JInt 5, JInt 42])])"
    by (simp add: fetch_projection_def read_bounded_text_def result_runtime_def example_results_def
        example_payload_facts null_runtime_def max_safe_integer_def MAX_RESOLVED_STEP_PAYLOAD_BYTES_def
        MAX_RESULT_API_RESPONSE_BYTES_def)
  then have "substitute (referenced result_runtime ?c [(''a'', 7)]) example_payload
      = Inr (JObj [(''x'', JArr [JInt 42])])"
    using example_payload_facts(3)
    by (simp add: substitute.simps example_payload_def example_payload_facts(4,5) referenced_def assigned_def)
  then show ?thesis
    using validated_payload_resolves_by_substitution [OF o, of example_payload "[(''a'', 7)]" 1]
    by (simp add: example_results_def example_payload_facts(2) result_runtime_def null_runtime_def)
qed

end
