(* ===== verification/WorkflowDef.thy ===== *)
theory WorkflowDef
  imports ResultRefs
begin

text \<open>
  The definition of a workflow (\<open>workers/workflow-bun/src/workflow-handler.ts\<close>, the parser and
  \<open>ancestorsOf\<close>): the steps of a payload, the checks on them, and the dependency graph they form. The two
  error classes of the handler and any other \<open>Error\<close> are the kinds of \<open>wf_error\<close>.
\<close>

datatype wf_error = PayloadError string | ExecutionError string | OtherFailure string

definition MAX_WORKFLOW_PAYLOAD_BYTES :: nat where "MAX_WORKFLOW_PAYLOAD_BYTES = 262144"
definition MAX_WORKFLOW_STEPS :: nat where "MAX_WORKFLOW_STEPS = 32"

record workflow_step =
  ws_id :: string
  ws_type :: string
  ws_payload :: json
  ws_depends_on :: "string list"
  ws_priority :: "int option"
  ws_max_retries :: "int option"

type_synonym step_map = "(string \<times> workflow_step) list"

definition SAFE_ID :: "string \<Rightarrow> bool" where
  "SAFE_ID s \<longleftrightarrow> rx_range (\<lambda>c. is_alnum c \<or> c \<in> set ''._:-'') 1 64 s"

definition SAFE_TASK_TYPE :: "string \<Rightarrow> bool" where
  "SAFE_TASK_TYPE s \<longleftrightarrow> rx_range (\<lambda>c. is_alnum c \<or> c \<in> set ''._:-'') 1 128 s"

section \<open>Steps\<close>

definition WORKFLOW_STEP_KEYS :: "string list" where
  "WORKFLOW_STEP_KEYS = [''id'', ''type'', ''payload'', ''depends_on'', ''priority'', ''max_retries'']"

fun parse_dependencies :: "string \<Rightarrow> json list \<Rightarrow> string list \<Rightarrow> wf_error + string list" where
  "parse_dependencies step_id [] depends_on = Inr depends_on"
| "parse_dependencies step_id (d # ds) depends_on =
     (if \<not> is_string (Some d) \<or> \<not> SAFE_ID (str_of (Some d))
        then Inl (PayloadError (''workflow step '' @ step_id @ '' has an invalid dependency id''))
      else if str_of (Some d) = step_id
        then Inl (PayloadError (''workflow step '' @ step_id @ '' cannot depend on itself''))
      else if str_of (Some d) \<in> set depends_on
        then Inl (PayloadError (''workflow step '' @ step_id @ '' repeats dependency '' @ str_of (Some d)))
      else parse_dependencies step_id ds (depends_on @ [str_of (Some d)]))"

definition given_int :: "json \<Rightarrow> string \<Rightarrow> int option" where
  "given_int v k = map_option (\<lambda>x. int_of (Some x)) (field v k)"

definition parse_workflow_step :: "nat \<Rightarrow> string list \<Rightarrow> json \<Rightarrow> wf_error + workflow_step" where
  "parse_workflow_step index ids raw =
     (if \<not> is_record raw then Inl (PayloadError (''workflow step '' @ nat_text index @ '' must be a JSON object''))
      else
     (case find (\<lambda>k. k \<notin> set WORKFLOW_STEP_KEYS) (keys_of (fields_of raw)) of
        Some key \<Rightarrow> Inl (PayloadError (''unsupported workflow step field: '' @ key))
      | None \<Rightarrow>
     (let id = str_of (field raw ''id''); type = str_of (field raw ''type'');
          deps = (case field raw ''depends_on'' of None \<Rightarrow> JArr [] | Some JNull \<Rightarrow> JArr [] | Some v \<Rightarrow> v)
      in
      if \<not> is_string (field raw ''id'') \<or> \<not> SAFE_ID id
        then Inl (PayloadError (''workflow step '' @ nat_text index @ '' has an invalid id''))
      else if id \<in> set ids then Inl (PayloadError (''duplicate workflow step id: '' @ id))
      else if \<not> is_string (field raw ''type'') \<or> \<not> SAFE_TASK_TYPE type
        then Inl (PayloadError (''workflow step '' @ id @ '' has an invalid task type''))
      else if type = ''workflow.run''
        then Inl (PayloadError ''recursive workflow.run steps are not supported in v1'')
      else if field raw ''payload'' = None
        then Inl (PayloadError (''workflow step '' @ id @ '' is missing payload''))
      else if \<not> is_array (Some deps) \<or> length (arr_of (Some deps)) > MAX_WORKFLOW_STEPS
        then Inl (PayloadError (''workflow step '' @ id @ '' has invalid depends_on''))
      else
     (case parse_dependencies id (arr_of (Some deps)) [] of
        Inl e \<Rightarrow> Inl e
      | Inr depends_on \<Rightarrow>
          if field raw ''priority'' \<noteq> None \<and> \<not> is_safe_integer (field raw ''priority'')
            then Inl (PayloadError (''workflow step '' @ id @ '' priority must be an integer''))
          else if field raw ''max_retries'' \<noteq> None
                  \<and> (\<not> is_safe_integer (field raw ''max_retries'') \<or> int_of (field raw ''max_retries'') < 0)
            then Inl (PayloadError (''workflow step '' @ id @ '' max_retries must be a non-negative integer''))
          else Inr \<lparr>ws_id = id, ws_type = type, ws_payload = the (field raw ''payload''),
                    ws_depends_on = depends_on, ws_priority = given_int raw ''priority'',
                    ws_max_retries = given_int raw ''max_retries''\<rparr>))))"

fun parse_workflow_steps :: "nat \<Rightarrow> string list \<Rightarrow> json list \<Rightarrow> wf_error + workflow_step list" where
  "parse_workflow_steps index ids [] = Inr []"
| "parse_workflow_steps index ids (raw # raws) =
     (case parse_workflow_step index ids raw of
        Inl e \<Rightarrow> Inl e
      | Inr step \<Rightarrow> map_sum id ((#) step) (parse_workflow_steps (index + 1) (ids @ [ws_id step]) raws))"

section \<open>The dependency graph\<close>

definition by_id :: "workflow_step list \<Rightarrow> step_map" where
  "by_id steps = map (\<lambda>step. (ws_id step, step)) steps"

definition deps_of :: "step_map \<Rightarrow> string \<Rightarrow> string list" where
  "deps_of m s = (case map_of m s of None \<Rightarrow> [] | Some step \<Rightarrow> ws_depends_on step)"

definition unknown_dependency :: "workflow_step list \<Rightarrow> wf_error option" where
  "unknown_dependency steps =
     (case find (\<lambda>(step, d). d \<notin> set (keys_of (by_id steps)))
             (concat (map (\<lambda>step. map (Pair step) (ws_depends_on step)) steps)) of
        None \<Rightarrow> None
      | Some (step, d) \<Rightarrow> Some (PayloadError (''workflow step '' @ ws_id step @ '' depends on unknown step '' @ d)))"

text \<open>
  The recursive \<open>visit\<close> and its loop over dependencies. The set \<open>visiting\<close> gains a step before the loop and
  loses it after, so it is an argument here: the steps the call is inside of. \<open>visited\<close> is threaded.
\<close>

function visit :: "step_map \<Rightarrow> string list \<Rightarrow> string \<Rightarrow> string list \<Rightarrow> wf_error + string list"
  and visit_all :: "step_map \<Rightarrow> string list \<Rightarrow> string list \<Rightarrow> string list \<Rightarrow> wf_error + string list" where
  "visit m visiting s visited =
     (if s \<in> set visiting then Inl (PayloadError ''workflow dependency graph contains a cycle'')
      else if s \<in> set visited then Inr visited
      else
        (case map_of m s of
           None \<Rightarrow> Inl (PayloadError (''unknown workflow step '' @ s))
         | Some step \<Rightarrow> map_sum id ((#) s) (visit_all m (s # visiting) (ws_depends_on step) visited)))"
| "visit_all m visiting [] visited = Inr visited"
| "visit_all m visiting (s # ss) visited =
     (case visit m visiting s visited of
        Inl e \<Rightarrow> Inl e
      | Inr visited' \<Rightarrow> visit_all m visiting ss visited')"
  by pat_completeness auto

lemma known_left_less:
  "map_of m s = Some x \<Longrightarrow> s \<notin> set visiting \<Longrightarrow>
    card (set (keys_of m) - insert s (set visiting)) < card (set (keys_of m) - set visiting)"
  by (rule psubset_card_mono) (force dest: map_of_SomeD)+

termination visit
  by (relation "measures [\<lambda>x. case x of Inl (m, visiting, _) \<Rightarrow> card (set (keys_of m) - set visiting)
                                   | Inr (m, visiting, _) \<Rightarrow> card (set (keys_of m) - set visiting),
                          \<lambda>x. case x of Inl _ \<Rightarrow> 0 | Inr (_, _, ss, _) \<Rightarrow> length ss + 1]")
    (auto simp: known_left_less [unfolded set_map])

declare visit.simps [simp del]

text \<open>
  \<open>ancestorsOf\<close>: the recursion of its \<open>visit\<close> with the loops it has left as an explicit stack, so the
  dependencies of a newly found ancestor come before those that were left. The set keeps insertion order.
\<close>

function ancestors_from :: "step_map \<Rightarrow> string list \<Rightarrow> string list \<Rightarrow> string list" where
  "ancestors_from m [] acc = acc"
| "ancestors_from m (d # ds) acc =
     (if d \<in> set acc then ancestors_from m ds acc else ancestors_from m (deps_of m d @ ds) (acc @ [d]))"
  by pat_completeness auto

definition all_deps :: "step_map \<Rightarrow> string set" where
  "all_deps m = (\<Union>p \<in> set m. set (ws_depends_on (snd p)))"

lemma deps_subset: "set (deps_of m s) \<subseteq> all_deps m"
  by (cases "map_of m s") (force simp: deps_of_def all_deps_def dest: map_of_SomeD)+

lemma finite_all_deps [simp]: "finite (all_deps m)"
  by (auto simp: all_deps_def)

termination ancestors_from
proof (relation "measures [\<lambda>(m, ds, acc). card ((all_deps m \<union> set ds) - set acc), \<lambda>(m, ds, acc). length ds]", simp)
  fix m :: step_map and d ds acc
  have "card ((all_deps m \<union> set ds) - set acc) \<le> card ((all_deps m \<union> set (d # ds)) - set acc)"
    by (rule card_mono) auto
  then show "((m, ds, acc), (m, d # ds, acc))
      \<in> measures [\<lambda>(m, ds, acc). card ((all_deps m \<union> set ds) - set acc), \<lambda>(m, ds, acc). length ds]"
    by auto
  assume "d \<notin> set acc"
  then have "card ((all_deps m \<union> set (deps_of m d @ ds)) - set (acc @ [d]))
      < card ((all_deps m \<union> set (d # ds)) - set acc)"
    using deps_subset [of m d] by (intro psubset_card_mono) auto
  then show "((m, deps_of m d @ ds, acc @ [d]), (m, d # ds, acc))
      \<in> measures [\<lambda>(m, ds, acc). card ((all_deps m \<union> set ds) - set acc), \<lambda>(m, ds, acc). length ds]"
    by simp
qed

definition ancestors_of :: "string \<Rightarrow> step_map \<Rightarrow> string list" where
  "ancestors_of s m = ancestors_from m (deps_of m s) []"

section \<open>The payload\<close>

fun validate_payloads :: "step_map \<Rightarrow> workflow_step list \<Rightarrow> wf_error option" where
  "validate_payloads m [] = None"
| "validate_payloads m (step # steps) =
     (case validate_result_reference_payload (ws_payload step) (ancestors_of (ws_id step) m) of
        Inl (ReferenceError message) \<Rightarrow> Some (PayloadError (''workflow step '' @ ws_id step @ '': '' @ message))
      | Inl (ReadError message) \<Rightarrow> Some (OtherFailure message)
      | Inl (OtherError message) \<Rightarrow> Some (OtherFailure message)
      | Inr n \<Rightarrow> validate_payloads m steps)"

definition check_workflow_graph :: "workflow_step list \<Rightarrow> wf_error option" where
  "check_workflow_graph steps =
     (case unknown_dependency steps of
        Some e \<Rightarrow> Some e
      | None \<Rightarrow>
          (case visit_all (by_id steps) [] (map ws_id steps) [] of
             Inl e \<Rightarrow> Some e
           | Inr visited \<Rightarrow> validate_payloads (by_id steps) steps))"

definition parse_workflow_definition :: "runtime \<Rightarrow> string \<Rightarrow> wf_error + workflow_step list" where
  "parse_workflow_definition rt raw =
     (if byte_length raw > MAX_WORKFLOW_PAYLOAD_BYTES then Inl (PayloadError ''workflow payload exceeds 256 KiB'')
      else
     (case rt_json_parse rt raw of
        None \<Rightarrow> Inl (PayloadError ''workflow payload must be valid JSON'')
      | Some v \<Rightarrow>
          if \<not> is_record v then Inl (PayloadError ''workflow payload must be a JSON object'')
          else
     (case find (\<lambda>k. k \<noteq> ''steps'') (keys_of (fields_of v)) of
        Some key \<Rightarrow> Inl (PayloadError (''unsupported workflow field: '' @ key))
      | None \<Rightarrow>
          if \<not> is_array (field v ''steps'') \<or> length (arr_of (field v ''steps'')) = 0
            then Inl (PayloadError ''workflow.steps must contain at least one step'')
          else if length (arr_of (field v ''steps'')) > MAX_WORKFLOW_STEPS
            then Inl (PayloadError ''workflow supports at most 32 steps'')
          else
     (case parse_workflow_steps 0 [] (arr_of (field v ''steps'')) of
        Inl e \<Rightarrow> Inl e
      | Inr steps \<Rightarrow> (case check_workflow_graph steps of Some e \<Rightarrow> Inl e | None \<Rightarrow> Inr steps)))))"

section \<open>The graph as a relation\<close>

definition dep_rel :: "step_map \<Rightarrow> (string \<times> string) set" where
  "dep_rel m = {(s, d). d \<in> set (deps_of m s)}"

definition known_deps :: "step_map \<Rightarrow> bool" where
  "known_deps m \<longleftrightarrow> (\<forall>s d. (s, d) \<in> dep_rel m \<longrightarrow> d \<in> set (keys_of m))"

definition settled :: "step_map \<Rightarrow> string list \<Rightarrow> bool" where
  "settled m visited \<longleftrightarrow> dep_rel m `` set visited \<subseteq> set visited \<and> (\<forall>v \<in> set visited. (v, v) \<notin> (dep_rel m)\<^sup>+)"

lemma settled_Nil [simp]: "settled m []"
  by (simp add: settled_def)

lemma settled_Cons:
  assumes "settled m visited" and "set (deps_of m s) \<subseteq> set visited" and "s \<notin> set visited"
  shows "settled m (s # visited)"
proof -
  have closed: "(dep_rel m)\<^sup>* `` set visited \<subseteq> set visited"
    using assms(1) by (simp add: settled_def Image_closed_trancl)
  have "(s, s) \<notin> (dep_rel m)\<^sup>+"
  proof
    assume "(s, s) \<in> (dep_rel m)\<^sup>+"
    then obtain d where "(s, d) \<in> dep_rel m" "(d, s) \<in> (dep_rel m)\<^sup>*" by (blast dest: tranclD)
    with closed assms(2,3) show False by (auto simp: dep_rel_def)
  qed
  with assms show ?thesis by (auto simp: settled_def dep_rel_def)
qed

lemma visit_ok:
  "visit m visiting s visited = Inr out \<Longrightarrow> settled m visited \<Longrightarrow> set visited \<inter> set visiting = {} \<Longrightarrow>
   settled m out \<and> insert s (set visited) \<subseteq> set out \<and> set out \<inter> set visiting = {}"
  "visit_all m visiting ss visited = Inr out \<Longrightarrow> settled m visited \<Longrightarrow> set visited \<inter> set visiting = {} \<Longrightarrow>
   settled m out \<and> set ss \<union> set visited \<subseteq> set out \<and> set out \<inter> set visiting = {}"
proof (induction m visiting s visited and m visiting ss visited arbitrary: out and out rule: visit_visit_all.induct)
  case (1 m visiting s visited)
  show ?case
  proof (cases "s \<in> set visited")
    case True
    with 1 show ?thesis by (auto simp: visit.simps split: if_splits)
  next
    case False
    then obtain step out' where s: "s \<notin> set visiting" "map_of m s = Some step"
      and out': "visit_all m (s # visiting) (ws_depends_on step) visited = Inr out'" "out = s # out'"
      using "1.prems"(1) by (auto simp: visit.simps map_sum_def split: if_splits option.splits sum.splits)
    from "1.IH" [OF s(1) False s(2) out'(1)] "1.prems" False
    have "settled m out'" "set (ws_depends_on step) \<union> set visited \<subseteq> set out'" "set out' \<inter> set (s # visiting) = {}"
      by auto
    with out'(2) s settled_Cons [of m out' s] show ?thesis by (auto simp: deps_of_def)
  qed
next
  case (3 m visiting s ss visited)
  obtain mid where mid: "visit m visiting s visited = Inr mid" and out: "visit_all m visiting ss mid = Inr out"
    using "3.prems"(1) by (auto split: sum.splits)
  from "3.IH"(1) [OF mid "3.prems"(2,3)] "3.IH"(2) [OF mid out] show ?case by auto
qed auto

lemma visit_error:
  "visit m visiting s visited = Inl e \<Longrightarrow> known_deps m \<Longrightarrow> s \<in> set (keys_of m) \<Longrightarrow>
   \<forall>v \<in> set visiting. (v, s) \<in> (dep_rel m)\<^sup>+ \<Longrightarrow>
   e = PayloadError ''workflow dependency graph contains a cycle'' \<and> (\<exists>v. (v, v) \<in> (dep_rel m)\<^sup>+)"
  "visit_all m visiting ss visited = Inl e \<Longrightarrow> known_deps m \<Longrightarrow> set ss \<subseteq> set (keys_of m) \<Longrightarrow>
   \<forall>s \<in> set ss. \<forall>v \<in> set visiting. (v, s) \<in> (dep_rel m)\<^sup>+ \<Longrightarrow>
   e = PayloadError ''workflow dependency graph contains a cycle'' \<and> (\<exists>v. (v, v) \<in> (dep_rel m)\<^sup>+)"
proof (induction m visiting s visited and m visiting ss visited arbitrary: e and e rule: visit_visit_all.induct)
  case (1 m visiting s visited)
  show ?case
  proof (cases "s \<in> set visiting")
    case True
    with 1 show ?thesis by (auto simp: visit.simps)
  next
    case False
    obtain step where s: "map_of m s = Some step"
      using "1.prems"(3) by (cases "map_of m s") (auto simp: map_of_eq_None_iff)
    have nv: "s \<notin> set visited" and err: "visit_all m (s # visiting) (ws_depends_on step) visited = Inl e"
      using "1.prems"(1) False s by (auto simp: visit.simps map_sum_def split: if_splits sum.splits)
    have edge: "d \<in> set (ws_depends_on step) \<Longrightarrow> (s, d) \<in> dep_rel m" for d
      using s by (simp add: dep_rel_def deps_of_def)
    show ?thesis
    proof (rule "1.IH" [OF False nv s err "1.prems"(2)])
      show "set (ws_depends_on step) \<subseteq> set (keys_of m)"
        using edge "1.prems"(2) unfolding known_deps_def by blast
      show "\<forall>d \<in> set (ws_depends_on step). \<forall>v \<in> set (s # visiting). (v, d) \<in> (dep_rel m)\<^sup>+"
        using edge "1.prems"(4) by (auto intro: trancl_into_trancl)
    qed
  qed
next
  case (3 m visiting s ss visited)
  then show ?case by (auto split: sum.splits)
qed auto

lemma visit_all_iff:
  assumes "known_deps m" and "set ss = set (keys_of m)"
  shows "(\<exists>out. visit_all m [] ss [] = Inr out) \<longleftrightarrow> acyclic (dep_rel m)"
proof
  assume "\<exists>out. visit_all m [] ss [] = Inr out"
  then obtain out where "settled m out" "set (keys_of m) \<subseteq> set out"
    using visit_ok(2) [of m "[]" ss "[]"] assms(2) by auto
  moreover have "v \<in> set (keys_of m)" if "(v, v) \<in> (dep_rel m)\<^sup>+" for v
    using that assms(1) by (auto simp: known_deps_def dest: tranclD2)
  ultimately show "acyclic (dep_rel m)" unfolding acyclic_def settled_def by blast
next
  assume "acyclic (dep_rel m)"
  then show "\<exists>out. visit_all m [] ss [] = Inr out"
    using visit_error(2) [of m "[]" ss "[]"] assms by (cases "visit_all m [] ss []") (auto simp: acyclic_def)
qed

lemma ancestors_from_set:
  "dep_rel m `` set acc \<subseteq> set acc \<union> set ds \<Longrightarrow>
   set (ancestors_from m ds acc) = set acc \<union> (dep_rel m)\<^sup>* `` set ds"
proof (induction m ds acc rule: ancestors_from.induct)
  case (2 m d ds acc)
  show ?case
  proof (cases "d \<in> set acc")
    case True
    let ?X = "set acc \<union> (dep_rel m)\<^sup>* `` set ds"
    have sub: "dep_rel m `` set acc \<subseteq> set acc \<union> set ds" using "2.prems" True by auto
    have "dep_rel m `` ?X \<subseteq> ?X" using sub by (auto intro: rtrancl_into_rtrancl)
    then have "(dep_rel m)\<^sup>* `` ?X \<subseteq> ?X" by (simp add: Image_closed_trancl)
    then have "(dep_rel m)\<^sup>* `` {d} \<subseteq> ?X" using True by blast
    then have "(dep_rel m)\<^sup>* `` set (d # ds) \<union> set acc = ?X" by auto
    with "2.IH"(1) [OF True sub] True show ?thesis by (simp add: Un_commute)
  next
    case False
    have step: "(dep_rel m)\<^sup>* `` {d} = insert d ((dep_rel m)\<^sup>* `` set (deps_of m d))"
      by (auto simp: dep_rel_def intro: converse_rtrancl_into_rtrancl elim: converse_rtranclE)
    have "dep_rel m `` set (acc @ [d]) \<subseteq> set (acc @ [d]) \<union> set (deps_of m d @ ds)"
      using "2.prems" by (auto simp: dep_rel_def)
    with "2.IH"(2) [OF False] False
    have "set (ancestors_from m (d # ds) acc)
        = insert d (set acc \<union> (dep_rel m)\<^sup>* `` set (deps_of m d) \<union> (dep_rel m)\<^sup>* `` set ds)"
      by auto
    also have "\<dots> = set acc \<union> ((dep_rel m)\<^sup>* `` {d} \<union> (dep_rel m)\<^sup>* `` set ds)"
      unfolding step by auto
    also have "\<dots> = set acc \<union> (dep_rel m)\<^sup>* `` set (d # ds)" by auto
    finally show ?thesis .
  qed
qed simp

lemma set_ancestors_of: "set (ancestors_of s m) = {a. (s, a) \<in> (dep_rel m)\<^sup>+}"
proof -
  have "set (ancestors_of s m) = (dep_rel m)\<^sup>* `` (dep_rel m `` {s})"
    by (simp add: ancestors_of_def ancestors_from_set) (simp add: dep_rel_def Image_def)
  also have "\<dots> = (dep_rel m)\<^sup>+ `` {s}"
    by (auto dest: tranclD intro: rtrancl_into_trancl2)
  finally show ?thesis by auto
qed

section \<open>Well-formed workflows\<close>

definition step_ok :: "workflow_step \<Rightarrow> bool" where
  "step_ok step \<longleftrightarrow> SAFE_ID (ws_id step) \<and> SAFE_TASK_TYPE (ws_type step) \<and> ws_type step \<noteq> ''workflow.run''
     \<and> distinct (ws_depends_on step) \<and> ws_id step \<notin> set (ws_depends_on step)
     \<and> length (ws_depends_on step) \<le> MAX_WORKFLOW_STEPS
     \<and> (\<forall>n \<in> set_option (ws_max_retries step). 0 \<le> n)"

lemma parse_dependencies_ok:
  "parse_dependencies i ds acc = Inr out \<Longrightarrow> distinct acc \<Longrightarrow> i \<notin> set acc \<Longrightarrow>
   distinct out \<and> i \<notin> set out \<and> length out = length acc + length ds"
  by (induction i ds acc rule: parse_dependencies.induct) (auto split: if_splits)

lemma parse_workflow_step_ok:
  assumes "parse_workflow_step index ids raw = Inr step"
  shows "step_ok step" and "ws_id step \<notin> set ids"
proof -
  from assms parse_dependencies_ok [of _ _ "[]"]
  have "step_ok step \<and> ws_id step \<notin> set ids"
    by (auto simp: parse_workflow_step_def Let_def step_ok_def given_int_def split: if_splits sum.splits option.splits)
  then show "step_ok step" "ws_id step \<notin> set ids" by auto
qed

lemma parse_workflow_steps_ok:
  "parse_workflow_steps index ids raws = Inr steps \<Longrightarrow> distinct ids \<Longrightarrow>
   length steps = length raws \<and> distinct (ids @ map ws_id steps) \<and> list_all step_ok steps"
proof (induction index ids raws arbitrary: steps rule: parse_workflow_steps.induct)
  case (2 index ids raw raws)
  obtain step rest where step: "parse_workflow_step index ids raw = Inr step"
    and rest: "parse_workflow_steps (index + 1) (ids @ [ws_id step]) raws = Inr rest" "steps = step # rest"
    using "2.prems"(1) by (auto simp: map_sum_def split: sum.splits)
  from "2.IH" [OF step rest(1)] parse_workflow_step_ok [OF step] "2.prems"(2) rest(2) show ?case by auto
qed simp

lemma keys_by_id [simp]: "keys_of (by_id steps) = map ws_id steps"
  by (simp add: by_id_def comp_def)

lemma map_of_by_id: "distinct (map ws_id steps) \<Longrightarrow> step \<in> set steps \<Longrightarrow> map_of (by_id steps) (ws_id step) = Some step"
  by (rule map_of_is_SomeI) (auto simp: by_id_def comp_def)

lemma map_of_by_id_Some: "map_of (by_id steps) s = Some step \<Longrightarrow> step \<in> set steps \<and> ws_id step = s"
  by (auto simp: by_id_def dest!: map_of_SomeD)

lemma dep_rel_by_id:
  assumes "distinct (map ws_id steps)"
  shows "dep_rel (by_id steps) = {(ws_id step, d) |step d. step \<in> set steps \<and> d \<in> set (ws_depends_on step)}"
proof (intro equalityI subsetI; clarify)
  fix s d
  assume "(s, d) \<in> dep_rel (by_id steps)"
  then obtain step where "map_of (by_id steps) s = Some step" "d \<in> set (ws_depends_on step)"
    by (cases "map_of (by_id steps) s") (auto simp: dep_rel_def deps_of_def)
  with map_of_by_id_Some [OF this(1)]
  show "\<exists>step d'. (s, d) = (ws_id step, d') \<and> step \<in> set steps \<and> d' \<in> set (ws_depends_on step)" by auto
next
  fix step d
  assume "step \<in> set steps" "d \<in> set (ws_depends_on step)"
  then show "(ws_id step, d) \<in> dep_rel (by_id steps)"
    using map_of_by_id [OF assms] by (simp add: dep_rel_def deps_of_def)
qed

lemma unknown_dependency_None:
  assumes "distinct (map ws_id steps)"
  shows "unknown_dependency steps = None \<longleftrightarrow> known_deps (by_id steps)"
proof -
  have "unknown_dependency steps = None \<longleftrightarrow> (\<forall>step \<in> set steps. \<forall>d \<in> set (ws_depends_on step). d \<in> ws_id ` set steps)"
  proof -
    have "unknown_dependency steps = None \<longleftrightarrow>
        find (\<lambda>(step, d). d \<notin> set (keys_of (by_id steps)))
          (concat (map (\<lambda>step. map (Pair step) (ws_depends_on step)) steps)) = None"
      by (auto simp: unknown_dependency_def split: option.splits)
    moreover have "x \<in> set (concat (map (\<lambda>step. map (Pair step) (ws_depends_on step)) steps))
        \<longleftrightarrow> fst x \<in> set steps \<and> snd x \<in> set (ws_depends_on (fst x))" for x
      by (cases x) auto
    ultimately show ?thesis unfolding find_None_iff by (simp add: case_prod_unfold) blast
  qed
  also have "\<dots> \<longleftrightarrow> known_deps (by_id steps)"
    unfolding known_deps_def dep_rel_by_id [OF assms] by auto
  finally show ?thesis .
qed

definition payload_ok :: "step_map \<Rightarrow> workflow_step \<Rightarrow> bool" where
  "payload_ok m step \<longleftrightarrow>
     (\<exists>n. validate_result_reference_payload (ws_payload step) (ancestors_of (ws_id step) m) = Inr n)"

definition workflow_ok :: "workflow_step list \<Rightarrow> bool" where
  "workflow_ok steps \<longleftrightarrow>
     distinct (map ws_id steps) \<and> list_all step_ok steps \<and> known_deps (by_id steps)
     \<and> acyclic (dep_rel (by_id steps)) \<and> list_all (payload_ok (by_id steps)) steps"

lemma validate_payloads_None: "validate_payloads m steps = None \<longleftrightarrow> list_all (payload_ok m) steps"
  by (induction steps) (auto simp: payload_ok_def split: sum.splits ref_failure.splits)

lemma check_workflow_graph_None:
  assumes "distinct (map ws_id steps)"
  shows "check_workflow_graph steps = None \<longleftrightarrow>
    known_deps (by_id steps) \<and> acyclic (dep_rel (by_id steps)) \<and> list_all (payload_ok (by_id steps)) steps"
proof (cases "unknown_dependency steps")
  case None
  then have k: "known_deps (by_id steps)" using unknown_dependency_None [OF assms] by simp
  have "set (map ws_id steps) = set (keys_of (by_id steps))" by (simp only: keys_by_id)
  from visit_all_iff [OF k this] None k show ?thesis
    by (auto simp: check_workflow_graph_def validate_payloads_None split: sum.splits)
next
  case (Some e)
  then show ?thesis using unknown_dependency_None [OF assms] by (simp add: check_workflow_graph_def)
qed

lemma parse_workflow_definition_ok:
  assumes "parse_workflow_definition rt raw = Inr steps"
  shows "workflow_ok steps" and "steps \<noteq> []" and "length steps \<le> MAX_WORKFLOW_STEPS"
proof -
  from assms obtain raws where raws: "raws \<noteq> []" "length raws \<le> MAX_WORKFLOW_STEPS"
    and steps: "parse_workflow_steps 0 [] raws = Inr steps" and g: "check_workflow_graph steps = None"
    by (auto simp: parse_workflow_definition_def split: if_splits option.splits sum.splits)
  from parse_workflow_steps_ok [OF steps] have "length steps = length raws" "distinct (map ws_id steps)" "list_all step_ok steps"
    by auto
  with raws g check_workflow_graph_None [of steps]
  show "workflow_ok steps" "steps \<noteq> []" "length steps \<le> MAX_WORKFLOW_STEPS"
    by (auto simp: workflow_ok_def)
qed

text \<open>
  C12. The parser's depth-first search decides acyclicity: for steps with distinct ids and known dependencies
  it finishes, it accepts exactly when the dependency relation has no cycle, and otherwise it
  answers that the graph contains a cycle and nothing else.
\<close>

theorem cycle_check_decides_acyclicity:
  assumes "distinct (map ws_id steps)" and "unknown_dependency steps = None"
  shows "((\<exists>visited. visit_all (by_id steps) [] (map ws_id steps) [] = Inr visited)
            \<longleftrightarrow> acyclic (dep_rel (by_id steps)))
       \<and> (visit_all (by_id steps) [] (map ws_id steps) [] =
              Inl (PayloadError ''workflow dependency graph contains a cycle'')
            \<longleftrightarrow> \<not> acyclic (dep_rel (by_id steps)))"
proof -
  have k: "known_deps (by_id steps)" using assms unknown_dependency_None by blast
  have ids: "set (map ws_id steps) = set (keys_of (by_id steps))" by (simp only: keys_by_id)
  have "e = PayloadError ''workflow dependency graph contains a cycle''"
    if "visit_all (by_id steps) [] (map ws_id steps) [] = Inl e" for e
    using visit_error(2) [OF that k] ids by auto
  with visit_all_iff [OF k ids] show ?thesis
    by (cases "visit_all (by_id steps) [] (map ws_id steps) []") auto
qed

definition example_step :: "string \<Rightarrow> string list \<Rightarrow> json \<Rightarrow> workflow_step" where
  "example_step s ds payload =
     \<lparr>ws_id = s, ws_type = ''system.ping'', ws_payload = payload, ws_depends_on = ds, ws_priority = None, ws_max_retries = None\<rparr>"

lemma cycle_check_decides_acyclicity_witness:
  "\<not> acyclic (dep_rel (by_id [example_step ''a'' [''b''] JNull, example_step ''b'' [''c''] JNull,
                            example_step ''c'' [''a''] JNull]))"
proof -
  let ?steps = "[example_step ''a'' [''b''] JNull, example_step ''b'' [''c''] JNull, example_step ''c'' [''a''] JNull]"
  have "distinct (map ws_id ?steps)" "unknown_dependency ?steps = None"
    "visit_all (by_id ?steps) [] (map ws_id ?steps) [] =
       Inl (PayloadError ''workflow dependency graph contains a cycle'')"
    by code_simp+
  with cycle_check_decides_acyclicity [of ?steps] show ?thesis by blast
qed

text \<open>
  C35. What the parser accepts is a well-formed workflow: between 1 and 32 steps with distinct safe ids, no
  \<open>workflow.run\<close> among their types, distinct dependencies that are steps of the workflow, no cycle among
  them, and payloads whose result references name only steps on which the step depends, directly or not.
\<close>

theorem parsed_workflow_wellformed:
  assumes "parse_workflow_definition rt raw = Inr steps"
  shows "1 \<le> length steps \<and> length steps \<le> MAX_WORKFLOW_STEPS \<and> distinct (map ws_id steps)
     \<and> list_all step_ok steps
     \<and> acyclic {(ws_id step, d) |step d. step \<in> set steps \<and> d \<in> set (ws_depends_on step)}
     \<and> list_all (\<lambda>step. set (ws_depends_on step) \<subseteq> set (map ws_id steps)) steps
     \<and> list_all (\<lambda>step. \<exists>allowed n. validate_result_reference_payload (ws_payload step) allowed = Inr n
           \<and> set allowed = {a. (ws_id step, a) \<in>
                {(ws_id step, d) |step d. step \<in> set steps \<and> d \<in> set (ws_depends_on step)}\<^sup>+}) steps"
proof -
  note ok = parse_workflow_definition_ok [OF assms]
  have d: "distinct (map ws_id steps)" using ok(1) by (simp add: workflow_ok_def)
  note rel = dep_rel_by_id [OF d, symmetric]
  have "list_all (\<lambda>step. set (ws_depends_on step) \<subseteq> set (map ws_id steps)) steps"
    using ok(1) unfolding workflow_ok_def known_deps_def dep_rel_by_id [OF d] list_all_iff keys_by_id by blast
  moreover have "list_all (\<lambda>step. \<exists>allowed n. validate_result_reference_payload (ws_payload step) allowed = Inr n
           \<and> set allowed = {a. (ws_id step, a) \<in> (dep_rel (by_id steps))\<^sup>+}) steps"
    using ok(1) set_ancestors_of [of _ "by_id steps"] unfolding workflow_ok_def payload_ok_def list_all_iff by blast
  ultimately show ?thesis using ok unfolding workflow_ok_def rel by (cases steps) auto
qed

lemma parsed_workflow_wellformed_witness:
  "distinct (map ws_id [example_step ''a'' [] JNull, example_step ''b'' [''a''] example_payload])"
proof -
  let ?raw = "JObj [(''steps'', JArr
      [JObj [(''id'', JStr ''a''), (''type'', JStr ''system.ping''), (''payload'', JNull)],
       JObj [(''id'', JStr ''b''), (''type'', JStr ''system.ping''), (''payload'', example_payload),
             (''depends_on'', JArr [JStr ''a''])]])]"
  let ?steps = "[example_step ''a'' [] JNull, example_step ''b'' [''a''] example_payload]"
  have s: "parse_workflow_steps 0 [] (arr_of (field ?raw ''steps'')) = Inr ?steps" by code_simp
  have g: "check_workflow_graph ?steps = None" by code_simp
  have "parse_workflow_definition (null_runtime\<lparr>rt_json_parse := (\<lambda>s. Some ?raw)\<rparr>) ''w'' = Inr ?steps"
    using s g by (simp add: parse_workflow_definition_def MAX_WORKFLOW_PAYLOAD_BYTES_def MAX_WORKFLOW_STEPS_def)
  from parsed_workflow_wellformed [OF this] show ?thesis by blast
qed

end
