(* ===== verification/WorkflowExec.thy ===== *)
theory WorkflowExec
  imports WorkflowDef
begin

text \<open>
  The execution of a workflow (\<open>executeWorkflow\<close> and its helpers in
  \<open>workers/workflow-bun/src/workflow-handler.ts\<close>): rounds that poll the children submitted so far and submit
  the steps that have become ready.

  The gateway is a function of the calls made so far, the one being answered last, so it may answer the same
  call differently at different times; so is the result endpoint. The readings of the clock are a list, one
  for each round; the run is \<open>None\<close> where the list ends before it does.
\<close>

record workflow_config =
  wc_origin :: string
  wc_bearer_token :: string
  wc_timeout_ms :: int
  wc_poll_ms :: int
  wc_max_run_ms :: int
  wc_result_origin :: "string option"

record gateway_call =
  gc_method :: string
  gc_url :: string
  gc_headers :: "(string \<times> string) list"
  gc_body :: "string option"

record workflow_world =
  ww_gateway :: "gateway_call list \<Rightarrow> string + nat \<times> string"
  ww_results :: "gateway_call list \<Rightarrow> string \<Rightarrow> string + result_response"
  ww_decode :: "nat list \<Rightarrow> string option"

datatype child_status = Waiting | Pending | Assigned | Running | Completed | Failed

record runtime_step =
  ru_step :: workflow_step
  ru_task_id :: "int option"
  ru_status :: child_status

record workflow_run =
  wr_calls :: "gateway_call list"
  wr_steps :: "(string \<times> runtime_step) list"

section \<open>Configuration\<close>

definition normalize_workflow_gateway_origin :: "runtime \<Rightarrow> string \<Rightarrow> string + string" where
  "normalize_workflow_gateway_origin rt raw = loopback_origin rt ''WORKFLOW_GATEWAY_ORIGIN'' raw"

definition validate_workflow_gateway_config :: "runtime \<Rightarrow> workflow_config \<Rightarrow> wf_error + workflow_config" where
  "validate_workflow_gateway_config rt config =
     (case normalize_workflow_gateway_origin rt (wc_origin config) of
        Inl e \<Rightarrow> Inl (OtherFailure e)
      | Inr origin \<Rightarrow>
     (case normalize_workflow_result_origin rt
             (case wc_result_origin config of None \<Rightarrow> ''http://127.0.0.1:7331'' | Some o' \<Rightarrow> o') of
        Inl e \<Rightarrow> Inl (OtherFailure e)
      | Inr result_origin \<Rightarrow>
          if length (wc_bearer_token config) = 0 \<or> length (wc_bearer_token config) > 4096
             \<or> list_ex (\<lambda>c. unit_of c = 13 \<or> unit_of c = 10) (wc_bearer_token config)
            then Inl (OtherFailure ''WORKFLOW_GATEWAY_API_TOKEN is invalid'')
          else if wc_timeout_ms config < 100 \<or> wc_timeout_ms config > 60000
            then Inl (OtherFailure ''WORKFLOW_GATEWAY_REQUEST_TIMEOUT_MS must be between 100 and 60000'')
          else if wc_poll_ms config < 25 \<or> wc_poll_ms config > 60000
            then Inl (OtherFailure ''WORKFLOW_POLL_MS must be between 25 and 60000'')
          else if wc_max_run_ms config < 1000 \<or> wc_max_run_ms config > 86400000
            then Inl (OtherFailure ''WORKFLOW_MAX_RUN_MS must be between 1000 and 86400000'')
          else Inr (config\<lparr>wc_origin := origin, wc_result_origin := Some result_origin\<rparr>)))"

section \<open>Calls to the gateway\<close>

definition gateway_answer :: "runtime \<Rightarrow> string + nat \<times> string \<Rightarrow> wf_error + nat \<times> json" where
  "gateway_answer rt answer =
     (case answer of
        Inl message \<Rightarrow> Inl (ExecutionError (''gateway request failed: '' @ message))
      | Inr (status, raw) \<Rightarrow>
          (case rt_json_parse rt raw of
             None \<Rightarrow> Inl (ExecutionError ''gateway returned invalid JSON'')
           | Some v \<Rightarrow>
               if \<not> is_record v then Inl (ExecutionError ''gateway returned a non-object response'')
               else Inr (status, v)))"

definition gateway_json ::
  "runtime \<Rightarrow> workflow_world \<Rightarrow> gateway_call list \<Rightarrow> gateway_call \<Rightarrow> gateway_call list \<times> (wf_error + nat \<times> json)" where
  "gateway_json rt world calls c = (calls @ [c], gateway_answer rt (ww_gateway world (calls @ [c])))"

definition child_idempotency_key :: "int \<Rightarrow> string \<Rightarrow> string" where
  "child_idempotency_key task_id step_id = ''wf-'' @ int_text task_id @ ''-'' @ step_id"

definition optional_field :: "string \<Rightarrow> int option \<Rightarrow> (string \<times> json) list" where
  "optional_field k v = (case v of None \<Rightarrow> [] | Some n \<Rightarrow> [(k, JInt n)])"

definition enqueue_call :: "runtime \<Rightarrow> workflow_config \<Rightarrow> int \<Rightarrow> workflow_step \<Rightarrow> json \<Rightarrow> gateway_call" where
  "enqueue_call rt config workflow_id step payload =
     \<lparr>gc_method = ''POST'', gc_url = wc_origin config @ ''/v1/tasks'',
      gc_headers = [(''Authorization'', ''Bearer '' @ wc_bearer_token config), (''Content-Type'', ''application/json''),
                    (''Idempotency-Key'', child_idempotency_key workflow_id (ws_id step))],
      gc_body = Some (rt_json_text rt (JObj
        ([(''type'', JStr (ws_type step)), (''payload'', payload)]
         @ optional_field ''priority'' (ws_priority step) @ optional_field ''max_retries'' (ws_max_retries step))))\<rparr>"

definition enqueue_answer :: "string \<Rightarrow> nat \<times> json \<Rightarrow> wf_error + int" where
  "enqueue_answer step_id answer =
     (case answer of (status, v) \<Rightarrow>
        if status = 400 \<or> status = 413 \<or> status = 422
          then Inl (PayloadError (''gateway rejected workflow step '' @ step_id))
        else if status \<noteq> 202
          then Inl (ExecutionError (''gateway could not enqueue workflow step '' @ step_id @ '': HTTP '' @ nat_text status))
        else if \<not> is_safe_integer (field v ''task_id'') \<or> int_of (field v ''task_id'') \<le> 0
                \<or> field v ''status'' \<noteq> Some (JStr ''PENDING'') \<or> \<not> is_boolean (field v ''replayed'')
          then Inl (ExecutionError ''gateway returned an invalid child task response'')
        else Inr (int_of (field v ''task_id'')))"

definition enqueue_child ::
  "runtime \<Rightarrow> workflow_world \<Rightarrow> workflow_config \<Rightarrow> gateway_call list \<Rightarrow> int \<Rightarrow> workflow_step \<Rightarrow> json
   \<Rightarrow> gateway_call list \<times> (wf_error + int)" where
  "enqueue_child rt world config calls workflow_id step payload =
     (case gateway_json rt world calls (enqueue_call rt config workflow_id step payload) of
        (calls', Inl e) \<Rightarrow> (calls', Inl e)
      | (calls', Inr answer) \<Rightarrow> (calls', enqueue_answer (ws_id step) answer))"

definition child_call :: "workflow_config \<Rightarrow> int \<Rightarrow> gateway_call" where
  "child_call config task_id =
     \<lparr>gc_method = ''GET'', gc_url = wc_origin config @ ''/v1/tasks/'' @ int_text task_id,
      gc_headers = [(''Authorization'', ''Bearer '' @ wc_bearer_token config)], gc_body = None\<rparr>"

definition child_status_of :: "json option \<Rightarrow> child_status option" where
  "child_status_of v =
     (if v = Some (JStr ''PENDING'') then Some Pending
      else if v = Some (JStr ''ASSIGNED'') then Some Assigned
      else if v = Some (JStr ''RUNNING'') then Some Running
      else if v = Some (JStr ''COMPLETED'') then Some Completed
      else if v = Some (JStr ''FAILED'') then Some Failed
      else None)"

definition child_answer :: "int \<Rightarrow> string \<Rightarrow> nat \<times> json \<Rightarrow> wf_error + child_status" where
  "child_answer task_id expected answer =
     (case answer of (status, v) \<Rightarrow>
        if status \<noteq> 200 then Inl (ExecutionError (''gateway could not query child task '' @ int_text task_id))
        else if \<not> is_safe_integer (field v ''id'') \<or> field v ''id'' \<noteq> Some (JInt task_id)
                \<or> field v ''task_name'' \<noteq> Some (JStr expected)
          then Inl (ExecutionError (''gateway returned an invalid child snapshot for '' @ int_text task_id))
        else
          (case child_status_of (field v ''status'') of
             None \<Rightarrow> Inl (ExecutionError (''gateway returned an invalid child snapshot for '' @ int_text task_id))
           | Some s \<Rightarrow> Inr s))"

definition get_child ::
  "runtime \<Rightarrow> workflow_world \<Rightarrow> workflow_config \<Rightarrow> gateway_call list \<Rightarrow> int \<Rightarrow> string
   \<Rightarrow> gateway_call list \<times> (wf_error + child_status)" where
  "get_child rt world config calls task_id expected =
     (case gateway_json rt world calls (child_call config task_id) of
        (calls', Inl e) \<Rightarrow> (calls', Inl e)
      | (calls', Inr answer) \<Rightarrow> (calls', child_answer task_id expected answer))"

section \<open>Payloads\<close>

fun available_from :: "(string \<times> runtime_step) list \<Rightarrow> string list \<Rightarrow> wf_error + (string \<times> int) list" where
  "available_from runtime [] = Inr []"
| "available_from runtime (a # as) =
     (case map_of runtime a of
        None \<Rightarrow> Inl (ExecutionError (''workflow result source '' @ a @ '' is not durably completed''))
      | Some cur \<Rightarrow>
          (case ru_task_id cur of
             None \<Rightarrow> Inl (ExecutionError (''workflow result source '' @ a @ '' is not durably completed''))
           | Some t \<Rightarrow>
               if ru_status cur \<noteq> Completed
                 then Inl (ExecutionError (''workflow result source '' @ a @ '' is not durably completed''))
               else map_sum id ((#) (a, t)) (available_from runtime as)))"

definition available_ancestor_task_ids ::
  "workflow_step \<Rightarrow> step_map \<Rightarrow> (string \<times> runtime_step) list \<Rightarrow> wf_error + (string \<times> int) list" where
  "available_ancestor_task_ids step m runtime = available_from runtime (ancestors_of (ws_id step) m)"

definition result_config_of :: "workflow_world \<Rightarrow> gateway_call list \<Rightarrow> workflow_config \<Rightarrow> result_config" where
  "result_config_of world calls config =
     \<lparr>rc_origin = the (wc_result_origin config), rc_timeout_ms = wc_timeout_ms config,
      rc_fetch = ww_results world calls, rc_decode = ww_decode world\<rparr>"

definition resolve_step_payload ::
  "runtime \<Rightarrow> workflow_world \<Rightarrow> workflow_config \<Rightarrow> step_map \<Rightarrow> workflow_run \<Rightarrow> workflow_step \<Rightarrow> wf_error + json" where
  "resolve_step_payload rt world config m r step =
     (case available_ancestor_task_ids step m (wr_steps r) of
        Inl e \<Rightarrow> Inl e
      | Inr sources \<Rightarrow>
          (case resolve_result_references rt (ws_payload step) sources (result_config_of world (wr_calls r) config) of
             Inl (ReferenceError message) \<Rightarrow> Inl (PayloadError (''workflow step '' @ ws_id step @ '': '' @ message))
           | Inl (ReadError message) \<Rightarrow> Inl (ExecutionError (''workflow step '' @ ws_id step @ '': '' @ message))
           | Inl (OtherError message) \<Rightarrow> Inl (OtherFailure message)
           | Inr payload \<Rightarrow> Inr payload))"

section \<open>Rounds\<close>

text \<open>
  The two loops of a round run over the entries of the runtime map, which they update in place: the list
  is that of the steps still to come. An error comes with the run at that point.
\<close>

fun poll_children ::
  "runtime \<Rightarrow> workflow_world \<Rightarrow> workflow_config \<Rightarrow> string list \<Rightarrow> workflow_run \<Rightarrow> workflow_run \<times> wf_error option" where
  "poll_children rt world config [] r = (r, None)"
| "poll_children rt world config (s # ss) r =
     (case map_of (wr_steps r) s of
        None \<Rightarrow> poll_children rt world config ss r
      | Some cur \<Rightarrow>
     (case ru_task_id cur of
        None \<Rightarrow> poll_children rt world config ss r
      | Some t \<Rightarrow>
          if ru_status cur = Completed then poll_children rt world config ss r
          else
     (case get_child rt world config (wr_calls r) t (ws_type (ru_step cur)) of
        (calls', Inl e) \<Rightarrow> (r\<lparr>wr_calls := calls'\<rparr>, Some e)
      | (calls', Inr status) \<Rightarrow>
          (let r' = r\<lparr>wr_calls := calls', wr_steps := map_set s (cur\<lparr>ru_status := status\<rparr>) (wr_steps r)\<rparr>
           in if status = Failed
                then (r', Some (ExecutionError (''workflow child step '' @ ws_id (ru_step cur) @ '' failed'')))
              else poll_children rt world config ss r'))))"

definition step_ready :: "(string \<times> runtime_step) list \<Rightarrow> workflow_step \<Rightarrow> bool" where
  "step_ready runtime step \<longleftrightarrow>
     list_all (\<lambda>d. case map_of runtime d of None \<Rightarrow> False | Some cur \<Rightarrow> ru_status cur = Completed) (ws_depends_on step)"

fun submit_children ::
  "runtime \<Rightarrow> workflow_world \<Rightarrow> workflow_config \<Rightarrow> int \<Rightarrow> step_map \<Rightarrow> string list \<Rightarrow> workflow_run
   \<Rightarrow> workflow_run \<times> wf_error option" where
  "submit_children rt world config workflow_id m [] r = (r, None)"
| "submit_children rt world config workflow_id m (s # ss) r =
     (case map_of (wr_steps r) s of
        None \<Rightarrow> submit_children rt world config workflow_id m ss r
      | Some cur \<Rightarrow>
          if ru_task_id cur \<noteq> None \<or> \<not> step_ready (wr_steps r) (ru_step cur)
            then submit_children rt world config workflow_id m ss r
          else
     (case resolve_step_payload rt world config m r (ru_step cur) of
        Inl e \<Rightarrow> (r, Some e)
      | Inr payload \<Rightarrow>
     (case enqueue_child rt world config (wr_calls r) workflow_id (ru_step cur) payload of
        (calls', Inl e) \<Rightarrow> (r\<lparr>wr_calls := calls'\<rparr>, Some e)
      | (calls', Inr t) \<Rightarrow>
          submit_children rt world config workflow_id m ss
            (r\<lparr>wr_calls := calls',
               wr_steps := map_set s (cur\<lparr>ru_task_id := Some t, ru_status := Pending\<rparr>) (wr_steps r)\<rparr>))))"

definition run_round ::
  "runtime \<Rightarrow> workflow_world \<Rightarrow> workflow_config \<Rightarrow> int \<Rightarrow> step_map \<Rightarrow> workflow_run \<Rightarrow> workflow_run \<times> wf_error option" where
  "run_round rt world config workflow_id m r =
     (case poll_children rt world config (keys_of (wr_steps r)) r of
        (r', Some e) \<Rightarrow> (r', Some e)
      | (r', None) \<Rightarrow> submit_children rt world config workflow_id m (keys_of (wr_steps r')) r')"

record step_report =
  sr_id :: string
  sr_type :: string
  sr_task_id :: int

record workflow_result =
  wo_task_id :: int
  wo_steps :: "step_report list"

fun report_steps :: "(string \<times> runtime_step) list \<Rightarrow> workflow_step list \<Rightarrow> wf_error + step_report list" where
  "report_steps runtime [] = Inr []"
| "report_steps runtime (step # steps) =
     (case map_of runtime (ws_id step) of
        None \<Rightarrow> Inl (ExecutionError ''workflow runtime lost a completed child task'')
      | Some cur \<Rightarrow>
          if ru_task_id cur = None \<or> ru_status cur \<noteq> Completed
            then Inl (ExecutionError ''workflow runtime lost a completed child task'')
          else map_sum id ((#) \<lparr>sr_id = ws_id step, sr_type = ws_type step, sr_task_id = the (ru_task_id cur)\<rparr>)
                 (report_steps runtime steps))"

definition all_completed :: "workflow_run \<Rightarrow> bool" where
  "all_completed r \<longleftrightarrow> list_all (\<lambda>(s, cur). ru_status cur = Completed) (wr_steps r)"

fun run_rounds ::
  "runtime \<Rightarrow> workflow_world \<Rightarrow> workflow_config \<Rightarrow> int \<Rightarrow> workflow_step list \<Rightarrow> int \<Rightarrow> int list \<Rightarrow> workflow_run
   \<Rightarrow> workflow_run \<times> (wf_error + workflow_result) option" where
  "run_rounds rt world config workflow_id steps started [] r = (r, None)"
| "run_rounds rt world config workflow_id steps started (now # readings) r =
     (if now - started > wc_max_run_ms config
        then (r, Some (Inl (ExecutionError ''workflow exceeded configured maximum run time'')))
      else
        (case run_round rt world config workflow_id (by_id steps) r of
           (r', Some e) \<Rightarrow> (r', Some (Inl e))
         | (r', None) \<Rightarrow>
             if all_completed r'
               then (r', Some (map_sum id (\<lambda>reports. \<lparr>wo_task_id = workflow_id, wo_steps = reports\<rparr>)
                                (report_steps (wr_steps r') steps)))
             else run_rounds rt world config workflow_id steps started readings r'))"

definition initial_run :: "workflow_step list \<Rightarrow> workflow_run" where
  "initial_run steps =
     \<lparr>wr_calls = [], wr_steps = map (\<lambda>step. (ws_id step, \<lparr>ru_step = step, ru_task_id = None, ru_status = Waiting\<rparr>)) steps\<rparr>"

definition execute_workflow ::
  "runtime \<Rightarrow> workflow_world \<Rightarrow> int \<Rightarrow> string \<Rightarrow> workflow_config \<Rightarrow> int \<Rightarrow> int list
   \<Rightarrow> gateway_call list \<times> (wf_error + workflow_result) option" where
  "execute_workflow rt world workflow_id raw raw_config started readings =
     (if \<bar>workflow_id\<bar> > max_safe_integer \<or> workflow_id \<le> 0
        then ([], Some (Inl (OtherFailure ''workflow task id must be a positive safe integer'')))
      else
        (case parse_workflow_definition rt raw of
           Inl e \<Rightarrow> ([], Some (Inl e))
         | Inr steps \<Rightarrow>
             (case validate_workflow_gateway_config rt raw_config of
                Inl e \<Rightarrow> ([], Some (Inl e))
              | Inr config \<Rightarrow>
                  (case run_rounds rt world config workflow_id steps started readings (initial_run steps) of
                     (r, out) \<Rightarrow> (wr_calls r, out)))))"

end
