(* ===== verification/WorkflowTrace.thy ===== *)
theory WorkflowTrace
  imports WorkflowExec
begin

text \<open>
  What a run of a workflow does on the wire. The calls made so far are a history, and the gateway's answer
  to the \<open>n\<close>th of them is what it gives for the history up to it; so the statements below speak of calls
  and answers only: which child a step was accepted as, when that child was reported completed, and which
  submissions were made before.
\<close>

definition submission_key :: "gateway_call \<Rightarrow> string option" where
  "submission_key c = map_of (gc_headers c) ''Idempotency-Key''"

definition submission_keys :: "gateway_call list \<Rightarrow> string list" where
  "submission_keys calls = List.map_filter submission_key calls"

definition answer_at :: "runtime \<Rightarrow> workflow_world \<Rightarrow> gateway_call list \<Rightarrow> nat \<Rightarrow> wf_error + nat \<times> json" where
  "answer_at rt world calls n = gateway_answer rt (ww_gateway world (take (Suc n) calls))"

text \<open>The step was submitted and accepted as task \<open>t\<close>; later its child was reported completed.\<close>

definition accepted_at ::
  "runtime \<Rightarrow> workflow_world \<Rightarrow> int \<Rightarrow> gateway_call list \<Rightarrow> workflow_step \<Rightarrow> int \<Rightarrow> nat \<Rightarrow> bool" where
  "accepted_at rt world wid calls step t n \<longleftrightarrow>
     n < length calls \<and> submission_key (calls ! n) = Some (child_idempotency_key wid (ws_id step))
     \<and> (case answer_at rt world calls n of Inl e \<Rightarrow> False | Inr a \<Rightarrow> enqueue_answer (ws_id step) a = Inr t)"

definition completed_at ::
  "runtime \<Rightarrow> workflow_world \<Rightarrow> workflow_config \<Rightarrow> gateway_call list \<Rightarrow> workflow_step \<Rightarrow> int \<Rightarrow> nat \<Rightarrow> bool" where
  "completed_at rt world config calls step t n \<longleftrightarrow>
     n < length calls \<and> calls ! n = child_call config t
     \<and> (case answer_at rt world calls n of Inl e \<Rightarrow> False | Inr a \<Rightarrow> child_answer t (ws_type step) a = Inr Completed)"

definition child_done ::
  "runtime \<Rightarrow> workflow_world \<Rightarrow> workflow_config \<Rightarrow> int \<Rightarrow> gateway_call list \<Rightarrow> workflow_step \<Rightarrow> int \<Rightarrow> bool" where
  "child_done rt world config wid calls step t \<longleftrightarrow>
     (\<exists>i j. i < j \<and> accepted_at rt world wid calls step t i \<and> completed_at rt world config calls step t j)"

text \<open>
  The trace is in order: no submission is repeated, and whenever a step is submitted, every step it depends
  on, directly or not, has already been accepted as a child that was reported completed.
\<close>

definition trace_in_order ::
  "runtime \<Rightarrow> workflow_world \<Rightarrow> workflow_config \<Rightarrow> int \<Rightarrow> workflow_step list \<Rightarrow> gateway_call list \<Rightarrow> bool" where
  "trace_in_order rt world config wid steps calls \<longleftrightarrow>
     distinct (submission_keys calls)
     \<and> (\<forall>n < length calls. \<forall>step \<in> set steps.
          submission_key (calls ! n) = Some (child_idempotency_key wid (ws_id step)) \<longrightarrow>
          (\<forall>a \<in> set steps. (ws_id step, ws_id a) \<in> (dep_rel (by_id steps))\<^sup>+ \<longrightarrow>
             (\<exists>t. child_done rt world config wid (take n calls) a t)))"

section \<open>Histories\<close>

lemma answer_at_append: "n < length calls \<Longrightarrow> answer_at rt world (calls @ later) n = answer_at rt world calls n"
  by (simp add: answer_at_def)

lemma accepted_at_append:
  "accepted_at rt world wid calls step t n \<Longrightarrow> accepted_at rt world wid (calls @ later) step t n"
  by (auto simp: accepted_at_def answer_at_append nth_append)

lemma completed_at_append:
  "completed_at rt world config calls step t n \<Longrightarrow> completed_at rt world config (calls @ later) step t n"
  by (auto simp: completed_at_def answer_at_append nth_append)

lemma child_done_append:
  "child_done rt world config wid calls step t \<Longrightarrow> child_done rt world config wid (calls @ later) step t"
  by (auto simp: child_done_def intro: accepted_at_append completed_at_append)

lemma submission_keys_append [simp]: "submission_keys (xs @ ys) = submission_keys xs @ submission_keys ys"
  by (simp add: submission_keys_def map_filter_def)

lemma submission_keys_single [simp]:
  "submission_keys [c] = (case submission_key c of None \<Rightarrow> [] | Some k \<Rightarrow> [k])"
  by (simp add: submission_keys_def map_filter_def split: option.splits)

lemma submission_key_simps [simp]:
  "submission_key (child_call config t) = None"
  "submission_key (enqueue_call rt config wid step payload) = Some (child_idempotency_key wid (ws_id step))"
  by (simp_all add: submission_key_def child_call_def enqueue_call_def)

lemma child_idempotency_key_inject [simp]:
  "child_idempotency_key wid s = child_idempotency_key wid s' \<longleftrightarrow> s = s'"
  by (simp add: child_idempotency_key_def)

lemma trace_in_order_Nil [simp]: "trace_in_order rt world config wid steps []"
  by (simp add: trace_in_order_def submission_keys_def map_filter_def)

lemma trace_in_order_snoc:
  assumes "trace_in_order rt world config wid steps calls"
    and "\<forall>k \<in> set_option (submission_key c). k \<notin> set (submission_keys calls)"
    and "\<And>step a. step \<in> set steps \<Longrightarrow> a \<in> set steps \<Longrightarrow>
       submission_key c = Some (child_idempotency_key wid (ws_id step)) \<Longrightarrow>
       (ws_id step, ws_id a) \<in> (dep_rel (by_id steps))\<^sup>+ \<Longrightarrow> \<exists>t. child_done rt world config wid calls a t"
  shows "trace_in_order rt world config wid steps (calls @ [c])"
  unfolding trace_in_order_def
proof (intro conjI allI impI ballI)
  show "distinct (submission_keys (calls @ [c]))"
    using assms(1,2) by (auto simp: trace_in_order_def split: option.splits)
next
  fix n step a
  assume n: "n < length (calls @ [c])" and s: "step \<in> set steps" "a \<in> set steps"
    and k: "submission_key ((calls @ [c]) ! n) = Some (child_idempotency_key wid (ws_id step))"
    and r: "(ws_id step, ws_id a) \<in> (dep_rel (by_id steps))\<^sup>+"
  show "\<exists>t. child_done rt world config wid (take n (calls @ [c])) a t"
  proof (cases "n < length calls")
    case True
    with assms(1) s k r show ?thesis by (auto simp: trace_in_order_def nth_append)
  next
    case False
    with n have "n = length calls" by simp
    with assms(3) [OF s] k r show ?thesis by simp
  qed
qed

section \<open>The invariant\<close>

definition completed_in :: "workflow_run \<Rightarrow> string \<Rightarrow> bool" where
  "completed_in r s \<longleftrightarrow> (\<exists>cur. map_of (wr_steps r) s = Some cur \<and> ru_status cur = Completed)"

definition entry_ok ::
  "runtime \<Rightarrow> workflow_world \<Rightarrow> workflow_config \<Rightarrow> int \<Rightarrow> workflow_step list \<Rightarrow> workflow_run \<Rightarrow> string \<Rightarrow> runtime_step \<Rightarrow> bool"
  where
  "entry_ok rt world config wid steps r s cur \<longleftrightarrow>
     map_of (by_id steps) s = Some (ru_step cur)
     \<and> (case ru_task_id cur of
          None \<Rightarrow> ru_status cur = Waiting \<and> child_idempotency_key wid s \<notin> set (submission_keys (wr_calls r))
        | Some t \<Rightarrow> ru_status cur \<noteq> Waiting
            \<and> (\<exists>i. accepted_at rt world wid (wr_calls r) (ru_step cur) t i)
            \<and> (\<forall>d \<in> set (ws_depends_on (ru_step cur)). completed_in r d)
            \<and> (ru_status cur = Completed \<longrightarrow> child_done rt world config wid (wr_calls r) (ru_step cur) t))"

definition run_inv ::
  "runtime \<Rightarrow> workflow_world \<Rightarrow> workflow_config \<Rightarrow> int \<Rightarrow> workflow_step list \<Rightarrow> workflow_run \<Rightarrow> bool" where
  "run_inv rt world config wid steps r \<longleftrightarrow>
     trace_in_order rt world config wid steps (wr_calls r)
     \<and> set (keys_of (wr_steps r)) = set (map ws_id steps)
     \<and> (\<forall>s cur. map_of (wr_steps r) s = Some cur \<longrightarrow> entry_ok rt world config wid steps r s cur)"

lemma run_inv_initial:
  assumes "distinct (map ws_id steps)"
  shows "run_inv rt world config wid steps (initial_run steps)"
proof -
  have "entry_ok rt world config wid steps (initial_run steps) s cur"
    if "map_of (wr_steps (initial_run steps)) s = Some cur" for s cur
  proof -
    from map_of_SomeD [OF that] obtain step where
      "step \<in> set steps" "s = ws_id step" "cur = \<lparr>ru_step = step, ru_task_id = None, ru_status = Waiting\<rparr>"
      by (auto simp: initial_run_def)
    then show ?thesis
      using map_of_by_id [OF assms] by (simp add: entry_ok_def initial_run_def submission_keys_def map_filter_def)
  qed
  moreover have "wr_calls (initial_run steps) = []" "set (keys_of (wr_steps (initial_run steps))) = set (map ws_id steps)"
    by (simp_all add: initial_run_def image_image)
  ultimately show ?thesis by (simp add: run_inv_def)
qed

text \<open>An entry stays in order when calls are added that submit other steps, and when entries become completed.\<close>

lemma entry_ok_mono:
  assumes "entry_ok rt world config wid steps r s cur"
    and "wr_calls r' = wr_calls r @ later"
    and "child_idempotency_key wid s \<notin> set (submission_keys later)"
    and "\<And>d. completed_in r d \<Longrightarrow> completed_in r' d"
  shows "entry_ok rt world config wid steps r' s cur"
  using assms
  by (auto simp: entry_ok_def split: option.splits intro: accepted_at_append child_done_append)

lemma completed_ancestors:
  assumes inv: "run_inv rt world config wid steps r"
    and deps: "\<And>d. (s, d) \<in> dep_rel (by_id steps) \<Longrightarrow> completed_in r d"
  shows "(s, a) \<in> (dep_rel (by_id steps))\<^sup>+ \<Longrightarrow> completed_in r a"
proof (induction rule: trancl_induct)
  case (step b c)
  then obtain cur where cur: "map_of (wr_steps r) b = Some cur" "ru_status cur = Completed"
    by (auto simp: completed_in_def)
  with inv have ok: "entry_ok rt world config wid steps r b cur" by (simp add: run_inv_def)
  then obtain t where "ru_task_id cur = Some t" using cur(2) by (cases "ru_task_id cur") (auto simp: entry_ok_def)
  with ok have "\<forall>d \<in> set (ws_depends_on (ru_step cur)). completed_in r d"
    and "map_of (by_id steps) b = Some (ru_step cur)" by (auto simp: entry_ok_def)
  with step.hyps(2) show ?case by (simp add: dep_rel_def deps_of_def)
qed (rule deps)

section \<open>The loops keep the invariant\<close>

lemma get_child_calls: "get_child rt world config calls t n = (calls', x) \<Longrightarrow> calls' = calls @ [child_call config t]"
  by (auto simp: get_child_def gateway_json_def split: sum.splits)

lemma enqueue_child_calls:
  "enqueue_child rt world config calls wid step payload = (calls', x) \<Longrightarrow>
   calls' = calls @ [enqueue_call rt config wid step payload]"
  by (auto simp: enqueue_child_def gateway_json_def split: sum.splits)

lemma get_child_completed_at:
  "get_child rt world config calls t (ws_type step) = (calls', Inr Completed) \<Longrightarrow>
   completed_at rt world config calls' step t (length calls)"
  by (auto simp: get_child_def gateway_json_def completed_at_def answer_at_def split: sum.splits)

lemma get_child_status:
  "get_child rt world config calls t n = (calls', Inr status) \<Longrightarrow> status \<noteq> Waiting"
  by (auto simp: get_child_def gateway_json_def child_answer_def child_status_of_def
      split: sum.splits prod.splits if_splits option.splits)

lemma enqueue_child_accepted_at:
  "enqueue_child rt world config calls wid step payload = (calls', Inr t) \<Longrightarrow>
   accepted_at rt world wid calls' step t (length calls)"
  by (auto simp: enqueue_child_def gateway_json_def accepted_at_def answer_at_def split: sum.splits)

lemma run_inv_trace_poll:
  "run_inv rt world config wid steps r \<Longrightarrow> get_child rt world config (wr_calls r) t n = (calls', x) \<Longrightarrow>
   trace_in_order rt world config wid steps calls'"
  by (drule get_child_calls) (auto simp: run_inv_def intro: trace_in_order_snoc)

lemma run_inv_observe:
  assumes inv: "run_inv rt world config wid steps r" and cur: "map_of (wr_steps r) s = Some cur"
    and t: "ru_task_id cur = Some t" and nc: "ru_status cur \<noteq> Completed"
    and get: "get_child rt world config (wr_calls r) t (ws_type (ru_step cur)) = (calls', Inr status)"
  shows "run_inv rt world config wid steps
    (r\<lparr>wr_calls := calls', wr_steps := map_set s (cur\<lparr>ru_status := status\<rparr>) (wr_steps r)\<rparr>)" (is "run_inv _ _ _ _ _ ?r'")
proof -
  have calls: "wr_calls ?r' = wr_calls r @ [child_call config t]" using get_child_calls [OF get] by simp
  have mono: "completed_in r d \<Longrightarrow> completed_in ?r' d" for d
    using cur nc by (auto simp: completed_in_def)
  have ok: "entry_ok rt world config wid steps r s cur" using inv cur by (simp add: run_inv_def)
  from entry_ok_mono [OF this calls _ mono]
  have ok': "entry_ok rt world config wid steps ?r' s cur" by simp
  obtain i where i: "accepted_at rt world wid (wr_calls r) (ru_step cur) t i" using ok t by (auto simp: entry_ok_def)
  then have "i < length (wr_calls r)" by (simp add: accepted_at_def)
  moreover have "accepted_at rt world wid (wr_calls ?r') (ru_step cur) t i"
    using accepted_at_append [OF i] unfolding calls .
  ultimately have "child_done rt world config wid (wr_calls ?r') (ru_step cur) t" if "status = Completed"
    using get_child_completed_at [of rt world config "wr_calls r" t "ru_step cur" calls'] get that
    by (auto simp: child_done_def)
  with ok' t get_child_status [OF get]
  have "entry_ok rt world config wid steps ?r' s (cur\<lparr>ru_status := status\<rparr>)"
    by (auto simp: entry_ok_def)
  moreover have "entry_ok rt world config wid steps ?r' s' cur'"
    if "map_of (wr_steps r) s' = Some cur'" for s' cur'
    using entry_ok_mono [OF _ calls _ mono] inv that by (auto simp: run_inv_def)
  moreover have "trace_in_order rt world config wid steps (wr_calls ?r')"
    using run_inv_trace_poll [OF inv get] by simp
  moreover have "set (keys_of (wr_steps ?r')) = set (map ws_id steps)"
    using inv cur by (auto simp: run_inv_def insert_absorb dest: map_of_SomeD simp del: set_map) (metis map_of_eq_None_iff option.distinct(1) set_map)
  ultimately show ?thesis unfolding run_inv_def by auto
qed

lemma poll_children_inv:
  assumes "run_inv rt world config wid steps r" and "poll_children rt world config ss r = (r', oe)"
  shows "trace_in_order rt world config wid steps (wr_calls r') \<and> (oe = None \<longrightarrow> run_inv rt world config wid steps r')"
  using assms
proof (induction rt world config ss r arbitrary: r' oe rule: poll_children.induct)
  case (2 rt world config s ss r)
  show ?case
  proof (cases "map_of (wr_steps r) s")
    case None
    with 2 show ?thesis by simp
  next
    case (Some cur)
    show ?thesis
    proof (cases "ru_task_id cur = None \<or> ru_status cur = Completed")
      case True
      with 2 Some show ?thesis by (auto split: option.splits)
    next
      case False
      then obtain t where t: "ru_task_id cur = Some t" "ru_status cur \<noteq> Completed" by auto
      obtain calls' x where get: "get_child rt world config (wr_calls r) t (ws_type (ru_step cur)) = (calls', x)"
        by (cases "get_child rt world config (wr_calls r) t (ws_type (ru_step cur))")
      note tr = run_inv_trace_poll [OF "2.prems"(1) get]
      show ?thesis
      proof (cases x)
        case (Inl e)
        with "2.prems"(2) Some t get tr show ?thesis by auto
      next
        case (Inr status)
        note inv' = run_inv_observe [OF "2.prems"(1) Some t get [unfolded Inr]]
        with "2.prems"(2) "2.IH"(4) [OF Some t get [unfolded Inr, symmetric] refl refl] Some t get Inr tr show ?thesis
          by (cases "status = Failed") (auto simp: Let_def)
      qed
    qed
  qed
qed (simp add: run_inv_def)

lemma run_inv_entry:
  assumes "run_inv rt world config wid steps r" and "map_of (wr_steps r) s = Some cur"
  shows "entry_ok rt world config wid steps r s cur" and "map_of (by_id steps) s = Some (ru_step cur)"
    and "ru_step cur \<in> set steps" and "ws_id (ru_step cur) = s"
proof -
  show ok: "entry_ok rt world config wid steps r s cur" using assms by (simp add: run_inv_def)
  then show m: "map_of (by_id steps) s = Some (ru_step cur)" by (simp add: entry_ok_def)
  from map_of_by_id_Some [OF m] show "ru_step cur \<in> set steps" "ws_id (ru_step cur) = s" by auto
qed

lemma ready_completed:
  assumes inv: "run_inv rt world config wid steps r" and cur: "map_of (wr_steps r) s = Some cur"
    and ready: "step_ready (wr_steps r) (ru_step cur)" and a: "(s, a) \<in> (dep_rel (by_id steps))\<^sup>+"
  shows "completed_in r a"
proof (rule completed_ancestors [OF inv _ a])
  fix d
  assume "(s, d) \<in> dep_rel (by_id steps)"
  moreover have "map_of (by_id steps) s = Some (ru_step cur)" using inv cur by (simp add: run_inv_def entry_ok_def)
  ultimately have "d \<in> set (ws_depends_on (ru_step cur))" by (simp add: dep_rel_def deps_of_def)
  with ready show "completed_in r d" by (auto simp: step_ready_def list_all_iff completed_in_def split: option.splits)
qed

lemma completed_child_done:
  assumes d: "distinct (map ws_id steps)" and inv: "run_inv rt world config wid steps r"
    and a: "a \<in> set steps" "completed_in r (ws_id a)"
  shows "\<exists>t. child_done rt world config wid (wr_calls r) a t"
proof -
  from a(2) obtain cur where cur: "map_of (wr_steps r) (ws_id a) = Some cur" "ru_status cur = Completed"
    by (auto simp: completed_in_def)
  with inv have ok: "entry_ok rt world config wid steps r (ws_id a) cur" by (simp add: run_inv_def)
  then have "ru_step cur = a" using map_of_by_id [OF d a(1)] by (simp add: entry_ok_def)
  with ok cur(2) show ?thesis by (cases "ru_task_id cur") (auto simp: entry_ok_def)
qed

lemma run_inv_trace_submit:
  assumes d: "distinct (map ws_id steps)" and inv: "run_inv rt world config wid steps r"
    and cur: "map_of (wr_steps r) s = Some cur" and t: "ru_task_id cur = None"
    and ready: "step_ready (wr_steps r) (ru_step cur)"
    and enq: "enqueue_child rt world config (wr_calls r) wid (ru_step cur) payload = (calls', x)"
  shows "trace_in_order rt world config wid steps calls'"
  unfolding enqueue_child_calls [OF enq]
proof (rule trace_in_order_snoc)
  have ok: "entry_ok rt world config wid steps r s cur" using inv cur by (simp add: run_inv_def)
  then have s: "ws_id (ru_step cur) = s" by (auto simp: entry_ok_def dest: map_of_by_id_Some)
  show "trace_in_order rt world config wid steps (wr_calls r)" using inv by (simp add: run_inv_def)
  show "\<forall>k \<in> set_option (submission_key (enqueue_call rt config wid (ru_step cur) payload)).
      k \<notin> set (submission_keys (wr_calls r))"
    using ok t s by (simp add: entry_ok_def)
  fix step a
  assume "submission_key (enqueue_call rt config wid (ru_step cur) payload) = Some (child_idempotency_key wid (ws_id step))"
    and a: "a \<in> set steps" and r: "(ws_id step, ws_id a) \<in> (dep_rel (by_id steps))\<^sup>+"
  then have "ws_id step = s" using s by simp
  with ready_completed [OF inv cur ready] r completed_child_done [OF d inv a]
  show "\<exists>t. child_done rt world config wid (wr_calls r) a t" by blast
qed

lemma run_inv_submit:
  assumes d: "distinct (map ws_id steps)" and inv: "run_inv rt world config wid steps r"
    and cur: "map_of (wr_steps r) s = Some cur" and t: "ru_task_id cur = None"
    and ready: "step_ready (wr_steps r) (ru_step cur)"
    and enq: "enqueue_child rt world config (wr_calls r) wid (ru_step cur) payload = (calls', Inr t')"
  shows "run_inv rt world config wid steps
    (r\<lparr>wr_calls := calls',
       wr_steps := map_set s (cur\<lparr>ru_task_id := Some t', ru_status := Pending\<rparr>) (wr_steps r)\<rparr>)" (is "run_inv _ _ _ _ _ ?r'")
proof -
  have calls: "wr_calls ?r' = wr_calls r @ [enqueue_call rt config wid (ru_step cur) payload]"
    using enqueue_child_calls [OF enq] by simp
  have ok: "entry_ok rt world config wid steps r s cur" using inv cur by (simp add: run_inv_def)
  then have step: "map_of (by_id steps) s = Some (ru_step cur)" and s: "ws_id (ru_step cur) = s"
    and st: "ru_status cur = Waiting"
    using t by (auto simp: entry_ok_def dest: map_of_by_id_Some)
  have mono: "completed_in r d \<Longrightarrow> completed_in ?r' d" for d
    using cur st by (auto simp: completed_in_def)
  have "completed_in r d" if "d \<in> set (ws_depends_on (ru_step cur))" for d
  proof (rule ready_completed [OF inv cur ready])
    show "(s, d) \<in> (dep_rel (by_id steps))\<^sup>+" using that step by (simp add: dep_rel_def deps_of_def r_into_trancl')
  qed
  then have "entry_ok rt world config wid steps ?r' s (cur\<lparr>ru_task_id := Some t', ru_status := Pending\<rparr>)"
    using step mono enqueue_child_accepted_at [OF enq] by (auto simp: entry_ok_def)
  moreover have "entry_ok rt world config wid steps ?r' s' cur'"
    if "map_of (wr_steps r) s' = Some cur'" "s' \<noteq> s" for s' cur'
    by (rule entry_ok_mono [OF _ calls _ mono]) (use inv that s in \<open>auto simp: run_inv_def\<close>)
  moreover have "trace_in_order rt world config wid steps (wr_calls ?r')"
    using run_inv_trace_submit [OF d inv cur t ready enq] by simp
  moreover have "set (keys_of (wr_steps ?r')) = set (map ws_id steps)"
    using inv cur by (auto simp: run_inv_def insert_absorb dest: map_of_SomeD simp del: set_map) (metis map_of_eq_None_iff option.distinct(1) set_map)
  ultimately show ?thesis unfolding run_inv_def by auto
qed

text \<open>A ready step finds every ancestor completed, so its references are those the parser checked.\<close>

lemma available_from_completed:
  assumes "\<And>a. a \<in> set as \<Longrightarrow> \<exists>cur t. map_of runtime a = Some cur \<and> ru_task_id cur = Some t \<and> ru_status cur = Completed"
  shows "\<exists>sources. available_from runtime as = Inr sources \<and> keys_of sources = as"
  using assms
proof (induction as)
  case (Cons a as)
  from Cons.prems [of a] obtain cur t where "map_of runtime a = Some cur" "ru_task_id cur = Some t" "ru_status cur = Completed"
    by auto
  with Cons.IH Cons.prems show ?case by fastforce
qed simp

lemma available_ancestors_ready:
  assumes inv: "run_inv rt world config wid steps r" and cur: "map_of (wr_steps r) s = Some cur"
    and ready: "step_ready (wr_steps r) (ru_step cur)"
  shows "\<exists>sources. available_ancestor_task_ids (ru_step cur) (by_id steps) (wr_steps r) = Inr sources
     \<and> keys_of sources = ancestors_of (ws_id (ru_step cur)) (by_id steps)"
  unfolding available_ancestor_task_ids_def
proof (rule available_from_completed)
  fix a
  note s = run_inv_entry(4) [OF inv cur]
  assume "a \<in> set (ancestors_of (ws_id (ru_step cur)) (by_id steps))"
  then have "completed_in r a" using ready_completed [OF inv cur ready] by (simp add: set_ancestors_of s)
  then obtain c where c: "map_of (wr_steps r) a = Some c" "ru_status c = Completed" by (auto simp: completed_in_def)
  with inv have "entry_ok rt world config wid steps r a c" by (simp add: run_inv_def)
  with c show "\<exists>c t. map_of (wr_steps r) a = Some c \<and> ru_task_id c = Some t \<and> ru_status c = Completed"
    by (cases "ru_task_id c") (auto simp: entry_ok_def)
qed

lemma resolve_step_payload_error:
  assumes ok: "list_all (payload_ok (by_id steps)) steps" and inv: "run_inv rt world config wid steps r"
    and cur: "map_of (wr_steps r) s = Some cur" and ready: "step_ready (wr_steps r) (ru_step cur)"
    and err: "resolve_step_payload rt world config (by_id steps) r (ru_step cur) = Inl e"
  shows "\<exists>m. e = ExecutionError (''workflow step '' @ s @ '': '' @ m) \<or> e = OtherFailure m"
proof -
  note step = run_inv_entry(3) [OF inv cur] and s = run_inv_entry(4) [OF inv cur]
  obtain sources where src: "available_ancestor_task_ids (ru_step cur) (by_id steps) (wr_steps r) = Inr sources"
    "keys_of sources = ancestors_of (ws_id (ru_step cur)) (by_id steps)"
    using available_ancestors_ready [OF inv cur ready] by blast
  obtain n where n: "validate_result_reference_payload (ws_payload (ru_step cur)) (keys_of sources) = Inr n"
    using ok step src(2) by (auto simp: list_all_iff payload_ok_def)
  from err src(1) s show ?thesis
    by (auto simp: resolve_step_payload_def dest: resolve_validated_error [OF n] split: sum.splits ref_failure.splits)
qed

lemma submit_children_inv:
  assumes d: "distinct (map ws_id steps)" and pl: "list_all (payload_ok (by_id steps)) steps"
    and "run_inv rt world config wid steps r" and "submit_children rt world config wid (by_id steps) ss r = (r', oe)"
  shows "trace_in_order rt world config wid steps (wr_calls r') \<and> (oe = None \<longrightarrow> run_inv rt world config wid steps r')
     \<and> (\<forall>m. oe = Some (PayloadError m) \<longrightarrow> (\<exists>s. m = ''gateway rejected workflow step '' @ s))"
  using assms(3,4)
proof (induction ss arbitrary: r)
  case (Cons s ss)
  show ?case
  proof (cases "\<exists>cur. map_of (wr_steps r) s = Some cur \<and> ru_task_id cur = None \<and> step_ready (wr_steps r) (ru_step cur)")
    case False
    with Cons.prems(2) have "submit_children rt world config wid (by_id steps) ss r = (r', oe)"
      by (cases "map_of (wr_steps r) s") (auto split: if_splits)
    with Cons show ?thesis by blast
  next
    case True
    then obtain cur where cur: "map_of (wr_steps r) s = Some cur" "ru_task_id cur = None"
      and ready: "step_ready (wr_steps r) (ru_step cur)" by blast
    show ?thesis
    proof (cases "resolve_step_payload rt world config (by_id steps) r (ru_step cur)")
      case (Inl e)
      with resolve_step_payload_error [OF pl Cons.prems(1) cur(1) ready Inl] Cons.prems cur ready
      show ?thesis by (auto simp: run_inv_def)
    next
      case (Inr payload)
      obtain calls' x where enq:
        "enqueue_child rt world config (wr_calls r) wid (ru_step cur) payload = (calls', x)"
        by (cases "enqueue_child rt world config (wr_calls r) wid (ru_step cur) payload")
      note tr = run_inv_trace_submit [OF d Cons.prems(1) cur ready enq]
      show ?thesis
      proof (cases x)
        case (Inl e)
        then have "\<forall>m. e = PayloadError m \<longrightarrow> (\<exists>s. m = ''gateway rejected workflow step '' @ s)"
          using enq by (auto simp: enqueue_child_def gateway_json_def enqueue_answer_def gateway_answer_def
              split: sum.splits prod.splits if_splits option.splits)
        with Cons.prems(2) cur ready Inr enq tr Inl show ?thesis by auto
      next
        case (Inr t)
        from Cons.IH [OF run_inv_submit [OF d Cons.prems(1) cur ready enq [unfolded Inr]]]
          Cons.prems(2) cur ready \<open>resolve_step_payload _ _ _ _ _ _ = _\<close> enq Inr
        show ?thesis by simp
      qed
    qed
  qed
qed (auto simp: run_inv_def)

lemma poll_children_error: "poll_children rt world config ss r = (r', Some e) \<Longrightarrow> \<exists>m. e = ExecutionError m"
proof (induction rt world config ss r arbitrary: r' rule: poll_children.induct)
  case (2 rt world config s ss r)
  have "\<exists>m. e = ExecutionError m" if "get_child rt world config calls t n = (calls', Inl e)" for calls t n calls'
    using that by (auto simp: get_child_def gateway_json_def gateway_answer_def child_answer_def
        split: sum.splits prod.splits if_splits option.splits)
  with 2 show ?case
    by (auto simp: Let_def split: option.splits if_splits prod.splits sum.splits)
qed simp

lemma run_round_inv:
  assumes "distinct (map ws_id steps)" and "list_all (payload_ok (by_id steps)) steps"
    and "run_inv rt world config wid steps r" and "run_round rt world config wid (by_id steps) r = (r', oe)"
  shows "trace_in_order rt world config wid steps (wr_calls r') \<and> (oe = None \<longrightarrow> run_inv rt world config wid steps r')
     \<and> (\<forall>m. oe = Some (PayloadError m) \<longrightarrow> (\<exists>s. m = ''gateway rejected workflow step '' @ s))"
proof -
  obtain r1 o1 where p: "poll_children rt world config (keys_of (wr_steps r)) r = (r1, o1)"
    by (cases "poll_children rt world config (keys_of (wr_steps r)) r")
  note inv = poll_children_inv [OF assms(3) p]
  show ?thesis
  proof (cases o1)
    case None
    with assms(4) p inv submit_children_inv [OF assms(1,2), of rt world config wid r1] show ?thesis
      by (simp add: run_round_def)
  next
    case (Some e)
    with assms(4) p inv poll_children_error [of rt world config _ r r1] show ?thesis
      by (fastforce simp: run_round_def)
  qed
qed

section \<open>Whole runs\<close>

lemma report_steps_completed:
  assumes d: "distinct (map ws_id steps)" and inv: "run_inv rt world config wid steps r" and "all_completed r"
    and "set todo \<subseteq> set steps"
  shows "\<exists>reports. report_steps (wr_steps r) todo = Inr reports
     \<and> list_all2 (\<lambda>step rep. sr_id rep = ws_id step \<and> sr_type rep = ws_type step
          \<and> child_done rt world config wid (wr_calls r) step (sr_task_id rep)) todo reports"
  using assms(4)
proof (induction todo)
  case (Cons step todo)
  then have "ws_id step \<in> set (keys_of (wr_steps r))" using inv by (auto simp: run_inv_def)
  then obtain cur where cur: "map_of (wr_steps r) (ws_id step) = Some cur"
    by (cases "map_of (wr_steps r) (ws_id step)") (auto simp: map_of_eq_None_iff)
  then have fin: "ru_status cur = Completed"
    using assms(3) by (auto simp: all_completed_def list_all_iff dest: map_of_SomeD)
  have same: "ru_step cur = step"
    using run_inv_entry(2) [OF inv cur] map_of_by_id [OF d, of step] Cons.prems by simp
  from run_inv_entry(1) [OF inv cur] fin obtain t where
    "ru_task_id cur = Some t" "child_done rt world config wid (wr_calls r) step t"
    by (cases "ru_task_id cur") (auto simp: entry_ok_def same)
  with Cons cur fin show ?case by auto
qed simp

lemma run_rounds_inv:
  assumes "distinct (map ws_id steps)" and "list_all (payload_ok (by_id steps)) steps"
    and "run_inv rt world config wid steps r"
    and "run_rounds rt world config wid steps started readings r = (r', out)"
  shows "trace_in_order rt world config wid steps (wr_calls r')
     \<and> (\<forall>m. out = Some (Inl (PayloadError m)) \<longrightarrow> (\<exists>s. m = ''gateway rejected workflow step '' @ s))
     \<and> (\<forall>res. out = Some (Inr res) \<longrightarrow> wo_task_id res = wid
          \<and> list_all2 (\<lambda>step rep. sr_id rep = ws_id step \<and> sr_type rep = ws_type step
              \<and> child_done rt world config wid (wr_calls r') step (sr_task_id rep)) steps (wo_steps res))"
  using assms(3,4)
proof (induction readings arbitrary: r)
  case Nil
  then show ?case by (auto simp: run_inv_def)
next
  case (Cons now readings)
  obtain r1 o1 where round: "run_round rt world config wid (by_id steps) r = (r1, o1)"
    by (cases "run_round rt world config wid (by_id steps) r")
  note inv = run_round_inv [OF assms(1,2) Cons.prems(1) round]
  have tr: "trace_in_order rt world config wid steps (wr_calls r)" using Cons.prems(1) by (simp add: run_inv_def)
  consider (late) "now - started > wc_max_run_ms config"
    | (error) e where "\<not> now - started > wc_max_run_ms config" "o1 = Some e"
    | (again) "\<not> now - started > wc_max_run_ms config" "o1 = None" "\<not> all_completed r1"
    | (finished) "\<not> now - started > wc_max_run_ms config" "o1 = None" "all_completed r1"
    by (cases o1) auto
  then show ?case
  proof cases
    case late
    with Cons.prems(2) have "(r', out) = (r, Some (Inl (ExecutionError ''workflow exceeded configured maximum run time'')))"
      by simp
    with tr show ?thesis by simp
  next
    case error
    with Cons.prems(2) round have "r' = r1" "out = Some (Inl e)" by simp_all
    with error inv show ?thesis by simp
  next
    case again
    with Cons.prems(2) round inv Cons.IH [of r1] show ?thesis by simp
  next
    case finished
    then have "run_inv rt world config wid steps r1" using inv by auto
    from report_steps_completed [OF assms(1) this finished(3) subset_refl] obtain reports where rep:
      "report_steps (wr_steps r1) steps = Inr reports"
      "list_all2 (\<lambda>step rep. sr_id rep = ws_id step \<and> sr_type rep = ws_type step
          \<and> child_done rt world config wid (wr_calls r1) step (sr_task_id rep)) steps reports" by blast
    with Cons.prems(2) round finished have "r' = r1" "out = Some (Inr \<lparr>wo_task_id = wid, wo_steps = reports\<rparr>)"
      by simp_all
    with rep(2) inv show ?thesis by simp
  qed
qed

lemma execute_workflow_run:
  assumes "parse_workflow_definition rt raw = Inr steps" and "validate_workflow_gateway_config rt raw_config = Inr config"
    and "execute_workflow rt world wid raw raw_config started readings = (calls, out)"
  shows "trace_in_order rt world config wid steps calls
     \<and> (\<forall>m. out = Some (Inl (PayloadError m)) \<longrightarrow> (\<exists>s. m = ''gateway rejected workflow step '' @ s))
     \<and> (\<forall>res. out = Some (Inr res) \<longrightarrow> wo_task_id res = wid
          \<and> list_all2 (\<lambda>step rep. sr_id rep = ws_id step \<and> sr_type rep = ws_type step
              \<and> child_done rt world config wid calls step (sr_task_id rep)) steps (wo_steps res))"
proof -
  note ok = parse_workflow_definition_ok(1) [OF assms(1)]
  then have d: "distinct (map ws_id steps)" and pl: "list_all (payload_ok (by_id steps)) steps"
    by (simp_all add: workflow_ok_def)
  obtain r' out' where run: "run_rounds rt world config wid steps started readings (initial_run steps) = (r', out')"
    by (cases "run_rounds rt world config wid steps started readings (initial_run steps)")
  from run_rounds_inv [OF d pl run_inv_initial [OF d] run] assms run show ?thesis
    by (auto simp: execute_workflow_def split: if_splits)
qed

section \<open>The schedule as an abstract machine\<close>

text \<open>
  What the execution promises, without the wire: a step is idle, active or done; an idle step may become
  active once everything it depends on is done, and an active one may become done.
\<close>

datatype phase = Idle | Active | Done

inductive schedule_step :: "(string \<times> string) set \<Rightarrow> (string \<Rightarrow> phase) \<Rightarrow> (string \<Rightarrow> phase) \<Rightarrow> bool"
  for rel :: "(string \<times> string) set" where
  activate: "A s = Idle \<Longrightarrow> \<forall>a. (s, a) \<in> rel\<^sup>+ \<longrightarrow> A a = Done \<Longrightarrow> schedule_step rel A (A(s := Active))"
| finish: "A s = Active \<Longrightarrow> schedule_step rel A (A(s := Done))"

definition phase_of_status :: "child_status \<Rightarrow> phase" where
  "phase_of_status st = (case st of Waiting \<Rightarrow> Idle | Completed \<Rightarrow> Done | _ \<Rightarrow> Active)"

definition phases :: "workflow_run \<Rightarrow> string \<Rightarrow> phase" where
  "phases r s = (case map_of (wr_steps r) s of None \<Rightarrow> Idle | Some cur \<Rightarrow> phase_of_status (ru_status cur))"

lemma phases_update:
  "phases (r\<lparr>wr_calls := calls, wr_steps := map_set s cur (wr_steps r)\<rparr>) = (phases r)(s := phase_of_status (ru_status cur))"
  by (auto simp: phases_def fun_eq_iff)

lemma phases_calls [simp]: "phases (r\<lparr>wr_calls := calls\<rparr>) = phases r"
  by (auto simp: phases_def fun_eq_iff)

lemma completed_in_phases: "completed_in r s \<Longrightarrow> phases r s = Done"
  by (auto simp: completed_in_def phases_def phase_of_status_def)

lemma schedule_closed:
  assumes "(schedule_step rel)\<^sup>*\<^sup>* (\<lambda>s. Idle) A"
  shows "A s \<noteq> Idle \<Longrightarrow> (s, a) \<in> rel\<^sup>+ \<Longrightarrow> A a = Done"
  using assms
proof (induction arbitrary: s a rule: rtranclp_induct)
  case (step A B)
  from step.hyps(2) show ?case
    by (cases rule: schedule_step.cases) (use step.IH step.prems in \<open>force split: if_splits\<close>)+
qed simp

lemma poll_children_refines:
  assumes "run_inv rt world config wid steps r" and "poll_children rt world config ss r = (r', oe)"
  shows "(schedule_step rel)\<^sup>*\<^sup>* (phases r) (phases r')"
  using assms
proof (induction rt world config ss r arbitrary: r' oe rule: poll_children.induct)
  case (2 rt world config s ss r)
  show ?case
  proof (cases "\<exists>cur t. map_of (wr_steps r) s = Some cur \<and> ru_task_id cur = Some t \<and> ru_status cur \<noteq> Completed")
    case False
    with 2 show ?thesis by (auto split: option.splits if_splits)
  next
    case True
    then obtain cur t where Some: "map_of (wr_steps r) s = Some cur" and t: "ru_task_id cur = Some t" "ru_status cur \<noteq> Completed"
      by blast
    obtain calls' x where get: "get_child rt world config (wr_calls r) t (ws_type (ru_step cur)) = (calls', x)"
      by (cases "get_child rt world config (wr_calls r) t (ws_type (ru_step cur))")
    show ?thesis
    proof (cases x)
      case (Inl e)
      with "2.prems"(2) Some t get show ?thesis by (auto simp: phases_def)
    next
      case (Inr status)
      let ?r1 = "r\<lparr>wr_calls := calls', wr_steps := map_set s (cur\<lparr>ru_status := status\<rparr>) (wr_steps r)\<rparr>"
      have a: "phases r s = Active"
        using run_inv_entry(1) [OF "2.prems"(1) Some] Some t
        by (cases "ru_status cur") (auto simp: phases_def entry_ok_def phase_of_status_def)
      have "status \<noteq> Waiting" using get_child_status get Inr by blast
      then have "phases ?r1 = phases r \<or> phases ?r1 = (phases r)(s := Done)"
        unfolding phases_update using a by (cases status) (auto simp: phase_of_status_def)
      then have one: "(schedule_step rel)\<^sup>*\<^sup>* (phases r) (phases ?r1)"
        using schedule_step.finish [where rel = rel and A = "phases r" and s = s, OF a] by auto
      show ?thesis
      proof (cases "status = Failed")
        case True
        with "2.prems"(2) Some t get Inr one show ?thesis by (auto simp: Let_def)
      next
        case False
        have "poll_children rt world config ss ?r1 = (r', oe)"
          using "2.prems"(2) Some t get Inr False by (simp add: Let_def)
        from "2.IH"(4) [OF Some t get [unfolded Inr, symmetric] refl refl False
            run_inv_observe [OF "2.prems"(1) Some t get [unfolded Inr]] this] one
        show ?thesis by (rule rtranclp_trans [rotated])
      qed
    qed
  qed
qed simp

lemma submit_children_refines:
  assumes d: "distinct (map ws_id steps)" and "run_inv rt world config wid steps r"
    and "submit_children rt world config wid (by_id steps) ss r = (r', oe)"
  shows "(schedule_step (dep_rel (by_id steps)))\<^sup>*\<^sup>* (phases r) (phases r')"
  using assms(2,3)
proof (induction ss arbitrary: r)
  case (Cons s ss)
  show ?case
  proof (cases "\<exists>cur payload calls' t. map_of (wr_steps r) s = Some cur \<and> ru_task_id cur = None
        \<and> step_ready (wr_steps r) (ru_step cur)
        \<and> enqueue_child rt world config (wr_calls r) wid (ru_step cur) payload = (calls', Inr t)
        \<and> resolve_step_payload rt world config (by_id steps) r (ru_step cur) = Inr payload")
    case False
    with Cons show ?thesis by (auto split: option.splits if_splits sum.splits prod.splits)
  next
    case True
    then obtain cur payload calls' t where cur: "map_of (wr_steps r) s = Some cur" "ru_task_id cur = None"
      and ready: "step_ready (wr_steps r) (ru_step cur)"
      and enq: "enqueue_child rt world config (wr_calls r) wid (ru_step cur) payload = (calls', Inr t)"
      and pl: "resolve_step_payload rt world config (by_id steps) r (ru_step cur) = Inr payload" by blast
    let ?r1 = "r\<lparr>wr_calls := calls', wr_steps := map_set s (cur\<lparr>ru_task_id := Some t, ru_status := Pending\<rparr>) (wr_steps r)\<rparr>"
    have "phases r s = Idle"
      using run_inv_entry(1) [OF Cons.prems(1) cur(1)] cur by (auto simp: phases_def entry_ok_def phase_of_status_def)
    moreover have "\<forall>a. (s, a) \<in> (dep_rel (by_id steps))\<^sup>+ \<longrightarrow> phases r a = Done"
      using ready_completed [OF Cons.prems(1) cur(1) ready] by (blast intro: completed_in_phases)
    ultimately have "schedule_step (dep_rel (by_id steps)) (phases r) (phases ?r1)"
      unfolding phases_update using schedule_step.activate by (simp add: phase_of_status_def)
    moreover have "(schedule_step (dep_rel (by_id steps)))\<^sup>*\<^sup>* (phases ?r1) (phases r')"
      using Cons.IH [OF run_inv_submit [OF d Cons.prems(1) cur ready enq]] Cons.prems(2) cur ready enq pl by simp
    ultimately show ?thesis by (rule converse_rtranclp_into_rtranclp)
  qed
qed simp

lemma run_round_refines:
  assumes "distinct (map ws_id steps)" and "run_inv rt world config wid steps r"
    and "run_round rt world config wid (by_id steps) r = (r', oe)"
  shows "(schedule_step (dep_rel (by_id steps)))\<^sup>*\<^sup>* (phases r) (phases r')"
proof -
  obtain r1 o1 where p: "poll_children rt world config (keys_of (wr_steps r)) r = (r1, o1)"
    by (cases "poll_children rt world config (keys_of (wr_steps r)) r")
  note one = poll_children_refines [OF assms(2) p]
  show ?thesis
  proof (cases o1)
    case None
    with poll_children_inv [OF assms(2) p] have "run_inv rt world config wid steps r1" by simp
    from submit_children_refines [OF assms(1) this] assms(3) p None
    have "(schedule_step (dep_rel (by_id steps)))\<^sup>*\<^sup>* (phases r1) (phases r')" by (simp add: run_round_def)
    with one show ?thesis by (rule rtranclp_trans)
  next
    case (Some e)
    with one assms(3) p show ?thesis by (simp add: run_round_def)
  qed
qed

lemma run_rounds_refines:
  assumes "distinct (map ws_id steps)" and "list_all (payload_ok (by_id steps)) steps"
    and "run_inv rt world config wid steps r"
    and "run_rounds rt world config wid steps started readings r = (r', out)"
  shows "(schedule_step (dep_rel (by_id steps)))\<^sup>*\<^sup>* (phases r) (phases r')"
  using assms(3,4)
proof (induction readings arbitrary: r)
  case (Cons now readings)
  obtain r1 o1 where round: "run_round rt world config wid (by_id steps) r = (r1, o1)"
    by (cases "run_round rt world config wid (by_id steps) r")
  note one = run_round_refines [OF assms(1) Cons.prems(1) round]
  show ?case
  proof (cases "now - started > wc_max_run_ms config \<or> o1 \<noteq> None \<or> all_completed r1")
    case True
    with Cons.prems(2) round one show ?thesis by (cases o1) (auto split: if_splits)
  next
    case False
    with run_round_inv [OF assms(1,2) Cons.prems(1) round] have "run_inv rt world config wid steps r1" by simp
    from Cons.IH [OF this] Cons.prems(2) round False
    have "(schedule_step (dep_rel (by_id steps)))\<^sup>*\<^sup>* (phases r1) (phases r')" by simp
    with one show ?thesis by (rule rtranclp_trans)
  qed
qed simp

lemma phases_initial: "phases (initial_run steps) = (\<lambda>s. Idle)"
  by (auto simp: phases_def initial_run_def phase_of_status_def fun_eq_iff dest!: map_of_SomeD split: option.splits)

section \<open>Properties\<close>

text \<open>
  C7. The execution of a parsed workflow submits its steps in order: in every run, however it ends, no
  child is submitted twice, and when a step is submitted to the gateway, every step it depends on, directly
  or through others, has before been accepted by the gateway as a task that the gateway then reported
  completed.
\<close>

theorem workflow_children_in_order:
  assumes "parse_workflow_definition rt raw = Inr steps"
    and "validate_workflow_gateway_config rt raw_config = Inr config"
  shows "trace_in_order rt world config wid steps
           (fst (execute_workflow rt world wid raw raw_config started readings))"
  using execute_workflow_run [OF assms]
  by (cases "execute_workflow rt world wid raw raw_config started readings") auto

definition example_result :: json where
  "example_result =
     JObj [(''schema_version'', JInt 1), (''workflow_task_id'', JInt 5), (''status'', JStr ''COMPLETED''),
       (''steps'', JArr (map (\<lambda>s. JObj [(''id'', JStr s), (''type'', JStr ''system.ping''), (''task_id'', JInt 7),
          (''status'', JStr ''COMPLETED'')]) [''a'', ''b''])),
       (''outputs'', JObj [])]"

text \<open>The texts of this runtime stand for the few values it prints.\<close>

definition example_text :: "json \<Rightarrow> string" where
  "example_text v = (if v = JObj [] then ''{}'' else if v = example_result then ''result'' else ''w'')"

definition example_gateway_runtime :: "json \<Rightarrow> runtime" where
  "example_gateway_runtime workflow = null_runtime
     \<lparr>rt_url := (\<lambda>s. Some ((example_url ''/'')\<lparr>u_protocol := ''http:'', u_hostname := ''localhost'', u_origin := s\<rparr>)),
      rt_json_parse := (\<lambda>s.
        if s = ''accepted'' then Some (JObj [(''task_id'', JInt 7), (''status'', JStr ''PENDING''), (''replayed'', JBool False)])
        else if s = ''done'' then Some (JObj [(''id'', JInt 7), (''task_name'', JStr ''system.ping''), (''status'', JStr ''COMPLETED'')])
        else if s = ''result'' then Some example_result
        else Some workflow),
      rt_json_text := example_text\<rparr>"

definition example_world :: workflow_world where
  "example_world =
     \<lparr>ww_gateway = (\<lambda>calls. if gc_method (last calls) = ''POST'' then Inr (202, ''accepted'') else Inr (200, ''done'')),
      ww_results = (\<lambda>calls u. Inl ''refused''), ww_decode = (\<lambda>bs. None)\<rparr>"

definition example_workflow :: json where
  "example_workflow = JObj [(''steps'', JArr
      [JObj [(''id'', JStr ''a''), (''type'', JStr ''system.ping''), (''payload'', JNull)],
       JObj [(''id'', JStr ''b''), (''type'', JStr ''system.ping''), (''payload'', JNull), (''depends_on'', JArr [JStr ''a''])]])]"

definition example_workflow_config :: workflow_config where
  "example_workflow_config =
     \<lparr>wc_origin = ''http://localhost:3000'', wc_bearer_token = ''t'', wc_timeout_ms = 1000, wc_poll_ms = 100,
      wc_max_run_ms = 1000, wc_result_origin = Some ''http://localhost:7000''\<rparr>"

abbreviation "example_rt \<equiv> example_gateway_runtime example_workflow"
abbreviation "example_steps \<equiv> [example_step ''a'' [] JNull, example_step ''b'' [''a''] JNull]"

lemma example_parse: "parse_workflow_definition example_rt ''w'' = Inr example_steps"
proof -
  have s: "parse_workflow_steps 0 [] (arr_of (field example_workflow ''steps'')) = Inr example_steps" by code_simp
  have g: "check_workflow_graph example_steps = None" by code_simp
  show ?thesis
    using s g by (simp add: parse_workflow_definition_def MAX_WORKFLOW_PAYLOAD_BYTES_def MAX_WORKFLOW_STEPS_def
        example_gateway_runtime_def example_workflow_def)
qed

lemma example_config: "validate_workflow_gateway_config example_rt example_workflow_config = Inr example_workflow_config"
  by (simp add: validate_workflow_gateway_config_def normalize_workflow_gateway_origin_def example_payload_facts
      normalize_workflow_result_origin_def loopback_origin_def example_gateway_runtime_def example_url_def
      example_workflow_config_def is_loopback_host_def)

lemma example_ancestors:
  "ancestors_of ''a'' (by_id example_steps) = []" "ancestors_of ''b'' (by_id example_steps) = [''a'']"
  "validate_result_reference_payload JNull as = Inr 0"
  "resolve_value rt config sources JNull 0 st = Inr (st, JNull)"
  by (code_simp, code_simp, simp_all add: validate_result_reference_payload_def walk_references.simps resolve_value.simps
      MAX_REFERENCE_PAYLOAD_DEPTH_def)

lemma example_payloads:
  "resolve_result_references example_rt JNull sources (result_config_of example_world calls example_workflow_config) = Inr JNull"
  by (simp add: resolve_result_references_def example_ancestors result_config_of_def example_workflow_config_def
      normalize_workflow_result_origin_def loopback_origin_def example_gateway_runtime_def example_url_def
      is_loopback_host_def example_payload_facts null_runtime_def example_text_def example_result_def MAX_RESOLVED_STEP_PAYLOAD_BYTES_def)

lemma example_calls:
  "enqueue_child example_rt example_world config calls wid (example_step s ds p) payload =
     (calls @ [enqueue_call example_rt config wid (example_step s ds p) payload], Inr 7)"
  "get_child example_rt example_world config calls 7 ''system.ping'' = (calls @ [child_call config 7], Inr Completed)"
  by (simp_all add: enqueue_child_def get_child_def gateway_json_def example_world_def enqueue_call_def child_call_def
      gateway_answer_def enqueue_answer_def child_answer_def child_status_of_def example_gateway_runtime_def max_safe_integer_def)

lemma example_run:
  "execute_workflow example_rt example_world 5 ''w'' example_workflow_config 0 [0, 100, 200]
   = ([enqueue_call example_rt example_workflow_config 5 (example_step ''a'' [] JNull) JNull,
       child_call example_workflow_config 7,
       enqueue_call example_rt example_workflow_config 5 (example_step ''b'' [''a''] JNull) JNull,
       child_call example_workflow_config 7],
      Some (Inr \<lparr>wo_task_id = 5, wo_steps =
        [\<lparr>sr_id = ''a'', sr_type = ''system.ping'', sr_task_id = 7\<rparr>,
         \<lparr>sr_id = ''b'', sr_type = ''system.ping'', sr_task_id = 7\<rparr>]\<rparr>))"
proof -
  have "wc_max_run_ms example_workflow_config = 1000" by (simp add: example_workflow_config_def)
  moreover have "ws_id (example_step s ds p) = s" "ws_type (example_step s ds p) = ''system.ping''"
    "ws_payload (example_step s ds p) = p" "ws_depends_on (example_step s ds p) = ds" for s ds p
    by (simp_all add: example_step_def)
  ultimately show ?thesis
    by (simp add: execute_workflow_def example_parse example_config max_safe_integer_def run_round_def initial_run_def
        all_completed_def resolve_step_payload_def available_ancestor_task_ids_def example_ancestors example_payloads
        example_calls step_ready_def)
qed

lemma workflow_children_in_order_witness:
  "trace_in_order example_rt example_world example_workflow_config 5 example_steps
     [enqueue_call example_rt example_workflow_config 5 (example_step ''a'' [] JNull) JNull,
      child_call example_workflow_config 7,
      enqueue_call example_rt example_workflow_config 5 (example_step ''b'' [''a''] JNull) JNull,
      child_call example_workflow_config 7]"
  using workflow_children_in_order [OF example_parse example_config, of example_world 5 0 "[0, 100, 200]"]
  by (simp only: example_run fst_conv)



text \<open>
  C8. The rounds refine the abstract schedule: whatever the gateway answers and however the run ends, the
  states its steps have gone through are those of a machine that activates an idle step only when
  everything it depends on is done and finishes only active ones; so a step that is no longer idle has all
  its ancestors done.
\<close>

theorem workflow_rounds_refine_schedule:
  assumes "parse_workflow_definition rt raw = Inr steps"
    and "run_rounds rt world config wid steps started readings (initial_run steps) = (r, out)"
  shows "(schedule_step (dep_rel (by_id steps)))\<^sup>*\<^sup>* (\<lambda>s. Idle) (phases r)
     \<and> (\<forall>s a. phases r s \<noteq> Idle \<longrightarrow> (s, a) \<in> (dep_rel (by_id steps))\<^sup>+ \<longrightarrow> phases r a = Done)"
proof -
  from parse_workflow_definition_ok(1) [OF assms(1)]
  have d: "distinct (map ws_id steps)" and pl: "list_all (payload_ok (by_id steps)) steps"
    by (simp_all add: workflow_ok_def)
  from run_rounds_refines [OF d pl run_inv_initial [OF d] assms(2)]
  have "(schedule_step (dep_rel (by_id steps)))\<^sup>*\<^sup>* (\<lambda>s. Idle) (phases r)" by (simp add: phases_initial)
  with schedule_closed [OF this] show ?thesis by blast
qed

lemma workflow_rounds_refine_schedule_witness:
  "\<exists>r. (schedule_step (dep_rel (by_id example_steps)))\<^sup>*\<^sup>* (\<lambda>s. Idle) (phases r) \<and> phases r ''a'' = Active"
proof -
  let ?r = "fst (run_rounds example_rt example_world example_workflow_config 5 example_steps 0 [0] (initial_run example_steps))"
  let ?o = "snd (run_rounds example_rt example_world example_workflow_config 5 example_steps 0 [0] (initial_run example_steps))"
  have "wc_max_run_ms example_workflow_config = 1000" by (simp add: example_workflow_config_def)
  moreover have "ws_id (example_step s ds p) = s" "ws_type (example_step s ds p) = ''system.ping''"
    "ws_payload (example_step s ds p) = p" "ws_depends_on (example_step s ds p) = ds" for s ds p
    by (simp_all add: example_step_def)
  ultimately have "phases ?r ''a'' = Active"
    by (simp add: run_round_def initial_run_def all_completed_def resolve_step_payload_def
        available_ancestor_task_ids_def example_ancestors example_payloads example_calls step_ready_def
        phases_def phase_of_status_def)
  with workflow_rounds_refine_schedule [OF example_parse, of example_world example_workflow_config 5 0 "[0]" ?r ?o]
  show ?thesis by auto
qed

lemma run_rounds_late:
  "\<exists>now \<in> set readings. now - started > wc_max_run_ms config \<Longrightarrow>
   snd (run_rounds rt world config wid steps started readings r) \<noteq> None"
proof (induction readings arbitrary: r)
  case (Cons now readings)
  obtain r1 o1 where "run_round rt world config wid (by_id steps) r = (r1, o1)"
    by (cases "run_round rt world config wid (by_id steps) r")
  with Cons show ?case by (cases o1) auto
qed simp

text \<open>
  C21. A run ends: where every round comes at least the polling interval after the one before, the run has
  an outcome after \<open>maxRunMs / pollMs\<close> rounds and two more, whatever the gateway answers; and that is
  never more than 3456002 rounds.
\<close>

theorem workflow_run_ends:
  assumes "validate_workflow_gateway_config rt raw_config = Inr config"
    and "\<forall>i < length readings. started + int i * wc_poll_ms config \<le> readings ! i"
    and "nat (wc_max_run_ms config div wc_poll_ms config) + 2 \<le> length readings"
  shows "snd (execute_workflow rt world wid raw raw_config started readings) \<noteq> None
     \<and> nat (wc_max_run_ms config div wc_poll_ms config) + 2 \<le> 3456002"
proof -
  let ?k = "wc_max_run_ms config div wc_poll_ms config"
  have p: "wc_poll_ms config \<ge> 25" "0 \<le> wc_max_run_ms config" "wc_max_run_ms config \<le> 86400000"
    using assms(1) by (auto simp: validate_workflow_gateway_config_def split: sum.splits if_splits)
  have "?k \<le> wc_max_run_ms config div 25" using p by (intro zdiv_mono2) auto
  also have "\<dots> \<le> 86400000 div 25" using p(3) by (rule zdiv_mono1) simp
  finally have bound: "?k \<le> 3456000" by simp
  have k: "0 \<le> ?k" using p by (simp add: pos_imp_zdiv_nonneg_iff)
  let ?i = "nat ?k + 1"
  have "wc_max_run_ms config < (?k + 1) * wc_poll_ms config"
    using p(1) by (simp add: algebra_simps) (metis add.commute div_mult_mod_eq mult.commute pos_mod_bound add_strict_left_mono less_le_trans zero_less_numeral)
  moreover have "started + (?k + 1) * wc_poll_ms config \<le> readings ! ?i"
    using assms(2,3) k by (auto simp: algebra_simps dest!: spec [of _ ?i])
  ultimately have "readings ! ?i - started > wc_max_run_ms config" by simp
  moreover have "readings ! ?i \<in> set readings" using assms(3) by simp
  ultimately have "snd (run_rounds rt world config wid steps started readings r) \<noteq> None" for steps r
    using run_rounds_late by blast
  then have "snd (execute_workflow rt world wid raw raw_config started readings) \<noteq> None"
    using assms(1) by (auto simp: execute_workflow_def split: sum.splits prod.splits) (metis snd_conv option.distinct(1))
  with bound k show ?thesis by simp
qed

lemma workflow_run_ends_witness:
  "snd (execute_workflow example_rt (example_world\<lparr>ww_gateway := (\<lambda>calls. Inl ''refused'')\<rparr>) 5 ''w''
          example_workflow_config 0 (map (\<lambda>i. 100 * int i) [0..<12])) \<noteq> None"
proof -
  have c: "wc_max_run_ms example_workflow_config = 1000" "wc_poll_ms example_workflow_config = 100"
    by (simp_all add: example_workflow_config_def)
  show ?thesis
    using workflow_run_ends [OF example_config, of "map (\<lambda>i. 100 * int i) [0..<12]" 0] by (simp add: c)
qed

end
