(* ===== verification/WorkflowOutputs.thy ===== *)
theory WorkflowOutputs
  imports WorkflowTrace
begin

text \<open>
  Around the execution of a workflow: its declared outputs
  (\<open>workers/workflow-bun/src/declared-outputs.ts\<close>), the atomic write of its result
  (\<open>writeWorkflowResultAtomic\<close> of \<open>workflow-handler.ts\<close>), and the worker's configuration and handler
  (\<open>workers/workflow-bun/src/worker.ts\<close>).
\<close>

definition MAX_WORKFLOW_OUTPUTS :: nat where "MAX_WORKFLOW_OUTPUTS = 32"
definition MAX_WORKFLOW_OUTPUT_BYTES :: nat where "MAX_WORKFLOW_OUTPUT_BYTES = 131072"

definition SAFE_OUTPUT_NAME :: "string \<Rightarrow> bool" where
  "SAFE_OUTPUT_NAME s \<longleftrightarrow> rx_range (\<lambda>c. is_alnum c \<or> c \<in> set ''._:-'') 1 64 s"

definition FORBIDDEN_OUTPUT_NAMES :: "string list" where
  "FORBIDDEN_OUTPUT_NAMES = [''__proto__'', ''prototype'', ''constructor'']"

record declared_workflow =
  dw_steps :: "json option"
  dw_outputs :: "(string \<times> result_reference) list"

definition parse_output_reference :: "string \<Rightarrow> json \<Rightarrow> string list \<Rightarrow> wf_error + result_reference" where
  "parse_output_reference name raw step_ids =
     (if \<not> is_record raw then Inl (PayloadError (''workflow output '' @ name @ '' must be an exact result reference object''))
      else
     (case validate_result_reference_payload raw step_ids of
        Inl (ReferenceError message) \<Rightarrow> Inl (PayloadError (''workflow output '' @ name @ '': '' @ message))
      | Inl (ReadError message) \<Rightarrow> Inl (OtherFailure message)
      | Inl (OtherError message) \<Rightarrow> Inl (OtherFailure message)
      | Inr n \<Rightarrow>
          if n \<noteq> 1 \<or> field raw ''$from'' = None \<or> field raw ''path'' = None \<or> length (fields_of raw) \<noteq> 2
            then Inl (PayloadError (''workflow output '' @ name @ '' must contain exactly one $from/path reference''))
          else Inr (str_of (field raw ''$from''), str_of (field raw ''path''))))"

fun parse_outputs :: "string list \<Rightarrow> (string \<times> json) list \<Rightarrow> wf_error + (string \<times> result_reference) list" where
  "parse_outputs step_ids [] = Inr []"
| "parse_outputs step_ids ((name, raw) # entries) =
     (if \<not> SAFE_OUTPUT_NAME name \<or> name \<in> set FORBIDDEN_OUTPUT_NAMES
        then Inl (PayloadError (''workflow output name '' @ name @ '' is invalid''))
      else
        (case parse_output_reference name raw step_ids of
           Inl e \<Rightarrow> Inl e
         | Inr ref \<Rightarrow> map_sum id ((#) (name, ref)) (parse_outputs step_ids entries)))"

definition step_ids_of :: "json option \<Rightarrow> string list" where
  "step_ids_of steps =
     map (\<lambda>step. str_of (field step ''id'')) (filter (\<lambda>step. is_record step \<and> is_string (field step ''id'')) (arr_of steps))"

definition parse_declared_workflow :: "runtime \<Rightarrow> string \<Rightarrow> wf_error + declared_workflow" where
  "parse_declared_workflow rt raw =
     (case rt_json_parse rt raw of
        None \<Rightarrow> Inl (PayloadError ''workflow payload must be valid JSON'')
      | Some v \<Rightarrow>
          if \<not> is_record v then Inl (PayloadError ''workflow payload must be a JSON object'')
          else
     (case find (\<lambda>k. k \<noteq> ''steps'' \<and> k \<noteq> ''outputs'') (keys_of (fields_of v)) of
        Some key \<Rightarrow> Inl (PayloadError (''unsupported workflow field: '' @ key))
      | None \<Rightarrow>
     (let outputs_raw = (case field v ''outputs'' of None \<Rightarrow> JObj [] | Some JNull \<Rightarrow> JObj [] | Some x \<Rightarrow> x)
      in if \<not> is_record outputs_raw then Inl (PayloadError ''workflow.outputs must be a JSON object'')
         else if length (fields_of outputs_raw) > MAX_WORKFLOW_OUTPUTS
           then Inl (PayloadError ''workflow supports at most 32 declared outputs'')
         else map_sum id (\<lambda>outputs. \<lparr>dw_steps = field v ''steps'', dw_outputs = outputs\<rparr>)
                (parse_outputs (step_ids_of (field v ''steps'')) (fields_of outputs_raw)))))"

section \<open>Results with outputs\<close>

definition workflow_result_fields :: "workflow_result \<Rightarrow> (string \<times> json) list" where
  "workflow_result_fields result =
     [(''schema_version'', JInt 1), (''workflow_task_id'', JInt (wo_task_id result)), (''status'', JStr ''COMPLETED''),
      (''steps'', JArr (map (\<lambda>s. JObj [(''id'', JStr (sr_id s)), (''type'', JStr (sr_type s)),
                                      (''task_id'', JInt (sr_task_id s)), (''status'', JStr ''COMPLETED'')]) (wo_steps result)))]"

definition completed_step_task_ids :: "workflow_result \<Rightarrow> (string \<times> int) list" where
  "completed_step_task_ids result = fold (\<lambda>s m. map_set (sr_id s) (sr_task_id s) m) (wo_steps result) []"

definition reference_json :: "result_reference \<Rightarrow> json" where
  "reference_json ref = JObj [(''$from'', JStr (fst ref)), (''path'', JStr (snd ref))]"

definition resolve_declared_outputs ::
  "runtime \<Rightarrow> workflow_world \<Rightarrow> gateway_call list \<Rightarrow> workflow_config \<Rightarrow> (string \<times> result_reference) list
   \<Rightarrow> workflow_result \<Rightarrow> wf_error + json" where
  "resolve_declared_outputs rt world calls config declarations result =
     (if length declarations = 0 then Inr (JObj [])
      else
     (case resolve_result_references rt (JObj (map (\<lambda>(name, ref). (name, reference_json ref)) declarations))
             (completed_step_task_ids result)
             \<lparr>rc_origin = (case wc_result_origin config of None \<Rightarrow> ''http://127.0.0.1:7331'' | Some o' \<Rightarrow> o'),
              rc_timeout_ms = wc_timeout_ms config, rc_fetch = ww_results world calls, rc_decode = ww_decode world\<rparr> of
        Inl (ReferenceError message) \<Rightarrow> Inl (PayloadError (''workflow output declaration: '' @ message))
      | Inl (ReadError message) \<Rightarrow> Inl (ExecutionError (''workflow output resolution: '' @ message))
      | Inl (OtherError message) \<Rightarrow> Inl (OtherFailure message)
      | Inr resolved \<Rightarrow>
          if \<not> is_record resolved then Inl (ExecutionError ''resolved workflow outputs must be a JSON object'')
          else if byte_length (rt_json_text rt resolved) > MAX_WORKFLOW_OUTPUT_BYTES
            then Inl (ExecutionError ''resolved workflow outputs exceed 128 KiB'')
          else Inr resolved))"

definition execute_workflow_with_declared_outputs ::
  "runtime \<Rightarrow> workflow_world \<Rightarrow> int \<Rightarrow> string \<Rightarrow> workflow_config \<Rightarrow> int \<Rightarrow> int list
   \<Rightarrow> gateway_call list \<times> (wf_error + json) option" where
  "execute_workflow_with_declared_outputs rt world wid raw config started readings =
     (case parse_declared_workflow rt raw of
        Inl e \<Rightarrow> ([], Some (Inl e))
      | Inr declared \<Rightarrow>
     (case execute_workflow rt world wid
             (rt_json_text rt (JObj (case dw_steps declared of None \<Rightarrow> [] | Some v \<Rightarrow> [(''steps'', v)])))
             config started readings of
        (calls, None) \<Rightarrow> (calls, None)
      | (calls, Some (Inl e)) \<Rightarrow> (calls, Some (Inl e))
      | (calls, Some (Inr base)) \<Rightarrow>
          (calls, Some
            (case resolve_declared_outputs rt world calls config (dw_outputs declared) base of
               Inl e \<Rightarrow> Inl e
             | Inr outputs \<Rightarrow>
                 (let result = JObj (workflow_result_fields base @ [(''outputs'', outputs)])
                  in if byte_length (rt_json_text rt result) > MAX_RESOLVED_STEP_PAYLOAD_BYTES
                       then Inl (ExecutionError ''workflow result projection exceeds 256 KiB'')
                     else Inr result)))))"

definition classify_error :: "wf_error \<Rightarrow> string" where
  "classify_error e = (case e of PayloadError m \<Rightarrow> ''invalid_payload'' | ExecutionError m \<Rightarrow> ''processing_failed''
                       | OtherFailure m \<Rightarrow> ''processing_failed'')"

section \<open>Writing the result\<close>

text \<open>
  The file system as the files of the output directory by path. Each of the operations may fail with
  a message; a failed write may leave a part of the text behind, and a failure to remove the temporary file is swallowed. \<open>join\<close> of \<open>node:path\<close> and the random UUID
  are arguments.
\<close>

record write_faults =
  wf_mkdir :: "string option"
  wf_write :: "(string \<times> string option) option"
  wf_rename :: "string option"
  wf_rm :: "string option"

definition removed_temp :: "write_faults \<Rightarrow> string \<Rightarrow> (string \<rightharpoonup> string) \<Rightarrow> (string \<rightharpoonup> string)" where
  "removed_temp faults temp fs = (case wf_rm faults of None \<Rightarrow> fs(temp := None) | Some e \<Rightarrow> fs)"

definition final_path :: "(string \<Rightarrow> string \<Rightarrow> string) \<Rightarrow> string \<Rightarrow> int \<Rightarrow> string" where
  "final_path path_join dir wid = path_join dir (''task-'' @ int_text wid @ ''.json'')"

definition temp_path :: "(string \<Rightarrow> string \<Rightarrow> string) \<Rightarrow> string \<Rightarrow> int \<Rightarrow> string \<Rightarrow> string" where
  "temp_path path_join dir wid uuid = path_join dir (''.task-'' @ int_text wid @ ''.'' @ uuid @ ''.tmp'')"

definition write_workflow_result_atomic ::
  "(string \<Rightarrow> string \<Rightarrow> string) \<Rightarrow> string \<Rightarrow> write_faults \<Rightarrow> string \<Rightarrow> int \<Rightarrow> string \<Rightarrow> (string \<rightharpoonup> string)
   \<Rightarrow> (string \<rightharpoonup> string) \<times> (string + string)" where
  "write_workflow_result_atomic path_join uuid faults dir task_id json_text fs =
     (if length dir = 0 \<or> list_ex (\<lambda>c. unit_of c = 0) dir then (fs, Inl ''output directory is invalid'')
      else
     (case wf_mkdir faults of
        Some e \<Rightarrow> (fs, Inl e)
      | None \<Rightarrow>
     (let final = final_path path_join dir task_id; temp = temp_path path_join dir task_id uuid
      in if fs temp \<noteq> None then (removed_temp faults temp fs, Inl ''EEXIST'')
         else
     (case wf_write faults of
        Some (e, left) \<Rightarrow> (removed_temp faults temp (fs(temp := left)), Inl e)
      | None \<Rightarrow>
          (let written = fs(temp \<mapsto> json_text @ [char_of (10::nat)])
           in case wf_rename faults of
                Some e \<Rightarrow> (removed_temp faults temp written, Inl e)
              | None \<Rightarrow> (written(final := written temp, temp := None), Inr final))))))"

section \<open>The worker\<close>

text \<open>The environment is a partial function; \<open>Number\<close> of an environment value is the runtime's.\<close>

definition positive_integer :: "runtime \<Rightarrow> string option \<Rightarrow> int \<Rightarrow> string \<Rightarrow> int \<Rightarrow> string + int" where
  "positive_integer rt raw fallback name max_value =
     (case raw of
        None \<Rightarrow> Inr fallback
      | Some s \<Rightarrow>
          if length s = 0 then Inr fallback
          else
            (case rt_number rt s of
               None \<Rightarrow> Inl (name @ '' must be an integer between 1 and '' @ int_text max_value)
             | Some n \<Rightarrow>
                 if \<bar>n\<bar> > max_safe_integer \<or> n \<le> 0 \<or> n > max_value
                   then Inl (name @ '' must be an integer between 1 and '' @ int_text max_value)
                 else Inr n))"

record worker_config =
  wk_origin :: string
  wk_worker_id :: string
  wk_output_dir :: string
  wk_capacity :: int
  wk_poll_ms :: int
  wk_process_delay_ms :: int
  wk_timeout_ms :: int

definition or_default :: "string option \<Rightarrow> string \<Rightarrow> string" where
  "or_default v d = (case v of None \<Rightarrow> d | Some s \<Rightarrow> s)"

definition load_workflow_worker_config :: "runtime \<Rightarrow> (string \<rightharpoonup> string) \<Rightarrow> string + worker_config \<times> workflow_config" where
  "load_workflow_worker_config rt env =
     (let worker_id = or_default (env ''WORKFLOW_WORKER_ID'') ''workflow-reference-worker'';
          output_dir = or_default (env ''WORKFLOW_WORKER_OUTPUT_DIR'') ''./var/workflow-worker-results'';
          token = or_default (env ''WORKFLOW_GATEWAY_API_TOKEN'') []
      in
      if \<not> rx_range (\<lambda>c. is_alnum c \<or> c \<in> set ''._:-'') 1 128 worker_id
        then Inl ''WORKFLOW_WORKER_ID must be a safe 1-128 character identifier''
      else if length output_dir = 0 \<or> list_ex (\<lambda>c. unit_of c = 0) output_dir
        then Inl ''WORKFLOW_WORKER_OUTPUT_DIR is invalid''
      else if length token = 0 then Inl ''WORKFLOW_GATEWAY_API_TOKEN is required''
      else
     (case loopback_origin rt ''WORKFLOW_WORKER_ORIGIN'' (or_default (env ''WORKFLOW_WORKER_ORIGIN'') ''http://127.0.0.1:7332'') of
        Inl e \<Rightarrow> Inl e
      | Inr worker_origin \<Rightarrow>
     (case positive_integer rt (env ''WORKFLOW_WORKER_CAPACITY'') 1 ''WORKFLOW_WORKER_CAPACITY'' 16 of
        Inl e \<Rightarrow> Inl e
      | Inr capacity \<Rightarrow>
     (case positive_integer rt (env ''WORKFLOW_WORKER_POLL_MS'') 250 ''WORKFLOW_WORKER_POLL_MS'' 60000 of
        Inl e \<Rightarrow> Inl e
      | Inr worker_poll \<Rightarrow>
     (case positive_integer rt (env ''WORKFLOW_WORKER_REQUEST_TIMEOUT_MS'') 5000 ''WORKFLOW_WORKER_REQUEST_TIMEOUT_MS'' 60000 of
        Inl e \<Rightarrow> Inl e
      | Inr worker_timeout \<Rightarrow>
     (case loopback_origin rt ''WORKFLOW_GATEWAY_ORIGIN'' (or_default (env ''WORKFLOW_GATEWAY_ORIGIN'') ''http://127.0.0.1:3000'') of
        Inl e \<Rightarrow> Inl e
      | Inr origin \<Rightarrow>
     (case loopback_origin rt ''WORKFLOW_RESULT_ORIGIN'' (or_default (env ''WORKFLOW_RESULT_ORIGIN'') ''http://127.0.0.1:7331'') of
        Inl e \<Rightarrow> Inl e
      | Inr result_origin \<Rightarrow>
     (case positive_integer rt (env ''WORKFLOW_GATEWAY_REQUEST_TIMEOUT_MS'') 5000 ''WORKFLOW_GATEWAY_REQUEST_TIMEOUT_MS'' 60000 of
        Inl e \<Rightarrow> Inl e
      | Inr timeout \<Rightarrow>
     (case positive_integer rt (env ''WORKFLOW_POLL_MS'') 100 ''WORKFLOW_POLL_MS'' 60000 of
        Inl e \<Rightarrow> Inl e
      | Inr poll \<Rightarrow>
     (case positive_integer rt (env ''WORKFLOW_MAX_RUN_MS'') 600000 ''WORKFLOW_MAX_RUN_MS'' 86400000 of
        Inl e \<Rightarrow> Inl e
      | Inr max_run \<Rightarrow>
          Inr (\<lparr>wk_origin = worker_origin, wk_worker_id = worker_id, wk_output_dir = output_dir, wk_capacity = capacity,
                wk_poll_ms = worker_poll, wk_process_delay_ms = 0, wk_timeout_ms = worker_timeout\<rparr>,
               \<lparr>wc_origin = origin, wc_bearer_token = token, wc_timeout_ms = timeout, wc_poll_ms = poll,
                wc_max_run_ms = max_run, wc_result_origin = Some result_origin\<rparr>)))))))))))"

text \<open>
  The handler of a task: the run, then the write of its result. The result is also what the handler returns.
  The calls go through while the task's signal is not aborted; an abort is a rejected call.
\<close>

definition handle_workflow_task ::
  "runtime \<Rightarrow> workflow_world \<Rightarrow> (string \<Rightarrow> string \<Rightarrow> string) \<Rightarrow> string \<Rightarrow> write_faults \<Rightarrow> string \<Rightarrow> int \<Rightarrow> string
   \<Rightarrow> workflow_config \<Rightarrow> int \<Rightarrow> int list \<Rightarrow> (string \<rightharpoonup> string) \<Rightarrow> (string \<rightharpoonup> string) \<times> (wf_error + json) option" where
  "handle_workflow_task rt world path_join uuid faults dir wid payload config started readings fs =
     (case execute_workflow_with_declared_outputs rt world wid payload config started readings of
        (calls, None) \<Rightarrow> (fs, None)
      | (calls, Some (Inl e)) \<Rightarrow> (fs, Some (Inl e))
      | (calls, Some (Inr result)) \<Rightarrow>
          (case write_workflow_result_atomic path_join uuid faults dir wid (rt_json_text rt result) fs of
             (fs', Inl e) \<Rightarrow> (fs', Some (Inl (OtherFailure e)))
           | (fs', Inr path) \<Rightarrow> (fs', Some (Inr result))))"

section \<open>Declared outputs stay valid\<close>

lemma parse_reference_json:
  assumes "parse_reference raw = Inr (Some ref)"
  shows "parse_reference (reference_json ref) = Inr (Some ref)"
    and "ref = (str_of (field raw ''$from''), str_of (field raw ''path''))"
  using assms by (auto simp: parse_reference_def reference_json_def split: if_splits sum.splits)

lemma parse_output_reference_ok:
  assumes "parse_output_reference name raw ids = Inr ref"
  shows "parse_reference (reference_json ref) = Inr (Some ref)" and "fst ref \<in> set ids"
proof -
  from assms obtain ps where raw: "raw = JObj ps" and f: "field raw ''$from'' \<noteq> None"
    and w: "walk_references ids raw 0 0 = Inr 1"
    and ref: "ref = (str_of (field raw ''$from''), str_of (field raw ''path''))"
    by (auto simp: parse_output_reference_def validate_result_reference_payload_def is_record_iff
        split: if_splits sum.splits ref_failure.splits)
  have "parse_reference raw \<noteq> Inr None" using f by (auto simp: parse_reference_def split: if_splits sum.splits)
  with w raw obtain ref' where r: "parse_reference raw = Inr (Some ref')" and on: "on_reference ids ref' 0 = Inr 1"
    by (auto simp: walk_references.simps split: if_splits sum.splits option.splits)
  from parse_reference_json [OF r] ref on
  show "parse_reference (reference_json ref) = Inr (Some ref)" "fst ref \<in> set ids"
    by (auto simp: on_reference_def split: if_splits)
qed

lemma parse_outputs_ok:
  "parse_outputs ids entries = Inr outputs \<Longrightarrow>
   length outputs = length entries
   \<and> list_all (\<lambda>(name, ref). SAFE_OUTPUT_NAME name \<and> parse_reference (reference_json ref) = Inr (Some ref) \<and> fst ref \<in> set ids) outputs"
proof (induction ids entries arbitrary: outputs rule: parse_outputs.induct)
  case (2 ids name raw entries)
  then obtain ref rest where n: "SAFE_OUTPUT_NAME name" "name \<notin> set FORBIDDEN_OUTPUT_NAMES"
    and ref: "parse_output_reference name raw ids = Inr ref" and rest: "parse_outputs ids entries = Inr rest"
    and outputs: "outputs = (name, ref) # rest"
    by (auto simp: map_sum_def split: if_splits sum.splits)
  from "2.IH" [OF _ ref rest] parse_output_reference_ok [OF ref] n outputs show ?case by simp
qed simp

lemma walk_outputs:
  "list_all (\<lambda>(name, ref). parse_reference (reference_json ref) = Inr (Some ref) \<and> fst ref \<in> set allowed) outputs \<Longrightarrow>
   n + length outputs \<le> MAX_WORKFLOW_RESULT_REFERENCES \<Longrightarrow>
   walk_entries allowed (map (\<lambda>(name, ref). reference_json ref) outputs) 1 n = Inr (n + length outputs)"
proof (induction outputs arbitrary: n)
  case (Cons p outputs)
  obtain name ref where p: "p = (name, ref)" by (cases p)
  with Cons.prems have "parse_reference (reference_json ref) = Inr (Some ref)" "fst ref \<in> set allowed" by auto
  with Cons.prems(2) have "walk_references allowed (reference_json ref) 1 n = Inr (n + 1)"
    by (simp add: walk_references.simps reference_json_def on_reference_def MAX_REFERENCE_PAYLOAD_DEPTH_def)
  with Cons p show ?case by simp
qed simp

lemma validate_outputs:
  assumes "parse_outputs ids entries = Inr outputs" and "length entries \<le> MAX_WORKFLOW_OUTPUTS"
    and "set ids \<subseteq> set allowed"
  shows "validate_result_reference_payload (JObj (map (\<lambda>(name, ref). (name, reference_json ref)) outputs)) allowed
     = Inr (length outputs)"
proof -
  note ok = parse_outputs_ok [OF assms(1)]
  have "''$from'' \<notin> fst ` set outputs"
    using ok by (force simp: list_all_iff SAFE_OUTPUT_NAME_def rx_range_def is_alnum_def is_alpha_def is_digit_def between_def)
  then have "parse_reference (JObj (map (\<lambda>(name, ref). (name, reference_json ref)) outputs)) = Inr None"
    by (auto simp: parse_reference_def map_of_eq_None_iff image_image case_prod_unfold)
  moreover have "walk_entries allowed (map (\<lambda>(name, ref). reference_json ref) outputs) 1 0 = Inr (0 + length outputs)"
    using ok assms(2,3) by (intro walk_outputs) (auto simp: list_all_iff MAX_WORKFLOW_OUTPUTS_def MAX_WORKFLOW_RESULT_REFERENCES_def)
  ultimately show ?thesis
    by (simp add: validate_result_reference_payload_def walk_references.simps case_prod_unfold comp_def)
qed

lemma parse_workflow_steps_ids:
  "parse_workflow_steps index ids raws = Inr steps \<Longrightarrow> map ws_id steps = step_ids_of (Some (JArr raws))"
proof (induction index ids raws arbitrary: steps rule: parse_workflow_steps.induct)
  case (2 index ids raw raws)
  obtain step rest where step: "parse_workflow_step index ids raw = Inr step"
    and rest: "parse_workflow_steps (index + 1) (ids @ [ws_id step]) raws = Inr rest" "steps = step # rest"
    using "2.prems" by (auto simp: map_sum_def split: sum.splits)
  have "is_record raw \<and> is_string (field raw ''id'') \<and> ws_id step = str_of (field raw ''id'')"
    using step by (auto simp: parse_workflow_step_def Let_def split: if_splits sum.splits option.splits)
  with "2.IH" [OF step rest(1)] rest(2) show ?case by (simp add: step_ids_of_def)
qed (simp add: step_ids_of_def)

lemma parse_workflow_definition_ids:
  assumes "parse_workflow_definition rt raw = Inr steps" and "rt_json_parse rt raw = Some v"
  shows "map ws_id steps = step_ids_of (field v ''steps'')"
  using assms
  by (auto simp: parse_workflow_definition_def is_array_iff dest: parse_workflow_steps_ids
      split: if_splits option.splits sum.splits)

lemma completed_keys: "set (keys_of (completed_step_task_ids result)) = sr_id ` set (wo_steps result)"
proof -
  have "set (keys_of (fold (\<lambda>s m. map_set (sr_id s) (sr_task_id s) m) xs m)) = sr_id ` set xs \<union> set (keys_of m)" for xs :: "step_report list" and m
    by (induction xs arbitrary: m) (auto simp del: set_map)
  then show ?thesis by (simp add: completed_step_task_ids_def)
qed

lemma resolve_declared_outputs_error:
  assumes "parse_outputs ids entries = Inr outputs" and "length entries \<le> MAX_WORKFLOW_OUTPUTS"
    and "set ids \<subseteq> sr_id ` set (wo_steps result)"
  shows "resolve_declared_outputs rt world calls config outputs result \<noteq> Inl (PayloadError m)"
proof -
  have "set ids \<subseteq> set (keys_of (completed_step_task_ids result))" using assms(3) completed_keys by metis
  from validate_outputs [OF assms(1,2) this] show ?thesis
    by (auto simp: resolve_declared_outputs_def dest: resolve_validated_error
        split: if_splits sum.splits ref_failure.splits)
qed

lemma parse_declared_workflow_ok:
  assumes "parse_declared_workflow rt raw = Inr declared"
  shows "\<exists>entries. parse_outputs (step_ids_of (dw_steps declared)) entries = Inr (dw_outputs declared)
     \<and> length entries \<le> MAX_WORKFLOW_OUTPUTS"
proof -
  obtain v where v: "rt_json_parse rt raw = Some v"
    using assms by (cases "rt_json_parse rt raw") (auto simp: parse_declared_workflow_def)
  show ?thesis
    by (rule exI [of _ "fields_of (case field v ''outputs'' of None \<Rightarrow> JObj [] | Some JNull \<Rightarrow> JObj [] | Some x \<Rightarrow> x)"])
      (use assms v in \<open>auto simp: parse_declared_workflow_def Let_def map_sum_def split: if_splits option.splits sum.splits\<close>)
qed

text \<open>
  Declared outputs that parse stay valid: when a workflow with outputs ends in a payload error, either
  its steps did not parse or the gateway rejected one of them. The declarations were checked against the ids
  of the raw steps, and these are the ids of the steps the result reports. The runtime is taken to read
  back the text it prints for the steps.
\<close>

theorem declared_outputs_stay_valid:
  assumes "parse_declared_workflow rt raw = Inr declared"
    and "rt_json_parse rt (rt_json_text rt (JObj (case dw_steps declared of None \<Rightarrow> [] | Some v \<Rightarrow> [(''steps'', v)])))
           = Some (JObj (case dw_steps declared of None \<Rightarrow> [] | Some v \<Rightarrow> [(''steps'', v)]))"
    and "execute_workflow_with_declared_outputs rt world wid raw config started readings = (calls, Some (Inl (PayloadError m)))"
  shows "parse_workflow_definition rt (rt_json_text rt (JObj (case dw_steps declared of None \<Rightarrow> [] | Some v \<Rightarrow> [(''steps'', v)])))
           = Inl (PayloadError m)
     \<or> (\<exists>s. m = ''gateway rejected workflow step '' @ s)"
proof -
  let ?v = "JObj (case dw_steps declared of None \<Rightarrow> [] | Some v \<Rightarrow> [(''steps'', v)])"
  let ?raw = "rt_json_text rt ?v"
  note parsed = assms(2)
  obtain entries where entries: "parse_outputs (step_ids_of (dw_steps declared)) entries = Inr (dw_outputs declared)"
    "length entries \<le> MAX_WORKFLOW_OUTPUTS"
    using parse_declared_workflow_ok [OF assms(1)] by blast
  obtain out where run: "execute_workflow rt world wid ?raw config started readings = (calls, Some out)"
    using assms(1,3) by (auto simp: execute_workflow_with_declared_outputs_def split: prod.splits option.splits sum.splits)
  show ?thesis
  proof (cases "parse_workflow_definition rt ?raw")
    case (Inl e)
    with run assms(1,3) show ?thesis
      by (auto simp: execute_workflow_def execute_workflow_with_declared_outputs_def split: if_splits)
  next
    case (Inr steps)
    show ?thesis
    proof (cases out)
      case (Inl e)
      have e: "e = PayloadError m"
        using run assms(1,3) Inl by (simp add: execute_workflow_with_declared_outputs_def)
      obtain valid where "validate_workflow_gateway_config rt config = Inr valid"
        using run Inr Inl e by (cases "validate_workflow_gateway_config rt config")
          (auto simp: execute_workflow_def validate_workflow_gateway_config_def split: if_splits sum.splits)
      with execute_workflow_run [OF Inr _ run] Inl e show ?thesis by blast
    next
      case base: (Inr base)
      obtain valid where "validate_workflow_gateway_config rt config = Inr valid"
        using run Inr base by (cases "validate_workflow_gateway_config rt config") (auto simp: execute_workflow_def split: if_splits)
      with execute_workflow_run [OF Inr _ run] base have
        "list_all2 (\<lambda>step rep. sr_id rep = ws_id step) steps (wo_steps base)"
        by (auto elim: list_all2_mono)
      then have "map sr_id (wo_steps base) = map ws_id steps"
        by (induction rule: list_all2_induct) auto
      moreover have "map ws_id steps = step_ids_of (dw_steps declared)"
        using parse_workflow_definition_ids [OF Inr parsed] Inr parsed
        by (auto simp: parse_workflow_definition_def split: option.splits)
      ultimately have "set (step_ids_of (dw_steps declared)) \<subseteq> sr_id ` set (wo_steps base)"
        by (metis order_refl set_map)
      from resolve_declared_outputs_error [OF entries this] run base assms(1,3)
      show ?thesis
        by (auto simp: execute_workflow_with_declared_outputs_def Let_def split: sum.splits if_splits)
    qed
  qed
qed

lemma declared_outputs_stay_valid_witness:
  "\<exists>m s. snd (execute_workflow_with_declared_outputs example_rt
        (example_world\<lparr>ww_gateway := (\<lambda>calls. Inr (422, ''accepted''))\<rparr>) 5 ''w'' example_workflow_config 0 [0])
      = Some (Inl (PayloadError m)) \<and> m = ''gateway rejected workflow step '' @ s"
proof -
  let ?world = "example_world\<lparr>ww_gateway := (\<lambda>calls. Inr (422, ''accepted''))\<rparr>"
  let ?v = "arr_of (field example_workflow ''steps'')"
  let ?run = "execute_workflow_with_declared_outputs example_rt ?world 5 ''w'' example_workflow_config 0 [0]"
  have rt: "rt_json_parse example_rt ''w'' = Some example_workflow" "rt_json_text example_rt (JObj [(''steps'', v)]) = ''w''" for v
    by (simp_all add: example_gateway_runtime_def example_text_def example_result_def)
  have v: "JObj [(''steps'', JArr ?v)] = example_workflow" by (simp add: example_workflow_def)
  have declared: "parse_declared_workflow example_rt ''w'' = Inr \<lparr>dw_steps = Some (JArr ?v), dw_outputs = []\<rparr>"
    by (simp add: parse_declared_workflow_def rt) (simp add: example_workflow_def)
  note parsed = example_parse
  have enq: "enqueue_child example_rt ?world config calls wid (example_step s ds p) payload =
      (calls @ [enqueue_call example_rt config wid (example_step s ds p) payload],
       Inl (PayloadError (''gateway rejected workflow step '' @ s)))" for config calls wid s ds p payload
    by (simp add: enqueue_child_def gateway_json_def gateway_answer_def enqueue_answer_def example_step_def
        example_gateway_runtime_def)
  have res: "resolve_result_references example_rt JNull sources (result_config_of ?world calls example_workflow_config) = Inr JNull"
    for sources calls using example_payloads by (simp add: result_config_of_def)
  have "wc_max_run_ms example_workflow_config = 1000" by (simp add: example_workflow_config_def)
  moreover have "ws_id (example_step s ds p) = s" "ws_payload (example_step s ds p) = p" "ws_depends_on (example_step s ds p) = ds"
    for s ds p by (simp_all add: example_step_def)
  ultimately have run: "snd (execute_workflow example_rt ?world 5 ''w'' example_workflow_config 0 [0])
      = Some (Inl (PayloadError (''gateway rejected workflow step '' @ ''a'')))"
    by (simp add: execute_workflow_def parsed example_config max_safe_integer_def run_round_def initial_run_def
        resolve_step_payload_def available_ancestor_task_ids_def example_ancestors res enq step_ready_def)
  then have "snd ?run = Some (Inl (PayloadError (''gateway rejected workflow step '' @ ''a'')))"
    by (auto simp: execute_workflow_with_declared_outputs_def declared rt split: prod.splits)
  then obtain calls where "?run = (calls, Some (Inl (PayloadError (''gateway rejected workflow step '' @ ''a''))))"
    by (cases ?run) simp
  from declared_outputs_stay_valid [OF declared _ this] v parsed rt
  show ?thesis using \<open>snd ?run = _\<close> by auto
qed

text \<open>What a failed write leaves: all as before, but for the temporary file where its removal fails too.\<close>

definition unchanged_but_temp :: "write_faults \<Rightarrow> string \<Rightarrow> (string \<rightharpoonup> string) \<Rightarrow> (string \<rightharpoonup> string) \<Rightarrow> bool" where
  "unchanged_but_temp faults temp fs fs' \<longleftrightarrow> fs' = fs \<or> wf_rm faults \<noteq> None \<and> (\<exists>left. fs' = fs(temp := left))"

text \<open>
  The write of a result is atomic: on success the final path holds the whole text followed by a
  newline, on any failure it holds what it held before; no other file changes, and no temporary file stays unless its
  removal fails too.
\<close>

theorem result_write_atomic:
  assumes "\<And>a b. a \<noteq> b \<Longrightarrow> path_join dir a \<noteq> path_join dir b"
    and "fs (temp_path path_join dir wid uuid) = None"
    and "write_workflow_result_atomic path_join uuid faults dir wid txt fs = (fs', out)"
  shows "case out of
      Inl e \<Rightarrow> unchanged_but_temp faults (temp_path path_join dir wid uuid) fs fs'
    | Inr path \<Rightarrow> path = final_path path_join dir wid \<and> fs' = fs(path \<mapsto> txt @ [char_of (10::nat)])"
proof -
  let ?temp = "temp_path path_join dir wid uuid"
  let ?final = "final_path path_join dir wid"
  have ne: "?temp \<noteq> ?final" unfolding temp_path_def final_path_def by (rule assms(1)) simp
  have same: "fs(?temp := None) = fs" using assms(2) by (simp add: fun_upd_idem)
  have final: "fs(?temp \<mapsto> x, ?final \<mapsto> x, ?temp := None) = fs(?final \<mapsto> x)" for x
    using ne assms(2) by (auto simp: fun_eq_iff)
  show ?thesis
    using assms(2,3) same final
    by (cases "wf_mkdir faults"; cases "wf_write faults"; cases "wf_rename faults")
      (auto simp: write_workflow_result_atomic_def Let_def unchanged_but_temp_def removed_temp_def split: if_splits option.splits)
qed

lemma result_write_atomic_witness:
  "write_workflow_result_atomic (\<lambda>a b. a @ ''/'' @ b) ''u'' \<lparr>wf_mkdir = None, wf_write = None, wf_rename = Some ''EIO'', wf_rm = None\<rparr>
     ''out'' 5 ''{}'' (Map.empty(''out/task-5.json'' \<mapsto> ''old''))
   = (Map.empty(''out/task-5.json'' \<mapsto> ''old''), Inl ''EIO'')"
proof -
  let ?run = "write_workflow_result_atomic (\<lambda>a b. a @ ''/'' @ b) ''u'' \<lparr>wf_mkdir = None, wf_write = None, wf_rename = Some ''EIO'', wf_rm = None\<rparr>
     ''out'' 5 ''{}'' (Map.empty(''out/task-5.json'' \<mapsto> ''old''))"
  have "int_text 5 = ''5''" by code_simp
  moreover from this have "snd ?run = Inl ''EIO''" by (simp add: write_workflow_result_atomic_def Let_def temp_path_def final_path_def)
  ultimately show ?thesis
    using result_write_atomic [of "\<lambda>a b. a @ ''/'' @ b" "''out''" "Map.empty(''out/task-5.json'' \<mapsto> ''old'')" 5 "''u''"
        "\<lparr>wf_mkdir = None, wf_write = None, wf_rename = Some ''EIO'', wf_rm = None\<rparr>" "''{}''" "fst ?run" "snd ?run"]
    by (cases ?run) (simp add: temp_path_def unchanged_but_temp_def)
qed

end
