(* ===== verification/WorkflowApi.thy ===== *)
theory WorkflowApi
  imports Tasks WorkflowOutputs
begin

text \<open>
  The public workflow surface: creation, state, cancellation and result of a workflow
  (\<open>gateway/src/workflows.ts\<close>), and the result with declared outputs
  (\<open>gateway/src/workflow-results.ts\<close>). The handlers delegate to the task surface with a request of their
  own. The queue daemon gives the text of a body here: the task surface sees it parsed.
\<close>

type_synonym text_upstream = "upstream_call \<Rightarrow> (nat \<times> string) option"

definition json_upstream :: "runtime \<Rightarrow> text_upstream \<Rightarrow> upstream" where
  "json_upstream rt fetch c = map_option (\<lambda>(status, raw). (status, rt_json_parse rt raw)) (fetch c)"

definition MAX_WORKFLOW_RESULT_BYTES :: nat where "MAX_WORKFLOW_RESULT_BYTES = 262144"

section \<open>Delegation\<close>

definition parse_workflow_body :: "runtime \<Rightarrow> request \<Rightarrow> response + json" where
  "parse_workflow_body rt r =
     (if \<not> json_content_type r
        then Inl (error_response 415 ''unsupported_media_type'' ''content-type must be application/json'')
      else
        (case check_declared_length rt r MAX_PUBLIC_REQUEST_BYTES of
           LengthInvalid \<Rightarrow> Inl (error_response 400 ''invalid_content_length'' ''invalid content-length'')
         | LengthTooLarge \<Rightarrow> Inl (error_response 413 ''request_too_large'' ''request body exceeds 1 MiB'')
         | LengthOk \<Rightarrow>
             if byte_length (rq_body r) > MAX_PUBLIC_REQUEST_BYTES
               then Inl (error_response 413 ''request_too_large'' ''request body exceeds 1 MiB'')
             else
               (case rt_json_parse rt (rq_body r) of
                  None \<Rightarrow> Inl (error_response 400 ''invalid_json'' ''request body must contain valid JSON'')
                | Some v \<Rightarrow>
                    if \<not> is_record v
                      then Inl (error_response 400 ''invalid_workflow'' ''workflow body must be a JSON object'')
                    else Inr v)))"

definition copy_header :: "request \<Rightarrow> string \<Rightarrow> (string \<times> string) list" where
  "copy_header r name = (case header r name of None \<Rightarrow> [] | Some v \<Rightarrow> [(name, v)])"

definition facade_url :: "string \<Rightarrow> url" where
  "facade_url path =
     \<lparr>u_href = ''http://gateway.internal'' @ path, u_protocol = ''http:'', u_username = [], u_password = [],
      u_hostname = ''gateway.internal'', u_port = [], u_pathname = path, u_search = [], u_hash = [],
      u_origin = ''http://gateway.internal'', u_params = []\<rparr>"

definition task_facade_request :: "runtime \<Rightarrow> request \<Rightarrow> string \<Rightarrow> string \<Rightarrow> json option \<Rightarrow> request" where
  "task_facade_request rt source path verb v =
     \<lparr>rq_method = verb, rq_url = facade_url path,
      rq_headers = copy_header source ''authorization'' @ copy_header source ''idempotency-key''
        @ (if verb = ''POST'' then [(''content-type'', ''application/json'')] else []),
      rq_body = (case v of None \<Rightarrow> [] | Some w \<Rightarrow> rt_json_text rt w)\<rparr>"

text \<open>\<open>json()\<close> of a response this gateway has built: the value its body was printed from.\<close>

definition delegated_json :: "response \<Rightarrow> json option" where
  "delegated_json res = (case rs_body res of JsonBody v \<Rightarrow> Some v | NoBody \<Rightarrow> None | RawBody s \<Rightarrow> None)"

definition segment_of :: "string \<Rightarrow> string \<Rightarrow> string \<Rightarrow> string" where
  "segment_of prefix suffix path =
     (let rest = drop (length prefix) path in take (length rest - length suffix) rest)"

section \<open>Creation and state\<close>

definition handle_create_workflow ::
  "runtime \<Rightarrow> text_upstream \<Rightarrow> gateway_config \<Rightarrow> task_registry \<Rightarrow> rat \<Rightarrow> request \<Rightarrow> bucket \<Rightarrow> bucket \<times> response" where
  "handle_create_workflow rt fetch config registry now r b =
     (case parse_workflow_body rt r of
        Inl response \<Rightarrow> (b, response)
      | Inr workflow \<Rightarrow>
          (let (b', delegated) = handle_request rt (json_upstream rt fetch) config registry now
                 (task_facade_request rt r ''/v1/tasks'' ''POST''
                    (Some (JObj [(''type'', JStr ''workflow.run''), (''payload'', workflow)]))) b
           in (b',
             if rs_status delegated \<noteq> 202 then delegated
             else
               (case delegated_json delegated of
                  None \<Rightarrow> error_response 502 ''invalid_gateway_response'' ''task facade returned invalid JSON''
                | Some v \<Rightarrow>
                    if \<not> is_record v \<or> \<not> is_safe_integer (field v ''task_id'') \<or> int_of (field v ''task_id'') \<le> 0
                       \<or> field v ''status'' \<noteq> Some (JStr ''PENDING'') \<or> \<not> is_boolean (field v ''replayed'')
                      then error_response 502 ''invalid_gateway_response'' ''task facade returned invalid workflow state''
                    else
                      json_response_with
                        (JObj [(''workflow_id'', JInt (int_of (field v ''task_id''))), (''status'', JStr ''PENDING''),
                               (''replayed'', JBool (bool_of (field v ''replayed'')))]) 202
                        ([(''location'', ''/v1/workflows/'' @ int_text (int_of (field v ''task_id'')))]
                         @ (if map_of (rs_headers delegated) ''idempotency-replayed'' = Some ''true''
                              then [(''idempotency-replayed'', ''true'')] else []))))))"

definition WORKFLOW_STATUSES :: "string list" where
  "WORKFLOW_STATUSES = [''PENDING'', ''ASSIGNED'', ''RUNNING'', ''COMPLETED'', ''FAILED'', ''CANCELLED'']"

record workflow_snapshot =
  sn_workflow_id :: int
  sn_status :: string
  sn_retry_count :: "int option"
  sn_created_at :: json
  sn_updated_at :: json

definition or_null :: "json option \<Rightarrow> json" where
  "or_null v = (case v of None \<Rightarrow> JNull | Some w \<Rightarrow> w)"

definition workflow_not_found :: response where
  "workflow_not_found = error_response 404 ''workflow_not_found'' ''workflow not found''"

definition invalid_workflow_id :: response where
  "invalid_workflow_id = error_response 400 ''invalid_workflow_id'' ''workflow id must be a positive integer''"

definition snapshot_of :: "runtime \<Rightarrow> string \<Rightarrow> response \<Rightarrow> response + workflow_snapshot" where
  "snapshot_of rt id_text delegated =
     (if rs_status delegated = 404 then Inl workflow_not_found
      else if rs_status delegated \<noteq> 200 then Inl delegated
      else
        (case delegated_json delegated of
           None \<Rightarrow> Inl (error_response 502 ''invalid_gateway_response'' ''task facade returned invalid JSON'')
         | Some v \<Rightarrow>
             if \<not> is_record v \<or> field v ''task_name'' \<noteq> Some (JStr ''workflow.run'')
                \<or> field v ''task_type'' \<noteq> Some (JStr ''workflow'')
               then Inl workflow_not_found
             else if \<not> is_safe_integer (field v ''id'') \<or> Some (int_of (field v ''id'')) \<noteq> rt_number rt id_text
                     \<or> \<not> (is_string (field v ''status'') \<and> str_of (field v ''status'') \<in> set WORKFLOW_STATUSES)
               then Inl (error_response 502 ''invalid_gateway_response'' ''task facade returned invalid workflow state'')
             else Inr \<lparr>sn_workflow_id = int_of (field v ''id''), sn_status = str_of (field v ''status''),
                        sn_retry_count = (if is_safe_integer (field v ''retry_count'')
                                            then Some (int_of (field v ''retry_count'')) else None),
                        sn_created_at = or_null (field v ''created_at''),
                        sn_updated_at = or_null (field v ''updated_at'')\<rparr>))"

definition read_workflow_snapshot ::
  "runtime \<Rightarrow> text_upstream \<Rightarrow> gateway_config \<Rightarrow> task_registry \<Rightarrow> rat \<Rightarrow> request \<Rightarrow> string \<Rightarrow> bucket
   \<Rightarrow> bucket \<times> (response + workflow_snapshot)" where
  "read_workflow_snapshot rt fetch config registry now r id_text b =
     (if \<not> task_id_ok id_text then (b, Inl invalid_workflow_id)
      else
        (let (b', delegated) = handle_request rt (json_upstream rt fetch) config registry now
               (task_facade_request rt r (''/v1/tasks/'' @ id_text) ''GET'' None) b
         in (b', snapshot_of rt id_text delegated)))"

definition snapshot_json :: "workflow_snapshot \<Rightarrow> json" where
  "snapshot_json s =
     JObj [(''workflow_id'', JInt (sn_workflow_id s)), (''status'', JStr (sn_status s)),
           (''retry_count'', (case sn_retry_count s of None \<Rightarrow> JNull | Some n \<Rightarrow> JInt n)),
           (''created_at'', sn_created_at s), (''updated_at'', sn_updated_at s)]"

definition handle_get_workflow ::
  "runtime \<Rightarrow> text_upstream \<Rightarrow> gateway_config \<Rightarrow> task_registry \<Rightarrow> rat \<Rightarrow> request \<Rightarrow> string \<Rightarrow> bucket \<Rightarrow> bucket \<times> response" where
  "handle_get_workflow rt fetch config registry now r id_text b =
     (case read_workflow_snapshot rt fetch config registry now r id_text b of
        (b', Inl response) \<Rightarrow> (b', response)
      | (b', Inr s) \<Rightarrow> (b', json_response (snapshot_json s) 200))"

section \<open>Cancellation\<close>

definition queue_call :: "gateway_config \<Rightarrow> string \<Rightarrow> int \<Rightarrow> string \<Rightarrow> upstream_call" where
  "queue_call config verb wid action =
     \<lparr>uc_url = upstream_url config (''/v1/tasks/'' @ int_text wid @ action), uc_method = verb, uc_headers = [], uc_body = None\<rparr>"

definition cancel_answer :: "runtime \<Rightarrow> int \<Rightarrow> (nat \<times> string) option \<Rightarrow> response" where
  "cancel_answer rt wid answer =
     (case answer of
        None \<Rightarrow> queue_unavailable
      | Some (status, raw) \<Rightarrow>
          if status = 404 then workflow_not_found
          else if status = 409
            then error_response 409 ''workflow_not_cancellable''
                   ''workflow reached a terminal state before cancellation committed''
          else if status \<noteq> 200
            then error_response 502 ''queue_cancel_failed'' ''queue daemon rejected workflow cancellation''
          else
            (case rt_json_parse rt raw of
               None \<Rightarrow> error_response 502 ''invalid_queue_response'' ''queue daemon returned invalid cancellation JSON''
             | Some v \<Rightarrow>
                 if \<not> is_record v \<or> field v ''task_id'' \<noteq> Some (JInt wid) \<or> field v ''status'' \<noteq> Some (JStr ''CANCELLED'')
                    \<or> (field v ''cancellation'' \<noteq> Some (JStr ''applied'') \<and> field v ''cancellation'' \<noteq> Some (JStr ''replayed''))
                   then error_response 502 ''invalid_queue_response'' ''queue daemon returned invalid cancellation state''
                 else
                   json_response
                     (JObj [(''workflow_id'', JInt wid), (''status'', JStr ''CANCELLED''),
                            (''replayed'', JBool (field v ''cancellation'' = Some (JStr ''replayed'')))]) 200))"

definition handle_cancel_workflow ::
  "runtime \<Rightarrow> text_upstream \<Rightarrow> gateway_config \<Rightarrow> task_registry \<Rightarrow> rat \<Rightarrow> request \<Rightarrow> string \<Rightarrow> bucket \<Rightarrow> bucket \<times> response" where
  "handle_cancel_workflow rt fetch config registry now r id_text b =
     (case read_workflow_snapshot rt fetch config registry now r id_text b of
        (b', Inl response) \<Rightarrow> (b', response)
      | (b', Inr s) \<Rightarrow>
          (b',
           if sn_status s = ''CANCELLED''
             then json_response (JObj [(''workflow_id'', JInt (sn_workflow_id s)), (''status'', JStr ''CANCELLED''),
                                       (''replayed'', JBool True)]) 200
           else if sn_status s = ''COMPLETED'' \<or> sn_status s = ''FAILED''
             then error_response 409 ''workflow_not_cancellable''
                    (''workflow is already terminal with status '' @ sn_status s)
           else cancel_answer rt (sn_workflow_id s) (fetch (queue_call config ''POST'' (sn_workflow_id s) ''/cancel''))))"

section \<open>Results\<close>

text \<open>
  The wrapper the queue daemon keeps a result in, and the fields of a result. Both modules have their copy
  of these checks; they differ in the keys allowed and in the outputs.
\<close>

definition wrapped_projection :: "runtime \<Rightarrow> int option \<Rightarrow> json \<Rightarrow> json option" where
  "wrapped_projection rt wid w =
     (if \<not> is_record w \<or> wid = None \<or> field w ''task_id'' \<noteq> map_option JInt wid \<or> \<not> is_string (field w ''result_json'')
         \<or> \<not> is_safe_integer (field w ''result_bytes'') \<or> int_of (field w ''result_bytes'') < 0
         \<or> int_of (field w ''result_bytes'') > int MAX_WORKFLOW_RESULT_BYTES
         \<or> int (byte_length (str_of (field w ''result_json''))) \<noteq> int_of (field w ''result_bytes'')
        then None
      else
        (case rt_json_parse rt (str_of (field w ''result_json'')) of
           None \<Rightarrow> None
         | Some p \<Rightarrow> if is_record p then Some p else None))"

definition projected_step :: "json \<Rightarrow> json option" where
  "projected_step raw =
     (if \<not> is_record raw \<or> \<not> exact_keys raw [''id'', ''type'', ''task_id'', ''status'']
         \<or> \<not> is_string (field raw ''id'') \<or> \<not> safe_step_id (str_of (field raw ''id''))
         \<or> \<not> is_string (field raw ''type'') \<or> \<not> SAFE_TASK_TYPE (str_of (field raw ''type''))
         \<or> \<not> is_safe_integer (field raw ''task_id'') \<or> int_of (field raw ''task_id'') \<le> 0
         \<or> field raw ''status'' \<noteq> Some (JStr ''COMPLETED'')
        then None
      else Some (JObj [(''id'', JStr (str_of (field raw ''id''))), (''type'', JStr (str_of (field raw ''type''))),
                       (''task_id'', JInt (int_of (field raw ''task_id''))), (''status'', JStr ''COMPLETED'')]))"

fun projected_steps :: "json list \<Rightarrow> json list option" where
  "projected_steps [] = Some []"
| "projected_steps (raw # raws) =
     (case projected_step raw of
        None \<Rightarrow> None
      | Some s \<Rightarrow> map_option ((#) s) (projected_steps raws))"

definition projection_ok :: "string list \<Rightarrow> int \<Rightarrow> json \<Rightarrow> bool" where
  "projection_ok allowed wid p \<longleftrightarrow>
     exact_keys p allowed \<and> field p ''schema_version'' = Some (JInt 1) \<and> field p ''workflow_task_id'' = Some (JInt wid)
     \<and> field p ''status'' = Some (JStr ''COMPLETED'') \<and> is_array (field p ''steps'')
     \<and> length (arr_of (field p ''steps'')) \<noteq> 0 \<and> length (arr_of (field p ''steps'')) \<le> MAX_WORKFLOW_STEPS"

definition public_fields :: "int \<Rightarrow> json list \<Rightarrow> (string \<times> json) list" where
  "public_fields wid steps =
     [(''schema_version'', JInt 1), (''workflow_id'', JInt wid), (''status'', JStr ''COMPLETED''), (''steps'', JArr steps)]"

definition public_workflow_projection :: "runtime \<Rightarrow> int \<Rightarrow> json \<Rightarrow> json option" where
  "public_workflow_projection rt wid w =
     (case wrapped_projection rt (Some wid) w of
        None \<Rightarrow> None
      | Some p \<Rightarrow>
          if \<not> projection_ok [''schema_version'', ''workflow_task_id'', ''status'', ''steps''] wid p then None
          else map_option (\<lambda>steps. JObj (public_fields wid steps)) (projected_steps (arr_of (field p ''steps''))))"

definition validate_outputs :: "runtime \<Rightarrow> json \<Rightarrow> json option" where
  "validate_outputs rt v =
     (if \<not> is_record v then None
      else if length (fields_of v) > MAX_WORKFLOW_OUTPUTS then None
      else if list_ex (\<lambda>name. \<not> SAFE_OUTPUT_NAME name \<or> name \<in> set FORBIDDEN_OUTPUT_NAMES) (keys_of (fields_of v)) then None
      else if byte_length (rt_json_text rt v) > MAX_WORKFLOW_OUTPUT_BYTES then None
      else Some v)"

definition public_projection :: "runtime \<Rightarrow> int option \<Rightarrow> json \<Rightarrow> json option" where
  "public_projection rt wid w =
     (case wrapped_projection rt wid w of
        None \<Rightarrow> None
      | Some p \<Rightarrow>
          if \<not> projection_ok ([''schema_version'', ''workflow_task_id'', ''status'', ''steps'']
                  @ (if field p ''outputs'' \<noteq> None then [''outputs''] else [])) (the wid) p then None
          else
            (case projected_steps (arr_of (field p ''steps'')) of
               None \<Rightarrow> None
             | Some steps \<Rightarrow>
                 (case (case field p ''outputs'' of None \<Rightarrow> Some (JObj []) | Some v \<Rightarrow> validate_outputs rt v) of
                    None \<Rightarrow> None
                  | Some outputs \<Rightarrow> Some (JObj (public_fields (the wid) steps @ [(''outputs'', outputs)])))))"

definition result_answer :: "runtime \<Rightarrow> (json \<Rightarrow> json option) \<Rightarrow> (nat \<times> string) option \<Rightarrow> response" where
  "result_answer rt project answer =
     (case answer of
        None \<Rightarrow> queue_unavailable
      | Some (status, raw) \<Rightarrow>
          if status = 404
            then error_response 502 ''workflow_result_unavailable'' ''completed workflow has no result projection''
          else if status \<noteq> 200
            then error_response 502 ''queue_query_failed'' ''queue daemon could not return workflow result''
          else if byte_length raw > MAX_PUBLIC_REQUEST_BYTES
            then error_response 502 ''invalid_queue_response'' ''workflow result wrapper exceeds bounded size''
          else
            (case rt_json_parse rt raw of
               None \<Rightarrow> error_response 502 ''invalid_queue_response'' ''queue daemon returned invalid result JSON''
             | Some w \<Rightarrow>
                 (case project w of
                    None \<Rightarrow> error_response 502 ''invalid_queue_response'' ''queue daemon returned invalid workflow projection''
                  | Some v \<Rightarrow> json_response v 200)))"

definition handle_get_workflow_result ::
  "runtime \<Rightarrow> text_upstream \<Rightarrow> gateway_config \<Rightarrow> task_registry \<Rightarrow> rat \<Rightarrow> request \<Rightarrow> string \<Rightarrow> bucket \<Rightarrow> bucket \<times> response" where
  "handle_get_workflow_result rt fetch config registry now r id_text b =
     (case read_workflow_snapshot rt fetch config registry now r id_text b of
        (b', Inl response) \<Rightarrow> (b', response)
      | (b', Inr s) \<Rightarrow>
          (b',
           if sn_status s \<noteq> ''COMPLETED''
             then error_response 409 ''workflow_not_completed''
                    (''workflow result is unavailable while status is '' @ sn_status s)
           else result_answer rt (public_workflow_projection rt (sn_workflow_id s))
                  (fetch (queue_call config ''GET'' (sn_workflow_id s) ''/result''))))"

text \<open>\<open>String\<close> of a parsed value.\<close>

function js_string :: "json \<Rightarrow> string" where
  "js_string JNull = ''null''"
| "js_string (JBool x) = (if x then ''true'' else ''false'')"
| "js_string (JInt i) = int_text i"
| "js_string (JNonInt s) = s"
| "js_string (JStr s) = s"
| "js_string (JArr vs) = join '','' (map (\<lambda>v. if v = JNull then [] else js_string v) vs)"
| "js_string (JObj ps) = ''[object Object]''"
  by pat_completeness auto
termination by (relation "measure size") (auto simp: less_Suc_eq_le size_list_estimation')

definition handle_result ::
  "runtime \<Rightarrow> text_upstream \<Rightarrow> gateway_config \<Rightarrow> task_registry \<Rightarrow> rat \<Rightarrow> request \<Rightarrow> string \<Rightarrow> bucket \<Rightarrow> bucket \<times> response" where
  "handle_result rt fetch config registry now r id_text b =
     (if \<not> task_id_ok id_text then (b, invalid_workflow_id)
      else
        (let (b', delegated) = handle_request rt (json_upstream rt fetch) config registry now
               \<lparr>rq_method = ''GET'', rq_url = facade_url (''/v1/tasks/'' @ id_text),
                rq_headers = copy_header r ''authorization'', rq_body = []\<rparr> b
         in (b',
           if rs_status delegated = 404 then workflow_not_found
           else if rs_status delegated \<noteq> 200 then delegated
           else
             (case delegated_json delegated of
                None \<Rightarrow> error_response 502 ''invalid_gateway_response'' ''task facade returned invalid JSON''
              | Some v \<Rightarrow>
                  if \<not> is_record v \<or> field v ''task_name'' \<noteq> Some (JStr ''workflow.run'')
                     \<or> field v ''task_type'' \<noteq> Some (JStr ''workflow'')
                     \<or> rt_number rt id_text = None \<or> field v ''id'' \<noteq> map_option JInt (rt_number rt id_text)
                    then workflow_not_found
                  else if field v ''status'' \<noteq> Some (JStr ''COMPLETED'')
                    then error_response 409 ''workflow_not_completed''
                           (''workflow result is unavailable while status is '' @ js_string (the (field v ''status'')))
                  else result_answer rt (public_projection rt (rt_number rt id_text))
                         (fetch \<lparr>uc_url = upstream_url config (''/v1/tasks/'' @ id_text @ ''/result''), uc_method = ''GET'',
                                 uc_headers = [], uc_body = None\<rparr>)))))"

section \<open>The routes\<close>

definition method_not_allowed :: "string \<Rightarrow> response" where
  "method_not_allowed verb = error_response 405 ''method_not_allowed'' (verb @ '' required'')"

definition handle_declared_workflow_result_request ::
  "runtime \<Rightarrow> text_upstream \<Rightarrow> gateway_config \<Rightarrow> task_registry \<Rightarrow> rat \<Rightarrow> request \<Rightarrow> bucket \<Rightarrow> bucket \<times> response option" where
  "handle_declared_workflow_result_request rt fetch config registry now r b =
     (let path = u_pathname (rq_url r)
      in if \<not> mid_segment ''/v1/workflows/'' ''/result'' path then (b, None)
         else if rq_method r = ''GET''
           then map_prod id Some (handle_result rt fetch config registry now r (segment_of ''/v1/workflows/'' ''/result'' path) b)
         else (b, Some (method_not_allowed ''GET'')))"

definition handle_public_workflow_request ::
  "runtime \<Rightarrow> text_upstream \<Rightarrow> gateway_config \<Rightarrow> task_registry \<Rightarrow> rat \<Rightarrow> request \<Rightarrow> bucket \<Rightarrow> bucket \<times> response option" where
  "handle_public_workflow_request rt fetch config registry now r b =
     (let path = u_pathname (rq_url r);
          on = (\<lambda>verb handler. if rq_method r = verb then map_prod id Some handler else (b, Some (method_not_allowed verb)))
      in if path = ''/v1/workflows'' then on ''POST'' (handle_create_workflow rt fetch config registry now r b)
         else if mid_segment ''/v1/workflows/'' ''/cancel'' path
           then on ''POST'' (handle_cancel_workflow rt fetch config registry now r (segment_of ''/v1/workflows/'' ''/cancel'' path) b)
         else if mid_segment ''/v1/workflows/'' ''/result'' path
           then on ''GET'' (handle_get_workflow_result rt fetch config registry now r (segment_of ''/v1/workflows/'' ''/result'' path) b)
         else if mid_segment ''/v1/workflows/'' '''' path
           then on ''GET'' (handle_get_workflow rt fetch config registry now r (segment_of ''/v1/workflows/'' '''' path) b)
         else (b, None))"

section \<open>What the worker writes is what the gateway publishes\<close>

definition stored_result :: "runtime \<Rightarrow> int \<Rightarrow> json \<Rightarrow> json" where
  "stored_result rt wid result =
     JObj [(''task_id'', JInt wid), (''result_json'', JStr (rt_json_text rt result)),
           (''result_bytes'', JInt (int (byte_length (rt_json_text rt result))))]"

definition step_json :: "step_report \<Rightarrow> json" where
  "step_json s = JObj [(''id'', JStr (sr_id s)), (''type'', JStr (sr_type s)),
                       (''task_id'', JInt (sr_task_id s)), (''status'', JStr ''COMPLETED'')]"

lemma workflow_result_fields_eq:
  "workflow_result_fields result =
     [(''schema_version'', JInt 1), (''workflow_task_id'', JInt (wo_task_id result)), (''status'', JStr ''COMPLETED''),
      (''steps'', JArr (map step_json (wo_steps result)))]"
  by (simp add: workflow_result_fields_def step_json_def [abs_def])

definition report_ok :: "step_report \<Rightarrow> bool" where
  "report_ok s \<longleftrightarrow> SAFE_ID (sr_id s) \<and> SAFE_TASK_TYPE (sr_type s) \<and> 0 < sr_task_id s \<and> sr_task_id s \<le> max_safe_integer"

lemma projected_step_json: "report_ok s \<Longrightarrow> projected_step (step_json s) = Some (step_json s)"
  by (simp add: projected_step_def step_json_def report_ok_def safe_step_id_def SAFE_ID_def exact_keys_def)

lemma projected_steps_json:
  "list_all report_ok ss \<Longrightarrow> projected_steps (map step_json ss) = Some (map step_json ss)"
  by (induction ss) (simp_all add: projected_step_json)

lemma enqueue_answer_task_id: "enqueue_answer s answer = Inr t \<Longrightarrow> 0 < t \<and> t \<le> max_safe_integer"
  by (cases answer) (auto simp: enqueue_answer_def is_safe_integer_iff split: if_splits)

lemma child_done_task_id:
  assumes "child_done rt world config wid calls step t"
  shows "0 < t \<and> t \<le> max_safe_integer"
proof -
  from assms obtain i where "accepted_at rt world wid calls step t i" by (auto simp: child_done_def)
  then obtain a where "enqueue_answer (ws_id step) a = Inr t" by (auto simp: accepted_at_def split: sum.splits)
  then show ?thesis by (rule enqueue_answer_task_id)
qed

lemma execute_workflow_reports:
  assumes "execute_workflow rt world wid raw raw_config started readings = (calls, Some (Inr base))"
  shows "wo_task_id base = wid" and "list_all report_ok (wo_steps base)"
    and "wo_steps base \<noteq> []" and "length (wo_steps base) \<le> MAX_WORKFLOW_STEPS"
proof -
  obtain steps config where steps: "parse_workflow_definition rt raw = Inr steps"
    and "validate_workflow_gateway_config rt raw_config = Inr config"
    using assms by (auto simp: execute_workflow_def split: if_splits sum.splits)
  from execute_workflow_run [OF this assms] have wid: "wo_task_id base = wid"
    and all: "list_all2 (\<lambda>step rep. sr_id rep = ws_id step \<and> sr_type rep = ws_type step
        \<and> child_done rt world config wid calls step (sr_task_id rep)) steps (wo_steps base)" by auto
  note ok = parse_workflow_definition_ok [OF steps]
  have "list_all step_ok steps" using ok(1) by (simp add: workflow_ok_def)
  with all have "list_all report_ok (wo_steps base)"
    by (induction rule: list_all2_induct) (auto simp: report_ok_def step_ok_def dest: child_done_task_id)
  with wid ok(2,3) list_all2_lengthD [OF all]
  show "wo_task_id base = wid" "list_all report_ok (wo_steps base)" "wo_steps base \<noteq> []"
    "length (wo_steps base) \<le> MAX_WORKFLOW_STEPS" by auto
qed

lemma outputs_no_reference:
  assumes "parse_outputs ids entries = Inr outputs"
  shows "parse_reference (JObj (map (\<lambda>(name, ref). (name, reference_json ref)) outputs)) = Inr None"
proof -
  have "''$from'' \<notin> fst ` set outputs"
    using parse_outputs_ok [OF assms]
    by (force simp: list_all_iff SAFE_OUTPUT_NAME_def rx_range_def is_alnum_def is_alpha_def is_digit_def between_def)
  then show ?thesis by (auto simp: parse_reference_def map_of_eq_None_iff image_image case_prod_unfold)
qed

lemma parse_outputs_names:
  "parse_outputs ids entries = Inr outputs \<Longrightarrow>
   list_all (\<lambda>(name, ref). SAFE_OUTPUT_NAME name \<and> name \<notin> set FORBIDDEN_OUTPUT_NAMES) outputs"
  by (induction ids entries arbitrary: outputs rule: parse_outputs.induct)
    (auto simp: map_sum_def split: if_splits sum.splits)

lemma resolve_value_object:
  assumes "resolve_value rt config sources (JObj ps) depth st = Inr (st', v)" and "parse_reference (JObj ps) = Inr None"
  shows "\<exists>ws. v = assigned (map fst ps) ws"
  using assms by (auto simp: resolve_value.simps split: if_splits sum.splits)

lemma assigned_fields:
  "length (fields_of (assigned keys ws)) \<le> length keys" "set (keys_of (fields_of (assigned keys ws))) \<subseteq> set keys"
  by (auto simp: assigned_def dest: set_zip_leftD intro: order_trans [OF length_filter_le])

lemma resolved_outputs_valid:
  assumes "parse_outputs ids entries = Inr outputs" and "length entries \<le> MAX_WORKFLOW_OUTPUTS"
    and "resolve_declared_outputs rt world calls config outputs result = Inr v"
    and "rt_json_text rt (JObj []) = ''{}''"
  shows "validate_outputs rt v = Some v"
proof (cases "outputs = []")
  case True
  then have "v = JObj []" using assms(3) by (simp add: resolve_declared_outputs_def)
  then show ?thesis using assms(4) by (simp add: validate_outputs_def MAX_WORKFLOW_OUTPUT_BYTES_def)
next
  case False
  let ?ps = "map (\<lambda>(name, ref). (name, reference_json ref)) outputs"
  from False assms(3) have rec: "is_record v" and bytes: "byte_length (rt_json_text rt v) \<le> MAX_WORKFLOW_OUTPUT_BYTES"
    by (auto simp: resolve_declared_outputs_def split: sum.splits ref_failure.splits if_splits)
  obtain rc where "resolve_result_references rt (JObj ?ps) (completed_step_task_ids result) rc = Inr v"
    using False assms(3) by (auto simp: resolve_declared_outputs_def split: sum.splits ref_failure.splits if_splits)
  then obtain rc' st where "resolve_value rt rc' (completed_step_task_ids result) (JObj ?ps) 0 (0, []) = Inr (st, v)"
    by (auto simp: resolve_result_references_def Let_def split: sum.splits if_splits)
  from resolve_value_object [OF this outputs_no_reference [OF assms(1)]] obtain ws where v: "v = assigned (map fst ?ps) ws" by blast
  have "map fst ?ps = map fst outputs" by auto
  with v assigned_fields [of "map fst ?ps" ws] have
    "length (fields_of v) \<le> length outputs" and keys: "set (keys_of (fields_of v)) \<subseteq> fst ` set outputs" by auto
  moreover have "list_all (\<lambda>name. SAFE_OUTPUT_NAME name \<and> name \<notin> set FORBIDDEN_OUTPUT_NAMES) (keys_of (fields_of v))"
    using keys parse_outputs_names [OF assms(1)] by (fastforce simp: list_all_iff)
  ultimately show ?thesis
    using rec bytes parse_outputs_ok [OF assms(1)] assms(2) by (auto simp: validate_outputs_def list_all_iff list_ex_iff)
qed

text \<open>
  C28. What the worker writes is what the gateway publishes: the result of a finished workflow, kept as text
  by the queue, passes every check of the gateway's projection, and the public result has the same
  steps and outputs under the workflow's id. The projection of the older handler, which allows no outputs,
  refuses every such result; its route is answered before it by the handler for declared outputs.
\<close>

theorem workflow_result_published:
  assumes "execute_workflow_with_declared_outputs rt world wid raw config started readings = (calls, Some (Inr result))"
    and "rt_json_parse rt (rt_json_text rt result) = Some result" and "rt_json_text rt (JObj []) = ''{}''"
  shows "\<exists>steps outputs. field result ''steps'' = Some (JArr steps) \<and> field result ''outputs'' = Some outputs
     \<and> public_projection rt (Some wid) (stored_result rt wid result)
         = Some (JObj [(''schema_version'', JInt 1), (''workflow_id'', JInt wid), (''status'', JStr ''COMPLETED''),
                       (''steps'', JArr steps), (''outputs'', outputs)])
     \<and> public_workflow_projection rt wid (stored_result rt wid result) = None"
proof -
  from assms(1) obtain declared where declared: "parse_declared_workflow rt raw = Inr declared"
    by (cases "parse_declared_workflow rt raw") (auto simp: execute_workflow_with_declared_outputs_def)
  let ?text = "rt_json_text rt (JObj (case dw_steps declared of None \<Rightarrow> [] | Some v \<Rightarrow> [(''steps'', v)]))"
  from assms(1) declared obtain base outputs where
    base: "execute_workflow rt world wid ?text config started readings = (calls, Some (Inr base))"
    and outputs: "resolve_declared_outputs rt world calls config (dw_outputs declared) base = Inr outputs"
    and result: "result = JObj (workflow_result_fields base @ [(''outputs'', outputs)])"
    and bytes: "byte_length (rt_json_text rt result) \<le> MAX_RESOLVED_STEP_PAYLOAD_BYTES"
    by (auto simp: execute_workflow_with_declared_outputs_def Let_def
        split: prod.splits option.splits sum.splits if_splits)
  note base = execute_workflow_reports [OF base]
  obtain entries where "parse_outputs (step_ids_of (dw_steps declared)) entries = Inr (dw_outputs declared)"
    "length entries \<le> MAX_WORKFLOW_OUTPUTS" using parse_declared_workflow_ok [OF declared] by blast
  from resolved_outputs_valid [OF this outputs assms(3)] have valid: "validate_outputs rt outputs = Some outputs" .
  have wrapped: "wrapped_projection rt (Some wid) (stored_result rt wid result) = Some result"
    using bytes assms(2) by (simp add: wrapped_projection_def stored_result_def result MAX_WORKFLOW_RESULT_BYTES_def
        MAX_RESOLVED_STEP_PAYLOAD_BYTES_def max_safe_integer_def)
  have f: "result = JObj [(''schema_version'', JInt 1), (''workflow_task_id'', JInt wid), (''status'', JStr ''COMPLETED''),
      (''steps'', JArr (map step_json (wo_steps base))), (''outputs'', outputs)]"
    by (simp add: result workflow_result_fields_eq base(1))
  have "projection_ok [''schema_version'', ''workflow_task_id'', ''status'', ''steps'', ''outputs''] wid result"
    using base(3,4) by (simp add: projection_ok_def f exact_keys_def)
  moreover have "\<not> projection_ok [''schema_version'', ''workflow_task_id'', ''status'', ''steps''] wid result"
    by (simp add: projection_ok_def f exact_keys_def)
  moreover have "field result ''outputs'' = Some outputs" "field result ''steps'' = Some (JArr (map step_json (wo_steps base)))"
    by (simp_all add: f)
  ultimately show ?thesis
    using wrapped valid projected_steps_json [OF base(2)]
    by (simp add: public_projection_def public_workflow_projection_def public_fields_def)
qed

lemma workflow_result_published_witness:
  "public_projection example_rt (Some 5) (stored_result example_rt 5 example_result)
     = Some (JObj [(''schema_version'', JInt 1), (''workflow_id'', JInt 5), (''status'', JStr ''COMPLETED''),
         (''steps'', the (field example_result ''steps'')), (''outputs'', the (field example_result ''outputs''))])"
proof -
  have rt: "rt_json_parse example_rt ''w'' = Some example_workflow" "rt_json_text example_rt (JObj [(''steps'', v)]) = ''w''"
    "rt_json_text example_rt (JObj []) = ''{}''" "rt_json_text example_rt example_result = ''result''"
    "rt_json_parse example_rt ''result'' = Some example_result" for v
    by (simp_all add: example_gateway_runtime_def example_text_def example_result_def)
  have declared: "parse_declared_workflow example_rt ''w''
      = Inr \<lparr>dw_steps = Some (JArr (arr_of (field example_workflow ''steps''))), dw_outputs = []\<rparr>"
    by (simp add: parse_declared_workflow_def rt) (simp add: example_workflow_def)
  have "JObj (workflow_result_fields \<lparr>wo_task_id = 5, wo_steps =
        [\<lparr>sr_id = ''a'', sr_type = ''system.ping'', sr_task_id = 7\<rparr>,
         \<lparr>sr_id = ''b'', sr_type = ''system.ping'', sr_task_id = 7\<rparr>]\<rparr> @ [(''outputs'', JObj [])]) = example_result"
    by (simp add: workflow_result_fields_def example_result_def)
  then have "snd (execute_workflow_with_declared_outputs example_rt example_world 5 ''w'' example_workflow_config 0 [0, 100, 200])
      = Some (Inr example_result)"
    by (simp add: execute_workflow_with_declared_outputs_def declared rt example_run resolve_declared_outputs_def Let_def
        MAX_RESOLVED_STEP_PAYLOAD_BYTES_def)
  then obtain calls where
    "execute_workflow_with_declared_outputs example_rt example_world 5 ''w'' example_workflow_config 0 [0, 100, 200]
       = (calls, Some (Inr example_result))" by (metis prod.collapse)
  from workflow_result_published [OF this] rt show ?thesis by auto
qed

end
