(* ===== verification/ConfigLoad.thy ===== *)
theory ConfigLoad
  imports Config Decimal OAuthValidation
begin

text \<open>
  Loading the gateway's configuration from the environment (\<open>gateway/src/config.ts\<close>) and the
  pre-registered OAuth client (\<open>gateway/src/oauth-public-client-policy.ts\<close>). The environment is a partial
  function; an \<open>Error\<close> thrown is the left value. The functions of \<open>node:path\<close>'s \<open>posix\<close> are written out
  for the absolute paths they are given here.
\<close>

section \<open>Paths\<close>

text \<open>The segments of an absolute path with \<open>.\<close> and \<open>..\<close> resolved.\<close>

fun resolve_segments :: "string list \<Rightarrow> string list \<Rightarrow> string list" where
  "resolve_segments [] acc = rev acc"
| "resolve_segments (s # ss) acc =
     (if s = [] \<or> s = ''.'' then resolve_segments ss acc
      else if s = ''..'' then resolve_segments ss (tl acc)
      else resolve_segments ss (s # acc))"

definition path_segments :: "string \<Rightarrow> string list" where
  "path_segments path = resolve_segments (split_on (CHR ''/'') path) []"

definition posix_is_absolute :: "string \<Rightarrow> bool" where
  "posix_is_absolute path \<longleftrightarrow> starts_with path ''/''"

definition posix_normalize :: "string \<Rightarrow> string" where
  "posix_normalize path =
     (let segments = path_segments path
      in ''/'' @ join ''/'' segments @ (if ends_with path ''/'' \<and> segments \<noteq> [] then ''/'' else []))"

fun drop_common :: "string list \<Rightarrow> string list \<Rightarrow> string list \<times> string list" where
  "drop_common (a # as) (b # bs) = (if a = b then drop_common as bs else (a # as, b # bs))"
| "drop_common as bs = (as, bs)"

definition posix_relative :: "string \<Rightarrow> string \<Rightarrow> string" where
  "posix_relative from_path to_path =
     (let (up, down) = drop_common (path_segments from_path) (path_segments to_path)
      in join ''/'' (map (\<lambda>_. ''..'') up @ down))"

definition path_is_same_or_within :: "string \<Rightarrow> string \<Rightarrow> bool" where
  "path_is_same_or_within root candidate \<longleftrightarrow>
     (let relative = posix_relative root candidate
      in relative = [] \<or> relative \<noteq> ''..'' \<and> \<not> starts_with relative ''../'' \<and> \<not> posix_is_absolute relative)"

section \<open>Values\<close>

definition trimmed :: "string option \<Rightarrow> string option" where
  "trimmed raw = truthy (map_option trim raw)"

definition parse_bounded_integer :: "runtime \<Rightarrow> string option \<Rightarrow> int \<Rightarrow> int \<Rightarrow> int \<Rightarrow> string \<Rightarrow> string + int" where
  "parse_bounded_integer rt raw fallback lo hi name =
     (let failure = Inl (name @ '' must be an integer between '' @ int_text lo @ '' and '' @ int_text hi)
      in case raw of
           None \<Rightarrow> Inr fallback
         | Some s \<Rightarrow>
             if trim s = [] then Inr fallback
             else (case rt_number rt s of
                     None \<Rightarrow> failure
                   | Some v \<Rightarrow> if v < lo \<or> v > hi then failure else Inr v))"

definition loopback_error :: "string \<Rightarrow> string" where
  "loopback_error name = name @ '' must be a numeric loopback address (127.0.0.1 or ::1)''"

definition is_loopback_hostname :: "string \<Rightarrow> bool" where
  "is_loopback_hostname hostname \<longleftrightarrow> hostname = ''127.0.0.1'' \<or> hostname = ''::1''"

definition origin_only :: "url \<Rightarrow> bool" where
  "origin_only u \<longleftrightarrow> u_pathname u = ''/'' \<and> u_search u = [] \<and> u_hash u = []"

definition parse_loopback_origin :: "runtime \<Rightarrow> string \<Rightarrow> string \<Rightarrow> string + string" where
  "parse_loopback_origin rt raw name =
     (case rt_url rt raw of
        None \<Rightarrow> Inl ''TypeError''
      | Some u \<Rightarrow>
          if u_protocol u \<noteq> ''http:'' then Inl (name @ '' must use plain HTTP on loopback'')
          else if \<not> is_loopback_hostname (u_hostname u) then Inl (loopback_error (name @ '' hostname''))
          else if u_username u \<noteq> [] \<or> u_password u \<noteq> [] then Inl (name @ '' must not contain credentials'')
          else if \<not> origin_only u then Inl (name @ '' must be an origin without path, query, or fragment'')
          else Inr (u_origin u))"

definition parse_public_https_origin :: "runtime \<Rightarrow> string option \<Rightarrow> string \<Rightarrow> string + string option" where
  "parse_public_https_origin rt raw name =
     (case trimmed raw of
        None \<Rightarrow> Inr None
      | Some v \<Rightarrow>
          (case rt_url rt v of
             None \<Rightarrow> Inl (name @ '' must be a valid absolute HTTPS origin'')
           | Some u \<Rightarrow>
               if u_protocol u \<noteq> ''https:'' then Inl (name @ '' must use HTTPS'')
               else if u_username u \<noteq> [] \<or> u_password u \<noteq> [] then Inl (name @ '' must not contain credentials'')
               else if \<not> origin_only u then Inl (name @ '' must be an origin without path, query, or fragment'')
               else Inr (Some (u_origin u))))"

definition parse_authorization_server_issuer :: "runtime \<Rightarrow> string option \<Rightarrow> string + string option" where
  "parse_authorization_server_issuer rt raw =
     (case trimmed raw of
        None \<Rightarrow> Inr None
      | Some v \<Rightarrow>
          (case rt_url rt v of
             None \<Rightarrow> Inl ''GATEWAY_OAUTH_AUTHORIZATION_SERVER must be a valid absolute HTTPS URL''
           | Some u \<Rightarrow>
               if u_protocol u \<noteq> ''https:'' then Inl ''GATEWAY_OAUTH_AUTHORIZATION_SERVER must use HTTPS''
               else if u_username u \<noteq> [] \<or> u_password u \<noteq> [] \<or> u_search u \<noteq> [] \<or> u_hash u \<noteq> []
                 then Inl ''GATEWAY_OAUTH_AUTHORIZATION_SERVER must not contain credentials, query, or fragment''
               else Inr (Some v)))"

definition parse_absolute_provider_path :: "string option \<Rightarrow> string \<Rightarrow> string \<Rightarrow> string + string option" where
  "parse_absolute_provider_path raw name root_error =
     (case trimmed raw of
        None \<Rightarrow> Inr None
      | Some v \<Rightarrow>
          if list_ex (\<lambda>c. unit_of c = 0) v \<or> length v > 4096 \<or> \<not> posix_is_absolute v
            then Inl (name @ '' must be a bounded absolute POSIX path'')
          else if posix_normalize v = ''/'' then Inl root_error
          else Inr (Some (posix_normalize v)))"

definition parse_filesystem_root :: "string option \<Rightarrow> string + string option" where
  "parse_filesystem_root raw = parse_absolute_provider_path raw ''GATEWAY_FILESYSTEM_ROOT''
     ''GATEWAY_FILESYSTEM_ROOT must not delegate the filesystem root /''"

definition parse_filesystem_mutator_bin :: "string option \<Rightarrow> string + string option" where
  "parse_filesystem_mutator_bin raw = parse_absolute_provider_path raw ''GATEWAY_FILESYSTEM_MUTATOR_BIN''
     ''GATEWAY_FILESYSTEM_MUTATOR_BIN must identify a binary, not /''"

definition parse_git_repository :: "string option \<Rightarrow> string + string option" where
  "parse_git_repository raw = parse_absolute_provider_path raw ''GATEWAY_GIT_REPOSITORY''
     ''GATEWAY_GIT_REPOSITORY must not delegate the filesystem root /''"

definition parse_git_bin :: "string option \<Rightarrow> string + string option" where
  "parse_git_bin raw = parse_absolute_provider_path raw ''GATEWAY_GIT_BIN''
     ''GATEWAY_GIT_BIN must identify a binary, not /''"

definition parse_process_registry_file :: "string option \<Rightarrow> string + string option" where
  "parse_process_registry_file raw = parse_absolute_provider_path raw ''GATEWAY_PROCESS_REGISTRY_FILE''
     ''GATEWAY_PROCESS_REGISTRY_FILE must identify a registry file, not /''"

definition parse_process_exec_bin :: "string option \<Rightarrow> string + string option" where
  "parse_process_exec_bin raw = parse_absolute_provider_path raw ''GATEWAY_PROCESS_EXEC_BIN''
     ''GATEWAY_PROCESS_EXEC_BIN must identify a binary, not /''"

definition within :: "string \<Rightarrow> string option \<Rightarrow> bool" where
  "within root candidate \<longleftrightarrow> (case candidate of None \<Rightarrow> False | Some c \<Rightarrow> path_is_same_or_within root c)"

definition validate_provider_isolation ::
  "string option \<Rightarrow> string option \<Rightarrow> string option \<Rightarrow> string option \<Rightarrow> string option \<Rightarrow> string option \<Rightarrow> string option" where
  "validate_provider_isolation filesystem_root mutator_bin git_repository git_bin registry_file exec_bin =
     (case (filesystem_root, mutator_bin) of
        (Some root, Some mutator) \<Rightarrow>
          if path_is_same_or_within root mutator
            then Some ''GATEWAY_FILESYSTEM_MUTATOR_BIN must be outside the delegated writable filesystem root''
          else if within root git_repository
            then Some ''GATEWAY_GIT_REPOSITORY control directory must be outside the delegated writable filesystem root''
          else if within root git_bin
            then Some ''GATEWAY_GIT_BIN must be outside the delegated writable filesystem root''
          else if within root registry_file
            then Some ''GATEWAY_PROCESS_REGISTRY_FILE must be outside the delegated writable filesystem root''
          else if within root exec_bin
            then Some ''GATEWAY_PROCESS_EXEC_BIN must be outside the delegated writable filesystem root''
          else None
      | _ \<Rightarrow> None)"

section \<open>The loader\<close>

abbreviation bind_error :: "'e + 'a \<Rightarrow> ('a \<Rightarrow> 'e + 'b) \<Rightarrow> 'e + 'b" where
  "bind_error m f \<equiv> (case m of Inl e \<Rightarrow> Inl e | Inr x \<Rightarrow> f x)"

definition trimmed_or :: "string option \<Rightarrow> string \<Rightarrow> string" where
  "trimmed_or raw d = (case trimmed raw of None \<Rightarrow> d | Some s \<Rightarrow> s)"

definition load_gateway_config :: "runtime \<Rightarrow> (string \<rightharpoonup> string) \<Rightarrow> string + gateway_config" where
  "load_gateway_config rt env =
     (let hostname = trimmed_or (env ''GATEWAY_HOST'') ''127.0.0.1'';
          allow_unauthenticated = (env ''GATEWAY_ALLOW_UNAUTHENTICATED'' = Some ''1'');
          api_token = trimmed (env ''GATEWAY_API_TOKEN'')
      in if \<not> is_loopback_hostname hostname then Inl (loopback_error ''GATEWAY_HOST'')
      else
      bind_error (parse_bounded_integer rt (env ''GATEWAY_PORT'') 3000 1 65535 ''GATEWAY_PORT'') (\<lambda>port.
      bind_error (parse_bounded_integer rt (env ''GATEWAY_UPSTREAM_TIMEOUT_MS'') 3000 100 30000
                    ''GATEWAY_UPSTREAM_TIMEOUT_MS'') (\<lambda>upstream_timeout_ms.
      bind_error (parse_bounded_integer rt (env ''GATEWAY_ENQUEUE_RATE_PER_SECOND'') 10 1 10000
                    ''GATEWAY_ENQUEUE_RATE_PER_SECOND'') (\<lambda>enqueue_rate.
      bind_error (parse_bounded_integer rt (env ''GATEWAY_ENQUEUE_BURST'') 20 1 100000 ''GATEWAY_ENQUEUE_BURST'') (\<lambda>enqueue_burst.
      bind_error (parse_bounded_integer rt (env ''GATEWAY_MAX_ACTIVE_TASKS'') 256 1 1000000
                    ''GATEWAY_MAX_ACTIVE_TASKS'') (\<lambda>max_active_tasks.
      if api_token = None \<and> \<not> allow_unauthenticated
        then Inl ''GATEWAY_API_TOKEN is required unless GATEWAY_ALLOW_UNAUTHENTICATED=1 is set explicitly''
      else
      bind_error (parse_public_https_origin rt (env ''GATEWAY_PUBLIC_ORIGIN'') ''GATEWAY_PUBLIC_ORIGIN'') (\<lambda>public_origin.
      bind_error (parse_authorization_server_issuer rt (env ''GATEWAY_OAUTH_AUTHORIZATION_SERVER'')) (\<lambda>authorization_server.
      if truthy authorization_server \<noteq> None \<and> truthy public_origin = None
        then Inl ''GATEWAY_PUBLIC_ORIGIN is required when GATEWAY_OAUTH_AUTHORIZATION_SERVER is configured''
      else
      bind_error (parse_filesystem_root (env ''GATEWAY_FILESYSTEM_ROOT'')) (\<lambda>filesystem_root.
      bind_error (parse_filesystem_mutator_bin (env ''GATEWAY_FILESYSTEM_MUTATOR_BIN'')) (\<lambda>mutator_bin.
      bind_error (parse_git_repository (env ''GATEWAY_GIT_REPOSITORY'')) (\<lambda>git_repository.
      bind_error (parse_git_bin (env ''GATEWAY_GIT_BIN'')) (\<lambda>git_bin.
      bind_error (parse_process_registry_file (env ''GATEWAY_PROCESS_REGISTRY_FILE'')) (\<lambda>registry_file.
      bind_error (parse_process_exec_bin (env ''GATEWAY_PROCESS_EXEC_BIN'')) (\<lambda>exec_bin.
      (case validate_provider_isolation filesystem_root mutator_bin git_repository git_bin registry_file exec_bin of
         Some e \<Rightarrow> Inl e
       | None \<Rightarrow>
      bind_error (parse_loopback_origin rt (trimmed_or (env ''QUEUE_DAEMON_URL'') ''http://127.0.0.1:7331'')
                    ''QUEUE_DAEMON_URL'') (\<lambda>queue_daemon_origin.
      bind_error (parse_loopback_origin rt (trimmed_or (env ''WORKER_BROKER_URL'') ''http://127.0.0.1:7332'')
                    ''WORKER_BROKER_URL'') (\<lambda>worker_broker_origin.
      Inr \<lparr>cfg_hostname = hostname, cfg_port = port, cfg_queue_daemon_origin = queue_daemon_origin,
           cfg_worker_broker_origin = Some worker_broker_origin, cfg_filesystem_root = filesystem_root,
           cfg_filesystem_mutator_bin = mutator_bin, cfg_git_repository = git_repository, cfg_git_bin = git_bin,
           cfg_process_registry_file = registry_file, cfg_process_exec_bin = exec_bin,
           cfg_public_origin = public_origin, cfg_oauth_authorization_server = authorization_server,
           cfg_api_token = api_token, cfg_allow_unauthenticated = allow_unauthenticated,
           cfg_upstream_timeout_ms = upstream_timeout_ms, cfg_enqueue_rate_per_second = enqueue_rate,
           cfg_enqueue_burst = enqueue_burst, cfg_max_active_tasks = max_active_tasks\<rparr>)))))))))))))))))"

section \<open>Isolation of the providers\<close>

definition segment_name :: "string \<Rightarrow> bool" where
  "segment_name s \<longleftrightarrow> s \<noteq> [] \<and> s \<noteq> ''.'' \<and> s \<noteq> ''..'' \<and> CHR ''/'' \<notin> set s"

lemma resolve_segments_names:
  "list_all (\<lambda>s. CHR ''/'' \<notin> set s) ss \<Longrightarrow> list_all segment_name acc \<Longrightarrow> list_all segment_name (resolve_segments ss acc)"
proof (induction ss acc rule: resolve_segments.induct)
  case (2 s ss acc)
  have "list_all segment_name (tl acc)" using "2.prems"(2) by (cases acc) auto
  moreover have "list_all segment_name (s # acc)" if "s \<noteq> []" "s \<noteq> ''.''" "s \<noteq> ''..''"
    using that "2.prems" by (simp add: segment_name_def [of s])
  ultimately show ?case using 2 by (cases "s = [] \<or> s = ''.''"; cases "s = ''..''") simp_all
qed (simp add: list_all_iff)

lemma path_segments_names: "list_all segment_name (path_segments path)"
  unfolding path_segments_def using split_on_no_sep
  by (intro resolve_segments_names) (auto simp: list_all_iff)

text \<open>\<open>inside root candidate\<close>: the candidate's segments continue those of the root.\<close>

definition inside :: "string \<Rightarrow> string \<Rightarrow> bool" where
  "inside root candidate \<longleftrightarrow> (\<exists>below. path_segments candidate = path_segments root @ below)"

lemma drop_common_eq: "drop_common as bs = (up, down) \<Longrightarrow> \<exists>common. as = common @ up \<and> bs = common @ down"
proof (induction as bs arbitrary: up down rule: drop_common.induct)
  case (1 a as b bs)
  show ?case
  proof (cases "a = b")
    case True
    with "1.IH" [OF True, of up down] "1.prems" obtain common where "as = common @ up" "bs = common @ down" by auto
    with True have "a # as = (a # common) @ up \<and> b # bs = (a # common) @ down" by simp
    then show ?thesis by blast
  next
    case False
    with "1.prems" show ?thesis by simp
  qed
qed auto

lemma drop_common_prefix: "drop_common as (as @ below) = ([], below)"
  by (induction as) auto

lemma join_starts:
  assumes "segment_name d"
  shows "join ''/'' (d # ds) \<noteq> []" "join ''/'' (d # ds) \<noteq> ''..''"
    "\<not> starts_with (join ''/'' (d # ds)) ''../''" "\<not> starts_with (join ''/'' (d # ds)) ''/''"
proof -
  have ns: "CHR ''/'' \<notin> set d" "d \<noteq> []" "d \<noteq> ''..''" using assms by (auto simp: segment_name_def)
  obtain rest where j: "join ''/'' (d # ds) = d @ rest" and rest: "rest = [] \<or> hd rest = CHR ''/''"
    by (cases ds) auto
  have front: "takeWhile (\<lambda>c. c \<noteq> CHR ''/'') (d @ rest) = d"
    using ns rest by (cases rest) (auto simp: takeWhile_append)
  show "join ''/'' (d # ds) \<noteq> []" using ns j by simp
  show "join ''/'' (d # ds) \<noteq> ''..''" using ns j front by auto
  show "\<not> starts_with (join ''/'' (d # ds)) ''../''" "\<not> starts_with (join ''/'' (d # ds)) ''/''"
    using ns j front by (auto simp: starts_with_iff)
qed

lemma within_iff_inside: "path_is_same_or_within root candidate \<longleftrightarrow> inside root candidate"
proof
  assume "inside root candidate"
  then obtain below where b: "path_segments candidate = path_segments root @ below" by (auto simp: inside_def)
  have names: "list_all segment_name below" using path_segments_names [of candidate] b by simp
  have "posix_relative root candidate = join ''/'' below"
    by (simp add: posix_relative_def b drop_common_prefix)
  with names join_starts show "path_is_same_or_within root candidate"
    by (cases below) (auto simp: path_is_same_or_within_def Let_def posix_is_absolute_def)
next
  assume w: "path_is_same_or_within root candidate"
  obtain up down where ud: "drop_common (path_segments root) (path_segments candidate) = (up, down)"
    by (cases "drop_common (path_segments root) (path_segments candidate)")
  have "up = []"
  proof (rule ccontr)
    assume "up \<noteq> []"
    then obtain u up' where up: "up = u # up'" by (cases up) auto
    have "posix_relative root candidate = join ''/'' (''..'' # map (\<lambda>_. ''..'') up' @ down)"
      by (simp add: posix_relative_def ud up)
    then have "posix_relative root candidate = ''..'' \<or> starts_with (posix_relative root candidate) ''../''"
      by (cases "map (\<lambda>_. ''..'') up' @ down") (auto simp: starts_with_def)
    with w show False by (auto simp: path_is_same_or_within_def Let_def starts_with_def)
  qed
  with drop_common_eq [OF ud] show "inside root candidate" by (auto simp: inside_def)
qed

lemma case_error_Inr: "(case x of Inl e \<Rightarrow> Inl e | Inr y \<Rightarrow> f y) = Inr c \<longleftrightarrow> (\<exists>y. x = Inr y \<and> f y = Inr c)"
  by (cases x) auto

lemma load_gateway_config_isolation:
  assumes "load_gateway_config rt env = Inr c"
  shows "validate_provider_isolation (cfg_filesystem_root c) (cfg_filesystem_mutator_bin c) (cfg_git_repository c)
           (cfg_git_bin c) (cfg_process_registry_file c) (cfg_process_exec_bin c) = None"
    and "cfg_api_token c = None \<longrightarrow> cfg_allow_unauthenticated c" and "is_loopback_hostname (cfg_hostname c)"
  using assms by (auto simp: load_gateway_config_def Let_def case_error_Inr split: if_splits option.splits)

text \<open>
  A configuration that loads keeps the controls out of the writable root. When both a filesystem root and
  the binary that writes in it are configured, neither that binary nor the git repository, the git
  binary, the process registry and the process binary lies in the root: as paths with \<open>.\<close> and \<open>..\<close>
  resolved, none of them continues the root segment by segment. Moreover the gateway listens on a
  loopback address, and runs without a token only where that is asked for.
\<close>

theorem loaded_config_isolated:
  assumes "load_gateway_config rt env = Inr c"
    and "cfg_filesystem_root c = Some root" and "cfg_filesystem_mutator_bin c = Some mutator"
    and "Some p \<in> {Some mutator, cfg_git_repository c, cfg_git_bin c, cfg_process_registry_file c, cfg_process_exec_bin c}"
  shows "\<not> (\<exists>below. path_segments p = path_segments root @ below)
     \<and> (cfg_api_token c \<noteq> None \<or> cfg_allow_unauthenticated c)
     \<and> (cfg_hostname c = ''127.0.0.1'' \<or> cfg_hostname c = ''::1'')"
proof -
  have "\<not> inside root p"
    using load_gateway_config_isolation(1) [OF assms(1)] assms(2-4)
    by (auto simp: validate_provider_isolation_def within_def within_iff_inside split: if_splits option.splits)
  with load_gateway_config_isolation(2,3) [OF assms(1)] show ?thesis
    by (auto simp: inside_def is_loopback_hostname_def)
qed

section \<open>The pre-registered client\<close>

definition MAX_CLIENT_SCOPES :: nat where "MAX_CLIENT_SCOPES = 64"
definition MAX_CLIENT_SCOPE_BYTES :: nat where "MAX_CLIENT_SCOPE_BYTES = 128"

definition client_id_ok :: "string \<Rightarrow> bool" where
  "client_id_ok s \<longleftrightarrow> rx_range (between 33 126) 1 512 s"

definition capability_scope_ok :: "string \<Rightarrow> bool" where
  "capability_scope_ok s \<longleftrightarrow>
     s \<noteq> [] \<and> (is_alnum (hd s) \<or> hd s = CHR ''*'') \<and> list_all (\<lambda>c. is_alnum c \<or> c \<in> set ''._:/*-'') (tl s)"

definition exact_configured_value :: "string option \<Rightarrow> string \<Rightarrow> string + string option" where
  "exact_configured_value raw name =
     (case raw of
        None \<Rightarrow> Inr None
      | Some v \<Rightarrow>
          if v = [] then Inr None
          else if v \<noteq> trim v then Inl (name @ '' must not contain leading or trailing whitespace'')
          else Inr (Some v))"

definition parse_client_id :: "string option \<Rightarrow> string + string option" where
  "parse_client_id raw =
     bind_error (exact_configured_value raw ''GATEWAY_OAUTH_CLIENT_ID'') (\<lambda>value. case value of
       None \<Rightarrow> Inr None
     | Some v \<Rightarrow>
         if \<not> client_id_ok v
           then Inl ''GATEWAY_OAUTH_CLIENT_ID must be 1..512 visible ASCII characters without spaces''
         else Inr (Some v))"

definition parse_client_redirect_uri :: "runtime \<Rightarrow> string option \<Rightarrow> string + string option" where
  "parse_client_redirect_uri rt raw =
     bind_error (exact_configured_value raw ''GATEWAY_OAUTH_REDIRECT_URI'') (\<lambda>value. case value of
       None \<Rightarrow> Inr None
     | Some v \<Rightarrow>
         (case rt_url rt v of
            None \<Rightarrow> Inl ''GATEWAY_OAUTH_REDIRECT_URI must be a valid absolute HTTPS URL''
          | Some u \<Rightarrow>
              if u_protocol u \<noteq> ''https:'' then Inl ''GATEWAY_OAUTH_REDIRECT_URI must use HTTPS''
              else if u_username u \<noteq> [] \<or> u_password u \<noteq> []
                then Inl ''GATEWAY_OAUTH_REDIRECT_URI must not contain credentials''
              else if u_hash u \<noteq> [] then Inl ''GATEWAY_OAUTH_REDIRECT_URI must not contain a fragment''
              else Inr (Some v)))"

fun check_client_scopes :: "string list \<Rightarrow> string list \<Rightarrow> string option" where
  "check_client_scopes seen [] = None"
| "check_client_scopes seen (s # ss) =
     (if \<not> capability_scope_ok s \<or> byte_length s > MAX_CLIENT_SCOPE_BYTES
        then Some ''GATEWAY_OAUTH_CLIENT_SCOPES contains a scope that cannot map to capability authority''
      else if s \<in> set seen then Some ''GATEWAY_OAUTH_CLIENT_SCOPES must not contain duplicate scopes''
      else check_client_scopes (seen @ [s]) ss)"

definition parse_client_scopes :: "string option \<Rightarrow> string + string list option" where
  "parse_client_scopes raw =
     bind_error (exact_configured_value raw ''GATEWAY_OAUTH_CLIENT_SCOPES'') (\<lambda>value. case value of
       None \<Rightarrow> Inr None
     | Some v \<Rightarrow>
         if length v = 0 \<or> includes_str v ''  ''
           then Inl ''GATEWAY_OAUTH_CLIENT_SCOPES must use single ASCII-space separators''
         else
           (let scopes = split_on (CHR '' '') v
            in if length scopes = 0 \<or> length scopes > MAX_CLIENT_SCOPES
                 then Inl ''GATEWAY_OAUTH_CLIENT_SCOPES must contain 1..64 scopes''
               else (case check_client_scopes [] scopes of Some e \<Rightarrow> Inl e | None \<Rightarrow> Inr (Some scopes))))"

definition validate_public_origin :: "runtime \<Rightarrow> string option \<Rightarrow> string + string" where
  "validate_public_origin rt public_origin =
     (case truthy public_origin of
        None \<Rightarrow> Inl ''GATEWAY_PUBLIC_ORIGIN is required when a pre-registered OAuth client is configured''
      | Some v \<Rightarrow>
          (case rt_url rt v of
             None \<Rightarrow> Inl ''publicOrigin must be a valid absolute HTTPS origin''
           | Some u \<Rightarrow>
               if u_protocol u \<noteq> ''https:'' \<or> u_username u \<noteq> [] \<or> u_password u \<noteq> [] \<or> \<not> origin_only u
                 then Inl ''publicOrigin must be an absolute HTTPS origin''
               else Inr (u_origin u)))"

definition load_oauth_public_client_policy ::
  "runtime \<Rightarrow> (string \<rightharpoonup> string) \<Rightarrow> string option \<Rightarrow> string + oauth_client_policy option" where
  "load_oauth_public_client_policy rt env public_origin =
     bind_error (parse_client_id (env ''GATEWAY_OAUTH_CLIENT_ID'')) (\<lambda>client_id.
     bind_error (parse_client_redirect_uri rt (env ''GATEWAY_OAUTH_REDIRECT_URI'')) (\<lambda>redirect_uri.
     bind_error (parse_client_scopes (env ''GATEWAY_OAUTH_CLIENT_SCOPES'')) (\<lambda>scopes.
     case (client_id, redirect_uri, scopes) of
       (None, None, None) \<Rightarrow> Inr None
     | (Some c, Some r, Some ss) \<Rightarrow>
         bind_error (validate_public_origin rt public_origin) (\<lambda>origin.
           Inr (Some \<lparr>pc_client_id = c, pc_redirect_uri = r, pc_resource = origin @ ''/mcp'', pc_scopes = ss\<rparr>))
     | _ \<Rightarrow> Inl ''GATEWAY_OAUTH_CLIENT_ID, GATEWAY_OAUTH_REDIRECT_URI, and GATEWAY_OAUTH_CLIENT_SCOPES must be configured together'')))"

lemma check_client_scopes_None:
  "check_client_scopes seen ss = None \<Longrightarrow> distinct seen \<Longrightarrow>
   distinct (seen @ ss) \<and> list_all (\<lambda>s. capability_scope_ok s \<and> byte_length s \<le> MAX_CLIENT_SCOPE_BYTES) ss"
  by (induction seen ss rule: check_client_scopes.induct) (auto split: if_splits)

lemma capability_scope_token: "capability_scope_ok s \<Longrightarrow> s \<noteq> [] \<and> scope_token_ok s"
proof -
  have c: "is_scope_char c" if "is_alnum c \<or> c \<in> set ''*._:/*-''" for c
    using that by (auto simp: is_scope_char_def is_alnum_def is_alpha_def is_digit_def between_def)
  assume "capability_scope_ok s"
  then obtain a t where s: "s = a # t" "is_alnum a \<or> a = CHR ''*''"
    "list_all (\<lambda>c. is_alnum c \<or> c \<in> set ''._:/*-'') t" by (cases s) (auto simp: capability_scope_ok_def)
  then have "is_scope_char a" "list_all is_scope_char t" using c by (auto simp: list_all_iff)
  with s show ?thesis by (simp add: scope_token_ok_def rx_plus_def)
qed

lemma exact_configured_value_Some: "exact_configured_value raw name = Inr (Some v) \<Longrightarrow> raw = Some v \<and> v \<noteq> []"
  by (auto simp: exact_configured_value_def split: option.splits if_splits)

lemma parse_client_scopes_Some:
  assumes "parse_client_scopes raw = Inr (Some ss)"
  shows "ss \<noteq> [] \<and> length ss \<le> MAX_CLIENT_SCOPES \<and> distinct ss \<and> list_all capability_scope_ok ss"
  using assms check_client_scopes_None [of "[]" ss]
  by (auto simp: parse_client_scopes_def Let_def list_all_iff split: sum.splits option.splits if_splits)

text \<open>
  A pre-registered client that loads is one the authorization endpoint can serve: its policy passes the
  endpoint's own validity check, it names between 1 and 64 distinct scopes, and its resource is the MCP
  endpoint of the public origin.
\<close>

theorem loaded_client_policy_valid:
  assumes "load_oauth_public_client_policy rt env public_origin = Inr (Some p)"
  shows "policy_is_valid p \<and> length (pc_scopes p) \<le> MAX_CLIENT_SCOPES
     \<and> (\<exists>v u. public_origin = Some v \<and> rt_url rt v = Some u \<and> u_protocol u = ''https:''
          \<and> pc_resource p = u_origin u @ ''/mcp'')"
proof -
  obtain c r ss origin where c: "parse_client_id (env ''GATEWAY_OAUTH_CLIENT_ID'') = Inr (Some c)"
    and r: "parse_client_redirect_uri rt (env ''GATEWAY_OAUTH_REDIRECT_URI'') = Inr (Some r)"
    and ss: "parse_client_scopes (env ''GATEWAY_OAUTH_CLIENT_SCOPES'') = Inr (Some ss)"
    and origin: "validate_public_origin rt public_origin = Inr origin"
    and p: "p = \<lparr>pc_client_id = c, pc_redirect_uri = r, pc_resource = origin @ ''/mcp'', pc_scopes = ss\<rparr>"
    using assms by (auto simp: load_oauth_public_client_policy_def split: sum.splits option.splits)
  have "c \<noteq> []" using c by (auto simp: parse_client_id_def dest: exact_configured_value_Some
      split: sum.splits option.splits if_splits)
  moreover have "r \<noteq> []" using r by (auto simp: parse_client_redirect_uri_def dest: exact_configured_value_Some
      split: sum.splits option.splits if_splits)
  moreover note scopes = parse_client_scopes_Some [OF ss]
  moreover have "list_all (\<lambda>s. length s > 0 \<and> scope_token_ok s) ss"
    using scopes capability_scope_token by (auto simp: list_all_iff)
  ultimately have "policy_is_valid p" by (simp add: policy_is_valid_def p distinct_remdups_id)
  moreover have "\<exists>v u. public_origin = Some v \<and> rt_url rt v = Some u \<and> u_protocol u = ''https:'' \<and> origin = u_origin u"
    using origin by (auto simp: validate_public_origin_def split: option.splits if_splits)
  ultimately show ?thesis using scopes p by auto
qed

definition loader_runtime :: runtime where
  "loader_runtime = null_runtime\<lparr>rt_url := (\<lambda>s. Some ((example_url ''/'')\<lparr>u_origin := s,
     u_protocol := (if starts_with s ''https:'' then ''https:'' else ''http:''), u_hostname := ''127.0.0.1''\<rparr>))\<rparr>"

definition example_env :: "string \<rightharpoonup> string" where
  "example_env = map_of [(''GATEWAY_API_TOKEN'', ''t''), (''GATEWAY_FILESYSTEM_ROOT'', ''/srv/data''),
     (''GATEWAY_FILESYSTEM_MUTATOR_BIN'', ''/srv/data-tools/../bin/write''),
     (''GATEWAY_OAUTH_CLIENT_ID'', ''c''), (''GATEWAY_OAUTH_REDIRECT_URI'', ''https://app.example/cb''),
     (''GATEWAY_OAUTH_CLIENT_SCOPES'', ''capability.read'')]"

lemma loaded_config_isolated_witness:
  "\<not> (\<exists>below. path_segments ''/srv/bin/write'' = path_segments ''/srv/data'' @ below)"
proof -
  have p: "parse_filesystem_root (Some ''/srv/data'') = Inr (Some ''/srv/data'')"
    "parse_filesystem_mutator_bin (Some ''/srv/data-tools/../bin/write'') = Inr (Some ''/srv/bin/write'')"
    "path_is_same_or_within ''/srv/data'' ''/srv/bin/write'' = False" "trim ''t'' = ''t''"
    "parse_git_repository None = Inr None" "parse_git_bin None = Inr None"
    "parse_process_registry_file None = Inr None" "parse_process_exec_bin None = Inr None"
    "starts_with ''http://127.0.0.1:7331'' ''https:'' = False" "starts_with ''http://127.0.0.1:7332'' ''https:'' = False"
    by code_simp+
  obtain c where "load_gateway_config loader_runtime example_env = Inr c"
    "cfg_filesystem_root c = Some ''/srv/data''" "cfg_filesystem_mutator_bin c = Some ''/srv/bin/write''"
    by (simp add: load_gateway_config_def Let_def example_env_def p trimmed_or_def trimmed_def is_loopback_hostname_def
        parse_bounded_integer_def parse_public_https_origin_def parse_authorization_server_issuer_def
        validate_provider_isolation_def within_def parse_loopback_origin_def loader_runtime_def example_url_def origin_only_def)
  from loaded_config_isolated [OF this, of "''/srv/bin/write''"] show ?thesis by simp
qed

lemma loaded_client_policy_valid_witness:
  "\<exists>p. load_oauth_public_client_policy loader_runtime example_env (Some ''https://gw.example'') = Inr (Some p)
     \<and> policy_is_valid p"
proof -
  have p: "parse_client_id (Some ''c'') = Inr (Some ''c'')" "trim ''https://app.example/cb'' = ''https://app.example/cb''"
    "starts_with ''https://app.example/cb'' ''https:''" "starts_with ''https://gw.example'' ''https:''"
    "parse_client_scopes (Some ''capability.read'') = Inr (Some [''capability.read''])"
    by code_simp+
  obtain q where "load_oauth_public_client_policy loader_runtime example_env (Some ''https://gw.example'') = Inr (Some q)"
    by (simp add: load_oauth_public_client_policy_def example_env_def p parse_client_redirect_uri_def
        exact_configured_value_def loader_runtime_def example_url_def validate_public_origin_def origin_only_def)
  with loaded_client_policy_valid [OF this] show ?thesis by blast
qed

end
