(* ===== verification/Processes.thy ===== *)
theory Processes
  imports ConfigLoad Access
begin

text \<open>
  Registered processes: the registry of fixed commands and its validation, the run of one of them
  (\<open>gateway/src/process-substrate.ts\<close>), and the route that starts it (\<open>gateway/src/process-api.ts\<close>).

  The file system is a parameter: what \<open>lstat\<close>, \<open>access\<close>, \<open>realpath\<close> and reading say of a path, or \<open>None\<close>
  where the path cannot be opened. A child process is the list of the events it and its signal and timer
  give rise to.
\<close>

definition MAX_REGISTRY_BYTES :: nat where "MAX_REGISTRY_BYTES = 65536"
definition MAX_COMMANDS :: nat where "MAX_COMMANDS = 64"
definition MAX_ARGUMENTS :: nat where "MAX_ARGUMENTS = 16"
definition MAX_ARGUMENT_BYTES :: nat where "MAX_ARGUMENT_BYTES = 1024"
definition MAX_OUTPUT_BYTES_LIMIT :: int where "MAX_OUTPUT_BYTES_LIMIT = 262144"
definition MIN_TIMEOUT_MS :: int where "MIN_TIMEOUT_MS = 100"
definition MAX_TIMEOUT_MS :: int where "MAX_TIMEOUT_MS = 30000"
definition ELF_MAGIC :: "nat list" where "ELF_MAGIC = [127, 69, 76, 70]"

definition is_lower :: "char \<Rightarrow> bool" where
  "is_lower c \<longleftrightarrow> between 97 122 c"

definition command_name_ok :: "string \<Rightarrow> bool" where
  "command_name_ok s \<longleftrightarrow>
     s \<noteq> [] \<and> is_lower (hd s) \<and> length (tl s) \<le> 63
     \<and> list_all (\<lambda>c. is_lower c \<or> is_digit c \<or> c \<in> set ''._-'') (tl s)"

definition process_scope_ok :: "string \<Rightarrow> bool" where
  "process_scope_ok s \<longleftrightarrow> starts_with s ''process.command.'' \<and> command_name_ok (drop 16 s)"

datatype process_authority = Invoke | MutateScoped

record process_descriptor =
  pd_name :: string
  pd_binary :: string
  pd_args :: "string list"
  pd_cwd :: string
  pd_timeout_ms :: int
  pd_max_output_bytes :: int
  pd_authority :: process_authority
  pd_required_scope :: string
  pd_mutates_state :: bool

record process_registry =
  pg_commands :: "(string \<times> process_descriptor) list"
  pg_source :: string

record file_info =
  fi_is_file :: bool
  fi_is_directory :: bool
  fi_executable :: bool
  fi_realpath :: string
  fi_bytes :: "nat list"

type_synonym file_system = "string \<Rightarrow> file_info option"

section \<open>Validation\<close>

definition has_exact_keys :: "json \<Rightarrow> string list \<Rightarrow> bool" where
  "has_exact_keys v keys \<longleftrightarrow>
     length (fields_of v) = length keys \<and> list_all (\<lambda>k. k \<in> set (keys_of (fields_of v))) keys"

definition validate_absolute_path :: "json option \<Rightarrow> string \<Rightarrow> string + string" where
  "validate_absolute_path v name =
     (let s = str_of v; failure = Inl (name @ '' must be a bounded absolute POSIX path'')
      in if \<not> is_string v \<or> length s = 0 \<or> length s > 4096 then failure
         else if list_ex (\<lambda>c. unit_of c = 0) s \<or> \<not> posix_is_absolute s then failure
         else if posix_normalize s = ''/'' then Inl (name @ '' must not identify /'')
         else Inr (posix_normalize s))"

definition validate_canonical_native_executable :: "file_system \<Rightarrow> string \<Rightarrow> string \<Rightarrow> string option" where
  "validate_canonical_native_executable fs path label =
     (case fs path of
        None \<Rightarrow> Some ''ENOENT''
      | Some f \<Rightarrow>
          if \<not> fi_is_file f then Some (label @ '' must be a regular file'')
          else if \<not> fi_executable f then Some ''EACCES''
          else if posix_normalize (fi_realpath f) \<noteq> path then Some (label @ '' must be canonical and non-symlink'')
          else if take (length ELF_MAGIC) (fi_bytes f) \<noteq> ELF_MAGIC then Some (label @ '' must be a native ELF executable'')
          else None)"

definition validate_canonical_directory :: "file_system \<Rightarrow> string \<Rightarrow> string option" where
  "validate_canonical_directory fs path =
     (case fs path of
        None \<Rightarrow> Some ''ENOENT''
      | Some f \<Rightarrow>
          if \<not> fi_is_directory f then Some ''registered process cwd must be a directory''
          else if posix_normalize (fi_realpath f) \<noteq> path
            then Some ''registered process cwd must be canonical and non-symlink''
          else None)"

definition authority_level :: "process_authority \<Rightarrow> int" where
  "authority_level a = (case a of Invoke \<Rightarrow> INVOKE | MutateScoped \<Rightarrow> MUTATE_SCOPED)"

definition validate_process_policy ::
  "string \<Rightarrow> json option \<Rightarrow> json option \<Rightarrow> json option \<Rightarrow> string + process_authority \<times> string \<times> bool" where
  "validate_process_policy name authority required_scope mutates_state =
     (if authority \<noteq> Some (JStr ''invoke'') \<and> authority \<noteq> Some (JStr ''mutate_scoped'')
        then Inl ''registered process authority must be invoke or mutate_scoped''
      else if \<not> is_boolean mutates_state then Inl ''registered process mutates_state must be boolean''
      else if (authority = Some (JStr ''invoke'') \<and> bool_of mutates_state)
              \<or> (authority = Some (JStr ''mutate_scoped'') \<and> \<not> bool_of mutates_state)
        then Inl ''registered process authority and mutates_state are inconsistent''
      else
        (let expected = ''process.command.'' @ name
         in if \<not> is_string required_scope \<or> \<not> process_scope_ok (str_of required_scope) \<or> str_of required_scope \<noteq> expected
              then Inl (''registered process required_scope must be exactly '' @ expected)
            else Inr (if authority = Some (JStr ''invoke'') then Invoke else MutateScoped,
                      str_of required_scope, bool_of mutates_state)))"

definition DESCRIPTOR_KEYS :: "string list" where
  "DESCRIPTOR_KEYS = [''name'', ''binary'', ''args'', ''cwd'', ''timeout_ms'', ''max_output_bytes'', ''authority'',
     ''required_scope'', ''mutates_state'']"

definition argument_ok :: "json \<Rightarrow> bool" where
  "argument_ok v \<longleftrightarrow> is_string (Some v) \<and> \<not> list_ex (\<lambda>c. unit_of c = 0) (str_of (Some v))
     \<and> byte_length (str_of (Some v)) \<le> MAX_ARGUMENT_BYTES"

definition within_ints :: "json option \<Rightarrow> int \<Rightarrow> int \<Rightarrow> bool" where
  "within_ints v lo hi \<longleftrightarrow> is_integer v \<and> lo \<le> int_of v \<and> int_of v \<le> hi"

definition parse_descriptor :: "json \<Rightarrow> string + process_descriptor" where
  "parse_descriptor v =
     (if \<not> is_record v \<or> \<not> has_exact_keys v DESCRIPTOR_KEYS then Inl ''registered process descriptor has an invalid schema''
      else if \<not> is_string (field v ''name'') \<or> \<not> command_name_ok (str_of (field v ''name''))
        then Inl ''registered process name is invalid''
      else if \<not> is_array (field v ''args'') \<or> length (arr_of (field v ''args'')) > MAX_ARGUMENTS
        then Inl ''registered process args exceed the bounded registry contract''
      else if \<not> list_all argument_ok (arr_of (field v ''args'')) then Inl ''registered process argument is invalid''
      else if \<not> within_ints (field v ''timeout_ms'') MIN_TIMEOUT_MS MAX_TIMEOUT_MS
        then Inl ''registered process timeout_ms is outside the bounded range''
      else if \<not> within_ints (field v ''max_output_bytes'') 1 MAX_OUTPUT_BYTES_LIMIT
        then Inl ''registered process max_output_bytes is outside the bounded range''
      else
        bind_error (validate_process_policy (str_of (field v ''name'')) (field v ''authority'')
                      (field v ''required_scope'') (field v ''mutates_state'')) (\<lambda>(authority, scope, mutates).
        bind_error (validate_absolute_path (field v ''binary'') ''registered process binary'') (\<lambda>binary.
        bind_error (validate_absolute_path (field v ''cwd'') ''registered process cwd'') (\<lambda>cwd.
          Inr \<lparr>pd_name = str_of (field v ''name''), pd_binary = binary,
               pd_args = map (\<lambda>a. str_of (Some a)) (arr_of (field v ''args'')), pd_cwd = cwd,
               pd_timeout_ms = int_of (field v ''timeout_ms''),
               pd_max_output_bytes = int_of (field v ''max_output_bytes''), pd_authority = authority,
               pd_required_scope = scope, pd_mutates_state = mutates\<rparr>))))"

section \<open>The registry\<close>

definition outside :: "string option \<Rightarrow> string \<Rightarrow> bool" where
  "outside writable_root path \<longleftrightarrow>
     (case writable_root of None \<Rightarrow> True | Some root \<Rightarrow> \<not> path_is_same_or_within root path)"

definition check_command ::
  "file_system \<Rightarrow> string option \<Rightarrow> (string \<times> process_descriptor) list \<Rightarrow> process_descriptor \<Rightarrow> string option" where
  "check_command fs writable_root commands d =
     (if map_of commands (pd_name d) \<noteq> None then Some (''duplicate registered process name: '' @ pd_name d)
      else if \<not> outside writable_root (pd_binary d)
        then Some ''registered process binary must be outside the writable filesystem root''
      else if \<not> outside writable_root (pd_cwd d)
        then Some ''registered process cwd must be outside the writable filesystem root''
      else
        (case validate_canonical_native_executable fs (pd_binary d) ''registered process binary'' of
           Some e \<Rightarrow> Some e
         | None \<Rightarrow> validate_canonical_directory fs (pd_cwd d)))"

fun load_commands ::
  "file_system \<Rightarrow> string option \<Rightarrow> json list \<Rightarrow> (string \<times> process_descriptor) list
   \<Rightarrow> string + (string \<times> process_descriptor) list" where
  "load_commands fs writable_root [] commands = Inr commands"
| "load_commands fs writable_root (item # items) commands =
     bind_error (parse_descriptor item) (\<lambda>d.
       case check_command fs writable_root commands d of
         Some e \<Rightarrow> Inl e
       | None \<Rightarrow> load_commands fs writable_root items (commands @ [(pd_name d, d)]))"

text \<open>\<open>read\<close> gives the text of the file's bytes. An empty root counts as none.\<close>

definition load_registered_process_registry ::
  "runtime \<Rightarrow> file_system \<Rightarrow> string \<Rightarrow> string option \<Rightarrow> string + process_registry" where
  "load_registered_process_registry rt fs configured_path writable_filesystem_root =
     bind_error (validate_absolute_path (Some (JStr configured_path)) ''registered process registry'') (\<lambda>path.
     bind_error (case truthy writable_filesystem_root of
                   None \<Rightarrow> Inr None
                 | Some root \<Rightarrow> map_sum id Some (validate_absolute_path (Some (JStr root)) ''writable filesystem root''))
       (\<lambda>writable_root.
     if \<not> outside writable_root path then Inl ''registered process registry must be outside the writable filesystem root''
     else
       (case fs path of
          None \<Rightarrow> Inl ''registered process registry is unavailable''
        | Some f \<Rightarrow>
            if \<not> fi_is_file f \<or> length (fi_bytes f) < 2 \<or> length (fi_bytes f) > MAX_REGISTRY_BYTES
              then Inl ''registered process registry must be a bounded regular file''
            else if posix_normalize (fi_realpath f) \<noteq> path
              then Inl ''registered process registry must be canonical and non-symlink''
            else
              (case rt_json_parse rt (rt_utf8_decode rt (fi_bytes f)) of
                 None \<Rightarrow> Inl ''registered process registry must contain valid JSON''
               | Some v \<Rightarrow>
                   if \<not> is_record v \<or> \<not> has_exact_keys v [''version'', ''commands''] \<or> field v ''version'' \<noteq> Some (JInt 2)
                      \<or> \<not> is_array (field v ''commands'') \<or> length (arr_of (field v ''commands'')) = 0
                      \<or> length (arr_of (field v ''commands'')) > MAX_COMMANDS
                     then Inl ''registered process registry has an invalid schema''
                   else
                     map_sum id (\<lambda>commands. \<lparr>pg_commands = commands, pg_source = path\<rparr>)
                       (load_commands fs writable_root (arr_of (field v ''commands'')) [])))))"

section \<open>Running a command\<close>

datatype process_error = UnregisteredProcess | ProcessUnauthorized | ProcessUnavailable | ProcessTimeout
  | ProcessCancelled | ProcessOutputTooLarge | ProcessFailed

record process_output =
  po_exit_code :: int
  po_stdout :: string
  po_stderr :: string

datatype process_result = ProcessOk process_output | ProcessError process_error "process_output option"

definition process_capability_requirement :: "process_descriptor \<Rightarrow> capability_descriptor" where
  "process_capability_requirement d =
     \<lparr>cd_name = ''process:'' @ pd_name d, cd_kind = Surface, cd_provider = ''rust-process-exec'',
      cd_description = ''Internal registered process authorization requirement.'',
      cd_min_depth = DELEGATED_SYSTEM, cd_min_authority = authority_level (pd_authority d),
      cd_required_scopes = [pd_required_scope d], cd_publicly_discoverable = False,
      cd_mutates_state = pd_mutates_state d, cd_cancellable = True, cd_durable = False,
      cd_route = None, cd_method = None, cd_queue_kind = None\<rparr>"

definition evaluate_registered_process_grant :: "process_descriptor \<Rightarrow> capability_grant \<Rightarrow> capability_decision" where
  "evaluate_registered_process_grant d grant = evaluate_capability_grant grant (process_capability_requirement d)"

text \<open>The program that is spawned, with its arguments and environment.\<close>

record spawn_call =
  sp_program :: string
  sp_args :: "string list"
  sp_env :: "(string \<times> string) list"

definition minimal_process_environment :: "(string \<times> string) list" where
  "minimal_process_environment = [(''LANG'', ''C''), (''LC_ALL'', ''C''), (''PATH'', ''/nonexistent'')]"

definition spawn_of :: "string \<Rightarrow> process_descriptor \<Rightarrow> spawn_call" where
  "spawn_of helper d =
     \<lparr>sp_program = helper,
      sp_args = [''--binary'', pd_binary d, ''--cwd'', pd_cwd d, ''--''] @ pd_args d,
      sp_env = minimal_process_environment\<rparr>"

datatype process_event = Stdout "nat list" | Stderr "nat list" | SpawnError | Close "int option" | AbortSignal | TimerFired

record child_state =
  ch_settled :: "process_result option"
  ch_termination :: "process_error option"
  ch_stdout :: "nat list"
  ch_stderr :: "nat list"
  ch_stdout_bytes :: nat
  ch_stderr_bytes :: nat

definition new_child :: child_state where
  "new_child = \<lparr>ch_settled = None, ch_termination = None, ch_stdout = [], ch_stderr = [], ch_stdout_bytes = 0,
     ch_stderr_bytes = 0\<rparr>"

definition finish_child :: "process_result \<Rightarrow> child_state \<Rightarrow> child_state" where
  "finish_child result c = (if ch_settled c \<noteq> None then c else c\<lparr>ch_settled := Some result\<rparr>)"

definition terminate_child :: "process_error \<Rightarrow> child_state \<Rightarrow> child_state" where
  "terminate_child e c = (if ch_settled c \<noteq> None \<or> ch_termination c \<noteq> None then c else c\<lparr>ch_termination := Some e\<rparr>)"

fun child_step :: "runtime \<Rightarrow> process_descriptor \<Rightarrow> child_state \<Rightarrow> process_event \<Rightarrow> child_state" where
  "child_step rt d c (Stdout chunk) =
     (if ch_termination c \<noteq> None then c
      else
        (let c' = c\<lparr>ch_stdout_bytes := ch_stdout_bytes c + length chunk\<rparr>
         in if int (ch_stdout_bytes c' + ch_stderr_bytes c') > pd_max_output_bytes d
              then terminate_child ProcessOutputTooLarge c'
            else c'\<lparr>ch_stdout := ch_stdout c @ chunk\<rparr>))"
| "child_step rt d c (Stderr chunk) =
     (if ch_termination c \<noteq> None then c
      else
        (let c' = c\<lparr>ch_stderr_bytes := ch_stderr_bytes c + length chunk\<rparr>
         in if int (ch_stdout_bytes c' + ch_stderr_bytes c') > pd_max_output_bytes d
              then terminate_child ProcessOutputTooLarge c'
            else c'\<lparr>ch_stderr := ch_stderr c @ chunk\<rparr>))"
| "child_step rt d c SpawnError = finish_child (ProcessError ProcessUnavailable None) c"
| "child_step rt d c (Close code) =
     (if ch_settled c \<noteq> None then c
      else
        (case ch_termination c of
           Some e \<Rightarrow> finish_child (ProcessError e None) c
         | None \<Rightarrow>
             (let out = \<lparr>po_exit_code = (case code of None \<Rightarrow> - 1 | Some n \<Rightarrow> n),
                         po_stdout = rt_utf8_decode rt (ch_stdout c), po_stderr = rt_utf8_decode rt (ch_stderr c)\<rparr>
              in finish_child (if code = Some 0 then ProcessOk out else ProcessError ProcessFailed (Some out)) c)))"
| "child_step rt d c AbortSignal = terminate_child ProcessCancelled c"
| "child_step rt d c TimerFired = terminate_child ProcessTimeout c"

definition run_child :: "runtime \<Rightarrow> process_descriptor \<Rightarrow> process_event list \<Rightarrow> child_state" where
  "run_child rt d events = foldl (child_step rt d) new_child events"

text \<open>
  The run: the call that is spawned, if any, and the result, \<open>None\<close> while the child has not closed.
  \<open>spawn\<close> gives the events of the child, or \<open>None\<close> where it throws.
\<close>

definition run_registered_process ::
  "runtime \<Rightarrow> file_system \<Rightarrow> (spawn_call \<Rightarrow> process_event list option) \<Rightarrow> process_registry \<Rightarrow> string \<Rightarrow> string
   \<Rightarrow> capability_grant \<Rightarrow> bool \<Rightarrow> spawn_call option \<times> process_result option" where
  "run_registered_process rt fs spawn registry name helper_bin grant aborted =
     (case map_of (pg_commands registry) name of
        None \<Rightarrow> (None, Some (ProcessError UnregisteredProcess None))
      | Some d \<Rightarrow>
          if \<not> dc_allowed (evaluate_registered_process_grant d grant)
            then (None, Some (ProcessError ProcessUnauthorized None))
          else if aborted then (None, Some (ProcessError ProcessCancelled None))
          else
            (case validate_absolute_path (Some (JStr helper_bin)) ''registered process helper'' of
               Inl e \<Rightarrow> (None, Some (ProcessError ProcessUnavailable None))
             | Inr helper \<Rightarrow>
                 if validate_canonical_native_executable fs helper ''registered process helper'' \<noteq> None
                   then (None, Some (ProcessError ProcessUnavailable None))
                 else
                   (case spawn (spawn_of helper d) of
                      None \<Rightarrow> (Some (spawn_of helper d), Some (ProcessError ProcessUnavailable None))
                    | Some events \<Rightarrow> (Some (spawn_of helper d), ch_settled (run_child rt d events)))))"

section \<open>The route\<close>

definition registered_process_capability :: "process_descriptor \<Rightarrow> capability_descriptor" where
  "registered_process_capability d =
     \<lparr>cd_name = pd_required_scope d, cd_kind = Surface, cd_provider = ''rust-process-exec'',
      cd_description = ''Run the operator-registered fixed process command '' @ pd_name d
        @ '' with no caller-selected executable, arguments, environment, or cwd.'',
      cd_min_depth = DELEGATED_SYSTEM,
      cd_min_authority = (if pd_authority d = Invoke then INVOKE else MUTATE_SCOPED),
      cd_required_scopes = [pd_required_scope d], cd_publicly_discoverable = True,
      cd_mutates_state = pd_mutates_state d, cd_cancellable = True, cd_durable = False,
      cd_route = Some (''/v1/process/'' @ pd_name d), cd_method = Some ''POST'', cd_queue_kind = None\<rparr>"

record process_provider =
  pp_registry :: process_registry
  pp_helper_bin :: string

definition registered_process_capabilities :: "runtime \<Rightarrow> process_provider \<Rightarrow> capability_descriptor list" where
  "registered_process_capabilities rt provider =
     map registered_process_capability
       (sort_by (\<lambda>l r. rt_locale_le rt (pd_name l) (pd_name r)) (map snd (pg_commands (pp_registry provider))))"

definition helper_available :: "file_system \<Rightarrow> string \<Rightarrow> bool" where
  "helper_available fs path \<longleftrightarrow>
     (case fs path of
        None \<Rightarrow> False
      | Some f \<Rightarrow> fi_is_file f \<and> fi_executable f \<and> posix_normalize (fi_realpath f) = path
          \<and> take (length ELF_MAGIC) (fi_bytes f) = ELF_MAGIC)"

definition load_registered_process_provider :: "runtime \<Rightarrow> file_system \<Rightarrow> gateway_config \<Rightarrow> process_provider option" where
  "load_registered_process_provider rt fs config =
     (case (truthy (cfg_process_registry_file config), truthy (cfg_process_exec_bin config)) of
        (Some registry_path, Some helper_bin) \<Rightarrow>
          if \<not> helper_available fs helper_bin then None
          else
            (case load_registered_process_registry rt fs registry_path
                    (if truthy (cfg_filesystem_mutator_bin config) \<noteq> None then cfg_filesystem_root config else None) of
               Inl e \<Rightarrow> None
             | Inr registry \<Rightarrow> Some \<lparr>pp_registry = registry, pp_helper_bin = helper_bin\<rparr>)
      | _ \<Rightarrow> None)"

fun process_error_text :: "process_error \<Rightarrow> string" where
  "process_error_text UnregisteredProcess = ''unregistered_process''"
| "process_error_text ProcessUnauthorized = ''process_unauthorized''"
| "process_error_text ProcessUnavailable = ''process_unavailable''"
| "process_error_text ProcessTimeout = ''process_timeout''"
| "process_error_text ProcessCancelled = ''process_cancelled''"
| "process_error_text ProcessOutputTooLarge = ''process_output_too_large''"
| "process_error_text ProcessFailed = ''process_failed''"

fun process_error_status :: "process_error \<Rightarrow> nat" where
  "process_error_status UnregisteredProcess = 404"
| "process_error_status ProcessUnauthorized = 403"
| "process_error_status ProcessUnavailable = 503"
| "process_error_status ProcessTimeout = 504"
| "process_error_status ProcessCancelled = 409"
| "process_error_status ProcessOutputTooLarge = 502"
| "process_error_status ProcessFailed = 422"

definition output_fields :: "process_output \<Rightarrow> (string \<times> json) list" where
  "output_fields out =
     [(''exit_code'', JInt (po_exit_code out)), (''stdout'', JStr (po_stdout out)), (''stderr'', JStr (po_stderr out))]"

definition result_response_of :: "process_result \<Rightarrow> response" where
  "result_response_of result =
     (case result of
        ProcessOk out \<Rightarrow> json_response (JObj ((''ok'', JBool True) # output_fields out)) 200
      | ProcessError e out \<Rightarrow>
          json_response (JObj ([(''ok'', JBool False), (''error'', JStr (process_error_text e))]
            @ (case out of None \<Rightarrow> [] | Some o' \<Rightarrow> output_fields o'))) (process_error_status e))"

definition handle_registered_process_request ::
  "runtime \<Rightarrow> file_system \<Rightarrow> (spawn_call \<Rightarrow> process_event list option) \<Rightarrow> gateway_config \<Rightarrow> int \<Rightarrow> bool \<Rightarrow> request
   \<Rightarrow> spawn_call option \<times> (string + response option) option" where
  "handle_registered_process_request rt fs spawn config now_ms aborted r =
     (let url = rq_url r; path = u_pathname url; name = drop 12 path;
          answer = (\<lambda>response. (None, Some (Inr (Some response))))
      in if \<not> starts_with path ''/v1/process/'' \<or> \<not> command_name_ok name then (None, Some (Inr None))
         else if rq_method r \<noteq> ''POST'' then answer (error_response 405 ''method_not_allowed'' ''POST required'')
         else if length (u_search url) > 0
           then answer (error_response 400 ''process_arguments_forbidden'' ''query parameters are not accepted'')
         else if length (rq_body r) \<noteq> 0
           then answer (error_response 400 ''process_arguments_forbidden''
                  ''registered process commands accept no caller body or arguments'')
         else
           (case resolve_authorization_context rt r config now_ms of
              Inl e \<Rightarrow> (None, Some (Inl e))
            | Inr None \<Rightarrow> answer (error_response 401 ''unauthorized''
                            ''valid root or capability-session bearer token required'')
            | Inr (Some auth) \<Rightarrow>
                (case load_registered_process_provider rt fs config of
                   None \<Rightarrow> answer (error_response 503 ''process_provider_unavailable''
                             ''registered process provider is unavailable'')
                 | Some provider \<Rightarrow>
                     (case map_of (pg_commands (pp_registry provider)) name of
                        None \<Rightarrow> answer (error_response 404 ''process_command_not_found''
                                  ''registered process command is not available'')
                      | Some d \<Rightarrow>
                          if \<not> dc_allowed (evaluate_capability_grant (ac_grant auth) (registered_process_capability d))
                            then answer (error_response 403 ''capability_denied''
                                   ''registered process command is not authorized'')
                          else
                            (let (call, result) = run_registered_process rt fs spawn (pp_registry provider) name
                                   (pp_helper_bin provider) (ac_grant auth) aborted
                             in (call, map_option (\<lambda>x. Inr (Some (result_response_of x))) result))))))"

section \<open>What a loaded registry guarantees\<close>

text \<open>The path names an executable of the machine's own format, or a directory, and not through a link.\<close>

definition native_executable :: "file_system \<Rightarrow> string \<Rightarrow> bool" where
  "native_executable fs path \<longleftrightarrow>
     (\<exists>f. fs path = Some f \<and> fi_is_file f \<and> fi_executable f \<and> posix_normalize (fi_realpath f) = path
        \<and> take 4 (fi_bytes f) = [127, 69, 76, 70])"

definition real_directory :: "file_system \<Rightarrow> string \<Rightarrow> bool" where
  "real_directory fs path \<longleftrightarrow>
     (\<exists>f. fs path = Some f \<and> fi_is_directory f \<and> posix_normalize (fi_realpath f) = path)"

definition command_ok :: "file_system \<Rightarrow> string option \<Rightarrow> process_descriptor \<Rightarrow> bool" where
  "command_ok fs writable_root d \<longleftrightarrow>
     command_name_ok (pd_name d) \<and> pd_required_scope d = ''process.command.'' @ pd_name d
     \<and> (pd_mutates_state d \<longleftrightarrow> pd_authority d = MutateScoped)
     \<and> length (pd_args d) \<le> 16 \<and> list_all (\<lambda>a. byte_length a \<le> 1024) (pd_args d)
     \<and> 100 \<le> pd_timeout_ms d \<and> pd_timeout_ms d \<le> 30000
     \<and> 1 \<le> pd_max_output_bytes d \<and> pd_max_output_bytes d \<le> 262144
     \<and> native_executable fs (pd_binary d) \<and> real_directory fs (pd_cwd d)
     \<and> (\<forall>root. writable_root = Some root \<longrightarrow> \<not> inside root (pd_binary d) \<and> \<not> inside root (pd_cwd d))"

definition registry_ok :: "file_system \<Rightarrow> string option \<Rightarrow> (string \<times> process_descriptor) list \<Rightarrow> bool" where
  "registry_ok fs writable_root commands \<longleftrightarrow>
     distinct (keys_of commands) \<and> (\<forall>(name, d) \<in> set commands. name = pd_name d \<and> command_ok fs writable_root d)"

lemma outside_iff: "outside root p \<longleftrightarrow> (\<forall>r. root = Some r \<longrightarrow> \<not> inside r p)"
  by (auto simp: outside_def within_iff_inside split: option.splits)

lemma native_executable_iff:
  "validate_canonical_native_executable fs path label = None \<longleftrightarrow> native_executable fs path"
  by (auto simp: validate_canonical_native_executable_def native_executable_def ELF_MAGIC_def numeral_eq_Suc
      split: option.splits)

lemma real_directory_iff: "validate_canonical_directory fs path = None \<longleftrightarrow> real_directory fs path"
  by (auto simp: validate_canonical_directory_def real_directory_def split: option.splits)

lemma validate_process_policy_Inr:
  assumes "validate_process_policy name a s m = Inr (authority, scope, mutates)"
  shows "scope = ''process.command.'' @ name" and "mutates \<longleftrightarrow> authority = MutateScoped"
  using assms by (auto simp: validate_process_policy_def Let_def split: if_splits)

lemma map_sum_Inr: "map_sum f g x = Inr y \<longleftrightarrow> (\<exists>a. x = Inr a \<and> y = g a)"
  by (cases x) auto

lemma bind_error_Inr: "bind_error x f = Inr y \<longleftrightarrow> (\<exists>a. x = Inr a \<and> f a = Inr y)"
  by (cases x) auto

lemma bind_error_InrE: "bind_error x f = Inr y \<Longrightarrow> (\<And>a. x = Inr a \<Longrightarrow> f a = Inr y \<Longrightarrow> P) \<Longrightarrow> P"
  by (cases x) auto

lemma parse_descriptor_Inr:
  assumes "parse_descriptor v = Inr d"
  shows "command_name_ok (pd_name d) \<and> pd_required_scope d = ''process.command.'' @ pd_name d
     \<and> (pd_mutates_state d \<longleftrightarrow> pd_authority d = MutateScoped)
     \<and> length (pd_args d) \<le> 16 \<and> list_all (\<lambda>a. byte_length a \<le> 1024) (pd_args d)
     \<and> 100 \<le> pd_timeout_ms d \<and> pd_timeout_ms d \<le> 30000
     \<and> 1 \<le> pd_max_output_bytes d \<and> pd_max_output_bytes d \<le> 262144"
  using assms validate_process_policy_Inr
  by (fastforce simp: parse_descriptor_def bind_error_Inr within_ints_def MAX_ARGUMENTS_def MIN_TIMEOUT_MS_def
      MAX_TIMEOUT_MS_def MAX_OUTPUT_BYTES_LIMIT_def list_all_iff argument_ok_def MAX_ARGUMENT_BYTES_def split: if_splits)

lemma load_commands_ok:
  "load_commands fs root items commands = Inr all \<Longrightarrow> registry_ok fs root commands \<Longrightarrow> registry_ok fs root all"
proof (induction items arbitrary: commands)
  case (Cons item items)
  from Cons.prems(1) obtain d where d: "parse_descriptor item = Inr d" "check_command fs root commands d = None"
    "load_commands fs root items (commands @ [(pd_name d, d)]) = Inr all"
    by (auto simp: bind_error_Inr split: option.splits)
  have "command_ok fs root d"
    using d(2) parse_descriptor_Inr [OF d(1)]
    by (auto simp: command_ok_def check_command_def outside_iff native_executable_iff real_directory_iff
        split: if_splits option.splits)
  moreover have "pd_name d \<notin> set (keys_of commands)"
    using d(2) by (auto simp: check_command_def map_of_eq_None_iff split: if_splits)
  ultimately have "registry_ok fs root (commands @ [(pd_name d, d)])"
    using Cons.prems(2) by (auto simp: registry_ok_def)
  then show ?case by (rule Cons.IH [OF d(3)])
qed simp

lemma load_registry_ok:
  assumes "load_registered_process_registry rt fs path root = Inr registry"
  shows "registry_ok fs (map_option posix_normalize (truthy root)) (pg_commands registry)"
proof -
  have "registry_ok fs root' []" for root' by (simp add: registry_ok_def)
  with assms show ?thesis
    by (auto simp: load_registered_process_registry_def bind_error_Inr map_sum_Inr validate_absolute_path_def Let_def
        split: if_splits option.splits dest!: load_commands_ok)
qed

lemma load_provider_ok:
  assumes "load_registered_process_provider rt fs config = Some provider"
  shows "cfg_process_exec_bin config = Some (pp_helper_bin provider)
     \<and> registry_ok fs
         (if truthy (cfg_filesystem_mutator_bin config) = None then None
          else map_option posix_normalize (truthy (cfg_filesystem_root config)))
         (pg_commands (pp_registry provider))"
  using assms load_registry_ok
  by (fastforce simp: load_registered_process_provider_def split: option.splits if_splits sum.splits)

text \<open>
  What the registry file says of a command: an entry with exactly the nine properties, each with the value of the
  descriptor, the two paths up to normalization; and it is the only entry of that name.
\<close>

definition registers :: "json \<Rightarrow> process_descriptor \<Rightarrow> bool" where
  "registers item d \<longleftrightarrow>
     length (fields_of item) = 9
     \<and> field item ''name'' = Some (JStr (pd_name d))
     \<and> (\<exists>binary. field item ''binary'' = Some (JStr binary) \<and> pd_binary d = posix_normalize binary)
     \<and> field item ''args'' = Some (JArr (map JStr (pd_args d)))
     \<and> (\<exists>cwd. field item ''cwd'' = Some (JStr cwd) \<and> pd_cwd d = posix_normalize cwd)
     \<and> field item ''timeout_ms'' = Some (JInt (pd_timeout_ms d))
     \<and> field item ''max_output_bytes'' = Some (JInt (pd_max_output_bytes d))
     \<and> field item ''authority'' = Some (JStr (case pd_authority d of Invoke \<Rightarrow> ''invoke'' | MutateScoped \<Rightarrow> ''mutate_scoped''))
     \<and> field item ''required_scope'' = Some (JStr (pd_required_scope d))
     \<and> field item ''mutates_state'' = Some (JBool (pd_mutates_state d))"

definition registry_lists :: "runtime \<Rightarrow> file_system \<Rightarrow> string \<Rightarrow> process_descriptor \<Rightarrow> bool" where
  "registry_lists rt fs path d \<longleftrightarrow>
     (\<exists>f v items item. fs path = Some f \<and> fi_is_file f \<and> posix_normalize (fi_realpath f) = path
        \<and> rt_json_parse rt (rt_utf8_decode rt (fi_bytes f)) = Some v
        \<and> field v ''version'' = Some (JInt 2) \<and> field v ''commands'' = Some (JArr items)
        \<and> item \<in> set items \<and> registers item d
        \<and> (\<forall>other \<in> set items. field other ''name'' = Some (JStr (pd_name d)) \<longrightarrow> other = item))"

lemma parse_descriptor_registers:
  assumes "parse_descriptor v = Inr d"
  shows "registers v d"
proof -
  have args: "map (JStr \<circ> (\<lambda>a. str_of (Some a))) xs = xs" if "list_all argument_ok xs" for xs
    using that by (induction xs) (auto simp: argument_ok_def is_string_iff)
  have policy: "a = Some (JStr (case authority of Invoke \<Rightarrow> ''invoke'' | MutateScoped \<Rightarrow> ''mutate_scoped''))
      \<and> s = Some (JStr scope) \<and> m = Some (JBool mutates)"
    if "validate_process_policy n a s m = Inr (authority, scope, mutates)" for n a s m authority scope mutates
    using that by (auto simp: validate_process_policy_def Let_def is_string_iff is_boolean_iff split: if_splits)
  have path: "\<exists>s. x = Some (JStr s) \<and> p = posix_normalize s" if "validate_absolute_path x n = Inr p" for x n p
    using that by (auto simp: validate_absolute_path_def Let_def is_string_iff split: if_splits)
  have guards: "is_record v" "has_exact_keys v DESCRIPTOR_KEYS" "is_string (field v ''name'')" "is_array (field v ''args'')"
    "list_all argument_ok (arr_of (field v ''args''))" "within_ints (field v ''timeout_ms'') MIN_TIMEOUT_MS MAX_TIMEOUT_MS"
    "within_ints (field v ''max_output_bytes'') 1 MAX_OUTPUT_BYTES_LIMIT" "command_name_ok (str_of (field v ''name''))"
    "\<not> length (arr_of (field v ''args'')) > MAX_ARGUMENTS"
    by (rule ccontr, use assms in \<open>simp add: parse_descriptor_def split: if_split_asm\<close>)+
  have parsed: "bind_error (validate_process_policy (str_of (field v ''name'')) (field v ''authority'')
                      (field v ''required_scope'') (field v ''mutates_state'')) (\<lambda>(authority, scope, mutates).
        bind_error (validate_absolute_path (field v ''binary'') ''registered process binary'') (\<lambda>binary.
        bind_error (validate_absolute_path (field v ''cwd'') ''registered process cwd'') (\<lambda>cwd.
          Inr \<lparr>pd_name = str_of (field v ''name''), pd_binary = binary,
               pd_args = map (\<lambda>a. str_of (Some a)) (arr_of (field v ''args'')), pd_cwd = cwd,
               pd_timeout_ms = int_of (field v ''timeout_ms''),
               pd_max_output_bytes = int_of (field v ''max_output_bytes''), pd_authority = authority,
               pd_required_scope = scope, pd_mutates_state = mutates\<rparr>))) = Inr d"
    using assms unfolding parse_descriptor_def by (simp only: guards not_True_eq_False simp_thms if_False)
  from parsed obtain p where p: "validate_process_policy (str_of (field v ''name'')) (field v ''authority'')
    (field v ''required_scope'') (field v ''mutates_state'') = Inr p" by (rule bind_error_InrE)
  obtain authority scope mutates where pd: "p = (authority, scope, mutates)" by (cases p)
  from parsed [unfolded p pd sum.case prod.case] obtain binary where
    binary: "validate_absolute_path (field v ''binary'') ''registered process binary'' = Inr binary" by (rule bind_error_InrE)
  from parsed [unfolded p pd binary sum.case prod.case] obtain cwd where
    cwd: "validate_absolute_path (field v ''cwd'') ''registered process cwd'' = Inr cwd" by (rule bind_error_InrE)
  note d = parsed [unfolded p pd binary cwd sum.case prod.case sum.inject, symmetric]
  have "length (fields_of v) = 9" using guards(2) by (simp add: has_exact_keys_def DESCRIPTOR_KEYS_def)
  moreover have "is_integer (field v ''timeout_ms'')" "is_integer (field v ''max_output_bytes'')"
    using guards(6,7) by (simp_all add: within_ints_def)
  ultimately show ?thesis
    using guards(3,4) policy [OF p [unfolded pd]] path [OF binary] path [OF cwd] args [OF guards(5)]
    by (auto simp: registers_def d is_string_iff is_array_iff is_integer_iff)
qed

lemma load_commands_entries:
  "load_commands fs root items commands = Inr all
   \<Longrightarrow> \<exists>ds. all = commands @ map (\<lambda>d. (pd_name d, d)) ds \<and> list_all2 registers items ds"
proof (induction items arbitrary: commands)
  case (Cons item items)
  from Cons.prems obtain d where d: "parse_descriptor item = Inr d"
    "load_commands fs root items (commands @ [(pd_name d, d)]) = Inr all"
    by (auto simp: bind_error_Inr split: option.splits)
  from Cons.IH [OF d(2)] obtain ds where "all = commands @ [(pd_name d, d)] @ map (\<lambda>d. (pd_name d, d)) ds"
    "list_all2 registers items ds" by auto
  with parse_descriptor_registers [OF d(1)] show ?case by (intro exI [of _ "d # ds"]) simp
qed simp

lemma registered_entry:
  assumes "list_all2 registers items ds" and "distinct (map pd_name ds)" and "d \<in> set ds"
  shows "\<exists>item \<in> set items. registers item d
     \<and> (\<forall>other \<in> set items. field other ''name'' = Some (JStr (pd_name d)) \<longrightarrow> other = item)"
proof -
  from assms(3) obtain i where i: "i < length ds" "d = ds ! i" by (auto simp: in_set_conv_nth)
  have len: "length items = length ds" using assms(1) by (rule list_all2_lengthD)
  have reg: "registers (items ! j) (ds ! j)" if "j < length ds" for j
    using list_all2_nthD2 [OF assms(1) that] .
  have same: "items ! j = items ! i" if "j < length ds" "field (items ! j) ''name'' = Some (JStr (pd_name d))" for j
  proof -
    have "pd_name (ds ! j) = pd_name (ds ! i)" using reg [OF that(1)] that(2) i(2) by (simp add: registers_def)
    with that(1) i(1) assms(2) have "j = i" by (simp add: distinct_conv_nth) (metis nth_map)
    then show ?thesis by simp
  qed
  have "other = items ! i" if "other \<in> set items" "field other ''name'' = Some (JStr (pd_name d))" for other
  proof -
    from that(1) obtain j where "j < length items" "other = items ! j" by (auto simp: in_set_conv_nth)
    with that(2) same [of j] len show ?thesis by simp
  qed
  moreover have "registers (items ! i) d" using reg [OF i(1)] i(2) by simp
  moreover have "items ! i \<in> set items" using i(1) len by simp
  ultimately show ?thesis by blast
qed

lemma load_registry_lists:
  assumes "load_registered_process_registry rt fs path root = Inr registry" and "map_of (pg_commands registry) name = Some d"
  shows "registry_lists rt fs (posix_normalize path) d"
proof -
  from assms(1) obtain f v items root' where found: "fs (posix_normalize path) = Some f" "fi_is_file f"
      "posix_normalize (fi_realpath f) = posix_normalize path" "rt_json_parse rt (rt_utf8_decode rt (fi_bytes f)) = Some v"
      "field v ''version'' = Some (JInt 2)" "field v ''commands'' = Some (JArr items)"
    and load: "load_commands fs root' items [] = Inr (pg_commands registry)"
    by (auto simp: load_registered_process_registry_def bind_error_Inr map_sum_Inr validate_absolute_path_def Let_def
        is_array_iff split: if_splits option.splits)
  from load_commands_entries [OF load] obtain ds where ds: "pg_commands registry = map (\<lambda>d. (pd_name d, d)) ds"
    "list_all2 registers items ds" by auto
  have "registry_ok fs root' (pg_commands registry)" by (rule load_commands_ok [OF load]) (simp add: registry_ok_def)
  then have "distinct (map pd_name ds)" using ds(1) by (simp add: registry_ok_def comp_def)
  moreover have "d \<in> set ds" using map_of_SomeD [OF assms(2)] ds(1) by auto
  ultimately show ?thesis using registered_entry [OF ds(2)] found unfolding registry_lists_def by blast
qed

lemma load_provider_lists:
  assumes "load_registered_process_provider rt fs config = Some provider"
    and "map_of (pg_commands (pp_registry provider)) name = Some d"
  shows "\<exists>path. cfg_process_registry_file config = Some path \<and> registry_lists rt fs (posix_normalize path) d"
  using assms load_registry_lists
  by (fastforce simp: load_registered_process_provider_def split: option.splits if_splits sum.splits)

lemma run_registered_process_call:
  assumes "run_registered_process rt fs spawn registry name bin grant aborted = (Some call, result)"
  shows "\<exists>d. map_of (pg_commands registry) name = Some d \<and> native_executable fs (posix_normalize bin)
     \<and> call = spawn_of (posix_normalize bin) d
     \<and> result = (case spawn call of None \<Rightarrow> Some (ProcessError ProcessUnavailable None)
                  | Some events \<Rightarrow> ch_settled (run_child rt d events))"
  using assms
  by (auto simp: run_registered_process_def validate_absolute_path_def Let_def native_executable_iff
      split: option.splits if_splits sum.splits)

text \<open>
  C19. The process route starts nothing but a registered command, as it is registered. When the route
  spawns a program, the request was a bare \<open>POST\<close> without query and body; its grant reaches the delegated
  system depth, the authority of the command and the scope of this command. The command is the only one of its
  name that the configured registry file lists, and its arguments, limits, authority and scope are those written
  there, its binary and directory the normalized ones; it is within every bound, with a native binary and a real
  directory outside the writable root. The program is the configured native helper with exactly that binary,
  directory and arguments, in a fixed environment: nothing of it is taken from the request but the name. The
  answer is the outcome of that child under the limits of that command.
\<close>

theorem process_route_spawns_registered:
  assumes "handle_registered_process_request rt fs spawn config now_ms aborted r = (Some call, answer)"
  shows "\<exists>name auth registry d bin.
     rq_method r = ''POST'' \<and> u_pathname (rq_url r) = ''/v1/process/'' @ name \<and> u_search (rq_url r) = [] \<and> rq_body r = []
     \<and> resolve_authorization_context rt r config now_ms = Inr (Some auth)
     \<and> DELEGATED_SYSTEM \<le> gr_depth (ac_grant auth) \<and> authority_level (pd_authority d) \<le> gr_authority (ac_grant auth)
     \<and> has_required_scopes (gr_scopes (ac_grant auth)) [''process.command.'' @ name]
     \<and> pd_name d = name
     \<and> cfg_process_registry_file config = Some registry \<and> registry_lists rt fs (posix_normalize registry) d
     \<and> command_ok fs
         (if truthy (cfg_filesystem_mutator_bin config) = None then None
          else map_option posix_normalize (truthy (cfg_filesystem_root config))) d
     \<and> cfg_process_exec_bin config = Some bin \<and> native_executable fs (posix_normalize bin)
     \<and> call = \<lparr>sp_program = posix_normalize bin,
         sp_args = [''--binary'', pd_binary d, ''--cwd'', pd_cwd d, ''--''] @ pd_args d,
         sp_env = [(''LANG'', ''C''), (''LC_ALL'', ''C''), (''PATH'', ''/nonexistent'')]\<rparr>
     \<and> answer = map_option (\<lambda>x. Inr (Some (result_response_of x)))
         (case spawn call of None \<Rightarrow> Some (ProcessError ProcessUnavailable None)
          | Some events \<Rightarrow> ch_settled (run_child rt d events))"
proof -
  let ?name = "drop 12 (u_pathname (rq_url r))"
  from assms obtain auth provider d result where answer: "answer = map_option (\<lambda>x. Inr (Some (result_response_of x))) result"
    and request: "starts_with (u_pathname (rq_url r)) ''/v1/process/''" "rq_method r = ''POST''" "u_search (rq_url r) = []"
      "rq_body r = []" "resolve_authorization_context rt r config now_ms = Inr (Some auth)"
    and provider: "load_registered_process_provider rt fs config = Some provider"
    and d: "map_of (pg_commands (pp_registry provider)) ?name = Some d"
      "dc_allowed (evaluate_capability_grant (ac_grant auth) (registered_process_capability d))"
    and run: "run_registered_process rt fs spawn (pp_registry provider) ?name (pp_helper_bin provider)
      (ac_grant auth) aborted = (Some call, result)"
    by (auto simp: handle_registered_process_request_def Let_def split: if_splits sum.splits option.splits prod.splits)
  note ok = load_provider_ok [OF provider]
  from load_provider_lists [OF provider d(1)] obtain registry where
    registry: "cfg_process_registry_file config = Some registry" "registry_lists rt fs (posix_normalize registry) d" by blast
  have "pd_name d = ?name" "command_ok fs
         (if truthy (cfg_filesystem_mutator_bin config) = None then None
          else map_option posix_normalize (truthy (cfg_filesystem_root config))) d"
    using ok map_of_SomeD [OF d(1)] by (auto simp: registry_ok_def)
  moreover have "pd_required_scope d = ''process.command.'' @ ?name" using calculation by (simp add: command_ok_def)
  moreover have "u_pathname (rq_url r) = ''/v1/process/'' @ ?name" using request(1) by (auto simp: starts_with_iff)
  ultimately show ?thesis
    using request ok d registry answer run_registered_process_call [OF run]
    by (intro exI [of _ ?name] exI [of _ auth] exI [of _ registry] exI [of _ d] exI [of _ "pp_helper_bin provider"])
      (auto simp: evaluate_allowed_iff registered_process_capability_def authority_level_def spawn_of_def
        minimal_process_environment_def split: process_authority.splits)
qed

section \<open>The outcome of a run\<close>

text \<open>
  The same without the bookkeeping: which events end a child, what was written on each stream, and the first
  reason to stop it, with \<open>left\<close> bytes of output left.
\<close>

fun ends_child :: "process_event \<Rightarrow> bool" where
  "ends_child (Close code) = True"
| "ends_child SpawnError = True"
| "ends_child e = False"

fun written_stdout :: "process_event \<Rightarrow> nat list" where
  "written_stdout (Stdout chunk) = chunk"
| "written_stdout e = []"

fun written_stderr :: "process_event \<Rightarrow> nat list" where
  "written_stderr (Stderr chunk) = chunk"
| "written_stderr e = []"

fun stopped_by :: "int \<Rightarrow> process_event list \<Rightarrow> process_error option" where
  "stopped_by left [] = None"
| "stopped_by left (AbortSignal # es) = Some ProcessCancelled"
| "stopped_by left (TimerFired # es) = Some ProcessTimeout"
| "stopped_by left (e # es) =
     (let rest = left - int (length (written_stdout e @ written_stderr e))
      in if rest < 0 then Some ProcessOutputTooLarge else stopped_by rest es)"

definition child_outcome :: "runtime \<Rightarrow> process_descriptor \<Rightarrow> process_event list \<Rightarrow> process_result option" where
  "child_outcome rt d events =
     (let es = takeWhile (\<lambda>e. \<not> ends_child e) events
      in case drop (length es) events of
           [] \<Rightarrow> None
         | Close code # _ \<Rightarrow>
             Some (case stopped_by (pd_max_output_bytes d) es of
               Some e \<Rightarrow> ProcessError e None
             | None \<Rightarrow>
                 (let out = \<lparr>po_exit_code = (case code of None \<Rightarrow> - 1 | Some n \<Rightarrow> n),
                             po_stdout = rt_utf8_decode rt (concat (map written_stdout es)),
                             po_stderr = rt_utf8_decode rt (concat (map written_stderr es))\<rparr>
                  in if code = Some 0 then ProcessOk out else ProcessError ProcessFailed (Some out)))
         | _ \<Rightarrow> Some (ProcessError ProcessUnavailable None))"

lemma settled_run: "ch_settled c = Some x \<Longrightarrow> ch_settled (foldl (child_step rt d) c es) = Some x"
proof (induction es arbitrary: c)
  case (Cons e es)
  then have "ch_settled (child_step rt d c e) = Some x"
    by (cases e) (auto simp: Let_def terminate_child_def finish_child_def)
  then show ?case using Cons.IH by simp
qed simp

text \<open>What remains to be decided for a child with the termination \<open>t\<close> and the output so far.\<close>

definition rest_outcome ::
  "runtime \<Rightarrow> process_descriptor \<Rightarrow> process_error option \<Rightarrow> nat list \<Rightarrow> nat list \<Rightarrow> process_event list
   \<Rightarrow> process_result option" where
  "rest_outcome rt d t out err events =
     (let es = takeWhile (\<lambda>e. \<not> ends_child e) events;
          stop = (case t of Some e \<Rightarrow> Some e
                  | None \<Rightarrow> stopped_by (pd_max_output_bytes d - int (length out + length err)) es)
      in case drop (length es) events of
           [] \<Rightarrow> None
         | Close code # _ \<Rightarrow>
             Some (case stop of
               Some e \<Rightarrow> ProcessError e None
             | None \<Rightarrow>
                 (let o' = \<lparr>po_exit_code = (case code of None \<Rightarrow> - 1 | Some n \<Rightarrow> n),
                            po_stdout = rt_utf8_decode rt (out @ concat (map written_stdout es)),
                            po_stderr = rt_utf8_decode rt (err @ concat (map written_stderr es))\<rparr>
                  in if code = Some 0 then ProcessOk o' else ProcessError ProcessFailed (Some o')))
         | _ \<Rightarrow> Some (ProcessError ProcessUnavailable None))"

lemma rest_outcome_step:
  "rest_outcome rt d t out err [] = None"
  "rest_outcome rt d t out err (SpawnError # es) = Some (ProcessError ProcessUnavailable None)"
  "rest_outcome rt d (Some e) out err (Close code # es) = Some (ProcessError e None)"
  "rest_outcome rt d None out err (Close code # es) =
     (let o' = \<lparr>po_exit_code = (case code of None \<Rightarrow> - 1 | Some n \<Rightarrow> n), po_stdout = rt_utf8_decode rt out,
                po_stderr = rt_utf8_decode rt err\<rparr>
      in Some (if code = Some 0 then ProcessOk o' else ProcessError ProcessFailed (Some o')))"
  "\<not> ends_child ev \<Longrightarrow> rest_outcome rt d (Some e) out err (ev # es) = rest_outcome rt d (Some e) out' err' es"
  "rest_outcome rt d None out err (AbortSignal # es) = rest_outcome rt d (Some ProcessCancelled) out err es"
  "rest_outcome rt d None out err (TimerFired # es) = rest_outcome rt d (Some ProcessTimeout) out err es"
  "rest_outcome rt d None out err (Stdout chunk # es) =
     (if int (length out + length chunk + length err) > pd_max_output_bytes d
      then rest_outcome rt d (Some ProcessOutputTooLarge) out err es
      else rest_outcome rt d None (out @ chunk) err es)"
  "rest_outcome rt d None out err (Stderr chunk # es) =
     (if int (length out + (length err + length chunk)) > pd_max_output_bytes d
      then rest_outcome rt d (Some ProcessOutputTooLarge) out err es
      else rest_outcome rt d None out (err @ chunk) es)"
  by (auto simp: rest_outcome_def Let_def algebra_simps split: list.splits process_event.splits option.splits)

lemma run_rest_outcome:
  assumes "ch_settled c = None"
    and "ch_termination c \<noteq> None \<or> ch_stdout_bytes c = length (ch_stdout c) \<and> ch_stderr_bytes c = length (ch_stderr c)"
  shows "ch_settled (foldl (child_step rt d) c es) = rest_outcome rt d (ch_termination c) (ch_stdout c) (ch_stderr c) es"
  using assms
proof (induction es arbitrary: c)
  case (Cons e es)
  note step = settled_run Cons.IH rest_outcome_step
  show ?case
  proof (cases "ch_termination c")
    case None
    with Cons.prems show ?thesis
      by (cases e) (auto simp: step Let_def terminate_child_def finish_child_def)
  next
    case (Some stop)
    with Cons.prems show ?thesis
      by (cases e) (auto simp: step(1,2,3-5) terminate_child_def finish_child_def
          rest_outcome_step(5) [of _ rt d stop _ _ _ "ch_stdout c" "ch_stderr c"])
  qed
qed (simp add: rest_outcome_step)

text \<open>
  C29. What a run reports, whatever the order in which its events arrive. It ends with the first close or
  spawn failure. If before that the output of both streams together exceeded the bound of the command, the
  caller cancelled or the timer fired, the result is the first of these reasons and carries no output;
  otherwise it is the exit code with exactly the bytes written, a success for exit code 0 only.
\<close>

theorem process_run_outcome: "ch_settled (run_child rt d events) = child_outcome rt d events"
  unfolding run_child_def
  by (subst run_rest_outcome)
    (auto simp: new_child_def rest_outcome_def child_outcome_def Let_def
      split: list.splits process_event.splits option.splits)

text \<open>A registry with one command, and a call of it by the root.\<close>

definition example_command :: json where
  "example_command = JObj [(''name'', JStr ''tool''), (''binary'', JStr ''/bin/tool''), (''args'', JArr [JStr ''-v'']),
     (''cwd'', JStr ''/srv''), (''timeout_ms'', JInt 1000), (''max_output_bytes'', JInt 100),
     (''authority'', JStr ''invoke''), (''required_scope'', JStr ''process.command.tool''), (''mutates_state'', JBool False)]"

definition process_runtime :: runtime where
  "process_runtime = null_runtime
     \<lparr>rt_utf8_decode := (\<lambda>bytes. ''registry''),
      rt_json_parse := (\<lambda>s. Some (JObj [(''version'', JInt 2), (''commands'', JArr [example_command])]))\<rparr>"

definition example_files :: file_system where
  "example_files path =
     (if path \<in> set [''/bin/tool'', ''/bin/helper'', ''/etc/registry'', ''/srv'']
      then Some \<lparr>fi_is_file = path \<noteq> ''/srv'', fi_is_directory = path = ''/srv'', fi_executable = True,
             fi_realpath = path, fi_bytes = ELF_MAGIC\<rparr>
      else None)"

definition process_config :: gateway_config where
  "process_config = example_config
     \<lparr>cfg_process_registry_file := Some ''/etc/registry'', cfg_process_exec_bin := Some ''/bin/helper''\<rparr>"

definition example_descriptor :: process_descriptor where
  "example_descriptor =
     \<lparr>pd_name = ''tool'', pd_binary = ''/bin/tool'', pd_args = [''-v''], pd_cwd = ''/srv'', pd_timeout_ms = 1000,
      pd_max_output_bytes = 100, pd_authority = Invoke, pd_required_scope = ''process.command.tool'',
      pd_mutates_state = False\<rparr>"

lemma example_load:
  "load_registered_process_provider process_runtime example_files process_config
   = Some \<lparr>pp_registry = \<lparr>pg_commands = [(''tool'', example_descriptor)], pg_source = ''/etc/registry''\<rparr>,
       pp_helper_bin = ''/bin/helper''\<rparr>"
proof -
  have evals: "helper_available example_files ''/bin/helper''"
    "posix_normalize ''/etc/registry'' = ''/etc/registry''" "posix_is_absolute ''/etc/registry''"
    "load_commands example_files None [example_command] [] = Inr [(''tool'', example_descriptor)]"
    "has_exact_keys (JObj [(''version'', JInt 2), (''commands'', JArr [example_command])]) [''version'', ''commands'']"
    by code_simp+
  show ?thesis
    by (simp add: load_registered_process_provider_def load_registered_process_registry_def process_config_def
        example_config_def validate_absolute_path_def evals outside_def example_files_def process_runtime_def
        null_runtime_def ELF_MAGIC_def MAX_REGISTRY_BYTES_def MAX_COMMANDS_def field_def
        del: load_commands.simps)
qed

definition example_call :: request where
  "example_call = (example_request ''POST'' ''/v1/process/tool'' ''root'')\<lparr>rq_body := []\<rparr>"

lemma example_process_call:
  "fst (handle_registered_process_request process_runtime example_files (\<lambda>call. None) process_config 0 False example_call)
   = Some (spawn_of ''/bin/helper'' example_descriptor)"
proof -
  have evals: "resolve_authorization_context process_runtime example_call process_config 0
      = Inr (Some (compat_context RootAuth))"
    "dc_allowed (evaluate_capability_grant (ac_grant (compat_context RootAuth)) (registered_process_capability example_descriptor))"
    "fst (run_registered_process process_runtime example_files (\<lambda>call. None)
       \<lparr>pg_commands = [(''tool'', example_descriptor)], pg_source = ''/etc/registry''\<rparr> ''tool'' ''/bin/helper''
       (ac_grant (compat_context RootAuth)) False) = Some (spawn_of ''/bin/helper'' example_descriptor)"
    "starts_with ''/v1/process/tool'' ''/v1/process/''" "command_name_ok ''tool''"
    by code_simp+
  then show ?thesis
    by (simp add: handle_registered_process_request_def example_load Let_def split_beta evals(1)
        example_call_def example_request_def example_url_def)
qed

lemma process_route_spawns_registered_witness:
  "\<exists>auth. resolve_authorization_context process_runtime
       example_call process_config 0 = Inr (Some auth)
     \<and> has_required_scopes (gr_scopes (ac_grant auth)) [''process.command.tool'']
     \<and> native_executable example_files ''/bin/helper''"
proof -
  have "fst (handle_registered_process_request process_runtime example_files (\<lambda>call. None) process_config 0 False
      example_call) \<noteq> None"
    by (simp add: example_process_call)
  then obtain call answer where "handle_registered_process_request process_runtime example_files (\<lambda>call. None)
      process_config 0 False example_call = (Some call, answer)"
    by (metis eq_fst_iff not_Some_eq)
  from process_route_spawns_registered [OF this] obtain name auth bin where
    name: "u_pathname (rq_url example_call) = ''/v1/process/'' @ name"
    and auth: "resolve_authorization_context process_runtime
       example_call process_config 0 = Inr (Some auth)"
      "has_required_scopes (gr_scopes (ac_grant auth)) [''process.command.'' @ name]"
    and bin: "cfg_process_exec_bin process_config = Some bin" "native_executable example_files (posix_normalize bin)"
    by blast
  have "name = ''tool''" using name by (simp add: example_call_def)
  moreover have "bin = ''/bin/helper''" using bin(1) by (simp add: process_config_def)
  moreover have "posix_normalize ''/bin/helper'' = ''/bin/helper''" by code_simp
  ultimately show ?thesis using auth bin(2) by (intro exI [of _ auth]) simp
qed

end
