(* ===== verification/Metadata.thy ===== *)
theory Metadata
  imports OAuthApi Tasks
begin

text \<open>
  The OAuth discovery documents: the authorization server's (\<open>gateway/src/oauth-authorization-server-metadata.ts\<close>),
  the protected resource's with the bearer challenge (\<open>gateway/src/oauth-resource-metadata.ts\<close>), and the
  public surface that serves the latter before the task endpoints (\<open>gateway/src/public-surface.ts\<close>).
\<close>

text \<open>The elements of a \<open>Set\<close> built from a list: each at its first place.\<close>

definition js_set :: "string list \<Rightarrow> string list" where
  "js_set xs = rev (remdups (rev xs))"

lemma set_js_set [simp]: "set (js_set xs) = set xs"
  by (simp add: js_set_def)

lemma distinct_js_set [simp]: "distinct (js_set xs)"
  by (simp add: js_set_def)

definition text_array :: "string list \<Rightarrow> json" where
  "text_array xs = JArr (map JStr xs)"

definition document_response :: "json \<Rightarrow> nat \<Rightarrow> string \<Rightarrow> (string \<times> string) list \<Rightarrow> response" where
  "document_response v status cache extra =
     \<lparr>rs_status = status,
      rs_headers =
        map_set ''x-gateway-version'' GATEWAY_VERSION
          (map_set ''cache-control'' cache (map_set ''content-type'' ''application/json; charset=utf-8'' extra)),
      rs_body = JsonBody v\<rparr>"

lemma document_response_simps [simp]:
  "rs_status (document_response v n c h) = n" "rs_body (document_response v n c h) = JsonBody v"
  by (simp_all add: document_response_def)

section \<open>The authorization server\<close>

definition OAUTH_AUTHORIZATION_SERVER_METADATA_PATH :: string where
  "OAUTH_AUTHORIZATION_SERVER_METADATA_PATH = ''/.well-known/oauth-authorization-server''"

definition server_metadata :: "string \<Rightarrow> string list \<Rightarrow> bool \<Rightarrow> json" where
  "server_metadata issuer scopes cimd_supported =
     JObj ([(''issuer'', JStr issuer),
            (''authorization_endpoint'', JStr (issuer @ ''/oauth/authorize'')),
            (''token_endpoint'', JStr (issuer @ ''/oauth/token'')),
            (''response_types_supported'', text_array [''code'']),
            (''grant_types_supported'', text_array [''authorization_code'']),
            (''token_endpoint_auth_methods_supported'', text_array [''none'']),
            (''code_challenge_methods_supported'', text_array [''S256'']),
            (''scopes_supported'', text_array scopes)]
           @ (if cimd_supported then [(''client_id_metadata_document_supported'', JBool True)] else []))"

definition handle_oauth_authorization_server_metadata_request ::
  "request \<Rightarrow> gateway_config \<Rightarrow> oauth_client_policy option \<Rightarrow> bool \<Rightarrow> response option" where
  "handle_oauth_authorization_server_metadata_request r config policy cimd_supported =
     (if u_pathname (rq_url r) \<noteq> OAUTH_AUTHORIZATION_SERVER_METADATA_PATH then None
      else if rq_method r \<noteq> ''GET''
        then Some (document_response (JObj [(''error'', JStr ''method_not_allowed'')]) 405 ''no-store''
               [(''allow'', ''GET'')])
      else
        (case self_hosted_issuer config of
           None \<Rightarrow> Some (document_response (JObj [(''error'', JStr ''oauth_authorization_server_unavailable'')]) 404
                     ''no-store'' [])
         | Some issuer \<Rightarrow>
             if policy = None \<and> \<not> cimd_supported
               then Some (document_response (JObj [(''error'', JStr ''oauth_authorization_server_unavailable'')]) 404
                      ''no-store'' [])
             else
               (let scopes = js_set ((case policy of None \<Rightarrow> [] | Some p \<Rightarrow> pc_scopes p)
                               @ (if cimd_supported then [''capability.read''] else []))
                in Some (document_response (server_metadata issuer scopes cimd_supported) 200
                     ''public, max-age=300'' []))))"

section \<open>The protected resource\<close>

definition OAUTH_PROTECTED_RESOURCE_ROOT :: string where
  "OAUTH_PROTECTED_RESOURCE_ROOT = ''/.well-known/oauth-protected-resource''"

definition OAUTH_PROTECTED_RESOURCE_MCP :: string where
  "OAUTH_PROTECTED_RESOURCE_MCP = OAUTH_PROTECTED_RESOURCE_ROOT @ ''/mcp''"

text \<open>Both the public origin and the authorization server, where they are configured.\<close>

definition discovery_configured :: "gateway_config \<Rightarrow> (string \<times> string) option" where
  "discovery_configured config =
     (case (truthy (cfg_public_origin config), truthy (cfg_oauth_authorization_server config)) of
        (Some origin, Some server) \<Rightarrow> Some (origin, server)
      | _ \<Rightarrow> None)"

definition oauth_protected_resource_metadata_url :: "gateway_config \<Rightarrow> string option" where
  "oauth_protected_resource_metadata_url config =
     map_option (\<lambda>(origin, server). origin @ OAUTH_PROTECTED_RESOURCE_MCP) (discovery_configured config)"

definition oauth_bearer_challenge :: "gateway_config \<Rightarrow> string list \<Rightarrow> string" where
  "oauth_bearer_challenge config scopes_supported =
     (case oauth_protected_resource_metadata_url config of
        None \<Rightarrow> ''Bearer''
      | Some url \<Rightarrow>
          ''Bearer resource_metadata=\"'' @ url @ ''\"''
          @ (if length scopes_supported > 0 then '' scope=\"'' @ join '' '' scopes_supported @ ''\"'' else []))"

definition resource_metadata :: "string \<Rightarrow> string \<Rightarrow> string list \<Rightarrow> json" where
  "resource_metadata origin server scopes_supported =
     JObj ([(''resource'', JStr (origin @ ''/mcp'')), (''authorization_servers'', text_array [server]),
            (''bearer_methods_supported'', text_array [''header''])]
           @ (if length scopes_supported > 0 then [(''scopes_supported'', text_array scopes_supported)] else [])
           @ [(''resource_name'', JStr ''Task-que-que MCP'')])"

definition handle_oauth_protected_resource_metadata_request ::
  "request \<Rightarrow> gateway_config \<Rightarrow> string list \<Rightarrow> response option" where
  "handle_oauth_protected_resource_metadata_request r config scopes_supported =
     (let path = u_pathname (rq_url r)
      in if path \<noteq> OAUTH_PROTECTED_RESOURCE_ROOT \<and> path \<noteq> OAUTH_PROTECTED_RESOURCE_MCP then None
         else
           (case discovery_configured config of
              None \<Rightarrow> Some (document_response (error_body ''oauth_discovery_unavailable''
                        ''OAuth protected-resource discovery is not configured'') 404 ''no-store'' [])
            | Some (origin, server) \<Rightarrow>
                if rq_method r \<noteq> ''GET''
                  then Some (document_response (error_body ''method_not_allowed'' ''GET required'') 405 ''no-store''
                         [(''allow'', ''GET'')])
                else Some (document_response (resource_metadata origin server scopes_supported) 200
                       ''public, max-age=300'' [])))"

section \<open>The public surface\<close>

definition self_hosted_scopes :: "gateway_config \<Rightarrow> oauth_client_policy option \<Rightarrow> bool \<Rightarrow> string list" where
  "self_hosted_scopes config policy cimd_supported =
     (if cfg_oauth_authorization_server config = cfg_public_origin config
      then js_set ((case policy of None \<Rightarrow> [] | Some p \<Rightarrow> pc_scopes p)
             @ (if cimd_supported then [''capability.read''] else []))
      else [])"

definition handle_public_surface_request ::
  "runtime \<Rightarrow> upstream \<Rightarrow> gateway_config \<Rightarrow> task_registry \<Rightarrow> oauth_client_policy option \<Rightarrow> bool \<Rightarrow> rat
   \<Rightarrow> request \<Rightarrow> bucket \<Rightarrow> bucket \<times> response" where
  "handle_public_surface_request rt fetch config registry policy cimd_supported now r b =
     (case handle_oauth_protected_resource_metadata_request r config (self_hosted_scopes config policy cimd_supported) of
        Some response \<Rightarrow> (b, response)
      | None \<Rightarrow> handle_request rt fetch config registry now r b)"

end
