(* ===== verification/Filesystem.thy ===== *)
theory Filesystem
  imports ConfigLoad
begin

text \<open>
  The read-only filesystem endpoints (\<open>gateway/src/filesystem-api.ts\<close>): listing, state and text of a path
  under the configured root. The host's file system is a parameter that does not change during a request:
  what \<open>realpath\<close>, \<open>stat\<close>, \<open>opendir\<close> and \<open>readFile\<close> answer for a path, an error being its code, and the fatal
  UTF-8 decoder.
\<close>

datatype entry_type = FileEntry | DirectoryEntry | SymlinkEntry | OtherEntry

record file_stat =
  st_is_file :: bool
  st_is_directory :: bool
  st_size :: int

record host_files =
  hf_realpath :: "string \<Rightarrow> string + string"
  hf_stat :: "string \<Rightarrow> string + file_stat"
  hf_entries :: "string \<Rightarrow> string + (string \<times> entry_type) list"
  hf_read :: "string \<Rightarrow> string + nat list"
  hf_decode :: "nat list \<Rightarrow> string option"

definition MAX_RELATIVE_PATH_BYTES :: nat where "MAX_RELATIVE_PATH_BYTES = 4096"
definition MAX_DIRECTORY_ENTRIES :: nat where "MAX_DIRECTORY_ENTRIES = 256"
definition MAX_TEXT_FILE_BYTES :: int where "MAX_TEXT_FILE_BYTES = 262144"

section \<open>Errors\<close>

record boundary_error =
  be_status :: nat
  be_code :: string
  be_message :: string

definition boundary :: "nat \<Rightarrow> string \<Rightarrow> string \<Rightarrow> boundary_error + 'a" where
  "boundary status code message = Inl \<lparr>be_status = status, be_code = code, be_message = message\<rparr>"

definition filesystem_error :: "string \<Rightarrow> boundary_error" where
  "filesystem_error code =
     (if code = ''ENOENT''
        then \<lparr>be_status = 404, be_code = ''filesystem_not_found'', be_message = ''filesystem path was not found''\<rparr>
      else if code = ''EACCES'' \<or> code = ''EPERM''
        then \<lparr>be_status = 403, be_code = ''filesystem_forbidden'', be_message = ''filesystem path is not readable''\<rparr>
      else \<lparr>be_status = 500, be_code = ''filesystem_error'', be_message = ''filesystem provider failed''\<rparr>)"

definition host :: "string + 'a \<Rightarrow> boundary_error + 'a" where
  "host answer = map_sum filesystem_error id answer"

section \<open>Paths\<close>

text \<open>\<open>posix.normalize\<close> of a relative path without \<open>..\<close>, and \<open>resolve\<close> from an absolute root.\<close>

definition normalize_below :: "string \<Rightarrow> string" where
  "normalize_below path =
     (let segments = path_segments path; slash = (if ends_with path ''/'' then ''/'' else [])
      in (if segments = [] then ''.'' else join ''/'' segments) @ slash)"

definition resolve_from :: "string \<Rightarrow> string \<Rightarrow> string" where
  "resolve_from root path =
     ''/'' @ join ''/'' (path_segments (if posix_is_absolute path then path else root @ ''/'' @ path))"

definition escapes :: "string \<Rightarrow> bool" where
  "escapes path \<longleftrightarrow> path = ''..'' \<or> starts_with path ''../'' \<or> posix_is_absolute path"

definition normalize_relative_path :: "json option \<Rightarrow> boundary_error + string" where
  "normalize_relative_path v =
     (let value = str_of v
      in if \<not> is_string v then boundary 400 ''invalid_path'' ''path must be a relative string''
         else if length value = 0 \<or> byte_length value > MAX_RELATIVE_PATH_BYTES
           then boundary 400 ''invalid_path'' ''path length is invalid''
         else if list_ex (\<lambda>c. unit_of c = 0 \<or> unit_of c = 92) value \<or> posix_is_absolute value
           then boundary 400 ''invalid_path'' ''path must stay relative to the configured filesystem root''
         else if ''..'' \<in> set (split_on (CHR ''/'') value)
           then boundary 403 ''filesystem_escape'' ''parent traversal is not allowed''
         else if escapes (normalize_below value)
           then boundary 403 ''filesystem_escape'' ''path escapes the configured filesystem root''
         else Inr (normalize_below value))"

definition contained_by :: "string \<Rightarrow> string \<Rightarrow> bool" where
  "contained_by root target \<longleftrightarrow> (let delta = posix_relative root target in delta = [] \<or> \<not> escapes delta)"

definition canonical_root :: "host_files \<Rightarrow> string option \<Rightarrow> boundary_error + string" where
  "canonical_root w root =
     (case truthy root of
        None \<Rightarrow> boundary 503 ''filesystem_unavailable'' ''filesystem provider is not configured''
      | Some path \<Rightarrow>
          (case hf_realpath w path of
             Inl e \<Rightarrow> boundary 503 ''filesystem_unavailable'' ''configured filesystem root is not readable''
           | Inr canonical \<Rightarrow>
               if canonical = ''/''
                 then boundary 503 ''filesystem_unavailable''
                        ''configured filesystem root resolves to the host filesystem root''
               else
                 (case hf_stat w canonical of
                    Inl e \<Rightarrow> boundary 503 ''filesystem_unavailable'' ''configured filesystem root is not readable''
                  | Inr metadata \<Rightarrow>
                      if \<not> st_is_directory metadata
                        then boundary 503 ''filesystem_unavailable'' ''configured filesystem root is not a directory''
                      else Inr canonical)))"

definition resolve_target :: "host_files \<Rightarrow> string \<Rightarrow> string \<Rightarrow> boundary_error + string" where
  "resolve_target w root requested =
     (let candidate = resolve_from root requested
      in if \<not> contained_by root candidate
           then boundary 403 ''filesystem_escape'' ''path escapes the configured filesystem root''
         else
           (case host (hf_realpath w candidate) of
              Inl e \<Rightarrow> Inl e
            | Inr canonical \<Rightarrow>
                if \<not> contained_by root canonical
                  then boundary 403 ''filesystem_escape'' ''symlink target escapes the configured filesystem root''
                else Inr canonical))"

section \<open>Requests\<close>

definition read_path_request :: "runtime \<Rightarrow> request \<Rightarrow> boundary_error + string" where
  "read_path_request rt r =
     (if \<not> json_content_type r then boundary 415 ''unsupported_media_type'' ''content-type must be application/json''
      else
        (case check_declared_length rt r MAX_PUBLIC_REQUEST_BYTES of
           LengthInvalid \<Rightarrow> boundary 400 ''invalid_content_length'' ''invalid content-length''
         | LengthTooLarge \<Rightarrow> boundary 413 ''request_too_large'' ''request body exceeds 1 MiB''
         | LengthOk \<Rightarrow>
             if byte_length (rq_body r) > MAX_PUBLIC_REQUEST_BYTES
               then boundary 413 ''request_too_large'' ''request body exceeds 1 MiB''
             else
               (case rt_json_parse rt (rq_body r) of
                  None \<Rightarrow> boundary 400 ''invalid_json'' ''request body must contain valid JSON''
                | Some v \<Rightarrow>
                    if \<not> is_record v \<or> length (fields_of v) \<noteq> 1 \<or> field v ''path'' = None
                      then boundary 400 ''invalid_request'' ''request body must contain only path''
                    else normalize_relative_path (field v ''path''))))"

fun entry_type_text :: "entry_type \<Rightarrow> string" where
  "entry_type_text FileEntry = ''file''"
| "entry_type_text DirectoryEntry = ''directory''"
| "entry_type_text SymlinkEntry = ''symlink''"
| "entry_type_text OtherEntry = ''other''"

definition stat_type :: "file_stat \<Rightarrow> string" where
  "stat_type m = (if st_is_file m then ''file'' else if st_is_directory m then ''directory'' else ''other'')"

definition filesystem_root_available :: "host_files \<Rightarrow> string option \<Rightarrow> bool" where
  "filesystem_root_available w root \<longleftrightarrow> (case canonical_root w root of Inl e \<Rightarrow> False | Inr canonical \<Rightarrow> True)"

text \<open>The target with its metadata, which each operation begins with.\<close>

definition target_stat :: "host_files \<Rightarrow> string \<Rightarrow> string \<Rightarrow> boundary_error + string \<times> file_stat" where
  "target_stat w root requested =
     (case resolve_target w root requested of
        Inl e \<Rightarrow> Inl e
      | Inr target \<Rightarrow> map_sum id (Pair target) (host (hf_stat w target)))"

definition list_filesystem :: "runtime \<Rightarrow> host_files \<Rightarrow> string \<Rightarrow> string \<Rightarrow> boundary_error + response" where
  "list_filesystem rt w root requested =
     (case target_stat w root requested of
        Inl e \<Rightarrow> Inl e
      | Inr (target, metadata) \<Rightarrow>
          if \<not> st_is_directory metadata
            then boundary 400 ''filesystem_not_directory'' ''filesystem path is not a directory''
          else
            map_sum id (\<lambda>entries.
              json_response
                (JObj [(''path'', JStr requested),
                   (''entries'', JArr (map (\<lambda>(name, t). JObj [(''name'', JStr name), (''type'', JStr (entry_type_text t))])
                      (sort_by (\<lambda>a b. rt_locale_le rt (fst a) (fst b)) (take MAX_DIRECTORY_ENTRIES entries)))),
                   (''truncated'', JBool (length entries > MAX_DIRECTORY_ENTRIES)),
                   (''limit'', JInt (int MAX_DIRECTORY_ENTRIES))]) 200)
              (host (hf_entries w target)))"

definition stat_filesystem :: "host_files \<Rightarrow> string \<Rightarrow> string \<Rightarrow> boundary_error + response" where
  "stat_filesystem w root requested =
     map_sum id (\<lambda>(target, metadata).
       json_response (JObj [(''path'', JStr requested), (''type'', JStr (stat_type metadata)),
         (''size'', JInt (st_size metadata))]) 200)
       (target_stat w root requested)"

definition file_too_large :: "boundary_error + 'a" where
  "file_too_large = boundary 413 ''filesystem_file_too_large'' ''filesystem file exceeds 256 KiB read limit''"

definition read_filesystem :: "host_files \<Rightarrow> string \<Rightarrow> string \<Rightarrow> boundary_error + response" where
  "read_filesystem w root requested =
     (case target_stat w root requested of
        Inl e \<Rightarrow> Inl e
      | Inr (target, metadata) \<Rightarrow>
          if \<not> st_is_file metadata then boundary 400 ''filesystem_not_file'' ''filesystem path is not a regular file''
          else if st_size metadata > MAX_TEXT_FILE_BYTES then file_too_large
          else
            (case host (hf_read w target) of
               Inl e \<Rightarrow> Inl e
             | Inr bytes \<Rightarrow>
                 if int (length bytes) > MAX_TEXT_FILE_BYTES then file_too_large
                 else
                   (case hf_decode w bytes of
                      None \<Rightarrow> boundary 415 ''filesystem_not_utf8'' ''filesystem.read supports UTF-8 text files only''
                    | Some content \<Rightarrow>
                        Inr (json_response (JObj [(''path'', JStr requested), (''encoding'', JStr ''utf-8''),
                          (''bytes'', JInt (int (length bytes))), (''content'', JStr content)]) 200))))"

datatype filesystem_operation = ListOperation | StatOperation | ReadOperation

definition filesystem_operation_of :: "string \<Rightarrow> filesystem_operation option" where
  "filesystem_operation_of path =
     (if path = ''/v1/filesystem/list'' then Some ListOperation
      else if path = ''/v1/filesystem/stat'' then Some StatOperation
      else if path = ''/v1/filesystem/read'' then Some ReadOperation
      else None)"

definition run_filesystem ::
  "runtime \<Rightarrow> host_files \<Rightarrow> gateway_config \<Rightarrow> filesystem_operation \<Rightarrow> request \<Rightarrow> boundary_error + response" where
  "run_filesystem rt w config operation r =
     (case read_path_request rt r of
        Inl e \<Rightarrow> Inl e
      | Inr requested \<Rightarrow>
          (case canonical_root w (cfg_filesystem_root config) of
             Inl e \<Rightarrow> Inl e
           | Inr root \<Rightarrow>
               (case operation of
                  ListOperation \<Rightarrow> list_filesystem rt w root requested
                | StatOperation \<Rightarrow> stat_filesystem w root requested
                | ReadOperation \<Rightarrow> read_filesystem w root requested)))"

definition handle_filesystem_request ::
  "runtime \<Rightarrow> host_files \<Rightarrow> gateway_config \<Rightarrow> request \<Rightarrow> response option" where
  "handle_filesystem_request rt w config r =
     (case filesystem_operation_of (u_pathname (rq_url r)) of
        None \<Rightarrow> None
      | Some operation \<Rightarrow>
          if rq_method r \<noteq> ''POST'' then Some (error_response 405 ''method_not_allowed'' ''POST required'')
          else
            Some (case run_filesystem rt w config operation r of
                    Inl e \<Rightarrow> error_response (be_status e) (be_code e) (be_message e)
                  | Inr response \<Rightarrow> response))"

section \<open>What the endpoints disclose\<close>

lemma contained_by_iff: "contained_by root target \<longleftrightarrow> inside root target"
  using within_iff_inside [of root target]
  by (auto simp: contained_by_def path_is_same_or_within_def escapes_def Let_def)

lemma resolve_target_inside: "resolve_target w root requested = Inr target \<Longrightarrow> inside root target"
  by (auto simp: resolve_target_def Let_def boundary_def contained_by_iff split: if_splits sum.splits)

lemma inside_refl: "inside root root"
  by (auto simp: inside_def)

text \<open>
  Two file systems with the same links, that is with the same answers of \<open>realpath\<close>, which moreover agree on
  everything inside a directory.
\<close>

definition same_within :: "string \<Rightarrow> host_files \<Rightarrow> host_files \<Rightarrow> bool" where
  "same_within root w w' \<longleftrightarrow>
     hf_realpath w = hf_realpath w' \<and> hf_decode w = hf_decode w'
     \<and> (\<forall>p. inside root p \<longrightarrow> hf_stat w p = hf_stat w' p \<and> hf_entries w p = hf_entries w' p \<and> hf_read w p = hf_read w' p)"

lemma same_within_target:
  assumes "same_within root w w'"
  shows "target_stat w root requested = target_stat w' root requested"
proof -
  have "resolve_target w root requested = resolve_target w' root requested"
    using assms by (simp add: same_within_def resolve_target_def Let_def)
  then show ?thesis
    using assms resolve_target_inside [of w root requested]
    by (auto simp: target_stat_def same_within_def split: sum.split)
qed

lemma target_stat_inside: "target_stat w root requested = Inr (target, metadata) \<Longrightarrow> inside root target"
  using resolve_target_inside
  by (cases "resolve_target w root requested"; cases "host (hf_stat w (projr (resolve_target w root requested)))")
    (auto simp: target_stat_def)

lemma same_within_operations:
  assumes "same_within root w w'"
  shows "list_filesystem rt w root requested = list_filesystem rt w' root requested"
    and "stat_filesystem w root requested = stat_filesystem w' root requested"
    and "read_filesystem w root requested = read_filesystem w' root requested"
  using assms target_stat_inside [of w root requested] same_within_target [OF assms, of requested]
  by (auto simp: list_filesystem_def stat_filesystem_def read_filesystem_def same_within_def split: sum.splits)


text \<open>A root with one file, and a secret outside of it that a link in the root points to.\<close>

definition example_host :: "string \<Rightarrow> host_files" where
  "example_host secret =
     \<lparr>hf_realpath = (\<lambda>p. if p = ''/srv/link'' then Inr ''/etc/key'' else Inr p),
      hf_stat = (\<lambda>p. Inr \<lparr>st_is_file = p \<noteq> ''/srv'', st_is_directory = p = ''/srv'', st_size = 1\<rparr>),
      hf_entries = (\<lambda>p. Inr []),
      hf_read = (\<lambda>p. Inr (if p = ''/etc/key'' then utf8 secret else utf8 ''x'')),
      hf_decode = (\<lambda>bytes. Some (map char_of bytes))\<rparr>"

definition path_runtime :: "string \<Rightarrow> runtime" where
  "path_runtime path = null_runtime\<lparr>rt_json_parse := (\<lambda>s. Some (JObj [(''path'', JStr path)]))\<rparr>"


end
