(* ===== verification/FilesystemMutation.thy ===== *)
theory FilesystemMutation
  imports Processes
begin

text \<open>
  Writing under the configured root (\<open>gateway/src/filesystem-mutation-api.ts\<close>): the request is checked
  and handed to a helper program, whose exit and error record decide what the caller is told about the
  state of the write. The helper is a parameter: the events of the child for the call it is started with, or
  \<open>None\<close> where spawning throws.
\<close>

definition MAX_MUTATION_PATH_BYTES :: nat where "MAX_MUTATION_PATH_BYTES = 4096"
definition MAX_MUTATOR_STDERR :: nat where "MAX_MUTATOR_STDERR = 16384"

datatype mutation_operation = Probe | WriteFile | MakeDirectory

fun mutation_operation_text :: "mutation_operation \<Rightarrow> string" where
  "mutation_operation_text Probe = ''probe''"
| "mutation_operation_text WriteFile = ''write''"
| "mutation_operation_text MakeDirectory = ''mkdir''"

text \<open>The program, its arguments and what is written to its standard input.\<close>

record mutator_call =
  mc_binary :: string
  mc_args :: "string list"
  mc_payload :: "nat list option"

datatype mutator_event = MutatorStderr string | MutatorSpawnError | MutatorClose "int option" | MutatorTimeout

record mutation_failure =
  mf_status :: nat
  mf_code :: string
  mf_message :: string
  mf_details :: "(string \<times> json) list"

definition plain_failure :: "nat \<Rightarrow> string \<Rightarrow> string \<Rightarrow> mutation_failure" where
  "plain_failure status code message = \<lparr>mf_status = status, mf_code = code, mf_message = message, mf_details = []\<rparr>"

definition mutation_error_response :: "mutation_failure \<Rightarrow> response" where
  "mutation_error_response e =
     json_response
       (JObj [(''error'', JObj ([(''code'', JStr (mf_code e)), (''message'', JStr (mf_message e))] @ mf_details e))])
       (mf_status e)"

section \<open>The request\<close>

definition path_component_ok :: "string \<Rightarrow> bool" where
  "path_component_ok s \<longleftrightarrow> s \<noteq> [] \<and> s \<noteq> ''.'' \<and> s \<noteq> ''..''"

definition validate_mutation_path :: "json option \<Rightarrow> mutation_failure + string" where
  "validate_mutation_path v =
     (let value = str_of v
      in if \<not> is_string v then Inl (plain_failure 400 ''invalid_path'' ''path must be a relative string'')
         else if length value = 0 \<or> byte_length value > MAX_MUTATION_PATH_BYTES
                 \<or> list_ex (\<lambda>c. unit_of c = 0 \<or> unit_of c = 92) value \<or> posix_is_absolute value
           then Inl (plain_failure 400 ''invalid_path'' ''path is not a valid delegated relative path'')
         else if list_ex (\<lambda>s. \<not> path_component_ok s) (split_on (CHR ''/'') value)
           then Inl (plain_failure 400 ''invalid_path''
                  ''path components must be exact and may not contain dot traversal'')
         else Inr value)"

definition read_bounded_json :: "runtime \<Rightarrow> request \<Rightarrow> mutation_failure + json" where
  "read_bounded_json rt r =
     (if \<not> json_content_type r
        then Inl (plain_failure 415 ''unsupported_media_type'' ''content-type must be application/json'')
      else
        (case check_declared_length rt r MAX_PUBLIC_REQUEST_BYTES of
           LengthInvalid \<Rightarrow> Inl (plain_failure 400 ''invalid_content_length'' ''invalid content-length'')
         | LengthTooLarge \<Rightarrow> Inl (plain_failure 413 ''request_too_large'' ''request body exceeds 1 MiB'')
         | LengthOk \<Rightarrow>
             if byte_length (rq_body r) > MAX_PUBLIC_REQUEST_BYTES
               then Inl (plain_failure 413 ''request_too_large'' ''request body exceeds 1 MiB'')
             else
               (case rt_json_parse rt (rq_body r) of
                  None \<Rightarrow> Inl (plain_failure 400 ''invalid_json'' ''request body must contain valid JSON'')
                | Some v \<Rightarrow>
                    if \<not> is_record v
                      then Inl (plain_failure 400 ''invalid_request'' ''request body must be a JSON object'')
                    else Inr v)))"

text \<open>The path and, for a write, the bytes.\<close>

definition parse_mutation :: "mutation_operation \<Rightarrow> json \<Rightarrow> mutation_failure + string \<times> nat list option" where
  "parse_mutation operation v =
     (if operation = WriteFile then
        (if \<not> exact_keys v [''path'', ''content''] \<or> \<not> is_string (field v ''content'')
           then Inl (plain_failure 400 ''invalid_request'' ''filesystem.write requires exactly path and UTF-8 content'')
         else
           (case validate_mutation_path (field v ''path'') of
              Inl e \<Rightarrow> Inl e
            | Inr path \<Rightarrow>
                if byte_length (str_of (field v ''content'')) > MAX_PUBLIC_REQUEST_BYTES
                  then Inl (plain_failure 413 ''filesystem_payload_too_large''
                         ''filesystem mutation payload exceeds 1 MiB'')
                else Inr (path, Some (utf8 (str_of (field v ''content''))))))
      else if \<not> exact_keys v [''path'']
        then Inl (plain_failure 400 ''invalid_request'' ''filesystem.mkdir requires exactly path'')
      else map_sum id (\<lambda>path. (path, None)) (validate_mutation_path (field v ''path'')))"

section \<open>The helper\<close>

text \<open>The pieces between line ends, a carriage return before a line end belonging to it.\<close>

fun split_lines :: "string list \<Rightarrow> string list" where
  "split_lines [] = []"
| "split_lines [s] = [s]"
| "split_lines (s # t # ss) =
     (if s \<noteq> [] \<and> unit_of (last s) = 13 then butlast s else s) # split_lines (t # ss)"

fun error_record :: "runtime \<Rightarrow> string list \<Rightarrow> string" where
  "error_record rt [] = ''mutation_process_error''"
| "error_record rt (line # rest) =
     (case rt_json_parse rt line of
        Some v \<Rightarrow>
          if is_record v \<and> field v ''ok'' = Some (JBool False) \<and> is_string (field v ''error'')
            then str_of (field v ''error'') else error_record rt rest
      | None \<Rightarrow> error_record rt rest)"

definition parse_mutator_error :: "runtime \<Rightarrow> string \<Rightarrow> string" where
  "parse_mutator_error rt stderr = error_record rt (rev (split_lines (split_on (char_of (10::nat)) (trim stderr))))"

text \<open>The first event that settles the run: \<open>Inr\<close> a success, \<open>Inl\<close> the error.\<close>

fun mutator_outcome :: "runtime \<Rightarrow> string \<Rightarrow> mutator_event list \<Rightarrow> (string + unit) option" where
  "mutator_outcome rt stderr [] = None"
| "mutator_outcome rt stderr (MutatorStderr chunk # es) =
     mutator_outcome rt
       (if length stderr < MAX_MUTATOR_STDERR then stderr @ take (MAX_MUTATOR_STDERR - length stderr) chunk else stderr) es"
| "mutator_outcome rt stderr (MutatorSpawnError # es) = Some (Inl ''mutation_process_unavailable'')"
| "mutator_outcome rt stderr (MutatorClose code # es) =
     Some (if code = Some 0 then Inr () else Inl (parse_mutator_error rt stderr))"
| "mutator_outcome rt stderr (MutatorTimeout # es) = Some (Inl ''mutation_process_timeout'')"

definition mutator_call_of ::
  "string \<Rightarrow> string \<Rightarrow> mutation_operation \<Rightarrow> string option \<Rightarrow> nat list option \<Rightarrow> mutator_call" where
  "mutator_call_of binary root operation path payload =
     \<lparr>mc_binary = binary,
      mc_args = [mutation_operation_text operation, ''--root'', root]
        @ (case path of None \<Rightarrow> [] | Some p \<Rightarrow> [''--path'', p]),
      mc_payload = payload\<rparr>"

definition canonical_executable_available :: "file_system \<Rightarrow> string \<Rightarrow> bool" where
  "canonical_executable_available fs binary \<longleftrightarrow>
     (case fs binary of
        None \<Rightarrow> False
      | Some f \<Rightarrow> fi_is_file f \<and> fi_executable f \<and> posix_normalize (fi_realpath f) = binary)"

type_synonym mutator = "mutator_call \<Rightarrow> mutator_event list option"

definition invoke_mutator ::
  "runtime \<Rightarrow> file_system \<Rightarrow> mutator \<Rightarrow> gateway_config \<Rightarrow> mutation_operation \<Rightarrow> string option \<Rightarrow> nat list option
   \<Rightarrow> mutator_call option \<times> (string + unit) option" where
  "invoke_mutator rt fs mutator config operation path payload =
     (case (truthy (cfg_filesystem_root config), truthy (cfg_filesystem_mutator_bin config)) of
        (Some root, Some binary) \<Rightarrow>
          if \<not> canonical_executable_available fs binary then (None, Some (Inl ''mutation_process_unavailable''))
          else
            (let call = mutator_call_of binary root operation path payload
             in (Some call,
                 (case mutator call of
                    None \<Rightarrow> Some (Inl ''mutation_process_unavailable'')
                  | Some events \<Rightarrow> mutator_outcome rt [] events)))
      | _ \<Rightarrow> (None, Some (Inl ''mutation_process_unavailable'')))"

definition filesystem_mutation_available :: "runtime \<Rightarrow> file_system \<Rightarrow> mutator \<Rightarrow> gateway_config \<Rightarrow> bool" where
  "filesystem_mutation_available rt fs mutator config \<longleftrightarrow>
     snd (invoke_mutator rt fs mutator config Probe None None) = Some (Inr ())"

section \<open>What the caller is told\<close>

definition outcome_unknown :: "nat \<Rightarrow> string \<Rightarrow> mutation_failure" where
  "outcome_unknown status message =
     \<lparr>mf_status = status, mf_code = ''filesystem_mutation_outcome_unknown'', mf_message = message,
      mf_details = [(''committed'', JStr ''unknown''), (''durability'', JStr ''unknown''), (''retry_safe'', JBool False)]\<rparr>"

definition map_mutation_failure :: "string \<Rightarrow> mutation_failure" where
  "map_mutation_failure e =
     (if e = ''invalid_root'' \<or> e = ''mutation_process_unavailable''
        then plain_failure 503 ''filesystem_mutator_unavailable'' ''filesystem mutation provider is unavailable''
      else if e = ''mutation_process_timeout''
        then outcome_unknown 504
          ''filesystem mutation timed out without a final proof; it may already have committed, so do not retry blindly''
      else if e = ''mutation_process_error''
        then outcome_unknown 500
          ''filesystem mutator exited without a final proof; it may already have committed, so do not retry blindly''
      else if e = ''invalid_path''
        then plain_failure 400 ''invalid_path'' ''mutation path was rejected by the Rust boundary''
      else if e = ''payload_too_large''
        then plain_failure 413 ''filesystem_payload_too_large'' ''filesystem mutation payload exceeds 1 MiB''
      else if e = ''committed_durability_unknown''
        then \<lparr>mf_status = 500, mf_code = ''filesystem_committed_durability_unknown'',
              mf_message = ''filesystem mutation committed but durability could not be proven; do not retry blindly'',
              mf_details = [(''committed'', JBool True), (''durability'', JStr ''unknown''), (''retry_safe'', JBool False)]\<rparr>
      else if e = ''mutation_io_error''
        then \<lparr>mf_status = 500, mf_code = ''filesystem_mutation_failed'',
              mf_message = ''filesystem mutation failed before commit'',
              mf_details = [(''committed'', JBool False), (''retry_safe'', JBool True)]\<rparr>
      else outcome_unknown 500
          ''filesystem mutation ended without a recognized proof state; do not retry blindly'')"

definition mutation_operation_of :: "string \<Rightarrow> mutation_operation option" where
  "mutation_operation_of path =
     (if path = ''/v1/filesystem/write'' then Some WriteFile
      else if path = ''/v1/filesystem/mkdir'' then Some MakeDirectory
      else None)"

text \<open>
  The call of the helper, if any, and the answer: \<open>Some None\<close> passes the request on, \<open>None\<close> stands for a
  helper that never ends.
\<close>

definition handle_filesystem_mutation_request ::
  "runtime \<Rightarrow> file_system \<Rightarrow> mutator \<Rightarrow> gateway_config \<Rightarrow> request \<Rightarrow> mutator_call option \<times> response option option" where
  "handle_filesystem_mutation_request rt fs mutator config r =
     (case mutation_operation_of (u_pathname (rq_url r)) of
        None \<Rightarrow> (None, Some None)
      | Some operation \<Rightarrow>
          if rq_method r \<noteq> ''POST'' then (None, Some (Some (error_response 405 ''method_not_allowed'' ''POST required'')))
          else
            (case read_bounded_json rt r of
               Inl e \<Rightarrow> (None, Some (Some (mutation_error_response e)))
             | Inr v \<Rightarrow>
                 (case parse_mutation operation v of
                    Inl e \<Rightarrow> (None, Some (Some (mutation_error_response e)))
                  | Inr (path, payload) \<Rightarrow>
                      (case invoke_mutator rt fs mutator config operation (Some path) payload of
                         (call, None) \<Rightarrow> (call, None)
                       | (call, Some (Inl e)) \<Rightarrow> (call, Some (Some (mutation_error_response (map_mutation_failure e))))
                       | (call, Some (Inr ok)) \<Rightarrow>
                           (call, Some (Some (json_response
                              (JObj [(''operation'', JStr (mutation_operation_text operation)), (''path'', JStr path),
                                     (''committed'', JBool True), (''durability'', JStr ''synced'')]) 200)))))))"

section \<open>The helper stays under the root\<close>

lemma split_on_sep: "split_on d (s @ d # t) = split_on d s @ split_on d t"
proof (induction s)
  case (Cons c s)
  then show ?case by (cases "split_on d s") (auto split: list.splits)
qed simp

lemma resolve_segments_append:
  "list_all path_component_ok ys \<Longrightarrow> resolve_segments (xs @ ys) acc = resolve_segments xs acc @ ys"
proof (induction xs acc rule: resolve_segments.induct)
  case (1 acc)
  then show ?case by (induction ys arbitrary: acc) (auto simp: path_component_ok_def)
qed auto

lemma segments_below_root:
  assumes "list_all path_component_ok (split_on (CHR ''/'') path)"
  shows "path_segments (root @ ''/'' @ path) = path_segments root @ split_on (CHR ''/'') path"
  using assms by (simp add: path_segments_def split_on_sep resolve_segments_append)

lemma validate_mutation_path_Inr:
  assumes "validate_mutation_path v = Inr path"
  shows "v = Some (JStr path) \<and> byte_length path \<le> 4096 \<and> list_all path_component_ok (split_on (CHR ''/'') path)"
  using assms
  by (auto simp: validate_mutation_path_def Let_def is_string_iff list_all_iff list_ex_iff MAX_MUTATION_PATH_BYTES_def
      split: if_splits)

lemma parse_mutation_Inr:
  assumes "parse_mutation operation v = Inr (path, payload)"
  shows "byte_length path \<le> 4096 \<and> list_all path_component_ok (split_on (CHR ''/'') path)
     \<and> (case payload of None \<Rightarrow> operation \<noteq> WriteFile
        | Some bytes \<Rightarrow> operation = WriteFile \<and> length bytes \<le> MAX_PUBLIC_REQUEST_BYTES
            \<and> (\<exists>content. field v ''content'' = Some (JStr content) \<and> bytes = utf8 content))"
  using assms validate_mutation_path_Inr
  by (auto simp: parse_mutation_def map_sum_Inr is_string_iff byte_length_def split: if_splits sum.splits)

lemma invoke_mutator_call:
  assumes "invoke_mutator rt fs mutator config operation path payload = (Some call, outcome)"
  shows "\<exists>root binary. cfg_filesystem_root config = Some root \<and> cfg_filesystem_mutator_bin config = Some binary
     \<and> call = mutator_call_of binary root operation path payload"
  using assms by (auto simp: invoke_mutator_def Let_def split: option.splits if_splits)

text \<open>
  C17. The helper is only ever told to write below the root. When a mutation request starts the helper, it is
  the configured binary with the configured root; the path it is given has at most 4096 bytes and, put
  after the root and resolved, it is the root's segments followed by exactly its own, which are at least one;
  and a write carries the bytes of the requested content, at most 1 MiB, where a directory carries none.
\<close>

theorem mutation_call_confined:
  assumes "handle_filesystem_mutation_request rt fs mutator config r = (Some call, answer)"
  shows "\<exists>operation root path.
     rq_method r = ''POST'' \<and> mutation_operation_of (u_pathname (rq_url r)) = Some operation
     \<and> cfg_filesystem_root config = Some root \<and> cfg_filesystem_mutator_bin config = Some (mc_binary call)
     \<and> mc_args call = [mutation_operation_text operation, ''--root'', root, ''--path'', path]
     \<and> byte_length path \<le> 4096 \<and> split_on (CHR ''/'') path \<noteq> []
     \<and> path_segments (root @ ''/'' @ path) = path_segments root @ split_on (CHR ''/'') path
     \<and> (case mc_payload call of None \<Rightarrow> operation = MakeDirectory
        | Some bytes \<Rightarrow> operation = WriteFile \<and> length bytes \<le> MAX_PUBLIC_REQUEST_BYTES
            \<and> (\<exists>v content. rt_json_parse rt (rq_body r) = Some v \<and> field v ''content'' = Some (JStr content)
                 \<and> bytes = utf8 content))"
proof -
  from assms obtain operation v path payload outcome where op: "mutation_operation_of (u_pathname (rq_url r)) = Some operation"
    "rq_method r = ''POST''" "read_bounded_json rt r = Inr v" and p: "parse_mutation operation v = Inr (path, payload)"
    and inv: "invoke_mutator rt fs mutator config operation (Some path) payload = (Some call, outcome)"
    by (auto simp: handle_filesystem_mutation_request_def split: option.splits if_splits sum.splits prod.splits)
  have "rt_json_parse rt (rq_body r) = Some v"
    using op(3) by (auto simp: read_bounded_json_def split: if_splits length_check.splits option.splits)
  moreover have "operation \<noteq> Probe" using op(1) by (auto simp: mutation_operation_of_def split: if_splits)
  moreover note parse_mutation_Inr [OF p] invoke_mutator_call [OF inv]
  ultimately show ?thesis
    using op segments_below_root [of path] by (cases operation) (auto simp: mutator_call_of_def split: option.splits)
qed

section \<open>What the caller learns\<close>

definition told :: "response \<Rightarrow> string \<Rightarrow> json option" where
  "told response k =
     (case rs_body response of
        JsonBody v \<Rightarrow> (case field v ''error'' of Some e \<Rightarrow> field e k | None \<Rightarrow> field v k)
      | _ \<Rightarrow> None)"

definition helper_said :: "runtime \<Rightarrow> mutator \<Rightarrow> mutator_call option \<Rightarrow> string + unit \<Rightarrow> bool" where
  "helper_said rt mutator call outcome \<longleftrightarrow>
     (\<exists>c events. call = Some c \<and> mutator c = Some events \<and> mutator_outcome rt [] events = Some outcome)"

lemma helper_said_invoke:
  assumes "invoke_mutator rt fs mutator config operation path payload = (call, Some outcome)"
  shows "(\<forall>x. helper_said rt mutator call x \<longleftrightarrow> x = outcome)
     \<or> outcome = Inl ''mutation_process_unavailable'' \<and> (\<forall>x. \<not> helper_said rt mutator call x)"
  using assms by (auto simp: invoke_mutator_def helper_said_def Let_def split: option.splits if_splits)

lemma helper_said_None [simp]: "\<not> helper_said rt mutator None x"
  by (simp add: helper_said_def)

lemma validate_mutation_path_Inl:
  "validate_mutation_path v = Inl e \<Longrightarrow> mf_details e = [] \<and> mf_status e = 400"
  by (auto simp: validate_mutation_path_def plain_failure_def Let_def split: if_splits)

lemma map_sum_Inl: "map_sum f g x = Inl y \<longleftrightarrow> (\<exists>a. x = Inl a \<and> y = f a)"
  by (cases x) auto

lemma mutation_request_refused:
  "read_bounded_json rt r = Inl e \<Longrightarrow> mf_details e = [] \<and> mf_status e \<noteq> 200"
  "parse_mutation operation v = Inl e \<Longrightarrow> mf_details e = [] \<and> mf_status e \<noteq> 200"
  by (auto simp: read_bounded_json_def parse_mutation_def plain_failure_def map_sum_Inl
      split: if_splits length_check.splits option.splits sum.splits dest!: validate_mutation_path_Inl)

lemma map_mutation_failure_details:
  "map_of (mf_details (map_mutation_failure e)) ''retry_safe'' = Some (JBool True) \<longleftrightarrow> e = ''mutation_io_error''"
  "map_of (mf_details (map_mutation_failure e)) ''committed'' = Some (JBool True) \<longleftrightarrow> e = ''committed_durability_unknown''"
  "mf_status (map_mutation_failure e) \<noteq> 200"
  unfolding map_mutation_failure_def plain_failure_def outcome_unknown_def by (simp_all split: if_split)

lemma told_error:
  assumes "k = ''retry_safe'' \<or> k = ''committed''"
  shows "told (mutation_error_response e) k = map_of (mf_details e) k"
  using assms by (auto simp: told_def mutation_error_response_def)

lemma mutation_error_status [simp]: "rs_status (mutation_error_response e) = mf_status e"
  by (simp add: mutation_error_response_def)

text \<open>How a mutation request is answered: by a refusal before the helper, or by what became of the helper.\<close>

lemma mutation_answer_cases [consumes 1, case_names not_post refused run]:
  assumes "handle_filesystem_mutation_request rt fs mutator config r = (call, Some (Some response))"
  obtains (not_post) "response = error_response 405 ''method_not_allowed'' ''POST required''" "call = None"
    | (refused) e where "response = mutation_error_response e" "mf_details e = []" "mf_status e \<noteq> 200" "call = None"
    | (run) operation path payload outcome where
        "invoke_mutator rt fs mutator config operation (Some path) payload = (call, Some outcome)"
        "response = (case outcome of Inl e \<Rightarrow> mutation_error_response (map_mutation_failure e)
          | Inr ok \<Rightarrow> json_response (JObj [(''operation'', JStr (mutation_operation_text operation)), (''path'', JStr path),
                       (''committed'', JBool True), (''durability'', JStr ''synced'')]) 200)"
proof -
  obtain operation where op: "mutation_operation_of (u_pathname (rq_url r)) = Some operation"
    using assms by (cases "mutation_operation_of (u_pathname (rq_url r))") (auto simp: handle_filesystem_mutation_request_def)
  note eq = assms [unfolded handle_filesystem_mutation_request_def op option.case]
  show thesis
  proof (cases "rq_method r = ''POST''")
    case False
    with eq not_post show thesis by simp
  next
    case True
    note eq = eq [unfolded True simp_thms if_False]
    show thesis
    proof (cases "read_bounded_json rt r")
      case (Inl e)
      with eq mutation_request_refused(1) [OF Inl] show thesis by (intro refused [of e]) auto
    next
      case (Inr v)
      note eq = eq [unfolded Inr sum.case]
      show thesis
      proof (cases "parse_mutation operation v")
        case (Inl e)
        with eq mutation_request_refused(2) [OF Inl] show thesis by (intro refused [of e]) auto
      next
        case (Inr x)
        with eq obtain outcome where
          "invoke_mutator rt fs mutator config operation (Some (fst x)) (snd x) = (call, Some outcome)"
          by (auto split: prod.splits option.splits sum.splits)
        with eq Inr show thesis
          by (intro run [of operation "fst x" "snd x" outcome]) (auto split: prod.splits sum.splits)
      qed
    qed
  qed
qed


text \<open>A helper that reports a failure before the commit.\<close>

definition mutation_runtime :: runtime where
  "mutation_runtime = null_runtime\<lparr>rt_json_parse := (\<lambda>s.
     if s = ''fail'' then Some (JObj [(''ok'', JBool False), (''error'', JStr ''mutation_io_error'')])
     else Some (JObj [(''path'', JStr ''a/b'')]))\<rparr>"

definition mutation_files :: file_system where
  "mutation_files path = Some \<lparr>fi_is_file = True, fi_is_directory = False, fi_executable = True, fi_realpath = path,
     fi_bytes = []\<rparr>"

definition mutation_config :: gateway_config where
  "mutation_config = example_config
     \<lparr>cfg_filesystem_root := Some ''/srv'', cfg_filesystem_mutator_bin := Some ''/bin/write''\<rparr>"

definition failing_mutator :: mutator where
  "failing_mutator call = Some [MutatorStderr ''fail'', MutatorClose (Some 1)]"

abbreviation "mkdir_request \<equiv> example_request ''POST'' ''/v1/filesystem/mkdir'' ''root''"

lemma example_mutation:
  "handle_filesystem_mutation_request mutation_runtime mutation_files failing_mutator mutation_config mkdir_request
   = (Some (mutator_call_of ''/bin/write'' ''/srv'' MakeDirectory (Some ''a/b'') None),
      Some (Some (mutation_error_response (map_mutation_failure ''mutation_io_error''))))"
proof -
  have evals: "parse_mutation MakeDirectory (JObj [(''path'', JStr ''a/b'')]) = Inr (''a/b'', None)"
    "canonical_executable_available mutation_files ''/bin/write''"
    "parse_mutator_error mutation_runtime ''fail'' = ''mutation_io_error''"
    "json_content_type mkdir_request"
    by code_simp+
  have outcome: "mutator_outcome mutation_runtime [] [MutatorStderr ''fail'', MutatorClose (Some 1)]
      = Some (Inl ''mutation_io_error'')"
    by (simp add: MAX_MUTATOR_STDERR_def evals(3))
  have body: "read_bounded_json mutation_runtime mkdir_request = Inr (JObj [(''path'', JStr ''a/b'')])"
    using evals(4)
    by (simp add: read_bounded_json_def check_declared_length_def header_def example_request_def
        MAX_PUBLIC_REQUEST_BYTES_def mutation_runtime_def)
  show ?thesis
    by (simp add: handle_filesystem_mutation_request_def mutation_operation_of_def body evals invoke_mutator_def
        outcome mutation_config_def failing_mutator_def Let_def example_config_def del: mutator_outcome.simps)
qed

lemma mutation_call_confined_witness:
  "path_segments (''/srv'' @ ''/'' @ ''a/b'') = path_segments ''/srv'' @ split_on (CHR ''/'') ''a/b''"
  using mutation_call_confined [OF example_mutation] by (auto simp: mutator_call_of_def)


end
