(* ===== verification/Git.thy ===== *)
theory Git
  imports Processes
begin

text \<open>
  The git metadata endpoints (\<open>gateway/src/git-api.ts\<close>): head, log and refs of the configured repository,
  read by a git program that gets fixed arguments and a scrubbed environment. The program is a parameter: the
  events of the child for the call, or \<open>None\<close> where spawning throws; the environment of the gateway and
  the fatal UTF-8 decoder are parameters too.
\<close>

definition MAX_GIT_OUTPUT_BYTES :: nat where "MAX_GIT_OUTPUT_BYTES = 262144"
definition MAX_LOG_COMMITS :: nat where "MAX_LOG_COMMITS = 32"
definition MAX_REFS :: nat where "MAX_REFS = 128"

definition is_lower_hex :: "char \<Rightarrow> bool" where
  "is_lower_hex c \<longleftrightarrow> is_digit c \<or> between 97 102 c"

definition HASH :: "string \<Rightarrow> bool" where
  "HASH s \<longleftrightarrow> (length s = 40 \<or> length s = 64) \<and> list_all is_lower_hex s"

datatype git_operation = GitProbe | GitHeadSha | GitHeadBranch | GitLog | GitRefs

record git_call =
  gi_binary :: string
  gi_args :: "string list"
  gi_env :: "(string \<times> string) list"

datatype git_event = GitStdout "nat list" | GitStderr "nat list" | GitSpawnError | GitClose "int option" | GitTimeout

datatype git_result = GitOk string | GitError string

record git_host =
  gh_files :: file_system
  gh_env :: "(string \<times> string) list"
  gh_run :: "git_call \<Rightarrow> git_event list option"
  gh_decode :: "nat list \<Rightarrow> string option"

section \<open>The program\<close>

definition safe_git_environment :: "(string \<times> string) list \<Rightarrow> (string \<times> string) list" where
  "safe_git_environment env =
     foldl (\<lambda>e (k, v). map_set k v e)
       (filter (\<lambda>(k, v). \<not> (starts_with k ''GIT_'' \<or> k = ''PAGER'' \<or> k = ''LESS'' \<or> k = ''LV'')) env)
       [(''GIT_CONFIG_NOSYSTEM'', ''1''), (''GIT_CONFIG_GLOBAL'', ''/dev/null''), (''GIT_ATTR_NOSYSTEM'', ''1''),
        (''GIT_TERMINAL_PROMPT'', ''0''), (''GIT_PAGER'', ''cat''), (''GIT_OPTIONAL_LOCKS'', ''0''),
        (''GIT_NO_REPLACE_OBJECTS'', ''1''), (''GIT_NO_LAZY_FETCH'', ''1''), (''PAGER'', ''cat''), (''LC_ALL'', ''C''),
        (''LANG'', ''C'')]"

fun operation_args :: "git_operation \<Rightarrow> string list" where
  "operation_args GitProbe = [''rev-parse'', ''--show-toplevel'']"
| "operation_args GitHeadSha = [''rev-parse'', ''--verify'', ''HEAD'']"
| "operation_args GitHeadBranch = [''symbolic-ref'', ''--quiet'', ''--short'', ''HEAD'']"
| "operation_args GitLog =
     [''log'', ''--max-count='' @ nat_text MAX_LOG_COMMITS, ''--no-decorate'', ''--no-show-signature'',
      ''--pretty=format:%H%x09%ct%x09%P'']"
| "operation_args GitRefs =
     [''for-each-ref'', ''--count='' @ nat_text MAX_REFS, ''--sort=refname'',
      ''--format=%(refname)%09%(objectname)%09%(objecttype)'', ''refs/heads'', ''refs/tags'']"

definition git_call_of :: "git_host \<Rightarrow> string \<Rightarrow> string \<Rightarrow> git_operation \<Rightarrow> git_call" where
  "git_call_of h binary repository operation =
     \<lparr>gi_binary = binary,
      gi_args = [''--no-pager'', ''--no-optional-locks'', ''-c'', ''core.fsmonitor=false'', ''-c'',
          ''core.untrackedCache=false'', ''-c'', ''core.hooksPath=/dev/null'', ''-c'', ''core.alternateRefsCommand=:'',
          ''-c'', ''color.ui=false'', ''-c'', ''log.showSignature=false'', ''-C'', repository]
        @ operation_args operation,
      gi_env = safe_git_environment (gh_env h)\<rparr>"

text \<open>The first event that settles the run.\<close>

fun git_outcome :: "(nat list \<Rightarrow> string option) \<Rightarrow> nat list \<Rightarrow> nat \<Rightarrow> git_event list \<Rightarrow> git_result option" where
  "git_outcome decode out errs [] = None"
| "git_outcome decode out errs (GitStdout chunk # es) =
     (if length out + length chunk > MAX_GIT_OUTPUT_BYTES then Some (GitError ''git_output_too_large'')
      else git_outcome decode (out @ chunk) errs es)"
| "git_outcome decode out errs (GitStderr chunk # es) =
     (if errs + length chunk > MAX_GIT_OUTPUT_BYTES then Some (GitError ''git_output_too_large'')
      else git_outcome decode out (errs + length chunk) es)"
| "git_outcome decode out errs (GitSpawnError # es) = Some (GitError ''git_process_unavailable'')"
| "git_outcome decode out errs (GitClose code # es) =
     Some (if code \<noteq> Some 0 then GitError ''git_command_failed''
           else (case decode out of None \<Rightarrow> GitError ''git_invalid_output'' | Some s \<Rightarrow> GitOk s))"
| "git_outcome decode out errs (GitTimeout # es) = Some (GitError ''git_process_timeout'')"

definition has_line_break :: "string \<Rightarrow> bool" where
  "has_line_break s \<longleftrightarrow> list_ex (\<lambda>c. unit_of c = 13 \<or> unit_of c = 10) s"

text \<open>The repository and the binary, if both are what they are configured as.\<close>

definition validate_configured_git_provider :: "git_host \<Rightarrow> gateway_config \<Rightarrow> (string \<times> string) option" where
  "validate_configured_git_provider h config =
     (case (truthy (cfg_git_repository config), truthy (cfg_git_bin config)) of
        (Some repository, Some binary) \<Rightarrow>
          if has_line_break repository \<or> has_line_break binary then None
          else
            (let git_dir = posix_normalize (repository @ ''/'' @ ''.git'')
             in case (gh_files h repository, gh_files h git_dir, gh_files h binary) of
                  (Some r, Some g, Some b) \<Rightarrow>
                    if fi_is_directory r \<and> fi_is_directory g \<and> fi_is_file b \<and> fi_executable b
                       \<and> posix_normalize (fi_realpath r) = repository \<and> posix_normalize (fi_realpath g) = git_dir
                       \<and> posix_normalize (fi_realpath b) = binary
                      then Some (repository, binary) else None
                | _ \<Rightarrow> None)
      | _ \<Rightarrow> None)"

definition run_git :: "git_host \<Rightarrow> string \<times> string \<Rightarrow> git_operation \<Rightarrow> git_result option" where
  "run_git h provider operation =
     (case gh_run h (git_call_of h (snd provider) (fst provider) operation) of
        None \<Rightarrow> Some (GitError ''git_process_unavailable'')
      | Some events \<Rightarrow> git_outcome (gh_decode h) [] 0 events)"

definition invoke_git :: "git_host \<Rightarrow> gateway_config \<Rightarrow> git_operation \<Rightarrow> git_result option" where
  "invoke_git h config operation =
     (case validate_configured_git_provider h config of
        None \<Rightarrow> Some (GitError ''git_provider_unavailable'')
      | Some provider \<Rightarrow> run_git h provider operation)"

definition git_metadata_available :: "git_host \<Rightarrow> gateway_config \<Rightarrow> bool" where
  "git_metadata_available h config \<longleftrightarrow>
     (case validate_configured_git_provider h config of
        None \<Rightarrow> False
      | Some provider \<Rightarrow>
          (case run_git h provider GitProbe of
             Some (GitOk out) \<Rightarrow> trim out = fst provider
           | _ \<Rightarrow> False))"

definition map_git_failure :: "string \<Rightarrow> response" where
  "map_git_failure e =
     (if e = ''git_provider_unavailable'' \<or> e = ''git_process_unavailable''
        then error_response 503 ''git_provider_unavailable'' ''Git metadata provider is unavailable''
      else if e = ''git_process_timeout'' then error_response 504 ''git_provider_timeout'' ''Git metadata provider timed out''
      else if e = ''git_output_too_large''
        then error_response 502 ''git_output_too_large'' ''Git metadata output exceeded the bounded provider limit''
      else if e = ''git_invalid_output''
        then error_response 502 ''invalid_git_response'' ''Git metadata provider returned non-UTF-8 output''
      else error_response 502 ''git_command_failed'' ''Git metadata provider could not produce a valid result'')"

section \<open>Reading the output\<close>

abbreviation newline :: char where "newline \<equiv> char_of (10::nat)"
abbreviation tab :: char where "tab \<equiv> char_of (9::nat)"

definition parse_hash :: "string \<Rightarrow> string option" where
  "parse_hash value = (if HASH (trim value) then Some (trim value) else None)"

definition parse_log_line :: "runtime \<Rightarrow> string \<Rightarrow> json option" where
  "parse_log_line rt line =
     (case split_on tab line of
        [commit, unix_time_text, parents_text] \<Rightarrow>
          if \<not> HASH commit \<or> \<not> rx_plus is_digit unix_time_text then None
          else
            (case rt_number rt unix_time_text of
               None \<Rightarrow> None
             | Some unix_time \<Rightarrow>
                 (let parents = (if parents_text = [] then [] else split_on (CHR '' '') parents_text)
                  in if \<bar>unix_time\<bar> > max_safe_integer \<or> \<not> list_all HASH parents then None
                     else Some (JObj [(''id'', JStr commit), (''unix_time'', JInt unix_time),
                                      (''parents'', JArr (map JStr parents))])))
      | _ \<Rightarrow> None)"

definition OBJECT_TYPES :: "string list" where
  "OBJECT_TYPES = [''commit'', ''tag'', ''tree'', ''blob'']"

definition parse_ref_line :: "string \<Rightarrow> json option" where
  "parse_ref_line line =
     (case split_on tab line of
        [name, target, object_type] \<Rightarrow>
          if \<not> (starts_with name ''refs/heads/'' \<or> starts_with name ''refs/tags/'') \<or> \<not> HASH target
             \<or> object_type \<notin> set OBJECT_TYPES
            then None
          else Some (JObj [(''name'', JStr name), (''target'', JStr target), (''object_type'', JStr object_type)])
      | _ \<Rightarrow> None)"

text \<open>The non-empty lines, each parsed, if they all parse and are no more than the limit.\<close>

fun parse_lines :: "(string \<Rightarrow> json option) \<Rightarrow> string list \<Rightarrow> json list option" where
  "parse_lines parse [] = Some []"
| "parse_lines parse (line # lines) =
     (if line = [] then parse_lines parse lines
      else
        (case parse line of
           None \<Rightarrow> None
         | Some v \<Rightarrow> map_option ((#) v) (parse_lines parse lines)))"

definition parse_bounded_lines :: "(string \<Rightarrow> json option) \<Rightarrow> nat \<Rightarrow> string \<Rightarrow> json list option" where
  "parse_bounded_lines parse limit stdout =
     (if length stdout = 0 then Some []
      else
        (case parse_lines parse (split_on newline stdout) of
           None \<Rightarrow> None
         | Some vs \<Rightarrow> if length vs \<le> limit then Some vs else None))"

definition parse_log :: "runtime \<Rightarrow> string \<Rightarrow> json list option" where
  "parse_log rt stdout = parse_bounded_lines (parse_log_line rt) MAX_LOG_COMMITS stdout"

definition parse_refs :: "string \<Rightarrow> json list option" where
  "parse_refs stdout = parse_bounded_lines parse_ref_line MAX_REFS stdout"

section \<open>The endpoints\<close>

definition invalid_git_response :: "string \<Rightarrow> response" where
  "invalid_git_response message = error_response 502 ''invalid_git_response'' message"

text \<open>A command that fails may just mean that there is no such head; any other error ends the request.\<close>

definition hard_failure :: "git_result \<Rightarrow> string option" where
  "hard_failure result =
     (case result of GitError e \<Rightarrow> if e = ''git_command_failed'' then None else Some e | GitOk out \<Rightarrow> None)"

definition head_answer :: "git_result \<Rightarrow> git_result \<Rightarrow> response" where
  "head_answer sha_result branch_result =
     (case (hard_failure sha_result, hard_failure branch_result) of
        (Some e, _) \<Rightarrow> map_git_failure e
      | (None, Some e) \<Rightarrow> map_git_failure e
      | (None, None) \<Rightarrow>
          (case sha_result of
             GitOk out \<Rightarrow>
               (case parse_hash out of
                  None \<Rightarrow> invalid_git_response ''Git metadata provider returned an invalid HEAD hash''
                | Some head \<Rightarrow>
                    (case branch_result of
                       GitOk text \<Rightarrow>
                         (let branch = trim text
                          in if length branch = 0 \<or> length branch > 1024 \<or> has_line_break branch
                                \<or> list_ex (\<lambda>c. unit_of c = 0) branch
                               then invalid_git_response ''Git metadata provider returned an invalid branch name''
                             else json_response (JObj [(''head'', JStr head), (''branch'', JStr branch),
                                    (''detached'', JBool False)]) 200)
                     | GitError e \<Rightarrow>
                         json_response (JObj [(''head'', JStr head), (''branch'', JNull), (''detached'', JBool True)]) 200))
           | GitError e \<Rightarrow>
               (case branch_result of
                  GitOk text \<Rightarrow>
                    (let branch = trim text
                     in if length branch = 0 \<or> length branch > 1024 \<or> has_line_break branch
                           \<or> list_ex (\<lambda>c. unit_of c = 0) branch
                          then invalid_git_response ''Git metadata provider returned an invalid branch name''
                        else json_response (JObj [(''head'', JNull), (''branch'', JStr branch), (''detached'', JBool False)]) 200)
                | GitError e' \<Rightarrow> map_git_failure e)))"

definition lines_answer :: "string \<Rightarrow> string \<Rightarrow> (string \<Rightarrow> json list option) \<Rightarrow> git_result \<Rightarrow> response" where
  "lines_answer key message parse result =
     (case result of
        GitError e \<Rightarrow> map_git_failure e
      | GitOk out \<Rightarrow>
          (case parse out of
             None \<Rightarrow> invalid_git_response message
           | Some vs \<Rightarrow> json_response (JObj [(key, JArr vs)]) 200))"

text \<open>The answer is \<open>None\<close> where the program never ends.\<close>

definition handle_head :: "git_host \<Rightarrow> gateway_config \<Rightarrow> response option" where
  "handle_head h config =
     (case (invoke_git h config GitHeadSha, invoke_git h config GitHeadBranch) of
        (Some sha_result, Some branch_result) \<Rightarrow> Some (head_answer sha_result branch_result)
      | _ \<Rightarrow> None)"

definition handle_log :: "runtime \<Rightarrow> git_host \<Rightarrow> gateway_config \<Rightarrow> response option" where
  "handle_log rt h config =
     map_option (lines_answer ''commits'' ''Git metadata provider returned an invalid log projection'' (parse_log rt))
       (invoke_git h config GitLog)"

definition handle_refs :: "git_host \<Rightarrow> gateway_config \<Rightarrow> response option" where
  "handle_refs h config =
     map_option (lines_answer ''refs'' ''Git metadata provider returned an invalid refs projection'' parse_refs)
       (invoke_git h config GitRefs)"

text \<open>\<open>Some None\<close> passes the request on.\<close>

definition handle_git_metadata_request ::
  "runtime \<Rightarrow> git_host \<Rightarrow> gateway_config \<Rightarrow> request \<Rightarrow> response option option" where
  "handle_git_metadata_request rt h config r =
     (let path = u_pathname (rq_url r)
      in if path \<notin> set [''/v1/git/head'', ''/v1/git/log'', ''/v1/git/refs''] then Some None
         else if rq_method r \<noteq> ''GET'' then Some (Some (error_response 405 ''method_not_allowed'' ''GET required''))
         else if u_search (rq_url r) \<noteq> [] \<or> u_hash (rq_url r) \<noteq> []
           then Some (Some (error_response 400 ''unsupported_git_query'' ''Git metadata routes do not accept query parameters''))
         else map_option Some
           (if path = ''/v1/git/head'' then handle_head h config
            else if path = ''/v1/git/log'' then handle_log rt h config
            else handle_refs h config))"

section \<open>The log is read exactly as it is printed\<close>

record git_commit =
  gc_id :: string
  gc_time_text :: string
  gc_parents :: "string list"

text \<open>What \<open>%H%x09%ct%x09%P\<close> prints.\<close>

definition log_line :: "git_commit \<Rightarrow> string" where
  "log_line c = gc_id c @ [tab] @ gc_time_text c @ [tab] @ join '' '' (gc_parents c)"

definition commit_ok :: "runtime \<Rightarrow> git_commit \<Rightarrow> bool" where
  "commit_ok rt c \<longleftrightarrow>
     HASH (gc_id c) \<and> rx_plus is_digit (gc_time_text c)
     \<and> (case rt_number rt (gc_time_text c) of None \<Rightarrow> False | Some n \<Rightarrow> \<bar>n\<bar> \<le> max_safe_integer)
     \<and> list_all HASH (gc_parents c)"

definition commit_json :: "runtime \<Rightarrow> git_commit \<Rightarrow> json" where
  "commit_json rt c =
     JObj [(''id'', JStr (gc_id c)), (''unix_time'', JInt (the (rt_number rt (gc_time_text c)))),
           (''parents'', JArr (map JStr (gc_parents c)))]"

lemma hex_no_sep: "is_lower_hex c \<Longrightarrow> c \<noteq> tab \<and> c \<noteq> CHR '' '' \<and> c \<noteq> newline"
  by (auto simp: is_lower_hex_def char_class_defs)

lemma digit_no_sep: "is_digit c \<Longrightarrow> c \<noteq> tab \<and> c \<noteq> newline"
  by (auto simp: char_class_defs)

lemma HASH_no_sep: "HASH s \<Longrightarrow> tab \<notin> set s \<and> CHR '' '' \<notin> set s \<and> newline \<notin> set s \<and> s \<noteq> []"
  using hex_no_sep by (auto simp: HASH_def list_all_iff)

lemma set_join: "set (join d ss) \<subseteq> set d \<union> \<Union> (set ` set ss)"
  by (induction d ss rule: join.induct) auto

lemma parents_no_sep:
  assumes "list_all HASH ps"
  shows "tab \<notin> set (join '' '' ps)" and "newline \<notin> set (join '' '' ps)"
proof -
  have "c \<notin> set (join '' '' ps)" if "c \<noteq> CHR '' ''" "\<forall>p \<in> set ps. c \<notin> set p" for c
    using set_join [of "'' ''" ps] that by auto
  moreover have "tab \<noteq> CHR '' ''" "newline \<noteq> CHR '' ''" by (simp_all add: char_of_def)
  moreover have "\<forall>p \<in> set ps. tab \<notin> set p \<and> newline \<notin> set p" using assms HASH_no_sep by (auto simp: list_all_iff)
  ultimately show "tab \<notin> set (join '' '' ps)" "newline \<notin> set (join '' '' ps)" by blast+
qed

lemma parents_split:
  assumes "list_all HASH ps"
  shows "(if join '' '' ps = [] then [] else split_on (CHR '' '') (join '' '' ps)) = ps"
proof (cases ps)
  case (Cons p ps')
  then have "join '' '' ps \<noteq> []" using assms HASH_no_sep [of p] by (auto simp: join_Cons)
  moreover have "split_on (CHR '' '') (join [CHR '' ''] ps) = ps"
    using Cons assms HASH_no_sep by (intro split_on_join) (auto simp: list_all_iff)
  ultimately show ?thesis by simp
qed simp

lemma parse_log_line_Some:
  "parse_log_line rt line = Some v \<longleftrightarrow> (\<exists>c. line = log_line c \<and> commit_ok rt c \<and> v = commit_json rt c)"
proof
  assume "parse_log_line rt line = Some v"
  then obtain a b p n where fields: "split_on tab line = [a, b, p]" and ok: "HASH a" "rx_plus is_digit b"
      "rt_number rt b = Some n" "\<bar>n\<bar> \<le> max_safe_integer"
    and ps: "list_all HASH (if p = [] then [] else split_on (CHR '' '') p)"
    and v: "v = JObj [(''id'', JStr a), (''unix_time'', JInt n),
        (''parents'', JArr (map JStr (if p = [] then [] else split_on (CHR '' '') p)))]"
    by (auto simp: parse_log_line_def Let_def split: list.splits if_splits option.splits)
  have "join '' '' (if p = [] then [] else split_on (CHR '' '') p) = p"
    using join_split_on [of "CHR '' ''" p] by simp
  moreover have "line = join [tab] [a, b, p]" using join_split_on [of tab line] fields by simp
  ultimately show "\<exists>c. line = log_line c \<and> commit_ok rt c \<and> v = commit_json rt c"
    using ok ps v
    by (intro exI [of _ "\<lparr>gc_id = a, gc_time_text = b, gc_parents = if p = [] then [] else split_on (CHR '' '') p\<rparr>"])
      (simp add: log_line_def commit_ok_def commit_json_def)
next
  assume "\<exists>c. line = log_line c \<and> commit_ok rt c \<and> v = commit_json rt c"
  then obtain c where c: "line = log_line c" "commit_ok rt c" "v = commit_json rt c" by blast
  have "line = join [tab] [gc_id c, gc_time_text c, join '' '' (gc_parents c)]" using c(1) by (simp add: log_line_def)
  moreover have "tab \<notin> set (gc_id c)" "tab \<notin> set (join '' '' (gc_parents c))"
    using c(2) HASH_no_sep parents_no_sep(1) by (simp_all add: commit_ok_def)
  moreover have "tab \<notin> set (gc_time_text c)"
    using c(2) digit_no_sep by (auto simp: commit_ok_def rx_plus_def list_all_iff)
  ultimately have "split_on tab line = [gc_id c, gc_time_text c, join '' '' (gc_parents c)]"
    using split_on_join [of "[gc_id c, gc_time_text c, join '' '' (gc_parents c)]" tab] by simp
  then show "parse_log_line rt line = Some v"
    using c(2,3)
    by (simp add: parse_log_line_def commit_ok_def commit_json_def Let_def parents_split split: option.splits
        split del: if_split)
qed

lemma parse_lines_Some:
  "parse_lines parse lines = Some vs \<longleftrightarrow> map parse (filter (\<lambda>l. l \<noteq> []) lines) = map Some vs"
proof (induction lines arbitrary: vs)
  case (Cons line lines)
  then show ?case by (cases vs) (auto split: option.splits)
qed auto

lemma parse_bounded_lines_Some:
  "parse_bounded_lines parse limit s = Some vs \<longleftrightarrow>
     map parse (filter (\<lambda>l. l \<noteq> []) (split_on newline s)) = map Some vs \<and> length vs \<le> limit"
  by (auto simp: parse_bounded_lines_def parse_lines_Some [symmetric] split: option.splits)

lemma map_Some_iff:
  assumes "\<And>x v. f x = Some v \<longleftrightarrow> (\<exists>c. x = g c \<and> P c \<and> v = h c)"
  shows "map f xs = map Some vs \<longleftrightarrow> (\<exists>cs. xs = map g cs \<and> list_all P cs \<and> vs = map h cs)"
proof (induction xs arbitrary: vs)
  case (Cons x xs)
  show ?case
  proof (cases vs)
    case (Cons v vs')
    then show ?thesis
      using assms [of x v] Cons.IH [of vs'] by (fastforce simp: Cons_eq_map_conv)
  qed auto
qed simp

text \<open>
  C31. The git log is accepted exactly when it is what the requested format prints. The endpoint reads an output
  as the commits \<open>vs\<close> if and only if its non-empty lines are the printed form of at most 32 commits with
  full hashes, parents and a time that is a safe integer, and then \<open>vs\<close> are these commits, in order.
\<close>

theorem git_log_accepts_printed:
  "parse_log rt s = Some vs \<longleftrightarrow>
     (\<exists>cs. filter (\<lambda>l. l \<noteq> []) (split_on newline s) = map log_line cs \<and> list_all (commit_ok rt) cs
        \<and> length cs \<le> 32 \<and> vs = map (commit_json rt) cs)"
  unfolding parse_log_def parse_bounded_lines_Some MAX_LOG_COMMITS_def
    map_Some_iff [OF parse_log_line_Some]
  by auto

end
