(* ===== verification/Catalogue.thy ===== *)
theory Catalogue
  imports Filesystem FilesystemMutation Git
begin

text \<open>
  The capability catalogue: which providers can be reached now
  (\<open>gateway/src/capability-availability.ts\<close>), and the endpoint that lists every capability with whether the
  caller may and can use it (\<open>gateway/src/capability-api.ts\<close>).
\<close>

text \<open>The parts of the host that the gateway reads or runs.\<close>

record gateway_host =
  ho_data :: host_files
  ho_files :: file_system
  ho_mutator :: mutator
  ho_git :: git_host

section \<open>Availability\<close>

record availability =
  av_provider_reachable :: bool
  av_filesystem_reachable :: bool
  av_filesystem_mutation_reachable :: bool
  av_git_metadata_reachable :: bool
  av_active_task_names :: "string list"

definition DEFAULT_WORKER_BROKER :: string where
  "DEFAULT_WORKER_BROKER = ''http://127.0.0.1:7332''"

definition safe_task_name :: "json \<Rightarrow> bool" where
  "safe_task_name v \<longleftrightarrow> is_string (Some v) \<and> length (str_of (Some v)) > 0 \<and> length (str_of (Some v)) \<le> 128
     \<and> rx_plus is_safe_id_char (str_of (Some v))"

text \<open>The broker's answer: the names of the tasks that some worker serves, if it is well formed.\<close>

definition active_task_names :: "(nat \<times> json option) option \<Rightarrow> string list option" where
  "active_task_names answer =
     (case answer of
        None \<Rightarrow> None
      | Some (status, body) \<Rightarrow>
          if status \<noteq> 200 then None
          else
            (case body of
               None \<Rightarrow> None
             | Some v \<Rightarrow>
                 if \<not> is_record v \<or> field v ''schema_version'' \<noteq> Some (JInt 1) \<or> \<not> is_array (field v ''active_task_names'')
                    \<or> \<not> list_all safe_task_name (arr_of (field v ''active_task_names''))
                   then None
                 else Some (map (\<lambda>n. str_of (Some n)) (arr_of (field v ''active_task_names'')))))"

type_synonym provider_fetch = "string \<Rightarrow> (nat \<times> json option) option"

definition load_capability_availability ::
  "runtime \<Rightarrow> gateway_host \<Rightarrow> provider_fetch option \<Rightarrow> gateway_config \<Rightarrow> availability" where
  "load_capability_availability rt h provider_fetch config =
     (let names = (case provider_fetch of
            None \<Rightarrow> None
          | Some fetch \<Rightarrow>
              active_task_names (fetch
                ((case cfg_worker_broker_origin config of None \<Rightarrow> DEFAULT_WORKER_BROKER | Some origin \<Rightarrow> origin)
                 @ ''/v1/providers'')))
      in \<lparr>av_provider_reachable = (names \<noteq> None),
          av_filesystem_reachable = filesystem_root_available (ho_data h) (cfg_filesystem_root config),
          av_filesystem_mutation_reachable = filesystem_mutation_available rt (ho_files h) (ho_mutator h) config,
          av_git_metadata_reachable = git_metadata_available (ho_git h) config,
          av_active_task_names = (case names of None \<Rightarrow> [] | Some ns \<Rightarrow> ns)\<rparr>)"

definition is_capability_available :: "capability_descriptor \<Rightarrow> availability \<Rightarrow> bool" where
  "is_capability_available d s =
     (if cd_provider d = ''bun-filesystem'' then av_filesystem_reachable s
      else if cd_provider d = ''rust-fs-mutator'' then av_filesystem_mutation_reachable s
      else if cd_provider d = ''git-cli-metadata'' then av_git_metadata_reachable s
      else if cd_kind d = Task then av_provider_reachable s \<and> cd_name d \<in> set (av_active_task_names s)
      else if cd_name d = ''workflow.submit''
        then av_provider_reachable s \<and> ''workflow.run'' \<in> set (av_active_task_names s)
      else True)"

section \<open>The catalogue\<close>

fun kind_text :: "capability_kind \<Rightarrow> string" where
  "kind_text Surface = ''surface''"
| "kind_text Task = ''task''"
| "kind_text Workflow = ''workflow''"
| "kind_text Operator = ''operator''"

fun auth_kind_text :: "auth_kind \<Rightarrow> string" where
  "auth_kind_text RootAuth = ''root''"
| "auth_kind_text SessionAuth = ''session''"
| "auth_kind_text DevelopmentAuth = ''development''"
| "auth_kind_text InternalAuth = ''internal''"

definition named_levels :: "(string \<times> int) list \<Rightarrow> json" where
  "named_levels levels =
     JArr (map (\<lambda>(name, level). JObj [(''name'', JStr name), (''level'', JInt level)])
       (sort_by (\<lambda>a b. snd a \<le> snd b) levels))"

definition optional_field_of :: "string \<Rightarrow> string option \<Rightarrow> (string \<times> json) list" where
  "optional_field_of name v = (case v of None \<Rightarrow> [] | Some s \<Rightarrow> [(name, JStr s)])"

definition projection_fields :: "capability_projection \<Rightarrow> (string \<times> json) list" where
  "projection_fields p =
     [(''name'', JStr (cp_name p)), (''kind'', JStr (kind_text (cp_kind p))), (''provider'', JStr (cp_provider p)),
      (''description'', JStr (cp_description p)), (''min_depth'', JInt (cp_min_depth p)),
      (''min_authority'', JInt (cp_min_authority p)), (''required_scopes'', JArr (map JStr (cp_required_scopes p))),
      (''accessible'', JBool (cp_accessible p)), (''blocked_by'', JArr (map (\<lambda>b. JStr (blocker_text b)) (cp_blocked_by p))),
      (''properties'', JObj [(''mutates_state'', JBool (cp_mutates_state p)), (''cancellable'', JBool (cp_cancellable p)),
                           (''durable'', JBool (cp_durable p))])]
     @ optional_field_of ''route'' (cp_route p) @ optional_field_of ''method'' (cp_method p)
     @ optional_field_of ''queue_kind'' (cp_queue_kind p)"

text \<open>The entry of a projection, given whether its provider is available.\<close>

definition catalogue_entry :: "bool \<Rightarrow> capability_projection \<Rightarrow> json" where
  "catalogue_entry available p =
     JObj (projection_fields p
       @ [(''authorized'', JBool (cp_accessible p)), (''available'', JBool available),
          (''executable'', JBool (cp_accessible p \<and> available))])"

definition catalogue_entries ::
  "runtime \<Rightarrow> availability \<Rightarrow> process_provider option \<Rightarrow> capability_grant \<Rightarrow> (string \<times> json) list" where
  "catalogue_entries rt s provider grant =
     (let static = map (\<lambda>p. (cp_name p, catalogue_entry
            (case get_capability CAPABILITY_REGISTRY (cp_name p) of None \<Rightarrow> False | Some d \<Rightarrow> is_capability_available d s) p))
            (project_capability_catalog rt CAPABILITY_REGISTRY grant);
          descriptors = (case provider of None \<Rightarrow> [] | Some p \<Rightarrow> registered_process_capabilities rt p);
          processes = map (\<lambda>p. (cp_name p, catalogue_entry True p))
            (project_capability_catalog rt (map (\<lambda>d. (cd_name d, d)) descriptors) grant)
      in sort_by (\<lambda>a b. rt_locale_le rt (fst a) (fst b)) (static @ processes))"

definition catalogue_json ::
  "runtime \<Rightarrow> availability \<Rightarrow> process_provider option \<Rightarrow> authorization_context \<Rightarrow> json" where
  "catalogue_json rt s provider auth =
     JObj [(''schema_version'', JInt 1),
       (''model'', JObj [(''depth'', named_levels CAPABILITY_DEPTH), (''authority'', named_levels CAPABILITY_AUTHORITY)]),
       (''subject'', JObj [(''kind'', JStr (auth_kind_text (ac_kind auth))),
          (''session_id'', (case ac_session_id auth of None \<Rightarrow> JNull | Some i \<Rightarrow> JStr i)),
          (''expires_at'', (case ac_expires_at auth of None \<Rightarrow> JNull | Some t \<Rightarrow> JInt t))]),
       (''grant'', JObj [(''depth'', JInt (gr_depth (ac_grant auth))), (''authority'', JInt (gr_authority (ac_grant auth))),
          (''scopes'', JArr (map JStr (gr_scopes (ac_grant auth))))]),
       (''runtime'', JObj [(''worker_registry_reachable'', JBool (av_provider_reachable s)),
          (''filesystem_reachable'', JBool (av_filesystem_reachable s)),
          (''filesystem_mutation_reachable'', JBool (av_filesystem_mutation_reachable s)),
          (''git_metadata_reachable'', JBool (av_git_metadata_reachable s)),
          (''registered_process_reachable'', JBool (provider \<noteq> None))]),
       (''capabilities'', JArr (map snd (catalogue_entries rt s provider (ac_grant auth))))]"

definition handle_capability_request ::
  "runtime \<Rightarrow> gateway_host \<Rightarrow> provider_fetch option \<Rightarrow> gateway_config \<Rightarrow> int \<Rightarrow> authorization_context option \<Rightarrow> request
   \<Rightarrow> string + response option" where
  "handle_capability_request rt h provider_fetch config now_ms auth_override r =
     (if u_pathname (rq_url r) \<noteq> ''/v1/capabilities'' then Inr None
      else if rq_method r \<noteq> ''GET'' then Inr (Some (error_response 405 ''method_not_allowed'' ''GET required''))
      else
        (case (case auth_override of Some a \<Rightarrow> Inr (Some a) | None \<Rightarrow> resolve_authorization_context rt r config now_ms) of
           Inl e \<Rightarrow> Inl e
         | Inr None \<Rightarrow> Inr (Some (error_response 401 ''unauthorized''
                         ''valid root or capability-session bearer token required''))
         | Inr (Some auth) \<Rightarrow>
             (case get_capability CAPABILITY_REGISTRY ''system.capabilities'' of
                None \<Rightarrow> Inr (Some (error_response 500 ''capability_registry_invalid''
                          ''capability discovery descriptor is missing''))
              | Some discovery \<Rightarrow>
                  (let decision = evaluate_capability_grant (ac_grant auth) discovery;
                       reasons = join '','' (map blocker_text (dc_blocked_by decision))
                   in if \<not> dc_allowed decision
                        then Inr (Some (error_response 403 ''capability_denied''
                          (''capability discovery denied by '' @ (if reasons = [] then ''policy'' else reasons))))
                      else Inr (Some (json_response
                        (catalogue_json rt (load_capability_availability rt h provider_fetch config)
                           (load_registered_process_provider rt (ho_files h) config) auth) 200))))))"

section \<open>The catalogue and the gate\<close>

definition entries_of :: "response \<Rightarrow> json list" where
  "entries_of response = (case rs_body response of JsonBody v \<Rightarrow> arr_of (field v ''capabilities'') | _ \<Rightarrow> [])"

lemma entry_fields:
  "field (catalogue_entry available (project_descriptor grant d)) ''name'' = Some (JStr (cd_name d))"
  "field (catalogue_entry available (project_descriptor grant d)) ''authorized'' =
     Some (JBool (dc_allowed (evaluate_capability_grant grant d)))"
  "field (catalogue_entry available (project_descriptor grant d)) ''executable'' =
     Some (JBool (dc_allowed (evaluate_capability_grant grant d) \<and> available))"
  by (auto simp: catalogue_entry_def projection_fields_def optional_field_of_def project_descriptor_def Let_def
      split: option.splits)

lemma gated_descriptor:
  assumes "required_surface path verb = Some surface"
  shows "\<exists>d. get_capability CAPABILITY_REGISTRY surface = Some d \<and> cd_name d = surface \<and> cd_publicly_discoverable d"
proof -
  obtain d where d: "get_capability CAPABILITY_REGISTRY surface = Some d" "cd_name d = surface"
    using registry_complete [OF assms] by blast
  have "list_all (\<lambda>(n, d). cd_publicly_discoverable d) CAPABILITY_REGISTRY" by code_simp
  then show ?thesis using d map_of_SomeD by (fastforce simp: get_capability_def list_all_iff)
qed

lemma listed_entry:
  assumes "get_capability CAPABILITY_REGISTRY n = Some d" and "cd_publicly_discoverable d" and "cd_name d = n"
  shows "catalogue_entry (is_capability_available d s) (project_descriptor grant d)
     \<in> set (map snd (catalogue_entries rt s provider grant))"
proof -
  have "d \<in> set (filter cd_publicly_discoverable (map snd CAPABILITY_REGISTRY))"
    using assms map_of_SomeD by (force simp: get_capability_def)
  then have "project_descriptor grant d \<in> set (project_capability_catalog rt CAPABILITY_REGISTRY grant)"
    by (simp add: project_capability_catalog_def)
  moreover have "cp_name (project_descriptor grant d) = n" using assms(3) by (simp add: project_descriptor_def Let_def)
  ultimately show ?thesis
    using assms(1) by (force simp: catalogue_entries_def Let_def)
qed

text \<open>
  C24. The catalogue tells a caller what the gate would do. When a caller asks for the catalogue and gets it, then
  for every route that the gate guards there is an entry of the route's capability, and it is marked
  authorized exactly when the gate, asked with the same credential at the same time, lets a request to the
  route pass; a task submission may be refused further for its type. It is marked executable exactly when
  moreover the capability's provider is reachable.
\<close>

theorem catalogue_agrees_with_gate:
  assumes "handle_capability_request rt h provider_fetch config now_ms None r = Inr (Some response)"
    and "rs_status response = 200"
    and "required_surface (u_pathname (rq_url r')) (rq_method r') = Some surface"
    and "rq_headers r' = rq_headers r"
  shows "\<exists>d entry authorized. get_capability CAPABILITY_REGISTRY surface = Some d
     \<and> entry \<in> set (entries_of response) \<and> field entry ''name'' = Some (JStr surface)
     \<and> field entry ''authorized'' = Some (JBool authorized)
     \<and> field entry ''executable'' = Some (JBool (authorized
          \<and> is_capability_available d (load_capability_availability rt h provider_fetch config)))
     \<and> ((\<exists>admitted. enforce_capability_access rt r' config now_ms = Inr (Admitted admitted)) \<longrightarrow> authorized)
     \<and> (authorized \<and> surface \<noteq> ''task.submit'' \<longrightarrow>
          (\<exists>admitted. enforce_capability_access rt r' config now_ms = Inr (Admitted admitted)))"
proof -
  from assms(1,2) obtain auth where auth: "resolve_authorization_context rt r config now_ms = Inr (Some auth)"
    and response: "response = json_response (catalogue_json rt (load_capability_availability rt h provider_fetch config)
         (load_registered_process_provider rt (ho_files h) config) auth) 200"
    by (auto simp: handle_capability_request_def Let_def split: if_splits sum.splits option.splits)
  have same_bearer: "bearer_token r' = bearer_token r" by (simp add: bearer_token_def header_def assms(4))
  have auth': "resolve_authorization_context rt r' config now_ms = Inr (Some auth)"
    unfolding auth [symmetric] by (simp only: resolve_authorization_context_def same_bearer)
  obtain d where d: "get_capability CAPABILITY_REGISTRY surface = Some d" "cd_name d = surface" "cd_publicly_discoverable d"
    using gated_descriptor [OF assms(3)] by blast
  let ?s = "load_capability_availability rt h provider_fetch config"
  let ?entry = "catalogue_entry (is_capability_available d ?s) (project_descriptor (ac_grant auth) d)"
  have "?entry \<in> set (entries_of response)"
    using listed_entry [OF d(1) d(3) d(2)] by (simp add: entries_of_def response catalogue_json_def)
  then show ?thesis
    using d entry_fields [of "is_capability_available d ?s" "ac_grant auth" d] assms(3) auth'
      task_submit_route [of "u_pathname (rq_url r')" "rq_method r'"]
    by (intro exI [of _ d] exI [of _ ?entry] exI [of _ "dc_allowed (evaluate_capability_grant (ac_grant auth) d)"])
      (auto simp: enforce_capability_access_def Let_def authorize_descriptor_def split: option.splits if_splits)
qed

definition empty_host :: gateway_host where
  "empty_host =
     \<lparr>ho_data = \<lparr>hf_realpath = (\<lambda>p. Inl ''ENOENT''), hf_stat = (\<lambda>p. Inl ''ENOENT''), hf_entries = (\<lambda>p. Inl ''ENOENT''),
        hf_read = (\<lambda>p. Inl ''ENOENT''), hf_decode = (\<lambda>bytes. None)\<rparr>,
      ho_files = (\<lambda>p. None), ho_mutator = (\<lambda>call. None),
      ho_git = \<lparr>gh_files = (\<lambda>p. None), gh_env = [], gh_run = (\<lambda>call. None), gh_decode = (\<lambda>bytes. None)\<rparr>\<rparr>"

lemma catalogue_agrees_with_gate_witness:
  "\<exists>response entry. handle_capability_request example_runtime empty_host None example_config 0 None
       (example_request ''GET'' ''/v1/capabilities'' ''root'') = Inr (Some response)
     \<and> entry \<in> set (entries_of response) \<and> field entry ''name'' = Some (JStr ''git.head'')"
proof -
  have evals: "resolve_authorization_context example_runtime (example_request ''GET'' ''/v1/capabilities'' ''root'')
      example_config 0 = Inr (Some (compat_context RootAuth))"
    "case get_capability CAPABILITY_REGISTRY ''system.capabilities'' of None \<Rightarrow> False
       | Some d \<Rightarrow> dc_allowed (evaluate_capability_grant (ac_grant (compat_context RootAuth)) d)"
    "required_surface ''/v1/git/head'' ''GET'' = Some ''git.head''"
    by code_simp+
  obtain response where response: "handle_capability_request example_runtime empty_host None example_config 0 None
       (example_request ''GET'' ''/v1/capabilities'' ''root'') = Inr (Some response)" "rs_status response = 200"
    using evals(1,2) by (simp add: handle_capability_request_def Let_def split: option.splits)
  from catalogue_agrees_with_gate [OF this, of "example_request ''GET'' ''/v1/git/head'' ''root''" "''git.head''"]
  show ?thesis using evals(3) response(1) by (auto simp: example_request_def)
qed

end
