(* ===== verification/Router.thy ===== *)
theory Router
  imports Agents WorkflowApi Metadata Catalogue
begin

text \<open>
  The router (\<open>gateway/src/router.ts\<close>): the handlers in their order, the capability gate between the
  endpoints that check their caller themselves and those that rely on it, over the state of the whole gateway.
\<close>

section \<open>The gateway\<close>

record gateway =
  gw_context :: oauth_context
  gw_registry :: task_registry
  gw_host :: gateway_host
  gw_provider_fetch :: "provider_fetch option"

record gateway_state =
  gs_oauth :: oauth_state
  gs_agents :: agent_state
  gs_bucket :: bucket

text \<open>
  What a request meets: the clock readings of the handlers, new identifiers, the queue daemon, the broker and
  the events of a process.
\<close>

record gateway_env =
  ge_now :: int
  ge_uuid :: string
  ge_oauth :: oauth_env
  ge_agent :: agent_env
  ge_admission_now :: rat
  ge_fetch :: text_upstream
  ge_broker :: "string \<Rightarrow> (string \<times> string) list \<Rightarrow> string option \<Rightarrow> (nat \<times> (string \<times> string) list \<times> string) option"
  ge_spawn :: "spawn_call \<Rightarrow> process_event list option"
  ge_aborted :: bool

text \<open>
  A handler's answer: \<open>None\<close> where a helper program never ends, an error that is thrown, \<open>Inr None\<close> where the
  request passes on, or the response.
\<close>

type_synonym handler = "gateway_state \<Rightarrow> gateway_state \<times> (string + response option) option"

fun first_answer :: "handler list \<Rightarrow> handler" where
  "first_answer [] st = (st, Some (Inr None))"
| "first_answer (h # hs) st =
     (case h st of
        (st', Some (Inr None)) \<Rightarrow> first_answer hs st'
      | answer \<Rightarrow> answer)"

definition on_oauth :: "response option oauth_io \<Rightarrow> handler" where
  "on_oauth io st = (case io (gs_oauth st) of (o', res) \<Rightarrow> (st\<lparr>gs_oauth := o'\<rparr>, Some res))"

definition on_agents :: "(agent_state \<Rightarrow> agent_state \<times> (string + response option)) \<Rightarrow> handler" where
  "on_agents f st = (case f (gs_agents st) of (a, res) \<Rightarrow> (st\<lparr>gs_agents := a\<rparr>, Some res))"

definition on_bucket :: "(bucket \<Rightarrow> bucket \<times> response option) \<Rightarrow> handler" where
  "on_bucket f st = (case f (gs_bucket st) of (b, res) \<Rightarrow> (st\<lparr>gs_bucket := b\<rparr>, Some (Inr res)))"

definition pure_answer :: "(string + response option) option \<Rightarrow> handler" where
  "pure_answer res st = (st, res)"

section \<open>The chain\<close>

abbreviation gw_runtime :: "gateway \<Rightarrow> runtime" where "gw_runtime gw \<equiv> ox_runtime (gw_context gw)"
abbreviation gw_config :: "gateway \<Rightarrow> gateway_config" where "gw_config gw \<equiv> ox_config (gw_context gw)"
abbreviation gw_policy :: "gateway \<Rightarrow> oauth_client_policy option" where "gw_policy gw \<equiv> ox_policy (gw_context gw)"
abbreviation gw_cimd :: "gateway \<Rightarrow> bool" where "gw_cimd gw \<equiv> ox_cimd (gw_context gw) \<noteq> None"

definition before_gate :: "gateway \<Rightarrow> gateway_env \<Rightarrow> request \<Rightarrow> handler list" where
  "before_gate gw env r =
     [pure_answer (Some (handle_capability_session_request (gw_runtime gw) r (gw_config gw) (ge_now env) (ge_uuid env))),
      on_oauth (handle_oauth_consent_operator_request (gw_context gw) (ge_oauth env) r),
      pure_answer (Some (Inr (handle_oauth_authorization_server_metadata_request r (gw_config gw) (gw_policy gw) (gw_cimd gw)))),
      on_oauth (handle_oauth_authorization_request (gw_context gw) (ge_oauth env) r),
      on_oauth (handle_oauth_token_request (gw_context gw) (ge_oauth env) r),
      pure_answer (Some (handle_capability_request (gw_runtime gw) (gw_host gw) (gw_provider_fetch gw) (gw_config gw)
        (ge_now env) None r))]"

text \<open>The broker proxy is given the request as it came, the others the one the gate has passed.\<close>

definition after_gate :: "gateway \<Rightarrow> gateway_env \<Rightarrow> request \<Rightarrow> request \<Rightarrow> handler list" where
  "after_gate gw env original r =
     [pure_answer (snd (handle_registered_process_request (gw_runtime gw) (ho_files (gw_host gw)) (ge_spawn env)
        (gw_config gw) (ge_now env) (ge_aborted env) r)),
      pure_answer (Some (Inr (handle_filesystem_request (gw_runtime gw) (ho_data (gw_host gw)) (gw_config gw) r))),
      pure_answer (map_option Inr (snd (handle_filesystem_mutation_request (gw_runtime gw) (ho_files (gw_host gw))
        (ho_mutator (gw_host gw)) (gw_config gw) r))),
      pure_answer (map_option Inr (handle_git_metadata_request (gw_runtime gw) (ho_git (gw_host gw)) (gw_config gw) r)),
      on_bucket (handle_declared_workflow_result_request (gw_runtime gw) (ge_fetch env) (gw_config gw) (gw_registry gw)
        (ge_admission_now env) r),
      on_agents (handle_agent_direct_request (gw_runtime gw) (ge_agent env) r),
      pure_answer (Some (Inr (handle_agent_proxy_request (ge_broker env) original
        (case cfg_worker_broker_origin (gw_config gw) of None \<Rightarrow> ''http://127.0.0.1:7332'' | Some origin \<Rightarrow> origin)))),
      on_bucket (handle_public_workflow_request (gw_runtime gw) (ge_fetch env) (gw_config gw) (gw_registry gw)
        (ge_admission_now env) r),
      on_bucket (\<lambda>b. map_prod id Some (handle_public_surface_request (gw_runtime gw)
        (json_upstream (gw_runtime gw) (ge_fetch env)) (gw_config gw) (gw_registry gw) (gw_policy gw) (gw_cimd gw)
        (ge_admission_now env) r b))]"

definition through_gate :: "gateway \<Rightarrow> gateway_env \<Rightarrow> request \<Rightarrow> handler" where
  "through_gate gw env r st =
     (case enforce_capability_access (gw_runtime gw) r (gw_config gw) (ge_now env) of
        Inl e \<Rightarrow> (st, Some (Inl e))
      | Inr (Refused response) \<Rightarrow> (st, Some (Inr (Some response)))
      | Inr (Admitted r') \<Rightarrow> first_answer (after_gate gw env r r') st)"

definition route_gateway_request :: "gateway \<Rightarrow> gateway_env \<Rightarrow> request \<Rightarrow> handler" where
  "route_gateway_request gw env r = first_answer (before_gate gw env r @ [through_gate gw env r])"

section \<open>Passing a request on\<close>

text \<open>A handler passes a request on when it leaves the state alone and gives no answer.\<close>

definition passes :: "handler \<Rightarrow> bool" where
  "passes h \<longleftrightarrow> (\<forall>st. h st = (st, Some (Inr None)))"

lemma first_answer_passes: "\<forall>h \<in> set hs. passes h \<Longrightarrow> first_answer (hs @ hs') = first_answer hs'"
  by (induction hs) (auto simp: passes_def fun_eq_iff)

lemma first_answer_single [simp]: "first_answer [h] = h"
  by (auto simp: fun_eq_iff split: prod.split option.split sum.split)

lemma passes_pure [simp]: "passes (pure_answer res) \<longleftrightarrow> res = Some (Inr None)"
  by (auto simp: passes_def pure_answer_def)

lemma passes_oauth: "(\<And>o'. io o' = (o', Inr None)) \<Longrightarrow> passes (on_oauth io)"
  by (simp add: passes_def on_oauth_def)

lemma passes_bucket: "(\<And>b. f b = (b, None)) \<Longrightarrow> passes (on_bucket f)"
  by (simp add: passes_def on_bucket_def)

lemma passes_agents: "(\<And>a. f a = (a, Inr None)) \<Longrightarrow> passes (on_agents f)"
  by (simp add: passes_def on_agents_def)

text \<open>The routes of the endpoints before the gate.\<close>

definition open_route :: "string \<Rightarrow> bool" where
  "open_route path \<longleftrightarrow>
     path = ''/v1/capability-sessions'' \<or> path = ''/v1/oauth/pending-consents'' \<or> decision_match path \<noteq> None
     \<or> path = OAUTH_AUTHORIZATION_SERVER_METADATA_PATH \<or> path = AUTHORIZATION_PATH \<or> path = OAUTH_TOKEN_PATH
     \<or> path = ''/v1/capabilities''"

lemma before_gate_passes:
  assumes "\<not> open_route (u_pathname (rq_url r))"
  shows "\<forall>h \<in> set (before_gate gw env r). passes h"
  using assms
  by (auto simp: before_gate_def open_route_def handle_capability_session_request_def
      handle_oauth_authorization_server_metadata_request_def handle_capability_request_def
      handle_oauth_consent_operator_request_def handle_oauth_authorization_request_def handle_oauth_token_request_def
      Let_def io_ret_def intro!: passes_oauth)

lemma route_through_gate:
  "\<not> open_route (u_pathname (rq_url r)) \<Longrightarrow> route_gateway_request gw env r = through_gate gw env r"
  unfolding route_gateway_request_def by (simp add: first_answer_passes before_gate_passes)

section \<open>What serves a guarded route\<close>

text \<open>A handler that does not pass the request on.\<close>

definition answers :: "handler \<Rightarrow> bool" where
  "answers h \<longleftrightarrow> (\<forall>st. snd (h st) \<noteq> Some (Inr None))"

lemma first_answer_pass: "passes h \<Longrightarrow> first_answer (h # hs) = first_answer hs"
  by (auto simp: passes_def fun_eq_iff)

lemma first_answer_skip: "passes h \<Longrightarrow> first_answer (g # h # hs) = first_answer (g # hs)"
  by (simp add: fun_eq_iff first_answer_pass)

lemma first_answer_stop:
  assumes "answers h"
  shows "first_answer (h # hs) = h"
proof
  fix st
  obtain st' res where "h st = (st', res)" "res \<noteq> Some (Inr None)"
    using assms by (cases "h st") (auto simp: answers_def dest: spec [of _ st])
  then show "first_answer (h # hs) st = h st" by (auto split: option.split sum.split)
qed

lemma answers_pure [simp]: "answers (pure_answer res) \<longleftrightarrow> res \<noteq> Some (Inr None)"
  by (simp add: answers_def pure_answer_def)

lemma answers_bucket: "(\<And>b. snd (f b) \<noteq> None) \<Longrightarrow> answers (on_bucket f)"
  by (simp add: answers_def on_bucket_def split_beta)

definition boundary_answer :: "boundary_error + response \<Rightarrow> response" where
  "boundary_answer x = (case x of Inl e \<Rightarrow> error_response (be_status e) (be_code e) (be_message e) | Inr res \<Rightarrow> res)"

definition queue_handler :: "(runtime \<Rightarrow> text_upstream \<Rightarrow> gateway_config \<Rightarrow> task_registry \<Rightarrow> rat \<Rightarrow> bucket \<Rightarrow> bucket \<times> response)
   \<Rightarrow> gateway \<Rightarrow> gateway_env \<Rightarrow> handler" where
  "queue_handler f gw env =
     on_bucket (\<lambda>b. map_prod id Some (f (gw_runtime gw) (ge_fetch env) (gw_config gw) (gw_registry gw) (ge_admission_now env) b))"

text \<open>The operation that a capability of the gate's table names.\<close>

definition surface_handler :: "gateway \<Rightarrow> gateway_env \<Rightarrow> string \<Rightarrow> request \<Rightarrow> handler" where
  "surface_handler gw env surface r =
     (let path = u_pathname (rq_url r); rt = gw_runtime gw; config = gw_config gw; h = gw_host gw;
          files = (\<lambda>operation. pure_answer (Some (Inr (Some
            (boundary_answer (run_filesystem rt (ho_data h) config operation r))))));
          change = pure_answer (map_option Inr (snd (handle_filesystem_mutation_request rt (ho_files h) (ho_mutator h) config r)));
          git = pure_answer (map_option Inr (handle_git_metadata_request rt (ho_git h) config r))
      in if surface = ''task.submit'' then
           queue_handler (\<lambda>rt fetch config registry now b.
             handle_create_task rt (json_upstream rt fetch) config registry now r b) gw env
         else if surface = ''task.inspect'' then
           queue_handler (\<lambda>rt fetch config registry now b.
             (b, handle_get_task (json_upstream rt fetch) config r (drop 10 path))) gw env
         else if surface = ''workflow.submit'' then
           queue_handler (\<lambda>rt fetch config registry now. handle_create_workflow rt fetch config registry now r) gw env
         else if surface = ''workflow.inspect'' then
           queue_handler (\<lambda>rt fetch config registry now.
             handle_get_workflow rt fetch config registry now r (segment_of ''/v1/workflows/'' '''' path)) gw env
         else if surface = ''workflow.result'' then
           queue_handler (\<lambda>rt fetch config registry now.
             handle_result rt fetch config registry now r (segment_of ''/v1/workflows/'' ''/result'' path)) gw env
         else if surface = ''workflow.cancel'' then
           queue_handler (\<lambda>rt fetch config registry now.
             handle_cancel_workflow rt fetch config registry now r (segment_of ''/v1/workflows/'' ''/cancel'' path)) gw env
         else if surface = ''filesystem.list'' then files ListOperation
         else if surface = ''filesystem.stat'' then files StatOperation
         else if surface = ''filesystem.read'' then files ReadOperation
         else if surface = ''filesystem.write'' \<or> surface = ''filesystem.mkdir'' then change
         else git)"

lemma process_passes:
  "\<not> starts_with (u_pathname (rq_url r)) ''/v1/process/'' \<Longrightarrow>
   snd (handle_registered_process_request rt fs spawn config now aborted r) = Some (Inr None)"
  by (simp add: handle_registered_process_request_def Let_def)

lemma filesystem_passes:
  "filesystem_operation_of (u_pathname (rq_url r)) = None \<Longrightarrow> handle_filesystem_request rt w config r = None"
  by (simp add: handle_filesystem_request_def)

lemma mutation_passes:
  "mutation_operation_of (u_pathname (rq_url r)) = None \<Longrightarrow>
   snd (handle_filesystem_mutation_request rt fs mutator config r) = Some None"
  by (simp add: handle_filesystem_mutation_request_def)

lemma git_passes:
  "u_pathname (rq_url r) \<notin> set [''/v1/git/head'', ''/v1/git/log'', ''/v1/git/refs''] \<Longrightarrow>
   handle_git_metadata_request rt h config r = Some None"
  by (simp add: handle_git_metadata_request_def Let_def)

lemma agents_pass:
  assumes "\<not> starts_with (u_pathname (rq_url r)) ''/v1/agent''"
  shows "handle_agent_direct_request rt env r a = (a, Inr None)"
proof -
  have "u_pathname (rq_url r) \<noteq> p" if "starts_with p ''/v1/agent''" for p using assms that by metis
  then show ?thesis by (simp add: handle_agent_direct_request_def Let_def starts_with_def)
qed

lemma proxy_passes:
  assumes "\<not> starts_with (u_pathname (rq_url r)) ''/v1/agent''"
  shows "handle_agent_proxy_request post r origin = None"
proof -
  have "u_pathname (rq_url r) \<noteq> p" if "starts_with p ''/v1/agent''" for p using assms that by metis
  then have "map_of AGENT_ROUTES (u_pathname (rq_url r)) = None" by (simp add: AGENT_ROUTES_def starts_with_def)
  then show ?thesis by (simp add: handle_agent_proxy_request_def)
qed

lemma declared_passes:
  "\<not> mid_segment ''/v1/workflows/'' ''/result'' (u_pathname (rq_url r)) \<Longrightarrow>
   passes (on_bucket (handle_declared_workflow_result_request rt fetch config registry now r))"
  by (intro passes_bucket) (simp add: handle_declared_workflow_result_request_def Let_def)

lemma workflow_passes:
  assumes "\<not> starts_with (u_pathname (rq_url r)) ''/v1/workflows''"
  shows "passes (on_bucket (handle_public_workflow_request rt fetch config registry now r))"
proof -
  have "\<not> starts_with (u_pathname (rq_url r)) ''/v1/workflows/''" "u_pathname (rq_url r) \<noteq> ''/v1/workflows''"
    using assms by (auto simp: starts_with_iff)
  then show ?thesis
    by (intro passes_bucket) (simp add: handle_public_workflow_request_def mid_segment_def Let_def)
qed

lemma queue_path_passes:
  assumes "starts_with path ''/v1/tasks'' \<or> starts_with path ''/v1/workflows''"
  shows "\<not> starts_with path ''/v1/process/''" "filesystem_operation_of path = None" "mutation_operation_of path = None"
    "path \<notin> set [''/v1/git/head'', ''/v1/git/log'', ''/v1/git/refs'']" "\<not> starts_with path ''/v1/agent''"
  using assms by (auto simp: starts_with_iff filesystem_operation_of_def mutation_operation_of_def)

text \<open>On the paths of tasks and workflows only the queue's handlers are left.\<close>

lemma after_gate_queue:
  assumes "starts_with (u_pathname (rq_url r)) ''/v1/tasks'' \<or> starts_with (u_pathname (rq_url r)) ''/v1/workflows''"
    and "u_pathname (rq_url original) = u_pathname (rq_url r)"
  shows "first_answer (after_gate gw env original r) = first_answer
     [on_bucket (handle_declared_workflow_result_request (gw_runtime gw) (ge_fetch env) (gw_config gw) (gw_registry gw)
        (ge_admission_now env) r),
      on_bucket (handle_public_workflow_request (gw_runtime gw) (ge_fetch env) (gw_config gw) (gw_registry gw)
        (ge_admission_now env) r),
      on_bucket (\<lambda>b. map_prod id Some (handle_public_surface_request (gw_runtime gw)
        (json_upstream (gw_runtime gw) (ge_fetch env)) (gw_config gw) (gw_registry gw) (gw_policy gw) (gw_cimd gw)
        (ge_admission_now env) r b))]"
proof -
  note q = queue_path_passes [OF assms(1)]
  have agents: "passes (on_agents (handle_agent_direct_request rt env' r))" for rt env'
    by (intro passes_agents agents_pass q)
  show ?thesis
    unfolding after_gate_def
    by (simp add: first_answer_pass first_answer_skip agents process_passes [OF q(1)] filesystem_passes [OF q(2)] mutation_passes [OF q(3)]
        git_passes [OF q(4)] proxy_passes q(5) assms(2) del: first_answer.simps)
qed

lemma public_surface_task:
  assumes "starts_with (u_pathname (rq_url r)) ''/v1/''"
  shows "handle_public_surface_request rt fetch config registry policy cimd now r b
     = handle_request rt fetch config registry now r b"
proof -
  have "u_pathname (rq_url r) \<noteq> OAUTH_PROTECTED_RESOURCE_ROOT" "u_pathname (rq_url r) \<noteq> OAUTH_PROTECTED_RESOURCE_MCP"
    using assms by (auto simp: starts_with_iff OAUTH_PROTECTED_RESOURCE_ROOT_def OAUTH_PROTECTED_RESOURCE_MCP_def)
  then show ?thesis by (simp add: handle_public_surface_request_def handle_oauth_protected_resource_metadata_request_def Let_def)
qed

text \<open>The shapes of a path below the workflows exclude each other.\<close>

lemma workflow_segments:
  assumes "mid_segment ''/v1/workflows/'' '''' path"
  shows "\<not> mid_segment ''/v1/workflows/'' ''/result'' path" "\<not> mid_segment ''/v1/workflows/'' ''/cancel'' path"
    "path \<noteq> ''/v1/workflows''"
  using assms by (auto simp: mid_segment_iff)

lemma cancel_result:
  "mid_segment ''/v1/workflows/'' ''/cancel'' path \<Longrightarrow> \<not> mid_segment ''/v1/workflows/'' ''/result'' path"
  "mid_segment ''/v1/workflows/'' ''/cancel'' path \<Longrightarrow> path \<noteq> ''/v1/workflows''"
  by (auto simp: mid_segment_iff)

lemma admitted_path:
  assumes "enforce_capability_access rt r config now_ms = Inr (Admitted r')"
  shows "rq_url r' = rq_url r" "rq_method r' = rq_method r"
  using assms by (auto simp: enforce_capability_access_def Let_def split: option.splits sum.splits if_splits)

lemma surface_path:
  assumes "required_surface path verb = Some surface"
  shows "starts_with path ''/v1/tasks'' \<or> starts_with path ''/v1/workflows'' \<or> starts_with path ''/v1/filesystem/''
    \<or> starts_with path ''/v1/git/''"
  using assms by (auto simp: required_surface_def mid_segment_iff starts_with_iff split: if_splits)

lemma surface_not_open:
  assumes "required_surface path verb = Some surface"
  shows "\<not> open_route path"
proof -
  note s = surface_path [OF assms]
  have "decision_match path = None"
    using s by (auto simp: decision_match_def mid_segment_iff starts_with_iff CONSENT_PREFIX_def)
  with s show ?thesis
    by (auto simp: open_route_def starts_with_iff OAUTH_AUTHORIZATION_SERVER_METADATA_PATH_def AUTHORIZATION_PATH_def
        OAUTH_TOKEN_PATH_def)
qed

lemma queue_handler_answers: "answers (on_bucket (\<lambda>b. map_prod id Some (f b)))"
  by (intro answers_bucket) (simp add: split_beta)

lemma after_gate_tasks:
  assumes "required_surface (u_pathname (rq_url r)) (rq_method r) = Some surface"
    and "starts_with (u_pathname (rq_url r)) ''/v1/tasks''" and "u_pathname (rq_url original) = u_pathname (rq_url r)"
  shows "first_answer (after_gate gw env original r) = surface_handler gw env surface r"
proof -
  let ?p = "u_pathname (rq_url r)"
  have paths: "\<not> starts_with ?p ''/v1/workflows''" "\<not> mid_segment ''/v1/workflows/'' ''/result'' ?p" "starts_with ?p ''/v1/''"
    using assms(2) by (auto simp: starts_with_iff mid_segment_iff)
  have only: "first_answer (after_gate gw env original r) =
      on_bucket (\<lambda>b. map_prod id Some (handle_request (gw_runtime gw)
        (json_upstream (gw_runtime gw) (ge_fetch env)) (gw_config gw) (gw_registry gw) (ge_admission_now env) r b))"
    using assms(2,3) paths
    by (simp add: after_gate_queue first_answer_pass declared_passes workflow_passes public_surface_task
        del: first_answer.simps)
  have "(?p = ''/v1/tasks'' \<and> rq_method r = ''POST'' \<and> surface = ''task.submit'')
      \<or> (mid_segment ''/v1/tasks/'' '''' ?p \<and> ?p \<noteq> ''/v1/tasks'' \<and> rq_method r = ''GET'' \<and> surface = ''task.inspect'')"
    using assms(1,2) by (auto simp: required_surface_def mid_segment_iff starts_with_iff split: if_splits)
  then show ?thesis
  proof
    assume "?p = ''/v1/tasks'' \<and> rq_method r = ''POST'' \<and> surface = ''task.submit''"
    then show ?thesis unfolding only surface_handler_def queue_handler_def by (simp add: handle_request_def Let_def)
  next
    assume a: "mid_segment ''/v1/tasks/'' '''' ?p \<and> ?p \<noteq> ''/v1/tasks'' \<and> rq_method r = ''GET'' \<and> surface = ''task.inspect''"
    then have "?p \<noteq> ''/healthz''" "?p \<noteq> ''/readyz''" by (auto simp: mid_segment_iff)
    with a show ?thesis unfolding only surface_handler_def queue_handler_def by (simp add: handle_request_def Let_def)
  qed
qed

lemma after_gate_workflow_operation:
  assumes path: "starts_with (u_pathname (rq_url r)) ''/v1/workflows''" "u_pathname (rq_url original) = u_pathname (rq_url r)"
    and no: "\<not> mid_segment ''/v1/workflows/'' ''/result'' (u_pathname (rq_url r))"
    and served: "\<And>rt fetch config registry now b. handle_public_workflow_request rt fetch config registry now r b
      = map_prod id Some (f rt fetch config registry now b)"
  shows "first_answer (after_gate gw env original r) = queue_handler f gw env"
proof -
  have "handle_public_workflow_request rt fetch config registry now r = (\<lambda>b. map_prod id Some (f rt fetch config registry now b))"
    for rt fetch config registry now
    by (rule ext) (rule served)
  then show ?thesis
    unfolding after_gate_queue [OF disjI2 [OF path(1)] path(2)]
    by (simp only: first_answer_pass [OF declared_passes [OF no]] first_answer_stop [OF queue_handler_answers]
        queue_handler_def)
qed

lemma after_gate_workflows:
  assumes "required_surface (u_pathname (rq_url r)) (rq_method r) = Some surface"
    and path: "starts_with (u_pathname (rq_url r)) ''/v1/workflows''" "u_pathname (rq_url original) = u_pathname (rq_url r)"
  shows "first_answer (after_gate gw env original r) = surface_handler gw env surface r"
proof -
  let ?p = "u_pathname (rq_url r)"
  note operation = after_gate_workflow_operation [OF path]
  consider (submit) "?p = ''/v1/workflows''" "rq_method r = ''POST''" "surface = ''workflow.submit''"
    | (inspect) "mid_segment ''/v1/workflows/'' '''' ?p" "rq_method r = ''GET''" "surface = ''workflow.inspect''"
    | (result) "mid_segment ''/v1/workflows/'' ''/result'' ?p" "rq_method r = ''GET''" "surface = ''workflow.result''"
    | (cancel) "mid_segment ''/v1/workflows/'' ''/cancel'' ?p" "rq_method r = ''POST''" "surface = ''workflow.cancel''"
    using assms(1,2) by (auto simp: required_surface_def mid_segment_iff starts_with_iff split: if_splits)
  then show ?thesis
  proof cases
    case result
    then show ?thesis unfolding after_gate_queue [OF disjI2 [OF path(1)] path(2)]
      by (subst first_answer_stop)
        (auto simp: surface_handler_def queue_handler_def handle_declared_workflow_result_request_def Let_def
          fun_eq_iff on_bucket_def intro!: answers_bucket split: prod.splits)
  next
    case submit
    then have "\<not> mid_segment ''/v1/workflows/'' ''/result'' ?p" by (auto simp: mid_segment_iff)
    from submit show ?thesis
      by (subst operation [OF \<open>\<not> mid_segment _ _ _\<close>])
        (auto simp: handle_public_workflow_request_def Let_def surface_handler_def)
  next
    case inspect
    note no = workflow_segments [OF inspect(1)]
    from inspect no show ?thesis
      by (subst operation [OF no(1)]) (auto simp: handle_public_workflow_request_def Let_def surface_handler_def)
  next
    case cancel
    note no = cancel_result [OF cancel(1)]
    from cancel no show ?thesis
      by (subst operation [OF no(1)]) (auto simp: handle_public_workflow_request_def Let_def surface_handler_def)
  qed
qed

text \<open>On a path of the filesystem or of git the process route and the other family's handlers pass.\<close>

lemma files_path_passes:
  assumes "starts_with (u_pathname (rq_url r)) ''/v1/filesystem/'' \<or> starts_with (u_pathname (rq_url r)) ''/v1/git/''"
  shows "passes (pure_answer (snd (handle_registered_process_request rt fs spawn config now aborted r)))"
  using assms by (subst process_passes) (auto simp: starts_with_iff)

lemma git_path_passes:
  assumes "starts_with path ''/v1/git/''"
  shows "filesystem_operation_of path = None" "mutation_operation_of path = None"
  using assms by (auto simp: starts_with_iff filesystem_operation_of_def mutation_operation_of_def)

lemma after_gate_read:
  assumes "filesystem_operation_of (u_pathname (rq_url r)) = Some operation" "rq_method r = ''POST''"
  shows "first_answer (after_gate gw env original r) = pure_answer (Some (Inr (Some
    (boundary_answer (run_filesystem (gw_runtime gw) (ho_data (gw_host gw)) (gw_config gw) operation r)))))"
proof -
  have "starts_with (u_pathname (rq_url r)) ''/v1/filesystem/''"
    using assms(1) by (auto simp: filesystem_operation_of_def starts_with_def split: if_splits)
  note p = files_path_passes [OF disjI1 [OF this]]
  show ?thesis unfolding after_gate_def
    by (subst first_answer_pass [OF p], subst first_answer_stop)
      (simp_all add: assms handle_filesystem_request_def boundary_answer_def)
qed

lemma mutation_handler_answers:
  assumes "mutation_operation_of (u_pathname (rq_url r)) \<noteq> None"
  shows "snd (handle_filesystem_mutation_request rt fs mutator config r) \<noteq> Some None"
  using assms by (auto simp: handle_filesystem_mutation_request_def split: sum.split prod.split option.split if_split)

lemma after_gate_change:
  assumes "mutation_operation_of (u_pathname (rq_url r)) \<noteq> None"
  shows "first_answer (after_gate gw env original r) = pure_answer (map_option Inr (snd
    (handle_filesystem_mutation_request (gw_runtime gw) (ho_files (gw_host gw)) (ho_mutator (gw_host gw)) (gw_config gw) r)))"
proof -
  have path: "starts_with (u_pathname (rq_url r)) ''/v1/filesystem/''" "filesystem_operation_of (u_pathname (rq_url r)) = None"
    using assms by (auto simp: mutation_operation_of_def filesystem_operation_of_def starts_with_def split: if_splits)
  note p = files_path_passes [OF disjI1 [OF path(1)]]
  show ?thesis unfolding after_gate_def
    by (subst first_answer_pass [OF p], subst first_answer_pass, simp add: filesystem_passes [OF path(2)],
        subst first_answer_stop) (auto simp: mutation_handler_answers [OF assms])
qed

lemma after_gate_git:
  assumes "u_pathname (rq_url r) \<in> set [''/v1/git/head'', ''/v1/git/log'', ''/v1/git/refs'']"
  shows "first_answer (after_gate gw env original r) = pure_answer (map_option Inr
    (handle_git_metadata_request (gw_runtime gw) (ho_git (gw_host gw)) (gw_config gw) r))"
proof -
  have path: "starts_with (u_pathname (rq_url r)) ''/v1/git/''" using assms by (auto simp: starts_with_def)
  note p = files_path_passes [OF disjI2 [OF path]] and q = git_path_passes [OF path]
  have "handle_git_metadata_request rt h config r \<noteq> Some None" for rt h config
    using assms by (auto simp: handle_git_metadata_request_def Let_def)
  then show ?thesis unfolding after_gate_def
    by (subst first_answer_pass [OF p], subst first_answer_pass, simp add: filesystem_passes [OF q(1)],
        subst first_answer_pass, simp add: mutation_passes [OF q(2)], subst first_answer_stop) auto
qed

lemma after_gate_surface:
  assumes surface: "required_surface (u_pathname (rq_url r)) (rq_method r) = Some surface"
    and path: "u_pathname (rq_url original) = u_pathname (rq_url r)"
  shows "first_answer (after_gate gw env original r) = surface_handler gw env surface r"
proof -
  let ?p = "u_pathname (rq_url r)"
  consider (tasks) "starts_with ?p ''/v1/tasks''" | (workflows) "starts_with ?p ''/v1/workflows''"
    | (list) "?p = ''/v1/filesystem/list''" "rq_method r = ''POST''" "surface = ''filesystem.list''"
    | (stat) "?p = ''/v1/filesystem/stat''" "rq_method r = ''POST''" "surface = ''filesystem.stat''"
    | (read) "?p = ''/v1/filesystem/read''" "rq_method r = ''POST''" "surface = ''filesystem.read''"
    | (change) "mutation_operation_of ?p \<noteq> None" "surface \<in> set [''filesystem.write'', ''filesystem.mkdir'']"
    | (git) "?p \<in> set [''/v1/git/head'', ''/v1/git/log'', ''/v1/git/refs'']" "surface \<in> set [''git.head'', ''git.log'', ''git.refs'']"
    using surface
    by (auto simp: required_surface_def mid_segment_iff starts_with_iff mutation_operation_of_def split: if_splits)
  then show ?thesis
  proof cases
    case tasks
    then show ?thesis using surface path by (intro after_gate_tasks)
  next
    case workflows
    then show ?thesis using surface path by (intro after_gate_workflows)
  next
    case list
    then show ?thesis by (simp add: after_gate_read [of r ListOperation] filesystem_operation_of_def surface_handler_def)
  next
    case stat
    then show ?thesis by (simp add: after_gate_read [of r StatOperation] filesystem_operation_of_def surface_handler_def)
  next
    case read
    then show ?thesis by (simp add: after_gate_read [of r ReadOperation] filesystem_operation_of_def surface_handler_def)
  next
    case change
    then have "surface = ''filesystem.write'' \<or> surface = ''filesystem.mkdir''" by simp
    then show ?thesis by (elim disjE) (simp_all add: after_gate_change [OF change(1)] surface_handler_def Let_def)
  next
    case git
    then have "surface = ''git.head'' \<or> surface = ''git.log'' \<or> surface = ''git.refs''" by simp
    then show ?thesis by (elim disjE) (simp_all add: after_gate_git [OF git(1)] surface_handler_def Let_def)
  qed
qed

section \<open>Guarded routes\<close>

text \<open>
  The answer of a guarded route is the gate's, or that of the one operation the route's capability names, on
  the request with the credential the gate has put in: none of the seven endpoints in front of the gate and none
  of the other handlers behind it ever answers for it or touches the state first. In particular the result of a
  workflow is always served by the handler that checks declared outputs, never by the older one of the workflow
  API, which stays behind it in the chain.
\<close>

theorem guarded_route_behaviour:
  assumes "required_surface (u_pathname (rq_url r)) (rq_method r) = Some surface"
  shows "route_gateway_request gw env r st =
    (case enforce_capability_access (gw_runtime gw) r (gw_config gw) (ge_now env) of
       Inl e \<Rightarrow> (st, Some (Inl e))
     | Inr (Refused response) \<Rightarrow> (st, Some (Inr (Some response)))
     | Inr (Admitted r') \<Rightarrow> surface_handler gw env surface r' st)"
proof -
  have "first_answer (after_gate gw env r r') = surface_handler gw env surface r'"
    if "enforce_capability_access (gw_runtime gw) r (gw_config gw) (ge_now env) = Inr (Admitted r')" for r'
    using admitted_path [OF that] assms by (intro after_gate_surface) simp_all
  then show ?thesis
    by (simp add: route_through_gate [OF surface_not_open [OF assms]] through_gate_def split: sum.split enforced.split)
qed

lemma guarded_route_granted:
  assumes "required_surface (u_pathname (rq_url r)) (rq_method r) = Some surface"
    and "resolve_authorization_context (gw_runtime gw) r (gw_config gw) (ge_now env) = Inr auth"
  shows "\<exists>d. get_capability CAPABILITY_REGISTRY surface = Some d
    \<and> (case auth of
         None \<Rightarrow> \<exists>res. route_gateway_request gw env r st = (st, Some (Inr (Some res))) \<and> rs_status res = 401
       | Some ctx \<Rightarrow>
           let granted = (\<lambda>d. dc_allowed (evaluate_capability_grant (ac_grant ctx) d));
               task = (if surface = ''task.submit'' then task_descriptor_from_request (gw_runtime gw) r else None)
           in if granted d \<and> (case task of None \<Rightarrow> True | Some t \<Rightarrow> granted t)
              then route_gateway_request gw env r st
                = surface_handler gw env surface (internalize_authorization r (gw_config gw) ctx) st
              else \<exists>res. route_gateway_request gw env r st = (st, Some (Inr (Some res))) \<and> rs_status res = 403)"
proof -
  obtain d where d: "get_capability CAPABILITY_REGISTRY surface = Some d"
    using registry_complete [OF assms(1)] by blast
  note behaviour = guarded_route_behaviour [OF assms(1), of gw env st]
  show ?thesis
  proof (cases auth)
    case None
    with d behaviour assms show ?thesis by (auto simp: enforce_capability_access_def)
  next
    case (Some ctx)
    let ?task = "if surface = ''task.submit'' then task_descriptor_from_request (gw_runtime gw) r else None"
    have "enforce_capability_access (gw_runtime gw) r (gw_config gw) (ge_now env) =
      (case authorize_descriptor ctx d of
         Some denied \<Rightarrow> Inr (Refused denied)
       | None \<Rightarrow> (case ?task of
           None \<Rightarrow> Inr (Admitted (internalize_authorization r (gw_config gw) ctx))
         | Some t \<Rightarrow> (case authorize_descriptor ctx t of
             Some denied \<Rightarrow> Inr (Refused denied)
           | None \<Rightarrow> Inr (Admitted (internalize_authorization r (gw_config gw) ctx)))))"
      using assms Some d task_submit_route [of "u_pathname (rq_url r)" "rq_method r"]
      by (cases "authorize_descriptor ctx d"; cases "surface = ''task.submit''";
          cases "task_descriptor_from_request (gw_runtime gw) r")
        (auto simp: enforce_capability_access_def Let_def split: option.split simp del: authorize_descriptor_None)
    with d behaviour Some show ?thesis
      by (auto simp: Let_def dest!: authorize_descriptor_Some simp flip: authorize_descriptor_None
          split: option.splits)
  qed
qed

text \<open>
  C3. No guarded operation without its grant, end to end. When the authority of a request has been resolved, a
  guarded route either runs the route's operation, and then an authority was found whose grant covers the route's
  capability and, for a task, that of its type; or it leaves the whole state as it was, the OAuth stores, the
  agents' tables and the admission bucket included, and answers 401 where there is no authority and 403 where its
  grant does not cover the operation.
\<close>

theorem guarded_routes_need_grant:
  assumes "required_surface (u_pathname (rq_url r)) (rq_method r) = Some surface"
    and "resolve_authorization_context (gw_runtime gw) r (gw_config gw) (ge_now env) = Inr auth"
  shows "\<exists>d. get_capability CAPABILITY_REGISTRY surface = Some d
    \<and> (case auth of
         None \<Rightarrow> \<exists>res. route_gateway_request gw env r st = (st, Some (Inr (Some res))) \<and> rs_status res = 401
       | Some ctx \<Rightarrow>
           let granted = (\<lambda>d. dc_allowed (evaluate_capability_grant (ac_grant ctx) d));
               task = (if surface = ''task.submit'' then task_descriptor_from_request (gw_runtime gw) r else None)
           in if granted d \<and> (case task of None \<Rightarrow> True | Some t \<Rightarrow> granted t)
              then route_gateway_request gw env r st
                = surface_handler gw env surface (internalize_authorization r (gw_config gw) ctx) st
              else \<exists>res. route_gateway_request gw env r st = (st, Some (Inr (Some res))) \<and> rs_status res = 403)"
  using assms by (rule guarded_route_granted)

definition example_gateway :: gateway where
  "example_gateway =
     \<lparr>gw_context = \<lparr>ox_runtime = example_runtime, ox_config = example_config, ox_policy = None, ox_cimd = None\<rparr>,
      gw_registry = TASK_REGISTRY, gw_host = empty_host, gw_provider_fetch = None\<rparr>"

definition example_gateway_env :: gateway_env where
  "example_gateway_env =
     \<lparr>ge_now = 1059999, ge_uuid = [],
      ge_oauth = \<lparr>oe_clock = (\<lambda>n. None), oe_ids = [], oe_codes = [], oe_now_ms = 0, oe_uuid = [],
        oe_continue_uri = (\<lambda>origin id. None)\<rparr>,
      ge_agent = \<lparr>ae_now = 0, ae_now_lock = 0, ae_now_due = 0, ae_token = [], ae_row_id = (\<lambda>v. None)\<rparr>,
      ge_admission_now = 0, ge_fetch = (\<lambda>c. None), ge_broker = (\<lambda>url headers body. None),
      ge_spawn = (\<lambda>call. None), ge_aborted = False\<rparr>"

definition example_gateway_state :: gateway_state where
  "example_gateway_state =
     \<lparr>gs_oauth = \<lparr>os_pending = None, os_codes = None\<rparr>,
      gs_agents = \<lparr>as_presence = [], as_tokens = [], as_tasks = [], as_results = []\<rparr>,
      gs_bucket = \<lparr>bk_rate = 1, bk_burst = 1, bk_tokens = 1, bk_last_ms = 0\<rparr>\<rparr>"

text \<open>A session of depth 2 is refused the git head, which asks for more.\<close>

theorem guarded_routes_need_grant_witness:
  "\<exists>res. route_gateway_request example_gateway example_gateway_env
       (example_request ''GET'' ''/v1/git/head'' example_token) example_gateway_state
     = (example_gateway_state, Some (Inr (Some res))) \<and> rs_status res = 403"
proof -
  let ?r = "example_request ''GET'' ''/v1/git/head'' example_token"
  have surface: "required_surface (u_pathname (rq_url ?r)) (rq_method ?r) = Some ''git.head''" by code_simp
  have "resolve_authorization_context example_runtime ?r example_config 1059999 =
        Inr (Some (session_context example_claims))"
    by code_simp
  then have auth: "resolve_authorization_context (gw_runtime example_gateway) ?r (gw_config example_gateway)
      (ge_now example_gateway_env) = Inr (Some (session_context example_claims))"
    by (simp add: example_gateway_def example_gateway_env_def)
  have "case get_capability CAPABILITY_REGISTRY ''git.head'' of None \<Rightarrow> False
      | Some d \<Rightarrow> \<not> dc_allowed (evaluate_capability_grant (ac_grant (session_context example_claims)) d)"
    by code_simp
  with guarded_routes_need_grant [OF surface auth, of example_gateway_state] show ?thesis
    by (auto simp: Let_def)
qed

end
