(* ===== verification/Mcp.thy ===== *)
theory Mcp
  imports Catalogue Metadata "HOL-Library.Countable"
begin

text \<open>
  The MCP endpoint (\<open>gateway/src/mcp.ts\<close>): one JSON-RPC request over HTTP, its envelope and header checks, the
  tool list of a caller, and the translation of a tool call to one request to the gateway itself. The gateway is
  an argument, a function from the request and the state; \<open>None\<close> stands for a call that never ends, \<open>Inl\<close> for an
  error that is thrown.
\<close>

definition MCP_PROTOCOL_VERSION :: string where "MCP_PROTOCOL_VERSION = ''2026-07-28''"
definition MCP_ENDPOINT :: string where "MCP_ENDPOINT = ''/mcp''"
definition MCP_LIST_TTL_MS :: int where "MCP_LIST_TTL_MS = 30000"
definition MAX_FILESYSTEM_PATH_CHARS :: nat where "MAX_FILESYSTEM_PATH_CHARS = 4096"

type_synonym 's gateway_invoker = "request \<Rightarrow> 's \<Rightarrow> 's \<times> (string + response) option"

record rpc_request =
  rpc_id :: json
  rpc_method :: string
  rpc_params :: json

section \<open>Answers\<close>

definition SERVER_INFO_KEY :: string where "SERVER_INFO_KEY = ''io.modelcontextprotocol/serverInfo''"

definition server_info :: json where
  "server_info = JObj [(''name'', JStr ''task-que-que''), (''version'', JStr GATEWAY_VERSION)]"

definition with_server_meta :: "(string \<times> json) list \<Rightarrow> json" where
  "with_server_meta result =
     (let existing = (case map_of result ''_meta'' of Some (JObj ps) \<Rightarrow> ps | _ \<Rightarrow> [])
      in JObj (map_set ''_meta'' (JObj (map_set SERVER_INFO_KEY server_info existing)) result))"

definition rpc_result :: "json \<Rightarrow> (string \<times> json) list \<Rightarrow> string \<Rightarrow> response" where
  "rpc_result i result cache =
     document_response (JObj [(''jsonrpc'', JStr ''2.0''), (''id'', i), (''result'', with_server_meta result)]) 200 cache []"

definition rpc_failure :: "json \<Rightarrow> int \<Rightarrow> string \<Rightarrow> nat \<Rightarrow> (string \<times> json) list \<Rightarrow> (string \<times> string) list \<Rightarrow> response" where
  "rpc_failure i code message status data extra =
     document_response
       (JObj [(''jsonrpc'', JStr ''2.0''), (''id'', i),
              (''error'', JObj ([(''code'', JInt code), (''message'', JStr message)]
                @ (if data = [] then [] else [(''data'', JObj data)])))])
       status ''no-store'' extra"

abbreviation rpc_error :: "json \<Rightarrow> int \<Rightarrow> string \<Rightarrow> nat \<Rightarrow> response" where
  "rpc_error i code message status \<equiv> rpc_failure i code message status [] []"

lemma rpc_status [simp]:
  "rs_status (rpc_result i result cache) = 200" "rs_status (rpc_failure i code message status data extra) = status"
  by (simp_all add: rpc_result_def rpc_failure_def)

section \<open>The envelope\<close>

definition is_json_rpc_id :: "json option \<Rightarrow> bool" where
  "is_json_rpc_id v \<longleftrightarrow> is_string v \<or> is_safe_integer v"

text \<open>
  A header whose value is \<open>=?base64?\<dots>?=\<close> with characters of the base64 alphabet and at most two \<open>=\<close> is decoded, any
  other is taken as it is when it is printable ASCII.
\<close>

definition is_base64_text :: "string \<Rightarrow> bool" where
  "is_base64_text s \<longleftrightarrow>
     (let digits = takeWhile (\<lambda>c. c \<noteq> CHR ''='') s; padding = drop (length digits) s
      in list_all (\<lambda>c. c \<in> set b64_alphabet) digits \<and> list_all (\<lambda>c. c = CHR ''='') padding \<and> length padding \<le> 2)"

definition base64_sentinel :: "string \<Rightarrow> string option" where
  "base64_sentinel value =
     (if starts_with value ''=?base64?'' \<and> ends_with value ''?='' \<and> length value \<ge> 11
         \<and> is_base64_text (drop 9 (take (length value - 2) value))
      then Some (drop 9 (take (length value - 2) value)) else None)"

definition decode_mirrored_header :: "(nat list \<Rightarrow> string option) \<Rightarrow> string \<Rightarrow> string option" where
  "decode_mirrored_header decode value =
     (case base64_sentinel value of
        None \<Rightarrow> if list_all (\<lambda>c. between 32 126 c) value then Some value else None
      | Some encoded \<Rightarrow> (case atob encoded of None \<Rightarrow> None | Some bytes \<Rightarrow> decode bytes))"

definition origin_allowed :: "runtime \<Rightarrow> request \<Rightarrow> bool" where
  "origin_allowed rt r \<longleftrightarrow>
     (case truthy (header r ''origin'') of
        None \<Rightarrow> True
      | Some origin \<Rightarrow> (case rt_url rt origin of None \<Rightarrow> False | Some u \<Rightarrow> u_origin u = u_origin (rq_url r)))"

definition read_rpc_json :: "runtime \<Rightarrow> request \<Rightarrow> response + json" where
  "read_rpc_json rt r =
     (if \<not> json_content_type r then Inl (rpc_error JNull (- 32600) ''MCP requests require application/json'' 415)
      else
        (case check_declared_length rt r MAX_PUBLIC_REQUEST_BYTES of
           LengthInvalid \<Rightarrow> Inl (rpc_error JNull (- 32600) ''invalid content-length'' 400)
         | LengthTooLarge \<Rightarrow> Inl (rpc_error JNull (- 32600) ''MCP request body exceeds 1 MiB'' 413)
         | LengthOk \<Rightarrow>
             if byte_length (rq_body r) > MAX_PUBLIC_REQUEST_BYTES
               then Inl (rpc_error JNull (- 32600) ''MCP request body exceeds 1 MiB'' 413)
             else
               (case rt_json_parse rt (rq_body r) of
                  None \<Rightarrow> Inl (rpc_error JNull (- 32700) ''Parse error'' 400)
                | Some v \<Rightarrow> Inr v)))"

definition parse_json_rpc :: "json \<Rightarrow> response + rpc_request" where
  "parse_json_rpc v =
     (if \<not> is_record v \<or> field v ''jsonrpc'' \<noteq> Some (JStr ''2.0'') \<or> \<not> is_json_rpc_id (field v ''id'')
         \<or> \<not> is_string (field v ''method'')
      then Inl (rpc_error JNull (- 32600) ''Invalid Request'' 400)
      else
        (let i = the (field v ''id'')
         in case field v ''params'' of
              None \<Rightarrow> Inr \<lparr>rpc_id = i, rpc_method = str_of (field v ''method''), rpc_params = JObj []\<rparr>
            | Some params \<Rightarrow>
                if \<not> is_record params then Inl (rpc_error i (- 32602) ''params must be an object'' 400)
                else Inr \<lparr>rpc_id = i, rpc_method = str_of (field v ''method''), rpc_params = params\<rparr>))"

definition is_record_field :: "json option \<Rightarrow> bool" where
  "is_record_field v = (case v of Some x \<Rightarrow> is_record x | None \<Rightarrow> False)"

definition header_mismatch :: "rpc_request \<Rightarrow> string \<Rightarrow> response" where
  "header_mismatch rpc what = rpc_error (rpc_id rpc) (- 32020) (''Header mismatch: '' @ what) 400"

definition check_tool_name :: "(nat list \<Rightarrow> string option) \<Rightarrow> request \<Rightarrow> rpc_request \<Rightarrow> response option" where
  "check_tool_name decode r rpc =
     (if \<not> is_string (field (rpc_params rpc) ''name'')
        then Some (rpc_error (rpc_id rpc) (- 32602) ''tools/call requires params.name'' 400)
      else
        (case truthy (header r ''mcp-name'') of
           None \<Rightarrow> Some (header_mismatch rpc ''Mcp-Name is required for tools/call'')
         | Some mirrored \<Rightarrow>
             if decode_mirrored_header decode mirrored \<noteq> Some (str_of (field (rpc_params rpc) ''name''))
               then Some (header_mismatch rpc ''Mcp-Name does not match params.name'')
             else None))"

definition validate_meta_and_headers :: "(nat list \<Rightarrow> string option) \<Rightarrow> request \<Rightarrow> rpc_request \<Rightarrow> response option" where
  "validate_meta_and_headers decode r rpc =
     (case field (rpc_params rpc) ''_meta'' of
        None \<Rightarrow> Some (rpc_error (rpc_id rpc) (- 32602) ''missing MCP request _meta'' 400)
      | Some meta \<Rightarrow>
          (let version = field meta ''io.modelcontextprotocol/protocolVersion'';
               client = field meta ''io.modelcontextprotocol/clientInfo''
           in if \<not> is_record meta then Some (rpc_error (rpc_id rpc) (- 32602) ''missing MCP request _meta'' 400)
              else if \<not> is_string version \<or> \<not> is_record_field (field meta ''io.modelcontextprotocol/clientCapabilities'')
                then Some (rpc_error (rpc_id rpc) (- 32602) ''invalid MCP request metadata'' 400)
              else if client \<noteq> None \<and> (\<not> is_record_field client \<or> \<not> is_string (field (the client) ''name'')
                        \<or> \<not> is_string (field (the client) ''version''))
                then Some (rpc_error (rpc_id rpc) (- 32602) ''invalid MCP clientInfo metadata'' 400)
              else
                (case truthy (header r ''mcp-protocol-version'') of
                   None \<Rightarrow> Some (header_mismatch rpc ''MCP-Protocol-Version is required'')
                 | Some header_version \<Rightarrow>
                     if header_version \<noteq> str_of version
                       then Some (header_mismatch rpc ''MCP-Protocol-Version does not match request metadata'')
                     else if str_of version \<noteq> MCP_PROTOCOL_VERSION
                       then Some (rpc_failure (rpc_id rpc) (- 32022) ''Unsupported protocol version'' 400
                              [(''supported'', JArr [JStr MCP_PROTOCOL_VERSION]), (''requested'', JStr (str_of version))] [])
                     else if truthy (header r ''mcp-method'') = None \<or> header r ''mcp-method'' \<noteq> Some (rpc_method rpc)
                       then Some (header_mismatch rpc ''Mcp-Method does not match request method'')
                     else if rpc_method rpc = ''tools/call'' then check_tool_name decode r rpc
                     else None)))"


section \<open>Tools\<close>

definition capability_allowed :: "authorization_context \<Rightarrow> capability_descriptor \<Rightarrow> bool" where
  "capability_allowed auth d \<longleftrightarrow> dc_allowed (evaluate_capability_grant (ac_grant auth) d)"

definition capability_executable :: "authorization_context \<Rightarrow> capability_descriptor \<Rightarrow> availability \<Rightarrow> bool" where
  "capability_executable auth d s \<longleftrightarrow> capability_allowed auth d \<and> is_capability_available d s"

definition task_submit_surface :: "capability_descriptor option" where
  "task_submit_surface = get_capability CAPABILITY_REGISTRY ''task.submit''"

definition tool_prerequisites :: "capability_descriptor \<Rightarrow> capability_descriptor list" where
  "tool_prerequisites d =
     (if cd_kind d \<noteq> Task then [d]
      else (case task_submit_surface of None \<Rightarrow> [] | Some submit \<Rightarrow> [submit, d]))"

definition executable_task_names :: "runtime \<Rightarrow> authorization_context \<Rightarrow> availability \<Rightarrow> string list" where
  "executable_task_names rt auth s =
     (case task_submit_surface of
        None \<Rightarrow> []
      | Some submit \<Rightarrow>
          if \<not> capability_allowed auth submit then []
          else sort_by (rt_locale_le rt)
            (map cd_name (filter (\<lambda>d. capability_executable auth d s)
              (filter (\<lambda>d. cd_kind d = Task \<and> cd_publicly_discoverable d) (map snd CAPABILITY_REGISTRY)))))"

subsection \<open>Input schemas\<close>

definition schema_type :: "string \<Rightarrow> string \<times> json" where
  "schema_type t = (''type'', JStr t)"

definition object_schema :: "(string \<times> json) list \<Rightarrow> string list \<Rightarrow> json" where
  "object_schema properties required =
     JObj [schema_type ''object'', (''properties'', JObj properties), (''required'', text_array required),
           (''additionalProperties'', JBool False)]"

definition idempotency_schema :: json where
  "idempotency_schema =
     JObj [schema_type ''string'', (''minLength'', JInt 1), (''maxLength'', JInt 128),
           (''pattern'', JStr ''^[A-Za-z0-9._:-]+$''),
           (''description'', JStr ''Stable retry key for this mutating invocation.'')]"

definition empty_schema :: json where
  "empty_schema = JObj [schema_type ''object'', (''additionalProperties'', JBool False)]"

definition positive_id_schema :: "string \<Rightarrow> json" where
  "positive_id_schema name =
     object_schema [(name, JObj [schema_type ''integer'', (''minimum'', JInt 1)])] [name]"

definition path_schema :: "string \<Rightarrow> json" where
  "path_schema description =
     JObj [schema_type ''string'', (''minLength'', JInt 1), (''maxLength'', JInt (int MAX_FILESYSTEM_PATH_CHARS)),
           (''description'', JStr description)]"

definition filesystem_path_schema :: json where
  "filesystem_path_schema =
     object_schema [(''path'', path_schema (''Relative POSIX path inside the server-configured filesystem root. ''
       @ ''Absolute paths, parent traversal, and backslashes are rejected by the gateway.''))] [''path'']"

definition filesystem_write_schema :: json where
  "filesystem_write_schema =
     object_schema
       [(''path'', path_schema (''Exact relative POSIX path inside the server-configured filesystem root. ''
          @ ''Dot traversal, repeated separators, absolute paths, and backslashes are rejected.'')),
        (''content'', JObj [schema_type ''string'', (''description'',
          JStr ''UTF-8 file content. The gateway and Rust mutation substrate enforce a 1 MiB byte ceiling.'')])]
       [''path'', ''content'']"

definition task_envelope_schema :: "bool \<Rightarrow> string list \<Rightarrow> json" where
  "task_envelope_schema include_type task_names =
     object_schema
       ([(''payload'', JObj []), (''priority'', JObj [schema_type ''integer'']),
         (''max_retries'', JObj [schema_type ''integer'', (''minimum'', JInt 0)]), (''idempotency_key'', idempotency_schema)]
        @ (if include_type then [(''type'', JObj (schema_type ''string''
              # (if length task_names > 0 then [(''enum'', text_array task_names)] else [])
              @ [(''description'', JStr ''Registered task capability to invoke.'')]))] else []))
       ((if include_type then [''type''] else []) @ [''payload'', ''idempotency_key''])"

definition workflow_submit_schema :: json where
  "workflow_submit_schema =
     object_schema [(''workflow'', JObj [schema_type ''object'']), (''idempotency_key'', idempotency_schema)]
       [''workflow'', ''idempotency_key'']"

definition tool_schema :: "runtime \<Rightarrow> capability_descriptor \<Rightarrow> authorization_context \<Rightarrow> availability \<Rightarrow> json option" where
  "tool_schema rt d auth s =
     (let name = cd_name d
      in if cd_provider d = ''bun-filesystem'' then Some filesystem_path_schema
         else if cd_provider d = ''rust-fs-mutator''
           then (if name = ''filesystem.write'' then Some filesystem_write_schema
                 else if name = ''filesystem.mkdir'' then Some filesystem_path_schema else None)
         else if cd_provider d = ''git-cli-metadata'' then Some empty_schema
         else if name = ''system.health'' \<or> name = ''system.readiness'' \<or> name = ''system.capabilities''
           then Some empty_schema
         else if name = ''task.inspect'' then Some (positive_id_schema ''task_id'')
         else if name = ''task.submit''
           then (let task_names = executable_task_names rt auth s
                 in if length task_names > 0 then Some (task_envelope_schema True task_names) else None)
         else if name = ''workflow.inspect'' \<or> name = ''workflow.result'' \<or> name = ''workflow.cancel''
           then Some (positive_id_schema ''workflow_id'')
         else if name = ''workflow.submit'' then Some workflow_submit_schema
         else if cd_kind d = Task then Some (task_envelope_schema False []) else None)"

definition tool_meta :: "capability_descriptor \<Rightarrow> json" where
  "tool_meta d =
     JObj [(''com.taskqueque/capability'', JObj
       [(''provider'', JStr (cd_provider d)), (''min_depth'', JInt (cd_min_depth d)),
        (''min_authority'', JInt (cd_min_authority d)), (''required_scopes'', text_array (cd_required_scopes d)),
        (''authorized'', JBool True), (''available'', JBool True), (''executable'', JBool True),
        (''mutates_state'', JBool (cd_mutates_state d)), (''cancellable'', JBool (cd_cancellable d)),
        (''durable'', JBool (cd_durable d))])]"

definition tool_entry :: "capability_descriptor \<Rightarrow> json \<Rightarrow> json" where
  "tool_entry d schema =
     JObj [(''name'', JStr (cd_name d)), (''title'', JStr (cd_name d)), (''description'', JStr (cd_description d)),
           (''inputSchema'', schema), (''_meta'', tool_meta d)]"

definition mcp_tool :: "runtime \<Rightarrow> capability_descriptor \<Rightarrow> authorization_context \<Rightarrow> availability \<Rightarrow> json option" where
  "mcp_tool rt d auth s =
     (let prerequisites = tool_prerequisites d
      in if prerequisites = [] \<or> list_ex (\<lambda>item. \<not> capability_allowed auth item) prerequisites
            \<or> \<not> is_capability_available d s then None
         else map_option (tool_entry d) (tool_schema rt d auth s))"

definition list_tools :: "runtime \<Rightarrow> authorization_context \<Rightarrow> availability \<Rightarrow> json list" where
  "list_tools rt auth s =
     List.map_filter (\<lambda>d. mcp_tool rt d auth s)
       (sort_by (\<lambda>l r. rt_locale_le rt (cd_name l) (cd_name r))
         (filter cd_publicly_discoverable (map snd CAPABILITY_REGISTRY)))"

section \<open>Tool calls\<close>

definition valid_idempotency_key :: "json option \<Rightarrow> bool" where
  "valid_idempotency_key v \<longleftrightarrow> is_string v \<and> rx_range is_safe_id_char 1 128 (str_of v)"

definition valid_filesystem_path :: "json option \<Rightarrow> bool" where
  "valid_filesystem_path v \<longleftrightarrow>
     is_string v \<and> length (str_of v) > 0 \<and> length (str_of v) \<le> MAX_FILESYSTEM_PATH_CHARS
     \<and> list_all (\<lambda>c. unit_of c \<noteq> 0) (str_of v)"

definition keys_among :: "json \<Rightarrow> string list \<Rightarrow> bool" where
  "keys_among v allowed \<longleftrightarrow> list_all (\<lambda>k. k \<in> set allowed) (keys_of (fields_of v))"

definition given :: "json \<Rightarrow> string \<Rightarrow> (string \<times> json) list" where
  "given v name = (case field v name of None \<Rightarrow> [] | Some x \<Rightarrow> [(name, x)])"

text \<open>The body of the task request and its idempotency key.\<close>

definition task_arguments :: "json \<Rightarrow> bool \<Rightarrow> ((string \<times> json) list \<times> string) option" where
  "task_arguments args include_type =
     (let max_retries = field args ''max_retries''; priority = field args ''priority''
      in if \<not> keys_among args ((if include_type then [''type''] else [])
              @ [''payload'', ''priority'', ''max_retries'', ''idempotency_key'']) then None
         else if field args ''payload'' = None \<or> \<not> valid_idempotency_key (field args ''idempotency_key'') then None
         else if include_type \<and> (\<not> is_string (field args ''type'') \<or> length (str_of (field args ''type'')) = 0) then None
         else if priority \<noteq> None \<and> \<not> is_integer priority then None
         else if max_retries \<noteq> None \<and> (\<not> is_integer max_retries \<or> int_of max_retries < 0) then None
         else Some ((if include_type then given args ''type'' else []) @ given args ''payload''
                @ given args ''priority'' @ given args ''max_retries'', str_of (field args ''idempotency_key'')))"

definition positive_integer :: "json option \<Rightarrow> bool" where
  "positive_integer v \<longleftrightarrow> is_safe_integer v \<and> int_of v > 0"

text \<open>\<open>new Request\<close> throws where the URL does not parse.\<close>

definition INTERNAL_ORIGIN :: string where "INTERNAL_ORIGIN = ''http://gateway.internal''"

definition given_header :: "string \<Rightarrow> string option \<Rightarrow> (string \<times> string) list" where
  "given_header name v = (case v of None \<Rightarrow> [] | Some x \<Rightarrow> [(name, x)])"

definition gateway_request ::
  "runtime \<Rightarrow> request \<Rightarrow> string \<Rightarrow> string \<Rightarrow> json option \<Rightarrow> string option \<Rightarrow> string + request" where
  "gateway_request rt source path verb body key =
     (case rt_url rt (INTERNAL_ORIGIN @ path) of
        None \<Rightarrow> Inl ''Invalid URL''
      | Some u \<Rightarrow>
          Inr \<lparr>rq_method = verb, rq_url = u,
               rq_headers = given_header ''authorization'' (header source ''authorization'')
                 @ (if body \<noteq> None then [(''content-type'', ''application/json'')] else [])
                 @ given_header ''idempotency-key'' (truthy key),
               rq_body = (case body of None \<Rightarrow> [] | Some v \<Rightarrow> rt_json_text rt v)\<rparr>)"


text \<open>What a tool call asks of the gateway: path, method, body and idempotency key.\<close>

type_synonym internal_call = "string \<times> string \<times> json option \<times> string option"

definition filesystem_call :: "capability_descriptor \<Rightarrow> json \<Rightarrow> internal_call option" where
  "filesystem_call d args =
     (case truthy (cd_route d) of
        None \<Rightarrow> None
      | Some route \<Rightarrow>
          if cd_method d \<noteq> Some ''POST'' \<or> \<not> exact_keys args [''path''] \<or> \<not> valid_filesystem_path (field args ''path'')
            then None
          else Some (route, ''POST'', Some (JObj (given args ''path'')), None))"

definition mutation_call :: "capability_descriptor \<Rightarrow> json \<Rightarrow> internal_call option" where
  "mutation_call d args =
     (case truthy (cd_route d) of
        None \<Rightarrow> None
      | Some route \<Rightarrow>
          if cd_method d \<noteq> Some ''POST'' then None
          else if cd_name d = ''filesystem.write''
            then (if \<not> exact_keys args [''path'', ''content''] \<or> \<not> valid_filesystem_path (field args ''path'')
                     \<or> \<not> is_string (field args ''content'')
                     \<or> byte_length (str_of (field args ''content'')) > MAX_PUBLIC_REQUEST_BYTES then None
                  else Some (route, ''POST'', Some (JObj (given args ''path'' @ given args ''content'')), None))
          else if cd_name d = ''filesystem.mkdir''
            then (if \<not> exact_keys args [''path''] \<or> \<not> valid_filesystem_path (field args ''path'') then None
                  else Some (route, ''POST'', Some (JObj (given args ''path'')), None))
          else None)"

definition git_metadata_call :: "capability_descriptor \<Rightarrow> json \<Rightarrow> internal_call option" where
  "git_metadata_call d args =
     (case truthy (cd_route d) of
        None \<Rightarrow> None
      | Some route \<Rightarrow> if cd_method d \<noteq> Some ''GET'' \<or> \<not> exact_keys args [] then None else Some (route, ''GET'', None, None))"

definition task_submit_call :: "authorization_context \<Rightarrow> availability \<Rightarrow> json \<Rightarrow> internal_call option" where
  "task_submit_call auth s args =
     (case task_arguments args True of
        None \<Rightarrow> None
      | Some (body, key) \<Rightarrow>
          if \<not> is_string (map_of body ''type'') then None
          else
            (case get_capability CAPABILITY_REGISTRY (str_of (map_of body ''type'')) of
               None \<Rightarrow> None
             | Some target \<Rightarrow>
                 if cd_kind target \<noteq> Task \<or> \<not> capability_executable auth target s then None
                 else Some (''/v1/tasks'', ''POST'', Some (JObj body), Some key)))"

definition workflow_submit_call :: "json \<Rightarrow> internal_call option" where
  "workflow_submit_call args =
     (if \<not> exact_keys args [''workflow'', ''idempotency_key''] \<or> \<not> is_record_field (field args ''workflow'')
         \<or> \<not> valid_idempotency_key (field args ''idempotency_key'') then None
      else Some (''/v1/workflows'', ''POST'', field args ''workflow'', Some (str_of (field args ''idempotency_key''))))"

definition registered_task_call :: "capability_descriptor \<Rightarrow> json \<Rightarrow> internal_call option" where
  "registered_task_call d args =
     (if cd_kind d \<noteq> Task then None
      else
        (case task_arguments args False of
           None \<Rightarrow> None
         | Some (body, key) \<Rightarrow> Some (''/v1/tasks'', ''POST'', Some (JObj ((''type'', JStr (cd_name d)) # body)), Some key)))"

text \<open>A call that names one thing by its number, and one that names nothing.\<close>

definition id_call :: "json \<Rightarrow> string \<Rightarrow> string \<Rightarrow> string \<Rightarrow> string \<Rightarrow> internal_call option" where
  "id_call args name before after verb =
     (if exact_keys args [name] \<and> positive_integer (field args name)
      then Some (before @ int_text (int_of (field args name)) @ after, verb, None, None) else None)"

definition plain_call :: "json \<Rightarrow> string \<Rightarrow> internal_call option" where
  "plain_call args path = (if exact_keys args [] then Some (path, ''GET'', None, None) else None)"

definition tool_call ::
  "capability_descriptor \<Rightarrow> authorization_context \<Rightarrow> availability \<Rightarrow> json \<Rightarrow> internal_call option" where
  "tool_call d auth s args =
     (let name = cd_name d
      in if cd_provider d = ''bun-filesystem'' then filesystem_call d args
         else if cd_provider d = ''rust-fs-mutator'' then mutation_call d args
         else if cd_provider d = ''git-cli-metadata'' then git_metadata_call d args
         else if name = ''system.health'' then plain_call args ''/healthz''
         else if name = ''system.readiness'' then plain_call args ''/readyz''
         else if name = ''system.capabilities'' then plain_call args ''/v1/capabilities''
         else if name = ''task.inspect'' then id_call args ''task_id'' ''/v1/tasks/'' [] ''GET''
         else if name = ''task.submit'' then task_submit_call auth s args
         else if name = ''workflow.inspect'' then id_call args ''workflow_id'' ''/v1/workflows/'' [] ''GET''
         else if name = ''workflow.result'' then id_call args ''workflow_id'' ''/v1/workflows/'' ''/result'' ''GET''
         else if name = ''workflow.cancel'' then id_call args ''workflow_id'' ''/v1/workflows/'' ''/cancel'' ''POST''
         else if name = ''workflow.submit'' then workflow_submit_call args
         else registered_task_call d args)"

definition invocation_for_tool ::
  "runtime \<Rightarrow> request \<Rightarrow> capability_descriptor \<Rightarrow> authorization_context \<Rightarrow> availability \<Rightarrow> json \<Rightarrow> (string + request) option" where
  "invocation_for_tool rt source d auth s args =
     map_option (\<lambda>(path, verb, body, key). gateway_request rt source path verb body key) (tool_call d auth s args)"

section \<open>The endpoint\<close>

definition text_content :: "string \<Rightarrow> string \<times> json" where
  "text_content t = (''content'', JArr [JObj [(''type'', JStr ''text''), (''text'', JStr t)]])"

definition response_text :: "runtime \<Rightarrow> response \<Rightarrow> string" where
  "response_text rt res =
     (case rs_body res of NoBody \<Rightarrow> [] | JsonBody v \<Rightarrow> rt_json_text rt v @ [char_of (10::nat)] | RawBody s \<Rightarrow> s)"

definition ok_status :: "nat \<Rightarrow> bool" where
  "ok_status n \<longleftrightarrow> 200 \<le> n \<and> n \<le> 299"

definition gateway_meta :: "response \<Rightarrow> (string \<times> json) list" where
  "gateway_meta res =
     [(''com.taskqueque/gatewayStatus'', JInt (int (rs_status res))),
      (''com.taskqueque/gatewayVersion'', JStr
         (case map_of (rs_headers res) ''x-gateway-version'' of None \<Rightarrow> GATEWAY_VERSION | Some v \<Rightarrow> v))]"

definition failed_result :: "json \<Rightarrow> string \<Rightarrow> response" where
  "failed_result i message =
     rpc_result i [(''resultType'', JStr ''complete''), text_content message, (''isError'', JBool True)] ''no-store''"

text \<open>The tool result that reports a response of the gateway.\<close>

definition tool_result :: "runtime \<Rightarrow> json \<Rightarrow> response \<Rightarrow> response" where
  "tool_result rt i res =
     (let raw = response_text rt res
      in case (if length raw > 0 then rt_json_parse rt raw else Some JNull) of
           None \<Rightarrow> failed_result i (''Gateway returned HTTP '' @ nat_text (rs_status res) @ '' with invalid JSON.'')
         | Some structured \<Rightarrow>
             rpc_result i [(''resultType'', JStr ''complete''), text_content (rt_json_text rt structured),
               (''structuredContent'', structured), (''isError'', JBool (\<not> ok_status (rs_status res))),
               (''_meta'', JObj (gateway_meta res))] ''no-store'')"

definition gateway_tool_result :: "runtime \<Rightarrow> 's gateway_invoker \<Rightarrow> json \<Rightarrow> request
   \<Rightarrow> 's \<Rightarrow> 's \<times> (string + response option) option" where
  "gateway_tool_result rt invoke i invocation st =
     (case invoke invocation st of
        (st', None) \<Rightarrow> (st', None)
      | (st', Some (Inl e)) \<Rightarrow> (st', Some (Inr (Some (failed_result i ''Task-que-que gateway invocation failed.''))))
      | (st', Some (Inr res)) \<Rightarrow> (st', Some (Inr (Some (tool_result rt i res)))))"

definition handle_tools_call ::
  "runtime \<Rightarrow> 's gateway_invoker \<Rightarrow> request \<Rightarrow> rpc_request \<Rightarrow> authorization_context \<Rightarrow> availability
   \<Rightarrow> 's \<Rightarrow> 's \<times> (string + response option) option" where
  "handle_tools_call rt invoke source rpc auth s st =
     (let name = field (rpc_params rpc) ''name'';
          args = (case field (rpc_params rpc) ''arguments'' of None \<Rightarrow> JObj [] | Some JNull \<Rightarrow> JObj [] | Some v \<Rightarrow> v);
          fail = (\<lambda>message. (st, Some (Inr (Some (rpc_error (rpc_id rpc) (- 32602) message 200)))))
      in if \<not> is_string name \<or> \<not> is_record args then fail ''invalid tools/call parameters''
         else
           (case get_capability CAPABILITY_REGISTRY (str_of name) of
              None \<Rightarrow> fail ''unknown or unavailable tool''
            | Some d \<Rightarrow>
                if \<not> cd_publicly_discoverable d \<or> mcp_tool rt d auth s = None then fail ''unknown or unavailable tool''
                else
                  (case invocation_for_tool rt source d auth s args of
                     None \<Rightarrow> fail ''tool arguments do not satisfy the advertised input schema''
                   | Some (Inl e) \<Rightarrow> (st, Some (Inl e))
                   | Some (Inr invocation) \<Rightarrow> gateway_tool_result rt invoke (rpc_id rpc) invocation st)))"

definition DISCOVER_INSTRUCTIONS :: string where
  "DISCOVER_INSTRUCTIONS =
     ''Task-que-que advertises only capabilities that are both authorized by the bearer grant and backed by a live ''
     @ ''provider. Delegated filesystem tools are confined to a server-configured root, mutation tools execute only ''
     @ ''through the Rust fd-relative mutator, and Git metadata tools expose only a server-configured repository ''
     @ ''through fixed read-only metadata commands. Use system.capabilities to inspect registered capabilities, ''
     @ ''authorization blockers, and runtime availability.''"

definition discover_result :: "(string \<times> json) list" where
  "discover_result =
     [(''resultType'', JStr ''complete''), (''supportedVersions'', JArr [JStr MCP_PROTOCOL_VERSION]),
      (''capabilities'', JObj [(''tools'', JObj [(''listChanged'', JBool False)])]),
      (''instructions'', JStr DISCOVER_INSTRUCTIONS), (''ttlMs'', JInt MCP_LIST_TTL_MS), (''cacheScope'', JStr ''private'')]"

definition tools_list_result :: "json list \<Rightarrow> (string \<times> json) list" where
  "tools_list_result tools =
     [(''resultType'', JStr ''complete''), (''tools'', JArr tools), (''ttlMs'', JInt MCP_LIST_TTL_MS),
      (''cacheScope'', JStr ''private'')]"


text \<open>The checks before a caller is looked at; \<open>Inl None\<close> passes the request on.\<close>

definition parse_mcp_request :: "runtime \<Rightarrow> gateway_host \<Rightarrow> request \<Rightarrow> response option + rpc_request" where
  "parse_mcp_request rt h r =
     (let accept = (case header r ''accept'' of None \<Rightarrow> [] | Some v \<Rightarrow> to_lower v)
      in if u_pathname (rq_url r) \<noteq> MCP_ENDPOINT then Inl None
         else if \<not> origin_allowed rt r then Inl (Some (rpc_error JNull (- 32000) ''Origin is not allowed'' 403))
         else if rq_method r \<noteq> ''POST''
           then Inl (Some (rpc_failure JNull (- 32600) ''MCP endpoint requires POST'' 405 [] [(''allow'', ''POST'')]))
         else if \<not> includes_str accept ''application/json'' \<or> \<not> includes_str accept ''text/event-stream''
           then Inl (Some (rpc_error JNull (- 32600) ''Accept must include application/json and text/event-stream'' 406))
         else
           (case read_rpc_json rt r of
              Inl response \<Rightarrow> Inl (Some response)
            | Inr v \<Rightarrow>
                (case parse_json_rpc v of
                   Inl response \<Rightarrow> Inl (Some response)
                 | Inr rpc \<Rightarrow>
                     (case validate_meta_and_headers (hf_decode (ho_data h)) r rpc of
                        Some response \<Rightarrow> Inl (Some response)
                      | None \<Rightarrow> Inr rpc))))"

definition handle_mcp_request ::
  "runtime \<Rightarrow> gateway_host \<Rightarrow> provider_fetch option \<Rightarrow> gateway_config \<Rightarrow> int \<Rightarrow> 's gateway_invoker \<Rightarrow> request
   \<Rightarrow> 's \<Rightarrow> 's \<times> (string + response option) option" where
  "handle_mcp_request rt h provider_fetch config now_ms invoke r st =
     (let answer = (\<lambda>res. (st, Some (Inr (Some res)))); s = load_capability_availability rt h provider_fetch config
      in case parse_mcp_request rt h r of
           Inl res \<Rightarrow> (st, Some (Inr res))
         | Inr rpc \<Rightarrow>
             (case resolve_authorization_context rt r config now_ms of
                Inl e \<Rightarrow> (st, Some (Inl e))
              | Inr None \<Rightarrow>
                  answer (rpc_failure (rpc_id rpc) (- 32000) ''valid root or capability-session bearer token required'' 401
                    [] [(''www-authenticate'', ''Bearer'')])
              | Inr (Some auth) \<Rightarrow>
                  if rpc_method rpc = ''server/discover''
                    then answer (rpc_result (rpc_id rpc) discover_result ''private, max-age=30'')
                  else if rpc_method rpc = ''tools/list''
                    then (if field (rpc_params rpc) ''cursor'' \<noteq> None
                          then answer (rpc_error (rpc_id rpc) (- 32602)
                            ''pagination cursor is not supported because this tool set fits in one page'' 200)
                          else answer (rpc_result (rpc_id rpc) (tools_list_result (list_tools rt auth s))
                            ''private, max-age=30''))
                  else if rpc_method rpc = ''tools/call'' then handle_tools_call rt invoke r rpc auth s st
                  else answer (rpc_error (rpc_id rpc) (- 32601) ''Method not found'' 404)))"

section \<open>A tool call and the gate\<close>

text \<open>
  What is taken as given of the platform. \<open>JSON.parse\<close> reads what \<open>JSON.stringify\<close> writes of an object, also with
  the line end that the gateway adds, as an object with the same properties, and those that are strings are the same
  strings. Nothing is said of the other properties (a number that is not finite is written as \<open>null\<close>) nor of their
  order, and an object has each name once. The internal URLs, whose paths have no escapes and no dot segments, are
  read as they are.
\<close>

definition reads_back :: "json \<Rightarrow> json \<Rightarrow> bool" where
  "reads_back v w \<longleftrightarrow>
     is_record w \<and> (\<forall>k. field w k = None \<longleftrightarrow> field v k = None) \<and> (\<forall>k s. field w k = Some (JStr s) \<longleftrightarrow> field v k = Some (JStr s))"

definition plain_path :: "string \<Rightarrow> bool" where
  "plain_path path \<longleftrightarrow> starts_with path ''/'' \<and> list_all (\<lambda>c. is_alnum c \<or> c \<in> set ''/-_'') path"

definition process_path :: "string \<Rightarrow> bool" where
  "process_path path \<longleftrightarrow> starts_with path ''/v1/process/'' \<and> command_name_ok (drop 12 path)"

definition internal_platform :: "runtime \<Rightarrow> bool" where
  "internal_platform rt \<longleftrightarrow>
     (\<forall>ps. distinct (map fst ps) \<longrightarrow>
        (\<exists>w. rt_json_parse rt (rt_json_text rt (JObj ps)) = Some w \<and> reads_back (JObj ps) w)
        \<and> (\<exists>w. rt_json_parse rt (rt_json_text rt (JObj ps) @ [char_of (10::nat)]) = Some w \<and> reads_back (JObj ps) w))
     \<and> (\<forall>path. plain_path path \<or> process_path path \<longrightarrow>
          (\<exists>u. rt_url rt (INTERNAL_ORIGIN @ path) = Some u \<and> u_pathname u = path \<and> u_search u = [] \<and> u_hash u = []))"

lemma platform_reads:
  assumes "internal_platform rt" and "distinct (map fst ps)"
  obtains w w' where "rt_json_parse rt (rt_json_text rt (JObj ps)) = Some w" "reads_back (JObj ps) w"
    "rt_json_parse rt (rt_json_text rt (JObj ps) @ [char_of (10::nat)]) = Some w'" "reads_back (JObj ps) w'"
  using assms unfolding internal_platform_def by blast

lemma reads_back_type:
  "reads_back v w \<Longrightarrow> is_string (field w ''type'') \<Longrightarrow> field w ''type'' = field v ''type''"
  by (cases "field w ''type''"; cases "the (field w ''type'')") (auto simp: reads_back_def)

text \<open>Which guarded route a tool is: the submission for a task, its own for every other, none for the open ones.\<close>

definition tool_surface :: "capability_descriptor \<Rightarrow> string option" where
  "tool_surface d =
     (if cd_kind d = Task then Some ''task.submit''
      else if cd_name d \<in> set ungated then None else Some (cd_name d))"

text \<open>The registry's tools, as far as the calls depend on them.\<close>

definition surface_tools :: "string list" where
  "surface_tools = [''system.health'', ''system.readiness'', ''system.capabilities'', ''task.inspect'', ''task.submit'',
     ''workflow.inspect'', ''workflow.result'', ''workflow.cancel'', ''workflow.submit'']"

definition tool_ok :: "capability_descriptor \<Rightarrow> bool" where
  "tool_ok d \<longleftrightarrow>
     (if cd_provider d \<in> set [''bun-filesystem'', ''rust-fs-mutator'', ''git-cli-metadata'']
      then cd_kind d \<noteq> Task \<and> cd_name d \<notin> set surface_tools \<and> tool_surface d = Some (cd_name d)
        \<and> (case (cd_route d, cd_method d) of
             (Some route, Some verb) \<Rightarrow> plain_path route \<and> required_surface route verb = Some (cd_name d)
           | _ \<Rightarrow> False)
      else if cd_kind d = Task then cd_name d \<notin> set surface_tools
      else cd_name d \<in> set surface_tools)"

lemma registry_tools_ok: "list_all (\<lambda>(n, d). n = cd_name d \<and> tool_ok d) CAPABILITY_REGISTRY"
  by code_simp

lemma plain_path_append: "plain_path (p @ q) \<longleftrightarrow> plain_path (p @ []) \<and> list_all (\<lambda>c. is_alnum c \<or> c \<in> set ''/-_'') q \<or> p = [] \<and> plain_path q"
  by (cases p) (auto simp: plain_path_def starts_with_def)


lemma digits_segment:
  assumes "i > 0"
  shows "int_text i \<noteq> []" "CHR ''/'' \<notin> set (int_text i)" "list_all (\<lambda>c. is_alnum c \<or> c \<in> set ''/-_'') (int_text i)"
proof -
  have "list_all is_digit (int_text i)" "int_text i \<noteq> []"
    using assms nat_text_digits [of "nat i"] by (auto simp: int_text_def)
  then show "int_text i \<noteq> []" "CHR ''/'' \<notin> set (int_text i)" "list_all (\<lambda>c. is_alnum c \<or> c \<in> set ''/-_'') (int_text i)"
    by (auto simp: list_all_iff is_alnum_def is_digit_def between_def)
qed

lemma id_routes:
  assumes "segment \<noteq> []" and "CHR ''/'' \<notin> set segment"
  shows "required_surface (''/v1/tasks/'' @ segment) ''GET'' = Some ''task.inspect''"
    and "required_surface (''/v1/workflows/'' @ segment) ''GET'' = Some ''workflow.inspect''"
    and "required_surface (''/v1/workflows/'' @ segment @ ''/result'') ''GET'' = Some ''workflow.result''"
    and "required_surface (''/v1/workflows/'' @ segment @ ''/cancel'') ''POST'' = Some ''workflow.cancel''"
proof -
  have no: "\<not> mid_segment ''/v1/tasks/'' '''' (''/v1/workflows/'' @ t)" for t by (simp add: mid_segment_iff)
  have tasks: "mid_segment ''/v1/tasks/'' '''' (''/v1/tasks/'' @ segment)"
    and workflows: "mid_segment ''/v1/workflows/'' '''' (''/v1/workflows/'' @ segment)"
    "mid_segment ''/v1/workflows/'' ''/result'' (''/v1/workflows/'' @ segment @ ''/result'')"
    "mid_segment ''/v1/workflows/'' ''/cancel'' (''/v1/workflows/'' @ segment @ ''/cancel'')"
    using assms by (auto simp: mid_segment_iff)
  show "required_surface (''/v1/tasks/'' @ segment) ''GET'' = Some ''task.inspect''"
    using tasks by (simp add: required_surface_def)
  show "required_surface (''/v1/workflows/'' @ segment) ''GET'' = Some ''workflow.inspect''"
    using workflows no by (simp add: required_surface_def)
  show "required_surface (''/v1/workflows/'' @ segment @ ''/result'') ''GET'' = Some ''workflow.result''"
    using workflows(2) no by (simp add: required_surface_def mid_segment_iff)
  show "required_surface (''/v1/workflows/'' @ segment @ ''/cancel'') ''POST'' = Some ''workflow.cancel''"
    using workflows(3) no by (simp add: required_surface_def mid_segment_iff)
qed


lemma plain_paths:
  "plain_path ''/healthz''" "plain_path ''/readyz''" "plain_path ''/v1/capabilities''" "plain_path ''/v1/tasks''"
  "plain_path ''/v1/workflows''"
  "required_surface ''/healthz'' ''GET'' = None" "required_surface ''/readyz'' ''GET'' = None"
  "required_surface ''/v1/capabilities'' ''GET'' = None" "required_surface ''/v1/tasks'' ''POST'' = Some ''task.submit''"
  "required_surface ''/v1/workflows'' ''POST'' = Some ''workflow.submit''"
  by code_simp+

lemma plain_id_path:
  assumes "i > 0"
  shows "plain_path (''/v1/tasks/'' @ int_text i)" "plain_path (''/v1/workflows/'' @ int_text i)"
    "plain_path (''/v1/workflows/'' @ int_text i @ ''/result'')" "plain_path (''/v1/workflows/'' @ int_text i @ ''/cancel'')"
  using digits_segment(3) [OF assms] by (simp_all add: plain_path_def starts_with_def is_alnum_def is_alpha_def is_digit_def between_def)

lemma id_call_routes:
  assumes "id_call args name before after verb = Some (path, verb', body, key)"
    and "(before, after, verb, surface) \<in> set [(''/v1/tasks/'', [], ''GET'', ''task.inspect''),
      (''/v1/workflows/'', [], ''GET'', ''workflow.inspect''), (''/v1/workflows/'', ''/result'', ''GET'', ''workflow.result''),
      (''/v1/workflows/'', ''/cancel'', ''POST'', ''workflow.cancel'')]"
  shows "plain_path path \<and> required_surface path verb' = Some surface"
proof -
  from assms(1) have pos: "int_of (field args name) > 0" and path: "path = before @ int_text (int_of (field args name)) @ after" "verb' = verb"
    by (auto simp: id_call_def positive_integer_def split: if_splits)
  show ?thesis
    using assms(2) plain_id_path [OF pos] id_routes [OF digits_segment(1,2) [OF pos]] by (auto simp: path)
qed

text \<open>Where a tool call goes: to the route of the tool's own capability, a task's to the submission.\<close>

lemma host_call_routes:
  assumes "tool_ok d" and "cd_provider d \<in> set [''bun-filesystem'', ''rust-fs-mutator'', ''git-cli-metadata'']"
    and "tool_call d auth s args = Some (path, verb, body, key)"
  shows "plain_path path \<and> required_surface path verb = tool_surface d"
proof -
  from assms(1,2) obtain route verb' where d: "tool_surface d = Some (cd_name d)" "cd_route d = Some route"
    "cd_method d = Some verb'" "plain_path route" "required_surface route verb' = Some (cd_name d)"
    by (auto simp: tool_ok_def split: option.splits)
  have "path = route \<and> verb = verb'"
    using assms(2,3) d(2,3)
    by (auto simp: tool_call_def filesystem_call_def mutation_call_def git_metadata_call_def Let_def truthy_def
        split: option.splits if_splits)
  then show ?thesis using d by simp
qed

lemma task_call_routes:
  assumes "tool_ok d" and "cd_kind d = Task"
    and "cd_provider d \<notin> set [''bun-filesystem'', ''rust-fs-mutator'', ''git-cli-metadata'']"
    and "tool_call d auth s args = Some (path, verb, body, key)"
  shows "path = ''/v1/tasks'' \<and> verb = ''POST'' \<and> registered_task_call d args = Some (path, verb, body, key)"
proof -
  have "cd_name d \<notin> set surface_tools" using assms(1-3) by (simp add: tool_ok_def)
  then have "tool_call d auth s args = registered_task_call d args"
    using assms(3) by (simp add: tool_call_def surface_tools_def Let_def)
  then show ?thesis using assms(4) by (auto simp: registered_task_call_def split: option.splits if_splits)
qed

lemma surface_call_routes:
  assumes "tool_ok d" and "cd_kind d \<noteq> Task"
    and "cd_provider d \<notin> set [''bun-filesystem'', ''rust-fs-mutator'', ''git-cli-metadata'']"
    and "tool_call d auth s args = Some (path, verb, body, key)"
  shows "plain_path path \<and> required_surface path verb = tool_surface d"
proof -
  have surface: "tool_surface d = (if cd_name d \<in> set ungated then None else Some (cd_name d))"
    using assms(2) by (simp add: tool_surface_def)
  have name: "cd_name d \<in> set surface_tools" using assms(1-3) by (simp add: tool_ok_def)
  consider (open_route) "cd_name d \<in> set ungated" | (submit) "cd_name d \<in> set [''task.submit'', ''workflow.submit'']"
    | (by_id) "cd_name d \<in> set [''task.inspect'', ''workflow.inspect'', ''workflow.result'', ''workflow.cancel'']"
    using name by (auto simp: surface_tools_def ungated_def)
  then show ?thesis
  proof cases
    case open_route
    with assms(3,4) show ?thesis
      by (auto simp: tool_call_def surface ungated_def plain_call_def plain_paths split: if_splits)
  next
    case submit
    with assms(3,4) show ?thesis
      by (auto simp: tool_call_def surface ungated_def task_submit_call_def workflow_submit_call_def plain_paths
          split: if_splits option.splits)
  next
    case by_id
    then consider "cd_name d = ''task.inspect''" | "cd_name d = ''workflow.inspect''" | "cd_name d = ''workflow.result''"
      | "cd_name d = ''workflow.cancel''" by auto
    then show ?thesis
      using assms(3,4) by cases (auto simp: tool_call_def surface ungated_def dest!: id_call_routes)
  qed
qed

lemma tool_call_routes:
  assumes "(n, d) \<in> set CAPABILITY_REGISTRY" and "tool_call d auth s args = Some (path, verb, body, key)"
  shows "plain_path path" and "required_surface path verb = tool_surface d"
proof -
  have ok: "tool_ok d" using assms(1) registry_tools_ok by (auto simp: list_all_iff)
  consider (host) "cd_provider d \<in> set [''bun-filesystem'', ''rust-fs-mutator'', ''git-cli-metadata'']"
    | (task) "cd_provider d \<notin> set [''bun-filesystem'', ''rust-fs-mutator'', ''git-cli-metadata'']" "cd_kind d = Task"
    | (surface) "cd_provider d \<notin> set [''bun-filesystem'', ''rust-fs-mutator'', ''git-cli-metadata'']" "cd_kind d \<noteq> Task"
    by blast
  then have "plain_path path \<and> required_surface path verb = tool_surface d"
  proof cases
    case task
    with task_call_routes [OF ok task(2,1) assms(2)] show ?thesis by (simp add: plain_paths tool_surface_def)
  qed (use host_call_routes [OF ok _ assms(2)] surface_call_routes [OF ok _ _ assms(2)] in blast)+
  then show "plain_path path" "required_surface path verb = tool_surface d" by simp_all
qed

lemma given_names:
  "map fst (given v k) = (if field v k = None then [] else [k])"
  "fst ` set (given v k) = (if field v k = None then {} else {k})"
  by (cases "field v k"; simp add: given_def)+

lemma task_arguments_names:
  assumes "task_arguments args include_type = Some (b, key)"
  shows "distinct (map fst b)" and "\<not> include_type \<Longrightarrow> ''type'' \<notin> set (map fst b)"
proof -
  have "b = (if include_type then given args ''type'' else []) @ given args ''payload'' @ given args ''priority''
      @ given args ''max_retries''"
    using assms by (simp add: task_arguments_def Let_def split: if_splits)
  then show "distinct (map fst b)" and "\<not> include_type \<Longrightarrow> ''type'' \<notin> set (map fst b)"
    by (simp_all add: given_names)
qed

text \<open>The task that the request of a call submits, if it submits one, is one the caller may run.\<close>

lemma submitted_task_allowed:
  assumes "get_capability CAPABILITY_REGISTRY n = Some d" and "mcp_tool rt d auth s \<noteq> None"
    and "tool_call d auth s args = Some (path, verb, body, key)" and "tool_surface d = Some ''task.submit''"
  shows "\<exists>ps t. body = Some (JObj ps) \<and> distinct (map fst ps)
     \<and> get_capability CAPABILITY_REGISTRY (str_of (field (JObj ps) ''type'')) = Some t \<and> capability_allowed auth t"
proof -
  have n: "n = cd_name d" and ok: "tool_ok d"
    using assms(1) registry_tools_ok map_of_SomeD by (fastforce simp: get_capability_def list_all_iff)+
  show ?thesis
  proof (cases "cd_kind d = Task")
    case True
    have provider: "cd_provider d \<notin> set [''bun-filesystem'', ''rust-fs-mutator'', ''git-cli-metadata'']"
      using ok True by (auto simp: tool_ok_def)
    from task_call_routes [OF ok True provider assms(3)] obtain b k where body: "body = Some (JObj ((''type'', JStr (cd_name d)) # b))"
      and b: "task_arguments args False = Some (b, k)"
      by (auto simp: registered_task_call_def split: if_splits option.splits)
    from body task_arguments_names [OF b] assms(1,2) n True show ?thesis
      by (auto simp: mcp_tool_def tool_prerequisites_def field_def split: if_splits option.splits)
  next
    case False
    then have "cd_name d = ''task.submit''" using assms(4) by (auto simp: tool_surface_def split: if_splits)
    moreover from this have "cd_provider d \<notin> set [''bun-filesystem'', ''rust-fs-mutator'', ''git-cli-metadata'']"
      using ok by (auto simp: tool_ok_def surface_tools_def)
    ultimately have "task_submit_call auth s args = Some (path, verb, body, key)"
      using assms(3) by (simp add: tool_call_def)
    then show ?thesis
      by (auto simp: task_submit_call_def capability_executable_def field_def dest: task_arguments_names(1)
          split: if_splits option.splits)
  qed
qed

lemma gateway_request_Inr:
  assumes "gateway_request rt source path verb body key = Inr r'" and "internal_platform rt"
    and "plain_path path \<or> process_path path"
  shows "rq_method r' = verb" "u_pathname (rq_url r') = path" "header r' ''authorization'' = header source ''authorization''"
    "rq_body r' = (case body of None \<Rightarrow> [] | Some v \<Rightarrow> rt_json_text rt v)"
proof -
  from assms(2,3) obtain u where "rt_url rt (INTERNAL_ORIGIN @ path) = Some u" "u_pathname u = path"
    unfolding internal_platform_def by blast
  with assms(1) show "rq_method r' = verb" "u_pathname (rq_url r') = path"
    "header r' ''authorization'' = header source ''authorization''"
    "rq_body r' = (case body of None \<Rightarrow> [] | Some v \<Rightarrow> rt_json_text rt v)"
    by (auto simp: gateway_request_def header_def given_header_def split: option.splits)
qed

lemma resolve_same_header:
  "header r' ''authorization'' = header r ''authorization'' \<Longrightarrow>
   resolve_authorization_context rt r' config now_ms = resolve_authorization_context rt r config now_ms"
proof -
  assume "header r' ''authorization'' = header r ''authorization''"
  then have "bearer_token r' = bearer_token r" by (simp add: bearer_token_def)
  then show ?thesis unfolding resolve_authorization_context_def by (simp only:)
qed

lemma tool_surface_allowed:
  assumes "get_capability CAPABILITY_REGISTRY n = Some d" and "mcp_tool rt d auth s \<noteq> None"
    and "tool_surface d = Some surface"
  shows "\<exists>sd. get_capability CAPABILITY_REGISTRY surface = Some sd \<and> capability_allowed auth sd"
proof -
  have n: "n = cd_name d"
    using assms(1) registry_tools_ok map_of_SomeD by (fastforce simp: get_capability_def list_all_iff)
  show ?thesis
    using assms n
    by (auto simp: mcp_tool_def tool_prerequisites_def tool_surface_def task_submit_surface_def
        split: if_splits option.splits)
qed

text \<open>The gate lets the request of a tool call pass.\<close>

lemma tool_call_admitted:
  assumes platform: "internal_platform rt"
    and tool: "get_capability CAPABILITY_REGISTRY n = Some d" "mcp_tool rt d auth s \<noteq> None"
    and call: "tool_call d auth s args = Some (path, verb, body, key)"
    and request: "gateway_request rt source path verb body key = Inr r'"
    and auth: "resolve_authorization_context rt source config now_ms = Inr (Some auth)"
  shows "required_surface (u_pathname (rq_url r')) (rq_method r') = tool_surface d"
    and "\<exists>admitted. enforce_capability_access rt r' config now_ms = Inr (Admitted admitted)"
proof -
  have "(n, d) \<in> set CAPABILITY_REGISTRY" using tool(1) map_of_SomeD by (fastforce simp: get_capability_def)
  note route = tool_call_routes [OF this call]
  note r' = gateway_request_Inr [OF request platform disjI1 [OF route(1)]]
  have auth': "resolve_authorization_context rt r' config now_ms = Inr (Some auth)"
    using auth resolve_same_header [OF r'(3)] by simp
  show surface: "required_surface (u_pathname (rq_url r')) (rq_method r') = tool_surface d"
    using route(2) r' by simp
  have task: "capability_allowed auth t"
    if "tool_surface d = Some ''task.submit''" "task_descriptor_from_request rt r' = Some t" for t
  proof -
    from submitted_task_allowed [OF tool call that(1)] obtain ps t' where ps: "body = Some (JObj ps)" "distinct (map fst ps)"
      and t': "get_capability CAPABILITY_REGISTRY (str_of (field (JObj ps) ''type'')) = Some t'" "capability_allowed auth t'"
      by blast
    from platform_reads [OF platform ps(2)] obtain w where
      w: "rt_json_parse rt (rt_json_text rt (JObj ps)) = Some w" "reads_back (JObj ps) w" by blast
    show ?thesis
      using that(2) r'(4) ps(1) w(1) t' reads_back_type [OF w(2)]
      by (auto simp: task_descriptor_from_request_def split: if_splits option.splits)
  qed
  show "\<exists>admitted. enforce_capability_access rt r' config now_ms = Inr (Admitted admitted)"
  proof (cases "tool_surface d")
    case None
    with surface show ?thesis by (simp add: enforce_capability_access_def)
  next
    case (Some name)
    from tool_surface_allowed [OF tool Some] obtain sd where
      "get_capability CAPABILITY_REGISTRY name = Some sd" "capability_allowed auth sd" by blast
    with surface Some auth' task task_submit_route [of "u_pathname (rq_url r')" "rq_method r'"] show ?thesis
      by (auto simp: enforce_capability_access_def capability_allowed_def Let_def
          dest: authorize_descriptor_Some split: option.split)
  qed
qed

text \<open>How a tool call is answered: without the gateway, or by exactly one request to it.\<close>

lemma tools_call_cases:
  obtains (answered) answer where "\<And>invoke st. handle_tools_call rt invoke source rpc auth s st = (st, answer)"
    | (called) n d args path verb body key r' where
        "get_capability CAPABILITY_REGISTRY n = Some d" "cd_publicly_discoverable d" "mcp_tool rt d auth s \<noteq> None"
        "tool_call d auth s args = Some (path, verb, body, key)" "gateway_request rt source path verb body key = Inr r'"
        "\<And>invoke st. handle_tools_call rt invoke source rpc auth s st = gateway_tool_result rt invoke (rpc_id rpc) r' st"
proof -
  let ?args = "case field (rpc_params rpc) ''arguments'' of None \<Rightarrow> JObj [] | Some JNull \<Rightarrow> JObj [] | Some v \<Rightarrow> v"
  let ?n = "str_of (field (rpc_params rpc) ''name'')"
  note defs = handle_tools_call_def Let_def
  show thesis
  proof (cases "is_string (field (rpc_params rpc) ''name'') \<and> is_record ?args")
    case False
    show thesis by (rule answered) (use False in \<open>simp add: defs\<close>)
  next
    case ok: True
    show thesis
    proof (cases "get_capability CAPABILITY_REGISTRY ?n")
      case None
      show thesis by (rule answered) (use ok None in \<open>simp add: defs\<close>)
    next
      case (Some d)
      show thesis
      proof (cases "cd_publicly_discoverable d \<and> mcp_tool rt d auth s \<noteq> None")
        case False
        show thesis by (rule answered) (use ok Some False in \<open>auto simp: defs\<close>)
      next
        case tool: True
        then obtain y where y: "mcp_tool rt d auth s = Some y" by auto
        show thesis
        proof (cases "invocation_for_tool rt source d auth s ?args")
          case None
          show thesis by (rule answered) (use ok Some tool y None in \<open>simp add: defs\<close>)
        next
          case inv: (Some invocation)
          show thesis
          proof (cases invocation)
            case (Inl e)
            show thesis by (rule answered) (use ok Some tool y inv Inl in \<open>simp add: defs\<close>)
          next
            case (Inr r')
            with inv obtain path verb body key where "tool_call d auth s ?args = Some (path, verb, body, key)"
              "gateway_request rt source path verb body key = Inr r'"
              by (auto simp: invocation_for_tool_def)
            then show thesis
              by (intro called [of ?n d ?args path verb body key r'])
                (use ok Some tool y inv Inr in \<open>simp_all add: defs\<close>)
          qed
        qed
      qed
    qed
  qed
qed

lemma mcp_call_or_answer:
  assumes "internal_platform rt"
  shows "(\<exists>answer. \<forall>(invoke :: 's gateway_invoker) st.
            handle_mcp_request rt h provider_fetch config now_ms invoke r st = (st, answer))
    \<or> (\<exists>i d r'.
          (\<forall>(invoke :: 's gateway_invoker) st. handle_mcp_request rt h provider_fetch config now_ms invoke r st
              = gateway_tool_result rt invoke i r' st)
        \<and> header r' ''authorization'' = header r ''authorization''
        \<and> get_capability CAPABILITY_REGISTRY (cd_name d) = Some d \<and> cd_publicly_discoverable d
        \<and> is_capability_available d (load_capability_availability rt h provider_fetch config)
        \<and> required_surface (u_pathname (rq_url r')) (rq_method r') = tool_surface d
        \<and> (\<exists>admitted. enforce_capability_access rt r' config now_ms = Inr (Admitted admitted)))"
    (is "?answered \<or> ?called")
proof -
  let ?s = "load_capability_availability rt h provider_fetch config"
  note defs = handle_mcp_request_def Let_def
  consider "?answered"
    | (calls) rpc auth where "resolve_authorization_context rt r config now_ms = Inr (Some auth)"
        "\<forall>(invoke :: 's gateway_invoker) st. handle_mcp_request rt h provider_fetch config now_ms invoke r st
           = handle_tools_call rt invoke r rpc auth ?s st"
  proof (cases "parse_mcp_request rt h r")
    case (Inl res)
    then show thesis by (intro that(1)) (simp add: defs)
  next
    case rpc: (Inr rpc)
    show thesis
    proof (cases "resolve_authorization_context rt r config now_ms")
      case (Inl e)
      with rpc show thesis by (intro that(1)) (simp add: defs)
    next
      case (Inr auth)
      show thesis
      proof (cases "auth = None \<or> rpc_method rpc \<noteq> ''tools/call''")
        case True
        with rpc Inr show thesis
          by (intro that(1), cases auth; cases "rpc_method rpc = ''server/discover''"; cases "rpc_method rpc = ''tools/list''";
              cases "field (rpc_params rpc) ''cursor'' = None") (simp_all add: defs)
      next
        case False
        with rpc Inr show thesis by (intro that(2) [of \<open>the auth\<close> rpc]) (auto simp: defs)
      qed
    qed
  qed
  then show ?thesis
  proof cases
    case calls
    show ?thesis
    proof (rule tools_call_cases [of rt r rpc auth ?s])
      fix answer assume "\<And>(invoke :: 's gateway_invoker) st. handle_tools_call rt invoke r rpc auth ?s st = (st, answer)"
      with calls(2) show ?thesis by auto
    next
      fix n d args path verb body key r'
      assume tool: "get_capability CAPABILITY_REGISTRY n = Some d" "cd_publicly_discoverable d" "mcp_tool rt d auth ?s \<noteq> None"
        and call: "tool_call d auth ?s args = Some (path, verb, body, key)" "gateway_request rt r path verb body key = Inr r'"
        and answer: "\<And>(invoke :: 's gateway_invoker) st. handle_tools_call rt invoke r rpc auth ?s st
          = gateway_tool_result rt invoke (rpc_id rpc) r' st"
      have reg: "(n, d) \<in> set CAPABILITY_REGISTRY" using tool(1) map_of_SomeD by (fastforce simp: get_capability_def)
      then have "n = cd_name d" using registry_tools_ok by (auto simp: list_all_iff)
      moreover note tool_call_admitted [OF assms tool(1,3) call calls(1)]
        gateway_request_Inr(3) [OF call(2) assms disjI1 [OF tool_call_routes(1) [OF reg call(1)]]]
      moreover have "is_capability_available d ?s" using tool(3) by (auto simp: mcp_tool_def Let_def split: if_splits)
      ultimately show ?thesis using calls(2) answer tool(1,2)
        by (intro disjI2 exI [of _ "rpc_id rpc"] exI [of _ d] exI [of _ r']) simp
    qed
  qed blast
qed

text \<open>
  C5. The MCP endpoint lends no authority, and it refuses nothing that it advertises for want of it. A request to
  it either is answered without the gateway and leaves the state alone, or becomes exactly one request to the
  gateway. That one carries the caller's own credential; it goes to the route of the tool's own capability,
  which is discoverable and whose provider is available; and the capability gate, asked at the same time,
  lets it pass: the tool list and the gate never disagree.
\<close>

theorem mcp_calls_admitted:
  assumes "internal_platform rt"
  shows "(\<exists>answer. \<forall>(invoke :: 's gateway_invoker) st.
            handle_mcp_request rt h provider_fetch config now_ms invoke r st = (st, answer))
    \<or> (\<exists>i d r'.
          (\<forall>(invoke :: 's gateway_invoker) st. handle_mcp_request rt h provider_fetch config now_ms invoke r st
              = gateway_tool_result rt invoke i r' st)
        \<and> header r' ''authorization'' = header r ''authorization''
        \<and> get_capability CAPABILITY_REGISTRY (cd_name d) = Some d \<and> cd_publicly_discoverable d
        \<and> is_capability_available d (load_capability_availability rt h provider_fetch config)
        \<and> required_surface (u_pathname (rq_url r')) (rq_method r') = tool_surface d
        \<and> (\<exists>admitted. enforce_capability_access rt r' config now_ms = Inr (Admitted admitted)))"
  using assms by (rule mcp_call_or_answer)

text \<open>
  A platform as it is assumed: JSON values are numbered, and one of them, the call of the example, is written in a
  way of its own.
\<close>

instance json :: countable by countable_datatype

definition example_tool_call :: json where
  "example_tool_call =
     JObj [(''jsonrpc'', JStr ''2.0''), (''id'', JInt 1), (''method'', JStr ''tools/call''),
       (''params'', JObj [(''name'', JStr ''task.inspect''), (''arguments'', JObj [(''task_id'', JInt 7)]),
          (''_meta'', JObj [(''io.modelcontextprotocol/protocolVersion'', JStr MCP_PROTOCOL_VERSION),
             (''io.modelcontextprotocol/clientCapabilities'', JObj [])])])]"

definition platform_runtime :: "json \<Rightarrow> runtime" where
  "platform_runtime special = null_runtime
     \<lparr>rt_url := (\<lambda>s. Some (example_url (drop (length INTERNAL_ORIGIN) s))),
      rt_json_text := (\<lambda>v. if v = special then ''call'' else CHR ''n'' # nat_text (to_nat v)),
      rt_json_parse := (\<lambda>s. let t = filter is_alnum s
        in if t = ''call'' then Some special else Some (from_nat (digits_value (tl t))))\<rparr>"

definition mcp_runtime :: runtime where
  "mcp_runtime = platform_runtime example_tool_call"

lemma call_letters: "is_alnum (CHR ''c'')" "is_alnum (CHR ''a'')" "is_alnum (CHR ''l'')" "is_alnum (CHR ''n'')"
  "\<not> is_alnum (char_of (10::nat))"
  by code_simp+

lemma platform_runtime_call: "rt_json_parse (platform_runtime v) ''call'' = Some v"
  by (simp add: platform_runtime_def null_runtime_def call_letters)

lemma platform_runtime: "internal_platform (platform_runtime special)"
proof -
  have "filter is_alnum (nat_text n) = nat_text n" for n
    using nat_text_digits [of n] by (auto simp: filter_id_conv list_all_iff is_alnum_def)
  then have "rt_json_parse (platform_runtime special) (rt_json_text (platform_runtime special) v) = Some v
      \<and> rt_json_parse (platform_runtime special) (rt_json_text (platform_runtime special) v @ [char_of (10::nat)]) = Some v"
    for v
    using call_letters by (cases "v = special") (simp_all add: platform_runtime_def null_runtime_def)
  moreover have "reads_back (JObj ps) (JObj ps)" for ps by (simp add: reads_back_def)
  moreover have "rt_url (platform_runtime special) (INTERNAL_ORIGIN @ path) = Some (example_url path)" for path
    by (simp add: platform_runtime_def null_runtime_def)
  ultimately show ?thesis by (auto simp: internal_platform_def example_url_def)
qed

definition mcp_example_request :: request where
  "mcp_example_request =
     \<lparr>rq_method = ''POST'', rq_url = example_url ''/mcp'',
      rq_headers = [(''authorization'', ''Bearer root''), (''content-type'', ''application/json''),
        (''accept'', ''application/json, text/event-stream''), (''mcp-protocol-version'', MCP_PROTOCOL_VERSION),
        (''mcp-method'', ''tools/call''), (''mcp-name'', ''task.inspect'')],
      rq_body = ''call''\<rparr>"

definition mcp_example_rpc :: rpc_request where
  "mcp_example_rpc =
     \<lparr>rpc_id = JInt 1, rpc_method = ''tools/call'',
      rpc_params = JObj [(''name'', JStr ''task.inspect''), (''arguments'', JObj [(''task_id'', JInt 7)]),
          (''_meta'', JObj [(''io.modelcontextprotocol/protocolVersion'', JStr MCP_PROTOCOL_VERSION),
             (''io.modelcontextprotocol/clientCapabilities'', JObj [])])]\<rparr>"

lemma example_mcp_parse: "parse_mcp_request mcp_runtime empty_host mcp_example_request = Inr mcp_example_rpc"
proof -
  have headers: "json_content_type mcp_example_request" "header mcp_example_request ''content-length'' = None"
    "header mcp_example_request ''origin'' = None"
    "includes_str (to_lower ''application/json, text/event-stream'') ''application/json''"
    "includes_str (to_lower ''application/json, text/event-stream'') ''text/event-stream''"
    by code_simp+
  have "read_rpc_json mcp_runtime mcp_example_request = Inr example_tool_call"
    by (simp add: read_rpc_json_def headers check_declared_length_def MAX_PUBLIC_REQUEST_BYTES_def)
      (simp add: mcp_example_request_def mcp_runtime_def platform_runtime_call)
  moreover have "parse_json_rpc example_tool_call = Inr mcp_example_rpc" by code_simp
  moreover have "validate_meta_and_headers decode mcp_example_request mcp_example_rpc = None" for decode
    by (simp add: validate_meta_and_headers_def mcp_example_rpc_def mcp_example_request_def check_tool_name_def header_def
        decode_mirrored_header_def base64_sentinel_def starts_with_def is_record_field_def truthy_def
        MCP_PROTOCOL_VERSION_def between_def)
  moreover have "u_pathname (rq_url mcp_example_request) = MCP_ENDPOINT" "rq_method mcp_example_request = ''POST''"
    "header mcp_example_request ''accept'' = Some ''application/json, text/event-stream''"
    by code_simp+
  moreover have "origin_allowed mcp_runtime mcp_example_request" by (simp add: origin_allowed_def headers truthy_def)
  ultimately show ?thesis by (simp add: parse_mcp_request_def headers Let_def)
qed

text \<open>The call of a tool is not answered without the gateway: its answer is the gateway's.\<close>

definition example_inner_request :: request where
  "example_inner_request =
     \<lparr>rq_method = ''GET'', rq_url = example_url ''/v1/tasks/7'', rq_headers = [(''authorization'', ''Bearer root'')],
      rq_body = []\<rparr>"

lemma example_mcp_call:
  "handle_mcp_request mcp_runtime empty_host None example_config 0 invoke mcp_example_request st
   = gateway_tool_result mcp_runtime invoke (JInt 1) example_inner_request st"
proof -
  let ?auth = "compat_context RootAuth"
  have resolved: "resolve_authorization_context mcp_runtime mcp_example_request example_config 0 = Inr (Some ?auth)"
    by (simp add: resolve_authorization_context_def bearer_token_def header_def mcp_example_request_def example_config_def
        starts_with_def truthy_def constant_time_equal_iff)
  have "case get_capability CAPABILITY_REGISTRY ''task.inspect'' of None \<Rightarrow> False
      | Some d \<Rightarrow> cd_name d = ''task.inspect'' \<and> cd_kind d = Surface \<and> cd_publicly_discoverable d
          \<and> cd_provider d \<notin> set [''bun-filesystem'', ''rust-fs-mutator'', ''git-cli-metadata'']
          \<and> dc_allowed (evaluate_capability_grant (ac_grant (compat_context RootAuth)) d)"
    by code_simp
  then obtain d where d: "get_capability CAPABILITY_REGISTRY ''task.inspect'' = Some d" "cd_name d = ''task.inspect''"
    "cd_kind d = Surface" "cd_publicly_discoverable d"
    "cd_provider d \<notin> set [''bun-filesystem'', ''rust-fs-mutator'', ''git-cli-metadata'']" "capability_allowed ?auth d"
    by (auto simp: capability_allowed_def split: option.splits)
  have tool: "mcp_tool mcp_runtime d ?auth s = Some (tool_entry d (positive_id_schema ''task_id''))" for s
    using d by (simp add: mcp_tool_def tool_prerequisites_def is_capability_available_def tool_schema_def Let_def)
  have seven: "int_text 7 = ''7''" by code_simp
  have "tool_call d ?auth s (JObj [(''task_id'', JInt 7)]) = Some (''/v1/tasks/7'', ''GET'', None, None)" for s
    using d by (simp add: tool_call_def id_call_def exact_keys_def positive_integer_def max_safe_integer_def seven Let_def)
  moreover have "gateway_request mcp_runtime mcp_example_request ''/v1/tasks/7'' ''GET'' None None = Inr example_inner_request"
    by (simp add: gateway_request_def mcp_runtime_def platform_runtime_def null_runtime_def mcp_example_request_def header_def given_header_def
        truthy_def INTERNAL_ORIGIN_def example_inner_request_def)
  ultimately have "invocation_for_tool mcp_runtime mcp_example_request d ?auth s (JObj [(''task_id'', JInt 7)])
      = Some (Inr example_inner_request)" for s
    by (simp add: invocation_for_tool_def)
  with d(1,4) tool show ?thesis
    by (simp add: handle_mcp_request_def example_mcp_parse resolved handle_tools_call_def Let_def)
      (simp add: mcp_example_rpc_def)
qed

theorem mcp_calls_admitted_witness:
  "required_surface (u_pathname (rq_url example_inner_request)) (rq_method example_inner_request) = Some ''task.inspect''
     \<and> (\<exists>admitted. enforce_capability_access mcp_runtime example_inner_request example_config 0 = Inr (Admitted admitted))"
proof -
  let ?keep = "\<lambda>q (st :: request). (q, None :: (string + response) option)"
  have surface: "required_surface (u_pathname (rq_url example_inner_request)) (rq_method example_inner_request) = Some ''task.inspect''"
    by code_simp
  have made: "fst (gateway_tool_result mcp_runtime ?keep i q st) = q" for i q st
    by (simp add: gateway_tool_result_def)
  show ?thesis
    using mcp_calls_admitted [OF platform_runtime [of example_tool_call, folded mcp_runtime_def], of empty_host None example_config 0 mcp_example_request,
        where 's = request]
    unfolding example_mcp_call
  proof
    assume "\<exists>answer. \<forall>invoke (st :: request). gateway_tool_result mcp_runtime invoke (JInt 1) example_inner_request st = (st, answer)"
    then obtain answer where a: "\<forall>invoke (st :: request). gateway_tool_result mcp_runtime invoke (JInt 1) example_inner_request st
        = (st, answer)" by blast
    have "fst (gateway_tool_result mcp_runtime ?keep (JInt 1) example_inner_request mcp_example_request) = mcp_example_request"
      unfolding a [rule_format] by simp
    then show ?thesis by (simp add: made mcp_example_request_def example_inner_request_def)
  next
    assume "\<exists>i d r'. (\<forall>invoke (st :: request). gateway_tool_result mcp_runtime invoke (JInt 1) example_inner_request st
          = gateway_tool_result mcp_runtime invoke i r' st)
        \<and> header r' ''authorization'' = header mcp_example_request ''authorization''
        \<and> get_capability CAPABILITY_REGISTRY (cd_name d) = Some d \<and> cd_publicly_discoverable d
        \<and> is_capability_available d (load_capability_availability mcp_runtime empty_host None example_config)
        \<and> required_surface (u_pathname (rq_url r')) (rq_method r') = tool_surface d
        \<and> (\<exists>admitted. enforce_capability_access mcp_runtime r' example_config 0 = Inr (Admitted admitted))"
    then obtain i r' where same: "\<forall>invoke (st :: request). gateway_tool_result mcp_runtime invoke (JInt 1) example_inner_request st
          = gateway_tool_result mcp_runtime invoke i r' st"
      and admitted: "\<exists>admitted. enforce_capability_access mcp_runtime r' example_config 0 = Inr (Admitted admitted)" by blast
    have "example_inner_request = r'"
      using arg_cong [OF same [rule_format, of ?keep mcp_example_request], of fst] by (simp add: made)
    with admitted surface show ?thesis by simp
  qed
qed

end
