(* ===== verification/JsCoercion.thy ===== *)
theory JsCoercion
  imports Decimal
begin

text \<open>\<open>String(v)\<close> of a parsed value, as template literals, regular expressions and headers take it.\<close>

fun js_text :: "json \<Rightarrow> string" where
  "js_text JNull = ''null''"
| "js_text (JBool b) = (if b then ''true'' else ''false'')"
| "js_text (JInt i) = int_text i"
| "js_text (JNonInt s) = s"
| "js_text (JStr s) = s"
| "js_text (JArr vs) = join '','' (map (\<lambda>v. if v = JNull then [] else js_text v) vs)"
| "js_text (JObj ps) = ''[object Object]''"

text \<open>Of a property that may be missing.\<close>

definition js_text_of :: "json option \<Rightarrow> string" where
  "js_text_of v = (case v of None \<Rightarrow> ''undefined'' | Some w \<Rightarrow> js_text w)"

end
