(* ===== verification/CimdCurl.thy ===== *)
theory CimdCurl
  imports Cimd Processes FilesystemMutation JsCoercion
begin

text \<open>
  The transport of the discovery of client metadata: \<open>gateway/src/oauth-cimd-curl-transport.ts\<close> (the process
  around curl, and the transport that gives curl all the addresses) and \<open>oauth-cimd-curl-runtime.ts\<close> (the one
  the server uses: one address per call of curl, two calls at most). What curl does is a parameter: the events
  of the child for a call, or \<open>None\<close> where spawning throws.
\<close>

definition MAX_CURL_STDERR_BYTES :: nat where "MAX_CURL_STDERR_BYTES = 64 * 1024"
definition MAX_TRANSPORT_BODY_BYTES :: nat where "MAX_TRANSPORT_BODY_BYTES = 8 * 1024"
definition MIN_FETCH_TIMEOUT_MS :: int where "MIN_FETCH_TIMEOUT_MS = 100"
definition MAX_FETCH_TIMEOUT_MS :: int where "MAX_FETCH_TIMEOUT_MS = 10000"
definition CIMD_CURL_METADATA_MARKER :: string where "CIMD_CURL_METADATA_MARKER = ''__TQQ_CIMD_META__''"

record curl_invocation =
  cu_binary :: string
  cu_args :: "string list"
  cu_timeout_ms :: int
  cu_max_stdout :: nat
  cu_max_stderr :: nat

datatype curl_error = CurlSpawnFailed | CurlTimedOut | CurlOutputTooLarge | CurlProcessFailed

datatype curl_result = CurlOk "nat list" string | CurlFailed curl_error "int option"

datatype curl_event = CurlStdout "nat list" | CurlStderr "nat list" | CurlSpawnError | CurlClose "int option" | CurlTimer

text \<open>The runner of a transport; \<open>None\<close> for a child that never closes.\<close>

type_synonym curl_runner = "curl_invocation \<Rightarrow> curl_result option"

text \<open>The platform: the file system, the environment of the gateway, the child, the fatal decoder, DNS.\<close>

record curl_host =
  uh_files :: file_system
  uh_env :: "(string \<times> string) list"
  uh_spawn :: "spawn_call \<Rightarrow> curl_event list option"
  uh_decode :: "nat list \<Rightarrow> string option"
  uh_lookup :: "string \<Rightarrow> (string \<times> nat) list option"

fun curl_error_text :: "curl_error \<Rightarrow> string" where
  "curl_error_text CurlSpawnFailed = ''spawn_failed''"
| "curl_error_text CurlTimedOut = ''timeout''"
| "curl_error_text CurlOutputTooLarge = ''output_too_large''"
| "curl_error_text CurlProcessFailed = ''process_failed''"

section \<open>The binary and the request\<close>

definition bounded_absolute_binary :: "string \<Rightarrow> string + string" where
  "bounded_absolute_binary value =
     (if length value = 0 \<or> length value > 4096 \<or> list_ex (\<lambda>c. unit_of c = 0) value \<or> \<not> posix_is_absolute value
        then Inl ''CIMD curl binary must be a bounded absolute POSIX path''
      else if posix_normalize value = ''/'' then Inl ''CIMD curl binary must identify an executable''
      else Inr (posix_normalize value))"

definition validate_configured_cimd_curl_binary :: "file_system \<Rightarrow> string \<Rightarrow> string + string" where
  "validate_configured_cimd_curl_binary fs value =
     (case bounded_absolute_binary value of
        Inl e \<Rightarrow> Inl e
      | Inr binary \<Rightarrow>
          (case fs binary of
             None \<Rightarrow> Inl ''configured CIMD curl binary is unavailable or not executable''
           | Some f \<Rightarrow>
               if \<not> fi_executable f then Inl ''configured CIMD curl binary is unavailable or not executable''
               else if \<not> fi_is_file f \<or> posix_normalize (fi_realpath f) \<noteq> binary
                 then Inl ''configured CIMD curl binary must be a canonical non-symlink executable''
               else Inr binary))"

definition curl_resolve_address :: "runtime \<Rightarrow> string \<Rightarrow> string" where
  "curl_resolve_address rt address =
     (let normalized = strip_brackets address
      in if rt_is_ip rt normalized = 6 then ''['' @ normalized @ '']'' else normalized)"

text \<open>The checks of a request, which the two transports share up to the texts of their errors.\<close>

record request_errors =
  re_contract :: string
  re_url :: string
  re_https :: string
  re_address :: string
  re_duplicate :: string

definition check_pinned_request :: "request_errors \<Rightarrow> runtime \<Rightarrow> pinned_request \<Rightarrow> string + url \<times> string list" where
  "check_pinned_request e rt req =
     (if pf_max_bytes req < 1 \<or> pf_max_bytes req > MAX_TRANSPORT_BODY_BYTES
         \<or> pf_timeout_ms req < MIN_FETCH_TIMEOUT_MS \<or> pf_timeout_ms req > MAX_FETCH_TIMEOUT_MS
         \<or> length (pf_allowed_addresses req) < 1 \<or> length (pf_allowed_addresses req) > 16
        then Inl (re_contract e)
      else (case rt_url rt (pf_url req) of
        None \<Rightarrow> Inl (re_url e)
      | Some url \<Rightarrow>
          if u_protocol url \<noteq> ''https:'' \<or> u_username url \<noteq> [] \<or> u_password url \<noteq> [] \<or> u_hash url \<noteq> []
             \<or> list_ex (\<lambda>c. unit_of c = 13) (pf_url req) \<or> list_ex (\<lambda>c. unit_of c = 10) (pf_url req)
            then Inl (re_https e)
          else
            (let addresses = map strip_brackets (pf_allowed_addresses req)
             in if list_ex (\<lambda>address. rt_is_ip rt address = 0) addresses then Inl (re_address e)
                else if length (remdups addresses) \<noteq> length addresses then Inl (re_duplicate e)
                else Inr (url, addresses))))"

definition bounded_request :: "runtime \<Rightarrow> pinned_request \<Rightarrow> string + url \<times> string list" where
  "bounded_request = check_pinned_request
     \<lparr>re_contract = ''CIMD pinned request is outside the transport contract'',
      re_url = ''CIMD pinned request URL is invalid'',
      re_https = ''CIMD pinned request must use unambiguous HTTPS'',
      re_address = ''CIMD pinned request contains a non-IP destination'',
      re_duplicate = ''CIMD pinned request contains duplicate destinations''\<rparr>"

text \<open>\<open>(ms / 1000).toFixed(3)\<close> of a whole number of milliseconds.\<close>

definition seconds_text :: "int \<Rightarrow> string" where
  "seconds_text ms =
     (let m = nat ms mod 1000
      in nat_text (nat ms div 1000) @ ''.''
         @ [hex_digit (m div 100), hex_digit (m div 10 mod 10), hex_digit (m mod 10)])"

definition url_host :: "url \<Rightarrow> string" where
  "url_host u =
     (let h = (if starts_with (u_hostname u) ''['' then drop 1 (u_hostname u) else u_hostname u)
      in if ends_with h '']'' then butlast h else h)"

definition url_port :: "url \<Rightarrow> string" where
  "url_port u = (if u_port u = [] then ''443'' else u_port u)"

definition line_feed :: string where "line_feed = [char_of (10 :: nat)]"

definition build_cimd_curl_invocation :: "runtime \<Rightarrow> string \<Rightarrow> pinned_request \<Rightarrow> string + curl_invocation" where
  "build_cimd_curl_invocation rt binary req =
     (case bounded_absolute_binary binary of
        Inl e \<Rightarrow> Inl e
      | Inr curl_bin \<Rightarrow>
      (case bounded_request rt req of
        Inl e \<Rightarrow> Inl e
      | Inr (url, addresses) \<Rightarrow>
          (let target = url_host url @ '':'' @ url_port url @ '':'' @ join '','' (map (curl_resolve_address rt) addresses);
               seconds = seconds_text (pf_timeout_ms req)
           in Inr \<lparr>cu_binary = curl_bin,
                   cu_args = [''--disable'', ''--globoff'', ''--silent'', ''--show-error'', ''--proxy'', [], ''--noproxy'', ''*'',
                     ''--request'', ''GET'', ''--proto'', ''=https'', ''--proto-redir'', ''-all'', ''--max-redirs'', ''0'',
                     ''--connect-timeout'', seconds, ''--max-time'', seconds, ''--max-filesize'', nat_text (pf_max_bytes req),
                     ''--header'', ''Accept: application/json, application/*+json'',
                     ''--header'', ''User-Agent: task-que-que-cimd/1'', ''--resolve'', target,
                     ''--write-out'', ''%{stderr}'' @ line_feed @ CIMD_CURL_METADATA_MARKER @ ''%{json}'' @ line_feed,
                     pf_url req],
                   cu_timeout_ms = pf_timeout_ms req + 1000, cu_max_stdout = pf_max_bytes req,
                   cu_max_stderr = MAX_CURL_STDERR_BYTES\<rparr>)))"

section \<open>The process\<close>

definition native_curl_environment :: "(string \<times> string) list \<Rightarrow> (string \<times> string) list" where
  "native_curl_environment env =
     foldl (\<lambda>e k. map_delete k e)
       (foldl (\<lambda>e (k, v). map_set k v e) env
         [(''LANG'', ''C''), (''LC_ALL'', ''C''), (''http_proxy'', []), (''https_proxy'', []), (''HTTP_PROXY'', []),
          (''HTTPS_PROXY'', []), (''all_proxy'', []), (''ALL_PROXY'', []), (''no_proxy'', ''*''), (''NO_PROXY'', ''*'')])
       [''SSLKEYLOGFILE'', ''QLOGDIR'', ''NETRC'', ''CURL_HOME'', ''XDG_CONFIG_HOME'']"

text \<open>
  The events up to the first that settles the run. Once the child is to be killed, for a reason that is
  kept, its output is ignored and its end has that reason.
\<close>

fun curl_outcome ::
  "runtime \<Rightarrow> curl_invocation \<Rightarrow> curl_error option \<Rightarrow> nat list \<Rightarrow> nat list \<Rightarrow> curl_event list \<Rightarrow> curl_result option" where
  "curl_outcome rt call terminated out errs [] = None"
| "curl_outcome rt call terminated out errs (CurlStdout chunk # es) =
     (if terminated \<noteq> None then curl_outcome rt call terminated out errs es
      else if length out + length chunk > cu_max_stdout call
        then curl_outcome rt call (Some CurlOutputTooLarge) out errs es
      else curl_outcome rt call terminated (out @ chunk) errs es)"
| "curl_outcome rt call terminated out errs (CurlStderr chunk # es) =
     (if terminated \<noteq> None then curl_outcome rt call terminated out errs es
      else if length errs + length chunk > cu_max_stderr call
        then curl_outcome rt call (Some CurlOutputTooLarge) out errs es
      else curl_outcome rt call terminated out (errs @ chunk) es)"
| "curl_outcome rt call terminated out errs (CurlSpawnError # es) = Some (CurlFailed CurlSpawnFailed None)"
| "curl_outcome rt call terminated out errs (CurlClose code # es) =
     Some (case terminated of
             Some e \<Rightarrow> CurlFailed e None
           | None \<Rightarrow> if code \<noteq> Some 0 then CurlFailed CurlProcessFailed code
                     else CurlOk out (rt_utf8_decode rt errs))"
| "curl_outcome rt call terminated out errs (CurlTimer # es) =
     curl_outcome rt call (if terminated = None then Some CurlTimedOut else terminated) out errs es"

definition run_cimd_curl_command :: "runtime \<Rightarrow> curl_host \<Rightarrow> curl_runner" where
  "run_cimd_curl_command rt h call =
     (case uh_spawn h \<lparr>sp_program = cu_binary call, sp_args = cu_args call, sp_env = native_curl_environment (uh_env h)\<rparr> of
        None \<Rightarrow> Some (CurlFailed CurlSpawnFailed None)
      | Some events \<Rightarrow> curl_outcome rt call None [] [] events)"


section \<open>The transport with all the addresses\<close>

text \<open>\<open>s.lastIndexOf(pattern)\<close>.\<close>

fun last_index :: "string \<Rightarrow> string \<Rightarrow> nat option" where
  "last_index p [] = (if p = [] then Some 0 else None)"
| "last_index p (c # s) =
     (case last_index p s of
        Some i \<Rightarrow> Some (Suc i)
      | None \<Rightarrow> if starts_with (c # s) p then Some 0 else None)"

text \<open>\<open>Number(v)\<close> of a parsed value; \<open>None\<close> for what is not an integer.\<close>

definition js_number :: "runtime \<Rightarrow> json option \<Rightarrow> int option" where
  "js_number rt v =
     (case v of
        None \<Rightarrow> None
      | Some JNull \<Rightarrow> Some 0
      | Some (JBool b) \<Rightarrow> Some (if b then 1 else 0)
      | Some (JInt i) \<Rightarrow> Some i
      | Some (JNonInt s) \<Rightarrow> None
      | Some w \<Rightarrow> rt_number rt (js_text w))"

record curl_metadata =
  cm_status :: int
  cm_content_type :: "string option"
  cm_peer_address :: string

definition check_metadata :: "runtime \<Rightarrow> string \<Rightarrow> int option \<Rightarrow> string option \<Rightarrow> string \<Rightarrow> string + curl_metadata" where
  "check_metadata rt failure status content_type peer =
     (case status of
        None \<Rightarrow> Inl failure
      | Some s \<Rightarrow>
          if s < 100 \<or> s > 599 \<or> rt_is_ip rt peer = 0 then Inl failure
          else Inr \<lparr>cm_status = s, cm_content_type = content_type, cm_peer_address = peer\<rparr>)"

definition first_line :: "string \<Rightarrow> string" where
  "first_line s = hd (split_lines (split_on (char_of (10 :: nat)) s))"

definition parse_curl_metadata :: "runtime \<Rightarrow> string \<Rightarrow> string + curl_metadata" where
  "parse_curl_metadata rt stderr =
     (case last_index CIMD_CURL_METADATA_MARKER stderr of
        None \<Rightarrow> Inl ''CIMD curl metadata marker is missing''
      | Some i \<Rightarrow>
          (case rt_json_parse rt (first_line (drop (i + length CIMD_CURL_METADATA_MARKER) stderr)) of
             None \<Rightarrow> Inl ''CIMD curl metadata is malformed''
           | Some metadata \<Rightarrow>
               if \<not> is_record metadata then Inl ''CIMD curl metadata is malformed''
               else
                 (let peer = (if is_string (field metadata ''remote_ip'')
                                then strip_brackets (str_of (field metadata ''remote_ip'')) else []);
                      content_type = truthy (Some (str_of (field metadata ''content_type'')))
                  in check_metadata rt ''CIMD curl metadata is incomplete''
                       (js_number rt (field metadata ''http_code'')) content_type peer)))"

definition exit_suffix :: "int option \<Rightarrow> string" where
  "exit_suffix code = (case code of None \<Rightarrow> [] | Some n \<Rightarrow> '' (exit='' @ int_text n @ '')'')"

definition pinned_response_of :: "curl_metadata \<Rightarrow> string \<Rightarrow> pinned_response" where
  "pinned_response_of m body =
     \<lparr>pf_status = cm_status m, pf_content_type = cm_content_type m, pf_body = body, pf_peer_address = cm_peer_address m\<rparr>"

text \<open>A transport: what it rejects with or answers, \<open>None\<close> while a child does not close.\<close>

definition curl_fetch :: "runtime \<Rightarrow> curl_host \<Rightarrow> curl_runner \<Rightarrow> string \<Rightarrow> pinned_request \<Rightarrow> (string + pinned_response) option" where
  "curl_fetch rt h run curl_bin req =
     (case build_cimd_curl_invocation rt curl_bin req of
        Inl e \<Rightarrow> Some (Inl e)
      | Inr call \<Rightarrow>
          (case run call of
             None \<Rightarrow> None
           | Some (CurlFailed e code) \<Rightarrow>
               Some (Inl (''CIMD curl transport failed: '' @ curl_error_text e @ exit_suffix code))
           | Some (CurlOk out errs) \<Rightarrow>
               Some (case parse_curl_metadata rt errs of
                  Inl e \<Rightarrow> Inl e
                | Inr m \<Rightarrow>
                    if cm_peer_address m \<notin> set (map strip_brackets (pf_allowed_addresses req))
                      then Inl ''CIMD curl peer is outside the pinned address set''
                    else (case uh_decode h out of
                            None \<Rightarrow> Inl ''CIMD response body is not valid UTF-8''
                          | Some body \<Rightarrow> Inr (pinned_response_of m body)))))"

definition create_curl_cimd_pinned_transport ::
  "runtime \<Rightarrow> curl_host \<Rightarrow> curl_runner \<Rightarrow> string \<Rightarrow> string + (pinned_request \<Rightarrow> (string + pinned_response) option)" where
  "create_curl_cimd_pinned_transport rt h run binary = map_sum id (curl_fetch rt h run) (bounded_absolute_binary binary)"

definition resolve_system_cimd_hostname :: "curl_host \<Rightarrow> string \<Rightarrow> string list option" where
  "resolve_system_cimd_hostname h hostname = map_option (map fst) (uh_lookup h hostname)"

text \<open>
  The dependencies of a discovery. A promise that is rejected is \<open>None\<close> there; so is one that never
  settles, which changes nothing either.
\<close>

definition discovery_over ::
  "curl_host \<Rightarrow> (pinned_request \<Rightarrow> (string + pinned_response) option) \<Rightarrow> cimd_discovery" where
  "discovery_over h transport =
     \<lparr>dd_resolve = resolve_system_cimd_hostname h,
      dd_fetch_pinned = (\<lambda>req. case transport req of Some (Inr response) \<Rightarrow> Some response | _ \<Rightarrow> None),
      dd_timeout_ms = None\<rparr>"

definition create_curl_backed_cimd_discovery_dependencies ::
  "runtime \<Rightarrow> curl_host \<Rightarrow> string \<Rightarrow> string + cimd_discovery" where
  "create_curl_backed_cimd_discovery_dependencies rt h binary =
     (case validate_configured_cimd_curl_binary (uh_files h) binary of
        Inl e \<Rightarrow> Inl e
      | Inr validated \<Rightarrow>
          map_sum id (discovery_over h) (create_curl_cimd_pinned_transport rt h (run_cimd_curl_command rt h) validated))"

section \<open>The portable transport: one address per call\<close>

definition MAX_CONNECT_ATTEMPTS :: nat where "MAX_CONNECT_ATTEMPTS = 2"
definition MIN_ATTEMPT_TIMEOUT_MS :: int where "MIN_ATTEMPT_TIMEOUT_MS = 100"
definition STATUS_MARKER :: string where "STATUS_MARKER = ''__TQQ_CIMD_STATUS__''"
definition TYPE_MARKER :: string where "TYPE_MARKER = ''__TQQ_CIMD_TYPE__''"
definition PEER_MARKER :: string where "PEER_MARKER = ''__TQQ_CIMD_PEER__''"

definition validated_request :: "runtime \<Rightarrow> pinned_request \<Rightarrow> string + url \<times> string list" where
  "validated_request = check_pinned_request
     \<lparr>re_contract = ''CIMD runtime request is outside the pinned transport contract'',
      re_url = ''CIMD runtime URL is invalid'',
      re_https = ''CIMD runtime URL must be unambiguous HTTPS'',
      re_address = ''CIMD runtime destination must be an IP address'',
      re_duplicate = ''CIMD runtime destination set contains duplicates''\<rparr>"

definition some_list :: "'a option \<Rightarrow> 'a list" where
  "some_list x = (case x of None \<Rightarrow> [] | Some a \<Rightarrow> [a])"

definition preferred_addresses :: "runtime \<Rightarrow> string list \<Rightarrow> string list" where
  "preferred_addresses rt addresses =
     (let preferred = some_list (find (\<lambda>a. rt_is_ip rt a = 4) addresses) @ some_list (find (\<lambda>a. rt_is_ip rt a = 6) addresses)
      in if length preferred > 0 then take MAX_CONNECT_ATTEMPTS preferred else take MAX_CONNECT_ATTEMPTS addresses)"

definition build_portable_cimd_curl_invocation ::
  "runtime \<Rightarrow> file_system \<Rightarrow> string \<Rightarrow> pinned_request \<Rightarrow> string \<Rightarrow> int \<Rightarrow> string + curl_invocation" where
  "build_portable_cimd_curl_invocation rt fs binary req address attempt_ms =
     (case validated_request rt req of
        Inl e \<Rightarrow> Inl e
      | Inr (url, addresses) \<Rightarrow>
          (let peer = strip_brackets address; seconds = seconds_text attempt_ms
           in if peer \<notin> set addresses then Inl ''CIMD runtime peer is outside the validated address set''
              else if attempt_ms < MIN_ATTEMPT_TIMEOUT_MS \<or> attempt_ms > pf_timeout_ms req
                then Inl ''CIMD runtime attempt timeout is invalid''
              else (case validate_configured_cimd_curl_binary fs binary of
                      Inl e \<Rightarrow> Inl e
                    | Inr curl_bin \<Rightarrow>
                        Inr \<lparr>cu_binary = curl_bin,
                             cu_args = [''--disable'', ''--globoff'', ''--silent'', ''--show-error'', ''--noproxy'', ''*'',
                               ''--proto'', ''=https'', ''--connect-timeout'', seconds, ''--max-time'', seconds,
                               ''--max-filesize'', nat_text (pf_max_bytes req),
                               ''--header'', ''Accept: application/json, application/*+json'',
                               ''--header'', ''User-Agent: task-que-que-cimd/1'',
                               ''--resolve'', url_host url @ '':'' @ url_port url @ '':'' @ curl_resolve_address rt peer,
                               ''--write-out'', ''%{stderr}'' @ line_feed @ STATUS_MARKER @ ''%{http_code}'' @ line_feed
                                 @ TYPE_MARKER @ ''%{content_type}'' @ line_feed @ PEER_MARKER @ ''%{remote_ip}'' @ line_feed,
                               pf_url req],
                             cu_timeout_ms = attempt_ms + 500, cu_max_stdout = pf_max_bytes req,
                             cu_max_stderr = MAX_CURL_STDERR_BYTES\<rparr>)))"

definition marker_value :: "string \<Rightarrow> string \<Rightarrow> string option" where
  "marker_value stderr marker =
     (case find (\<lambda>entry. starts_with entry marker) (split_lines (split_on (char_of (10 :: nat)) stderr)) of
        None \<Rightarrow> None
      | Some line \<Rightarrow> if line = [] then None else Some (drop (length marker) line))"

definition parse_portable_metadata :: "runtime \<Rightarrow> string \<Rightarrow> string + curl_metadata" where
  "parse_portable_metadata rt stderr =
     (let status = (case marker_value stderr STATUS_MARKER of None \<Rightarrow> Some 0 | Some s \<Rightarrow> rt_number rt s);
          content_type = truthy (marker_value stderr TYPE_MARKER);
          peer = (case truthy (marker_value stderr PEER_MARKER) of None \<Rightarrow> [] | Some p \<Rightarrow> strip_brackets p)
      in check_metadata rt ''CIMD runtime curl metadata is incomplete'' status content_type peer)"

definition portable_answer :: "runtime \<Rightarrow> curl_host \<Rightarrow> string \<Rightarrow> nat list \<Rightarrow> string \<Rightarrow> string + pinned_response" where
  "portable_answer rt h address out errs =
     (case parse_portable_metadata rt errs of
        Inl e \<Rightarrow> Inl e
      | Inr m \<Rightarrow>
          if cm_peer_address m \<noteq> address then Inl ''CIMD runtime curl peer escaped the pinned address''
          else (case uh_decode h out of
                  None \<Rightarrow> Inl ''CIMD runtime response is not valid UTF-8''
                | Some body \<Rightarrow> Inr (pinned_response_of m body)))"

text \<open>The loop over the attempts, with the calls that it runs.\<close>

fun portable_attempts ::
  "runtime \<Rightarrow> curl_host \<Rightarrow> curl_runner \<Rightarrow> string \<Rightarrow> pinned_request \<Rightarrow> int \<Rightarrow> int option \<Rightarrow> string list
   \<Rightarrow> curl_invocation list \<times> (string + pinned_response) option" where
  "portable_attempts rt h run curl_bin req attempt_ms last_exit [] =
     ([], Some (Inl (''CIMD portable curl transport failed'' @ exit_suffix last_exit)))"
| "portable_attempts rt h run curl_bin req attempt_ms last_exit (address # rest) =
     (case build_portable_cimd_curl_invocation rt (uh_files h) curl_bin req address attempt_ms of
        Inl e \<Rightarrow> ([], Some (Inl e))
      | Inr call \<Rightarrow>
          (case run call of
             None \<Rightarrow> ([call], None)
           | Some (CurlFailed e code) \<Rightarrow>
               (case portable_attempts rt h run curl_bin req attempt_ms code rest of (calls, answer) \<Rightarrow> (call # calls, answer))
           | Some (CurlOk out errs) \<Rightarrow> ([call], Some (portable_answer rt h address out errs))))"

definition portable_fetch ::
  "runtime \<Rightarrow> curl_host \<Rightarrow> curl_runner \<Rightarrow> string \<Rightarrow> pinned_request \<Rightarrow> curl_invocation list \<times> (string + pinned_response) option" where
  "portable_fetch rt h run curl_bin req =
     (case validated_request rt req of
        Inl e \<Rightarrow> ([], Some (Inl e))
      | Inr (url, addresses) \<Rightarrow>
          (let attempts = preferred_addresses rt addresses;
               attempt_ms = max MIN_ATTEMPT_TIMEOUT_MS (pf_timeout_ms req div int (length attempts))
           in portable_attempts rt h run curl_bin req attempt_ms None attempts))"

definition create_portable_cimd_pinned_transport ::
  "runtime \<Rightarrow> curl_host \<Rightarrow> curl_runner \<Rightarrow> string
   \<Rightarrow> string + (pinned_request \<Rightarrow> curl_invocation list \<times> (string + pinned_response) option)" where
  "create_portable_cimd_pinned_transport rt h run binary =
     map_sum id (portable_fetch rt h run) (validate_configured_cimd_curl_binary (uh_files h) binary)"

text \<open>As the server calls it; the runner is the default one.\<close>

definition create_portable_discovery ::
  "runtime \<Rightarrow> curl_host \<Rightarrow> curl_runner \<Rightarrow> string \<Rightarrow> string + cimd_discovery" where
  "create_portable_discovery rt h run binary =
     (case validate_configured_cimd_curl_binary (uh_files h) binary of
        Inl e \<Rightarrow> Inl e
      | Inr validated \<Rightarrow>
          map_sum id (\<lambda>transport. discovery_over h (\<lambda>req. snd (transport req)))
            (create_portable_cimd_pinned_transport rt h run validated))"

definition create_portable_curl_backed_cimd_discovery_dependencies ::
  "runtime \<Rightarrow> curl_host \<Rightarrow> string \<Rightarrow> string + cimd_discovery" where
  "create_portable_curl_backed_cimd_discovery_dependencies rt h = create_portable_discovery rt h (run_cimd_curl_command rt h)"


section \<open>What a call of curl is told\<close>

text \<open>The values that an argument list gives for an option.\<close>

fun option_values :: "string \<Rightarrow> string list \<Rightarrow> string list" where
  "option_values name (a # b # args) =
     (if a = name then b # option_values name args else option_values name (b # args))"
| "option_values name args = []"

text \<open>
  A call that connects to one address only: the configured binary; the URL of the request, whose host and
  port are resolved to this address, which is an allowed IP address; HTTPS and no proxy, no redirects; the
  size and the time limited by the request.
\<close>

definition pinned_call :: "runtime \<Rightarrow> file_system \<Rightarrow> string \<Rightarrow> pinned_request \<Rightarrow> string \<Rightarrow> curl_invocation \<Rightarrow> bool" where
  "pinned_call rt fs binary req address call \<longleftrightarrow>
     path_segments (cu_binary call) = path_segments binary
     \<and> (\<exists>f. fs (cu_binary call) = Some f \<and> fi_is_file f \<and> fi_executable f \<and> posix_normalize (fi_realpath f) = cu_binary call)
     \<and> address \<in> strip_brackets ` set (pf_allowed_addresses req) \<and> rt_is_ip rt address \<noteq> 0
     \<and> last (cu_args call) = pf_url req
     \<and> (\<exists>url ms. rt_url rt (pf_url req) = Some url \<and> u_protocol url = ''https:''
          \<and> option_values ''--resolve'' (cu_args call)
              = [url_host url @ '':'' @ url_port url @ '':'' @ curl_resolve_address rt address]
          \<and> ms \<le> pf_timeout_ms req \<and> option_values ''--max-time'' (cu_args call) = [seconds_text ms]
          \<and> cu_timeout_ms call = ms + 500)
     \<and> option_values ''--proto'' (cu_args call) = [''=https''] \<and> option_values ''--noproxy'' (cu_args call) = [''*'']
     \<and> option_values ''--max-filesize'' (cu_args call) = [nat_text (pf_max_bytes req)]
     \<and> {''--location'', ''-L'', ''--proxy'', ''--config''} \<inter> set (butlast (cu_args call)) = {}
     \<and> cu_max_stdout call = pf_max_bytes req"

lemma nat_text_no_option [simp]: "CHR ''-'' # s \<noteq> nat_text n" "nat_text n \<noteq> CHR ''-'' # s"
proof -
  have "list_all is_digit (nat_text n)" using nat_text_digits by blast
  then show "CHR ''-'' # s \<noteq> nat_text n" "nat_text n \<noteq> CHR ''-'' # s"
    by (auto simp: is_digit_def between_def dest: sym)
qed

lemma seconds_text_no_option [simp]: "CHR ''-'' # s \<noteq> seconds_text ms" "seconds_text ms \<noteq> CHR ''-'' # s"
proof -
  obtain d t where t: "nat_text (nat ms div 1000) = d # t" using nat_text_digits by (cases "nat_text (nat ms div 1000)") auto
  have "d \<noteq> CHR ''-''" using nat_text_no_option(2) [of "nat ms div 1000" t] t by auto
  then show "CHR ''-'' # s \<noteq> seconds_text ms" "seconds_text ms \<noteq> CHR ''-'' # s"
    by (auto simp: seconds_text_def Let_def t)
qed

lemma check_pinned_request_InrD:
  assumes "check_pinned_request e rt req = Inr (url, addresses)"
  shows "rt_url rt (pf_url req) = Some url" and "u_protocol url = ''https:''"
    and "addresses = map strip_brackets (pf_allowed_addresses req)" and "\<forall>a \<in> set addresses. rt_is_ip rt a \<noteq> 0"
    and "100 \<le> pf_timeout_ms req" and "pf_timeout_ms req \<le> 10000" and "addresses \<noteq> []"
  using assms
  by (auto simp: check_pinned_request_def Let_def list_ex_iff MIN_FETCH_TIMEOUT_MS_def MAX_FETCH_TIMEOUT_MS_def
      split: if_splits option.splits)

lemma path_segments_posix_normalize: "path_segments (posix_normalize path) = path_segments path"
proof -
  let ?ss = "path_segments path"
  have names: "list_all segment_name ?ss" by (rule path_segments_names)
  have keep: "resolve_segments ss acc = rev acc @ ss" if "list_all segment_name ss" for ss acc
    using that by (induction ss arbitrary: acc) (auto simp: segment_name_def)
  have keep': "resolve_segments (ss @ [[]]) acc = rev acc @ ss" if "list_all segment_name ss" for ss acc
    using that by (induction ss arbitrary: acc) (auto simp: segment_name_def)
  have split: "split_on (CHR ''/'') (join ''/'' ?ss) = ?ss" if "?ss \<noteq> []"
    using split_on_join [OF that, of "CHR ''/''"] names by (auto simp: list_all_iff segment_name_def)
  show ?thesis
  proof (cases "?ss = []")
    case True
    then show ?thesis by (simp add: posix_normalize_def path_segments_def [of "''/''"])
  next
    case False
    have "split_on (CHR ''/'') (posix_normalize path) = [] # ?ss @ (if ends_with path ''/'' then [[]] else [])"
      using split [OF False] False by (simp add: posix_normalize_def Let_def split_on_sep)
    then show ?thesis using keep [OF names] keep' [OF names] by (simp add: path_segments_def [of "posix_normalize path"])
  qed
qed

lemma validated_binary:
  assumes "validate_configured_cimd_curl_binary fs binary = Inr curl_bin"
  shows "path_segments curl_bin = path_segments binary"
    and "\<exists>f. fs curl_bin = Some f \<and> fi_is_file f \<and> fi_executable f \<and> posix_normalize (fi_realpath f) = curl_bin"
  using assms
  by (auto simp: validate_configured_cimd_curl_binary_def bounded_absolute_binary_def path_segments_posix_normalize
      split: if_splits option.splits sum.splits)

lemma portable_invocation_pinned:
  assumes "build_portable_cimd_curl_invocation rt fs curl_bin req address ms = Inr call"
    and "path_segments curl_bin = path_segments binary"
  shows "pinned_call rt fs binary req (strip_brackets address) call" and "cu_timeout_ms call = ms + 500"
proof -
  from assms(1) obtain url addresses bin where ok: "validated_request rt req = Inr (url, addresses)"
    and peer: "strip_brackets address \<in> set addresses" and ms: "ms \<le> pf_timeout_ms req"
    and bin: "validate_configured_cimd_curl_binary fs curl_bin = Inr bin"
    and built: "cu_binary call = bin" "cu_timeout_ms call = ms + 500" "cu_max_stdout call = pf_max_bytes req"
      "cu_args call = [''--disable'', ''--globoff'', ''--silent'', ''--show-error'', ''--noproxy'', ''*'',
                               ''--proto'', ''=https'', ''--connect-timeout'', seconds_text ms, ''--max-time'', seconds_text ms,
                               ''--max-filesize'', nat_text (pf_max_bytes req),
                               ''--header'', ''Accept: application/json, application/*+json'',
                               ''--header'', ''User-Agent: task-que-que-cimd/1'',
                               ''--resolve'', url_host url @ '':'' @ url_port url @ '':'' @ curl_resolve_address rt (strip_brackets address),
                               ''--write-out'', ''%{stderr}'' @ line_feed @ STATUS_MARKER @ ''%{http_code}'' @ line_feed
                                 @ TYPE_MARKER @ ''%{content_type}'' @ line_feed @ PEER_MARKER @ ''%{remote_ip}'' @ line_feed,
                               pf_url req]"
    by (auto simp: build_portable_cimd_curl_invocation_def Let_def split: if_splits sum.splits)
  note request = check_pinned_request_InrD [OF ok [unfolded validated_request_def]]
  show "cu_timeout_ms call = ms + 500" by (rule built(2))
  have target: "s \<noteq> url_host url @ CHR '':'' # t" "url_host url @ CHR '':'' # t \<noteq> s" if "CHR '':'' \<notin> set s" for s t
    using that by auto
  show "pinned_call rt fs binary req (strip_brackets address) call"
    unfolding pinned_call_def built(1,2,3)
    using validated_binary [OF bin] assms(2) peer request ms
    by (auto simp: built(4) target)
qed


lemma preferred_addresses_bounds:
  assumes "addresses \<noteq> []"
  shows "set (preferred_addresses rt addresses) \<subseteq> set addresses"
    and "1 \<le> length (preferred_addresses rt addresses)" and "length (preferred_addresses rt addresses) \<le> 2"
proof -
  have found: "find P addresses = Some a \<Longrightarrow> a \<in> set addresses" for P a
    by (auto simp: find_Some_iff)
  from assms show "set (preferred_addresses rt addresses) \<subseteq> set addresses"
    "1 \<le> length (preferred_addresses rt addresses)" "length (preferred_addresses rt addresses) \<le> 2"
    by (auto simp: preferred_addresses_def Let_def some_list_def MAX_CONNECT_ATTEMPTS_def Suc_le_eq
        dest: in_set_takeD found split: option.splits)
qed

lemma portable_attempts_calls:
  assumes "portable_attempts rt h run curl_bin req ms code addresses = (calls, answer)"
  shows "length calls \<le> length addresses"
    and "\<forall>call \<in> set calls. \<exists>a \<in> set addresses. build_portable_cimd_curl_invocation rt (uh_files h) curl_bin req a ms = Inr call"
    and "\<forall>call \<in> set (butlast calls). \<exists>e code. run call = Some (CurlFailed e code)"
    and "answer = Some (Inr response) \<Longrightarrow> calls \<noteq> [] \<and> (\<exists>a \<in> set addresses. \<exists>out errs.
           build_portable_cimd_curl_invocation rt (uh_files h) curl_bin req a ms = Inr (last calls)
           \<and> run (last calls) = Some (CurlOk out errs) \<and> portable_answer rt h a out errs = Inr response)"
proof -
  have "length calls \<le> length addresses
    \<and> (\<forall>call \<in> set calls. \<exists>a \<in> set addresses. build_portable_cimd_curl_invocation rt (uh_files h) curl_bin req a ms = Inr call)
    \<and> (\<forall>call \<in> set (butlast calls). \<exists>e code. run call = Some (CurlFailed e code))
    \<and> (answer = Some (Inr response) \<longrightarrow> calls \<noteq> [] \<and> (\<exists>a \<in> set addresses. \<exists>out errs.
           build_portable_cimd_curl_invocation rt (uh_files h) curl_bin req a ms = Inr (last calls)
           \<and> run (last calls) = Some (CurlOk out errs) \<and> portable_answer rt h a out errs = Inr response))"
    using assms
  proof (induction addresses arbitrary: code calls answer)
    case (Cons address rest)
    show ?case
    proof (cases "build_portable_cimd_curl_invocation rt (uh_files h) curl_bin req address ms")
      case (Inr call)
      show ?thesis
      proof (cases "\<exists>e code'. run call = Some (CurlFailed e code')")
        case True
        then obtain e code' where failed: "run call = Some (CurlFailed e code')" by blast
        obtain later where later: "portable_attempts rt h run curl_bin req ms code' rest = (later, answer)"
          and calls: "calls = call # later"
          using Cons.prems Inr failed by (auto split: prod.splits)
        note ih = Cons.IH [OF later]
        show ?thesis using ih Inr failed calls by auto
      next
        case False
        then show ?thesis using Cons.prems Inr by (auto split: option.splits curl_result.splits)
      qed
    qed (use Cons.prems in auto)
  qed auto
  then show "length calls \<le> length addresses"
    "\<forall>call \<in> set calls. \<exists>a \<in> set addresses. build_portable_cimd_curl_invocation rt (uh_files h) curl_bin req a ms = Inr call"
    "\<forall>call \<in> set (butlast calls). \<exists>e code. run call = Some (CurlFailed e code)"
    "answer = Some (Inr response) \<Longrightarrow> calls \<noteq> [] \<and> (\<exists>a \<in> set addresses. \<exists>out errs.
           build_portable_cimd_curl_invocation rt (uh_files h) curl_bin req a ms = Inr (last calls)
           \<and> run (last calls) = Some (CurlOk out errs) \<and> portable_answer rt h a out errs = Inr response)"
    by blast+
qed

lemma portable_attempts_agree:
  assumes "\<forall>a \<in> set addresses. \<forall>call. build_portable_cimd_curl_invocation rt (uh_files h) curl_bin req a ms = Inr call
      \<longrightarrow> run call = run' call"
  shows "portable_attempts rt h run curl_bin req ms code addresses = portable_attempts rt h run' curl_bin req ms code addresses"
  using assms
proof (induction addresses arbitrary: code)
  case (Cons address rest)
  show ?case
  proof (cases "build_portable_cimd_curl_invocation rt (uh_files h) curl_bin req address ms")
    case (Inr call)
    with Cons.prems have same: "run call = run' call" by simp
    have ih: "portable_attempts rt h run curl_bin req ms code' rest = portable_attempts rt h run' curl_bin req ms code' rest" for code'
      using Cons.prems by (intro Cons.IH) auto
    show ?thesis by (simp add: Inr same ih cong: option.case_cong curl_result.case_cong)
  qed simp
qed simp

lemma curl_outcome_bounded:
  assumes "curl_outcome rt call terminated out errs events = Some (CurlOk body text)"
    and "length out \<le> cu_max_stdout call"
  shows "length body \<le> cu_max_stdout call"
  using assms
  by (induction rt call terminated out errs events rule: curl_outcome.induct) (auto split: if_splits option.splits)

lemma curl_command_bounded: "run_cimd_curl_command rt h call = Some (CurlOk body text) \<Longrightarrow> length body \<le> cu_max_stdout call"
  by (auto simp: run_cimd_curl_command_def split: option.splits dest: curl_outcome_bounded)


section \<open>Properties\<close>

lemma portable_transport_fetch:
  assumes "create_portable_cimd_pinned_transport rt h run binary = Inr transport"
  obtains curl_bin where "path_segments curl_bin = path_segments binary" and "transport = portable_fetch rt h run curl_bin"
  using assms validated_binary(1)
  by (cases "validate_configured_cimd_curl_binary (uh_files h) binary") (auto simp: create_portable_cimd_pinned_transport_def)

lemma portable_fetch_cases:
  assumes "portable_fetch rt h run curl_bin req = (calls, answer)"
  obtains (refused) e where "validated_request rt req = Inl e" and "calls = []" and "answer = Some (Inl e)"
  | (attempts) attempts ms where "portable_attempts rt h run curl_bin req ms None attempts = (calls, answer)"
      and "1 \<le> length attempts" and "length attempts \<le> 2" and "ms = max 100 (pf_timeout_ms req div int (length attempts))"
proof (cases "validated_request rt req")
  case (Inl e)
  with assms show ?thesis using refused by (simp add: portable_fetch_def)
next
  case (Inr ok)
  obtain url addresses where ok: "ok = (url, addresses)" by (cases ok)
  have ne: "addresses \<noteq> []"
    using check_pinned_request_InrD(7) Inr unfolding ok validated_request_def by blast
  show ?thesis
    using assms Inr ok preferred_addresses_bounds(2,3) [OF ne, of rt]
    by (intro attempts [OF _ _ _ refl]) (auto simp: portable_fetch_def Let_def MIN_ATTEMPT_TIMEOUT_MS_def)
qed

text \<open>
  C36. The transport of the server connects only where it is told. For one fetch it calls curl at most
  twice, the second time only when the first call has failed. Every call runs the configured binary, a canonical
  executable file, with the URL of the request pinned to one address, which is an IP address and is among the
  allowed ones, over HTTPS, without a proxy and without following redirects, and with the limits of the
  request on size and time; the times of all the calls add up to no more than that of the request (or
  200 ms) and one second. When the fetch is answered, the body is the output of the last call and the peer
  that is reported is the address that this call was pinned to; with the default runner the output has at
  most the bytes that the request allows.
\<close>

theorem portable_transport_pinned:
  assumes "create_portable_cimd_pinned_transport rt h run binary = Inr transport" and "transport req = (calls, answer)"
  shows "length calls \<le> 2
    \<and> (\<forall>call \<in> set calls. \<exists>address. pinned_call rt (uh_files h) binary req address call)
    \<and> sum_list (map cu_timeout_ms calls) \<le> max (pf_timeout_ms req) 200 + 1000
    \<and> (\<forall>call \<in> set (butlast calls). \<exists>e code. run call = Some (CurlFailed e code))
    \<and> (\<forall>response. answer = Some (Inr response) \<longrightarrow> calls \<noteq> []
         \<and> pinned_call rt (uh_files h) binary req (strip_brackets (pf_peer_address response)) (last calls)
         \<and> (\<exists>out errs. run (last calls) = Some (CurlOk out errs) \<and> uh_decode h out = Some (pf_body response)
              \<and> (run = run_cimd_curl_command rt h \<longrightarrow> length out \<le> pf_max_bytes req)))"
proof -
  from assms(1) obtain curl_bin where bin: "path_segments curl_bin = path_segments binary"
    and fetch: "portable_fetch rt h run curl_bin req = (calls, answer)"
    using assms(2) by (auto elim!: portable_transport_fetch)
  from fetch show ?thesis
  proof (cases rule: portable_fetch_cases)
    case refused
    then show ?thesis by simp
  next
    case (attempts attempts ms)
    note run_calls = portable_attempts_calls [OF attempts(1)]
    note pinned = portable_invocation_pinned [OF _ bin]
    have each: "\<exists>address. pinned_call rt (uh_files h) binary req address call" "cu_timeout_ms call = ms + 500"
      if "call \<in> set calls" for call
      using run_calls(2) pinned that by blast+
    have "sum_list (map cu_timeout_ms calls) = int (length calls) * (ms + 500)"
      using each(2) by (induction calls) (auto simp: algebra_simps)
    also have "\<dots> \<le> int (length attempts) * (ms + 500)"
      using run_calls(1) attempts(4) by (intro mult_right_mono) auto
    also have "\<dots> \<le> max (pf_timeout_ms req) 200 + 1000"
    proof -
      consider "length attempts = 1" | "length attempts = 2" using attempts(2,3) by linarith
      then show ?thesis unfolding attempts(4) by cases auto
    qed
    finally have time: "sum_list (map cu_timeout_ms calls) \<le> max (pf_timeout_ms req) 200 + 1000" .
    have answered: "calls \<noteq> []
         \<and> pinned_call rt (uh_files h) binary req (strip_brackets (pf_peer_address response)) (last calls)
         \<and> (\<exists>out errs. run (last calls) = Some (CurlOk out errs) \<and> uh_decode h out = Some (pf_body response)
              \<and> (run = run_cimd_curl_command rt h \<longrightarrow> length out \<le> pf_max_bytes req))"
      if r: "answer = Some (Inr response)" for response
    proof -
      from run_calls(4) [OF r] obtain a out errs where ne: "calls \<noteq> []"
        and built: "build_portable_cimd_curl_invocation rt (uh_files h) curl_bin req a ms = Inr (last calls)"
        and ran: "run (last calls) = Some (CurlOk out errs)" and ok: "portable_answer rt h a out errs = Inr response" by blast
      from ok have peer: "pf_peer_address response = a" and body: "uh_decode h out = Some (pf_body response)"
        by (auto simp: portable_answer_def pinned_response_of_def split: sum.splits if_splits option.splits)
      have call: "pinned_call rt (uh_files h) binary req (strip_brackets a) (last calls)" by (rule pinned(1) [OF built])
      then have "cu_max_stdout (last calls) = pf_max_bytes req" by (simp add: pinned_call_def)
      with ne call ran body peer curl_command_bounded [of rt h "last calls" out errs] show ?thesis by auto
    qed
    show ?thesis using run_calls(1,3) attempts(3) each(1) time answered by auto
  qed
qed


text \<open>The calls that a discovery of a client may make: pinned to a public address, for at most 5 KiB in 10 s.\<close>

definition public_call :: "runtime \<Rightarrow> file_system \<Rightarrow> string \<Rightarrow> string \<Rightarrow> curl_invocation \<Rightarrow> bool" where
  "public_call rt fs binary client_url call \<longleftrightarrow>
     (\<exists>req address. pinned_call rt fs binary req address call \<and> \<not> is_special_use_ip_address rt address
        \<and> pf_url req = client_url \<and> pf_max_bytes req = 5120 \<and> pf_timeout_ms req \<le> 10000)"

lemma create_portable_discovery_Inr:
  assumes "create_portable_discovery rt h run binary = Inr deps"
  obtains curl_bin where "path_segments curl_bin = path_segments binary"
    and "deps = discovery_over h (\<lambda>req. snd (portable_fetch rt h run curl_bin req))"
    and "\<And>run'. create_portable_discovery rt h run' binary
           = Inr (discovery_over h (\<lambda>req. snd (portable_fetch rt h run' curl_bin req)))"
  using assms validated_binary(1)
  by (cases "validate_configured_cimd_curl_binary (uh_files h) binary")
    (auto simp: create_portable_discovery_def create_portable_cimd_pinned_transport_def map_sum_def
      split: sum.splits, metis)

text \<open>
  C16. A discovery connects only to public addresses. With the dependencies that the server makes, the outcome of
  the discovery of a client depends on nothing that curl does beyond the calls that run the configured
  binary for the client's own URL, pinned to one IP address outside the special-use ranges, with at most 5 KiB and
  10 s: two worlds in which curl does the same on these calls give the same outcome, whatever else differs.
  Of the platform it uses that \<open>isIP\<close> accepts no address in brackets.
\<close>

theorem cimd_discovery_connects_public:
  assumes "\<And>s. rt_is_ip rt s \<noteq> 0 \<Longrightarrow> strip_brackets s = s"
    and "create_portable_discovery rt h run binary = Inr deps"
    and "create_portable_discovery rt h run' binary = Inr deps'"
    and "\<And>call. public_call rt (uh_files h) binary client_url call \<Longrightarrow> run call = run' call"
  shows "discover_cimd_client rt client_url deps = discover_cimd_client rt client_url deps'"
proof -
  from assms(2) obtain curl_bin where bin: "path_segments curl_bin = path_segments binary"
    and deps: "deps = discovery_over h (\<lambda>req. snd (portable_fetch rt h run curl_bin req))"
    and other: "\<And>run'. create_portable_discovery rt h run' binary
           = Inr (discovery_over h (\<lambda>req. snd (portable_fetch rt h run' curl_bin req)))"
    by (rule create_portable_discovery_Inr) blast
  have deps': "deps' = discovery_over h (\<lambda>req. snd (portable_fetch rt h run' curl_bin req))"
    using other [of run'] assms(3) by simp
  have same: "portable_fetch rt h run curl_bin req = portable_fetch rt h run' curl_bin req"
    if url: "pf_url req = client_url" and bytes: "pf_max_bytes req = 5120"
      and public: "\<forall>a \<in> set (pf_allowed_addresses req). \<not> is_special_use_ip_address rt a"
      and bare: "\<forall>a \<in> set (pf_allowed_addresses req). strip_brackets a = a" for req
  proof (cases "validated_request rt req")
    case (Inr ok)
    obtain u addresses where ok: "ok = (u, addresses)" by (cases ok)
    note request = check_pinned_request_InrD [OF Inr [unfolded ok validated_request_def]]
    have "run call = run' call"
      if built: "build_portable_cimd_curl_invocation rt (uh_files h) curl_bin req a ms = Inr call" for a ms call
    proof (rule assms(4))
      have call: "pinned_call rt (uh_files h) binary req (strip_brackets a) call"
        by (rule portable_invocation_pinned(1) [OF built bin])
      then obtain b where "b \<in> set (pf_allowed_addresses req)" "strip_brackets a = strip_brackets b"
        by (auto simp: pinned_call_def)
      with public bare have "\<not> is_special_use_ip_address rt (strip_brackets a)" by simp
      with call url bytes request(6) show "public_call rt (uh_files h) binary client_url call"
        unfolding public_call_def by blast
    qed
    then show ?thesis
      by (auto simp: portable_fetch_def Inr ok Let_def intro: portable_attempts_agree)
  qed (simp add: portable_fetch_def)
  have fetched: "dd_fetch_pinned deps \<lparr>pf_url = ci_value i, pf_allowed_addresses = safe,
        pf_max_bytes = MAX_CIMD_DOCUMENT_BYTES, pf_timeout_ms = t\<rparr>
      = dd_fetch_pinned deps' \<lparr>pf_url = ci_value i, pf_allowed_addresses = safe,
        pf_max_bytes = MAX_CIMD_DOCUMENT_BYTES, pf_timeout_ms = t\<rparr>"
    if "validate_cimd_client_id rt client_url = Inr i" "validate_cimd_resolved_addresses rt addresses = Inr safe"
    for i addresses safe t
  proof -
    have "\<forall>a \<in> set safe. rt_is_ip rt a \<noteq> 0 \<and> \<not> is_special_use_ip_address rt a"
      using resolved_addresses_all_public [OF that(2)] by blast
    then show ?thesis
      using validate_cimd_client_id_InrD(1) [OF that(1)] assms(1)
      by (simp add: deps deps' discovery_over_def same MAX_CIMD_DOCUMENT_BYTES_def)
  qed
  have world: "dd_resolve deps' = dd_resolve deps" "dd_timeout_ms deps' = dd_timeout_ms deps"
    by (simp_all add: deps deps' discovery_over_def)
  show ?thesis
    unfolding discover_cimd_client_def world
    by (auto simp: fetched Let_def split: sum.splits option.splits)
qed


text \<open>A discovery over a curl that answers for its one public address, next to one that does more elsewhere.\<close>

definition curl_file :: file_info where
  "curl_file = \<lparr>fi_is_file = True, fi_is_directory = False, fi_executable = True, fi_realpath = ''/usr/bin/curl'', fi_bytes = []\<rparr>"

definition example_curl_host :: curl_host where
  "example_curl_host =
     \<lparr>uh_files = (\<lambda>path. if path = ''/usr/bin/curl'' then Some curl_file else None), uh_env = [],
      uh_spawn = (\<lambda>call. Some [CurlStdout (utf8 ''{}''), CurlClose (Some 0)]), uh_decode = (\<lambda>bytes. Some ''{}''),
      uh_lookup = (\<lambda>h. Some [(''8.8.8.8'', 4)])\<rparr>"

definition curl_report :: string where
  "curl_report = STATUS_MARKER @ ''200'' @ line_feed @ TYPE_MARKER @ ''application/json'' @ line_feed
     @ PEER_MARKER @ ''8.8.8.8'' @ line_feed"

definition public_curl :: "curl_result option \<Rightarrow> curl_runner" where
  "public_curl elsewhere call =
     (if option_values ''--resolve'' (cu_args call) = [''gateway.example:443:8.8.8.8'']
        then Some (CurlOk (utf8 ''{}'') curl_report) else elsewhere)"

definition curl_runtime :: runtime where
  "curl_runtime = cimd_runtime\<lparr>rt_number := (\<lambda>s. if s = ''200'' then Some 200 else None)\<rparr>"

lemma curl_runtime_ip: "rt_is_ip curl_runtime s \<noteq> 0 \<Longrightarrow> s = ''8.8.8.8''"
  by (simp add: curl_runtime_def cimd_runtime_def split: if_splits)

lemma example_binary:
  "validate_configured_cimd_curl_binary (uh_files example_curl_host) ''/usr//bin/curl'' = Inr ''/usr/bin/curl''"
  "validate_configured_cimd_curl_binary (uh_files example_curl_host) ''/usr/bin/curl'' = Inr ''/usr/bin/curl''"
  by code_simp+

lemma example_portable_discovery:
  "create_portable_discovery curl_runtime example_curl_host run ''/usr//bin/curl''
     = Inr (discovery_over example_curl_host (\<lambda>req. snd (portable_fetch curl_runtime example_curl_host run ''/usr/bin/curl'' req)))"
  by (simp add: create_portable_discovery_def create_portable_cimd_pinned_transport_def example_binary)

theorem cimd_discovery_connects_public_witness:
  "discover_cimd_client curl_runtime example_client_url
       (discovery_over example_curl_host (\<lambda>req. snd (portable_fetch curl_runtime example_curl_host (public_curl None) ''/usr/bin/curl'' req)))
     = discover_cimd_client curl_runtime example_client_url
       (discovery_over example_curl_host (\<lambda>req. snd (portable_fetch curl_runtime example_curl_host
          (public_curl (Some (CurlOk (utf8 ''{}'') curl_report))) ''/usr/bin/curl'' req)))"
proof (rule cimd_discovery_connects_public [OF _ example_portable_discovery example_portable_discovery])
  show "strip_brackets s = s" if "rt_is_ip curl_runtime s \<noteq> 0" for s
    using curl_runtime_ip [OF that] by (simp add: strip_brackets_def starts_with_def)
  fix call
  assume "public_call curl_runtime (uh_files example_curl_host) ''/usr//bin/curl'' example_client_url call"
  then obtain req address where call: "pinned_call curl_runtime (uh_files example_curl_host) ''/usr//bin/curl'' req address call"
    by (auto simp: public_call_def)
  then have "address = ''8.8.8.8''" using curl_runtime_ip by (auto simp: pinned_call_def)
  with call have "option_values ''--resolve'' (cu_args call) = [''gateway.example:443:8.8.8.8'']"
    by (auto simp: pinned_call_def curl_runtime_def cimd_runtime_def url_host_def url_port_def example_url_def
        curl_resolve_address_def strip_brackets_def starts_with_def ends_with_def Let_def)
  then show "public_curl None call = public_curl (Some (CurlOk (utf8 ''{}'') curl_report)) call"
    by (simp add: public_curl_def)
qed

definition example_fetch :: pinned_request where
  "example_fetch = \<lparr>pf_url = example_client_url, pf_allowed_addresses = [''8.8.8.8''], pf_max_bytes = 5120, pf_timeout_ms = 3000\<rparr>"

lemma example_portable_fetch:
  "\<exists>call response. portable_fetch curl_runtime example_curl_host (public_curl None) ''/usr/bin/curl'' example_fetch
       = ([call], Some (Inr response)) \<and> pf_peer_address response = ''8.8.8.8''"
proof -
  let ?url = "example_url example_client_url"
  have timeout: "pf_timeout_ms example_fetch = 3000" by (simp add: example_fetch_def)
  have request: "validated_request curl_runtime example_fetch = Inr (?url, [''8.8.8.8''])"
    "preferred_addresses curl_runtime [''8.8.8.8''] = [''8.8.8.8'']" by code_simp+
  then obtain call where built:
      "build_portable_cimd_curl_invocation curl_runtime (uh_files example_curl_host) ''/usr/bin/curl'' example_fetch ''8.8.8.8'' 3000
        = Inr call"
    by (simp add: build_portable_cimd_curl_invocation_def example_binary Let_def strip_brackets_def starts_with_def
        MIN_ATTEMPT_TIMEOUT_MS_def timeout)
  have "pinned_call curl_runtime (uh_files example_curl_host) ''/usr//bin/curl'' example_fetch ''8.8.8.8'' call"
    using portable_invocation_pinned(1) [OF built validated_binary(1) [OF example_binary(1)]]
    by (simp add: strip_brackets_def starts_with_def)
  then have "option_values ''--resolve'' (cu_args call) = [''gateway.example:443:8.8.8.8'']"
    by (auto simp: pinned_call_def curl_runtime_def cimd_runtime_def url_host_def url_port_def example_url_def
        curl_resolve_address_def strip_brackets_def starts_with_def ends_with_def Let_def)
  then have ran: "public_curl None call = Some (CurlOk (utf8 ''{}'') curl_report)" by (simp add: public_curl_def)
  obtain response where "portable_answer curl_runtime example_curl_host ''8.8.8.8'' (utf8 ''{}'') curl_report = Inr response"
    "pf_peer_address response = ''8.8.8.8''"
  proof -
    have "case portable_answer curl_runtime example_curl_host ''8.8.8.8'' (utf8 ''{}'') curl_report of
        Inr response \<Rightarrow> pf_peer_address response = ''8.8.8.8'' | Inl e \<Rightarrow> False" by code_simp
    then show thesis using that by (auto split: sum.splits)
  qed
  then show ?thesis
    using built ran request by (simp add: portable_fetch_def Let_def MIN_ATTEMPT_TIMEOUT_MS_def timeout)
qed

theorem portable_transport_pinned_witness:
  "\<exists>call. fst (portable_fetch curl_runtime example_curl_host (public_curl None) ''/usr/bin/curl'' example_fetch) = [call]
     \<and> pinned_call curl_runtime (uh_files example_curl_host) ''/usr//bin/curl'' example_fetch ''8.8.8.8'' call"
proof -
  let ?transport = "portable_fetch curl_runtime example_curl_host (public_curl None) ''/usr/bin/curl''"
  have made: "create_portable_cimd_pinned_transport curl_runtime example_curl_host (public_curl None) ''/usr//bin/curl'' = Inr ?transport"
    by (simp add: create_portable_cimd_pinned_transport_def example_binary)
  obtain call response where fetched: "?transport example_fetch = ([call], Some (Inr response))"
      and peer: "pf_peer_address response = ''8.8.8.8''"
    using example_portable_fetch by blast
  from portable_transport_pinned [OF made fetched] peer
  have "pinned_call curl_runtime (uh_files example_curl_host) ''/usr//bin/curl'' example_fetch ''8.8.8.8'' call"
    by (simp add: strip_brackets_def starts_with_def)
  with fetched show ?thesis by simp
qed

end
