(* ===== verification/McpServer.thy ===== *)
theory McpServer
  imports Mcp Router CimdCurl
begin

text \<open>
  The layers around the MCP endpoint and the server's entry: registered processes as tools
  (\<open>gateway/src/mcp-process.ts\<close>), the bearer challenge (\<open>gateway/src/mcp-oauth.ts\<close>), and what \<open>gateway/src/server.ts\<close>
  checks when it starts and does with a request: MCP first, then the router, which MCP also calls.
\<close>

section \<open>Registered processes as tools\<close>

definition process_tool :: "capability_descriptor \<Rightarrow> json" where
  "process_tool d = tool_entry d empty_schema"

definition rebuild :: "response \<Rightarrow> json \<Rightarrow> response" where
  "rebuild base payload = base\<lparr>rs_body := JsonBody payload\<rparr>"

definition granted_processes ::
  "runtime \<Rightarrow> gateway_host \<Rightarrow> gateway_config \<Rightarrow> int \<Rightarrow> request \<Rightarrow> string + capability_descriptor list" where
  "granted_processes rt h config now_ms r =
     (case resolve_authorization_context rt r config now_ms of
        Inl e \<Rightarrow> Inl e
      | Inr None \<Rightarrow> Inr []
      | Inr (Some auth) \<Rightarrow>
          (case load_registered_process_provider rt (ho_files h) config of
             None \<Rightarrow> Inr []
           | Some provider \<Rightarrow>
               Inr (filter (\<lambda>d. dc_allowed (evaluate_capability_grant (ac_grant auth) d))
                      (registered_process_capabilities rt provider))))"

definition process_tools_for_request ::
  "runtime \<Rightarrow> gateway_host \<Rightarrow> gateway_config \<Rightarrow> int \<Rightarrow> request \<Rightarrow> string + json list" where
  "process_tools_for_request rt h config now_ms r = map_sum id (map process_tool) (granted_processes rt h config now_ms r)"

text \<open>The first registered process of the name, if the caller may run it.\<close>

definition process_descriptor_for_call ::
  "runtime \<Rightarrow> gateway_host \<Rightarrow> gateway_config \<Rightarrow> int \<Rightarrow> request \<Rightarrow> string \<Rightarrow> string + capability_descriptor option" where
  "process_descriptor_for_call rt h config now_ms r name =
     (case resolve_authorization_context rt r config now_ms of
        Inl e \<Rightarrow> Inl e
      | Inr None \<Rightarrow> Inr None
      | Inr (Some auth) \<Rightarrow>
          (case load_registered_process_provider rt (ho_files h) config of
             None \<Rightarrow> Inr None
           | Some provider \<Rightarrow>
               (case find (\<lambda>d. cd_name d = name) (registered_process_capabilities rt provider) of
                  None \<Rightarrow> Inr None
                | Some d \<Rightarrow> if dc_allowed (evaluate_capability_grant (ac_grant auth) d) then Inr (Some d) else Inr None)))"

definition process_call_result :: "runtime \<Rightarrow> json \<Rightarrow> response \<Rightarrow> response" where
  "process_call_result rt i res =
     (let raw = response_text rt res;
          parsed = (if length raw > 0 then rt_json_parse rt raw else Some JNull);
          structured = (case parsed of
              None \<Rightarrow> error_body ''invalid_gateway_json'' (
                ''Gateway returned HTTP '' @ nat_text (rs_status res) @ '' with invalid JSON.'')
            | Some v \<Rightarrow> v)
      in rpc_result i [(''resultType'', JStr ''complete''), text_content (rt_json_text rt structured),
           (''structuredContent'', structured), (''isError'', JBool (parsed = None \<or> \<not> ok_status (rs_status res))),
           (''_meta'', JObj (gateway_meta res))] ''no-store'')"

definition process_tool_result ::
  "runtime \<Rightarrow> 's gateway_invoker \<Rightarrow> json \<Rightarrow> request \<Rightarrow> capability_descriptor \<Rightarrow> 's \<Rightarrow> 's \<times> (string + response option) option" where
  "process_tool_result rt invoke i r d st =
     (let failed = failed_result i ''Task-que-que gateway invocation failed.'';
          route = (case cd_route d of None \<Rightarrow> ''null'' | Some route \<Rightarrow> route)
      in case gateway_request rt r route ''POST'' None None of
           Inl e \<Rightarrow> (st, Some (Inr (Some failed)))
         | Inr r' \<Rightarrow>
             (case invoke r' st of
                (st', None) \<Rightarrow> (st', None)
              | (st', Some (Inl e)) \<Rightarrow> (st', Some (Inr (Some failed)))
              | (st', Some (Inr res)) \<Rightarrow> (st', Some (Inr (Some (process_call_result rt i res))))))"


definition UNKNOWN_TOOL :: string where "UNKNOWN_TOOL = ''unknown or unavailable tool''"

definition is_unknown_tool :: "json \<Rightarrow> bool" where
  "is_unknown_tool payload \<longleftrightarrow>
     (case field payload ''error'' of
        Some e \<Rightarrow> is_record e \<and> field e ''code'' = Some (JInt (- 32602)) \<and> field e ''message'' = Some (JStr UNKNOWN_TOOL)
      | None \<Rightarrow> False)"

definition tool_name :: "json \<Rightarrow> string" where
  "tool_name v = str_of (field v ''name'')"

text \<open>The tool list with the caller's processes in it; the tools of the list are objects with a name.\<close>

definition add_process_tools ::
  "runtime \<Rightarrow> gateway_host \<Rightarrow> gateway_config \<Rightarrow> int \<Rightarrow> request \<Rightarrow> response \<Rightarrow> string + response" where
  "add_process_tools rt h config now_ms r base =
     (case rt_json_parse rt (response_text rt base) of
        None \<Rightarrow> Inr base
      | Some payload \<Rightarrow>
          (case field payload ''result'' of
             None \<Rightarrow> Inr base
           | Some result \<Rightarrow>
               if \<not> is_record result \<or> \<not> is_array (field result ''tools'') then Inr base
               else
                 (case process_tools_for_request rt h config now_ms r of
                    Inl e \<Rightarrow> Inl e
                  | Inr extra \<Rightarrow>
                      if extra = [] then Inr base
                      else
                        (let tools = sort_by (\<lambda>a b. rt_locale_le rt (tool_name a) (tool_name b))
                               (arr_of (field result ''tools'') @ extra)
                         in Inr (rebuild base (JObj (map_set ''result''
                              (JObj (map_set ''tools'' (JArr tools) (fields_of result))) (fields_of payload))))))))"

text \<open>The call of a process, when the answer was that the tool is unknown.\<close>

definition call_process ::
  "runtime \<Rightarrow> gateway_host \<Rightarrow> gateway_config \<Rightarrow> int \<Rightarrow> 's gateway_invoker \<Rightarrow> request \<Rightarrow> response
   \<Rightarrow> 's \<Rightarrow> 's \<times> (string + response option) option" where
  "call_process rt h config now_ms invoke r base st =
     (let unchanged = (st, Some (Inr (Some base)))
      in case rt_json_parse rt (rq_body r) of
           None \<Rightarrow> unchanged
         | Some rpc \<Rightarrow>
             (case field rpc ''params'' of
                None \<Rightarrow> unchanged
              | Some params \<Rightarrow>
                  let i = (case field rpc ''id'' of None \<Rightarrow> JNull | Some v \<Rightarrow> v);
                      args = (case field params ''arguments'' of None \<Rightarrow> JObj [] | Some JNull \<Rightarrow> JObj [] | Some v \<Rightarrow> v)
                  in if \<not> is_record params \<or> \<not> is_string (field params ''name'') then unchanged
                     else
                       (case process_descriptor_for_call rt h config now_ms r (str_of (field params ''name'')) of
                          Inl e \<Rightarrow> (st, Some (Inl e))
                        | Inr None \<Rightarrow> unchanged
                        | Inr (Some d) \<Rightarrow>
                            if args \<noteq> JObj []
                              then (st, Some (Inr (Some (rebuild base (JObj
                                [(''jsonrpc'', JStr ''2.0''), (''id'', i),
                                 (''error'', JObj [(''code'', JInt (- 32602)),
                                    (''message'', JStr ''tool arguments do not satisfy the advertised input schema'')])])))))
                            else process_tool_result rt invoke i r d st)))"

text \<open>The caller's authority is looked up twice: \<open>now_ms\<close> is the first reading of the clock, \<open>later_ms\<close> the second.\<close>

definition handle_mcp_request_with_registered_processes ::
  "runtime \<Rightarrow> gateway_host \<Rightarrow> provider_fetch option \<Rightarrow> gateway_config \<Rightarrow> int \<Rightarrow> int \<Rightarrow> 's gateway_invoker \<Rightarrow> request
   \<Rightarrow> 's \<Rightarrow> 's \<times> (string + response option) option" where
  "handle_mcp_request_with_registered_processes rt h provider_fetch config now_ms later_ms invoke r st =
     (if u_pathname (rq_url r) \<noteq> MCP_ENDPOINT then (st, Some (Inr None))
      else
        (case handle_mcp_request rt h provider_fetch config now_ms invoke r st of
           (st', Some (Inr (Some base))) \<Rightarrow>
             if header r ''mcp-method'' = Some ''tools/list'' \<and> ok_status (rs_status base)
               then (st', Some (map_sum id Some (add_process_tools rt h config later_ms r base)))
             else if header r ''mcp-method'' \<noteq> Some ''tools/call'' then (st', Some (Inr (Some base)))
             else
               (case rt_json_parse rt (response_text rt base) of
                  None \<Rightarrow> (st', Some (Inr (Some base)))
                | Some payload \<Rightarrow>
                    if \<not> is_unknown_tool payload then (st', Some (Inr (Some base)))
                    else call_process rt h config later_ms invoke r base st')
         | other \<Rightarrow> other))"

section \<open>The bearer challenge\<close>

definition mcp_challenge_scopes :: "gateway_config \<Rightarrow> oauth_client_policy option \<Rightarrow> bool \<Rightarrow> string list" where
  "mcp_challenge_scopes config policy cimd_supported =
     (if cfg_oauth_authorization_server config = cfg_public_origin config
         \<and> ((case policy of None \<Rightarrow> False | Some p \<Rightarrow> ''capability.read'' \<in> set (pc_scopes p)) \<or> cimd_supported)
      then [''capability.read''] else [])"

definition with_challenge :: "gateway_config \<Rightarrow> oauth_client_policy option \<Rightarrow> bool \<Rightarrow> response \<Rightarrow> response" where
  "with_challenge config policy cimd_supported response =
     (let challenge = oauth_bearer_challenge config (mcp_challenge_scopes config policy cimd_supported)
      in if rs_status response \<noteq> 401 \<or> challenge = ''Bearer'' then response
         else response\<lparr>rs_headers := map_set ''www-authenticate'' challenge (rs_headers response)\<rparr>)"

definition handle_mcp_request_with_oauth_discovery ::
  "runtime \<Rightarrow> gateway_host \<Rightarrow> provider_fetch option \<Rightarrow> gateway_config \<Rightarrow> oauth_client_policy option \<Rightarrow> bool
   \<Rightarrow> int \<Rightarrow> int \<Rightarrow> 's gateway_invoker \<Rightarrow> request \<Rightarrow> 's \<Rightarrow> 's \<times> (string + response option) option" where
  "handle_mcp_request_with_oauth_discovery rt h provider_fetch config policy cimd_supported now_ms later_ms invoke r st =
     map_prod id (map_option (map_sum id (map_option (with_challenge config policy cimd_supported))))
       (handle_mcp_request_with_registered_processes rt h provider_fetch config now_ms later_ms invoke r st)"

section \<open>The server\<close>

text \<open>What stops the server from starting, once its configuration has loaded.\<close>

definition scope_error_text :: "scope_grant_error \<Rightarrow> string" where
  "scope_error_text e =
     (case e of EmptyScope \<Rightarrow> ''empty_scope'' | WildcardScope scope \<Rightarrow> scope | UnmappedScope scope \<Rightarrow> scope)"

definition check_startup ::
  "runtime \<Rightarrow> curl_host \<Rightarrow> gateway_config \<Rightarrow> oauth_client_policy option \<Rightarrow> string option \<Rightarrow> string + cimd_discovery option" where
  "check_startup rt h config policy cimd_curl_bin =
     (let configured = truthy (map_option trim cimd_curl_bin)
      in if configured \<noteq> None
            \<and> (truthy (cfg_public_origin config) = None
               \<or> cfg_oauth_authorization_server config \<noteq> cfg_public_origin config)
           then Inl ''GATEWAY_CIMD_CURL_BIN requires a self-hosted OAuth authorization server''
         else
           (case (case configured of
                    None \<Rightarrow> Inr None
                  | Some binary \<Rightarrow> map_sum id Some (create_portable_curl_backed_cimd_discovery_dependencies rt h binary)) of
              Inl e \<Rightarrow> Inl e
            | Inr discovery \<Rightarrow>
                (case policy of
                   None \<Rightarrow> Inr discovery
                 | Some p \<Rightarrow>
                     (case derive_oauth_capability_grant (pc_scopes p) CAPABILITY_REGISTRY of
                        Inl e \<Rightarrow> Inl (''configured OAuth scope cannot map to capability authority: '' @ scope_error_text e)
                      | Inr grant \<Rightarrow> Inr discovery))))"

text \<open>The router as MCP calls it: it always answers, unless a helper program never ends.\<close>

definition route_invoker :: "gateway \<Rightarrow> gateway_env \<Rightarrow> gateway_state gateway_invoker" where
  "route_invoker gw env r st =
     (case route_gateway_request gw env r st of
        (st', Some (Inl e)) \<Rightarrow> (st', Some (Inl e))
      | (st', Some (Inr (Some res))) \<Rightarrow> (st', Some (Inr res))
      | (st', _) \<Rightarrow> (st', None))"

definition internal_error_response :: response where
  "internal_error_response =
     \<lparr>rs_status = 500, rs_headers = [(''content-type'', ''application/json; charset=utf-8''), (''cache-control'', ''no-store'')],
      rs_body = JsonBody (error_body ''internal_error'' ''internal gateway error'')\<rparr>"

text \<open>The \<open>fetch\<close> and \<open>error\<close> handlers of the server; \<open>None\<close> is a request that never ends.\<close>

definition serve_request ::
  "gateway \<Rightarrow> gateway_env \<Rightarrow> int \<Rightarrow> int \<Rightarrow> request \<Rightarrow> gateway_state \<Rightarrow> gateway_state \<times> response option" where
  "serve_request gw env now_ms later_ms r st =
     (let answered = (\<lambda>(st', res). (st', map_option (\<lambda>x. case x of Inl e \<Rightarrow> internal_error_response | Inr response \<Rightarrow> response) res))
      in case handle_mcp_request_with_oauth_discovery (gw_runtime gw) (gw_host gw) (gw_provider_fetch gw) (gw_config gw)
                (gw_policy gw) (gw_cimd gw) now_ms later_ms (route_invoker gw env) r st of
           (st', None) \<Rightarrow> (st', None)
         | (st', Some (Inl e)) \<Rightarrow> (st', Some internal_error_response)
         | (st', Some (Inr (Some response))) \<Rightarrow> (st', Some response)
         | (st', Some (Inr None)) \<Rightarrow> answered (route_invoker gw env r st'))"


section \<open>One request to the gateway\<close>

text \<open>The router always answers.\<close>

lemma first_answer_last: "answers h \<Longrightarrow> answers (first_answer (hs @ [h]))"
proof (induction hs)
  case (Cons g hs)
  then show ?case by (auto simp: answers_def split: prod.split option.split sum.split)
qed simp

lemma route_answers: "snd (route_gateway_request gw env r st) \<noteq> Some (Inr None)"
proof -
  have "answers (first_answer (after_gate gw env r r'))" for r'
  proof -
    have "answers (first_answer (butlast (after_gate gw env r r') @ [last (after_gate gw env r r')]))"
      by (rule first_answer_last) (simp add: after_gate_def queue_handler_answers)
    then show ?thesis by (simp add: after_gate_def)
  qed
  then have "answers (through_gate gw env r)"
    by (auto simp: answers_def through_gate_def split: sum.split enforced.split)
  then have "answers (route_gateway_request gw env r)"
    unfolding route_gateway_request_def by (rule first_answer_last)
  then show ?thesis by (simp add: answers_def)
qed

lemma route_invoker_state [simp]: "fst (route_invoker gw env r st) = fst (route_gateway_request gw env r st)"
  by (auto simp: route_invoker_def split: prod.split option.split sum.split)

text \<open>A tool result is never the answer that a tool is unknown, so that no second call follows.\<close>

lemma tool_result_known:
  assumes "internal_platform rt" and "rt_json_parse rt (response_text rt (rpc_result i result cache)) = Some payload"
  shows "\<not> is_unknown_tool payload"
proof -
  let ?ps = "[(''jsonrpc'', JStr ''2.0''), (''id'', i), (''result'', with_server_meta result)]"
  from platform_reads [OF assms(1), of ?ps] obtain w where
    w: "rt_json_parse rt (rt_json_text rt (JObj ?ps) @ [char_of (10::nat)]) = Some w" "reads_back (JObj ?ps) w" by auto
  have "payload = w"
    using assms(2) w(1) by (simp add: rpc_result_def document_response_def response_text_def)
  moreover have "field w ''error'' = None" using w(2) by (simp add: reads_back_def field_def)
  ultimately show ?thesis by (simp add: is_unknown_tool_def)
qed

lemma gateway_tool_answer:
  "gateway_tool_result rt invoke i r' st =
     (case invoke r' st of (st', a) \<Rightarrow>
       (st', map_option (\<lambda>x. Inr (Some (case x of Inl e \<Rightarrow> failed_result i ''Task-que-que gateway invocation failed.''
          | Inr res \<Rightarrow> tool_result rt i res))) a))"
  by (auto simp: gateway_tool_result_def split: prod.split option.split sum.split)

text \<open>
  The whole MCP layer: its answer does not depend on the gateway, or it is a function of what the gateway
  answers to one request with the caller's credential.
\<close>

definition one_call :: "('s gateway_invoker \<Rightarrow> 's \<Rightarrow> 's \<times> 'a option) \<Rightarrow> request \<Rightarrow> bool" where
  "one_call f r \<longleftrightarrow>
     (\<exists>answer. \<forall>invoke st. f invoke st = (st, answer))
     \<or> (\<exists>r' g. header r' ''authorization'' = header r ''authorization''
          \<and> (\<forall>invoke st. f invoke st = (case invoke r' st of (st', a) \<Rightarrow> (st', g a))))"

lemma one_call_answer: "(\<And>invoke st. f invoke st = (st, answer)) \<Longrightarrow> one_call f r"
  unfolding one_call_def by blast

lemma one_call_through:
  "header r' ''authorization'' = header r ''authorization'' \<Longrightarrow>
   (\<And>invoke st. f invoke st = (case invoke r' st of (st', a) \<Rightarrow> (st', g a))) \<Longrightarrow> one_call f r"
  unfolding one_call_def by blast

lemma one_callE:
  assumes "one_call f r"
  obtains (answered) answer where "\<And>invoke st. f invoke st = (st, answer)"
    | (through) r' g where "header r' ''authorization'' = header r ''authorization''"
        "\<And>invoke st. f invoke st = (case invoke r' st of (st', a) \<Rightarrow> (st', g a))"
  using assms unfolding one_call_def by blast

lemma one_call_map:
  assumes "one_call f r"
  shows "one_call (\<lambda>invoke st. map_prod id g (f invoke st)) r"
  using assms
proof (cases rule: one_callE)
  case (answered answer)
  then show ?thesis by (intro one_call_answer [of _ "g answer"]) simp
next
  case (through r' k)
  then show ?thesis by (intro one_call_through [of r' _ _ "g \<circ> k"]) (simp_all add: split_beta)
qed

lemma gateway_request_header:
  "gateway_request rt source path verb body key = Inr r' \<Longrightarrow> header r' ''authorization'' = header source ''authorization''"
  by (auto simp: gateway_request_def header_def given_header_def split: option.splits)

lemma process_tool_one_call: "one_call (\<lambda>invoke. process_tool_result rt invoke i r d) r"
proof (cases "gateway_request rt r (case cd_route d of None \<Rightarrow> ''null'' | Some route \<Rightarrow> route) ''POST'' None None")
  case (Inl e)
  then show ?thesis by (intro one_call_answer) (simp add: process_tool_result_def)
next
  case (Inr r')
  let ?g = "map_option (\<lambda>x. Inr (Some (case x of Inl e \<Rightarrow> failed_result i ''Task-que-que gateway invocation failed.''
      | Inr res \<Rightarrow> process_call_result rt i res)))"
  show ?thesis
    by (rule one_call_through [where g = ?g, OF gateway_request_header [OF Inr]])
      (auto simp: process_tool_result_def Inr split: prod.split option.split sum.split)
qed

lemma call_process_one_call: "one_call (\<lambda>invoke :: 's gateway_invoker. call_process rt h config now_ms invoke r base) r"
proof -
  consider (answered) a where "\<And>(invoke :: 's gateway_invoker) st. call_process rt h config now_ms invoke r base st = (st, a)"
    | (called) i d where "\<And>invoke :: 's gateway_invoker. call_process rt h config now_ms invoke r base = process_tool_result rt invoke i r d"
  proof (cases "rt_json_parse rt (rq_body r)")
    case None
    then show thesis by (intro that(1)) (simp add: call_process_def)
  next
    case rpc: (Some rpc)
    show thesis
    proof (cases "field rpc ''params''")
      case None
      with rpc show thesis by (intro that(1)) (simp add: call_process_def)
    next
      case params: (Some params)
      let ?d = "process_descriptor_for_call rt h config now_ms r (str_of (field params ''name''))"
      show thesis
      proof (cases "is_record params \<and> is_string (field params ''name'') \<and> (\<exists>d. ?d = Inr (Some d))
          \<and> (case field params ''arguments'' of None \<Rightarrow> JObj [] | Some JNull \<Rightarrow> JObj [] | Some v \<Rightarrow> v) = JObj []")
        case True
        then obtain d where "?d = Inr (Some d)" by blast
        with True rpc params show thesis
          by (intro that(2) [of "case field rpc ''id'' of None \<Rightarrow> JNull | Some v \<Rightarrow> v" d])
            (simp add: call_process_def Let_def fun_eq_iff)
      next
        case False
        with rpc params show thesis
          by (cases ?d; cases "projr ?d"; cases "is_record params \<and> is_string (field params ''name'')")
            (rule that(1), auto simp: call_process_def Let_def)+
      qed
    qed
  qed
  then show ?thesis
  proof cases
    case answered
    then show ?thesis by (rule one_call_answer)
  next
    case called
    then show ?thesis using process_tool_one_call by simp
  qed
qed

lemma mcp_one_call:
  assumes "internal_platform rt"
  shows "one_call (\<lambda>invoke. handle_mcp_request_with_registered_processes rt h provider_fetch config now_ms later_ms
    (invoke :: 's gateway_invoker) r) r"
proof (cases "u_pathname (rq_url r) = MCP_ENDPOINT")
  case False
  then show ?thesis
    by (intro one_call_answer) (simp add: handle_mcp_request_with_registered_processes_def)
next
  case endpoint: True
  let ?f = "\<lambda>invoke :: 's gateway_invoker. handle_mcp_request_with_registered_processes rt h provider_fetch config
    now_ms later_ms invoke r"
  let ?base = "\<lambda>invoke :: 's gateway_invoker. handle_mcp_request rt h provider_fetch config now_ms invoke r"
  note defs = handle_mcp_request_with_registered_processes_def
  let ?h = "\<lambda>base. if header r ''mcp-method'' = Some ''tools/list'' \<and> ok_status (rs_status base)
      then map_sum id Some (add_process_tools rt h config later_ms r base) else Inr (Some base)"
  from mcp_call_or_answer [OF assms, where 's = 's, of h provider_fetch config now_ms r]
  show ?thesis
  proof (elim disjE exE conjE)
    fix a assume base: "\<forall>invoke st. ?base invoke st = (st, a)"
    show ?thesis
    proof (cases "\<exists>base payload. a = Some (Inr (Some base)) \<and> header r ''mcp-method'' = Some ''tools/call''
        \<and> rt_json_parse rt (response_text rt base) = Some payload \<and> is_unknown_tool payload")
      case True
      then obtain answer payload where "a = Some (Inr (Some answer))" "header r ''mcp-method'' = Some ''tools/call''"
        "rt_json_parse rt (response_text rt answer) = Some payload" "is_unknown_tool payload" by blast
      with base endpoint have "?f = (\<lambda>invoke. call_process rt h config later_ms invoke r answer)"
        by (auto simp: defs fun_eq_iff)
      then show ?thesis using call_process_one_call by simp
    next
      case False
      have "?f invoke st = (st, (case a of Some (Inr (Some answer)) \<Rightarrow> Some (?h answer) | _ \<Rightarrow> a))" for invoke st
        using base endpoint False by (auto simp: defs split: option.split sum.split)
      then show ?thesis by (rule one_call_answer)
    qed
  next
    fix i d r'
    assume base: "\<forall>invoke st. ?base invoke st = gateway_tool_result rt invoke i r' st"
      and header: "header r' ''authorization'' = header r ''authorization''"
    let ?g = "\<lambda>a. case a of None \<Rightarrow> None
      | Some (Inl e) \<Rightarrow> Some (?h (failed_result i ''Task-que-que gateway invocation failed.''))
      | Some (Inr res) \<Rightarrow> Some (?h (tool_result rt i res))"
    have unknown: "\<not> is_unknown_tool payload"
      if "rt_json_parse rt (response_text rt (tool_result rt i res)) = Some payload" for payload res
      using that tool_result_known [OF assms]
      by (auto simp: tool_result_def failed_result_def Let_def split: option.splits)
    have failed: "\<not> is_unknown_tool payload"
      if "rt_json_parse rt (response_text rt (failed_result i message)) = Some payload" for payload message
      using that tool_result_known [OF assms] by (auto simp: failed_result_def)
    have "?f invoke st = (case invoke r' st of (st', a) \<Rightarrow> (st', ?g a))" for invoke st
      using base endpoint
      by (auto simp: defs gateway_tool_result_def dest: unknown failed split: prod.split option.split sum.split)
    with header show ?thesis by (rule one_call_through)
  qed
qed

lemma route_change_needs_grant:
  assumes "required_surface (u_pathname (rq_url r)) (rq_method r) = Some surface"
    and "fst (route_gateway_request gw env r st) \<noteq> st"
  shows "\<exists>ctx d. resolve_authorization_context (gw_runtime gw) r (gw_config gw) (ge_now env) = Inr (Some ctx)
    \<and> get_capability CAPABILITY_REGISTRY surface = Some d \<and> capability_allowed ctx d"
proof (cases "resolve_authorization_context (gw_runtime gw) r (gw_config gw) (ge_now env)")
  case (Inl e)
  then have "fst (route_gateway_request gw env r st) = st"
    using assms(1) by (simp add: guarded_route_behaviour enforce_capability_access_def)
  with assms(2) show ?thesis by simp
next
  case (Inr auth)
  with guarded_route_granted [OF assms(1) Inr, of st] assms(2) show ?thesis
    by (cases auth) (auto simp: capability_allowed_def Let_def split: if_splits)
qed

text \<open>At its own path MCP always answers.\<close>

lemma mcp_endpoint_answers:
  assumes "u_pathname (rq_url r) = MCP_ENDPOINT"
  shows "snd (handle_mcp_request rt h provider_fetch config now_ms invoke r st) \<noteq> Some (Inr None)"
proof -
  have "parse_mcp_request rt h r \<noteq> Inl None"
    using assms by (auto simp: parse_mcp_request_def Let_def split: sum.split option.split)
  then show ?thesis
    by (auto simp: handle_mcp_request_def handle_tools_call_def gateway_tool_result_def Let_def
        split: sum.split option.split prod.split)
qed

lemma mcp_layers_answer:
  assumes "u_pathname (rq_url r) = MCP_ENDPOINT"
  shows "snd (handle_mcp_request_with_oauth_discovery rt h provider_fetch config policy cimd now_ms later_ms invoke r st)
    \<noteq> Some (Inr None)"
proof -
  have process: "snd (call_process rt h config later_ms invoke r base st') \<noteq> Some (Inr None)" for base st'
    by (auto simp: call_process_def process_tool_result_def Let_def split: option.split sum.split prod.split)
  have "snd (handle_mcp_request_with_registered_processes rt h provider_fetch config now_ms later_ms invoke r st)
      \<noteq> Some (Inr None)"
    using mcp_endpoint_answers [OF assms, of rt h provider_fetch config now_ms invoke st] assms process
    by (auto simp: handle_mcp_request_with_registered_processes_def map_sum_Inr split: prod.splits option.splits sum.splits)
  then show ?thesis
    by (auto simp: handle_mcp_request_with_oauth_discovery_def map_sum_Inr)
qed

text \<open>
  C4. The server changes its state only for who may. When a request to the server changes the state of the
  gateway, be it over HTTP or over MCP, the change is the effect of exactly one pass through the router, of the
  request itself or of one that MCP made for it, with the caller's own credential; and if that went to a guarded
  route, the authority of the credential was resolved and its grant covers the route's capability.
\<close>

theorem server_change_needs_grant:
  assumes "internal_platform (gw_runtime gw)"
    and "serve_request gw env now_ms later_ms r st = (st', answer)" and "st' \<noteq> st"
  shows "\<exists>r'. header r' ''authorization'' = header r ''authorization''
    \<and> fst (route_gateway_request gw env r' st) = st'
    \<and> (\<forall>surface. required_surface (u_pathname (rq_url r')) (rq_method r') = Some surface \<longrightarrow>
         (\<exists>ctx d. resolve_authorization_context (gw_runtime gw) r (gw_config gw) (ge_now env) = Inr (Some ctx)
            \<and> get_capability CAPABILITY_REGISTRY surface = Some d \<and> capability_allowed ctx d))"
proof -
  let ?h = "handle_mcp_request_with_oauth_discovery (gw_runtime gw) (gw_host gw) (gw_provider_fetch gw) (gw_config gw)
      (gw_policy gw) (gw_cimd gw) now_ms later_ms (route_invoker gw env) r"
  have granted: "\<exists>ctx d. resolve_authorization_context (gw_runtime gw) r (gw_config gw) (ge_now env) = Inr (Some ctx)
      \<and> get_capability CAPABILITY_REGISTRY surface = Some d \<and> capability_allowed ctx d"
    if "header r' ''authorization'' = header r ''authorization''" "fst (route_gateway_request gw env r' st) \<noteq> st"
      "required_surface (u_pathname (rq_url r')) (rq_method r') = Some surface" for r' surface
    using that route_change_needs_grant [OF that(3,2)] resolve_same_header [OF that(1)] by simp
  have calls: "one_call (\<lambda>invoke. handle_mcp_request_with_oauth_discovery (gw_runtime gw) (gw_host gw) (gw_provider_fetch gw)
      (gw_config gw) (gw_policy gw) (gw_cimd gw) now_ms later_ms (invoke :: gateway_state gateway_invoker) r) r"
    unfolding handle_mcp_request_with_oauth_discovery_def by (intro one_call_map mcp_one_call assms(1))
  show ?thesis
  proof (cases "u_pathname (rq_url r) = MCP_ENDPOINT")
    case False
    then have "?h st = (st, Some (Inr None))"
      by (simp add: handle_mcp_request_with_oauth_discovery_def handle_mcp_request_with_registered_processes_def)
    with assms(2) have "fst (route_gateway_request gw env r st) = st'"
      by (auto simp: serve_request_def Let_def split_beta)
    with assms(3) granted [of r] show ?thesis by (intro exI [of _ r]) auto
  next
    case True
    have "snd (?h st) \<noteq> Some (Inr None)" by (rule mcp_layers_answer [OF True])
    with assms(2) have effect: "st' = fst (?h st)"
      by (auto simp: serve_request_def Let_def split: prod.splits option.splits sum.splits)
    from calls show ?thesis
    proof (cases rule: one_callE)
      case (answered answer')
      with effect assms(3) show ?thesis by simp
    next
      case (through r' g)
      with effect have "st' = fst (route_gateway_request gw env r' st)" by (simp add: split_beta)
      with through(1) assms(3) granted [of r'] show ?thesis by (intro exI [of _ r']) auto
    qed
  qed
qed

text \<open>An agent registers: the state changes, through one pass of the router.\<close>

definition registration_gateway :: gateway where
  "registration_gateway = example_gateway
     \<lparr>gw_context := (gw_context example_gateway)\<lparr>ox_runtime := platform_runtime (JObj [(''agent_id'', JStr ''a'')])\<rparr>\<rparr>"

definition registration :: request where
  "registration = (example_request ''POST'' ''/v1/agent/register'' ''root'')\<lparr>rq_body := ''call''\<rparr>"

lemma registration_served:
  "fst (serve_request registration_gateway example_gateway_env 0 0 registration example_gateway_state) \<noteq> example_gateway_state"
proof -
  let ?gw = registration_gateway and ?env = example_gateway_env and ?st = example_gateway_state
  have path: "u_pathname (rq_url registration) = ''/v1/agent/register''" "rq_method registration = ''POST''"
    by (simp_all add: registration_def)
  then have gate: "\<not> open_route (u_pathname (rq_url registration))"
    "required_surface (u_pathname (rq_url registration)) (rq_method registration) = None"
    by (simp_all only: path) code_simp+
  let ?agents = "on_agents (handle_agent_direct_request (gw_runtime ?gw) (ge_agent ?env) registration)"
  have runtime: "gw_runtime ?gw = platform_runtime (JObj [(''agent_id'', JStr ''a'')])"
    by (simp add: registration_gateway_def)
  have "json_or_empty (gw_runtime ?gw) registration = JObj [(''agent_id'', JStr ''a'')]"
    by (simp add: json_or_empty_def runtime registration_def platform_runtime_call)
  then have register: "\<exists>a res. ?agents ?st = (?st\<lparr>gs_agents := a\<rparr>, Some (Inr (Some res))) \<and> as_tokens a \<noteq> []"
    by (simp add: on_agents_def handle_agent_direct_request_def path agent_register_def Let_def example_gateway_state_def
        example_gateway_env_def)
  have passed: "starts_with ''/v1/agent/register'' ''/v1/process/'' = False" "filesystem_operation_of ''/v1/agent/register'' = None"
    "mutation_operation_of ''/v1/agent/register'' = None"
    "mid_segment ''/v1/workflows/'' ''/result'' ''/v1/agent/register'' = False"
    by code_simp+
  obtain rest where rest: "first_answer (after_gate ?gw ?env registration registration) = first_answer (?agents # rest)"
    unfolding after_gate_def
    by (simp add: first_answer_pass process_passes filesystem_passes mutation_passes git_passes declared_passes path passed
        del: first_answer.simps)
  have "route_gateway_request ?gw ?env registration ?st = first_answer (?agents # rest) ?st"
    by (simp add: route_through_gate [OF gate(1)] through_gate_def enforce_capability_access_def gate(2) rest)
  with register obtain a res where a: "route_gateway_request ?gw ?env registration ?st
      = (?st\<lparr>gs_agents := a\<rparr>, Some (Inr (Some res)))" "as_tokens a \<noteq> []" by auto
  have "u_pathname (rq_url registration) \<noteq> MCP_ENDPOINT" by (simp add: path MCP_ENDPOINT_def)
  then have "fst (serve_request ?gw ?env 0 0 registration ?st) = ?st\<lparr>gs_agents := a\<rparr>"
    by (simp add: serve_request_def handle_mcp_request_with_oauth_discovery_def
        handle_mcp_request_with_registered_processes_def split_beta a)
  with a(2) show ?thesis by (auto simp: example_gateway_state_def)
qed

theorem server_change_needs_grant_witness:
  "\<exists>r'. header r' ''authorization'' = Some ''Bearer root''
    \<and> fst (route_gateway_request registration_gateway example_gateway_env r' example_gateway_state) \<noteq> example_gateway_state"
proof -
  have platform: "internal_platform (gw_runtime registration_gateway)"
    by (simp add: registration_gateway_def platform_runtime)
  obtain st' answer where served: "serve_request registration_gateway example_gateway_env 0 0 registration example_gateway_state = (st', answer)"
    by fastforce
  with registration_served have "st' \<noteq> example_gateway_state" by simp
  from server_change_needs_grant [OF platform served this] this show ?thesis
    by (auto simp: registration_def example_request_def header_def)
qed

end
