(* ===== verification/Worker.thy ===== *)
theory Worker
  imports WorkflowOutputs CanonicalJson JsCoercion
begin

text \<open>
  The loop that every worker runs (\<open>workers/document-bun/src/worker.ts\<close>, with the registry of handlers in
  \<open>registry.ts\<close>): registration with the broker, heartbeats, claims, and the handling of a claimed task under a lease.
  The answers of the broker, the clock and what the handler's promise settles to are arguments. While a task is
  handled the heartbeats go on beside it; their interleaving is an explicit sequence of events.
\<close>

definition MAX_RESULT_PROJECTION_BYTES :: nat where "MAX_RESULT_PROJECTION_BYTES = 256 * 1024"

section \<open>The registry of handlers\<close>

text \<open>What a handler rejects with: its own payload error, or anything else.\<close>

datatype task_failure = InvalidPayload string | TaskFailure string

record worker_handler =
  wh_task_name :: string
  wh_task_type :: string
  wh_classify :: "(task_failure \<Rightarrow> string) option"

record worker_registry =
  wr_type :: string
  wr_handlers :: "(string \<times> worker_handler) list"

definition safe_name :: "string \<Rightarrow> bool" where
  "safe_name s \<longleftrightarrow> rx_range is_safe_id_char 1 128 s"

definition validate_name :: "string \<Rightarrow> string \<Rightarrow> string option" where
  "validate_name value label =
     (if \<not> safe_name value then Some (label @ '' must be a safe 1-128 character identifier'') else None)"

fun add_handlers :: "string \<Rightarrow> worker_handler list \<Rightarrow> (string \<times> worker_handler) list \<Rightarrow> string + (string \<times> worker_handler) list" where
  "add_handlers worker_type [] handlers = Inr handlers"
| "add_handlers worker_type (h # hs) handlers =
     (case validate_name (wh_task_name h) ''handler task name'' of
        Some e \<Rightarrow> Inl e
      | None \<Rightarrow>
     (case validate_name (wh_task_type h) ''handler task type'' of
        Some e \<Rightarrow> Inl e
      | None \<Rightarrow>
          if wh_task_type h \<noteq> worker_type
            then Inl (''handler '' @ wh_task_name h @ '' declares '' @ wh_task_type h
                      @ '', expected hard capability '' @ worker_type)
          else if map_has (wh_task_name h) handlers then Inl (''duplicate worker handler: '' @ wh_task_name h)
          else add_handlers worker_type hs (map_set (wh_task_name h) h handlers)))"

definition create_worker_registry :: "string \<Rightarrow> worker_handler list \<Rightarrow> string + worker_registry" where
  "create_worker_registry worker_type handlers =
     (case validate_name worker_type ''worker type'' of
        Some e \<Rightarrow> Inl e
      | None \<Rightarrow>
          if handlers = [] then Inl ''worker registry must contain at least one handler''
          else map_sum id (\<lambda>hs. \<lparr>wr_type = worker_type, wr_handlers = hs\<rparr>) (add_handlers worker_type handlers []))"

definition task_names :: "worker_registry \<Rightarrow> string list" where
  "task_names registry = sort_by str_le (keys_of (wr_handlers registry))"

definition resolve_handler :: "worker_registry \<Rightarrow> string \<Rightarrow> string \<Rightarrow> worker_handler option" where
  "resolve_handler registry task_name task_type =
     (if task_type \<noteq> wr_type registry then None else map_of (wr_handlers registry) task_name)"

section \<open>The broker\<close>

text \<open>What \<open>fetch\<close> gives: a rejection, or a status and the body as JSON, \<open>None\<close> where it is none.\<close>

datatype broker_reply = NoReply string | BrokerReply nat "json option"

datatype worker_error = ApiError nat string | PlainError string

record broker_call =
  bc_path :: string
  bc_headers :: "(string \<times> string) list"
  bc_body :: "string option"

record worker_registration =
  rg_worker_id :: string
  rg_session_id :: string
  rg_session_token :: string
  rg_session_ttl_ms :: int
  rg_task_lease_ms :: int

record claimed_task =
  ct_task_id :: int
  ct_task_name :: string
  ct_task_type :: string
  ct_payload :: string
  ct_lease_generation :: int
  ct_lease_ms :: int

definition reply_ok :: "nat \<Rightarrow> bool" where
  "reply_ok status \<longleftrightarrow> 200 \<le> status \<and> status \<le> 299"

definition broker_request_failed :: "string \<Rightarrow> worker_error" where
  "broker_request_failed m = PlainError (''worker broker request failed: '' @ m)"

definition status_error :: "string \<Rightarrow> nat \<Rightarrow> worker_error" where
  "status_error what status = ApiError status (what @ '' returned HTTP '' @ nat_text status)"

text \<open>The body of an answer; the message of what \<open>json\<close> throws is the runtime's and is left out.\<close>

definition response_json :: "broker_reply \<Rightarrow> worker_error + json" where
  "response_json reply =
     (case reply of
        NoReply m \<Rightarrow> Inl (broker_request_failed m)
      | BrokerReply status body \<Rightarrow>
          if \<not> reply_ok status then Inl (status_error ''worker broker'' status)
          else (case body of None \<Rightarrow> Inl (PlainError []) | Some v \<Rightarrow> Inr v))"

text \<open>An answer of which only the status counts.\<close>

definition response_status :: "string \<Rightarrow> broker_reply \<Rightarrow> worker_error option" where
  "response_status what reply =
     (case reply of
        NoReply m \<Rightarrow> Some (broker_request_failed m)
      | BrokerReply status body \<Rightarrow> if \<not> reply_ok status then Some (status_error what status) else None)"

definition session_headers :: "worker_registration \<Rightarrow> (string \<times> string) list" where
  "session_headers r = [(''X-Worker-Session'', rg_session_id r), (''X-Worker-Token'', rg_session_token r)]"

definition register_call :: "worker_config \<Rightarrow> worker_registry \<Rightarrow> broker_call" where
  "register_call config registry =
     \<lparr>bc_path = ''/v1/register'',
      bc_headers = [(''X-Worker-Id'', wk_worker_id config), (''X-Worker-Type'', wr_type registry),
        (''X-Worker-Capacity'', int_text (wk_capacity config)), (''X-Worker-Tasks'', join '','' (task_names registry))],
      bc_body = None\<rparr>"

definition is_hex_char :: "char \<Rightarrow> bool" where
  "is_hex_char c \<longleftrightarrow> is_digit c \<or> between 97 102 c \<or> between 65 70 c"

definition positive_safe :: "json option \<Rightarrow> bool" where
  "positive_safe v \<longleftrightarrow> is_safe_integer v \<and> 0 < int_of v"

definition same_names :: "json option \<Rightarrow> string list \<Rightarrow> bool" where
  "same_names v names \<longleftrightarrow> is_array v \<and> arr_of v = map JStr names"

definition malformed_registration :: worker_error where
  "malformed_registration = PlainError ''worker broker returned a malformed registration''"

definition register_worker :: "worker_config \<Rightarrow> worker_registry \<Rightarrow> broker_reply \<Rightarrow> worker_error + worker_registration" where
  "register_worker config registry reply =
     (case response_json reply of
        Inl e \<Rightarrow> Inl e
      | Inr v \<Rightarrow>
          if v = JNull then Inl (PlainError [])
          else if field v ''worker_id'' \<noteq> Some (JStr (wk_worker_id config))
             \<or> field v ''worker_type'' \<noteq> Some (JStr (wr_type registry))
             \<or> \<not> same_names (field v ''task_names'') (task_names registry)
             \<or> \<not> rx_range is_hex_char 32 32 (js_text_of (field v ''session_id''))
             \<or> \<not> rx_range is_hex_char 64 64 (js_text_of (field v ''session_token''))
             \<or> \<not> positive_safe (field v ''session_ttl_ms'') \<or> \<not> positive_safe (field v ''task_lease_ms'')
            then Inl malformed_registration
          else Inr \<lparr>rg_worker_id = wk_worker_id config, rg_session_id = js_text_of (field v ''session_id''),
                    rg_session_token = js_text_of (field v ''session_token''),
                    rg_session_ttl_ms = int_of (field v ''session_ttl_ms''),
                    rg_task_lease_ms = int_of (field v ''task_lease_ms'')\<rparr>)"

definition session_call :: "string \<Rightarrow> worker_registration \<Rightarrow> broker_call" where
  "session_call path r = \<lparr>bc_path = path, bc_headers = session_headers r, bc_body = None\<rparr>"

definition heartbeat_session :: "broker_reply \<Rightarrow> worker_error option" where
  "heartbeat_session = response_status ''session heartbeat''"

definition status_of :: "broker_reply \<Rightarrow> nat option" where
  "status_of reply = (case reply of NoReply m \<Rightarrow> None | BrokerReply status body \<Rightarrow> Some status)"

definition claim_task :: "broker_reply \<Rightarrow> worker_error + claimed_task option" where
  "claim_task reply =
     (if status_of reply = Some 204 then Inr None
      else
        (case response_json reply of
           Inl e \<Rightarrow> Inl e
         | Inr v \<Rightarrow>
             if v = JNull then Inl (PlainError [])
             else if \<not> positive_safe (field v ''task_id'') \<or> \<not> is_string (field v ''task_name'')
                \<or> \<not> is_string (field v ''task_type'') \<or> \<not> is_string (field v ''payload'')
                \<or> \<not> positive_safe (field v ''lease_generation'') \<or> \<not> positive_safe (field v ''lease_ms'')
               then Inl (PlainError ''worker broker returned a malformed claim'')
             else Inr (Some \<lparr>ct_task_id = int_of (field v ''task_id''), ct_task_name = str_of (field v ''task_name''),
                         ct_task_type = str_of (field v ''task_type''), ct_payload = str_of (field v ''payload''),
                         ct_lease_generation = int_of (field v ''lease_generation''),
                         ct_lease_ms = int_of (field v ''lease_ms'')\<rparr>)))"

definition task_call ::
  "worker_registration \<Rightarrow> claimed_task \<Rightarrow> string \<Rightarrow> string option \<Rightarrow> string option \<Rightarrow> broker_call" where
  "task_call r task path error_code projection =
     \<lparr>bc_path = path,
      bc_headers = session_headers r
        @ [(''X-Task-Id'', int_text (ct_task_id task)), (''X-Lease-Generation'', int_text (ct_lease_generation task))]
        @ (case error_code of None \<Rightarrow> [] | Some e \<Rightarrow> [(''X-Worker-Error-Code'', e)])
        @ (case projection of None \<Rightarrow> [] | Some p \<Rightarrow> [(''Content-Type'', ''application/json; charset=utf-8'')]),
      bc_body = projection\<rparr>"

text \<open>The calls that a transition sends: none where it refuses a projection before it sends anything.\<close>

definition task_transition ::
  "worker_registration \<Rightarrow> claimed_task \<Rightarrow> string \<Rightarrow> string option \<Rightarrow> string option \<Rightarrow> broker_call list" where
  "task_transition r task path error_code projection =
     (if projection \<noteq> None \<and> path \<noteq> ''/v1/task/complete'' then [] else [task_call r task path error_code projection])"

section \<open>A claimed task\<close>

definition serialize_result_projection :: "runtime \<Rightarrow> json option \<Rightarrow> string + string option" where
  "serialize_result_projection rt value =
     (case value of
        None \<Rightarrow> Inr None
      | Some v \<Rightarrow>
          if \<not> is_record v then Inl ''worker result projection must be a JSON object''
          else
            (let serialized = rt_json_text rt v
             in if byte_length serialized > MAX_RESULT_PROJECTION_BYTES then Inl ''worker result projection exceeds 256 KiB''
                else (case rt_json_parse rt serialized of
                        None \<Rightarrow> Inl []
                      | Some again \<Rightarrow>
                          if \<not> is_record again then Inl ''worker result projection must serialize to a JSON object''
                          else Inr (Some serialized))))"

definition heartbeat_every_ms :: "worker_registration \<Rightarrow> claimed_task \<Rightarrow> int" where
  "heartbeat_every_ms r task = max 50 (min (ct_lease_ms task div 3) (rg_session_ttl_ms r div 3))"

text \<open>
  The state of the handling: where the processing and the heartbeat loop are, whether the lease is lost, whether
  the report has been sent, whose answer is awaited, and whether \<open>handleClaim\<close> has returned. \<open>Ended\<close> holds what is
  to be reported, a failure code or the projection.
\<close>

datatype processing = Delaying | Handling | Ended "string + string option" | GivenUp

datatype beating = Sleeping | SessionSent | TaskSent | Stopped

record claim_state =
  cl_processing :: processing
  cl_beating :: beating
  cl_lease_lost :: bool
  cl_reporting :: bool
  cl_returned :: bool

datatype claim_event =
    BeatDue
  | SessionAnswer broker_reply
  | TaskAnswer broker_reply
  | DelayOver
  | Handled "task_failure + json option"
  | ReportAnswer broker_reply

definition failure_code :: "worker_handler \<Rightarrow> task_failure \<Rightarrow> string" where
  "failure_code handler e = (case wh_classify handler of None \<Rightarrow> ''processing_failed'' | Some classify \<Rightarrow> classify e)"

definition report_of :: "runtime \<Rightarrow> worker_handler \<Rightarrow> task_failure + json option \<Rightarrow> string + string option" where
  "report_of rt handler outcome =
     (case outcome of
        Inl e \<Rightarrow> Inl (failure_code handler e)
      | Inr result \<Rightarrow>
          (case serialize_result_projection rt result of
             Inl m \<Rightarrow> Inl (failure_code handler (TaskFailure m))
           | Inr projection \<Rightarrow> Inr projection))"

definition lose_lease :: "claim_state \<Rightarrow> claim_state" where
  "lose_lease c =
     c\<lparr>cl_lease_lost := True, cl_beating := Stopped,
       cl_processing := (if cl_processing c = Delaying then GivenUp else cl_processing c)\<rparr>"

definition beats_stopped :: "claim_state \<Rightarrow> bool" where
  "beats_stopped c \<longleftrightarrow> (case cl_processing c of Ended report \<Rightarrow> True | GivenUp \<Rightarrow> True | _ \<Rightarrow> False)"

text \<open>One event, with the calls it sends; an event that the state does not wait for changes nothing.\<close>

fun claim_event_step ::
  "runtime \<Rightarrow> worker_registration \<Rightarrow> claimed_task \<Rightarrow> worker_handler \<Rightarrow> claim_event \<Rightarrow> claim_state \<Rightarrow> claim_state \<times> broker_call list" where
  "claim_event_step rt r task handler BeatDue c =
     (if cl_beating c = Sleeping then (c\<lparr>cl_beating := SessionSent\<rparr>, [session_call ''/v1/session/heartbeat'' r]) else (c, []))"
| "claim_event_step rt r task handler (SessionAnswer reply) c =
     (if cl_beating c \<noteq> SessionSent then (c, [])
      else if heartbeat_session reply \<noteq> None then (lose_lease c, [])
      else (c\<lparr>cl_beating := TaskSent\<rparr>, task_transition r task ''/v1/task/heartbeat'' None None))"
| "claim_event_step rt r task handler (TaskAnswer reply) c =
     (if cl_beating c \<noteq> TaskSent then (c, [])
      else if response_status ''/v1/task/heartbeat'' reply \<noteq> None then (lose_lease c, [])
      else (c\<lparr>cl_beating := (if beats_stopped c then Stopped else Sleeping)\<rparr>, []))"
| "claim_event_step rt r task handler DelayOver c =
     (if cl_processing c = Delaying then (c\<lparr>cl_processing := Handling\<rparr>, []) else (c, []))"
| "claim_event_step rt r task handler (Handled outcome) c =
     (if cl_processing c \<noteq> Handling then (c, [])
      else (c\<lparr>cl_processing := Ended (report_of rt handler outcome),
              cl_beating := (if cl_beating c = Sleeping then Stopped else cl_beating c)\<rparr>, []))"
| "claim_event_step rt r task handler (ReportAnswer reply) c = (c, [])"

text \<open>What follows when the heartbeat loop has ended: the report, unless the lease is lost.\<close>

definition claim_report :: "worker_registration \<Rightarrow> claimed_task \<Rightarrow> claim_state \<Rightarrow> broker_call list" where
  "claim_report r task c =
     (case cl_processing c of
        Ended (Inl code) \<Rightarrow> if cl_lease_lost c then [] else task_transition r task ''/v1/task/fail'' (Some code) None
      | Ended (Inr projection) \<Rightarrow> if cl_lease_lost c then [] else task_transition r task ''/v1/task/complete'' None projection
      | _ \<Rightarrow> [])"

text \<open>Whatever the answer to the report is, \<open>handleClaim\<close> then returns: a failure of it is only logged.\<close>

definition claim_step ::
  "runtime \<Rightarrow> worker_registration \<Rightarrow> claimed_task \<Rightarrow> worker_handler \<Rightarrow> claim_event \<Rightarrow> claim_state \<Rightarrow> claim_state \<times> broker_call list" where
  "claim_step rt r task handler e c =
     (if cl_returned c then (c, [])
      else if cl_reporting c then (c\<lparr>cl_returned := (case e of ReportAnswer reply \<Rightarrow> True | _ \<Rightarrow> False)\<rparr>, [])
      else
        (case claim_event_step rt r task handler e c of
           (c', calls) \<Rightarrow>
             if beats_stopped c' \<and> cl_beating c' = Stopped
               then (if claim_report r task c' = [] then (c'\<lparr>cl_returned := True\<rparr>, calls)
                     else (c'\<lparr>cl_reporting := True\<rparr>, calls @ claim_report r task c'))
             else (c', calls)))"

fun claim_run ::
  "runtime \<Rightarrow> worker_registration \<Rightarrow> claimed_task \<Rightarrow> worker_handler \<Rightarrow> claim_state \<Rightarrow> claim_event list \<Rightarrow> claim_state \<times> broker_call list" where
  "claim_run rt r task handler c [] = (c, [])"
| "claim_run rt r task handler c (e # es) =
     (case claim_step rt r task handler e c of
        (c1, calls1) \<Rightarrow> (case claim_run rt r task handler c1 es of (c2, calls2) \<Rightarrow> (c2, calls1 @ calls2)))"

definition new_claim :: "worker_config \<Rightarrow> claim_state" where
  "new_claim config =
     \<lparr>cl_processing = (if wk_process_delay_ms config > 0 then Delaying else Handling), cl_beating = Sleeping,
      cl_lease_lost = False, cl_reporting = False, cl_returned = False\<rparr>"

text \<open>The calls, and whether the handling has returned; \<open>failClaim\<close> of an unsupported task is awaited too.\<close>

definition report_answered :: "claim_event list \<Rightarrow> bool" where
  "report_answered events = list_ex (\<lambda>e. case e of ReportAnswer reply \<Rightarrow> True | _ \<Rightarrow> False) events"

definition handle_claim ::
  "runtime \<Rightarrow> worker_config \<Rightarrow> worker_registration \<Rightarrow> claimed_task \<Rightarrow> worker_registry \<Rightarrow> claim_event list \<Rightarrow> broker_call list \<times> bool" where
  "handle_claim rt config r task registry events =
     (case resolve_handler registry (ct_task_name task) (ct_task_type task) of
        None \<Rightarrow> (task_transition r task ''/v1/task/fail'' (Some ''unsupported_task'') None, report_answered events)
      | Some handler \<Rightarrow>
          (case claim_run rt r task handler (new_claim config) events of (c, calls) \<Rightarrow> (calls, cl_returned c)))"


section \<open>The loop\<close>

text \<open>What one turn of the loop meets; answers to calls that the turn does not make are not looked at.\<close>

record worker_turn =
  wt_stopped :: bool
  wt_now :: int
  wt_heartbeat :: broker_reply
  wt_after_heartbeat :: int
  wt_claim :: broker_reply
  wt_register :: broker_reply
  wt_after_register :: int
  wt_events :: "claim_event list"
  wt_after_claim :: int

datatype worker_end = WorkerStopped | WorkerFailed worker_error | WorkerRunning

definition heartbeat_due_ms :: "worker_registration \<Rightarrow> int" where
  "heartbeat_due_ms r = max 250 (rg_session_ttl_ms r div 3)"

definition session_expired :: "worker_error \<Rightarrow> bool" where
  "session_expired e = (case e of ApiError status m \<Rightarrow> status = 401 | PlainError m \<Rightarrow> False)"

text \<open>The registration and the time of the last heartbeat after the turn; \<open>None\<close> while a claim is still being handled.\<close>

definition claim_turn ::
  "runtime \<Rightarrow> worker_config \<Rightarrow> worker_registry \<Rightarrow> worker_registration \<Rightarrow> int \<Rightarrow> worker_turn
   \<Rightarrow> broker_call list \<times> (worker_error + worker_registration \<times> int) option" where
  "claim_turn rt config registry r beat_at t =
     (let claim = session_call ''/v1/claim'' r
      in case claim_task (wt_claim t) of
           Inl e \<Rightarrow>
             if session_expired e
               then ([claim, register_call config registry],
                     Some (map_sum id (\<lambda>r'. (r', wt_after_register t)) (register_worker config registry (wt_register t))))
             else ([claim], Some (Inr (r, beat_at)))
         | Inr None \<Rightarrow> ([claim], Some (Inr (r, beat_at)))
         | Inr (Some task) \<Rightarrow>
             (case handle_claim rt config r task registry (wt_events t) of
                (calls, returned) \<Rightarrow>
                  (claim # calls, if returned then Some (Inr (r, wt_after_claim t)) else None)))"

definition loop_turn ::
  "runtime \<Rightarrow> worker_config \<Rightarrow> worker_registry \<Rightarrow> worker_registration \<Rightarrow> int \<Rightarrow> worker_turn
   \<Rightarrow> broker_call list \<times> (worker_error + worker_registration \<times> int) option" where
  "loop_turn rt config registry r beat_at t =
     (if wt_now t - beat_at \<ge> heartbeat_due_ms r
        then
          (let beat = session_call ''/v1/session/heartbeat'' r
           in case heartbeat_session (wt_heartbeat t) of
                None \<Rightarrow> (case claim_turn rt config registry r (wt_after_heartbeat t) t of (calls, next) \<Rightarrow> (beat # calls, next))
              | Some e \<Rightarrow>
                  if session_expired e
                    then ([beat, register_call config registry],
                          Some (map_sum id (\<lambda>r'. (r', wt_after_register t)) (register_worker config registry (wt_register t))))
                  else ([beat], Some (Inr (r, beat_at))))
      else claim_turn rt config registry r beat_at t)"

fun worker_loop ::
  "runtime \<Rightarrow> worker_config \<Rightarrow> worker_registry \<Rightarrow> worker_registration \<Rightarrow> int \<Rightarrow> worker_turn list \<Rightarrow> broker_call list \<times> worker_end" where
  "worker_loop rt config registry r beat_at [] = ([], WorkerRunning)"
| "worker_loop rt config registry r beat_at (t # ts) =
     (if wt_stopped t then ([], WorkerStopped)
      else
        (case loop_turn rt config registry r beat_at t of
           (calls, None) \<Rightarrow> (calls, WorkerRunning)
         | (calls, Some (Inl e)) \<Rightarrow> (calls, WorkerFailed e)
         | (calls, Some (Inr (r', beat_at'))) \<Rightarrow>
             (case worker_loop rt config registry r' beat_at' ts of (later, finish) \<Rightarrow> (calls @ later, finish))))"

definition run_worker ::
  "runtime \<Rightarrow> worker_config \<Rightarrow> worker_registry \<Rightarrow> broker_reply \<Rightarrow> int \<Rightarrow> worker_turn list \<Rightarrow> broker_call list \<times> worker_end" where
  "run_worker rt config registry first_reply started turns =
     (case register_worker config registry first_reply of
        Inl e \<Rightarrow> ([register_call config registry], WorkerFailed e)
      | Inr r \<Rightarrow>
          (case worker_loop rt config registry r started turns of
             (calls, finish) \<Rightarrow> (register_call config registry # calls, finish)))"

section \<open>The configurations of the workers\<close>

definition non_negative_integer :: "runtime \<Rightarrow> string option \<Rightarrow> int \<Rightarrow> string \<Rightarrow> int \<Rightarrow> string + int" where
  "non_negative_integer rt raw fallback name max_value =
     (case raw of
        None \<Rightarrow> Inr fallback
      | Some s \<Rightarrow>
          if length s = 0 then Inr fallback
          else
            (case rt_number rt s of
               None \<Rightarrow> Inl (name @ '' must be an integer between 0 and '' @ int_text max_value)
             | Some n \<Rightarrow>
                 if \<bar>n\<bar> > max_safe_integer \<or> n < 0 \<or> n > max_value
                   then Inl (name @ '' must be an integer between 0 and '' @ int_text max_value)
                 else Inr n))"

text \<open>The document and the vector worker read the same variables, under their own prefix.\<close>

definition load_prefixed_worker_config :: "string \<Rightarrow> string \<Rightarrow> string \<Rightarrow> runtime \<Rightarrow> (string \<rightharpoonup> string) \<Rightarrow> string + worker_config" where
  "load_prefixed_worker_config prefix default_id default_dir rt env =
     (let name = (\<lambda>s. prefix @ s); worker_id = or_default (env (name ''_ID'')) default_id;
          output_dir = or_default (env (name ''_OUTPUT_DIR'')) default_dir
      in
      if \<not> rx_range is_safe_id_char 1 128 worker_id then Inl (name ''_ID must be a safe 1-128 character identifier'')
      else if length output_dir = 0 \<or> list_ex (\<lambda>c. unit_of c = 0) output_dir then Inl (name ''_OUTPUT_DIR is invalid'')
      else
     (case loopback_origin rt (name ''_ORIGIN'') (or_default (env (name ''_ORIGIN'')) ''http://127.0.0.1:7332'') of
        Inl e \<Rightarrow> Inl e
      | Inr origin \<Rightarrow>
     (case positive_integer rt (env (name ''_CAPACITY'')) 1 (name ''_CAPACITY'') 64 of
        Inl e \<Rightarrow> Inl e
      | Inr capacity \<Rightarrow>
     (case positive_integer rt (env (name ''_POLL_MS'')) 250 (name ''_POLL_MS'') 60000 of
        Inl e \<Rightarrow> Inl e
      | Inr poll \<Rightarrow>
     (case non_negative_integer rt (env (name ''_PROCESS_DELAY_MS'')) 0 (name ''_PROCESS_DELAY_MS'') 60000 of
        Inl e \<Rightarrow> Inl e
      | Inr delay \<Rightarrow>
     (case positive_integer rt (env (name ''_REQUEST_TIMEOUT_MS'')) 5000 (name ''_REQUEST_TIMEOUT_MS'') 60000 of
        Inl e \<Rightarrow> Inl e
      | Inr timeout \<Rightarrow>
          Inr \<lparr>wk_origin = origin, wk_worker_id = worker_id, wk_output_dir = output_dir, wk_capacity = capacity,
               wk_poll_ms = poll, wk_process_delay_ms = delay, wk_timeout_ms = timeout\<rparr>))))))"

definition load_worker_config :: "runtime \<Rightarrow> (string \<rightharpoonup> string) \<Rightarrow> string + worker_config" where
  "load_worker_config =
     load_prefixed_worker_config ''DOCUMENT_WORKER'' ''document-reference-worker'' ''./var/document-worker-results''"

definition load_vector_worker_config :: "runtime \<Rightarrow> (string \<rightharpoonup> string) \<Rightarrow> string + worker_config" where
  "load_vector_worker_config =
     load_prefixed_worker_config ''VECTOR_WORKER'' ''vector-reference-worker'' ''./var/vector-worker-results''"


section \<open>What is reported of a task\<close>

definition is_report :: "broker_call \<Rightarrow> bool" where
  "is_report call \<longleftrightarrow> bc_path call = ''/v1/task/complete'' \<or> bc_path call = ''/v1/task/fail''"

text \<open>The call that reports an outcome: a completion with its projection, or a failure with its code.\<close>

definition report_call :: "worker_registration \<Rightarrow> claimed_task \<Rightarrow> string + string option \<Rightarrow> broker_call" where
  "report_call r task report =
     (case report of
        Inl code \<Rightarrow> task_call r task ''/v1/task/fail'' (Some code) None
      | Inr projection \<Rightarrow> task_call r task ''/v1/task/complete'' None projection)"

lemma is_report_simps [simp]:
  "\<not> is_report (session_call ''/v1/session/heartbeat'' r)" "\<not> is_report (session_call ''/v1/claim'' r)"
  "\<not> is_report (register_call config registry)"
  "\<not> is_report (task_call r task ''/v1/task/heartbeat'' code projection)"
  "is_report (report_call r task report)"
  by (simp_all add: is_report_def session_call_def register_call_def task_call_def report_call_def split: sum.splits)

lemma claim_report_eq:
  "claim_report r task c =
     (case cl_processing c of
        Ended report \<Rightarrow> if cl_lease_lost c then [] else [report_call r task report]
      | _ \<Rightarrow> [])"
  by (simp add: claim_report_def report_call_def task_transition_def split: processing.split sum.split)

lemma claim_report_cases:
  obtains "claim_report r task c = []"
  | report where "cl_processing c = Ended report" and "\<not> cl_lease_lost c" and "claim_report r task c = [report_call r task report]"
  by (cases "cl_processing c"; cases "cl_lease_lost c") (simp_all add: claim_report_eq)

lemma claim_event_step_facts:
  assumes "claim_event_step rt r task handler e c = (c', calls)"
  shows "\<forall>call \<in> set calls. \<not> is_report call"
    and "cl_processing c' = Ended report \<Longrightarrow>
       cl_processing c = Ended report \<or> (\<exists>outcome. e = Handled outcome \<and> report = report_of rt handler outcome)"
    and "cl_lease_lost c \<Longrightarrow> cl_lease_lost c'" and "cl_returned c' = cl_returned c" and "cl_reporting c' = cl_reporting c"
  using assms by (cases e; auto simp: lose_lease_def task_transition_def split: if_splits)+

text \<open>Nothing is sent, and nothing is lost, once the report is sent or the handling has returned.\<close>

lemma claim_step_over:
  assumes "cl_returned c \<or> cl_reporting c" and "claim_step rt r task handler e c = (c', calls)"
  shows "calls = []" and "cl_returned c' \<or> cl_reporting c'" and "cl_reporting c' = cl_reporting c"
    and "cl_lease_lost c' = cl_lease_lost c"
  using assms by (auto simp: claim_step_def split: if_splits)

lemma claim_run_over:
  assumes "cl_returned c \<or> cl_reporting c" and "claim_run rt r task handler c events = (c', calls)"
  shows "calls = [] \<and> cl_reporting c' = cl_reporting c \<and> cl_lease_lost c' = cl_lease_lost c"
  using assms
proof (induction events arbitrary: c calls)
  case (Cons e es)
  obtain c1 calls1 where step: "claim_step rt r task handler e c = (c1, calls1)" by fastforce
  obtain calls2 where rest: "claim_run rt r task handler c1 es = (c', calls2)" "calls = calls1 @ calls2"
    using Cons.prems(2) step by (auto split: prod.splits)
  from claim_step_over [OF Cons.prems(1) step] Cons.IH [OF _ rest(1)] rest(2) show ?case by simp
qed simp

lemma claim_run_reports:
  assumes "claim_run rt r task handler c events = (c', calls)" and "\<not> cl_reporting c"
  shows "filter is_report calls = [] \<or>
       (\<exists>before report. calls = before @ [report_call r task report] \<and> filter is_report before = []
          \<and> cl_reporting c' \<and> \<not> cl_lease_lost c'
          \<and> (cl_processing c = Ended report \<or> (\<exists>outcome. Handled outcome \<in> set events \<and> report = report_of rt handler outcome)))"
  using assms
proof (induction events arbitrary: c calls)
  case (Cons e es)
  obtain c1 calls1 where step: "claim_step rt r task handler e c = (c1, calls1)" by (cases "claim_step rt r task handler e c")
  obtain calls2 where rest: "claim_run rt r task handler c1 es = (c', calls2)" and calls: "calls = calls1 @ calls2"
    using Cons.prems step by (auto split: prod.splits)
  show ?case
  proof (cases "cl_returned c")
    case True
    from claim_run_over [OF _ Cons.prems(1)] True show ?thesis by simp
  next
    case False
    obtain c0 beats where event: "claim_event_step rt r task handler e c = (c0, beats)"
      by (cases "claim_event_step rt r task handler e c")
    note facts = claim_event_step_facts [OF event]
    have quiet: "filter is_report beats = []" using facts(1) by (simp add: filter_empty_conv)
    show ?thesis
    proof (cases "beats_stopped c0 \<and> cl_beating c0 = Stopped")
      case True
      show ?thesis
      proof (cases rule: claim_report_cases [of r task c0])
        case 1
        with step event False Cons.prems(2) True have c1: "c1 = c0\<lparr>cl_returned := True\<rparr>" "calls1 = beats"
          by (simp_all add: claim_step_def)
        with claim_run_over [OF _ rest] calls quiet show ?thesis by simp
      next
        case (2 report)
        with step event False Cons.prems(2) True have c1: "c1 = c0\<lparr>cl_reporting := True\<rparr>" "calls1 = beats @ [report_call r task report]"
          by (simp_all add: claim_step_def)
        from claim_run_over [OF _ rest] c1 calls 2(2) have over: "calls = beats @ [report_call r task report]" "cl_reporting c'"
          "\<not> cl_lease_lost c'" by simp_all
        from facts(2) [OF 2(1)] have "cl_processing c = Ended report
            \<or> (\<exists>outcome. Handled outcome \<in> set (e # es) \<and> report = report_of rt handler outcome)" by auto
        with over quiet show ?thesis by blast
      qed
    next
      case notyet: False
      with step event False Cons.prems(2) have c1: "c1 = c0" "calls1 = beats" by (auto simp: claim_step_def)
      with facts(5) Cons.prems(2) have "\<not> cl_reporting c1" by simp
      from Cons.IH [OF rest this] show ?thesis
      proof (elim disjE exE conjE)
        assume "filter is_report calls2 = []"
        with calls c1 quiet show ?thesis by simp
      next
        fix before report
        assume b: "calls2 = before @ [report_call r task report]" "filter is_report before = []" "cl_reporting c'" "\<not> cl_lease_lost c'"
          and why: "cl_processing c1 = Ended report"
        from facts(2) [of report] why c1(1) have "cl_processing c = Ended report
            \<or> (\<exists>outcome. Handled outcome \<in> set (e # es) \<and> report = report_of rt handler outcome)" by auto
        moreover have "calls = (beats @ before) @ [report_call r task report]" "filter is_report (beats @ before) = []"
          using b calls c1 quiet by simp_all
        ultimately show ?thesis using b(3,4) by blast
      next
        fix before report outcome
        assume b: "calls2 = before @ [report_call r task report]" "filter is_report before = []" "cl_reporting c'" "\<not> cl_lease_lost c'"
          and why: "Handled outcome \<in> set es" "report = report_of rt handler outcome"
        moreover have "calls = (beats @ before) @ [report_call r task report]" "filter is_report (beats @ before) = []"
          using b calls c1 quiet by simp_all
        ultimately show ?thesis by (metis list.set_intros(2))
      qed
    qed
  qed
qed simp

lemma nat_text_no_minus: "CHR ''-'' \<notin> set (nat_text n)"
  using nat_text_digits [of n] by (auto simp: list_all_iff is_digit_def between_def)

lemma int_text_inject: "int_text i = int_text j \<longleftrightarrow> i = j"
proof
  assume eq: "int_text i = int_text j"
  have digits: "digits_value (nat_text n) = n" for n by simp
  have "nat_text m \<noteq> CHR ''-'' # nat_text n" for m n using nat_text_no_minus [of m] by (metis list.set_intros(1))
  with eq have "(i < 0) = (j < 0)" by (auto simp: int_text_def split: if_splits dest: sym)
  with eq have "nat \<bar>i\<bar> = nat \<bar>j\<bar>" using digits by (metis abs_of_neg abs_of_nonneg int_text_def leI list.inject)
  with \<open>(i < 0) = (j < 0)\<close> show "i = j" by linarith
qed simp

text \<open>The reports of a lease of a task, and the turns in which the broker hands it out.\<close>

definition reports :: "int \<Rightarrow> int \<Rightarrow> broker_call \<Rightarrow> bool" where
  "reports i g call \<longleftrightarrow>
     is_report call \<and> map_of (bc_headers call) ''X-Task-Id'' = Some (int_text i)
     \<and> map_of (bc_headers call) ''X-Lease-Generation'' = Some (int_text g)"

definition turn_hands_out :: "int \<Rightarrow> int \<Rightarrow> worker_turn \<Rightarrow> bool" where
  "turn_hands_out i g t \<longleftrightarrow>
     (case claim_task (wt_claim t) of
        Inr (Some task) \<Rightarrow> ct_task_id task = i \<and> ct_lease_generation task = g
      | _ \<Rightarrow> False)"

text \<open>
  What a report of a turn rests on: the task that the broker handed out in the turn; and either no handler for it, or
  what its handler settled to, with the lease kept until the report was sent.
\<close>

definition report_grounded ::
  "runtime \<Rightarrow> worker_config \<Rightarrow> worker_registry \<Rightarrow> worker_turn \<Rightarrow> broker_call \<Rightarrow> bool" where
  "report_grounded rt config registry t call \<longleftrightarrow>
     (\<exists>r task report. claim_task (wt_claim t) = Inr (Some task) \<and> call = report_call r task report
        \<and> (case resolve_handler registry (ct_task_name task) (ct_task_type task) of
             None \<Rightarrow> report = Inl ''unsupported_task''
           | Some handler \<Rightarrow>
               (\<exists>outcome. Handled outcome \<in> set (wt_events t) \<and> report = report_of rt handler outcome)
               \<and> (\<exists>c calls. claim_run rt r task handler (new_claim config) (wt_events t) = (c, calls)
                    \<and> cl_reporting c \<and> \<not> cl_lease_lost c)))"

lemma reports_report_call: "reports i g (report_call r task report) \<longleftrightarrow> ct_task_id task = i \<and> ct_lease_generation task = g"
  by (auto simp: reports_def is_report_def report_call_def task_call_def session_headers_def int_text_inject split: sum.splits)

lemma handle_claim_reports:
  assumes "handle_claim rt config r task registry events = (calls, returned)"
  shows "filter is_report calls = [] \<or>
     (\<exists>before report. calls = before @ [report_call r task report] \<and> filter is_report before = []
        \<and> (case resolve_handler registry (ct_task_name task) (ct_task_type task) of
             None \<Rightarrow> report = Inl ''unsupported_task''
           | Some handler \<Rightarrow>
               (\<exists>outcome. Handled outcome \<in> set events \<and> report = report_of rt handler outcome)
               \<and> (\<exists>c calls. claim_run rt r task handler (new_claim config) events = (c, calls)
                    \<and> cl_reporting c \<and> \<not> cl_lease_lost c)))"
proof (cases "resolve_handler registry (ct_task_name task) (ct_task_type task)")
  case None
  with assms have "calls = [] @ [report_call r task (Inl ''unsupported_task'')]"
    by (simp add: handle_claim_def task_transition_def report_call_def)
  with None show ?thesis by (intro disjI2 exI [of _ "[]"] exI [of _ "Inl ''unsupported_task''"]) simp
next
  case (Some handler)
  with assms obtain c where run: "claim_run rt r task handler (new_claim config) events = (c, calls)"
    by (auto simp: handle_claim_def split: prod.splits)
  have fresh: "cl_processing (new_claim config) \<noteq> Ended report" for report by (simp add: new_claim_def)
  have "\<not> cl_reporting (new_claim config)" by (simp add: new_claim_def)
  from claim_run_reports [OF run this] fresh Some run show ?thesis by auto
qed

lemma claim_turn_reports:
  assumes "claim_turn rt config registry r beat_at t = (calls, next)"
  shows "length (filter (reports i g) calls) \<le> (if turn_hands_out i g t then 1 else 0)"
    and "\<forall>call \<in> set calls. is_report call \<longrightarrow> report_grounded rt config registry t call"
proof -
  have none: "reports i g call \<Longrightarrow> is_report call" for call by (simp add: reports_def)
  have "length (filter (reports i g) calls) \<le> (if turn_hands_out i g t then 1 else 0)
    \<and> (\<forall>call \<in> set calls. is_report call \<longrightarrow> report_grounded rt config registry t call)"
  proof (cases "\<exists>task. claim_task (wt_claim t) = Inr (Some task)")
    case True
    then obtain task where task: "claim_task (wt_claim t) = Inr (Some task)" by blast
    obtain inner returned where handled: "handle_claim rt config r task registry (wt_events t) = (inner, returned)"
      by (cases "handle_claim rt config r task registry (wt_events t)")
    have calls: "calls = session_call ''/v1/claim'' r # inner"
      using assms task handled by (simp add: claim_turn_def)
    from handle_claim_reports [OF handled] show ?thesis
    proof (elim disjE exE conjE)
      assume quiet: "filter is_report inner = []"
      then have "filter (reports i g) inner = []" by (auto simp: filter_empty_conv reports_def)
      with quiet calls show ?thesis by (auto simp: filter_empty_conv reports_def)
    next
      fix before report
      assume inner: "inner = before @ [report_call r task report]" "filter is_report before = []"
        and why: "case resolve_handler registry (ct_task_name task) (ct_task_type task) of
             None \<Rightarrow> report = Inl ''unsupported_task''
           | Some handler \<Rightarrow>
               (\<exists>outcome. Handled outcome \<in> set (wt_events t) \<and> report = report_of rt handler outcome)
               \<and> (\<exists>c calls. claim_run rt r task handler (new_claim config) (wt_events t) = (c, calls)
                    \<and> cl_reporting c \<and> \<not> cl_lease_lost c)"
      have "filter (reports i g) before = []" using inner(2) by (auto simp: filter_empty_conv reports_def)
      moreover have "report_grounded rt config registry t (report_call r task report)"
        unfolding report_grounded_def using task why by blast
      moreover have "\<not> reports i g (session_call ''/v1/claim'' r)" by (simp add: reports_def)
      ultimately show ?thesis using calls inner task
        by (auto simp: reports_report_call turn_hands_out_def filter_empty_conv)
    qed
  next
    case False
    then have "filter is_report calls = []"
      using assms by (auto simp: claim_turn_def Let_def split: sum.splits option.splits if_splits)
    then have "\<forall>call \<in> set calls. \<not> is_report call" by (simp add: filter_empty_conv)
    moreover from this have "filter (reports i g) calls = []" using none by (auto simp: filter_empty_conv)
    ultimately show ?thesis by simp
  qed
  then show "length (filter (reports i g) calls) \<le> (if turn_hands_out i g t then 1 else 0)"
    "\<forall>call \<in> set calls. is_report call \<longrightarrow> report_grounded rt config registry t call" by blast+
qed


lemma loop_turn_reports:
  assumes "loop_turn rt config registry r beat_at t = (calls, next)"
  shows "length (filter (reports i g) calls) \<le> (if turn_hands_out i g t then 1 else 0)"
    and "\<forall>call \<in> set calls. is_report call \<longrightarrow> report_grounded rt config registry t call"
proof -
  have quiet: "\<not> reports i g (session_call ''/v1/session/heartbeat'' r)" "\<not> reports i g (register_call config registry)"
    by (simp_all add: reports_def)
  have "length (filter (reports i g) calls) \<le> (if turn_hands_out i g t then 1 else 0)
    \<and> (\<forall>call \<in> set calls. is_report call \<longrightarrow> report_grounded rt config registry t call)"
  proof (cases "wt_now t - beat_at \<ge> heartbeat_due_ms r \<and> heartbeat_session (wt_heartbeat t) \<noteq> None")
    case True
    then have "calls = [session_call ''/v1/session/heartbeat'' r]
        \<or> calls = [session_call ''/v1/session/heartbeat'' r, register_call config registry]"
      using assms by (auto simp: loop_turn_def Let_def split: if_splits)
    with quiet show ?thesis by auto
  next
    case False
    then obtain since turn where turn: "claim_turn rt config registry r since t = (turn, next)"
      and calls: "calls = turn \<or> calls = session_call ''/v1/session/heartbeat'' r # turn"
      using assms by (auto simp: loop_turn_def Let_def split: if_splits prod.splits)
    from claim_turn_reports(1) [OF turn, of i g] claim_turn_reports(2) [OF turn] calls quiet show ?thesis by auto
  qed
  then show "length (filter (reports i g) calls) \<le> (if turn_hands_out i g t then 1 else 0)"
    "\<forall>call \<in> set calls. is_report call \<longrightarrow> report_grounded rt config registry t call" by blast+
qed

lemma worker_loop_reports:
  assumes "worker_loop rt config registry r beat_at turns = (calls, finish)"
  shows "length (filter (reports i g) calls) \<le> length (filter (turn_hands_out i g) turns)
    \<and> (\<forall>call \<in> set calls. is_report call \<longrightarrow> (\<exists>t \<in> set turns. report_grounded rt config registry t call))"
  using assms
proof (induction turns arbitrary: r beat_at calls)
  case (Cons t ts)
  show ?case
  proof (cases "wt_stopped t")
    case False
    obtain now outcome where turn: "loop_turn rt config registry r beat_at t = (now, outcome)"
      by (cases "loop_turn rt config registry r beat_at t")
    note here = loop_turn_reports(1) [OF turn, of i g] loop_turn_reports(2) [OF turn]
    consider (ended) "calls = now" | (goes_on) r' at' later where "worker_loop rt config registry r' at' ts = (later, finish)"
        "calls = now @ later"
      using Cons.prems False turn by (auto split: option.splits sum.splits prod.splits)
    then show ?thesis
    proof cases
      case ended
      with here show ?thesis by (cases "turn_hands_out i g t") auto
    next
      case goes_on
      from Cons.IH [OF goes_on(1)] here goes_on(2) show ?thesis by (cases "turn_hands_out i g t") auto
    qed
  qed (use Cons.prems in simp)
qed simp

text \<open>
  C6. The worker reports each lease at most once, and truthfully. Whatever the broker answers and however the
  heartbeats fall beside the handlers, in a whole run the completions and failures that the worker sends for a task
  and lease generation are no more than the claims in which the broker handed it out. Every one of them is for a task
  that was handed out, with its id and generation: a failure as unsupported when no handler is
  registered for it; otherwise exactly what its handler settled to, sent when the heartbeats had ended with the lease
  not lost. So after a lost lease nothing is reported.
\<close>

theorem tasks_reported_once:
  assumes "run_worker rt config registry first_reply started turns = (calls, finish)"
  shows "length (filter (reports i g) calls) \<le> length (filter (turn_hands_out i g) turns)
    \<and> (\<forall>call \<in> set calls. is_report call \<longrightarrow> (\<exists>t \<in> set turns. report_grounded rt config registry t call))"
proof (cases "register_worker config registry first_reply")
  case (Inl e)
  with assms show ?thesis by (auto simp: run_worker_def reports_def)
next
  case (Inr r)
  obtain later where loop: "worker_loop rt config registry r started turns = (later, finish)"
    and calls: "calls = register_call config registry # later"
    using assms Inr by (auto simp: run_worker_def split: prod.splits)
  from worker_loop_reports [OF loop, of i g] calls show ?thesis by (simp add: reports_def)
qed

text \<open>The states that the handling of a claim can be in.\<close>

definition claim_ok :: "claim_state \<Rightarrow> bool" where
  "claim_ok c \<longleftrightarrow> cl_returned c \<or> cl_reporting c
     \<or> (beats_stopped c \<longrightarrow> cl_beating c = SessionSent \<or> cl_beating c = TaskSent)
       \<and> (cl_beating c = Stopped \<longrightarrow> cl_processing c = Handling)"

lemma claim_ok_step:
  assumes "claim_ok c"
  shows "claim_ok (fst (claim_step rt r task handler e c))"
  using assms
  by (cases e; cases "cl_processing c"; cases "cl_beating c")
    (auto simp: claim_step_def claim_ok_def beats_stopped_def lose_lease_def)

lemma claim_run_append:
  "fst (claim_run rt r task handler c (events @ later)) = fst (claim_run rt r task handler (fst (claim_run rt r task handler c events)) later)"
  by (induction events arbitrary: c) (simp_all split: prod.split, metis fst_conv)

lemma claim_ok_run: "claim_ok c \<Longrightarrow> claim_ok (fst (claim_run rt r task handler c events))"
proof (induction events arbitrary: c)
  case (Cons e es)
  have "claim_ok (fst (claim_run rt r task handler (fst (claim_step rt r task handler e c)) es))"
    by (intro Cons.IH claim_ok_step Cons.prems)
  then show ?case by (auto split: prod.split)
qed simp

text \<open>The states in which only the answer to a report, if anything, is missing.\<close>

lemma claim_run_settles:
  assumes "claim_ok c"
  shows "cl_returned (fst (claim_run rt r task handler c [DelayOver, Handled outcome, SessionAnswer reply, TaskAnswer reply']))
    \<or> cl_reporting (fst (claim_run rt r task handler c [DelayOver, Handled outcome, SessionAnswer reply, TaskAnswer reply']))"
  using assms
  by (cases "cl_processing c"; cases "cl_beating c")
    (auto simp: claim_step_def claim_ok_def beats_stopped_def lose_lease_def)

text \<open>Conversely, where a report is sent, nothing but its answer makes the handling return.\<close>

lemma unanswered_report_not_returned:
  assumes "cl_reporting c \<longrightarrow> \<not> cl_returned c" and "claim_run rt r task handler c events = (c', calls)"
    and "\<not> report_answered events"
  shows "cl_reporting c' \<longrightarrow> \<not> cl_returned c'"
  using assms
proof (induction events arbitrary: c calls)
  case (Cons e es)
  obtain c1 calls1 where step: "claim_step rt r task handler e c = (c1, calls1)" by fastforce
  obtain calls2 where rest: "claim_run rt r task handler c1 es = (c', calls2)" using Cons.prems(2) step by (auto split: prod.splits)
  obtain c0 beats where event: "claim_event_step rt r task handler e c = (c0, beats)" by fastforce
  have "cl_reporting c1 \<longrightarrow> \<not> cl_returned c1"
    using step event Cons.prems(1,3) claim_event_step_facts(4,5) [OF event]
    by (auto simp: claim_step_def report_answered_def split: if_splits claim_event.splits)
  from Cons.IH [OF this rest] Cons.prems(3) show ?case by (simp add: report_answered_def)
qed simp

text \<open>
  C22. The handling of a claim ends, whether there is a handler for the task or not. Whatever has happened so far, once
  the delay is over, the handler has settled, the heartbeat that may be under way has been answered and then the
  report, if one was sent, the handling has returned, whatever the answers are.
\<close>

theorem claim_handling_ends:
  "snd (handle_claim rt config r task registry
     (events @ [DelayOver, Handled outcome, SessionAnswer reply, TaskAnswer reply', ReportAnswer reply'']))"
proof (cases "resolve_handler registry (ct_task_name task) (ct_task_type task)")
  case None
  then show ?thesis by (simp add: handle_claim_def report_answered_def)
next
  case (Some handler)
  let ?before = "events @ [DelayOver, Handled outcome, SessionAnswer reply, TaskAnswer reply']"
  let ?c = "fst (claim_run rt r task handler (new_claim config) ?before)"
  have "claim_ok (new_claim config)" by (simp add: claim_ok_def new_claim_def beats_stopped_def)
  then have "claim_ok (fst (claim_run rt r task handler (new_claim config) events))" by (rule claim_ok_run)
  then have "cl_returned ?c \<or> cl_reporting ?c" unfolding claim_run_append by (rule claim_run_settles)
  then have "cl_returned (fst (claim_run rt r task handler ?c [ReportAnswer reply'']))" by (auto simp: claim_step_def)
  then have "cl_returned (fst (claim_run rt r task handler (new_claim config) (?before @ [ReportAnswer reply''])))"
    by (simp only: claim_run_append)
  with Some show ?thesis by (simp add: handle_claim_def case_prod_beta)
qed


text \<open>A worker that gets one task, handles it, and is stopped.\<close>

definition example_handler :: worker_handler where
  "example_handler = \<lparr>wh_task_name = ''hash.compute'', wh_task_type = ''cpu'', wh_classify = None\<rparr>"

definition example_registry :: worker_registry where
  "example_registry = \<lparr>wr_type = ''cpu'', wr_handlers = [(''hash.compute'', example_handler)]\<rparr>"

definition example_worker :: worker_config where
  "example_worker = \<lparr>wk_origin = ''http://127.0.0.1:7332'', wk_worker_id = ''w'', wk_output_dir = ''out'', wk_capacity = 1,
     wk_poll_ms = 250, wk_process_delay_ms = 0, wk_timeout_ms = 5000\<rparr>"

definition example_registered :: broker_reply where
  "example_registered = BrokerReply 201 (Some (JObj [(''worker_id'', JStr ''w''), (''worker_type'', JStr ''cpu''),
     (''task_names'', JArr [JStr ''hash.compute'']), (''session_id'', JStr (replicate 32 (CHR ''a''))),
     (''session_token'', JStr (replicate 64 (CHR ''B''))), (''session_ttl_ms'', JInt 9000), (''task_lease_ms'', JInt 900)]))"

definition example_claim :: broker_reply where
  "example_claim = BrokerReply 200 (Some (JObj [(''task_id'', JInt 7), (''task_name'', JStr ''hash.compute''),
     (''task_type'', JStr ''cpu''), (''payload'', JStr ''{}''), (''lease_generation'', JInt 2), (''lease_ms'', JInt 900)]))"

definition example_turn :: worker_turn where
  "example_turn = \<lparr>wt_stopped = False, wt_now = 0, wt_heartbeat = NoReply [], wt_after_heartbeat = 0, wt_claim = example_claim,
     wt_register = NoReply [], wt_after_register = 0,
     wt_events = [BeatDue, SessionAnswer (BrokerReply 200 None), Handled (Inr None), TaskAnswer (BrokerReply 204 None),
       ReportAnswer (BrokerReply 200 None)],
     wt_after_claim = 5\<rparr>"

lemma example_run_report:
  "case run_worker null_runtime example_worker example_registry example_registered 0 [example_turn, example_turn\<lparr>wt_stopped := True, wt_claim := NoReply []\<rparr>] of
     (calls, finish) \<Rightarrow> finish = WorkerStopped \<and> map bc_path calls
        = [''/v1/register'', ''/v1/claim'', ''/v1/session/heartbeat'', ''/v1/task/heartbeat'', ''/v1/task/complete'']
        \<and> list_ex (reports 7 2) calls"
  by code_simp

theorem tasks_reported_once_witness:
  "\<exists>calls. run_worker null_runtime example_worker example_registry example_registered 0
       [example_turn, example_turn\<lparr>wt_stopped := True, wt_claim := NoReply []\<rparr>] = (calls, WorkerStopped)
     \<and> length (filter (reports 7 2) calls) = 1"
proof -
  let ?turns = "[example_turn, example_turn\<lparr>wt_stopped := True, wt_claim := NoReply []\<rparr>]"
  obtain calls where run: "run_worker null_runtime example_worker example_registry example_registered 0 ?turns = (calls, WorkerStopped)"
    and some: "list_ex (reports 7 2) calls"
    using example_run_report by (auto split: prod.splits)
  have claimed: "length (filter (turn_hands_out 7 2) ?turns) = 1" by code_simp
  from some have "filter (reports 7 2) calls \<noteq> []" by (auto simp: list_ex_iff filter_empty_conv)
  moreover have "length (filter (reports 7 2) calls) \<le> 1"
    using tasks_reported_once [OF run, of 7 2] claimed by simp
  ultimately have "length (filter (reports 7 2) calls) = 1" by (cases "filter (reports 7 2) calls") auto
  with run show ?thesis by blast
qed

end
