(* ===== verification/WorkerHandlers.thy ===== *)
theory WorkerHandlers
  imports Worker
begin

text \<open>
  The handlers of the leaf workers: \<open>hash-handler.ts\<close>, \<open>processor.ts\<close> and \<open>document-handler.ts\<close> of
  \<open>workers/document-bun/src\<close>, \<open>vector-handler.ts\<close> of \<open>workers/vector-bun/src\<close>, and \<open>remote-handler.ts\<close> with its
  worker of \<open>workers/remote-agent-bun/src\<close>. Each parses the payload of a task, computes, writes the result
  atomically and returns it. \<open>crypto.subtle.digest\<close>, \<open>fetch\<close> and the fatal UTF-8 decoder are arguments.
\<close>

definition MAX_PAYLOAD_BYTES :: nat where "MAX_PAYLOAD_BYTES = 256 * 1024"

section \<open>Shared steps\<close>

definition safe_task_id :: "int \<Rightarrow> bool" where
  "safe_task_id i \<longleftrightarrow> \<bar>i\<bar> \<le> max_safe_integer \<and> 0 < i"

definition bad_task_id :: task_failure where
  "bad_task_id = TaskFailure ''task id must be a positive safe integer''"

text \<open>A payload as an object that has only these properties.\<close>

definition parse_object_payload :: "runtime \<Rightarrow> string list \<Rightarrow> string \<Rightarrow> task_failure + json" where
  "parse_object_payload rt allowed raw =
     (case rt_json_parse rt raw of
        None \<Rightarrow> Inl (InvalidPayload ''payload must be valid JSON'')
      | Some v \<Rightarrow>
          if \<not> is_record v then Inl (InvalidPayload ''payload must be a JSON object'')
          else (case find (\<lambda>k. k \<notin> set allowed) (keys_of (fields_of v)) of
                  Some key \<Rightarrow> Inl (InvalidPayload (''unsupported payload field: '' @ key))
                | None \<Rightarrow> Inr v))"

text \<open>The write of a result that all the workers share: a temporary file, renamed when it is complete.\<close>

definition write_result_file ::
  "(string \<Rightarrow> string \<Rightarrow> string) \<Rightarrow> string \<Rightarrow> write_faults \<Rightarrow> string \<Rightarrow> int \<Rightarrow> string \<Rightarrow> (string \<rightharpoonup> string)
   \<Rightarrow> (string \<rightharpoonup> string) \<times> (string + string)" where
  "write_result_file path_join uuid faults dir task_id json_text fs =
     (case wf_mkdir faults of
        Some e \<Rightarrow> (fs, Inl e)
      | None \<Rightarrow>
     (let final = final_path path_join dir task_id; temp = temp_path path_join dir task_id uuid
      in if fs temp \<noteq> None then (removed_temp faults temp fs, Inl ''EEXIST'')
         else
     (case wf_write faults of
        Some (e, left) \<Rightarrow> (removed_temp faults temp (fs(temp := left)), Inl e)
      | None \<Rightarrow>
          (let written = fs(temp \<mapsto> json_text @ [char_of (10::nat)])
           in case wf_rename faults of
                Some e \<Rightarrow> (removed_temp faults temp written, Inl e)
              | None \<Rightarrow> (written(final := written temp, temp := None), Inr final)))))"

definition write_task_result_atomic ::
  "(string \<Rightarrow> string \<Rightarrow> string) \<Rightarrow> string \<Rightarrow> write_faults \<Rightarrow> string \<Rightarrow> int \<Rightarrow> string \<Rightarrow> (string \<rightharpoonup> string)
   \<Rightarrow> (string \<rightharpoonup> string) \<times> (string + string)" where
  "write_task_result_atomic path_join uuid faults dir task_id json_text fs =
     (if length dir = 0 then (fs, Inl ''output directory must not be empty'')
      else write_result_file path_join uuid faults dir task_id json_text fs)"

text \<open>A handler: the result, then its write; what is returned is the result.\<close>

record handler_world =
  hw_join :: "string \<Rightarrow> string \<Rightarrow> string"
  hw_uuid :: string
  hw_faults :: write_faults

definition write_then_return ::
  "runtime \<Rightarrow> (string \<Rightarrow> (string \<rightharpoonup> string) \<Rightarrow> (string \<rightharpoonup> string) \<times> (string + string)) \<Rightarrow> task_failure + json
   \<Rightarrow> (string \<rightharpoonup> string) \<Rightarrow> (string \<rightharpoonup> string) \<times> (task_failure + json option)" where
  "write_then_return rt write computed fs =
     (case computed of
        Inl e \<Rightarrow> (fs, Inl e)
      | Inr result \<Rightarrow>
          (case write (rt_json_text rt result) fs of
             (fs', Inl e) \<Rightarrow> (fs', Inl (TaskFailure e))
           | (fs', Inr path) \<Rightarrow> (fs', Inr (Some result))))"

definition task_writer ::
  "handler_world \<Rightarrow> string \<Rightarrow> int \<Rightarrow> string \<Rightarrow> (string \<rightharpoonup> string) \<Rightarrow> (string \<rightharpoonup> string) \<times> (string + string)" where
  "task_writer w dir task_id = write_task_result_atomic (hw_join w) (hw_uuid w) (hw_faults w) dir task_id"

fun classify_payload_error :: "task_failure \<Rightarrow> string" where
  "classify_payload_error (InvalidPayload m) = ''invalid_payload''"
| "classify_payload_error (TaskFailure m) = ''processing_failed''"

section \<open>\<open>hash.compute\<close>\<close>

definition parse_hash_payload :: "runtime \<Rightarrow> string \<Rightarrow> task_failure + string \<times> string" where
  "parse_hash_payload rt raw =
     (case parse_object_payload rt [''data'', ''algorithm''] raw of
        Inl e \<Rightarrow> Inl e
      | Inr v \<Rightarrow>
          if \<not> is_string (field v ''data'') then Inl (InvalidPayload ''payload.data must be a string'')
          else if field v ''algorithm'' \<noteq> Some (JStr ''sha256'') \<and> field v ''algorithm'' \<noteq> Some (JStr ''sha512'')
            then Inl (InvalidPayload ''payload.algorithm must be sha256 or sha512'')
          else if byte_length (str_of (field v ''data'')) > MAX_PAYLOAD_BYTES
            then Inl (InvalidPayload ''payload.data exceeds the 256 KiB worker limit'')
          else Inr (str_of (field v ''data''), str_of (field v ''algorithm'')))"

definition compute_hash :: "runtime \<Rightarrow> (string \<Rightarrow> nat list \<Rightarrow> nat list) \<Rightarrow> int \<Rightarrow> string \<Rightarrow> task_failure + json" where
  "compute_hash rt digest task_id raw =
     (if \<not> safe_task_id task_id then Inl bad_task_id
      else (case parse_hash_payload rt raw of
              Inl e \<Rightarrow> Inl e
            | Inr (data, algorithm) \<Rightarrow>
                Inr (JObj [(''schema_version'', JInt 1), (''task_id'', JInt task_id), (''algorithm'', JStr algorithm),
                  (''bytes'', JInt (int (byte_length data))),
                  (''digest'', JStr (hex_of (digest (if algorithm = ''sha256'' then ''SHA-256'' else ''SHA-512'') (utf8 data))))])))"

definition handle_hash ::
  "runtime \<Rightarrow> (string \<Rightarrow> nat list \<Rightarrow> nat list) \<Rightarrow> handler_world \<Rightarrow> string \<Rightarrow> claimed_task \<Rightarrow> (string \<rightharpoonup> string)
   \<Rightarrow> (string \<rightharpoonup> string) \<times> (task_failure + json option)" where
  "handle_hash rt digest w dir task =
     write_then_return rt (task_writer w dir (ct_task_id task)) (compute_hash rt digest (ct_task_id task) (ct_payload task))"

definition hash_compute_handler :: worker_handler where
  "hash_compute_handler =
     \<lparr>wh_task_name = ''hash.compute'', wh_task_type = ''cpu'', wh_classify = Some classify_payload_error\<rparr>"

section \<open>\<open>document.process\<close>\<close>

definition parse_document_payload :: "runtime \<Rightarrow> string \<Rightarrow> task_failure + string \<times> string option" where
  "parse_document_payload rt raw =
     (case parse_object_payload rt [''text'', ''document_id''] raw of
        Inl e \<Rightarrow> Inl e
      | Inr v \<Rightarrow>
          if \<not> is_string (field v ''text'') then Inl (InvalidPayload ''payload.text must be a string'')
          else if byte_length (str_of (field v ''text'')) > MAX_PAYLOAD_BYTES
            then Inl (InvalidPayload ''payload.text exceeds the 256 KiB worker limit'')
          else if field v ''document_id'' \<noteq> None
                  \<and> (\<not> is_string (field v ''document_id'') \<or> \<not> safe_name (str_of (field v ''document_id'')))
            then Inl (InvalidPayload ''payload.document_id must be a 1-128 character safe identifier'')
          else Inr (str_of (field v ''text''), map_option (\<lambda>i. str_of (Some i)) (field v ''document_id'')))"

text \<open>The pieces of \<open>split(/\r\n|\r|\n/)\<close> and of \<open>split(/\s+/u)\<close>, counted.\<close>

fun line_count :: "string \<Rightarrow> nat" where
  "line_count (c # d # s) =
     (if unit_of c = 13 \<and> unit_of d = 10 then Suc (line_count s)
      else if unit_of c = 13 \<or> unit_of c = 10 then Suc (line_count (d # s))
      else line_count (d # s))"
| "line_count [c] = (if unit_of c = 13 \<or> unit_of c = 10 then 2 else 1)"
| "line_count [] = 1"

fun space_runs :: "bool \<Rightarrow> string \<Rightarrow> nat" where
  "space_runs within_run [] = 0"
| "space_runs within_run (c # s) =
     (if is_space c then (if within_run then 0 else 1) + space_runs True s else space_runs False s)"

definition word_count :: "string \<Rightarrow> nat" where
  "word_count text = (let trimmed = trim text in if length trimmed = 0 then 0 else Suc (space_runs False trimmed))"

definition process_document :: "runtime \<Rightarrow> (string \<Rightarrow> nat list \<Rightarrow> nat list) \<Rightarrow> int \<Rightarrow> string \<Rightarrow> task_failure + json" where
  "process_document rt digest task_id raw =
     (if \<not> safe_task_id task_id then Inl bad_task_id
      else (case parse_document_payload rt raw of
              Inl e \<Rightarrow> Inl e
            | Inr (text, document_id) \<Rightarrow>
                Inr (JObj ([(''schema_version'', JInt 1), (''task_id'', JInt task_id),
                  (''bytes'', JInt (int (byte_length text))), (''characters'', JInt (int (length text))),
                  (''lines'', JInt (int (if length text = 0 then 0 else line_count text))),
                  (''words'', JInt (int (word_count text))), (''sha256'', JStr (hex_of (digest ''SHA-256'' (utf8 text))))]
                  @ (case document_id of None \<Rightarrow> [] | Some i \<Rightarrow> [(''document_id'', JStr i)])))))"

definition handle_document ::
  "runtime \<Rightarrow> (string \<Rightarrow> nat list \<Rightarrow> nat list) \<Rightarrow> handler_world \<Rightarrow> string \<Rightarrow> claimed_task \<Rightarrow> (string \<rightharpoonup> string)
   \<Rightarrow> (string \<rightharpoonup> string) \<times> (task_failure + json option)" where
  "handle_document rt digest w dir task =
     write_then_return rt (task_writer w dir (ct_task_id task)) (process_document rt digest (ct_task_id task) (ct_payload task))"

definition document_process_handler :: worker_handler where
  "document_process_handler =
     \<lparr>wh_task_name = ''document.process'', wh_task_type = ''cpu'', wh_classify = Some classify_payload_error\<rparr>"

definition reference_worker_registry :: "string + worker_registry" where
  "reference_worker_registry = create_worker_registry ''cpu'' [document_process_handler, hash_compute_handler]"

section \<open>\<open>vector.dot\<close>\<close>

definition MAX_VECTOR_LENGTH :: nat where "MAX_VECTOR_LENGTH = 4096"
definition MAX_VECTOR_ELEMENT_ABS :: int where "MAX_VECTOR_ELEMENT_ABS = 1000000"

definition vector_entry_ok :: "json \<Rightarrow> bool" where
  "vector_entry_ok v \<longleftrightarrow> is_safe_integer (Some v) \<and> \<bar>int_of (Some v)\<bar> \<le> MAX_VECTOR_ELEMENT_ABS"

fun vector_entries :: "string \<Rightarrow> nat \<Rightarrow> json list \<Rightarrow> task_failure + int list" where
  "vector_entries label index [] = Inr []"
| "vector_entries label index (v # vs) =
     (if \<not> vector_entry_ok v
        then Inl (InvalidPayload (''payload.'' @ label @ ''['' @ nat_text index @ ''] must be a safe integer between -''
               @ int_text MAX_VECTOR_ELEMENT_ABS @ '' and '' @ int_text MAX_VECTOR_ELEMENT_ABS))
      else map_sum id ((#) (int_of (Some v))) (vector_entries label (Suc index) vs))"

definition validate_vector :: "json option \<Rightarrow> string \<Rightarrow> task_failure + int list" where
  "validate_vector v label =
     (if \<not> is_array v then Inl (InvalidPayload (''payload.'' @ label @ '' must be an array''))
      else if length (arr_of v) = 0 \<or> length (arr_of v) > MAX_VECTOR_LENGTH
        then Inl (InvalidPayload (''payload.'' @ label @ '' length must be between 1 and '' @ nat_text MAX_VECTOR_LENGTH))
      else vector_entries label 0 (arr_of v))"

definition parse_vector_payload :: "runtime \<Rightarrow> string \<Rightarrow> task_failure + int list \<times> int list" where
  "parse_vector_payload rt raw =
     (if byte_length raw > MAX_PAYLOAD_BYTES then Inl (InvalidPayload ''payload exceeds the 256 KiB reference worker limit'')
      else (case parse_object_payload rt [''a'', ''b''] raw of
              Inl e \<Rightarrow> Inl e
            | Inr v \<Rightarrow>
      (case validate_vector (field v ''a'') ''a'' of
         Inl e \<Rightarrow> Inl e
       | Inr a \<Rightarrow>
      (case validate_vector (field v ''b'') ''b'' of
         Inl e \<Rightarrow> Inl e
       | Inr b \<Rightarrow>
           if length a \<noteq> length b then Inl (InvalidPayload ''payload.a and payload.b must have the same length'')
           else Inr (a, b)))))"

text \<open>The loop over both vectors, on integers; that no double on the way is rounded is shown below.\<close>

fun dot_from :: "int \<Rightarrow> int list \<Rightarrow> int list \<Rightarrow> int" where
  "dot_from dot (x # xs) (y # ys) = dot_from (dot + x * y) xs ys"
| "dot_from dot xs ys = dot"

definition compute_vector_dot :: "runtime \<Rightarrow> int \<Rightarrow> string \<Rightarrow> task_failure + json" where
  "compute_vector_dot rt task_id raw =
     (if \<not> safe_task_id task_id then Inl bad_task_id
      else (case parse_vector_payload rt raw of
              Inl e \<Rightarrow> Inl e
            | Inr (a, b) \<Rightarrow>
                (let dot = dot_from 0 a b
                 in if \<bar>dot\<bar> > max_safe_integer
                      then Inl (TaskFailure ''bounded vector dot result exceeded safe integer range'')
                    else Inr (JObj [(''schema_version'', JInt 1), (''task_id'', JInt task_id),
                      (''length'', JInt (int (length a))), (''dot'', JInt dot)]))))"

definition handle_vector ::
  "runtime \<Rightarrow> handler_world \<Rightarrow> string \<Rightarrow> claimed_task \<Rightarrow> (string \<rightharpoonup> string)
   \<Rightarrow> (string \<rightharpoonup> string) \<times> (task_failure + json option)" where
  "handle_vector rt w dir task =
     write_then_return rt (task_writer w dir (ct_task_id task)) (compute_vector_dot rt (ct_task_id task) (ct_payload task))"

definition vector_dot_handler :: worker_handler where
  "vector_dot_handler =
     \<lparr>wh_task_name = ''vector.dot'', wh_task_type = ''vector'', wh_classify = Some classify_payload_error\<rparr>"

definition vector_worker_registry :: "string + worker_registry" where
  "vector_worker_registry = create_worker_registry ''vector'' [vector_dot_handler]"


section \<open>\<open>agent.invoke\<close>\<close>

definition MAX_REMOTE_INPUT_BYTES :: nat where "MAX_REMOTE_INPUT_BYTES = 256 * 1024"
definition MAX_REMOTE_RESPONSE_BYTES :: nat where "MAX_REMOTE_RESPONSE_BYTES = 256 * 1024"

record remote_config =
  ra_endpoint :: string
  ra_provider_id :: string
  ra_bearer_token :: "string option"
  ra_timeout_ms :: int

text \<open>
  The call of the agent, and what \<open>fetch\<close> gives: a rejection, or a status with the chunks of the body, of which
  one may be a failure to read on.
\<close>

record remote_call =
  rm_url :: string
  rm_headers :: "(string \<times> string) list"
  rm_body :: string

record remote_response =
  ag_status :: nat
  ag_content_type :: "string option"
  ag_chunks :: "(string + nat list) list option"

type_synonym remote_fetch = "remote_call \<Rightarrow> string + remote_response"

definition normalize_remote_endpoint :: "runtime \<Rightarrow> string \<Rightarrow> string + string" where
  "normalize_remote_endpoint rt raw =
     (case rt_url rt raw of
        None \<Rightarrow> Inl ''TypeError''
      | Some u \<Rightarrow>
          if u_protocol u \<noteq> ''https:'' \<and> \<not> (u_protocol u = ''http:'' \<and> is_loopback_host (to_lower (u_hostname u)))
            then Inl ''REMOTE_AGENT_ENDPOINT must use https, or http on loopback only''
          else if u_username u \<noteq> [] \<or> u_password u \<noteq> [] \<or> u_search u \<noteq> [] \<or> u_hash u \<noteq> []
            then Inl ''REMOTE_AGENT_ENDPOINT must not contain credentials, query, or fragment''
          else Inr (u_href u))"

definition validate_remote_agent_config :: "runtime \<Rightarrow> remote_config \<Rightarrow> string + remote_config" where
  "validate_remote_agent_config rt config =
     (case normalize_remote_endpoint rt (ra_endpoint config) of
        Inl e \<Rightarrow> Inl e
      | Inr endpoint \<Rightarrow>
          if \<not> safe_name (ra_provider_id config)
            then Inl ''REMOTE_AGENT_PROVIDER_ID must be a safe 1-128 character identifier''
          else if \<bar>ra_timeout_ms config\<bar> > max_safe_integer \<or> ra_timeout_ms config < 100 \<or> ra_timeout_ms config > 300000
            then Inl ''REMOTE_AGENT_REQUEST_TIMEOUT_MS must be between 100 and 300000''
          else if (case ra_bearer_token config of
                     None \<Rightarrow> False
                   | Some t \<Rightarrow> length t = 0 \<or> length t > 4096 \<or> list_ex (\<lambda>c. unit_of c = 13 \<or> unit_of c = 10) t)
            then Inl ''REMOTE_AGENT_BEARER_TOKEN is invalid''
          else Inr (config\<lparr>ra_endpoint := endpoint\<rparr>))"

definition parse_remote_agent_invocation :: "runtime \<Rightarrow> string \<Rightarrow> task_failure + json \<times> string option" where
  "parse_remote_agent_invocation rt raw =
     (if byte_length raw > MAX_REMOTE_INPUT_BYTES then Inl (InvalidPayload ''remote agent payload exceeds 256 KiB'')
      else (case parse_object_payload rt [''input'', ''request_id''] raw of
              Inl e \<Rightarrow> Inl e
            | Inr v \<Rightarrow>
      (case field v ''input'' of
         None \<Rightarrow> Inl (InvalidPayload ''payload.input is required'')
       | Some input \<Rightarrow>
           if field v ''request_id'' \<noteq> None
              \<and> (\<not> is_string (field v ''request_id'') \<or> \<not> safe_name (str_of (field v ''request_id'')))
             then Inl (InvalidPayload ''payload.request_id must be a safe 1-128 character identifier'')
           else Inr (input, map_option (\<lambda>i. str_of (Some i)) (field v ''request_id'')))))"

text \<open>The body of the answer, read chunk by chunk up to the limit.\<close>

fun read_remote_chunks :: "nat list \<Rightarrow> (string + nat list) list \<Rightarrow> string + nat list" where
  "read_remote_chunks bytes [] = Inr bytes"
| "read_remote_chunks bytes (Inl m # chunks) = Inl (''remote agent request failed: '' @ m)"
| "read_remote_chunks bytes (Inr chunk # chunks) =
     (if length bytes + length chunk > MAX_REMOTE_RESPONSE_BYTES then Inl ''remote agent response exceeds 256 KiB''
      else read_remote_chunks (bytes @ chunk) chunks)"

definition read_remote_json :: "runtime \<Rightarrow> (nat list \<Rightarrow> string option) \<Rightarrow> remote_response \<Rightarrow> string + json" where
  "read_remote_json rt decode response =
     (let content_type = to_lower (case ag_content_type response of None \<Rightarrow> [] | Some s \<Rightarrow> s)
      in if \<not> includes_str content_type ''application/json'' then Inl ''remote agent response must be application/json''
         else
     (case ag_chunks response of
        None \<Rightarrow> Inl ''remote agent response body is missing''
      | Some chunks \<Rightarrow>
     (case read_remote_chunks [] chunks of
        Inl e \<Rightarrow> Inl e
      | Inr bytes \<Rightarrow>
     (case decode bytes of
        None \<Rightarrow> Inl ''remote agent response is not valid UTF-8''
      | Some text \<Rightarrow>
     (case rt_json_parse rt text of
        None \<Rightarrow> Inl ''remote agent response is not valid JSON''
      | Some v \<Rightarrow>
          if \<not> is_record v then Inl ''remote agent response must be a JSON object''
          else (case find (\<lambda>k. k \<notin> {''result'', ''meta''}) (keys_of (fields_of v)) of
                  Some key \<Rightarrow> Inl (''unsupported remote response field: '' @ key)
                | None \<Rightarrow>
                    if field v ''result'' = None then Inl ''remote agent response.result is required''
                    else if (case field v ''meta'' of None \<Rightarrow> False | Some m \<Rightarrow> \<not> is_record m)
                      then Inl ''remote agent response.meta must be a JSON object''
                    else Inr v))))))"

definition named :: "string \<Rightarrow> json option \<Rightarrow> (string \<times> json) list" where
  "named key v = (case v of None \<Rightarrow> [] | Some w \<Rightarrow> [(key, w)])"

definition remote_call_of :: "runtime \<Rightarrow> remote_config \<Rightarrow> int \<Rightarrow> json \<Rightarrow> string option \<Rightarrow> remote_call" where
  "remote_call_of rt config task_id input request_id =
     \<lparr>rm_url = ra_endpoint config,
      rm_headers = [(''Accept'', ''application/json''), (''Content-Type'', ''application/json''),
          (''Idempotency-Key'', ''task-queue-'' @ int_text task_id), (''X-Task-Queue-Task-Id'', int_text task_id)]
        @ (case ra_bearer_token config of None \<Rightarrow> [] | Some t \<Rightarrow> [(''Authorization'', ''Bearer '' @ t)]),
      rm_body = rt_json_text rt (JObj ([(''schema_version'', JInt 1), (''task_id'', JInt task_id)]
        @ named ''request_id'' (map_option JStr request_id) @ [(''input'', input)]))\<rparr>"

text \<open>The calls made, one at most, and the result. An abort of the call is a rejection of \<open>fetch\<close>.\<close>

definition invoke_remote_agent ::
  "runtime \<Rightarrow> (nat list \<Rightarrow> string option) \<Rightarrow> remote_fetch \<Rightarrow> int \<Rightarrow> string \<Rightarrow> remote_config
   \<Rightarrow> remote_call list \<times> (task_failure + json)" where
  "invoke_remote_agent rt decode fetch task_id raw raw_config =
     (if \<not> safe_task_id task_id then ([], Inl bad_task_id)
      else (case parse_remote_agent_invocation rt raw of
              Inl e \<Rightarrow> ([], Inl e)
            | Inr (input, request_id) \<Rightarrow>
      (case validate_remote_agent_config rt raw_config of
         Inl e \<Rightarrow> ([], Inl (TaskFailure e))
       | Inr config \<Rightarrow>
           (let call = remote_call_of rt config task_id input request_id
            in ([call],
                case fetch call of
                  Inl m \<Rightarrow> Inl (TaskFailure (''remote agent request failed: '' @ m))
                | Inr response \<Rightarrow>
                    if \<not> reply_ok (ag_status response)
                      then Inl (TaskFailure (''remote agent returned HTTP '' @ nat_text (ag_status response)))
                    else (case read_remote_json rt decode response of
                            Inl e \<Rightarrow> Inl (TaskFailure e)
                          | Inr remote \<Rightarrow>
                              Inr (JObj ([(''schema_version'', JInt 1), (''task_id'', JInt task_id),
                                  (''provider_id'', JStr (ra_provider_id config))]
                                @ named ''request_id'' (map_option JStr request_id) @ named ''result'' (field remote ''result'')
                                @ named ''meta'' (field remote ''meta'')))))))))"

definition write_remote_agent_result_atomic ::
  "(string \<Rightarrow> string \<Rightarrow> string) \<Rightarrow> string \<Rightarrow> write_faults \<Rightarrow> string \<Rightarrow> int \<Rightarrow> string \<Rightarrow> (string \<rightharpoonup> string)
   \<Rightarrow> (string \<rightharpoonup> string) \<times> (string + string)" where
  "write_remote_agent_result_atomic path_join uuid faults dir task_id json_text fs =
     (if length dir = 0 \<or> list_ex (\<lambda>c. unit_of c = 0) dir then (fs, Inl ''output directory is invalid'')
      else write_result_file path_join uuid faults dir task_id json_text fs)"

definition handle_remote ::
  "runtime \<Rightarrow> (nat list \<Rightarrow> string option) \<Rightarrow> remote_fetch \<Rightarrow> handler_world \<Rightarrow> remote_config \<Rightarrow> string \<Rightarrow> claimed_task
   \<Rightarrow> (string \<rightharpoonup> string) \<Rightarrow> remote_call list \<times> (string \<rightharpoonup> string) \<times> (task_failure + json option)" where
  "handle_remote rt decode fetch w validated dir task fs =
     (case invoke_remote_agent rt decode fetch (ct_task_id task) (ct_payload task) validated of
        (calls, computed) \<Rightarrow>
          (calls, write_then_return rt
             (write_remote_agent_result_atomic (hw_join w) (hw_uuid w) (hw_faults w) dir (ct_task_id task)) computed fs))"

text \<open>The handler for a configuration, with the validated configuration that its \<open>handle\<close> uses.\<close>

definition create_remote_agent_handler :: "runtime \<Rightarrow> remote_config \<Rightarrow> string + worker_handler \<times> remote_config" where
  "create_remote_agent_handler rt config =
     map_sum id (\<lambda>validated. (\<lparr>wh_task_name = ''agent.invoke'', wh_task_type = ''remote-agent'',
         wh_classify = Some classify_payload_error\<rparr>, validated))
       (validate_remote_agent_config rt config)"

definition create_remote_agent_worker_registry :: "runtime \<Rightarrow> remote_config \<Rightarrow> string + worker_registry" where
  "create_remote_agent_worker_registry rt config =
     (case create_remote_agent_handler rt config of
        Inl e \<Rightarrow> Inl e
      | Inr (handler, validated) \<Rightarrow> create_worker_registry ''remote-agent'' [handler])"

definition bounded_integer :: "runtime \<Rightarrow> string option \<Rightarrow> int \<Rightarrow> string \<Rightarrow> int \<Rightarrow> int \<Rightarrow> string + int" where
  "bounded_integer rt raw fallback name min_value max_value =
     (let failure = Inl (name @ '' must be an integer between '' @ int_text min_value @ '' and '' @ int_text max_value)
      in case raw of
           None \<Rightarrow> Inr fallback
         | Some s \<Rightarrow>
             if length s = 0 then Inr fallback
             else (case rt_number rt s of
                     None \<Rightarrow> failure
                   | Some n \<Rightarrow> if \<bar>n\<bar> > max_safe_integer \<or> n < min_value \<or> n > max_value then failure else Inr n))"

definition load_remote_agent_worker_config :: "runtime \<Rightarrow> (string \<rightharpoonup> string) \<Rightarrow> string + worker_config \<times> remote_config" where
  "load_remote_agent_worker_config rt env =
     (let worker_id = or_default (env ''REMOTE_AGENT_WORKER_ID'') ''remote-agent-reference-worker'';
          output_dir = or_default (env ''REMOTE_AGENT_OUTPUT_DIR'') ''./var/remote-agent-results'';
          provider_id = or_default (env ''REMOTE_AGENT_PROVIDER_ID'') ''reference-agent''
      in
      if \<not> safe_name worker_id then Inl ''REMOTE_AGENT_WORKER_ID must be a safe 1-128 character identifier''
      else if length output_dir = 0 \<or> list_ex (\<lambda>c. unit_of c = 0) output_dir then Inl ''REMOTE_AGENT_OUTPUT_DIR is invalid''
      else if \<not> safe_name provider_id then Inl ''REMOTE_AGENT_PROVIDER_ID must be a safe 1-128 character identifier''
      else
     (case normalize_remote_endpoint rt (or_default (env ''REMOTE_AGENT_ENDPOINT'') ''http://127.0.0.1:7440/invoke'') of
        Inl e \<Rightarrow> Inl e
      | Inr endpoint \<Rightarrow>
     (case bounded_integer rt (env ''REMOTE_AGENT_REQUEST_TIMEOUT_MS'') 30000 ''REMOTE_AGENT_REQUEST_TIMEOUT_MS'' 100 300000 of
        Inl e \<Rightarrow> Inl e
      | Inr timeout \<Rightarrow>
     (case loopback_origin rt ''REMOTE_AGENT_WORKER_ORIGIN'' (or_default (env ''REMOTE_AGENT_WORKER_ORIGIN'') ''http://127.0.0.1:7332'') of
        Inl e \<Rightarrow> Inl e
      | Inr origin \<Rightarrow>
     (case bounded_integer rt (env ''REMOTE_AGENT_WORKER_CAPACITY'') 1 ''REMOTE_AGENT_WORKER_CAPACITY'' 1 64 of
        Inl e \<Rightarrow> Inl e
      | Inr capacity \<Rightarrow>
     (case bounded_integer rt (env ''REMOTE_AGENT_WORKER_POLL_MS'') 250 ''REMOTE_AGENT_WORKER_POLL_MS'' 1 60000 of
        Inl e \<Rightarrow> Inl e
      | Inr poll \<Rightarrow>
     (case bounded_integer rt (env ''REMOTE_AGENT_BROKER_TIMEOUT_MS'') 5000 ''REMOTE_AGENT_BROKER_TIMEOUT_MS'' 100 60000 of
        Inl e \<Rightarrow> Inl e
      | Inr broker_timeout \<Rightarrow>
          Inr (\<lparr>wk_origin = origin, wk_worker_id = worker_id, wk_output_dir = output_dir, wk_capacity = capacity,
                wk_poll_ms = poll, wk_process_delay_ms = 0, wk_timeout_ms = broker_timeout\<rparr>,
               \<lparr>ra_endpoint = endpoint, ra_provider_id = provider_id, ra_bearer_token = env ''REMOTE_AGENT_BEARER_TOKEN'',
                ra_timeout_ms = timeout\<rparr>))))))))"


section \<open>What the handlers leave behind\<close>

lemma write_result_file_atomic:
  assumes "\<And>x y. x \<noteq> y \<Longrightarrow> path_join dir x \<noteq> path_join dir y"
    and "fs (temp_path path_join dir i uuid) = None"
    and "write_result_file path_join uuid faults dir i json_text fs = (fs', out)"
  shows "case out of Inl e \<Rightarrow> unchanged_but_temp faults (temp_path path_join dir i uuid) fs fs'
    | Inr path \<Rightarrow> path = final_path path_join dir i \<and> fs' = fs(path \<mapsto> json_text @ [char_of (10::nat)])"
proof -
  let ?temp = "temp_path path_join dir i uuid"
  let ?final = "final_path path_join dir i"
  have ne: "?temp \<noteq> ?final" unfolding temp_path_def final_path_def by (rule assms(1)) simp
  have same: "fs(?temp := None) = fs" using assms(2) by (simp add: fun_upd_idem)
  have final: "fs(?temp \<mapsto> x, ?final \<mapsto> x, ?temp := None) = fs(?final \<mapsto> x)" for x
    using ne assms(2) by (auto simp: fun_eq_iff)
  show ?thesis
    using assms(2,3) same final
    by (cases "wf_mkdir faults"; cases "wf_write faults"; cases "wf_rename faults")
      (auto simp: write_result_file_def Let_def unchanged_but_temp_def removed_temp_def split: if_splits option.splits)
qed

lemma write_then_return_cases:
  assumes "write_then_return rt write computed fs = (fs', outcome)"
  obtains (failed) e where "computed = Inl e" and "fs' = fs" and "outcome = Inl e"
  | (unwritten) result e where "computed = Inr result" and "write (rt_json_text rt result) fs = (fs', Inl e)"
      and "outcome = Inl (TaskFailure e)"
  | (written) result path where "computed = Inr result" and "write (rt_json_text rt result) fs = (fs', Inr path)"
      and "outcome = Inr (Some result)"
  using assms by (auto simp: write_then_return_def split: sum.splits prod.splits)

lemma task_writer_atomic:
  assumes "\<And>x y. x \<noteq> y \<Longrightarrow> hw_join w dir x \<noteq> hw_join w dir y" and "fs (temp_path (hw_join w) dir i (hw_uuid w)) = None"
    and "task_writer w dir i json_text fs = (fs', out)"
  shows "case out of Inl e \<Rightarrow> unchanged_but_temp (hw_faults w) (temp_path (hw_join w) dir i (hw_uuid w)) fs fs'
    | Inr path \<Rightarrow> fs' = fs(final_path (hw_join w) dir i \<mapsto> json_text @ [char_of (10::nat)])"
  using assms(3) write_result_file_atomic [of "hw_join w" dir fs i "hw_uuid w" "hw_faults w" json_text fs' out, OF assms(1,2)]
  by (auto simp: task_writer_def write_task_result_atomic_def unchanged_but_temp_def split: if_splits sum.splits)

lemma vector_entries_InrD:
  "vector_entries label index vs = Inr xs \<Longrightarrow> vs = map JInt xs \<and> (\<forall>x \<in> set xs. \<bar>x\<bar> \<le> 1000000)"
proof (induction vs arbitrary: index xs)
  case (Cons v vs)
  then obtain ys where "vector_entry_ok v" "vector_entries label (Suc index) vs = Inr ys" "xs = int_of (Some v) # ys"
    by (auto simp: map_sum_def split: if_splits sum.splits)
  with Cons.IH show ?case by (cases v) (auto simp: vector_entry_ok_def MAX_VECTOR_ELEMENT_ABS_def)
qed simp

lemma validate_vector_InrD:
  assumes "validate_vector v label = Inr xs"
  shows "v = Some (JArr (map JInt xs))" and "length xs \<le> 4096" and "\<forall>x \<in> set xs. \<bar>x\<bar> \<le> 1000000"
proof -
  obtain vs where v: "v = Some (JArr vs)" "length vs \<le> 4096" "vector_entries label 0 vs = Inr xs"
    using assms by (auto simp: validate_vector_def is_array_iff MAX_VECTOR_LENGTH_def split: if_splits)
  with vector_entries_InrD [OF v(3)] show "v = Some (JArr (map JInt xs))" "length xs \<le> 4096" "\<forall>x \<in> set xs. \<bar>x\<bar> \<le> 1000000"
    by auto
qed

lemma dot_from_sum: "dot_from d xs ys = d + sum_list (map2 (*) xs ys)"
  by (induction d xs ys rule: dot_from.induct) (auto simp: algebra_simps)

lemma dot_bound:
  assumes "\<forall>x \<in> set xs. \<bar>x\<bar> \<le> 1000000" and "\<forall>y \<in> set ys. \<bar>y\<bar> \<le> 1000000"
  shows "\<bar>sum_list (map2 (*) xs ys)\<bar> \<le> int (length xs) * 1000000000000"
  using assms
proof (induction xs arbitrary: ys)
  case (Cons x xs)
  show ?case
  proof (cases ys)
    case (Cons y ys')
    have "\<bar>x * y\<bar> \<le> 1000000 * 1000000"
      unfolding abs_mult using Cons.prems Cons by (intro mult_mono) auto
    moreover have "\<bar>sum_list (map2 (*) xs ys')\<bar> \<le> int (length xs) * 1000000000000"
      using Cons.prems Cons by (intro Cons.IH) auto
    ultimately show ?thesis by (simp add: Cons algebra_simps)
  qed simp
qed simp

lemma dot_safe:
  assumes "length xs \<le> 4096" and "\<forall>x \<in> set xs. \<bar>x\<bar> \<le> 1000000" and "\<forall>y \<in> set ys. \<bar>y\<bar> \<le> 1000000"
  shows "\<bar>dot_from 0 xs ys\<bar> \<le> max_safe_integer"
proof -
  have "int (length xs) * 1000000000000 \<le> 4096 * 1000000000000" using assms(1) by (intro mult_right_mono) auto
  with dot_bound [OF assms(2,3)] show ?thesis by (simp add: dot_from_sum max_safe_integer_def)
qed

lemma parse_vector_payload_InrD:
  assumes "parse_vector_payload rt raw = Inr (a, b)"
  shows "\<exists>v. rt_json_parse rt raw = Some v \<and> field v ''a'' = Some (JArr (map JInt a)) \<and> field v ''b'' = Some (JArr (map JInt b))"
    and "length a = length b" and "length a \<le> 4096"
    and "\<forall>x \<in> set a. \<bar>x\<bar> \<le> 1000000" and "\<forall>y \<in> set b. \<bar>y\<bar> \<le> 1000000"
proof -
  obtain v where v: "parse_object_payload rt [''a'', ''b''] raw = Inr v"
    and ab: "validate_vector (field v ''a'') ''a'' = Inr a" "validate_vector (field v ''b'') ''b'' = Inr b" "length a = length b"
    using assms by (auto simp: parse_vector_payload_def split: if_splits sum.splits)
  have "rt_json_parse rt raw = Some v" using v by (auto simp: parse_object_payload_def split: option.splits if_splits)
  with validate_vector_InrD [OF ab(1)] validate_vector_InrD [OF ab(2)] ab(3)
  show "\<exists>v. rt_json_parse rt raw = Some v \<and> field v ''a'' = Some (JArr (map JInt a)) \<and> field v ''b'' = Some (JArr (map JInt b))"
    "length a = length b" "length a \<le> 4096" "\<forall>x \<in> set a. \<bar>x\<bar> \<le> 1000000" "\<forall>y \<in> set b. \<bar>y\<bar> \<le> 1000000"
    by auto
qed


lemma vector_entries_Inl: "vector_entries label index vs = Inl e \<Longrightarrow> \<exists>m. e = InvalidPayload m"
  by (induction vs arbitrary: index) (auto simp: map_sum_def split: if_splits sum.splits)

lemma parse_vector_payload_Inl: "parse_vector_payload rt raw = Inl e \<Longrightarrow> \<exists>m. e = InvalidPayload m"
  by (auto simp: parse_vector_payload_def parse_object_payload_def validate_vector_def dest: vector_entries_Inl
      split: if_splits sum.splits option.splits)

lemma compute_vector_dot_cases:
  assumes "safe_task_id i"
  obtains (invalid) m where "parse_vector_payload rt raw = Inl (InvalidPayload m)"
      and "compute_vector_dot rt i raw = Inl (InvalidPayload m)"
  | (product) a b where "parse_vector_payload rt raw = Inr (a, b)"
      and "compute_vector_dot rt i raw = Inr (JObj [(''schema_version'', JInt 1), (''task_id'', JInt i),
             (''length'', JInt (int (length a))), (''dot'', JInt (sum_list (map2 (*) a b)))])"
proof (cases "parse_vector_payload rt raw")
  case (Inl e)
  then obtain m where "e = InvalidPayload m" using parse_vector_payload_Inl by blast
  with Inl assms show ?thesis by (intro invalid) (simp_all add: compute_vector_dot_def)
next
  case (Inr ab)
  obtain a b where ab: "ab = (a, b)" by (cases ab)
  note parsed = parse_vector_payload_InrD [OF Inr [unfolded ab]]
  have "\<bar>dot_from 0 a b\<bar> \<le> max_safe_integer" by (rule dot_safe [OF parsed(3,4,5)])
  then show ?thesis
    using Inr assms ab by (intro product) (simp_all add: compute_vector_dot_def Let_def dot_from_sum)
qed



text \<open>Two vectors of length two, written without a fault.\<close>

definition vector_runtime :: runtime where
  "vector_runtime = null_runtime\<lparr>rt_json_parse := (\<lambda>s. Some (JObj [(''a'', JArr [JInt 3, JInt (- 4)]), (''b'', JArr [JInt 5, JInt 6])]))\<rparr>"

definition vector_world :: handler_world where
  "vector_world = \<lparr>hw_join = (\<lambda>a b. a @ ''/'' @ b), hw_uuid = ''u'',
     hw_faults = \<lparr>wf_mkdir = None, wf_write = None, wf_rename = None, wf_rm = None\<rparr>\<rparr>"

definition vector_task :: claimed_task where
  "vector_task = \<lparr>ct_task_id = 5, ct_task_name = ''vector.dot'', ct_task_type = ''vector'', ct_payload = ''v'',
     ct_lease_generation = 1, ct_lease_ms = 900\<rparr>"


text \<open>
  Where a remote agent is called. A task makes at most one call, to the endpoint of the configuration as the URL parser
  prints it: HTTPS, or HTTP on the loopback interface, without credentials, query or fragment. So the configured token,
  the only credential that is sent, goes nowhere else; and the idempotency key names the task.
\<close>

theorem remote_call_confined:
  assumes "create_remote_agent_handler rt config = Inr (handler, validated)"
    and "handle_remote rt decode fetch w validated dir task fs = (calls, left)"
  shows "length calls \<le> 1 \<and> (\<forall>call \<in> set calls.
      (\<exists>u u'. rt_url rt (ra_endpoint config) = Some u \<and> rt_url rt (u_href u) = Some u' \<and> rm_url call = u_href u'
         \<and> (u_protocol u' = ''https:'' \<or> u_protocol u' = ''http:'' \<and> is_loopback_host (to_lower (u_hostname u')))
         \<and> u_username u' = [] \<and> u_password u' = [] \<and> u_search u' = [] \<and> u_hash u' = [])
      \<and> map_of (rm_headers call) ''Idempotency-Key'' = Some (''task-queue-'' @ int_text (ct_task_id task))
      \<and> map_of (rm_headers call) ''Authorization'' = map_option (\<lambda>t. ''Bearer '' @ t) (ra_bearer_token config))"
proof -
  obtain u where valid: "rt_url rt (ra_endpoint config) = Some u" "validated = config\<lparr>ra_endpoint := u_href u\<rparr>"
    using assms(1) by (auto simp: create_remote_agent_handler_def validate_remote_agent_config_def normalize_remote_endpoint_def
        map_sum_def split: sum.splits option.splits if_splits)
  obtain computed where "invoke_remote_agent rt decode fetch (ct_task_id task) (ct_payload task) validated = (calls, computed)"
    using assms(2) by (auto simp: handle_remote_def split: prod.splits)
  then have "calls = [] \<or> (\<exists>input request_id used. validate_remote_agent_config rt validated = Inr used
      \<and> calls = [remote_call_of rt used (ct_task_id task) input request_id])"
    by (auto simp: invoke_remote_agent_def Let_def split: if_splits sum.splits) blast+
  then show ?thesis
  proof (elim disjE exE conjE)
    fix input request_id used
    assume used: "validate_remote_agent_config rt validated = Inr used"
      and calls: "calls = [remote_call_of rt used (ct_task_id task) input request_id]"
    from used valid(2) obtain u' where again: "rt_url rt (u_href u) = Some u'" "used = config\<lparr>ra_endpoint := u_href u'\<rparr>"
      "u_protocol u' = ''https:'' \<or> u_protocol u' = ''http:'' \<and> is_loopback_host (to_lower (u_hostname u'))"
      "u_username u' = []" "u_password u' = []" "u_search u' = []" "u_hash u' = []"
      by (auto simp: validate_remote_agent_config_def normalize_remote_endpoint_def split: sum.splits option.splits if_splits)
    with valid(1) calls show ?thesis by (auto simp: remote_call_of_def split: option.splits)
  qed simp
qed

end
