(* ===== verification/Connector.thy ===== *)
theory Connector
  imports Agents JsCoercion
begin

text \<open>
  The client side of the remote agents: the connector library (\<open>connectors/javascript/src\<close>: \<open>protocol.ts\<close>,
  \<open>mcp.ts\<close>, \<open>agent.ts\<close>) and the two reference programs of \<open>agents/reference\<close>, a polling agent and a sample tool
  server. \<open>fetch\<close> is an argument that takes the call and a world of any type, so that a model of the
  other side can stand for it. The heartbeats of the connector are events between the turns of its loop; polls of the
  reference agent, which a timer starts, are taken one after the other.
\<close>

section \<open>The network and what is thrown\<close>

record http_call =
  ht_method :: string
  ht_url :: string
  ht_headers :: "(string \<times> string) list"
  ht_body :: "string option"

text \<open>A rejection of \<open>fetch\<close>, or a status and the text of the body, of which the reading may be rejected.\<close>

datatype http_reply = Rejected string | Replied nat "string + string"

type_synonym 'w network = "http_call \<Rightarrow> 'w \<Rightarrow> 'w \<times> http_reply"

text \<open>
  What the engine gives besides the runtime: \<open>String(e)\<close> and \<open>e.message\<close> of what it throws itself, and the number of
  the \<open>i = 0, 1, ...\<close> that are below a value that is no integer.
\<close>

record engine =
  en_runtime :: runtime
  en_text :: "string \<Rightarrow> string"
  en_message :: "string \<Rightarrow> string"
  en_bound :: "json \<Rightarrow> nat"

datatype agent_failure =
    GatewayFailure string nat | McpFailure string | PlainFailure string | EngineFailure string

definition error_text :: "string \<Rightarrow> string \<Rightarrow> string" where
  "error_text name message = (if message = [] then name else name @ '': '' @ message)"

fun failure_text :: "engine \<Rightarrow> agent_failure \<Rightarrow> string" where
  "failure_text en (GatewayFailure m status) = error_text ''GatewayError'' m"
| "failure_text en (McpFailure m) = error_text ''MCPError'' m"
| "failure_text en (PlainFailure m) = error_text ''Error'' m"
| "failure_text en (EngineFailure k) = en_text en k"

fun failure_message :: "engine \<Rightarrow> agent_failure \<Rightarrow> string" where
  "failure_message en (GatewayFailure m status) = m"
| "failure_message en (McpFailure m) = m"
| "failure_message en (PlainFailure m) = m"
| "failure_message en (EngineFailure k) = en_message en k"

abbreviation type_error :: agent_failure where "type_error \<equiv> EngineFailure ''TypeError''"
abbreviation syntax_error :: agent_failure where "syntax_error \<equiv> EngineFailure ''SyntaxError''"

definition net_then :: "'w \<times> ('e + 'a) \<Rightarrow> ('a \<Rightarrow> 'w \<Rightarrow> 'w \<times> ('e + 'b)) \<Rightarrow> 'w \<times> ('e + 'b)" where
  "net_then r k = (case snd r of Inl e \<Rightarrow> (fst r, Inl e) | Inr a \<Rightarrow> k a (fst r))"

text \<open>Reading a property, \<open>v.k\<close> and \<open>v?.k\<close>, and the operator \<open>??\<close>.\<close>

definition prop_of :: "json option \<Rightarrow> string \<Rightarrow> agent_failure + json option" where
  "prop_of v k = (case v of None \<Rightarrow> Inl type_error | Some u \<Rightarrow> if u = JNull then Inl type_error else Inr (field u k))"

definition maybe_prop :: "json option \<Rightarrow> string \<Rightarrow> json option" where
  "maybe_prop v k = (case v of None \<Rightarrow> None | Some u \<Rightarrow> field u k)"

definition nullish :: "json option \<Rightarrow> json \<Rightarrow> json" where
  "nullish v d = (case v of None \<Rightarrow> d | Some u \<Rightarrow> if u = JNull then d else u)"

text \<open>\<open>v || d\<close>, and an object's property that \<open>JSON.stringify\<close> leaves out where it is undefined.\<close>

definition or_else :: "json option \<Rightarrow> json \<Rightarrow> json" where
  "or_else v d = (if json_truthy v then the v else d)"

definition opt_pair :: "string \<Rightarrow> json option \<Rightarrow> (string \<times> json) list" where
  "opt_pair k v = (case v of None \<Rightarrow> [] | Some u \<Rightarrow> [(k, u)])"

definition http_ok :: "nat \<Rightarrow> bool" where
  "http_ok status \<longleftrightarrow> 200 \<le> status \<and> status \<le> 299"

definition strip_slash :: "string \<Rightarrow> string" where
  "strip_slash s = (if ends_with s ''/'' then butlast s else s)"

definition is_uri_unescaped :: "char \<Rightarrow> bool" where
  "is_uri_unescaped c \<longleftrightarrow> is_alnum c \<or> c \<in> set ''-_.!~*()'' \<or> unit_of c = 39"

definition upper_hex :: "nat \<Rightarrow> char" where
  "upper_hex n = ''0123456789ABCDEF'' ! n"

definition encode_uri_component :: "string \<Rightarrow> string" where
  "encode_uri_component s =
     concat (map (\<lambda>c. if is_uri_unescaped c then [c]
                      else concat (map (\<lambda>b. [CHR ''%'', upper_hex (b div 16), upper_hex (b mod 16)]) (utf8 [c]))) s)"

section \<open>The client of the gateway\<close>

text \<open>The token is any value, \<open>None\<close> where it is undefined.\<close>

record gateway_client =
  gc_base_url :: string
  gc_agent_id :: string
  gc_token :: "json option"

definition new_gateway_client :: "string \<Rightarrow> string \<Rightarrow> gateway_client" where
  "new_gateway_client gateway_url agent_id =
     \<lparr>gc_base_url = strip_slash gateway_url, gc_agent_id = agent_id, gc_token = Some JNull\<rparr>"

definition client_call :: "runtime \<Rightarrow> gateway_client \<Rightarrow> string \<Rightarrow> string \<Rightarrow> json option \<Rightarrow> bool \<Rightarrow> http_call" where
  "client_call rt c verb path body use_auth =
     \<lparr>ht_method = verb, ht_url = gc_base_url c @ path,
      ht_headers = (''Content-Type'', ''application/json'')
        # (if use_auth \<and> json_truthy (gc_token c) then [(''X-Agent-Token'', js_text_of (gc_token c))] else []),
      ht_body = (if json_truthy body then Some (rt_json_text rt (the body)) else None)\<rparr>"

definition client_answer :: "runtime \<Rightarrow> http_reply \<Rightarrow> agent_failure + json" where
  "client_answer rt reply =
     (case reply of
        Rejected m \<Rightarrow> Inl (EngineFailure m)
      | Replied status txt \<Rightarrow>
          if status = 401 then Inl (GatewayFailure ''Invalid agent token'' 401)
          else if status = 204 then Inr JNull
          else if \<not> http_ok status
            then Inl (GatewayFailure (''Gateway HTTP '' @ nat_text status @ '': ''
                   @ (case txt of Inl m \<Rightarrow> [] | Inr t \<Rightarrow> t)) status)
          else (case txt of
                  Inl m \<Rightarrow> Inl (EngineFailure m)
                | Inr t \<Rightarrow>
                    if t = [] then Inr JNull
                    else (case rt_json_parse rt t of None \<Rightarrow> Inl syntax_error | Some v \<Rightarrow> Inr v)))"

definition client_request ::
  "engine \<Rightarrow> 'w network \<Rightarrow> gateway_client \<Rightarrow> string \<Rightarrow> string \<Rightarrow> json option \<Rightarrow> bool \<Rightarrow> 'w \<Rightarrow> 'w \<times> (agent_failure + json)" where
  "client_request en net c verb path body use_auth w =
     (case net (client_call (en_runtime en) c verb path body use_auth) w of
        (w', reply) \<Rightarrow> (w', client_answer (en_runtime en) reply))"

text \<open>In an array \<open>JSON.stringify\<close> prints \<open>null\<close> for what is undefined.\<close>

definition tools_json :: "json option list \<Rightarrow> json" where
  "tools_json tools = JArr (map (\<lambda>t. case t of None \<Rightarrow> JNull | Some v \<Rightarrow> v) tools)"

definition register_body :: "gateway_client \<Rightarrow> json option list \<Rightarrow> json" where
  "register_body c tools = JObj [(''agent_id'', JStr (gc_agent_id c)), (''tools'', tools_json tools)]"

definition client_register ::
  "engine \<Rightarrow> 'w network \<Rightarrow> json option list \<Rightarrow> gateway_client \<Rightarrow> 'w \<Rightarrow> 'w \<times> (agent_failure + gateway_client)" where
  "client_register en net tools c w =
     net_then (client_request en net c ''POST'' ''/v1/agent/register'' (Some (register_body c tools)) False w)
       (\<lambda>v w'. (w', map_sum id (\<lambda>token. c\<lparr>gc_token := token\<rparr>) (prop_of (Some v) ''token'')))"

definition client_poll :: "engine \<Rightarrow> 'w network \<Rightarrow> gateway_client \<Rightarrow> int \<Rightarrow> 'w \<Rightarrow> 'w \<times> (agent_failure + json)" where
  "client_poll en net c timeout_sec w =
     client_request en net c ''GET''
       (''/v1/agent/poll?agent_id='' @ encode_uri_component (gc_agent_id c) @ ''&timeout='' @ int_text timeout_sec) None True w"

definition submit_result ::
  "engine \<Rightarrow> 'w network \<Rightarrow> gateway_client \<Rightarrow> json option \<Rightarrow> json \<Rightarrow> 'w \<Rightarrow> 'w \<times> (agent_failure + json)" where
  "submit_result en net c task_id result w =
     client_request en net c ''POST'' ''/v1/agent/result''
       (Some (JObj (opt_pair ''task_id'' task_id @ [(''agent_id'', JStr (gc_agent_id c)), (''result'', result)]))) True w"

text \<open>A heartbeat whose failure is not looked at.\<close>

definition client_heartbeat :: "engine \<Rightarrow> 'w network \<Rightarrow> gateway_client \<Rightarrow> json option list \<Rightarrow> 'w \<Rightarrow> 'w" where
  "client_heartbeat en net c tools w =
     fst (client_request en net c ''POST'' ''/v1/agent/heartbeat'' (Some (register_body c tools)) True w)"

section \<open>The client of the tool server\<close>

definition mcp_http_call :: "runtime \<Rightarrow> string \<Rightarrow> string \<Rightarrow> json \<Rightarrow> int \<Rightarrow> http_call" where
  "mcp_http_call rt url verb params i =
     \<lparr>ht_method = ''POST'', ht_url = url, ht_headers = [(''Content-Type'', ''application/json'')],
      ht_body = Some (rt_json_text rt (JObj [(''jsonrpc'', JStr ''2.0''), (''id'', JInt i), (''method'', JStr verb),
        (''params'', params)]))\<rparr>"

definition mcp_answer :: "runtime \<Rightarrow> http_reply \<Rightarrow> agent_failure + json option" where
  "mcp_answer rt reply =
     (case reply of
        Rejected m \<Rightarrow> Inl (EngineFailure m)
      | Replied status txt \<Rightarrow>
          if \<not> http_ok status then Inl (McpFailure (''MCP HTTP '' @ nat_text status))
          else (case txt of
                  Inl m \<Rightarrow> Inl (EngineFailure m)
                | Inr t \<Rightarrow>
                    (case rt_json_parse rt t of
                       None \<Rightarrow> Inl syntax_error
                     | Some data \<Rightarrow>
                         (case prop_of (Some data) ''error'' of
                            Inl e \<Rightarrow> Inl e
                          | Inr err \<Rightarrow>
                              if json_truthy err then Inl (McpFailure (''MCP error: '' @ rt_json_text rt (the err)))
                              else Inr (field data ''result'')))))"

definition mcp_client_request ::
  "engine \<Rightarrow> 'w network \<Rightarrow> string \<Rightarrow> string \<Rightarrow> json \<Rightarrow> int \<Rightarrow> 'w \<Rightarrow> 'w \<times> (agent_failure + json option)" where
  "mcp_client_request en net url verb params i w =
     (case net (mcp_http_call (en_runtime en) url verb params i) w of
        (w', reply) \<Rightarrow> (w', mcp_answer (en_runtime en) reply))"

definition mcp_initialize :: "engine \<Rightarrow> 'w network \<Rightarrow> string \<Rightarrow> 'w \<Rightarrow> 'w \<times> (agent_failure + unit)" where
  "mcp_initialize en net url w =
     net_then (mcp_client_request en net url ''initialize''
         (JObj [(''protocolVersion'', JStr ''2024-11-05''), (''capabilities'', JObj []),
            (''clientInfo'', JObj [(''name'', JStr ''tqq-connector-js''), (''version'', JStr ''0.1.0'')])]) 1 w)
       (\<lambda>ignored w'. (fst (mcp_client_request en net url ''notifications/initialized'' (JObj []) 999 w'), Inr ()))"

definition mcp_list_tools :: "engine \<Rightarrow> 'w network \<Rightarrow> string \<Rightarrow> 'w \<Rightarrow> 'w \<times> (agent_failure + json)" where
  "mcp_list_tools en net url w =
     net_then (mcp_client_request en net url ''tools/list'' (JObj []) 2 w)
       (\<lambda>result w'. (w', map_sum id (\<lambda>tools. or_else tools (JArr [])) (prop_of result ''tools'')))"

text \<open>\<open>v?.[0]\<close>: of an array or a string its first element.\<close>

definition first_item :: "json option \<Rightarrow> json option" where
  "first_item v =
     (case v of
        Some (JArr (u # us)) \<Rightarrow> Some u
      | Some (JStr (c # cs)) \<Rightarrow> Some (JStr [c])
      | Some (JObj ps) \<Rightarrow> map_of ps ''0''
      | _ \<Rightarrow> None)"

text \<open>The texts of \<open>filter\<close> and \<open>map\<close>; an item \<open>null\<close> makes the filter throw.\<close>

fun content_texts :: "json list \<Rightarrow> agent_failure + string list" where
  "content_texts [] = Inr []"
| "content_texts (v # vs) =
     (if v = JNull then Inl type_error
      else map_sum id
        (\<lambda>ts. if field v ''type'' = Some (JStr ''text'')
              then (case field v ''text'' of None \<Rightarrow> [] | Some t \<Rightarrow> if t = JNull then [] else js_text t) # ts else ts)
        (content_texts vs))"

definition tool_outcome :: "json option \<Rightarrow> agent_failure + string" where
  "tool_outcome result =
     (case prop_of result ''isError'' of
        Inl e \<Rightarrow> Inl e
      | Inr is_error \<Rightarrow>
          (let content = maybe_prop result ''content''
           in if json_truthy is_error
                then Inl (McpFailure (js_text (or_else (maybe_prop (first_item content) ''text'') (JStr ''Unknown MCP error''))))
              else (case or_else content (JArr []) of
                      JArr vs \<Rightarrow> map_sum id (join [char_of (10::nat)]) (content_texts vs)
                    | _ \<Rightarrow> Inl type_error)))"

definition call_params :: "json option \<Rightarrow> json \<Rightarrow> json" where
  "call_params tool args = JObj (opt_pair ''name'' tool @ [(''arguments'', args)])"

definition mcp_call_tool ::
  "engine \<Rightarrow> 'w network \<Rightarrow> string \<Rightarrow> json option \<Rightarrow> json \<Rightarrow> 'w \<Rightarrow> 'w \<times> (agent_failure + string)" where
  "mcp_call_tool en net url tool args w =
     net_then (mcp_client_request en net url ''tools/call'' (call_params tool args) 3 w) (\<lambda>result w'. (w', tool_outcome result))"

section \<open>The connector\<close>

record connector =
  cn_gateway :: gateway_client
  cn_mcp_url :: string
  cn_agent_id :: string
  cn_poll_timeout :: int
  cn_heartbeat_ms :: int
  cn_running :: bool
  cn_tools :: "json option list"

definition or_number :: "int option \<Rightarrow> int \<Rightarrow> int" where
  "or_number v d = (case v of None \<Rightarrow> d | Some n \<Rightarrow> if n = 0 then d else n)"

definition new_connector :: "string \<Rightarrow> string \<Rightarrow> string \<Rightarrow> int option \<Rightarrow> int option \<Rightarrow> connector" where
  "new_connector gateway_url agent_id mcp_url poll_timeout heartbeat_ms =
     \<lparr>cn_gateway = new_gateway_client gateway_url agent_id, cn_mcp_url = strip_slash mcp_url, cn_agent_id = agent_id,
      cn_poll_timeout = or_number poll_timeout 30, cn_heartbeat_ms = or_number heartbeat_ms 30000,
      cn_running = False, cn_tools = []\<rparr>"

definition execute_invoke ::
  "engine \<Rightarrow> 'w network \<Rightarrow> connector \<Rightarrow> json \<Rightarrow> 'w \<Rightarrow> 'w \<times> (agent_failure + json)" where
  "execute_invoke en net c payload w =
     (if field payload ''agent'' \<noteq> Some (JStr (cn_agent_id c)) then (w, Inl (PlainFailure ''Task not for this agent''))
      else
        net_then (mcp_call_tool en net (cn_mcp_url c) (field payload ''tool'') (or_else (field payload ''arguments'') (JObj [])) w)
          (\<lambda>result w'. (w', Inr (JObj ([(''agent'', JStr (cn_agent_id c))] @ opt_pair ''tool'' (field payload ''tool'')
             @ [(''mcp_result'', JStr result)])))))"

text \<open>The values \<open>steps[0]\<close>, ..., \<open>steps[steps.length - 1]\<close> of any value.\<close>

definition items_of :: "engine \<Rightarrow> json \<Rightarrow> json option list" where
  "items_of en v =
     (case v of
        JArr vs \<Rightarrow> map Some vs
      | JStr s \<Rightarrow> map (\<lambda>c. Some (JStr [c])) s
      | JObj ps \<Rightarrow>
          (case map_of ps ''length'' of
             None \<Rightarrow> []
           | Some n \<Rightarrow> map (\<lambda>i. map_of ps (nat_text i)) [0..<(case n of JInt i \<Rightarrow> nat i | _ \<Rightarrow> en_bound en n)])
      | _ \<Rightarrow> [])"

definition skipped_entry :: "nat \<Rightarrow> json" where
  "skipped_entry i =
     JObj [(''step'', JInt (int i)), (''skipped'', JBool True), (''reason'', JStr ''not for this agent'')]"

definition step_entry :: "nat \<Rightarrow> json \<Rightarrow> string \<Rightarrow> json" where
  "step_entry i step result =
     JObj ([(''step'', JInt (int i))] @ opt_pair ''agent'' (field step ''agent'') @ opt_pair ''tool'' (field step ''tool'')
       @ [(''mcp_result'', JStr result)])"

fun connector_steps ::
  "engine \<Rightarrow> 'w network \<Rightarrow> connector \<Rightarrow> nat \<Rightarrow> json option list \<Rightarrow> 'w \<Rightarrow> 'w \<times> (agent_failure + json list)" where
  "connector_steps en net c i [] w = (w, Inr [])"
| "connector_steps en net c i (s # ss) w =
     (case prop_of s ''agent'' of
        Inl e \<Rightarrow> (w, Inl e)
      | Inr agent \<Rightarrow>
          if agent \<noteq> Some (JStr (cn_agent_id c))
            then net_then (connector_steps en net c (Suc i) ss w) (\<lambda>rs w'. (w', Inr (skipped_entry i # rs)))
          else
            net_then (mcp_call_tool en net (cn_mcp_url c) (field (the s) ''tool'')
                (or_else (field (the s) ''arguments'') (JObj [])) w)
              (\<lambda>result w'. net_then (connector_steps en net c (Suc i) ss w')
                 (\<lambda>rs w''. (w'', Inr (step_entry i (the s) result # rs)))))"

definition run_workflow ::
  "engine \<Rightarrow> 'w network \<Rightarrow> connector \<Rightarrow> json \<Rightarrow> 'w \<Rightarrow> 'w \<times> (agent_failure + json)" where
  "run_workflow en net c payload w =
     net_then (connector_steps en net c 0 (items_of en (or_else (field payload ''steps'') (JArr []))) w)
       (\<lambda>results w'. (w', Inr (JObj
          [(''steps_completed'', JInt (int (length (filter (\<lambda>r. \<not> json_truthy (field r ''skipped'')) results)))),
           (''results'', JArr results)])))"

definition task_outcome ::
  "engine \<Rightarrow> 'w network \<Rightarrow> connector \<Rightarrow> json \<Rightarrow> 'w \<Rightarrow> 'w \<times> (agent_failure + json)" where
  "task_outcome en net c task w =
     (let kind = field task ''type''; payload = or_else (field task ''payload'') (JObj [])
      in if kind = Some (JStr ''agent.invoke'') then execute_invoke en net c payload w
         else if kind = Some (JStr ''workflow.run'') then run_workflow en net c payload w
         else (w, Inl (PlainFailure (''Unknown task type: '' @ js_text_of kind))))"

text \<open>The result is submitted within the \<open>try\<close>, the error after it, whose own failure is not looked at.\<close>

definition execute_task :: "engine \<Rightarrow> 'w network \<Rightarrow> connector \<Rightarrow> json \<Rightarrow> 'w \<Rightarrow> 'w" where
  "execute_task en net c task w =
     (case net_then (task_outcome en net c task w)
             (\<lambda>result w1. submit_result en net (cn_gateway c) (field task ''task_id'') result w1) of
        (w', Inr ignored) \<Rightarrow> w'
      | (w', Inl e) \<Rightarrow>
          fst (submit_result en net (cn_gateway c) (field task ''task_id'') (JObj [(''error'', JStr (failure_text en e))]) w'))"

definition token_rejected :: "agent_failure \<Rightarrow> bool" where
  "token_rejected e = (case e of GatewayFailure m status \<Rightarrow> status = 401 | _ \<Rightarrow> False)"

definition register_connector :: "engine \<Rightarrow> 'w network \<Rightarrow> connector \<Rightarrow> 'w \<Rightarrow> 'w \<times> (agent_failure + connector)" where
  "register_connector en net c w =
     net_then (client_register en net (cn_tools c) (cn_gateway c) w) (\<lambda>g w'. (w', Inr (c\<lparr>cn_gateway := g\<rparr>)))"

definition connector_turn :: "engine \<Rightarrow> 'w network \<Rightarrow> connector \<Rightarrow> 'w \<Rightarrow> 'w \<times> (agent_failure + connector)" where
  "connector_turn en net c w =
     (case client_poll en net (cn_gateway c) (cn_poll_timeout c) w of
        (w', Inr task) \<Rightarrow> ((if json_truthy (Some task) then execute_task en net c task w' else w'), Inr c)
      | (w', Inl e) \<Rightarrow> if token_rejected e then register_connector en net c w' else (w', Inr c))"

datatype connector_event = PollTurn | BeatNow | StopNow

fun connector_loop ::
  "engine \<Rightarrow> 'w network \<Rightarrow> connector_event list \<Rightarrow> connector \<Rightarrow> 'w \<Rightarrow> 'w \<times> (agent_failure + connector)" where
  "connector_loop en net [] c w = (w, Inr c)"
| "connector_loop en net (StopNow # es) c w = (w, Inr (c\<lparr>cn_running := False\<rparr>))"
| "connector_loop en net (BeatNow # es) c w =
     connector_loop en net es c
       (if cn_running c then client_heartbeat en net (cn_gateway c) (cn_tools c) w else w)"
| "connector_loop en net (PollTurn # es) c w =
     net_then (connector_turn en net c w) (\<lambda>c' w'. connector_loop en net es c' w')"

text \<open>\<open>tools.map((t) => t.name)\<close>, and \<open>token.slice\<close> of what is no string or array.\<close>

fun tool_names_of :: "json list \<Rightarrow> agent_failure + json option list" where
  "tool_names_of [] = Inr []"
| "tool_names_of (t # ts) =
     (case prop_of (Some t) ''name'' of
        Inl e \<Rightarrow> Inl e
      | Inr name \<Rightarrow> map_sum id ((#) name) (tool_names_of ts))"

definition listed_names :: "json \<Rightarrow> agent_failure + json option list" where
  "listed_names tools = (case tools of JArr vs \<Rightarrow> tool_names_of vs | _ \<Rightarrow> Inl type_error)"

definition connector_start ::
  "engine \<Rightarrow> 'w network \<Rightarrow> connector_event list \<Rightarrow> connector \<Rightarrow> 'w \<Rightarrow> 'w \<times> (agent_failure + connector)" where
  "connector_start en net events c w =
     net_then (mcp_initialize en net (cn_mcp_url c) w) (\<lambda>ignored w1.
     net_then (mcp_list_tools en net (cn_mcp_url c) w1) (\<lambda>tools w2.
     net_then (w2, listed_names tools) (\<lambda>names w3.
     net_then (register_connector en net (c\<lparr>cn_tools := names\<rparr>) w3) (\<lambda>c1 w4.
       if \<not> (is_string (gc_token (cn_gateway c1)) \<or> is_array (gc_token (cn_gateway c1))) then (w4, Inl type_error)
       else connector_loop en net events (c1\<lparr>cn_running := True\<rparr>) w4))))"

section \<open>The polling agent\<close>

record polling_config =
  pl_gateway :: string
  pl_token :: string
  pl_mcp_url :: string
  pl_agent_id :: string

text \<open>The variables of the environment; \<open>None\<close> where the program exits.\<close>

definition env_default :: "string option \<Rightarrow> string \<Rightarrow> string" where
  "env_default v d = (case v of None \<Rightarrow> d | Some s \<Rightarrow> s)"

definition polling_config_of :: "(string \<rightharpoonup> string) \<Rightarrow> polling_config option" where
  "polling_config_of variables =
     (let gateway = env_default (variables ''TQQ_GATEWAY_URL'') []; token = env_default (variables ''TQQ_GATEWAY_TOKEN'') []
      in if gateway = [] \<or> token = [] then None
         else Some \<lparr>pl_gateway = gateway, pl_token = token,
                    pl_mcp_url = env_default (variables ''TQQ_MCP_URL'') ''http://127.0.0.1:18090/'',
                    pl_agent_id = env_default (variables ''TQQ_AGENT_ID'') ''sandbox-agent''\<rparr>)"

definition local_call :: "runtime \<Rightarrow> string \<Rightarrow> string \<Rightarrow> json \<Rightarrow> int option \<Rightarrow> http_call" where
  "local_call rt url verb params i =
     \<lparr>ht_method = ''POST'', ht_url = url, ht_headers = [(''content-type'', ''application/json'')],
      ht_body = Some (rt_json_text rt (JObj ([(''jsonrpc'', JStr ''2.0''), (''method'', JStr verb), (''params'', params)]
        @ (case i of None \<Rightarrow> [] | Some n \<Rightarrow> [(''id'', JInt n)]))))\<rparr>"

definition local_answer :: "runtime \<Rightarrow> http_reply \<Rightarrow> agent_failure + json" where
  "local_answer rt reply =
     (case reply of
        Rejected m \<Rightarrow> Inl (EngineFailure m)
      | Replied status txt \<Rightarrow>
          if \<not> http_ok status then Inl (PlainFailure (''mcp_local_http_'' @ nat_text status))
          else (case txt of
                  Inl m \<Rightarrow> Inl (EngineFailure m)
                | Inr t \<Rightarrow> (case rt_json_parse rt t of None \<Rightarrow> Inl syntax_error | Some v \<Rightarrow> Inr v)))"

definition local_rpc ::
  "engine \<Rightarrow> 'w network \<Rightarrow> string \<Rightarrow> string \<Rightarrow> json \<Rightarrow> int option \<Rightarrow> 'w \<Rightarrow> 'w \<times> (agent_failure + json)" where
  "local_rpc en net url verb params i w =
     (case net (local_call (en_runtime en) url verb params i) w of (w', reply) \<Rightarrow> (w', local_answer (en_runtime en) reply))"

definition local_mcp_call ::
  "engine \<Rightarrow> 'w network \<Rightarrow> string \<Rightarrow> json option \<Rightarrow> json \<Rightarrow> 'w \<Rightarrow> 'w \<times> (agent_failure + json option)" where
  "local_mcp_call en net url tool args w =
     net_then (local_rpc en net url ''initialize''
         (JObj [(''protocolVersion'', JStr ''2024-11-05''), (''capabilities'', JObj []),
            (''clientInfo'', JObj [(''name'', JStr ''polling-agent''), (''version'', JStr ''0.1.0'')])]) (Some 1) w) (\<lambda>init w1.
     net_then (w1, prop_of (Some init) ''error'') (\<lambda>init_error w1.
       if json_truthy init_error then (w1, Inl (PlainFailure ''mcp_init_failed''))
       else
         net_then (local_rpc en net url ''tools/call'' (call_params tool args) (Some 2)
             (fst (local_rpc en net url ''notifications/initialized'' (JObj []) None w1))) (\<lambda>answer w2.
         net_then (w2, prop_of (Some answer) ''error'') (\<lambda>call_error w2.
           (w2, if json_truthy call_error
                  then Inl (PlainFailure (''mcp_tool_error: '' @ rt_json_text (en_runtime en) (the call_error)))
                else Inr (field answer ''result''))))))"

text \<open>What a call of the gateway's agent routes gives: the status, and the body as JSON, \<open>null\<close> where it is none.\<close>

definition api_answer :: "runtime \<Rightarrow> http_reply \<Rightarrow> agent_failure + nat \<times> json" where
  "api_answer rt reply =
     (case reply of
        Rejected m \<Rightarrow> Inl (EngineFailure m)
      | Replied status txt \<Rightarrow>
          Inr (status, (case txt of
                          Inl m \<Rightarrow> JNull
                        | Inr t \<Rightarrow> (case rt_json_parse rt t of None \<Rightarrow> JNull | Some v \<Rightarrow> v))))"

definition agent_api_call ::
  "runtime \<Rightarrow> polling_config \<Rightarrow> string \<Rightarrow> json \<Rightarrow> (string \<times> string) list \<Rightarrow> http_call" where
  "agent_api_call rt cfg path body extra =
     \<lparr>ht_method = ''POST'', ht_url = pl_gateway cfg @ path,
      ht_headers = [(''content-type'', ''application/json''), (''authorization'', ''Bearer '' @ pl_token cfg)] @ extra,
      ht_body = Some (rt_json_text rt body)\<rparr>"

definition agent_api ::
  "engine \<Rightarrow> 'w network \<Rightarrow> polling_config \<Rightarrow> string \<Rightarrow> json \<Rightarrow> (string \<times> string) list \<Rightarrow> 'w
   \<Rightarrow> 'w \<times> (agent_failure + nat \<times> json)" where
  "agent_api en net cfg path body extra w =
     (case net (agent_api_call (en_runtime en) cfg path body extra) w of (w', reply) \<Rightarrow> (w', api_answer (en_runtime en) reply))"

definition polling_register_call :: "polling_config \<Rightarrow> http_call" where
  "polling_register_call cfg =
     \<lparr>ht_method = ''POST'', ht_url = pl_gateway cfg @ ''/v1/agent/register'',
      ht_headers = [(''authorization'', ''Bearer '' @ pl_token cfg), (''x-worker-id'', pl_agent_id cfg),
        (''x-worker-type'', ''polling-agent''), (''x-worker-tasks'', ''workflow.run,agent.invoke''),
        (''x-worker-capacity'', ''1'')],
      ht_body = None\<rparr>"

definition polling_register :: "engine \<Rightarrow> 'w network \<Rightarrow> polling_config \<Rightarrow> 'w \<Rightarrow> 'w \<times> (agent_failure + json)" where
  "polling_register en net cfg w =
     (case net (polling_register_call cfg) w of
        (w', reply) \<Rightarrow>
          (w', case api_answer (en_runtime en) reply of
                 Inl e \<Rightarrow> Inl e
               | Inr (status, data) \<Rightarrow>
                   if status \<noteq> 200 \<and> status \<noteq> 201 \<or> \<not> json_truthy (field data ''session_token'')
                     then Inl (PlainFailure (''register gagal: '' @ nat_text status @ '' ''
                            @ rt_json_text (en_runtime en) data))
                   else Inr (the (field data ''session_token''))))"

fun polling_steps ::
  "engine \<Rightarrow> 'w network \<Rightarrow> polling_config \<Rightarrow> nat \<Rightarrow> json list \<Rightarrow> 'w \<Rightarrow> 'w \<times> (agent_failure + json list)" where
  "polling_steps en net cfg i [] w = (w, Inr [])"
| "polling_steps en net cfg i (s # ss) w =
     (case prop_of (Some s) ''agent'' of
        Inl e \<Rightarrow> (w, Inl e)
      | Inr agent \<Rightarrow>
          if agent \<noteq> Some (JStr (pl_agent_id cfg))
            then net_then (polling_steps en net cfg (Suc i) ss w) (\<lambda>rs w'. (w', Inr (skipped_entry i # rs)))
          else
            net_then (local_mcp_call en net (pl_mcp_url cfg) (field s ''tool'') (nullish (field s ''arguments'') (JObj [])) w)
              (\<lambda>result w'. net_then (polling_steps en net cfg (Suc i) ss w')
                 (\<lambda>rs w''. (w'', Inr (JObj ([(''step'', JInt (int i)), (''agent'', JStr (pl_agent_id cfg))]
                    @ opt_pair ''tool'' (field s ''tool'') @ opt_pair ''mcp_result'' result) # rs)))))"

definition task_payload :: "engine \<Rightarrow> json \<Rightarrow> agent_failure + json option" where
  "task_payload en task =
     (case field task ''payload_json'' of
        Some (JStr s) \<Rightarrow> (case rt_json_parse (en_runtime en) s of None \<Rightarrow> Inl syntax_error | Some v \<Rightarrow> Inr (Some v))
      | v \<Rightarrow> Inr v)"

definition polling_outcome ::
  "engine \<Rightarrow> 'w network \<Rightarrow> polling_config \<Rightarrow> json \<Rightarrow> 'w \<Rightarrow> 'w \<times> (agent_failure + json)" where
  "polling_outcome en net cfg task w =
     net_then (w, task_payload en task) (\<lambda>payload w1.
       if field task ''type'' = Some (JStr ''workflow.run'')
         then
           (case maybe_prop payload ''steps'' of
              Some (JArr steps) \<Rightarrow>
                net_then (polling_steps en net cfg 0 steps w1) (\<lambda>results w2.
                  (w2, Inr (JObj [(''steps_completed'', JInt (int (length results))), (''results'', JArr results)])))
            | _ \<Rightarrow> (w1, Inl (PlainFailure ''invalid steps'')))
       else if field task ''type'' = Some (JStr ''agent.invoke'')
         then
           (if maybe_prop payload ''agent'' \<noteq> Some (JStr (pl_agent_id cfg)) then (w1, Inl (PlainFailure ''task not for this agent''))
            else
              net_then (local_mcp_call en net (pl_mcp_url cfg) (maybe_prop payload ''tool'')
                  (nullish (maybe_prop payload ''arguments'') (JObj [])) w1) (\<lambda>result w2.
                (w2, Inr (JObj ([(''agent'', JStr (pl_agent_id cfg))] @ opt_pair ''tool'' (maybe_prop payload ''tool'')
                   @ opt_pair ''mcp_result'' result)))))
       else (w1, Inl (PlainFailure (''unsupported task type: '' @ js_text_of (field task ''type'')))))"

text \<open>\<open>data.lease_generation ?? task.lease_generation ?? 0\<close>, and the headers of a report.\<close>

definition lease_text :: "json \<Rightarrow> json \<Rightarrow> string" where
  "lease_text data task =
     js_text (nullish (field data ''lease_generation'') (nullish (field task ''lease_generation'') (JInt 0)))"

definition polling_headers :: "polling_config \<Rightarrow> json \<Rightarrow> (string \<times> string) list" where
  "polling_headers cfg session = [(''x-worker-session'', js_text session), (''x-worker-id'', pl_agent_id cfg)]"

definition report_headers :: "polling_config \<Rightarrow> json \<Rightarrow> json \<Rightarrow> json \<Rightarrow> (string \<times> string) list" where
  "report_headers cfg session data task =
     polling_headers cfg session
     @ [(''x-task-id'', js_text_of (field task ''id'')), (''x-lease-generation'', lease_text data task)]"

text \<open>The task that a claim gave, run and reported; the failure is that of the report of an error.\<close>

definition polling_task ::
  "engine \<Rightarrow> 'w network \<Rightarrow> polling_config \<Rightarrow> json \<Rightarrow> json \<Rightarrow> json \<Rightarrow> 'w \<Rightarrow> 'w \<times> (agent_failure + unit)" where
  "polling_task en net cfg session data task w =
     (case net_then (polling_outcome en net cfg task w) (\<lambda>result w1.
             agent_api en net cfg ''/v1/agent/complete''
               (JObj (opt_pair ''task_id'' (field task ''id'') @ [(''result'', result)]))
               (report_headers cfg session data task) w1) of
        (w', Inr ignored) \<Rightarrow> (w', Inr ())
      | (w', Inl e) \<Rightarrow>
          net_then (agent_api en net cfg ''/v1/agent/fail''
              (JObj (opt_pair ''task_id'' (field task ''id'') @ [(''error'', JStr (failure_message en e))]))
              (report_headers cfg session data task) w') (\<lambda>ignored w2. (w2, Inr ())))"

text \<open>One poll. The session is \<open>None\<close> until a registration has succeeded.\<close>

definition polling_session ::
  "engine \<Rightarrow> 'w network \<Rightarrow> polling_config \<Rightarrow> json option \<Rightarrow> 'w \<Rightarrow> 'w \<times> (agent_failure + json)" where
  "polling_session en net cfg session w =
     (case session of Some s \<Rightarrow> (w, Inr s) | None \<Rightarrow> polling_register en net cfg w)"

definition claim_body :: json where
  "claim_body = JObj [(''tasks'', JArr [JStr ''workflow.run'', JStr ''agent.invoke''])]"

definition polling_poll ::
  "engine \<Rightarrow> 'w network \<Rightarrow> polling_config \<Rightarrow> json option \<Rightarrow> 'w \<Rightarrow> 'w \<times> json option \<times> (agent_failure + unit)" where
  "polling_poll en net cfg session w =
     (case polling_session en net cfg session w of
        (w1, Inl e) \<Rightarrow> (w1, session, Inl e)
      | (w1, Inr s) \<Rightarrow>
          (case net_then (agent_api en net cfg ''/v1/agent/claim'' claim_body (polling_headers cfg s) w1)
                  (\<lambda>(status, data) w2.
                     if status = 204 \<or> \<not> json_truthy (field data ''task'') then (w2, Inr ())
                     else polling_task en net cfg s data (the (field data ''task'')) w2) of
             (w2, res) \<Rightarrow> (w2, Some s, res)))"

fun polling_run :: "engine \<Rightarrow> 'w network \<Rightarrow> polling_config \<Rightarrow> nat \<Rightarrow> json option \<Rightarrow> 'w \<Rightarrow> 'w \<times> json option" where
  "polling_run en net cfg 0 session w = (w, session)"
| "polling_run en net cfg (Suc n) session w =
     (case polling_poll en net cfg session w of (w', session', ignored) \<Rightarrow> polling_run en net cfg n session' w')"

section \<open>The sample tool server\<close>

text \<open>
  \<open>sb_eval\<close> is what the evaluation of an expression by \<open>new Function\<close> gives: the message of what it throws, the
  number as text, or \<open>None\<close> where it is no finite number. \<open>sb_time\<close> is the formatted time.
\<close>

record sandbox_env =
  sb_runtime :: runtime
  sb_eval :: "string \<Rightarrow> string + string option"
  sb_time :: string

definition is_arithmetic :: "char \<Rightarrow> bool" where
  "is_arithmetic c \<longleftrightarrow> is_digit c \<or> c \<in> set ''+-*/().'' \<or> is_space c"

definition hitung_aman :: "sandbox_env \<Rightarrow> string \<Rightarrow> string + string" where
  "hitung_aman sb expr =
     (if \<not> rx_plus is_arithmetic expr then Inl ''ekspresi mengandung karakter tak diizinkan''
      else
        (let clean = trim expr
         in if length clean = 0 \<or> length clean > 200 then Inl ''ekspresi kosong atau terlalu panjang''
            else (case sb_eval sb clean of
                    Inl m \<Rightarrow> Inl m
                  | Inr None \<Rightarrow> Inl ''hasil bukan angka valid''
                  | Inr (Some n) \<Rightarrow> Inr n)))"

definition sandbox_result :: "json \<Rightarrow> json \<Rightarrow> response" where
  "sandbox_result i result = plain_json (JObj [(''jsonrpc'', JStr ''2.0''), (''id'', i), (''result'', result)]) 200"

definition sandbox_error :: "json \<Rightarrow> int \<Rightarrow> string \<Rightarrow> response" where
  "sandbox_error i code message =
     plain_json (JObj [(''jsonrpc'', JStr ''2.0''), (''id'', i),
       (''error'', JObj [(''code'', JInt code), (''message'', JStr message)])]) 200"

definition sandbox_text :: "string \<Rightarrow> json" where
  "sandbox_text s = JObj [(''content'', JArr [JObj [(''type'', JStr ''text''), (''text'', JStr s)]])]"

definition sandbox_tool :: "string \<Rightarrow> string \<Rightarrow> string option \<Rightarrow> json" where
  "sandbox_tool name description argument =
     JObj [(''name'', JStr name), (''description'', JStr description),
       (''inputSchema'', JObj ([(''type'', JStr ''object''),
          (''properties'', JObj (case argument of None \<Rightarrow> [] | Some a \<Rightarrow> [(a, JObj [(''type'', JStr ''string'')])]))]
          @ (case argument of None \<Rightarrow> [] | Some a \<Rightarrow> [(''required'', JArr [JStr a])])))]"

definition sandbox_tools :: json where
  "sandbox_tools =
     JObj [(''tools'', JArr [sandbox_tool ''echo'' ''Kembalikan teks apa adanya'' (Some ''teks''),
       sandbox_tool ''hitung'' ''Evaluasi ekspresi aritmetika sederhana'' (Some ''ekspresi''),
       sandbox_tool ''waktu_jakarta'' ''Waktu saat ini di zona Asia/Jakarta'' None])]"

definition sandbox_call :: "sandbox_env \<Rightarrow> json \<Rightarrow> json option \<Rightarrow> response" where
  "sandbox_call sb i params =
     (let given = nullish params (JObj []); name = field given ''name''; args = field given ''arguments''
      in if name = Some (JStr ''echo'') then sandbox_result i (sandbox_text (js_text (nullish (maybe_prop args ''teks'') (JStr []))))
         else if name = Some (JStr ''hitung'')
           then (case hitung_aman sb (js_text (nullish (maybe_prop args ''ekspresi'') (JStr []))) of
                   Inl m \<Rightarrow> sandbox_error i (- 32000) m
                 | Inr n \<Rightarrow> sandbox_result i (sandbox_text n))
         else if name = Some (JStr ''waktu_jakarta'') then sandbox_result i (sandbox_text (sb_time sb))
         else sandbox_error i (- 32602) (''Unknown tool: '' @ js_text_of name))"

definition sandbox_fetch :: "sandbox_env \<Rightarrow> string \<Rightarrow> string \<Rightarrow> response" where
  "sandbox_fetch sb verb body_text =
     (if verb \<noteq> ''POST'' then \<lparr>rs_status = 405, rs_headers = [], rs_body = RawBody ''Method not allowed''\<rparr>
      else
        (let body = rt_json_parse (sb_runtime sb) body_text; i = nullish (maybe_prop body ''id'') JNull;
             verb = maybe_prop body ''method''
         in if \<not> json_truthy body \<or> maybe_prop body ''jsonrpc'' \<noteq> Some (JStr ''2.0'')
              then sandbox_error i (- 32600) ''Invalid Request''
            else if verb = Some (JStr ''initialize'')
              then sandbox_result i (JObj [(''protocolVersion'', JStr ''2024-11-05''),
                     (''capabilities'', JObj [(''tools'', JObj [])]),
                     (''serverInfo'', JObj [(''name'', JStr ''sandbox-agent''), (''version'', JStr ''0.1.0'')])])
            else if verb = Some (JStr ''notifications/initialized'') then empty_response 202
            else if verb = Some (JStr ''tools/list'') then sandbox_result i sandbox_tools
            else if verb = Some (JStr ''tools/call'') then sandbox_call sb i (maybe_prop body ''params'')
            else sandbox_error i (- 32601) ''Method not found''))"

section \<open>What a task makes the connector call\<close>

text \<open>A network that keeps a log of the calls with their replies.\<close>

definition logged :: "'w network \<Rightarrow> ('w \<times> (http_call \<times> http_reply) list) network" where
  "logged net call wl = (case net call (fst wl) of (w', reply) \<Rightarrow> ((w', snd wl @ [(call, reply)]), reply))"

definition own_step :: "string \<Rightarrow> json option \<Rightarrow> bool" where
  "own_step agent_id s \<longleftrightarrow> maybe_prop s ''agent'' = Some (JStr agent_id)"

definition own_steps :: "string \<Rightarrow> json option list \<Rightarrow> json list" where
  "own_steps agent_id ss = map the (filter (own_step agent_id) ss)"

text \<open>The parts of a task that name the agent: the payload of an invocation, steps of a workflow.\<close>

definition tool_jobs :: "engine \<Rightarrow> string \<Rightarrow> json \<Rightarrow> json list" where
  "tool_jobs en agent_id task =
     (let kind = field task ''type''; payload = or_else (field task ''payload'') (JObj [])
      in if kind = Some (JStr ''agent.invoke'') then own_steps agent_id [Some payload]
         else if kind = Some (JStr ''workflow.run'')
           then own_steps agent_id (items_of en (or_else (field payload ''steps'') (JArr [])))
         else [])"

definition job_call :: "engine \<Rightarrow> string \<Rightarrow> json \<Rightarrow> http_call" where
  "job_call en url job =
     mcp_http_call (en_runtime en) url ''tools/call''
       (call_params (field job ''tool'') (or_else (field job ''arguments'') (JObj []))) 3"

definition result_call :: "engine \<Rightarrow> connector \<Rightarrow> json \<Rightarrow> json \<Rightarrow> http_call" where
  "result_call en c task result =
     client_call (en_runtime en) (cn_gateway c) ''POST'' ''/v1/agent/result''
       (Some (JObj (opt_pair ''task_id'' (field task ''task_id'')
          @ [(''agent_id'', JStr (gc_agent_id (cn_gateway c))), (''result'', result)]))) True"

definition error_report :: "string \<Rightarrow> json" where
  "error_report m = JObj [(''error'', JStr m)]"

text \<open>What the reply of the tool server to a call means, and the tool outputs that a result has.\<close>

definition tool_reply :: "engine \<Rightarrow> http_reply \<Rightarrow> agent_failure + string" where
  "tool_reply en reply = (case mcp_answer (en_runtime en) reply of Inl e \<Rightarrow> Inl e | Inr result \<Rightarrow> tool_outcome result)"

definition completed_of :: "json list \<Rightarrow> json list" where
  "completed_of rs = filter (\<lambda>r. \<not> json_truthy (field r ''skipped'')) rs"

definition step_outputs :: "json list \<Rightarrow> string list" where
  "step_outputs rs = map (\<lambda>r. str_of (field r ''mcp_result'')) (completed_of rs)"

definition reported_outputs :: "json \<Rightarrow> string list" where
  "reported_outputs r =
     (case field r ''results'' of Some (JArr rs) \<Rightarrow> step_outputs rs | _ \<Rightarrow> [str_of (field r ''mcp_result'')])"

text \<open>All calls of tools succeeded, or all but the last; and the tasks that fail without a call.\<close>

definition calls_fine :: "engine \<Rightarrow> (http_call \<times> http_reply) list \<Rightarrow> bool" where
  "calls_fine en calls \<longleftrightarrow> (\<forall>p \<in> set calls. \<exists>t. tool_reply en (snd p) = Inr t)"

definition last_failed :: "engine \<Rightarrow> agent_failure \<Rightarrow> (http_call \<times> http_reply) list \<Rightarrow> bool" where
  "last_failed en e calls \<longleftrightarrow>
     (\<exists>before call reply. calls = before @ [(call, reply)] \<and> calls_fine en before \<and> tool_reply en reply = Inl e)"

definition no_step :: "json option \<Rightarrow> bool" where
  "no_step s \<longleftrightarrow> s = None \<or> s = Some JNull"

definition task_malformed :: "engine \<Rightarrow> string \<Rightarrow> json \<Rightarrow> agent_failure \<Rightarrow> bool" where
  "task_malformed en agent_id task e \<longleftrightarrow>
     (let kind = field task ''type''; payload = or_else (field task ''payload'') (JObj [])
      in if kind = Some (JStr ''agent.invoke'')
           then field payload ''agent'' \<noteq> Some (JStr agent_id) \<and> e = PlainFailure ''Task not for this agent''
         else if kind = Some (JStr ''workflow.run'')
           then list_ex no_step (items_of en (or_else (field payload ''steps'') (JArr []))) \<and> e = type_error
         else e = PlainFailure (''Unknown task type: '' @ js_text_of kind))"

lemma call_tool_log:
  "\<exists>w' reply. mcp_call_tool en (logged net) url tool args wl
     = ((w', snd wl @ [(mcp_http_call (en_runtime en) url ''tools/call'' (call_params tool args) 3, reply)]), tool_reply en reply)"
  by (auto simp: mcp_call_tool_def net_then_def mcp_client_request_def logged_def tool_reply_def split: prod.splits sum.splits)

lemma submit_log:
  "\<exists>w' reply. submit_result en (logged net) (cn_gateway c) (field task ''task_id'') result wl
     = ((w', snd wl @ [(result_call en c task result, reply)]), client_answer (en_runtime en) reply)"
  by (auto simp: submit_result_def client_request_def logged_def result_call_def split: prod.splits)

lemma net_then_Inl [simp]: "net_then (w, Inl e) k = (w, Inl e)"
  and net_then_Inr [simp]: "net_then (w, Inr a) k = k a w"
  by (simp_all add: net_then_def)

lemma step_outputs_simps [simp]:
  "step_outputs [] = []" "step_outputs (skipped_entry i # rs) = step_outputs rs"
  "step_outputs (step_entry i s text # rs) = text # step_outputs rs"
  by (auto simp: step_outputs_def completed_of_def skipped_entry_def step_entry_def opt_pair_def split: option.splits)

lemma calls_fine_simps [simp]:
  "calls_fine en []" "calls_fine en (p # calls) \<longleftrightarrow> (\<exists>t. tool_reply en (snd p) = Inr t) \<and> calls_fine en calls"
  by (auto simp: calls_fine_def)

lemma last_failed_Cons: "(\<exists>t. tool_reply en (snd p) = Inr t) \<Longrightarrow> last_failed en e calls \<Longrightarrow> last_failed en e (p # calls)"
  unfolding last_failed_def by (metis append_Cons calls_fine_simps(2))

lemma last_failed_single: "tool_reply en reply = Inl e \<Longrightarrow> last_failed en e [(call, reply)]"
  by (auto simp: last_failed_def)

lemma outputs_fine: "map (\<lambda>p. tool_reply en (snd p)) calls = map Inr ts \<Longrightarrow> calls_fine en calls"
  by (induction calls arbitrary: ts) auto

text \<open>What a part of the handling has called, and how its end follows from the replies.\<close>

definition run_explained ::
  "engine \<Rightarrow> connector \<Rightarrow> json list \<Rightarrow> (agent_failure \<Rightarrow> bool) \<Rightarrow> ('a \<Rightarrow> string list) \<Rightarrow> (http_call \<times> http_reply) list
   \<Rightarrow> agent_failure + 'a \<Rightarrow> bool" where
  "run_explained en c jobs malformed outputs calls res \<longleftrightarrow>
     map fst calls = take (length calls) (map (job_call en (cn_mcp_url c)) jobs)
     \<and> (case res of
          Inr r \<Rightarrow> length calls = length jobs \<and> map (\<lambda>p. tool_reply en (snd p)) calls = map Inr (outputs r)
        | Inl e \<Rightarrow> last_failed en e calls \<or> calls_fine en calls \<and> malformed e)"

lemma connector_steps_log:
  assumes "connector_steps en (logged net) c i ss wl = (wl', res)"
  shows "\<exists>calls. snd wl' = snd wl @ calls
    \<and> run_explained en c (own_steps (cn_agent_id c) ss) (\<lambda>e. list_ex no_step ss \<and> e = type_error) step_outputs calls res"
  using assms
proof (induction ss arbitrary: i wl wl' res)
  case Nil
  then show ?case by (auto simp: own_steps_def run_explained_def)
next
  case (Cons s ss)
  let ?own = "own_steps (cn_agent_id c) ss"
  show ?case
  proof (cases "prop_of s ''agent''")
    case (Inl e)
    then have "no_step s" "e = type_error" by (auto simp: prop_of_def no_step_def split: option.splits if_splits)
    with Inl Cons.prems show ?thesis by (auto simp: run_explained_def intro!: exI [of _ "[]"])
  next
    case (Inr agent)
    then obtain u where u: "s = Some u" "field u ''agent'' = agent"
      by (auto simp: prop_of_def split: option.splits if_splits)
    show ?thesis
    proof (cases "agent = Some (JStr (cn_agent_id c))")
      case False
      obtain wl1 res1 where r: "connector_steps en (logged net) c (Suc i) ss wl = (wl1, res1)" by fastforce
      have own: "own_steps (cn_agent_id c) (s # ss) = ?own"
        using u False by (simp add: own_steps_def own_step_def maybe_prop_def)
      have "wl' = wl1 \<and> res = map_sum id ((#) (skipped_entry i)) res1"
        using Cons.prems Inr False r by (cases res1) auto
      with Cons.IH [OF r] show ?thesis unfolding own by (cases res1) (auto simp: run_explained_def)
    next
      case True
      let ?call = "mcp_call_tool en (logged net) (cn_mcp_url c) (field u ''tool'') (or_else (field u ''arguments'') (JObj []))"
      have own: "own_steps (cn_agent_id c) (s # ss) = u # ?own"
        using u True by (simp add: own_steps_def own_step_def maybe_prop_def)
      obtain w1 reply where call: "?call wl = ((w1, snd wl @ [(job_call en (cn_mcp_url c) u, reply)]), tool_reply en reply)"
        using call_tool_log [of en net "cn_mcp_url c" "field u ''tool''" "or_else (field u ''arguments'') (JObj [])" wl]
        by (auto simp: job_call_def)
      show ?thesis
      proof (cases "tool_reply en reply")
        case (Inl e)
        with Cons.prems \<open>prop_of s ''agent'' = Inr agent\<close> True u call show ?thesis
          unfolding own
          by (intro exI [of _ "[(job_call en (cn_mcp_url c) u, reply)]"]) (auto simp: run_explained_def last_failed_single)
      next
        case out: (Inr result)
        let ?wl1 = "(w1, snd wl @ [(job_call en (cn_mcp_url c) u, reply)])"
        obtain wl2 res2 where r: "connector_steps en (logged net) c (Suc i) ss ?wl1 = (wl2, res2)" by fastforce
        from Cons.IH [OF r] obtain calls where k: "snd wl2 = snd ?wl1 @ calls"
          "run_explained en c ?own (\<lambda>e. list_ex no_step ss \<and> e = type_error) step_outputs calls res2" by blast
        have "wl' = wl2 \<and> res = map_sum id ((#) (step_entry i u result)) res2"
          using Cons.prems Inr True u call out r by (cases res2) auto
        with k out show ?thesis
          unfolding own
          by (intro exI [of _ "(job_call en (cn_mcp_url c) u, reply) # calls"])
            (cases res2, auto simp: run_explained_def last_failed_Cons)
      qed
    qed
  qed
qed

lemma invoke_log:
  assumes "execute_invoke en (logged net) c payload wl = (wl', res)"
  shows "\<exists>calls. snd wl' = snd wl @ calls
    \<and> run_explained en c (own_steps (cn_agent_id c) [Some payload])
        (\<lambda>e. field payload ''agent'' \<noteq> Some (JStr (cn_agent_id c)) \<and> e = PlainFailure ''Task not for this agent'')
        reported_outputs calls res"
proof (cases "field payload ''agent'' = Some (JStr (cn_agent_id c))")
  case True
  then have own: "own_steps (cn_agent_id c) [Some payload] = [payload]"
    by (simp add: own_steps_def own_step_def maybe_prop_def)
  obtain w1 reply where call: "mcp_call_tool en (logged net) (cn_mcp_url c) (field payload ''tool'')
      (or_else (field payload ''arguments'') (JObj [])) wl
      = ((w1, snd wl @ [(job_call en (cn_mcp_url c) payload, reply)]), tool_reply en reply)"
    using call_tool_log [of en net "cn_mcp_url c" "field payload ''tool''" "or_else (field payload ''arguments'') (JObj [])" wl]
    by (auto simp: job_call_def)
  have outputs: "reported_outputs (JObj ((''agent'', a) # opt_pair ''tool'' v @ [(''mcp_result'', JStr t)])) = [t]" for a v t
    by (auto simp: reported_outputs_def opt_pair_def split: option.splits)
  show ?thesis
    unfolding own
    using assms True call
    by (intro exI [of _ "[(job_call en (cn_mcp_url c) payload, reply)]"])
      (cases "tool_reply en reply", auto simp: execute_invoke_def run_explained_def last_failed_single outputs)
next
  case False
  with assms show ?thesis by (auto simp: execute_invoke_def run_explained_def intro!: exI [of _ "[]"])
qed

lemma outcome_log:
  assumes "task_outcome en (logged net) c task wl = (wl', res)"
  shows "\<exists>calls. snd wl' = snd wl @ calls
    \<and> run_explained en c (tool_jobs en (cn_agent_id c) task) (task_malformed en (cn_agent_id c) task) reported_outputs calls res"
proof -
  let ?payload = "or_else (field task ''payload'') (JObj [])"
  let ?ss = "items_of en (or_else (field ?payload ''steps'') (JArr []))"
  consider (invoke) "field task ''type'' = Some (JStr ''agent.invoke'')"
    | (run) "field task ''type'' = Some (JStr ''workflow.run'')"
    | (other) "field task ''type'' \<noteq> Some (JStr ''agent.invoke'')" "field task ''type'' \<noteq> Some (JStr ''workflow.run'')"
    by blast
  then show ?thesis
  proof cases
    case invoke
    then have inv: "execute_invoke en (logged net) c ?payload wl = (wl', res)" using assms by (simp add: task_outcome_def Let_def)
    have eqs: "task_malformed en (cn_agent_id c) task
        = (\<lambda>e. field ?payload ''agent'' \<noteq> Some (JStr (cn_agent_id c)) \<and> e = PlainFailure ''Task not for this agent'')"
      "tool_jobs en (cn_agent_id c) task = own_steps (cn_agent_id c) [Some ?payload]"
      using invoke by (auto simp: task_malformed_def tool_jobs_def Let_def)
    show ?thesis unfolding eqs by (rule invoke_log [OF inv])
  next
    case run
    then have w: "run_workflow en (logged net) c ?payload wl = (wl', res)" using assms by (simp add: task_outcome_def Let_def)
    obtain wl1 res1 where r: "connector_steps en (logged net) c 0 ?ss wl = (wl1, res1)" by fastforce
    from connector_steps_log [OF r] obtain calls where calls: "snd wl1 = snd wl @ calls"
      "run_explained en c (own_steps (cn_agent_id c) ?ss) (\<lambda>e. list_ex no_step ?ss \<and> e = type_error) step_outputs calls res1"
      by blast
    have jobs: "tool_jobs en (cn_agent_id c) task = own_steps (cn_agent_id c) ?ss"
      "task_malformed en (cn_agent_id c) task = (\<lambda>e. list_ex no_step ?ss \<and> e = type_error)"
      using run by (auto simp: tool_jobs_def task_malformed_def Let_def)
    show ?thesis
      unfolding jobs using w r calls
      by (intro exI [of _ calls]) (cases res1; auto simp: run_workflow_def run_explained_def reported_outputs_def)
  next
    case other
    with assms show ?thesis
      by (auto simp: task_outcome_def tool_jobs_def task_malformed_def run_explained_def Let_def intro!: exI [of _ "[]"])
  qed
qed

text \<open>
  C37. What one task makes a connector call, and what follows from the replies. First the tools of those parts of the task
  that name the agent, in their order and none twice. If all of them succeed, one report of a result with exactly
  their outputs; an error report follows if, and only if, that report fails, with its failure. Otherwise there is one error
  report alone, with the failure of the last tool called, all before it having succeeded, or because the task is of an
  unknown type, for another agent or has a step that is null.
\<close>

theorem connector_calls_own_jobs:
  "\<exists>calls reports. snd (execute_task en (logged net) c task (w, [])) = calls @ reports
    \<and> map fst calls = take (length calls) (map (job_call en (cn_mcp_url c)) (tool_jobs en (cn_agent_id c) task))
    \<and> ((\<exists>r reply. length calls = length (tool_jobs en (cn_agent_id c) task)
           \<and> map (\<lambda>p. tool_reply en (snd p)) calls = map Inr (reported_outputs r)
           \<and> (case client_answer (en_runtime en) reply of
                Inr ignored \<Rightarrow> reports = [(result_call en c task r, reply)]
              | Inl e \<Rightarrow> (\<exists>reply'. reports = [(result_call en c task r, reply),
                   (result_call en c task (error_report (failure_text en e)), reply')])))
       \<or> (\<exists>e reply. (last_failed en e calls \<or> calls_fine en calls \<and> task_malformed en (cn_agent_id c) task e)
           \<and> reports = [(result_call en c task (error_report (failure_text en e)), reply)]))"
proof -
  obtain wl1 res where t: "task_outcome en (logged net) c task (w, []) = (wl1, res)" by fastforce
  from outcome_log [OF t] obtain calls where
    log: "snd wl1 = calls"
    and run: "run_explained en c (tool_jobs en (cn_agent_id c) task) (task_malformed en (cn_agent_id c) task) reported_outputs calls res"
    by auto
  have fst_calls: "map fst calls = take (length calls) (map (job_call en (cn_mcp_url c)) (tool_jobs en (cn_agent_id c) task))"
    using run by (simp add: run_explained_def)
  have done_calls: "length calls = length (tool_jobs en (cn_agent_id c) task)
      \<and> map (\<lambda>p. tool_reply en (snd p)) calls = map Inr (reported_outputs r)" if "res = Inr r" for r
    using run that by (simp add: run_explained_def)
  let ?submit = "submit_result en (logged net) (cn_gateway c) (field task ''task_id'')"
  show ?thesis
  proof (cases res)
    case (Inl e)
    with t have "execute_task en (logged net) c task (w, []) = fst (?submit (error_report (failure_text en e)) wl1)"
      by (simp add: execute_task_def error_report_def)
    with submit_log [of en net c task "error_report (failure_text en e)" wl1] log obtain reply where
      sent: "snd (execute_task en (logged net) c task (w, []))
        = calls @ [(result_call en c task (error_report (failure_text en e)), reply)]"
      by auto
    have cause: "last_failed en e calls \<or> calls_fine en calls \<and> task_malformed en (cn_agent_id c) task e"
      using run Inl by (simp add: run_explained_def)
    show ?thesis
      by (rule exI [of _ calls], rule exI [of _ "[(result_call en c task (error_report (failure_text en e)), reply)]"],
          rule conjI [OF sent], rule conjI [OF fst_calls], rule disjI2, rule exI [of _ e], rule exI [of _ reply],
          rule conjI [OF cause refl])
  next
    case (Inr r)
    obtain w2 reply where s: "?submit r wl1 = ((w2, calls @ [(result_call en c task r, reply)]), client_answer (en_runtime en) reply)"
      using submit_log [of en net c task r wl1] log by auto
    show ?thesis
    proof (cases "client_answer (en_runtime en) reply")
      case (Inl e)
      let ?wl2 = "(w2, calls @ [(result_call en c task r, reply)])"
      have "execute_task en (logged net) c task (w, []) = fst (?submit (error_report (failure_text en e)) ?wl2)"
        using t Inr s Inl by (simp add: execute_task_def error_report_def)
      with submit_log [of en net c task "error_report (failure_text en e)" ?wl2] obtain reply' where
        sent: "snd (execute_task en (logged net) c task (w, []))
           = calls @ [(result_call en c task r, reply), (result_call en c task (error_report (failure_text en e)), reply')]"
        by auto
      show ?thesis
        by (rule exI [of _ calls],
            rule exI [of _ "[(result_call en c task r, reply), (result_call en c task (error_report (failure_text en e)), reply')]"],
            intro conjI disjI1 exI [of _ r] exI [of _ reply]; use sent fst_calls done_calls [OF Inr] Inl in simp)
    next
      case out: (Inr ignored)
      with t Inr s have sent: "snd (execute_task en (logged net) c task (w, [])) = calls @ [(result_call en c task r, reply)]"
        by (simp add: execute_task_def)
      show ?thesis
        by (rule exI [of _ calls], rule exI [of _ "[(result_call en c task r, reply)]"],
            intro conjI disjI1 exI [of _ r] exI [of _ reply]; use sent fst_calls done_calls [OF Inr] out in simp)
    qed
  qed
qed

text \<open>
  The two programs count differently: the connector counts the steps that it ran, the polling agent all steps.
\<close>

lemma connector_counts_own_steps:
  assumes "run_workflow en (logged net) c payload wl = (wl', Inr v)"
  shows "field v ''steps_completed''
    = Some (JInt (int (length (own_steps (cn_agent_id c) (items_of en (or_else (field payload ''steps'') (JArr [])))))))"
proof -
  let ?ss = "items_of en (or_else (field payload ''steps'') (JArr []))"
  obtain wl1 res where r: "connector_steps en (logged net) c 0 ?ss wl = (wl1, res)" by fastforce
  with assms obtain rs where rs: "res = Inr rs"
    "v = JObj [(''steps_completed'', JInt (int (length (completed_of rs)))), (''results'', JArr rs)]"
    by (cases res) (auto simp: run_workflow_def completed_of_def)
  from connector_steps_log [OF r] obtain calls where
    "run_explained en c (own_steps (cn_agent_id c) ?ss) (\<lambda>e. list_ex no_step ?ss \<and> e = type_error) step_outputs calls res"
    by blast
  then have "length calls = length (own_steps (cn_agent_id c) ?ss)"
    "map (\<lambda>p. tool_reply en (snd p)) calls = map Inr (step_outputs rs)"
    using rs(1) by (simp_all add: run_explained_def)
  then have "length (completed_of rs) = length (own_steps (cn_agent_id c) ?ss)"
    by (metis length_map step_outputs_def)
  with rs show ?thesis by simp
qed

lemma polling_steps_length: "snd (polling_steps en net cfg i ss w) = Inr rs \<Longrightarrow> length rs = length ss"
proof (induction ss arbitrary: i w rs)
  case (Cons s ss)
  then show ?case by (auto simp: net_then_def split: sum.splits if_splits)
qed simp

lemma polling_agent_counts_all_steps:
  assumes "task_payload en task = Inr payload" "field task ''type'' = Some (JStr ''workflow.run'')"
    and "snd (polling_outcome en net cfg task w) = Inr v"
  shows "field v ''steps_completed'' = Some (JInt (int (length (arr_of (maybe_prop payload ''steps'')))))"
  using assms polling_steps_length
  by (auto simp: polling_outcome_def net_then_def split: option.splits json.splits sum.splits)

section \<open>The connector before the gateway\<close>

text \<open>A call as the gateway sees it, and its answer as the client does.\<close>

definition body_text :: "runtime \<Rightarrow> body \<Rightarrow> string" where
  "body_text rt b = (case b of NoBody \<Rightarrow> [] | JsonBody v \<Rightarrow> rt_json_text rt v | RawBody s \<Rightarrow> s)"

definition reply_of :: "runtime \<Rightarrow> response \<Rightarrow> http_reply" where
  "reply_of rt r = Replied (rs_status r) (Inr (body_text rt (rs_body r)))"

definition request_at :: "url \<Rightarrow> http_call \<Rightarrow> request" where
  "request_at u call =
     \<lparr>rq_method = ht_method call, rq_url = u, rq_headers = map (\<lambda>(k, v). (to_lower k, v)) (ht_headers call),
      rq_body = (case ht_body call of None \<Rightarrow> [] | Some b \<Rightarrow> b)\<rparr>"

definition registered :: "string \<Rightarrow> string \<Rightarrow> json" where
  "registered agent_id token =
     JObj [(''ok'', JBool True), (''agent_id'', JStr agent_id), (''agent_token'', JStr token)]"

text \<open>
  The network delivers the posts to one URL to the agent endpoints, in whatever state they are then; a handler that
  rejects is answered by the server with 500.
\<close>

definition answer_of :: "runtime \<Rightarrow> string + response option \<Rightarrow> http_reply" where
  "answer_of rt res = (case res of Inr (Some r) \<Rightarrow> reply_of rt r | _ \<Rightarrow> Replied 500 (Inr []))"

definition served_by_gateway :: "runtime \<Rightarrow> 'w network \<Rightarrow> string \<Rightarrow> url \<Rightarrow> bool" where
  "served_by_gateway rt net address u \<longleftrightarrow>
     (\<forall>call w. ht_url call = address \<and> ht_method call = ''POST'' \<longrightarrow>
        (\<exists>env st. snd (net call w) = answer_of rt (snd (handle_agent_direct_request rt env (request_at u call) st))))"

lemma register_answers:
  assumes "u_pathname u = ''/v1/agent/register''" "ht_method call = ''POST''"
    and "reply = answer_of rt (snd (handle_agent_direct_request rt env (request_at u call) st))"
  obtains b where "reply = Replied 500 b" | b where "reply = Replied 400 b"
    | i t where "reply = reply_of rt (plain_json (registered i t) 200)"
proof -
  let ?res = "snd (agent_register rt env (request_at u call) st)"
  have "handle_agent_direct_request rt env (request_at u call) st
      = (fst (agent_register rt env (request_at u call) st), map_sum id Some ?res)"
    using assms(1,2) by (simp add: handle_agent_direct_request_def request_at_def Let_def split: prod.splits)
  then have reply: "reply = answer_of rt (map_sum id Some ?res)" using assms(3) by simp
  have "?res = Inl ''TypeError'' \<or> ?res = Inr (agent_error 400 ''valid agent_id required'')
      \<or> (\<exists>i t. ?res = Inr (plain_json (registered i t) 200))"
    by (auto simp: agent_register_def Let_def registered_def)
  then show thesis
    using reply that by (auto simp: answer_of_def reply_of_def agent_error_def)
qed

lemma register_meets_no_token:
  assumes served: "served_by_gateway (en_runtime en) net (gc_base_url g @ ''/v1/agent/register'') u"
    and path: "u_pathname u = ''/v1/agent/register''"
    and json: "\<And>i t. rt_json_parse (en_runtime en) (rt_json_text (en_runtime en) (registered i t)) = Some (registered i t)"
      "\<And>i t. rt_json_text (en_runtime en) (registered i t) \<noteq> []"
    and res: "snd (client_register en net tools g w) = Inr g'"
  shows "gc_token g' = None"
proof -
  let ?call = "client_call (en_runtime en) g ''POST'' ''/v1/agent/register'' (Some (register_body g tools)) False"
  have call: "ht_url ?call = gc_base_url g @ ''/v1/agent/register''" "ht_method ?call = ''POST''"
    by (simp_all add: client_call_def)
  with served obtain env st where
    "snd (net ?call w) = answer_of (en_runtime en) (snd (handle_agent_direct_request (en_runtime en) env (request_at u ?call) st))"
    unfolding served_by_gateway_def by blast
  then show ?thesis
  proof (rule register_answers [OF path call(2)])
    fix i t
    assume "snd (net ?call w) = reply_of (en_runtime en) (plain_json (registered i t) 200)"
    with res json [of i t] show ?thesis
      by (auto simp: client_register_def client_request_def client_answer_def reply_of_def http_ok_def net_then_def
          body_text_def prop_of_def split: prod.splits) (auto simp: registered_def)
  qed (use res in \<open>auto simp: client_register_def client_request_def client_answer_def http_ok_def net_then_def
          split: prod.splits sum.splits\<close>)
qed

lemma net_then_fails:
  assumes "\<And>a w'. r = (w', Inr a) \<Longrightarrow> \<exists>w1 e. \<forall>x. k x a w' = (w1, Inl e)"
  shows "\<exists>w1 e. \<forall>x. net_then r (k x) = (w1, Inl e)"
proof (cases "snd r")
  case (Inl e)
  then show ?thesis by (simp add: net_then_def)
next
  case (Inr a)
  then show ?thesis using assms [of "fst r" a] by (cases r) simp
qed

text \<open>Nor would what follows: the gateway has no \<open>GET\<close> of the poll, and a report names no agent in its headers.\<close>

lemma gateway_passes_get_poll:
  "rq_method r = ''GET'' \<Longrightarrow> u_pathname (rq_url r) = ''/v1/agent/poll'' \<Longrightarrow> handle_agent_direct_request rt env r st = (st, Inr None)"
  by (simp add: handle_agent_direct_request_def Let_def)

lemma gateway_refuses_result:
  "agent_result rt env (request_at u (result_call en c task result)) st = (st, Inr (agent_error 401 ''invalid agent token''))"
proof -
  have "header (request_at u (result_call en c task result)) ''x-agent-id'' = None"
    by (simp add: header_def request_at_def result_call_def client_call_def to_lower_def lower_char_def between_def)
  then show ?thesis
    by (simp add: agent_result_def verify_agent_token_def split: option.splits)
qed

text \<open>
  C40. The connector and the gateway of this repository do not fit: the gateway's registration answers the token as
  \<open>agent_token\<close>, the connector reads \<open>token\<close>. Whatever the tool server answers and in whatever state the gateway is, the
  start of a connector fails before its loop, so that no event of the loop matters.
\<close>

theorem connector_never_starts:
  assumes served: "served_by_gateway (en_runtime en) net (gc_base_url (cn_gateway c) @ ''/v1/agent/register'') u"
    and path: "u_pathname u = ''/v1/agent/register''"
    and json: "\<And>i t. rt_json_parse (en_runtime en) (rt_json_text (en_runtime en) (registered i t)) = Some (registered i t)"
      "\<And>i t. rt_json_text (en_runtime en) (registered i t) \<noteq> []"
  shows "\<exists>w' e. \<forall>events. connector_start en net events c w = (w', Inl e)"
proof -
  have no_token: "gc_token (cn_gateway c1) = None"
    if "register_connector en net (c\<lparr>cn_tools := names\<rparr>) w3 = (w4, Inr c1)" for names w3 w4 c1
  proof -
    from that obtain g where "snd (client_register en net names (cn_gateway c) w3) = Inr g" "c1 = c\<lparr>cn_tools := names, cn_gateway := g\<rparr>"
      by (auto simp: register_connector_def net_then_def split: sum.splits)
    with register_meets_no_token [OF served path json] show ?thesis by simp
  qed
  show ?thesis
    unfolding connector_start_def
    by (rule net_then_fails)+ (auto dest: no_token)
qed

text \<open>
  An example: JSON texts are the agent id and the token one after the other, any other value is printed as \<open>v\<close>, and
  what is no registration parses as an object that names the agent and an empty list of tools.
\<close>

fun tagged :: "string \<Rightarrow> string" where
  "tagged [] = '';''"
| "tagged (c # s) = CHR ''.'' # c # tagged s"

fun untagged :: "string \<Rightarrow> string \<times> string" where
  "untagged (d # c # s) = (if d = CHR '';'' then ([], c # s) else (case untagged s of (a, b) \<Rightarrow> (c # a, b)))"
| "untagged s = ([], [])"

lemma untagged_tagged: "untagged (tagged i @ t) = (i, t)"
  by (induction i) (cases t; simp)+

definition connector_example_runtime :: runtime where
  "connector_example_runtime = null_runtime
     \<lparr>rt_json_text := \<lambda>v. if field v ''agent_token'' = None then ''v''
        else tagged (str_of (field v ''agent_id'')) @ str_of (field v ''agent_token''),
      rt_json_parse := \<lambda>s. if s = ''v''
        then Some (JObj [(''agent_id'', JStr ''agent''), (''result'', JObj [(''tools'', JArr [])])])
        else (case untagged s of (i, t) \<Rightarrow> Some (registered i t))\<rparr>"

definition example_engine :: engine where
  "example_engine = \<lparr>en_runtime = connector_example_runtime, en_text = (\<lambda>k. k), en_message = (\<lambda>k. k), en_bound = (\<lambda>v. 0)\<rparr>"

definition example_agent_env :: agent_env where
  "example_agent_env =
     \<lparr>ae_now = 0, ae_now_lock = 0, ae_now_due = 0, ae_token = ''secret'', ae_row_id = (\<lambda>v. Some (int_of (Some v)))\<rparr>"

definition example_network :: "agent_state network" where
  "example_network call st =
     (if ht_url call = ''http://hp/v1/agent/register''
      then (case handle_agent_direct_request connector_example_runtime example_agent_env
                   (request_at (example_url ''/v1/agent/register'') call) st of
              (st', res) \<Rightarrow> (st', answer_of connector_example_runtime res))
      else (st, Replied 200 (Inr ''v'')))"

lemma tagged_not_v: "tagged i @ t \<noteq> ''v''" "tagged i \<noteq> []"
  by (cases i; simp)+

lemma connector_never_starts_witness:
  "\<exists>w' e. \<forall>events. connector_start example_engine example_network events
     (new_connector ''http://hp/'' ''agent'' ''http://tools'' None None) \<lparr>as_presence = [], as_tokens = [], as_tasks = [], as_results = []\<rparr>
     = (w', Inl e)"
proof (rule connector_never_starts)
  show "served_by_gateway (en_runtime example_engine) example_network
      (gc_base_url (cn_gateway (new_connector ''http://hp/'' ''agent'' ''http://tools'' None None)) @ ''/v1/agent/register'')
      (example_url ''/v1/agent/register'')"
    unfolding served_by_gateway_def
    by (intro allI impI exI [of _ example_agent_env])
      (auto simp: example_network_def example_engine_def new_connector_def new_gateway_client_def strip_slash_def ends_with_def
        split: prod.splits, metis snd_conv)
qed (simp_all add: example_engine_def connector_example_runtime_def registered_def tagged_not_v untagged_tagged)

section \<open>The polling agent and its session\<close>

definition claim_call :: "runtime \<Rightarrow> polling_config \<Rightarrow> json \<Rightarrow> http_call" where
  "claim_call rt cfg session = agent_api_call rt cfg ''/v1/agent/claim'' claim_body (polling_headers cfg session)"

text \<open>
  With a session, a poll that gets no task, be it because the session is unknown, ends like one that found the queue
  empty: the same call goes out for ever, and there is no new registration.
\<close>

lemma polling_agent_never_registers_again:
  assumes refused: "\<And>w. \<exists>status data. api_answer (en_runtime en) (snd (net (claim_call (en_runtime en) cfg session) w)) = Inr (status, data)
      \<and> \<not> json_truthy (field data ''task'')"
  shows "\<exists>w' replies. polling_run en (logged net) cfg n (Some session) (w, log) = ((w', log @ replies), Some session)
    \<and> map fst replies = replicate n (claim_call (en_runtime en) cfg session)"
proof (induction n arbitrary: w log)
  case (Suc n)
  let ?call = "claim_call (en_runtime en) cfg session"
  obtain w1 reply where reply: "net ?call w = (w1, reply)" by fastforce
  with refused [of w] obtain status data where answer: "api_answer (en_runtime en) reply = Inr (status, data)"
    "\<not> json_truthy (field data ''task'')" by auto
  have "polling_poll en (logged net) cfg (Some session) (w, log) = ((w1, log @ [(?call, reply)]), Some session, Inr ())"
    using reply answer
    by (simp add: polling_poll_def polling_session_def agent_api_def claim_call_def [symmetric] logged_def)
  with Suc.IH [of w1 "log @ [(?call, reply)]"] show ?case by fastforce
qed simp

text \<open>A proxied claim of the polling agent has a session but no token of the session, which the broker asks for.\<close>

lemma polling_claim_has_no_worker_token:
  "map_of (forward_headers (request_at u (claim_call rt cfg session))) ''x-worker-token'' = None"
proof -
  have "header (request_at u (claim_call rt cfg session)) ''x-worker-token'' = None"
    by (simp add: header_def request_at_def claim_call_def agent_api_call_def polling_headers_def to_lower_def
        lower_char_def between_def)
  then have "''x-worker-token'' \<notin> fst ` set (forward_headers (request_at u (claim_call rt cfg session)))"
    by (auto simp: forward_headers_def split: option.splits)
  then show ?thesis by (simp add: map_of_eq_None_iff)
qed

section \<open>The connector before the sample tool server\<close>

definition sandbox_network :: "sandbox_env \<Rightarrow> 'w network" where
  "sandbox_network sb call w =
     (w, reply_of (sb_runtime sb) (sandbox_fetch sb (ht_method call) (case ht_body call of None \<Rightarrow> [] | Some b \<Rightarrow> b)))"

definition echo_request :: "string \<Rightarrow> json" where
  "echo_request s =
     JObj [(''jsonrpc'', JStr ''2.0''), (''id'', JInt 3), (''method'', JStr ''tools/call''),
       (''params'', JObj [(''name'', JStr ''echo''), (''arguments'', JObj [(''teks'', JStr s)])])]"

definition echo_reply :: "string \<Rightarrow> json" where
  "echo_reply s = JObj [(''jsonrpc'', JStr ''2.0''), (''id'', JInt 3), (''result'', sandbox_text s)]"

lemma sandbox_echo:
  assumes "rt_json_parse (sb_runtime sb) b = Some (echo_request s)"
  shows "sandbox_fetch sb ''POST'' b = plain_json (echo_reply s) 200"
  using assms
  by (simp add: sandbox_fetch_def echo_request_def echo_reply_def maybe_prop_def nullish_def sandbox_call_def sandbox_result_def)

text \<open>A call of the echo tool gives back the text, as far as JSON texts read back what was printed.\<close>

lemma echo_round_trip:
  assumes "sb_runtime sb = en_runtime en"
    and "rt_json_parse (en_runtime en) (rt_json_text (en_runtime en) (echo_request s)) = Some (echo_request s)"
    and "rt_json_parse (en_runtime en) (rt_json_text (en_runtime en) (echo_reply s)) = Some (echo_reply s)"
  shows "mcp_call_tool en (sandbox_network sb) url (Some (JStr ''echo'')) (JObj [(''teks'', JStr s)]) w = (w, Inr s)"
proof -
  have "ht_body (mcp_http_call (en_runtime en) url ''tools/call'' (call_params (Some (JStr ''echo'')) (JObj [(''teks'', JStr s)])) 3)
      = Some (rt_json_text (en_runtime en) (echo_request s))"
    by (simp add: mcp_http_call_def call_params_def opt_pair_def echo_request_def)
  moreover have "ht_method (mcp_http_call (en_runtime en) url ''tools/call'' p 3) = ''POST''" for p
    by (simp add: mcp_http_call_def)
  ultimately have "mcp_client_request en (sandbox_network sb) url ''tools/call''
      (call_params (Some (JStr ''echo'')) (JObj [(''teks'', JStr s)])) 3 w = (w, Inr (Some (sandbox_text s)))"
    using assms
    by (simp add: mcp_client_request_def sandbox_network_def sandbox_echo reply_of_def body_text_def mcp_answer_def
        http_ok_def prop_of_def echo_reply_def [of s])
  then show ?thesis
    by (simp add: mcp_call_tool_def tool_outcome_def prop_of_def maybe_prop_def sandbox_text_def or_else_def)
qed

text \<open>What reaches the evaluation of an expression is a short text of arithmetic characters.\<close>

lemma hitung_evaluates_arithmetic_only:
  assumes "\<And>e. e \<noteq> [] \<Longrightarrow> length e \<le> 200 \<Longrightarrow> list_all is_arithmetic e \<Longrightarrow> sb_eval sb e = sb_eval sb' e"
  shows "hitung_aman sb s = hitung_aman sb' s"
proof -
  have "set (trim s) \<subseteq> set s"
    by (auto simp: trim_def dest!: set_dropWhileD)
  then have "list_all is_arithmetic (trim s)" if "rx_plus is_arithmetic s"
    using that by (auto simp: rx_plus_def list_all_iff)
  then show ?thesis using assms [of "trim s"] by (auto simp: hitung_aman_def Let_def)
qed

end
