(* ===== verification/Spec2Isabelle.thy ===== *)
theory Spec2Isabelle
  imports Capabilities Sessions Access Agents OAuthFlow PendingStore CodeStore CimdNetwork Cimd OAuthApi
    Admission CanonicalJson Tasks ResultRefs WorkflowTrace WorkflowOutputs WorkflowApi ConfigLoad Processes
    Metadata Filesystem FilesystemMutation Git Catalogue Router Mcp McpServer CimdCurl
    JsCoercion Worker WorkerHandlers Connector
begin

text \<open>
  The TypeScript gateway of Task-que-que (\<open>src/gateway/src\<close>) and its workers
  (\<open>src/workers\<close>). A client reaches the gateway over HTTP: \<open>router.ts\<close> hands a request to
  one handler after the other; the OAuth endpoints issue capability sessions, the capability gate
  checks them and replaces them by the root credential, and the task and workflow endpoints pass
  work on to a queue daemon on loopback. Workers take tasks from the daemon; the workflow worker runs a
  workflow by submitting its steps to the gateway in the order of their dependencies.

  Conventions. A string is a list of characters, one per code unit, all in the Latin-1 range. \<open>Request\<close> and
  \<open>Response\<close> are records with the headers as an association list; JSON values are a \<open>datatype\<close>. What
  the code takes from the platform is a field of the record \<open>runtime\<close> of \<open>Prelude\<close> (URL parsing, JSON,
  SHA-256, HMAC, UTF-8 decoding, \<open>Number\<close> on text) and is an argument of the definitions that use it. The
  clock, random identifiers, the answers of \<open>fetch\<close> and the file system are arguments as well. What is
  thrown or answered as an error is the left part of a sum, and an answer \<open>None\<close> of a handler passes the
  request to the next one. Concurrent \<open>await\<close>s of one handler are taken from left to right.

  Gateway, authority:
  \<^item> \<open>Capabilities\<close>: \<open>registry.ts\<close>, \<open>capabilities.ts\<close>, \<open>oauth-scope-grant.ts\<close>: both registries, the evaluation
    of a grant and the grant derived from OAuth scopes; the derived grant allows exactly the
    descriptors whose scopes it was given.
  \<^item> \<open>Sessions\<close>: \<open>capability-auth.ts\<close>, \<open>capability-session-api.ts\<close>: signed session tokens; what verifies was
    signed, and what is issued verifies; which authority a request has, on every branch.
  \<^item> \<open>Access\<close>: \<open>capability-access.ts\<close>: the gate, its table compared with the registry, and what it lets through.

  Gateway, OAuth:
  \<^item> \<open>OAuthValidation\<close>: the validation of authorization and token requests and the redirect responses, with the
    accepted requests characterised exactly.
  \<^item> \<open>TtlStore\<close>: a locale for stores whose entries expire and are consumed once; \<open>PendingStore\<close> and \<open>CodeStore\<close>
    (\<open>oauth-pending-consent-store.ts\<close>, \<open>oauth-authorization-code-store.ts\<close>) interpret it, which gives the
    counting invariants over all runs.
  \<^item> \<open>CimdNetwork\<close>, \<open>Cimd\<close>: the discovery of client metadata documents and the addresses it may connect to.
  \<^item> \<open>CimdCurl\<close>: \<open>oauth-cimd-curl-transport.ts\<close>, \<open>oauth-cimd-curl-runtime.ts\<close>: the calls of curl that fetch such a
    document, each pinned to one public address.
  \<^item> \<open>OAuthApi\<close>, \<open>OAuthFlow\<close>: the three endpoints over the stores, and the theorem on their composition: no token
    without the operator's approval.

  Gateway, tasks and workflows:
  \<^item> \<open>Doubles\<close>: the rounding of a rational number to the nearest double, with the error of one rounding.
    \<open>Admission\<close>: the token bucket of \<open>admission.ts\<close>, rounded after each operation; the rate it keeps in any window, up to
    the rounding, and an example in which the rounding admits one task more.
  \<^item> \<open>CanonicalJson\<close>, \<open>Decimal\<close>, \<open>Tasks\<close>: \<open>app.ts\<close>: the text that is fingerprinted and the task endpoints.
  \<^item> \<open>WorkflowApi\<close>: \<open>workflows.ts\<close>, \<open>workflow-results.ts\<close>: workflows as tasks, and the projection of their results.
  \<^item> \<open>Agents\<close>: \<open>agent-direct.ts\<close>, \<open>agent-proxy.ts\<close>: registration, polling with leases and result reports of remote
    agents, with two properties that show defects.

  Gateway, configuration and processes:
  \<^item> \<open>Config\<close>, \<open>ConfigLoad\<close>: \<open>config.ts\<close>, \<open>oauth-public-client-policy.ts\<close>: what loads, with \<open>posix.relative\<close> and
    \<open>posix.normalize\<close> modelled on segments.
  \<^item> \<open>Processes\<close>: \<open>process-substrate.ts\<close>, \<open>process-api.ts\<close>: the registry of fixed commands and their runs, a run
    being a fold over the events of the child.
  \<^item> \<open>Filesystem\<close>: \<open>filesystem-api.ts\<close> over a host file system that is a parameter: nothing outside the root is
    disclosed. \<open>FilesystemMutation\<close>: \<open>filesystem-mutation-api.ts\<close> around the mutation helper: what the helper is
    told, and that the answer claims only what the helper has proved.
  \<^item> \<open>Git\<close>: \<open>git-api.ts\<close>: the calls of git, their bounded output and its parsers.

  Gateway, the whole:
  \<^item> \<open>Metadata\<close>: \<open>oauth-authorization-server-metadata.ts\<close>, \<open>oauth-resource-metadata.ts\<close>, \<open>public-surface.ts\<close>.
  \<^item> \<open>Catalogue\<close>: \<open>capability-availability.ts\<close>, \<open>capability-api.ts\<close>: the catalogue agrees with the gate.
  \<^item> \<open>Router\<close>: \<open>router.ts\<close>: the chain of all handlers over the state of the gateway; a guarded route runs its one
    operation under a grant, or nothing.
  \<^item> \<open>Mcp\<close>: \<open>mcp.ts\<close>: the JSON-RPC endpoint, the tools that a grant and the live providers give, and the call of
    a tool as one request to the gateway's own routes; every such request passes the gate.
  \<^item> \<open>McpServer\<close>: \<open>mcp-process.ts\<close>, \<open>mcp-oauth.ts\<close>, \<open>server.ts\<close>: the two wrappers around that endpoint, the checks
    at the start and the service of one request; a request that changes state needs a grant, over HTTP
    and over MCP.

  Workers:
  \<^item> \<open>Worker\<close>: \<open>document-bun/src/worker.ts\<close>, \<open>registry.ts\<close>: the loop of every worker. A claimed task is a machine over the
    events of its heartbeats, its handler and its report, which is awaited; each lease is reported at most once, and
    never after it is lost.
  \<^item> \<open>WorkerHandlers\<close>: the hash, document, vector and remote agent handlers.

  Remote agents:
  \<^item> \<open>Connector\<close>: \<open>connectors/javascript/src\<close>, \<open>agents/reference\<close>: the client library, the polling agent and the sample
    tool server, over any network; what a task makes an agent call and report, from the replies it gets, and that library
    and gateway do not fit.

  Workflow worker:
  \<^item> \<open>ResultRefs\<close>: \<open>result-reference.ts\<close>: references to the results of earlier steps; resolution is substitution.
  \<^item> \<open>WorkflowDef\<close>: the parser of \<open>workflow-handler.ts\<close>; its cycle check decides acyclicity.
  \<^item> \<open>WorkflowExec\<close>: the execution, over a gateway that is a function of the calls made so far and a list of clock
    readings, one per round; \<open>WorkflowTrace\<close>: the order of the children, the outcome, the refinement of an
    abstract schedule and the bound on the rounds. A run with too few readings has no outcome; that
    \<open>maxRunMs / pollMs\<close> and two more are enough is a theorem.
  \<^item> \<open>WorkflowOutputs\<close>: \<open>declared-outputs.ts\<close>, the write of the result and \<open>worker.ts\<close>.

  Not modelled: the timers that abort a \<open>fetch\<close> (an abort is a failure of the call, which the parameter can
  give), the log lines, the sleeps of the loops, polls of
  the polling agent that overlap, and the components that the manifest lists as such (the handlers of a worker
  template that is not in the repository, and the Rust programs).
\<close>

end
